(* ===== verification/Prelude.thy ===== *)
theory Prelude
  imports Main
begin

text \<open>
  Shared vocabulary of the development: the values a Go call can end in (a result, an
  error value, a run-time panic), the sentinel errors the agent compares by identity, and
  generic facts on lists, options and folds that the component theories share.

  \<^item> \<open>go_error\<close> is the type of Go's \<open>error\<close> values that the agent creates or inspects.
    Sentinels (\<open>errServerCancel\<close>, \<open>io.EOF\<close>, ...) are constructors, so Go's comparison by
    identity is equality of constructors; \<open>ErrWrap\<close> is \<open>fmt.Errorf\<close> with \<open>%w\<close>, \<open>ErrMsg\<close> is
    \<open>errors.New\<close> or \<open>fmt.Errorf\<close> without \<open>%w\<close>, \<open>ErrStatus\<close> is a gRPC status error.
  \<^item> \<open>outcome\<close> adds the run-time panic (a nil dereference, an index out of range): \<open>Panic\<close>.
\<close>

named_theorems go_simps \<open>unfolding rules for the Go library functions\<close>

section \<open>Errors, results, panics\<close>

text \<open>gRPC status codes (google.golang.org/grpc/codes), as the agent inspects them.\<close>

datatype rpc_code =
    OK | Canceled | Unknown | InvalidArgument | DeadlineExceeded | NotFound | AlreadyExists
  | PermissionDenied | ResourceExhausted | FailedPrecondition | Aborted | OutOfRange
  | Unimplemented | Internal | Unavailable | DataLoss | Unauthenticated

datatype go_error =
    ErrServerCancel
  | ErrServiceNotEnabled
  | ErrResourceExhausted
  | ErrEOF
  | ErrNotExist string
  | ErrNotDefined string
  | ErrStatus rpc_code string
  | ErrExit int string
  | ErrMsg string
  | ErrWrap string go_error

fun err_text :: "go_error \<Rightarrow> string" where
  "err_text ErrServerCancel = ''task canceled by server''"
| "err_text ErrServiceNotEnabled = ''service is not enabled for this project''"
| "err_text ErrResourceExhausted = ''ResourceExhausted''"
| "err_text ErrEOF = ''EOF''"
| "err_text (ErrNotExist p) = ''open '' @ p @ '': no such file or directory''"
| "err_text (ErrNotDefined s) = ''metadata: GCE metadata '' @ s @ '' not defined''"
| "err_text (ErrStatus c m) = m"
| "err_text (ErrExit c m) = m"
| "err_text (ErrMsg m) = m"
| "err_text (ErrWrap m e) = m @ '': '' @ err_text e"

text \<open>\<open>errors.Is\<close> and \<open>errors.As\<close> follow the chain of wrapped errors.\<close>

fun err_root :: "go_error \<Rightarrow> go_error" where
  "err_root (ErrWrap _ e) = err_root e"
| "err_root e = e"

definition is_not_defined :: "go_error \<Rightarrow> bool" where
  "is_not_defined e = (case err_root e of ErrNotDefined _ \<Rightarrow> True | _ \<Rightarrow> False)"

text \<open>\<open>status.FromError\<close>: the status inside an error, following wrapped errors.\<close>

definition status_of :: "go_error \<Rightarrow> (rpc_code \<times> string) option" where
  "status_of e = (case err_root e of ErrStatus c m \<Rightarrow> Some (c, m) | _ \<Rightarrow> None)"

lemma err_root_not_wrap [simp]: "err_root e \<noteq> ErrWrap m e'"
  by (induction e rule: err_root.induct) auto

lemma err_root_idem [simp]: "err_root (err_root e) = err_root e"
  by (induction e rule: err_root.induct) auto

datatype 'a outcome = Done 'a | Panic string

fun obind :: "'a outcome \<Rightarrow> ('a \<Rightarrow> 'b outcome) \<Rightarrow> 'b outcome" where
  "obind (Done x) f = f x"
| "obind (Panic p) f = Panic p"

fun is_panic :: "'a outcome \<Rightarrow> bool" where
  "is_panic (Done _) = False"
| "is_panic (Panic _) = True"

lemma obind_Done_iff: "obind m f = Done y \<longleftrightarrow> (\<exists>x. m = Done x \<and> f x = Done y)"
  by (cases m) auto

lemma obind_panic_iff: "is_panic (obind m f) \<longleftrightarrow> is_panic m \<or> (\<exists>x. m = Done x \<and> is_panic (f x))"
  by (cases m) auto

lemma not_panicE: "\<not> is_panic m \<Longrightarrow> (\<And>x. m = Done x \<Longrightarrow> P) \<Longrightarrow> P"
  by (cases m) auto

type_synonym 'a res = "go_error + 'a"

fun is_err :: "'a res \<Rightarrow> bool" where
  "is_err (Inl _) = True"
| "is_err (Inr _) = False"

section \<open>Lists and options\<close>

lemma nth_list_update_if:
  "i < length xs \<Longrightarrow> (xs[i := x]) ! j = (if j = i then x else xs ! j)"
  by (cases "j = i") auto

lemma list_all2_update_right:
  assumes "list_all2 P xs ys" and "i < length xs \<Longrightarrow> P (xs ! i) y"
  shows "list_all2 P xs (ys[i := y])"
proof (cases "i < length xs")
  case True
  with assms show ?thesis by (auto simp: list_all2_conv_all_nth nth_list_update)
next
  case False
  with assms(1) show ?thesis by (auto simp: list_all2_conv_all_nth list_update_beyond)
qed

lemma list_all_update:
  "list_all P xs \<Longrightarrow> (i < length xs \<Longrightarrow> P y) \<Longrightarrow> list_all P (xs[i := y])"
  by (cases "i < length xs") (auto simp: list_all_length nth_list_update list_update_beyond)

lemma map_update_same: "(i < length xs \<Longrightarrow> f y = f (xs ! i)) \<Longrightarrow> map f (xs[i := y]) = map f xs"
  by (cases "i < length xs") (auto simp: map_update list_update_beyond list_update_same_conv)

lemma foldl_invariant:
  assumes "P s" and "\<And>s x. x \<in> set xs \<Longrightarrow> P s \<Longrightarrow> P (f s x)"
  shows "P (foldl f s xs)"
  using assms by (induction xs arbitrary: s) auto

lemma filter_partition_length: "length (filter P xs) + length (filter (\<lambda>x. \<not> P x) xs) = length xs"
  by (induction xs) auto

end
