(* ===== verification/GoLib.thy ===== *)
theory GoLib
  imports Prelude
begin

text \<open>
  The part of Go's standard library the agent's pure code relies on: packages
  \<open>strings\<close>/\<open>bytes\<close>, \<open>strconv\<close> and the \<open>%q\<close> verb of \<open>fmt\<close>. A Go string is a byte
  sequence, here a \<open>char list\<close>; \<open>len\<close> is \<open>length\<close>. White space and letter case are the
  ASCII ones (Unicode spaces beyond ASCII, which take several bytes, are ordinary bytes
  here). The second half holds the round-trip facts the parsers rest on.
\<close>

section \<open>Package strings\<close>

definition has_prefix :: "string \<Rightarrow> string \<Rightarrow> bool" where
  "has_prefix s p = (take (length p) s = p)"

definition has_suffix :: "string \<Rightarrow> string \<Rightarrow> bool" where
  "has_suffix s p = (length p \<le> length s \<and> drop (length s - length p) s = p)"

text \<open>\<open>strings.Split\<close> with a separator of one byte.\<close>

fun split_on :: "char \<Rightarrow> string \<Rightarrow> string list" where
  "split_on c [] = [[]]"
| "split_on c (x # xs) =
     (if x = c then [] # split_on c xs
      else (case split_on c xs of [] \<Rightarrow> [[x]] | y # ys \<Rightarrow> (x # y) # ys))"

fun join :: "string \<Rightarrow> string list \<Rightarrow> string" where
  "join sep [] = []"
| "join sep [x] = x"
| "join sep (x # y # xs) = x @ sep @ join sep (y # xs)"

definition is_space :: "char \<Rightarrow> bool" where
  "is_space c = (c \<in> {CHR '' '', CHR 0x09, CHR 0x0A, CHR 0x0B, CHR 0x0C, CHR 0x0D})"

text \<open>\<open>strings.Trim\<close>, \<open>TrimLeft\<close>, \<open>TrimRight\<close>: drop the bytes of a cut set at the ends.\<close>

definition trim_left :: "(char \<Rightarrow> bool) \<Rightarrow> string \<Rightarrow> string" where
  "trim_left P s = dropWhile P s"

definition trim_right :: "(char \<Rightarrow> bool) \<Rightarrow> string \<Rightarrow> string" where
  "trim_right P s = rev (dropWhile P (rev s))"

definition trim_by :: "(char \<Rightarrow> bool) \<Rightarrow> string \<Rightarrow> string" where
  "trim_by P s = trim_right P (trim_left P s)"

definition trim :: "string \<Rightarrow> string \<Rightarrow> string" where
  "trim cutset s = trim_by (\<lambda>c. c \<in> set cutset) s"

definition trim_space :: "string \<Rightarrow> string" where
  "trim_space s = trim_by is_space s"

definition trim_prefix :: "string \<Rightarrow> string \<Rightarrow> string" where
  "trim_prefix p s = (if has_prefix s p then drop (length p) s else s)"

text \<open>\<open>strings.Fields\<close>: the maximal runs of non-space bytes.\<close>

fun fields_acc :: "string \<Rightarrow> string \<Rightarrow> string list" where
  "fields_acc cur [] = (if cur = [] then [] else [rev cur])"
| "fields_acc cur (c # cs) =
     (if is_space c then (if cur = [] then fields_acc [] cs else rev cur # fields_acc [] cs)
      else fields_acc (c # cur) cs)"

definition str_fields :: "string \<Rightarrow> string list" where
  "str_fields s = fields_acc [] s"

text \<open>\<open>strings.Index\<close> (\<open>None\<close> for -1) and \<open>strings.Contains\<close>.\<close>

fun index_of :: "string \<Rightarrow> string \<Rightarrow> nat option" where
  "index_of p [] = (if p = [] then Some 0 else None)"
| "index_of p (c # cs) =
     (if has_prefix (c # cs) p then Some 0 else map_option Suc (index_of p cs))"

definition contains_str :: "string \<Rightarrow> string \<Rightarrow> bool" where
  "contains_str s p = (index_of p s \<noteq> None)"

text \<open>\<open>strings.LastIndex\<close> for one byte.\<close>

fun last_index_char :: "char \<Rightarrow> string \<Rightarrow> nat option" where
  "last_index_char c [] = None"
| "last_index_char c (x # xs) =
     (case last_index_char c xs of Some i \<Rightarrow> Some (Suc i) | None \<Rightarrow> if x = c then Some 0 else None)"

text \<open>
  \<open>strings.ReplaceAll\<close> with a non-empty \<open>old\<close>: one pass from the left, without looking
  again at what it wrote. \<open>strings.Replace\<close> with count 1 is \<open>replace_first\<close>.
\<close>

function replace_all :: "string \<Rightarrow> string \<Rightarrow> string \<Rightarrow> string" where
  "replace_all old new [] = []"
| "replace_all old new (c # cs) =
     (if old \<noteq> [] \<and> has_prefix (c # cs) old
      then new @ replace_all old new (drop (length old) (c # cs))
      else c # replace_all old new cs)"
  by pat_completeness auto
termination
  by (relation "measure (\<lambda>(old, new, s). length s)") auto

fun replace_first :: "string \<Rightarrow> string \<Rightarrow> string \<Rightarrow> string" where
  "replace_first old new [] = []"
| "replace_first old new (c # cs) =
     (if old \<noteq> [] \<and> has_prefix (c # cs) old then new @ drop (length old) (c # cs)
      else c # replace_first old new cs)"

definition lower_char :: "char \<Rightarrow> char" where
  "lower_char c = (let n = of_char c :: nat in if 65 \<le> n \<and> n \<le> 90 then char_of (n + 32) else c)"

definition to_lower :: "string \<Rightarrow> string" where
  "to_lower s = map lower_char s"

definition equal_fold :: "string \<Rightarrow> string \<Rightarrow> bool" where
  "equal_fold s t = (to_lower s = to_lower t)"

section \<open>Package strconv\<close>

definition digit_char :: "nat \<Rightarrow> char" where
  "digit_char d = char_of (48 + d)"

definition digit_val :: "char \<Rightarrow> nat option" where
  "digit_val c = (let n = of_char c :: nat in if 48 \<le> n \<and> n \<le> 57 then Some (n - 48) else None)"

fun show_nat :: "nat \<Rightarrow> string" where
  "show_nat n = (if n < 10 then [digit_char n] else show_nat (n div 10) @ [digit_char (n mod 10)])"

declare show_nat.simps [simp del]

definition show_int :: "int \<Rightarrow> string" where
  "show_int i = (if i < 0 then ''-'' @ show_nat (nat (- i)) else show_nat (nat i))"

text \<open>The digits of a number to a base of at most ten, \<open>None\<close> on any other byte.\<close>

fun digits_value :: "nat \<Rightarrow> nat \<Rightarrow> string \<Rightarrow> nat option" where
  "digits_value base acc [] = Some acc"
| "digits_value base acc (c # cs) =
     (case digit_val c of None \<Rightarrow> None
      | Some d \<Rightarrow> if d < base then digits_value base (acc * base + d) cs else None)"

text \<open>\<open>strconv.ParseUint\<close> with an explicit base: no sign, no empty string, a bit bound.\<close>

definition parse_uint :: "nat \<Rightarrow> nat \<Rightarrow> string \<Rightarrow> nat option" where
  "parse_uint base bits s =
     (if s = [] then None
      else case digits_value base 0 s of None \<Rightarrow> None
           | Some n \<Rightarrow> if n < 2 ^ bits then Some n else None)"

text \<open>\<open>strconv.ParseInt\<close>: an optional sign, then \<open>ParseUint\<close>, then the signed bound.\<close>

definition parse_int :: "nat \<Rightarrow> nat \<Rightarrow> string \<Rightarrow> int option" where
  "parse_int base bits s =
     (case s of [] \<Rightarrow> None
      | c # cs \<Rightarrow>
         (let neg = (c = CHR ''-''); ds = (if c = CHR ''-'' \<or> c = CHR ''+'' then cs else s)
          in case parse_uint base bits ds of None \<Rightarrow> None
             | Some n \<Rightarrow>
                 if \<not> neg \<and> 2 ^ (bits - 1) \<le> n then None
                 else if neg \<and> 2 ^ (bits - 1) < n then None
                 else Some (if neg then - int n else int n)))"

text \<open>\<open>strconv.ParseBool\<close>.\<close>

definition parse_bool :: "string \<Rightarrow> bool option" where
  "parse_bool s =
     (if s \<in> {''1'', ''t'', ''T'', ''TRUE'', ''true'', ''True''} then Some True
      else if s \<in> {''0'', ''f'', ''F'', ''FALSE'', ''false'', ''False''} then Some False
      else None)"

text \<open>\<open>fmt\<close>'s \<open>%q\<close> (\<open>strconv.Quote\<close>); bytes of \<open>0x80\<close> and above are kept as they are.\<close>

definition hex_digit :: "nat \<Rightarrow> char" where
  "hex_digit d = (if d < 10 then char_of (48 + d) else char_of (87 + d))"

definition quote_char :: "char \<Rightarrow> string" where
  "quote_char c =
     (if c = CHR 0x22 then [CHR 0x5C, CHR 0x22]
      else if c = CHR 0x5C then [CHR 0x5C, CHR 0x5C]
      else if c = CHR 0x07 then [CHR 0x5C, CHR ''a'']
      else if c = CHR 0x08 then [CHR 0x5C, CHR ''b'']
      else if c = CHR 0x0C then [CHR 0x5C, CHR ''f'']
      else if c = CHR 0x0A then [CHR 0x5C, CHR ''n'']
      else if c = CHR 0x0D then [CHR 0x5C, CHR ''r'']
      else if c = CHR 0x09 then [CHR 0x5C, CHR ''t'']
      else if c = CHR 0x0B then [CHR 0x5C, CHR ''v'']
      else (let n = of_char c :: nat in
            if n < 32 \<or> n = 127 then [CHR 0x5C, CHR ''x'', hex_digit (n div 16), hex_digit (n mod 16)]
            else [c]))"

definition quote :: "string \<Rightarrow> string" where
  "quote s = [CHR 0x22] @ concat (map quote_char s) @ [CHR 0x22]"

section \<open>Facts on split, join, trim and fields\<close>

lemma split_on_not_Nil [simp]: "split_on c s \<noteq> []"
  by (cases s) (auto split: list.splits)

lemma split_on_no_sep [simp]: "c \<notin> set s \<Longrightarrow> split_on c s = [s]"
  by (induction s) auto

lemma split_on_append_sep: "c \<notin> set s \<Longrightarrow> split_on c (s @ c # t) = s # split_on c t"
  by (induction s) auto

lemma split_on_join:
  "xs \<noteq> [] \<Longrightarrow> (\<forall>x \<in> set xs. c \<notin> set x) \<Longrightarrow> split_on c (join [c] xs) = xs"
proof (induction "[c]" xs rule: join.induct)
  case (3 x y xs)
  then show ?case using split_on_append_sep [of c x] by simp
qed auto

lemma join_split_on: "join [c] (split_on c s) = s"
proof (induction s)
  case (Cons a s)
  then show ?case
    by (cases "split_on c s" rule: remdups_adj.cases) (auto split: list.splits)
qed simp

lemma split_on_no_sep_parts: "x \<in> set (split_on c s) \<Longrightarrow> c \<notin> set x"
  by (induction s arbitrary: x) (auto split: list.splits if_splits)

lemma join_append:
  "xs \<noteq> [] \<Longrightarrow> ys \<noteq> [] \<Longrightarrow> join sep (xs @ ys) = join sep xs @ sep @ join sep ys"
proof (induction sep xs rule: join.induct)
  case (2 sep x)
  then show ?case by (cases ys) auto
qed auto

lemma dropWhile_id: "(s = [] \<or> \<not> P (hd s)) \<Longrightarrow> dropWhile P s = s"
  by (cases s) auto

lemma hd_dropWhile_not: "dropWhile P s = [] \<or> \<not> P (hd (dropWhile P s))"
  by (induction s) auto

lemma trim_right_id: "(s = [] \<or> \<not> P (last s)) \<Longrightarrow> trim_right P s = s"
  by (cases s rule: rev_cases) (auto simp: trim_right_def)

lemma trim_right_append_all: "\<forall>c \<in> set t. P c \<Longrightarrow> trim_right P (s @ t) = trim_right P s"
  by (simp add: trim_right_def) (subst dropWhile_append2; simp)

lemma trim_by_id: "(s = [] \<or> (\<not> P (hd s) \<and> \<not> P (last s))) \<Longrightarrow> trim_by P s = s"
  by (auto simp: trim_by_def trim_left_def dropWhile_id trim_right_id)

lemma trim_by_no: "\<forall>c \<in> set s. \<not> P c \<Longrightarrow> trim_by P s = s"
  by (cases "s = []") (auto intro!: trim_by_id)

lemma trim_by_pad:
  assumes "\<forall>c \<in> set l. P c" and "\<forall>c \<in> set r. P c" and "s = [] \<or> \<not> P (hd s)" and "s = [] \<or> \<not> P (last s)"
  shows "trim_by P (l @ s @ r) = s"
proof (cases "s = []")
  case True
  have "dropWhile P (l @ r) = []"
    using assms(1,2) by (subst dropWhile_eq_Nil_conv) auto
  with True show ?thesis
    by (simp add: trim_by_def trim_left_def trim_right_def del: dropWhile_eq_Nil_conv)
next
  case False
  with assms have "dropWhile P (l @ s @ r) = s @ r"
    by (cases s) (auto simp: dropWhile_append2)
  with assms False show ?thesis
    by (simp add: trim_by_def trim_left_def trim_right_append_all trim_right_id)
qed

lemma set_trim_by: "set (trim_by P s) \<subseteq> set s"
  by (auto simp: trim_by_def trim_left_def trim_right_def dest!: set_dropWhileD)

lemma trim_by_ends: "trim_by P s = [] \<or> (\<not> P (hd (trim_by P s)) \<and> \<not> P (last (trim_by P s)))"
proof -
  define t where "t = dropWhile P s"
  have t: "t = [] \<or> \<not> P (hd t)" unfolding t_def by (rule hd_dropWhile_not)
  obtain u where u: "t = rev (dropWhile P (rev t)) @ u" and allu: "\<forall>c \<in> set u. P c"
  proof
    show "t = rev (dropWhile P (rev t)) @ rev (takeWhile P (rev t))"
      by (metis rev_append rev_rev_ident takeWhile_dropWhile_id)
    show "\<forall>c \<in> set (rev (takeWhile P (rev t))). P c" by (auto dest: set_takeWhileD)
  qed
  define r where "r = rev (dropWhile P (rev t))"
  have l: "r = [] \<or> \<not> P (last r)"
    using hd_dropWhile_not [of P "rev t"] by (auto simp: r_def last_rev)
  have h: "r = [] \<or> \<not> P (hd r)"
    using t u unfolding r_def [symmetric] by (cases r) auto
  have "trim_by P s = r" by (simp add: trim_by_def trim_left_def trim_right_def r_def t_def)
  with l h show ?thesis by auto
qed

lemma trim_by_idem [simp]: "trim_by P (trim_by P s) = trim_by P s"
  using trim_by_ends [of P s] by (intro trim_by_id) auto

lemma trim_space_idem [simp]: "trim_space (trim_space s) = trim_space s"
  by (simp add: trim_space_def)

lemma fields_acc_word:
  "\<forall>c \<in> set w. \<not> is_space c \<Longrightarrow> fields_acc cur (w @ s) = fields_acc (rev w @ cur) s"
  by (induction w arbitrary: cur) auto

lemma fields_word: "\<forall>c \<in> set w. \<not> is_space c \<Longrightarrow> w \<noteq> [] \<Longrightarrow> str_fields w = [w]"
  using fields_acc_word [of w "[]" "[]"] by (simp add: str_fields_def)

lemma fields_word_space:
  "\<forall>c \<in> set w. \<not> is_space c \<Longrightarrow> w \<noteq> [] \<Longrightarrow> is_space c \<Longrightarrow> str_fields (w @ c # s) = w # str_fields s"
  using fields_acc_word [of w "[]" "c # s"] by (simp add: str_fields_def)

lemma fields_space [simp]: "is_space c \<Longrightarrow> str_fields (c # s) = str_fields s"
  by (simp add: str_fields_def)

definition is_word :: "string \<Rightarrow> bool" where
  "is_word w = (w \<noteq> [] \<and> (\<forall>c \<in> set w. \<not> is_space c))"

lemma fields_join: "\<forall>w \<in> set ws. is_word w \<Longrightarrow> str_fields (join '' '' ws) = ws"
proof (induction "'' ''" ws rule: join.induct)
  case (3 x y xs)
  then show ?case
    using fields_word_space [of x "CHR '' ''" "join '' '' (y # xs)"]
    by (simp add: is_word_def is_space_def)
next
  case 1
  show ?case by (simp add: str_fields_def)
next
  case (2 x)
  then show ?case by (simp add: is_word_def fields_word)
qed

lemma fields_acc_words:
  "\<forall>c \<in> set cur. \<not> is_space c \<Longrightarrow> w \<in> set (fields_acc cur s) \<Longrightarrow> is_word w"
proof (induction cur s arbitrary: w rule: fields_acc.induct)
  case (1 cur)
  then show ?case by (simp add: is_word_def split: if_splits)
next
  case (2 cur c cs)
  show ?case
  proof (cases "is_space c")
    case True
    with "2.prems" have "w \<in> set (fields_acc [] cs) \<or> (w = rev cur \<and> cur \<noteq> [])"
      by (auto split: if_splits)
    with "2.IH"(1,2) [of w] "2.prems"(1) True show ?thesis by (auto simp: is_word_def)
  next
    case False
    with "2.IH"(3) [of w] "2.prems" show ?thesis by simp
  qed
qed

lemma fields_words: "w \<in> set (str_fields s) \<Longrightarrow> is_word w"
  using fields_acc_words [of "[]" w s] by (simp add: str_fields_def)

section \<open>Facts on numbers\<close>

lemma digit_val_digit_char: "d < 10 \<Longrightarrow> digit_val (digit_char d) = Some d"
  by (simp add: digit_val_def digit_char_def)

lemma show_nat_not_Nil [simp]: "show_nat n \<noteq> []"
  by (subst show_nat.simps) simp

lemma digits_value_append:
  "digits_value b acc (s @ t) = (case digits_value b acc s of None \<Rightarrow> None | Some a \<Rightarrow> digits_value b a t)"
  by (induction s arbitrary: acc) (auto split: option.splits)

lemma digits_value_show: "digits_value 10 0 (show_nat n) = Some n"
proof (induction n rule: show_nat.induct)
  case (1 n)
  then show ?case
    by (subst show_nat.simps) (auto simp: digits_value_append digit_val_digit_char)
qed

lemma parse_uint_show: "n < 2 ^ bits \<Longrightarrow> parse_uint 10 bits (show_nat n) = Some n"
  by (simp add: parse_uint_def digits_value_show)

lemma parse_uint_bound: "parse_uint b bits s = Some n \<Longrightarrow> n < 2 ^ bits"
  by (auto simp: parse_uint_def split: if_splits option.splits)

lemma show_nat_digits: "c \<in> set (show_nat n) \<Longrightarrow> \<exists>d < 10. c = digit_char d"
  by (induction n rule: show_nat.induct) (subst (asm) (2) show_nat.simps, force split: if_splits)

lemma digit_char_neq: "d < 10 \<Longrightarrow> digit_char d \<notin> {CHR ''-'', CHR ''+'', CHR ''.''}"
  by (auto simp: digit_char_def dest: arg_cong [where f = "of_char :: char \<Rightarrow> nat"])

lemma show_nat_hd_digit: "hd (show_nat n) \<notin> {CHR ''-'', CHR ''+'', CHR ''.''}"
proof -
  have "hd (show_nat n) \<in> set (show_nat n)" by simp
  then show ?thesis using show_nat_digits digit_char_neq by metis
qed

lemma parse_int_show:
  assumes "n < 2 ^ (bits - 1)" and "0 < bits"
  shows "parse_int 10 bits (show_nat n) = Some (int n)"
proof -
  obtain c cs where s: "show_nat n = c # cs" by (cases "show_nat n") auto
  with show_nat_hd_digit [of n] have "c \<noteq> CHR ''-''" "c \<noteq> CHR ''+''" by auto
  moreover have "n < 2 ^ bits"
    using assms(1) power_increasing [of "bits - 1" bits "2::nat"] by linarith
  ultimately show ?thesis
    using assms s parse_uint_show [of n bits] by (simp add: parse_int_def)
qed

section \<open>Facts on replacement and search\<close>

lemma has_prefix_append [simp]: "has_prefix (p @ s) p"
  by (simp add: has_prefix_def)

lemma index_of_append: "index_of p (s @ p @ t) \<noteq> None"
proof (induction s)
  case Nil
  show ?case using has_prefix_append [of p t] by (cases "p @ t") auto
qed auto

lemma index_of_Some: "index_of p s = Some i \<Longrightarrow> \<exists>a b. s = a @ p @ b \<and> length a = i"
proof (induction s arbitrary: i)
  case Nil
  then show ?case by (auto split: if_splits)
next
  case (Cons c s)
  show ?case
  proof (cases "has_prefix (c # s) p")
    case True
    with Cons.prems have i: "i = 0" by simp
    from True have eq: "p @ drop (length p) (c # s) = c # s"
      unfolding has_prefix_def by (metis append_take_drop_id)
    have "c # s = [] @ p @ drop (length p) (c # s) \<and> length ([]::string) = i"
      using eq i by simp
    then show ?thesis by blast
  next
    case False
    with Cons.prems obtain j where j: "index_of p s = Some j" "i = Suc j" by auto
    then obtain a b where "s = a @ p @ b \<and> length a = j" using Cons.IH by blast
    then have "c # s = (c # a) @ p @ b \<and> length (c # a) = i" using j by simp
    then show ?thesis by blast
  qed
qed

lemma contains_str_iff: "contains_str s p \<longleftrightarrow> (\<exists>a b. s = a @ p @ b)"
  using index_of_append index_of_Some unfolding contains_str_def
  by (metis option.exhaust_sel)

lemma replace_all_absent: "\<not> contains_str s old \<Longrightarrow> old \<noteq> [] \<Longrightarrow> replace_all old new s = s"
proof (induction old new s rule: replace_all.induct)
  case (2 old new c cs)
  then have "\<not> has_prefix (c # cs) old" and "\<not> contains_str cs old"
    by (auto simp: contains_str_def split: if_splits)
  with 2 show ?case by simp
qed simp

lemma set_replace_all: "set (replace_all old new s) \<subseteq> set s \<union> set new"
proof (induction old new s rule: replace_all.induct)
  case (2 old new c cs)
  then show ?case using set_drop_subset [of "length old" "c # cs"] by auto
qed simp

lemma length_replace_all: "length new \<le> length old \<Longrightarrow> length (replace_all old new s) \<le> length s"
proof (induction old new s rule: replace_all.induct)
  case (2 old new c cs)
  show ?case
  proof (cases "old \<noteq> [] \<and> has_prefix (c # cs) old")
    case True
    then have "length old \<le> length (c # cs)"
      by (metis has_prefix_def length_take min.absorb_iff2)
    moreover have "length (replace_all old new (drop (length old) (c # cs)))
        \<le> length (drop (length old) (c # cs))"
      using 2 True by blast
    moreover have "length (drop (length old) (c # cs)) = length (c # cs) - length old" by simp
    moreover have "replace_all old new (c # cs) = new @ replace_all old new (drop (length old) (c # cs))"
      using True by simp
    ultimately show ?thesis using 2(3) by (simp del: replace_all.simps)
  qed (use 2 in auto)
qed simp

lemma last_index_char_None: "last_index_char c s = None \<longleftrightarrow> c \<notin> set s"
  by (induction s) (auto split: option.splits)

lemma last_index_char_append:
  "c \<notin> set t \<Longrightarrow> last_index_char c (s @ c # t) = Some (length s)"
  by (induction s) (auto simp: last_index_char_None split: option.splits)

lemma equal_fold_refl [simp]: "equal_fold s s"
  by (simp add: equal_fold_def)

lemma equal_fold_sym: "equal_fold s t = equal_fold t s"
  by (auto simp: equal_fold_def)

lemma lower_char_idem [simp]: "lower_char (lower_char c) = lower_char c"
  by (auto simp: lower_char_def Let_def)

lemma to_lower_idem [simp]: "to_lower (to_lower s) = to_lower s"
  by (simp add: to_lower_def)

end
