(* ===== verification/ConfigTask.thy ===== *)
theory ConfigTask
  imports GoLib
begin

text \<open>
  The ApplyConfig task, \<open>agentendpoint/config_task.go\<close>: the run over OS policies and their
  resources, the compliance report it builds, the progress and completion reports it sends.

  \<^item> The Go interface \<open>resourceIface\<close> is the record \<open>resource_ops\<close> of its methods; each takes
    and returns the resource object and the world \<open>'w\<close> it acts on.
  \<^item> \<open>task_client\<close> is the part of \<open>*Client\<close> the task calls, plus the clock.
  \<^item> \<open>config_task\<close> is the struct \<open>configTask\<close>. A pointer to a policy or a resource is an
    entry of the map that holds it: the run reads and writes it under its ids, as the Go maps
    of pointers do. \<open>ct_sent\<close> is a history variable: the requests handed to the client.
  \<^item> A nil dereference is a \<open>Panic\<close>. Logging is left out.
\<close>

section \<open>The report: protobuf messages the task fills in\<close>

datatype step_type =
    VALIDATION | DESIRED_STATE_CHECK | DESIRED_STATE_ENFORCEMENT
  | DESIRED_STATE_CHECK_POST_ENFORCEMENT

datatype step_outcome = SUCCEEDED | FAILED

datatype compliance_state = STATE_UNSPECIFIED | UNKNOWN_STATE | COMPLIANT | NON_COMPLIANT

record config_step =
  st_type :: step_type
  st_outcome :: step_outcome
  st_error :: string

record compliance =
  rc_id :: string
  rc_steps :: "config_step list"
  rc_state :: compliance_state
  rc_output :: "string option"

record policy_result =
  pr_id :: string
  pr_assignment :: string
  pr_compliances :: "compliance list"

datatype policy_mode = MODE_UNSPECIFIED | MODE_VALIDATION | MODE_ENFORCEMENT

record 'p os_resource =
  or_id :: string
  or_body :: 'p

record 'p os_policy =
  op_id :: string
  op_assignment :: string
  op_mode :: policy_mode
  op_resources :: "'p os_resource list"

datatype cfg_progress = PS_STARTED | PS_APPLYING_CONFIG

datatype cfg_output = OUT_SUCCEEDED | OUT_FAILED | OUT_CANCELLED

datatype directive = DIRECTIVE_CONTINUE | DIRECTIVE_STOP

fun cfg_progress_text :: "cfg_progress \<Rightarrow> string" where
  "cfg_progress_text PS_STARTED = ''STARTED''"
| "cfg_progress_text PS_APPLYING_CONFIG = ''APPLYING_CONFIG''"

datatype cfg_request =
    CfgProgress string cfg_progress
  | CfgComplete string string cfg_output "policy_result list"

section \<open>The interfaces: resources and the client\<close>

record managed_resources =
  mr_packages :: "string list"
  mr_repositories :: "string list"
  mr_files :: "string list"

record ('p, 'r, 'w) resource_ops =
  ro_new :: "'p os_resource \<Rightarrow> 'r"
  ro_validate :: "'r \<Rightarrow> 'w \<Rightarrow> go_error option \<times> 'r \<times> 'w"
  ro_check :: "'r \<Rightarrow> 'w \<Rightarrow> go_error option \<times> 'r \<times> 'w"
  ro_enforce :: "'r \<Rightarrow> 'w \<Rightarrow> go_error option \<times> 'r \<times> 'w"
  ro_populate :: "'r \<Rightarrow> string option \<Rightarrow> string option"
  ro_cleanup :: "'r \<Rightarrow> 'w \<Rightarrow> go_error option \<times> 'r \<times> 'w"
  ro_in_desired :: "'r \<Rightarrow> bool"
  ro_managed :: "'r \<Rightarrow> managed_resources option"

record 'r resource_entry =
  re_iface :: 'r
  re_needs_post_check :: bool
  re_vc_error :: bool

record 'w task_client =
  tc_progress :: "string \<Rightarrow> cfg_progress \<Rightarrow> 'w \<Rightarrow> directive res \<times> 'w"
  tc_complete :: "string \<Rightarrow> string \<Rightarrow> cfg_output \<Rightarrow> policy_result list \<Rightarrow> 'w \<Rightarrow> go_error option \<times> 'w"
  tc_now :: "'w \<Rightarrow> int"

record ('p, 'r) config_task =
  ct_started_at :: int
  ct_last_progress :: "cfg_progress \<rightharpoonup> int"
  ct_task :: "'p os_policy list"
  ct_policies :: "string \<rightharpoonup> (string \<rightharpoonup> 'r resource_entry)"
  ct_task_id :: string
  ct_results :: "policy_result list"
  ct_managed :: "managed_resources option list"
  ct_sent :: "cfg_request list"

section \<open>Reporting\<close>

text \<open>\<open>sameStateTimeWindow\<close> is minus five seconds; times are in nanoseconds.\<close>

definition sameStateTimeWindow :: int where
  "sameStateTimeWindow = -5000000000"

definition maxErrorMessage :: nat where
  "maxErrorMessage = 512"

text \<open>A Go slice expression with a negative bound panics.\<close>

definition truncateMessage :: "string \<Rightarrow> nat \<Rightarrow> string outcome" where
  "truncateMessage msg sz =
     (let cut = sz div 2 in
      if sz < length msg then
        (if sz < cut + 3 then Panic ''slice bounds out of range''
         else Done (take (sz - (cut + 3)) msg @ ''...'' @ drop (length msg - cut) msg))
      else Done msg)"

text \<open>The calls in this file all use \<open>maxErrorMessage\<close>, for which no panic is possible.\<close>

definition truncated :: "string \<Rightarrow> string" where
  "truncated msg = (case truncateMessage msg maxErrorMessage of Done m \<Rightarrow> m | Panic p \<Rightarrow> p)"

definition reportCompletedState ::
  "'w task_client \<Rightarrow> string \<Rightarrow> cfg_output \<Rightarrow> ('p, 'r) config_task \<Rightarrow> 'w
    \<Rightarrow> go_error option \<times> ('p, 'r) config_task \<times> 'w" where
  "reportCompletedState cl errMsg st c w =
     (case tc_complete cl (ct_task_id c) errMsg st (ct_results c) w of (e, w') \<Rightarrow>
        (map_option (\<lambda>err. ErrMsg (''error reporting completed state: '' @ err_text err)) e,
         c\<lparr>ct_sent := ct_sent c @ [CfgComplete (ct_task_id c) errMsg st (ct_results c)]\<rparr>, w'))"

definition handleErrorState ::
  "'w task_client \<Rightarrow> string \<Rightarrow> go_error \<Rightarrow> ('p, 'r) config_task \<Rightarrow> 'w
    \<Rightarrow> go_error option \<times> ('p, 'r) config_task \<times> 'w" where
  "handleErrorState cl msg err c w =
     (if err = ErrServerCancel
      then reportCompletedState cl (err_text ErrServerCancel) OUT_CANCELLED c w
      else reportCompletedState cl (msg @ '': '' @ err_text err) OUT_FAILED c w)"

definition reportContinuingState ::
  "'w task_client \<Rightarrow> cfg_progress \<Rightarrow> ('p, 'r) config_task \<Rightarrow> 'w
    \<Rightarrow> go_error option \<times> ('p, 'r) config_task \<times> 'w" where
  "reportContinuingState cl configState c w =
     (if (case ct_last_progress c configState of
            None \<Rightarrow> False | Some st \<Rightarrow> tc_now cl w + sameStateTimeWindow < st)
      then (None, c, w)
      else
        (case tc_progress cl (ct_task_id c) configState w of (res, w') \<Rightarrow>
           (let c' = c\<lparr>ct_sent := ct_sent c @ [CfgProgress (ct_task_id c) configState]\<rparr> in
            case res of
              Inl err \<Rightarrow>
                (Some (ErrMsg (''error reporting task progress '' @ cfg_progress_text configState
                               @ '': '' @ err_text err)), c', w')
            | Inr DIRECTIVE_STOP \<Rightarrow> (Some ErrServerCancel, c', w')
            | Inr DIRECTIVE_CONTINUE \<Rightarrow>
                (None, c'\<lparr>ct_last_progress := (ct_last_progress c)(configState \<mapsto> tc_now cl w')\<rparr>, w'))))"

text \<open>\<open>detectPolicyConflicts\<close> is a stub in the code (it always returns nil).\<close>

definition detectPolicyConflicts ::
  "managed_resources option \<Rightarrow> managed_resources option \<Rightarrow> go_error option" where
  "detectPolicyConflicts proposed current = None"

section \<open>The four steps on one resource\<close>

definition add_step :: "step_type \<Rightarrow> step_outcome \<Rightarrow> string \<Rightarrow> compliance_state \<Rightarrow> compliance \<Rightarrow> compliance" where
  "add_step t out msg state rc =
     rc\<lparr>rc_steps := rc_steps rc @ [\<lparr>st_type = t, st_outcome = out, st_error = msg\<rparr>], rc_state := state\<rparr>"

definition validateConfigResource ::
  "('p, 'r, 'w) resource_ops \<Rightarrow> managed_resources option \<Rightarrow> string \<Rightarrow> 'r resource_entry \<Rightarrow> compliance \<Rightarrow> 'w
    \<Rightarrow> bool \<times> 'r resource_entry \<times> compliance \<times> 'w" where
  "validateConfigResource ops policyMR rid res rc w =
     (case ro_validate ops (re_iface res) w of (e, r', w') \<Rightarrow>
       (let res' = res\<lparr>re_iface := r'\<rparr> in
        case e of
          Some err \<Rightarrow>
            (True, res', add_step VALIDATION FAILED
               (truncated (''Validate: resource '' @ quote rid @ '' error: '' @ err_text err)) UNKNOWN_STATE rc, w')
        | None \<Rightarrow>
            (case detectPolicyConflicts (ro_managed ops r') policyMR of
               Some err \<Rightarrow>
                 (True, res', add_step VALIDATION FAILED
                    (truncated (''Validate: resource conflict in policy: '' @ err_text err)) UNKNOWN_STATE rc, w')
             | None \<Rightarrow> (False, res', add_step VALIDATION SUCCEEDED [] UNKNOWN_STATE rc, w'))))"

definition desired_to_state :: "bool \<Rightarrow> compliance_state" where
  "desired_to_state b = (if b then COMPLIANT else NON_COMPLIANT)"

definition checkConfigResourceState ::
  "('p, 'r, 'w) resource_ops \<Rightarrow> string \<Rightarrow> 'r resource_entry \<Rightarrow> compliance \<Rightarrow> 'w
    \<Rightarrow> bool \<times> 'r resource_entry \<times> compliance \<times> 'w" where
  "checkConfigResourceState ops rid res rc w =
     (case ro_check ops (re_iface res) w of (e, r', w') \<Rightarrow>
       (let res' = res\<lparr>re_iface := r'\<rparr> in
        case e of
          Some err \<Rightarrow>
            (True, res', add_step DESIRED_STATE_CHECK FAILED
               (truncated (''Check state: resource '' @ quote rid @ '' error: '' @ err_text err)) UNKNOWN_STATE rc, w')
        | None \<Rightarrow>
            (False, res', add_step DESIRED_STATE_CHECK SUCCEEDED [] (desired_to_state (ro_in_desired ops r')) rc, w')))"

definition enforceConfigResourceState ::
  "('p, 'r, 'w) resource_ops \<Rightarrow> string \<Rightarrow> 'r resource_entry \<Rightarrow> compliance \<Rightarrow> 'w
    \<Rightarrow> bool \<times> bool \<times> 'r resource_entry \<times> compliance \<times> 'w" where
  "enforceConfigResourceState ops rid res rc w =
     (if ro_in_desired ops (re_iface res) then (False, False, res, rc, w)
      else
        (case ro_enforce ops (re_iface res) w of (e, r', w') \<Rightarrow>
          (let res' = res\<lparr>re_iface := r'\<rparr> in
           case e of
             Some err \<Rightarrow>
               (True, True, res', add_step DESIRED_STATE_ENFORCEMENT FAILED
                  (truncated (''Enforce state: resource '' @ quote rid @ '' error: '' @ err_text err)) UNKNOWN_STATE rc, w')
           | None \<Rightarrow>
               (True, False, res', add_step DESIRED_STATE_ENFORCEMENT SUCCEEDED [] UNKNOWN_STATE rc, w'))))"

definition postCheckConfigResourceState ::
  "('p, 'r, 'w) resource_ops \<Rightarrow> string \<Rightarrow> 'r resource_entry \<Rightarrow> compliance \<Rightarrow> 'w
    \<Rightarrow> 'r resource_entry \<times> compliance \<times> 'w" where
  "postCheckConfigResourceState ops rid res rc w =
     (if \<not> re_needs_post_check res then (res, rc, w)
      else
        (case ro_check ops (re_iface res) w of (e, r', w') \<Rightarrow>
          (let res' = res\<lparr>re_iface := r'\<rparr> in
           case e of
             Some err \<Rightarrow>
               (res', add_step DESIRED_STATE_CHECK_POST_ENFORCEMENT FAILED
                  (truncated (''Check state post enforcement: resource '' @ quote rid @ '' error: '' @ err_text err))
                  UNKNOWN_STATE rc, w')
           | None \<Rightarrow>
               (res', add_step DESIRED_STATE_CHECK_POST_ENFORCEMENT SUCCEEDED []
                  (desired_to_state (ro_in_desired ops r')) rc, w'))))"

section \<open>The task's own state\<close>

definition get_compliance :: "nat \<Rightarrow> nat \<Rightarrow> ('p, 'r) config_task \<Rightarrow> compliance" where
  "get_compliance i j c = pr_compliances (ct_results c ! i) ! j"

definition set_compliance :: "nat \<Rightarrow> nat \<Rightarrow> compliance \<Rightarrow> ('p, 'r) config_task \<Rightarrow> ('p, 'r) config_task" where
  "set_compliance i j rc c =
     c\<lparr>ct_results := (ct_results c)[i :=
         (ct_results c ! i)\<lparr>pr_compliances := (pr_compliances (ct_results c ! i))[j := rc]\<rparr>]\<rparr>"

definition get_entry :: "string \<Rightarrow> string \<Rightarrow> ('p, 'r) config_task \<Rightarrow> 'r resource_entry option" where
  "get_entry pid rid c = (case ct_policies c pid of None \<Rightarrow> None | Some m \<Rightarrow> m rid)"

definition set_entry :: "string \<Rightarrow> string \<Rightarrow> 'r resource_entry \<Rightarrow> ('p, 'r) config_task \<Rightarrow> ('p, 'r) config_task" where
  "set_entry pid rid res c =
     (case ct_policies c pid of None \<Rightarrow> c
      | Some m \<Rightarrow> c\<lparr>ct_policies := (ct_policies c)(pid \<mapsto> m(rid \<mapsto> res))\<rparr>)"

definition store :: "string \<Rightarrow> nat \<Rightarrow> nat \<Rightarrow> string \<Rightarrow> 'r resource_entry \<Rightarrow> compliance
    \<Rightarrow> ('p, 'r) config_task \<Rightarrow> ('p, 'r) config_task" where
  "store pid i j rid res rc c = set_compliance i j rc (set_entry pid rid res c)"

definition base_compliance :: "'p os_resource \<Rightarrow> compliance" where
  "base_compliance r = \<lparr>rc_id = or_id r, rc_steps = [], rc_state = STATE_UNSPECIFIED, rc_output = None\<rparr>"

definition base_result :: "'p os_policy \<Rightarrow> policy_result" where
  "base_result p = \<lparr>pr_id = op_id p, pr_assignment = op_assignment p,
     pr_compliances = map base_compliance (op_resources p)\<rparr>"

definition generateBaseResults :: "('p, 'r) config_task \<Rightarrow> ('p, 'r) config_task" where
  "generateBaseResults c = c\<lparr>ct_results := map base_result (ct_task c)\<rparr>"

text \<open>Mark every resource that has been evaluated without a validate or check error.\<close>

fun mark_resources :: "'p os_resource list \<Rightarrow> (string \<rightharpoonup> 'r resource_entry) \<Rightarrow> (string \<rightharpoonup> 'r resource_entry)" where
  "mark_resources [] m = m"
| "mark_resources (cr # crs) m =
     (case m (or_id cr) of
        None \<Rightarrow> mark_resources crs m
      | Some res \<Rightarrow>
          if re_vc_error res then mark_resources crs m
          else mark_resources crs (m(or_id cr \<mapsto> res\<lparr>re_needs_post_check := True\<rparr>)))"

fun mark_policies :: "'p os_policy list \<Rightarrow> (string \<rightharpoonup> (string \<rightharpoonup> 'r resource_entry))
    \<Rightarrow> (string \<rightharpoonup> (string \<rightharpoonup> 'r resource_entry))" where
  "mark_policies [] ps = ps"
| "mark_policies (p # rest) ps =
     (case ps (op_id p) of
        None \<Rightarrow> mark_policies rest ps
      | Some m \<Rightarrow> mark_policies rest (ps(op_id p \<mapsto> mark_resources (op_resources p) m)))"

definition markPostCheckRequired :: "('p, 'r) config_task \<Rightarrow> ('p, 'r) config_task" where
  "markPostCheckRequired c = c\<lparr>ct_policies := mark_policies (ct_task c) (ct_policies c)\<rparr>"

section \<open>The run\<close>

definition new_entry :: "('p, 'r, 'w) resource_ops \<Rightarrow> 'p os_resource \<Rightarrow> 'r resource_entry" where
  "new_entry ops cr = \<lparr>re_iface = ro_new ops cr, re_needs_post_check = False, re_vc_error = False\<rparr>"

text \<open>
  The body of the inner loop of \<open>run\<close>, for one resource: validate, check, enforce, populate.
  It returns whether the loop breaks, whether an enforcement action was taken, the resource
  entry and its compliance, and the world.
\<close>

definition process_resource :: "('p, 'r, 'w) resource_ops \<Rightarrow> bool \<Rightarrow> 'p os_resource \<Rightarrow> compliance \<Rightarrow> 'w
    \<Rightarrow> bool \<times> bool \<times> 'r resource_entry \<times> compliance \<times> 'w" where
  "process_resource ops validateOnly cr rc w =
     (case validateConfigResource ops None (or_id cr) (new_entry ops cr) rc w of (hasError1, res1, rc1, w1) \<Rightarrow>
       if hasError1 then (True, False, res1\<lparr>re_vc_error := True\<rparr>, rc1, w1)
       else
         (case checkConfigResourceState ops (or_id cr) res1 rc1 w1 of (hasError2, res2, rc2, w2) \<Rightarrow>
            if hasError2 then (True, False, res2\<lparr>re_vc_error := True\<rparr>, rc2, w2)
            else if validateOnly then (False, False, res2, rc2, w2)
            else
              (case enforceConfigResourceState ops (or_id cr) res2 rc2 w2 of
                 (actionTaken, hasError3, res3, rc3, w3) \<Rightarrow>
                   (hasError3, actionTaken, res3,
                    rc3\<lparr>rc_output := ro_populate ops (re_iface res3) (rc_output rc3)\<rparr>, w3))))"

text \<open>
  The inner loop, over the resources of policy \<open>i\<close> from index \<open>j\<close> on. The entry is stored
  before \<open>markPostCheckRequired\<close>, which therefore marks it as well.
\<close>

fun run_resources :: "('p, 'r, 'w) resource_ops \<Rightarrow> bool \<Rightarrow> string \<Rightarrow> nat \<Rightarrow> nat \<Rightarrow> 'p os_resource list
    \<Rightarrow> ('p, 'r) config_task \<Rightarrow> 'w \<Rightarrow> ('p, 'r) config_task \<times> 'w" where
  "run_resources ops validateOnly pid i j [] c w = (c, w)"
| "run_resources ops validateOnly pid i j (cr # crs) c w =
     (case process_resource ops validateOnly cr (get_compliance i j c) w of
        (stop, actionTaken, res, rc, w1) \<Rightarrow>
          (let c1 = store pid i j (or_id cr) res rc c;
               c2 = (if actionTaken then markPostCheckRequired c1 else c1)
           in if stop then (c2, w1) else run_resources ops validateOnly pid i (Suc j) crs c2 w1))"

definition run_policy :: "('p, 'r, 'w) resource_ops \<Rightarrow> nat \<Rightarrow> 'p os_policy
    \<Rightarrow> ('p, 'r) config_task \<Rightarrow> 'w \<Rightarrow> ('p, 'r) config_task \<times> 'w" where
  "run_policy ops i p c w =
     (case run_resources ops (op_mode p = MODE_VALIDATION) (op_id p) i 0 (op_resources p)
            (c\<lparr>ct_policies := (ct_policies c)(op_id p \<mapsto> Map.empty)\<rparr>) w of
        (c', w') \<Rightarrow> (c'\<lparr>ct_managed := ct_managed c' @ [None]\<rparr>, w'))"

fun run_policies :: "('p, 'r, 'w) resource_ops \<Rightarrow> nat \<Rightarrow> 'p os_policy list
    \<Rightarrow> ('p, 'r) config_task \<Rightarrow> 'w \<Rightarrow> ('p, 'r) config_task \<times> 'w" where
  "run_policies ops i [] c w = (c, w)"
| "run_policies ops i (p # ps) c w =
     (case run_policy ops i p c w of (c', w') \<Rightarrow> run_policies ops (Suc i) ps c' w')"

fun post_resources :: "('p, 'r, 'w) resource_ops \<Rightarrow> string \<Rightarrow> nat \<Rightarrow> nat \<Rightarrow> 'p os_resource list
    \<Rightarrow> ('p, 'r) config_task \<Rightarrow> 'w \<Rightarrow> ('p, 'r) config_task \<times> 'w" where
  "post_resources ops pid i j [] c w = (c, w)"
| "post_resources ops pid i j (cr # crs) c w =
     (case get_entry pid (or_id cr) c of
        None \<Rightarrow> post_resources ops pid i (Suc j) crs c w
      | Some res \<Rightarrow>
          (case postCheckConfigResourceState ops (or_id cr) res (get_compliance i j c) w of
             (res', rc', w') \<Rightarrow>
               post_resources ops pid i (Suc j) crs (store pid i j (or_id cr) res' rc' c) w'))"

fun post_policies :: "('p, 'r, 'w) resource_ops \<Rightarrow> nat \<Rightarrow> 'p os_policy list
    \<Rightarrow> ('p, 'r) config_task \<Rightarrow> 'w \<Rightarrow> ('p, 'r) config_task \<times> 'w" where
  "post_policies ops i [] c w = (c, w)"
| "post_policies ops i (p # ps) c w =
     (case ct_policies c (op_id p) of
        None \<Rightarrow> post_policies ops (Suc i) ps c w
      | Some _ \<Rightarrow>
          (case post_resources ops (op_id p) i 0 (op_resources p) c w of
             (c', w') \<Rightarrow> post_policies ops (Suc i) ps c' w'))"

definition postCheckState :: "('p, 'r, 'w) resource_ops \<Rightarrow> ('p, 'r) config_task \<Rightarrow> 'w \<Rightarrow> ('p, 'r) config_task \<times> 'w" where
  "postCheckState ops c w = post_policies ops 0 (ct_task c) c w"

text \<open>
  The deferred \<open>cleanup\<close> reads \<open>c.policies[id]\<close> without a check: for an id that is not in the
  map this is a nil pointer, and the first \<open>plcy.resources\<close> of a policy with resources panics.
\<close>

fun cleanup_resources :: "('p, 'r, 'w) resource_ops \<Rightarrow> string \<Rightarrow> 'p os_resource list
    \<Rightarrow> ('p, 'r) config_task \<Rightarrow> 'w \<Rightarrow> (('p, 'r) config_task \<times> 'w) outcome" where
  "cleanup_resources ops pid [] c w = Done (c, w)"
| "cleanup_resources ops pid (cr # crs) c w =
     (case ct_policies c pid of
        None \<Rightarrow> Panic ''nil pointer dereference''
      | Some m \<Rightarrow>
          (case m (or_id cr) of
             None \<Rightarrow> cleanup_resources ops pid crs c w
           | Some res \<Rightarrow>
               (case ro_cleanup ops (re_iface res) w of (e, r', w') \<Rightarrow>
                  cleanup_resources ops pid crs
                    (set_entry pid (or_id cr) (res\<lparr>re_iface := r'\<rparr>) c) w')))"

fun cleanup_policies :: "('p, 'r, 'w) resource_ops \<Rightarrow> 'p os_policy list
    \<Rightarrow> ('p, 'r) config_task \<Rightarrow> 'w \<Rightarrow> (('p, 'r) config_task \<times> 'w) outcome" where
  "cleanup_policies ops [] c w = Done (c, w)"
| "cleanup_policies ops (p # ps) c w =
     obind (cleanup_resources ops (op_id p) (op_resources p) c w)
       (\<lambda>(c', w'). cleanup_policies ops ps c' w')"

definition cleanup :: "('p, 'r, 'w) resource_ops \<Rightarrow> ('p, 'r) config_task \<Rightarrow> 'w \<Rightarrow> (('p, 'r) config_task \<times> 'w) outcome" where
  "cleanup ops c w = cleanup_policies ops (ct_task c) c w"

text \<open>The deferred call runs after the return value is set, whatever the value is.\<close>

definition with_cleanup :: "('p, 'r, 'w) resource_ops \<Rightarrow> go_error option \<times> ('p, 'r) config_task \<times> 'w
    \<Rightarrow> (go_error option \<times> ('p, 'r) config_task \<times> 'w) outcome" where
  "with_cleanup ops r =
     (case r of (e, c, w) \<Rightarrow> obind (cleanup ops c w) (\<lambda>(c', w'). Done (e, c', w')))"

definition rcsErrMsg :: string where
  "rcsErrMsg = ''Error reporting continuing state''"

definition run_config :: "('p, 'r, 'w) resource_ops \<Rightarrow> 'w task_client \<Rightarrow> ('p, 'r) config_task \<Rightarrow> 'w
    \<Rightarrow> (go_error option \<times> ('p, 'r) config_task \<times> 'w) outcome" where
  "run_config ops cl c w =
     (case reportContinuingState cl PS_STARTED (c\<lparr>ct_started_at := tc_now cl w\<rparr>) w of
        (Some err, c1, w1) \<Rightarrow> Done (handleErrorState cl rcsErrMsg err c1 w1)
      | (None, c1, w1) \<Rightarrow>
          if ct_task c1 = [] then Done (reportCompletedState cl [] OUT_SUCCEEDED c1 w1)
          else
            (case reportContinuingState cl PS_APPLYING_CONFIG (generateBaseResults c1) w1 of
               (Some err, c2, w2) \<Rightarrow> with_cleanup ops (handleErrorState cl rcsErrMsg err c2 w2)
             | (None, c2, w2) \<Rightarrow>
                 (case run_policies ops 0 (ct_task c2) (c2\<lparr>ct_policies := Map.empty\<rparr>) w2 of (c3, w3) \<Rightarrow>
                    (case postCheckState ops c3 w3 of (c4, w4) \<Rightarrow>
                       with_cleanup ops (reportCompletedState cl [] OUT_SUCCEEDED c4 w4)))))"

definition new_config_task :: "string \<Rightarrow> 'p os_policy list \<Rightarrow> ('p, 'r) config_task" where
  "new_config_task tid ps = \<lparr>ct_started_at = 0, ct_last_progress = Map.empty, ct_task = ps,
     ct_policies = Map.empty, ct_task_id = tid, ct_results = [], ct_managed = [], ct_sent = []\<rparr>"

definition RunApplyConfig :: "('p, 'r, 'w) resource_ops \<Rightarrow> 'w task_client \<Rightarrow> string \<Rightarrow> 'p os_policy list \<Rightarrow> 'w
    \<Rightarrow> (go_error option \<times> ('p, 'r) config_task \<times> 'w) outcome" where
  "RunApplyConfig ops cl tid ps w = run_config ops cl (new_config_task tid ps) w"

end
