(* ===== verification/ConfigFacts.thy ===== *)
theory ConfigFacts
  imports ConfigTask
begin

text \<open>
  Lemmas on the ApplyConfig task of theory ConfigTask: frame facts of its loops, the refinement
  of the index-updating loops by a function of the resource lists, the invariant that ties the
  resource entries to the report, and the ways a run ends.
\<close>

section \<open>Messages\<close>

lemma truncateMessage_Done: "5 \<le> sz \<Longrightarrow> \<exists>m. truncateMessage msg sz = Done m"
  by (auto simp: truncateMessage_def Let_def)

lemma truncateMessage_length: "truncateMessage msg sz = Done m \<Longrightarrow> length m \<le> max sz 3"
  by (auto simp: truncateMessage_def Let_def split: if_splits)

lemma truncateMessage_exact:
  "truncateMessage msg sz = Done m \<Longrightarrow> sz < length msg \<Longrightarrow> length m = sz"
  by (auto simp: truncateMessage_def Let_def split: if_splits)

lemma length_truncated: "length (truncated msg) \<le> maxErrorMessage"
proof -
  obtain m where "truncateMessage msg maxErrorMessage = Done m"
    using truncateMessage_Done [of maxErrorMessage msg] by (auto simp: maxErrorMessage_def)
  with truncateMessage_length [of msg maxErrorMessage m] show ?thesis
    by (simp add: truncated_def maxErrorMessage_def)
qed

lemma truncated_short: "length msg \<le> maxErrorMessage \<Longrightarrow> truncated msg = msg"
  by (simp add: truncated_def truncateMessage_def Let_def)

section \<open>Frame lemmas: what each operation leaves alone\<close>

lemma add_step_simps [simp]:
  "rc_id (add_step t out m s rc) = rc_id rc"
  "rc_state (add_step t out m s rc) = s"
  "rc_output (add_step t out m s rc) = rc_output rc"
  "rc_steps (add_step t out m s rc) = rc_steps rc @ [\<lparr>st_type = t, st_outcome = out, st_error = m\<rparr>]"
  by (simp_all add: add_step_def)

lemma set_entry_simps [simp]:
  "ct_results (set_entry pid rid res c) = ct_results c"
  "ct_task (set_entry pid rid res c) = ct_task c"
  "ct_sent (set_entry pid rid res c) = ct_sent c"
  "ct_task_id (set_entry pid rid res c) = ct_task_id c"
  "ct_last_progress (set_entry pid rid res c) = ct_last_progress c"
  "dom (ct_policies (set_entry pid rid res c)) = dom (ct_policies c)"
  by (auto simp: set_entry_def split: option.splits)

lemma set_compliance_simps [simp]:
  "ct_policies (set_compliance i j rc c) = ct_policies c"
  "ct_task (set_compliance i j rc c) = ct_task c"
  "ct_sent (set_compliance i j rc c) = ct_sent c"
  "ct_task_id (set_compliance i j rc c) = ct_task_id c"
  by (auto simp: set_compliance_def)

lemma dom_mark_policies [simp]: "dom (mark_policies ps m) = dom m"
  by (induction ps m rule: mark_policies.induct)
     (auto simp del: fun_upd_apply split: option.splits)

lemma mark_simps [simp]:
  "ct_results (markPostCheckRequired c) = ct_results c"
  "ct_task (markPostCheckRequired c) = ct_task c"
  "ct_sent (markPostCheckRequired c) = ct_sent c"
  "ct_task_id (markPostCheckRequired c) = ct_task_id c"
  "dom (ct_policies (markPostCheckRequired c)) = dom (ct_policies c)"
  by (simp_all add: markPostCheckRequired_def)

text \<open>The facts every loop keeps: the task, its id, what was sent, the policies entered.\<close>

definition same_frame :: "('p, 'r) config_task \<Rightarrow> ('p, 'r) config_task \<Rightarrow> bool" where
  "same_frame c c' \<longleftrightarrow> ct_task c' = ct_task c \<and> ct_task_id c' = ct_task_id c \<and> ct_sent c' = ct_sent c
     \<and> dom (ct_policies c') = dom (ct_policies c)"

lemma same_frame_refl [simp]: "same_frame c c"
  by (simp add: same_frame_def)

lemma same_frame_trans: "same_frame a b \<Longrightarrow> same_frame b c \<Longrightarrow> same_frame a c"
  by (simp add: same_frame_def)

lemma same_frame_upd [simp]:
  "same_frame c (set_compliance i j rc c') = same_frame c c'"
  "same_frame c (markPostCheckRequired c') = same_frame c c'"
  "same_frame c (set_entry pid rid res c') = same_frame c c'"
  "same_frame c (store pid i j rid res rc c') = same_frame c c'"
  by (auto simp: same_frame_def store_def)

lemma get_compliance_simps [simp]:
  "get_compliance i j (markPostCheckRequired c) = get_compliance i j c"
  "get_compliance i j (set_entry pid rid res c) = get_compliance i j c"
  by (simp_all add: get_compliance_def)

lemma ct_results_store [simp]:
  "ct_results (store pid i j rid res rc c) = (ct_results c)[i :=
     (ct_results c ! i)\<lparr>pr_compliances := (pr_compliances (ct_results c ! i))[j := rc]\<rparr>]"
  by (simp add: store_def set_compliance_def)

text \<open>One step of the loop of \<open>run\<close>, as a single equation.\<close>

lemma run_resources_Cons:
  assumes "process_resource ops vo cr (get_compliance i j c) w = (stop, act, res, rc, w1)"
  shows "run_resources ops vo pid i j (cr # crs) c w =
    (let c2 = (if act then markPostCheckRequired (store pid i j (or_id cr) res rc c) else store pid i j (or_id cr) res rc c)
     in if stop then (c2, w1) else run_resources ops vo pid i (Suc j) crs c2 w1)"
  using assms by simp

lemma run_resources_frame:
  "run_resources ops vo pid i j crs c w = (c', w') \<Longrightarrow> same_frame c c'"
proof (induction crs arbitrary: j c w)
  case (Cons cr crs)
  obtain stop act res rc w1 where
    p: "process_resource ops vo cr (get_compliance i j c) w = (stop, act, res, rc, w1)"
    by (metis prod_cases5)
  define c2 where "c2 = (if act then markPostCheckRequired (store pid i j (or_id cr) res rc c)
      else store pid i j (or_id cr) res rc c)"
  have f: "same_frame c c2" by (simp add: c2_def)
  show ?case
  proof (cases stop)
    case True
    with Cons.prems p f show ?thesis by (auto simp: c2_def Let_def)
  next
    case False
    with Cons.prems p have "run_resources ops vo pid i (Suc j) crs c2 w1 = (c', w')"
      by (auto simp: c2_def Let_def)
    from Cons.IH [OF this] f show ?thesis by (rule same_frame_trans [rotated])
  qed
qed simp

lemma post_resources_frame:
  "post_resources ops pid i j crs c w = (c', w') \<Longrightarrow> same_frame c c'"
proof (induction crs arbitrary: j c w)
  case (Cons cr crs)
  then show ?case
    by (fastforce split: prod.splits option.splits simp: same_frame_def store_def)
qed simp

lemma post_policies_frame:
  "post_policies ops i ps c w = (c', w') \<Longrightarrow> same_frame c c'"
proof (induction ps arbitrary: i c w)
  case (Cons p ps)
  then show ?case
    by (fastforce split: option.splits prod.splits dest: post_resources_frame intro: same_frame_trans)
qed simp

lemma run_policies_frame:
  assumes "run_policies ops i ps c w = (c', w')"
  shows "ct_task c' = ct_task c \<and> ct_task_id c' = ct_task_id c \<and> ct_sent c' = ct_sent c
     \<and> dom (ct_policies c') = dom (ct_policies c) \<union> op_id ` set ps"
  using assms
proof (induction ps arbitrary: i c w)
  case (Cons p ps)
  obtain c1 w1 where r: "run_resources ops (op_mode p = MODE_VALIDATION) (op_id p) i 0 (op_resources p)
      (c\<lparr>ct_policies := (ct_policies c)(op_id p \<mapsto> Map.empty)\<rparr>) w = (c1, w1)" by fastforce
  note f = run_resources_frame [OF r]
  from Cons.prems r have "run_policies ops (Suc i) ps (c1\<lparr>ct_managed := ct_managed c1 @ [None]\<rparr>) w1 = (c', w')"
    by (simp add: run_policy_def)
  from Cons.IH [OF this] f show ?case by (auto simp: same_frame_def)
qed simp

section \<open>Refinement: the report as a function of the resource lists\<close>

text \<open>
  The index-updating loops of \<open>run\<close> against a functional specification: the compliances of one
  policy are computed from its resource list alone, and nothing else of the report changes.
\<close>

fun eval_resources :: "('p, 'r, 'w) resource_ops \<Rightarrow> bool \<Rightarrow> 'p os_resource list \<Rightarrow> compliance list \<Rightarrow> 'w
    \<Rightarrow> compliance list \<times> 'w" where
  "eval_resources ops vo (cr # crs) (rc # rcs) w =
     (case process_resource ops vo cr rc w of (stop, act, res, rc', w1) \<Rightarrow>
        if stop then (rc' # rcs, w1)
        else (case eval_resources ops vo crs rcs w1 of (rcs', w2) \<Rightarrow> (rc' # rcs', w2)))"
| "eval_resources ops vo crs rcs w = (rcs, w)"

fun eval_policies :: "('p, 'r, 'w) resource_ops \<Rightarrow> 'p os_policy list \<Rightarrow> 'w \<Rightarrow> policy_result list \<times> 'w" where
  "eval_policies ops [] w = ([], w)"
| "eval_policies ops (p # ps) w =
     (case eval_resources ops (op_mode p = MODE_VALIDATION) (op_resources p)
             (map base_compliance (op_resources p)) w of
        (rcs, w1) \<Rightarrow>
          (case eval_policies ops ps w1 of (rest, w2) \<Rightarrow>
             (\<lparr>pr_id = op_id p, pr_assignment = op_assignment p, pr_compliances = rcs\<rparr> # rest, w2)))"

lemma list_update_append_drop:
  "j < length xs \<Longrightarrow> take (Suc j) (xs[j := x]) = take j xs @ [x]"
  by (simp add: take_Suc_conv_app_nth)

lemma eval_resources_length [simp]:
  "length (fst (eval_resources ops vo crs rcs w)) = length rcs"
  by (induction ops vo crs rcs w rule: eval_resources.induct) (auto split: prod.splits)

lemma run_resources_results:
  assumes "run_resources ops vo pid i j crs c w = (c', w')"
    and "i < length (ct_results c)"
    and "length (pr_compliances (ct_results c ! i)) = j + length crs"
  shows "w' = snd (eval_resources ops vo crs (drop j (pr_compliances (ct_results c ! i))) w)
    \<and> ct_results c' = (ct_results c)[i := (ct_results c ! i)\<lparr>pr_compliances :=
        take j (pr_compliances (ct_results c ! i))
        @ fst (eval_resources ops vo crs (drop j (pr_compliances (ct_results c ! i))) w)\<rparr>]"
  using assms
proof (induction crs arbitrary: j c w)
  case Nil
  then show ?case by simp
next
  case (Cons cr crs)
  let ?row = "pr_compliances (ct_results c ! i)"
  obtain stop act res rc w1 where
    p: "process_resource ops vo cr (?row ! j) w = (stop, act, res, rc, w1)"
    by (metis prod_cases5)
  hence p': "process_resource ops vo cr (get_compliance i j c) w = (stop, act, res, rc, w1)"
    by (simp add: get_compliance_def)
  have j: "j < length ?row" using Cons.prems(3) by simp
  hence d: "drop j ?row = ?row ! j # drop (Suc j) ?row" by (simp add: Cons_nth_drop_Suc)
  define c2 where "c2 = (if act then markPostCheckRequired (store pid i j (or_id cr) res rc c)
      else store pid i j (or_id cr) res rc c)"
  have c2: "ct_results c2 = (ct_results c)[i := (ct_results c ! i)\<lparr>pr_compliances := ?row[j := rc]\<rparr>]"
    by (simp add: c2_def)
  show ?case
  proof (cases stop)
    case True
    with Cons.prems(1) p' have "c' = c2" "w' = w1" by (auto simp: c2_def Let_def)
    with True p d c2 j show ?thesis by (simp add: upd_conv_take_nth_drop)
  next
    case False
    with Cons.prems(1) p' have r: "run_resources ops vo pid i (Suc j) crs c2 w1 = (c', w')"
      by (auto simp: c2_def Let_def)
    have row2: "pr_compliances (ct_results c2 ! i) = ?row[j := rc]"
      using c2 Cons.prems(2) by simp
    from Cons.IH [OF r] Cons.prems(2,3) c2 row2 False p d j
    show ?thesis by (auto simp: list_update_append_drop split: prod.splits)
  qed
qed

lemma run_policies_results:
  assumes "run_policies ops i ps c w = (c', w')"
    and "length (ct_results c) = i + length ps"
    and "drop i (ct_results c) = map base_result ps"
  shows "w' = snd (eval_policies ops ps w)
    \<and> ct_results c' = take i (ct_results c) @ fst (eval_policies ops ps w)"
  using assms
proof (induction ps arbitrary: i c w)
  case Nil
  then show ?case by simp
next
  case (Cons p ps)
  let ?c0 = "c\<lparr>ct_policies := (ct_policies c)(op_id p \<mapsto> Map.empty)\<rparr>"
  let ?ev = "eval_resources ops (op_mode p = MODE_VALIDATION) (op_resources p)
      (map base_compliance (op_resources p)) w"
  have i: "i < length (ct_results c)" using Cons.prems(2) by simp
  with Cons.prems(3) have ri: "ct_results c ! i = base_result p"
    and d: "drop (Suc i) (ct_results c) = map base_result ps"
    by (auto simp flip: Cons_nth_drop_Suc)
  obtain c1 w1 where r: "run_resources ops (op_mode p = MODE_VALIDATION) (op_id p) i 0 (op_resources p) ?c0 w = (c1, w1)"
    by fastforce
  from run_resources_results [OF r] i ri
  have w1: "w1 = snd ?ev" and r1: "ct_results c1 = (ct_results c)[i := (base_result p)\<lparr>pr_compliances := fst ?ev\<rparr>]"
    by (auto simp: base_result_def)
  let ?c1 = "c1\<lparr>ct_managed := ct_managed c1 @ [None]\<rparr>"
  from Cons.prems(1) r have rr: "run_policies ops (Suc i) ps ?c1 w1 = (c', w')"
    by (simp add: run_policy_def)
  have "length (ct_results ?c1) = Suc i + length ps" "drop (Suc i) (ct_results ?c1) = map base_result ps"
    using r1 Cons.prems(2) d by simp_all
  from Cons.IH [OF rr this] w1 r1 i show ?case
    by (auto simp: list_update_append_drop base_result_def split: prod.splits)
qed

section \<open>What one resource's evaluation appends\<close>

fun is_step :: "step_type \<Rightarrow> step_outcome \<Rightarrow> config_step \<Rightarrow> bool" where
  "is_step t out s \<longleftrightarrow> st_type s = t \<and> st_outcome s = out"

text \<open>A validation or a first check has failed: what the code calls a serious error.\<close>

definition vc_failed :: "compliance \<Rightarrow> bool" where
  "vc_failed rc \<longleftrightarrow> list_ex (\<lambda>s. st_type s \<in> {VALIDATION, DESIRED_STATE_CHECK} \<and> st_outcome s = FAILED) (rc_steps rc)"

definition has_step :: "step_type \<Rightarrow> compliance \<Rightarrow> bool" where
  "has_step t rc \<longleftrightarrow> list_ex (\<lambda>s. st_type s = t) (rc_steps rc)"

text \<open>The step sequences of the first phase, with the compliance state each one leaves.\<close>

fun phase_ok :: "bool \<Rightarrow> (step_type \<times> step_outcome) list \<Rightarrow> compliance_state \<Rightarrow> bool" where
  "phase_ok vo [(VALIDATION, FAILED)] st \<longleftrightarrow> st = UNKNOWN_STATE"
| "phase_ok vo [(VALIDATION, SUCCEEDED), (DESIRED_STATE_CHECK, FAILED)] st \<longleftrightarrow> st = UNKNOWN_STATE"
| "phase_ok vo [(VALIDATION, SUCCEEDED), (DESIRED_STATE_CHECK, SUCCEEDED)] st \<longleftrightarrow>
     st = COMPLIANT \<or> (vo \<and> st = NON_COMPLIANT)"
| "phase_ok vo [(VALIDATION, SUCCEEDED), (DESIRED_STATE_CHECK, SUCCEEDED), (DESIRED_STATE_ENFORCEMENT, out)] st \<longleftrightarrow>
     \<not> vo \<and> st = UNKNOWN_STATE"
| "phase_ok vo _ st \<longleftrightarrow> False"

definition step_shape :: "compliance \<Rightarrow> (step_type \<times> step_outcome) list" where
  "step_shape rc = map (\<lambda>s. (st_type s, st_outcome s)) (rc_steps rc)"

definition enforce_failed :: "compliance \<Rightarrow> bool" where
  "enforce_failed rc \<longleftrightarrow> list_ex (\<lambda>s. st_type s = DESIRED_STATE_ENFORCEMENT \<and> st_outcome s = FAILED) (rc_steps rc)"

definition stopping :: "compliance \<Rightarrow> bool" where
  "stopping rc \<longleftrightarrow> vc_failed rc \<or> enforce_failed rc"

definition messages_ok :: "compliance \<Rightarrow> bool" where
  "messages_ok rc \<longleftrightarrow> list_all (\<lambda>s. length (st_error s) \<le> maxErrorMessage
      \<and> (st_outcome s = SUCCEEDED \<longrightarrow> st_error s = [])) (rc_steps rc)"

lemmas compliance_preds = vc_failed_def has_step_def enforce_failed_def stopping_def messages_ok_def step_shape_def

lemmas step_defs = validateConfigResource_def checkConfigResourceState_def enforceConfigResourceState_def
  detectPolicyConflicts_def desired_to_state_def

text \<open>Everything the loop needs to know of \<open>process_resource\<close>, on a compliance without steps.\<close>

lemma process_resource_facts:
  assumes "process_resource ops vo cr rc w = (stop, act, res, rc', w')" and "rc_steps rc = []"
  shows "rc_id rc' = rc_id rc" and "phase_ok vo (step_shape rc') (rc_state rc')"
    and "re_vc_error res = vc_failed rc'" and "\<not> re_needs_post_check res"
    and "act = has_step DESIRED_STATE_ENFORCEMENT rc'" and "stop = stopping rc'"
    and "messages_ok rc'" and "rc_steps rc' \<noteq> []"
  using assms
  by (auto simp: process_resource_def new_entry_def step_defs compliance_preds Let_def length_truncated
      split: prod.splits option.splits if_splits)

text \<open>The shape of one policy's compliances: evaluated up to the first that stops, then untouched.\<close>

fun row_ok :: "bool \<Rightarrow> compliance list \<Rightarrow> bool" where
  "row_ok vo [] \<longleftrightarrow> True"
| "row_ok vo (rc # rcs) \<longleftrightarrow> phase_ok vo (step_shape rc) (rc_state rc) \<and> messages_ok rc \<and>
     (if stopping rc then list_all (\<lambda>r. rc_steps r = [] \<and> rc_state r = STATE_UNSPECIFIED) rcs else row_ok vo rcs)"

lemma eval_resources_row_ok:
  "list_all (\<lambda>r. rc_steps r = [] \<and> rc_state r = STATE_UNSPECIFIED) rcs \<Longrightarrow> length rcs = length crs
    \<Longrightarrow> row_ok vo (fst (eval_resources ops vo crs rcs w))"
proof (induction ops vo crs rcs w rule: eval_resources.induct)
  case (1 ops vo cr crs rc rcs w)
  obtain stop act res rc' w1 where
    p: "process_resource ops vo cr rc w = (stop, act, res, rc', w1)" by (metis prod_cases5)
  from 1(2) have "rc_steps rc = []" by simp
  note f = process_resource_facts [OF p this]
  from 1(1) [OF p [symmetric] refl refl refl] 1(2,3) p f show ?case
    by (auto split: prod.splits)
qed auto

lemma eval_resources_ids:
  "map rc_id (fst (eval_resources ops vo crs rcs w)) = map rc_id rcs" 
  if "list_all (\<lambda>r. rc_steps r = []) rcs"
  using that
proof (induction ops vo crs rcs w rule: eval_resources.induct)
  case (1 ops vo cr crs rc rcs w)
  obtain stop act res rc' w1 where
    p: "process_resource ops vo cr rc w = (stop, act, res, rc', w1)" by (metis prod_cases5)
  from 1(2) have "rc_steps rc = []" by simp
  note f = process_resource_facts [OF p this]
  from 1(1) [OF p [symmetric] refl refl refl] 1(2) p f show ?case
    by (auto split: prod.splits)
qed auto

lemma base_rows [simp]:
  "list_all (\<lambda>r. rc_steps r = [] \<and> rc_state r = STATE_UNSPECIFIED) (map base_compliance rs)"
  "list_all (\<lambda>r. rc_steps r = []) (map base_compliance rs)"
  "map rc_id (map base_compliance rs) = map or_id rs"
  by (auto simp: list_all_iff base_compliance_def)

section \<open>Which resources are checked again after an enforcement\<close>

definition mark_entry :: "'r resource_entry \<Rightarrow> 'r resource_entry" where
  "mark_entry res = (if re_vc_error res then res else res\<lparr>re_needs_post_check := True\<rparr>)"

lemma mark_entry_idem [simp]: "mark_entry (mark_entry res) = mark_entry res"
  by (simp add: mark_entry_def)

lemma map_option_mark_entry_idem [simp]:
  "map_option mark_entry (map_option mark_entry x) = map_option mark_entry x"
  by (cases x) simp_all

lemma mark_resources_Cons:
  "mark_resources (cr # crs) m = mark_resources crs (m(or_id cr := map_option mark_entry (m (or_id cr))))"
proof (cases "m (or_id cr)")
  case None
  then have "m(or_id cr := None) = m" by auto
  with None show ?thesis by simp
next
  case (Some res)
  then have "re_vc_error res \<Longrightarrow> m(or_id cr \<mapsto> res) = m" by auto
  with Some show ?thesis by (simp add: mark_entry_def)
qed

lemma mark_resources_apply:
  "mark_resources crs m rid = (if rid \<in> or_id ` set crs then map_option mark_entry (m rid) else m rid)"
proof (induction crs arbitrary: m)
  case (Cons cr crs)
  show ?case unfolding mark_resources_Cons Cons.IH by auto
qed simp

lemma mark_policies_other: "pid \<notin> op_id ` set ps \<Longrightarrow> mark_policies ps m pid = m pid"
  by (induction ps m rule: mark_policies.induct) (auto split: option.splits)

lemma mark_policies_apply:
  "distinct (map op_id ps) \<Longrightarrow> p \<in> set ps
    \<Longrightarrow> mark_policies ps m (op_id p) = map_option (mark_resources (op_resources p)) (m (op_id p))"
proof (induction ps m rule: mark_policies.induct)
  case (2 q ps m)
  show ?case
  proof (cases "p = q")
    case True
    with 2(3) show ?thesis by (auto simp: mark_policies_other split: option.splits)
  next
    case False
    with 2(3,4) have "p \<in> set ps" "op_id p \<noteq> op_id q" "distinct (map op_id ps)"
      by auto (metis image_eqI)
    with 2(1,2) show ?thesis by (simp del: fun_upd_apply add: fun_upd_other split: option.split)
  qed
qed simp

definition distinct_ids :: "'p os_policy list \<Rightarrow> bool" where
  "distinct_ids ps \<longleftrightarrow> distinct (map op_id ps) \<and> list_all (\<lambda>p. distinct (map or_id (op_resources p))) ps"

text \<open>Positions of the report: resource \<open>k\<close> of policy \<open>a\<close>.\<close>

definition valid_pos :: "'p os_policy list \<Rightarrow> nat \<Rightarrow> nat \<Rightarrow> bool" where
  "valid_pos ps a k \<longleftrightarrow> a < length ps \<and> k < length (op_resources (ps ! a))"

definition pos_le :: "nat \<Rightarrow> nat \<Rightarrow> nat \<Rightarrow> nat \<Rightarrow> bool" where
  "pos_le a k b l \<longleftrightarrow> a < b \<or> (a = b \<and> k \<le> l)"

definition entry_at :: "('p, 'r) config_task \<Rightarrow> nat \<Rightarrow> nat \<Rightarrow> 'r resource_entry option" where
  "entry_at c a k = get_entry (op_id (ct_task c ! a)) (or_id (op_resources (ct_task c ! a) ! k)) c"

lemma distinct_pos:
  assumes "distinct_ids ps" "valid_pos ps a k" "valid_pos ps b l"
  shows "op_id (ps ! a) = op_id (ps ! b) \<longleftrightarrow> a = b"
  using assms by (auto simp: distinct_ids_def valid_pos_def distinct_conv_nth)

lemma distinct_rid:
  assumes "distinct_ids ps" "valid_pos ps a k" "valid_pos ps a k'"
  shows "or_id (op_resources (ps ! a) ! k) = or_id (op_resources (ps ! a) ! k') \<longleftrightarrow> k = k'"
proof -
  from assms have "distinct (map or_id (op_resources (ps ! a)))"
    by (simp add: distinct_ids_def valid_pos_def list_all_length)
  with assms show ?thesis by (auto simp: valid_pos_def distinct_conv_nth)
qed

lemma entry_at_mark:
  assumes "distinct_ids (ct_task c)" "valid_pos (ct_task c) a k"
  shows "entry_at (markPostCheckRequired c) a k = map_option mark_entry (entry_at c a k)"
proof -
  have "ct_task c ! a \<in> set (ct_task c)" "op_resources (ct_task c ! a) ! k \<in> set (op_resources (ct_task c ! a))"
    using assms(2) by (simp_all add: valid_pos_def)
  with assms(1) show ?thesis
    by (auto simp: entry_at_def get_entry_def markPostCheckRequired_def distinct_ids_def
        mark_policies_apply mark_resources_apply split: option.splits)
qed

lemma entry_at_store:
  assumes "distinct_ids (ct_task c)" "valid_pos (ct_task c) a k" "valid_pos (ct_task c) i j"
    and "op_id (ct_task c ! i) \<in> dom (ct_policies c)"
  shows "entry_at (store (op_id (ct_task c ! i)) i j (or_id (op_resources (ct_task c ! i) ! j)) res rc c) a k
    = (if a = i \<and> k = j then Some res else entry_at c a k)"
proof (cases "a = i")
  case True
  with assms distinct_rid [of "ct_task c" i k j] show ?thesis
    by (auto simp: entry_at_def get_entry_def store_def set_entry_def valid_pos_def)
next
  case False
  with assms distinct_pos [of "ct_task c" a k i j] show ?thesis
    by (auto simp: entry_at_def get_entry_def store_def set_entry_def split: option.splits)
qed

lemma get_compliance_store:
  assumes "i < length (ct_results c)" "j < length (pr_compliances (ct_results c ! i))"
  shows "get_compliance a k (store pid i j rid res rc c) = (if a = i \<and> k = j then rc else get_compliance a k c)"
  using assms by (auto simp: get_compliance_def nth_list_update)

text \<open>
  The invariant of the run. \<open>D\<close> is the set of positions dealt with so far: an entry exists
  exactly for the evaluated ones, carries the error flag of its compliance, and is marked
  exactly when an enforcement took place at it or after it.
\<close>

definition enforced_from :: "(nat \<Rightarrow> nat \<Rightarrow> bool) \<Rightarrow> ('p, 'r) config_task \<Rightarrow> nat \<Rightarrow> nat \<Rightarrow> bool" where
  "enforced_from D c a k \<longleftrightarrow>
     (\<exists>b l. D b l \<and> valid_pos (ct_task c) b l \<and> pos_le a k b l \<and> has_step DESIRED_STATE_ENFORCEMENT (get_compliance b l c))"

definition linked :: "(nat \<Rightarrow> nat \<Rightarrow> bool) \<Rightarrow> ('p, 'r) config_task \<Rightarrow> nat \<Rightarrow> nat \<Rightarrow> bool" where
  "linked D c a k \<longleftrightarrow>
     (case entry_at c a k of
        None \<Rightarrow> rc_steps (get_compliance a k c) = []
      | Some res \<Rightarrow> rc_steps (get_compliance a k c) \<noteq> []
          \<and> re_vc_error res = vc_failed (get_compliance a k c)
          \<and> (re_needs_post_check res \<longleftrightarrow> \<not> vc_failed (get_compliance a k c) \<and> enforced_from D c a k))"

definition link_inv :: "(nat \<Rightarrow> nat \<Rightarrow> bool) \<Rightarrow> ('p, 'r) config_task \<Rightarrow> bool" where
  "link_inv D c \<longleftrightarrow> (\<forall>a k. valid_pos (ct_task c) a k \<longrightarrow>
     (if D a k then linked D c a k
      else entry_at c a k = None \<and> rc_steps (get_compliance a k c) = []))"

definition before :: "nat \<Rightarrow> nat \<Rightarrow> nat \<Rightarrow> nat \<Rightarrow> bool" where
  "before i j a k \<longleftrightarrow> a < i \<or> (a = i \<and> k < j)"

definition dims_ok :: "('p, 'r) config_task \<Rightarrow> bool" where
  "dims_ok c \<longleftrightarrow> list_all2 (\<lambda>p r. length (pr_compliances r) = length (op_resources p)) (ct_task c) (ct_results c)"

lemma dims_okD:
  assumes "dims_ok c" "valid_pos (ct_task c) i j"
  shows "i < length (ct_results c)" and "j < length (pr_compliances (ct_results c ! i))"
    and "length (pr_compliances (ct_results c ! i)) = length (op_resources (ct_task c ! i))"
  using assms by (auto simp: dims_ok_def valid_pos_def list_all2_conv_all_nth)

lemma store_simps [simp]:
  "ct_task (store pid i j rid res rc c) = ct_task c"
  "dom (ct_policies (store pid i j rid res rc c)) = dom (ct_policies c)"
  by (simp_all add: store_def)

lemma dims_ok_store [simp]: "dims_ok (store pid i j rid res rc c) = dims_ok c"
proof -
  have "length (pr_compliances ((ct_results (store pid i j rid res rc c)) ! n)) = length (pr_compliances (ct_results c ! n))" for n
    by (cases "i < length (ct_results c)") (auto simp: nth_list_update list_update_beyond)
  then show ?thesis by (auto simp: dims_ok_def list_all2_conv_all_nth)
qed

lemma dims_ok_mark [simp]: "dims_ok (markPostCheckRequired c) = dims_ok c"
  by (simp add: dims_ok_def)

lemma enforced_from_store:
  assumes "dims_ok c" "valid_pos (ct_task c) i j" "pos_le a k i j"
  shows "enforced_from (before i (Suc j)) (store pid i j rid res rc c) a k
    \<longleftrightarrow> enforced_from (before i j) c a k \<or> has_step DESIRED_STATE_ENFORCEMENT rc"
proof -
  let ?c = "store pid i j rid res rc c" and ?E = "has_step DESIRED_STATE_ENFORCEMENT"
  have g: "get_compliance b l ?c = (if b = i \<and> l = j then rc else get_compliance b l c)" for b l
    using dims_okD [OF assms(1,2)] by (simp add: get_compliance_store)
  have split: "before i (Suc j) b l \<longleftrightarrow> before i j b l \<or> (b = i \<and> l = j)" for b l
    by (auto simp: before_def)
  have old: "before i j b l \<Longrightarrow> \<not> (b = i \<and> l = j)" for b l
    by (auto simp: before_def)
  show ?thesis
  proof
    assume "enforced_from (before i (Suc j)) ?c a k"
    then show "enforced_from (before i j) c a k \<or> ?E rc"
      by (auto simp: enforced_from_def g split split: if_splits)
  next
    assume "enforced_from (before i j) c a k \<or> ?E rc"
    then show "enforced_from (before i (Suc j)) ?c a k"
    proof
      assume "enforced_from (before i j) c a k"
      then obtain b l where "before i j b l" "valid_pos (ct_task c) b l" "pos_le a k b l" "?E (get_compliance b l c)"
        by (auto simp: enforced_from_def)
      then show ?thesis using old [of b l] unfolding enforced_from_def
        by - (rule exI [of _ b], rule exI [of _ l], auto simp: g split)
    next
      assume "?E rc"
      with assms(2,3) show ?thesis unfolding enforced_from_def
        by - (rule exI [of _ i], rule exI [of _ j], simp add: g split)
    qed
  qed
qed

lemma enforced_from_mark [simp]: "enforced_from D (markPostCheckRequired c) = enforced_from D c"
  by (simp add: enforced_from_def fun_eq_iff)

lemma linked_step:
  assumes "process_resource ops vo (op_resources (ct_task c ! i) ! j) (get_compliance i j c) w = (stop, act, res, rc, w1)"
    and inv: "link_inv (before i j) c" and d: "distinct_ids (ct_task c)" and dims: "dims_ok c"
    and v: "valid_pos (ct_task c) i j" and pid: "op_id (ct_task c ! i) \<in> dom (ct_policies c)"
    and c1: "c1 = store (op_id (ct_task c ! i)) i j (or_id (op_resources (ct_task c ! i) ! j)) res rc c"
    and c2: "c2 = (if act then markPostCheckRequired c1 else c1)"
  shows "link_inv (before i (Suc j)) c2"
  unfolding link_inv_def
proof (intro allI impI)
  fix a k assume "valid_pos (ct_task c2) a k"
  hence va: "valid_pos (ct_task c) a k" by (simp add: c1 c2 split: if_splits)
  have t1: "ct_task c1 = ct_task c" by (simp add: c1)
  have "rc_steps (get_compliance i j c) = []"
    using inv v by (auto simp: link_inv_def before_def)
  note f = process_resource_facts [OF assms(1) this]
  have e1: "entry_at c1 a k = (if a = i \<and> k = j then Some res else entry_at c a k)"
    unfolding c1 by (rule entry_at_store [OF d va v pid])
  have e2: "entry_at c2 a k = (if act then map_option mark_entry (entry_at c1 a k) else entry_at c1 a k)"
    using entry_at_mark [of c1 a k] d va t1 by (simp add: c2)
  have g: "get_compliance a k c2 = (if a = i \<and> k = j then rc else get_compliance a k c)"
    using dims_okD [OF dims v] by (simp add: c1 c2 get_compliance_store)
  have ef: "enforced_from (before i (Suc j)) c2 a k \<longleftrightarrow> enforced_from (before i j) c a k \<or> act" if "pos_le a k i j"
    using enforced_from_store [OF dims v that] f(5) by (simp add: c1 c2)
  show "if before i (Suc j) a k then linked (before i (Suc j)) c2 a k
        else entry_at c2 a k = None \<and> rc_steps (get_compliance a k c2) = []"
  proof (cases "a = i \<and> k = j")
    case True
    have "\<not> enforced_from (before i j) c i j"
      by (auto simp: enforced_from_def before_def pos_le_def)
    with True ef e1 e2 g f show ?thesis
      by (auto simp: linked_def before_def pos_le_def mark_entry_def split: if_splits)
  next
    case False
    show ?thesis
    proof (cases "before i j a k")
      case True
      with False have "pos_le a k i j" "before i (Suc j) a k" by (auto simp: before_def pos_le_def)
      moreover have "linked (before i j) c a k" using inv va True by (simp add: link_inv_def)
      ultimately show ?thesis using ef e1 e2 g False
        by (auto simp: linked_def mark_entry_def split: option.splits if_splits)
    next
      case nb: False
      with False have "\<not> before i (Suc j) a k" by (auto simp: before_def)
      moreover have "entry_at c a k = None" "rc_steps (get_compliance a k c) = []"
        using inv va nb by (auto simp: link_inv_def)
      ultimately show ?thesis using e1 e2 g False by auto
    qed
  qed
qed

lemma link_inv_extend:
  assumes inv: "link_inv D c" and sub: "\<And>a k. D a k \<Longrightarrow> D' a k"
  shows "link_inv D' c"
  unfolding link_inv_def
proof (intro allI impI)
  fix a k assume v: "valid_pos (ct_task c) a k"
  have none: "\<not> has_step t (get_compliance b l c)" if "valid_pos (ct_task c) b l" "\<not> D b l" for b l t
    using inv that by (simp add: link_inv_def has_step_def)
  have ef: "enforced_from D' c a k = enforced_from D c a k"
    unfolding enforced_from_def using sub none by blast
  from inv v have "if D a k then linked D c a k else entry_at c a k = None \<and> rc_steps (get_compliance a k c) = []"
    by (simp add: link_inv_def)
  then show "if D' a k then linked D' c a k else entry_at c a k = None \<and> rc_steps (get_compliance a k c) = []"
    using sub [of a k] by (cases "D a k") (simp_all add: linked_def ef split: option.splits)
qed

lemma run_resources_linked:
  assumes "run_resources ops vo (op_id p) i j crs c w = (c', w')"
    and "link_inv (before i j) c" "distinct_ids (ct_task c)" "dims_ok c"
    and "i < length (ct_task c)" "p = ct_task c ! i" "crs = drop j (op_resources p)"
    and "op_id p \<in> dom (ct_policies c)"
  shows "link_inv (before (Suc i) 0) c' \<and> dims_ok c'"
  using assms
proof (induction crs arbitrary: j c w)
  case Nil
  from Nil(2) have "link_inv (before (Suc i) 0) c"
    by (rule link_inv_extend) (auto simp: before_def)
  with Nil show ?case by simp
next
  case (Cons cr crs)
  from Cons.prems(7) have len: "j < length (op_resources p)"
    by (metis drop_all list.distinct(1) not_le)
  with Cons.prems(7) have cr: "cr = op_resources (ct_task c ! i) ! j" and tl: "crs = drop (Suc j) (op_resources p)"
    using Cons.prems(6) by (simp_all flip: Cons_nth_drop_Suc)
  from len Cons.prems(5,6) have v: "valid_pos (ct_task c) i j" by (simp add: valid_pos_def)
  obtain stop act res rc w1 where
    p: "process_resource ops vo cr (get_compliance i j c) w = (stop, act, res, rc, w1)"
    by (metis prod_cases5)
  define c1 where "c1 = store (op_id p) i j (or_id cr) res rc c"
  define c2 where "c2 = (if act then markPostCheckRequired c1 else c1)"
  have inv2: "link_inv (before i (Suc j)) c2"
    using linked_step [OF p [unfolded cr] Cons.prems(2-4) v] Cons.prems(6,8) by (simp add: c2_def c1_def cr)
  have fr: "ct_task c2 = ct_task c" "dims_ok c2" "dom (ct_policies c2) = dom (ct_policies c)"
    using Cons.prems(4) by (simp_all add: c2_def c1_def)
  show ?case
  proof (cases stop)
    case True
    with Cons.prems(1) p have "c' = c2" by (auto simp: c2_def c1_def Let_def)
    moreover have "link_inv (before (Suc i) 0) c2"
      by (rule link_inv_extend [OF inv2]) (auto simp: before_def)
    ultimately show ?thesis using fr by simp
  next
    case False
    with Cons.prems(1) p have "run_resources ops vo (op_id p) i (Suc j) crs c2 w1 = (c', w')"
      by (auto simp: c2_def c1_def Let_def)
    from Cons.IH [OF this inv2] fr Cons.prems tl show ?thesis by simp
  qed
qed

lemma managed_irrelevant [simp]:
  "get_compliance a k (c\<lparr>ct_managed := m\<rparr>) = get_compliance a k c"
  "entry_at (c\<lparr>ct_managed := m\<rparr>) a k = entry_at c a k"
  "dims_ok (c\<lparr>ct_managed := m\<rparr>) = dims_ok c"
  by (simp_all add: dims_ok_def entry_at_def get_entry_def get_compliance_def)

lemma link_inv_managed [simp]: "link_inv D (c\<lparr>ct_managed := m\<rparr>) = link_inv D c"
proof -
  have "enforced_from D (c\<lparr>ct_managed := m\<rparr>) a k = enforced_from D c a k" for a k
    by (simp add: enforced_from_def)
  then show ?thesis by (simp add: link_inv_def linked_def cong: option.case_cong)
qed

lemma entry_at_new_policy:
  assumes "distinct_ids (ct_task c)" "i < length (ct_task c)" "valid_pos (ct_task c) a k"
  shows "entry_at (c\<lparr>ct_policies := (ct_policies c)(op_id (ct_task c ! i) \<mapsto> Map.empty)\<rparr>) a k
    = (if a = i then None else entry_at c a k)"
proof (cases "a = i")
  case False
  with assms have "op_id (ct_task c ! a) \<noteq> op_id (ct_task c ! i)"
    by (auto simp: distinct_ids_def valid_pos_def distinct_conv_nth)
  with False show ?thesis by (simp add: entry_at_def get_entry_def)
qed (simp add: entry_at_def get_entry_def)

lemma link_inv_new_policy:
  assumes "link_inv (before i 0) c" "distinct_ids (ct_task c)" "i < length (ct_task c)"
  shows "link_inv (before i 0) (c\<lparr>ct_policies := (ct_policies c)(op_id (ct_task c ! i) \<mapsto> Map.empty)\<rparr>)"
    (is "link_inv _ ?c")
proof -
  have g: "get_compliance a k ?c = get_compliance a k c" for a k by (simp add: get_compliance_def)
  have ef: "enforced_from D ?c a k = enforced_from D c a k" for D a k by (simp add: enforced_from_def g)
  have e: "valid_pos (ct_task c) a k \<Longrightarrow> entry_at ?c a k = (if a = i then None else entry_at c a k)" for a k
    by (rule entry_at_new_policy [OF assms(2,3)])
  show ?thesis
    unfolding link_inv_def
  proof (intro allI impI)
    fix a k assume "valid_pos (ct_task ?c) a k"
    hence v: "valid_pos (ct_task c) a k" by simp
    from assms(1) v have
      "if before i 0 a k then linked (before i 0) c a k else entry_at c a k = None \<and> rc_steps (get_compliance a k c) = []"
      by (simp add: link_inv_def)
    then show "if before i 0 a k then linked (before i 0) ?c a k
        else entry_at ?c a k = None \<and> rc_steps (get_compliance a k ?c) = []"
      using e [OF v] by (cases "a = i") (simp_all add: linked_def g ef before_def cong: option.case_cong split: if_splits)
  qed
qed

lemma run_policies_linked:
  assumes "run_policies ops i ps c w = (c', w')"
    and "link_inv (before i 0) c" "distinct_ids (ct_task c)" "dims_ok c"
    and "ps = drop i (ct_task c)" "i \<le> length (ct_task c)"
  shows "link_inv (before (length (ct_task c)) 0) c' \<and> dims_ok c' \<and> ct_task c' = ct_task c"
  using assms
proof (induction ps arbitrary: i c w)
  case Nil
  with Nil have "i = length (ct_task c)" by simp
  with Nil show ?case by simp
next
  case (Cons p ps)
  from Cons.prems(5) have i: "i < length (ct_task c)"
    by (metis drop_all list.distinct(1) not_le)
  with Cons.prems(5) have p: "p = ct_task c ! i" and tl: "ps = drop (Suc i) (ct_task c)"
    by (simp_all flip: Cons_nth_drop_Suc)
  let ?c0 = "c\<lparr>ct_policies := (ct_policies c)(op_id p \<mapsto> Map.empty)\<rparr>"
  obtain c1 w1 where r: "run_resources ops (op_mode p = MODE_VALIDATION) (op_id p) i 0 (op_resources p) ?c0 w = (c1, w1)"
    by fastforce
  from Cons.prems(1) r have rr: "run_policies ops (Suc i) ps (c1\<lparr>ct_managed := ct_managed c1 @ [None]\<rparr>) w1 = (c', w')"
    by (simp add: run_policy_def)
  have "link_inv (before i 0) ?c0" using link_inv_new_policy Cons.prems(2,3) i p by simp
  moreover have "dims_ok ?c0" using Cons.prems(4) by (simp add: dims_ok_def)
  ultimately have l: "link_inv (before (Suc i) 0) c1 \<and> dims_ok c1"
    using run_resources_linked [OF r] Cons.prems(3) i p by simp
  from run_resources_frame [OF r] have t: "ct_task c1 = ct_task c" by (simp add: same_frame_def)
  from Cons.IH [OF rr] l t Cons.prems(3) tl i show ?case by simp
qed

section \<open>The post check phase\<close>

definition needs_flag :: "('p, 'r) config_task \<Rightarrow> string \<Rightarrow> string \<Rightarrow> bool" where
  "needs_flag c pid rid = (case get_entry pid rid c of None \<Rightarrow> False | Some res \<Rightarrow> re_needs_post_check res)"

fun post_rel :: "bool \<Rightarrow> compliance \<Rightarrow> compliance \<Rightarrow> bool" where
  "post_rel True rc rc' \<longleftrightarrow>
     (\<exists>out msg st. rc' = add_step DESIRED_STATE_CHECK_POST_ENFORCEMENT out msg st rc
        \<and> length msg \<le> maxErrorMessage \<and> (out = SUCCEEDED \<longrightarrow> msg = [])
        \<and> (if out = SUCCEEDED then st \<in> {COMPLIANT, NON_COMPLIANT} else st = UNKNOWN_STATE))"
| "post_rel False rc rc' \<longleftrightarrow> rc' = rc"

lemma postCheck_facts:
  assumes "postCheckConfigResourceState ops rid res rc w = (res', rc', w')"
  shows "post_rel (re_needs_post_check res) rc rc'" and "re_needs_post_check res' = re_needs_post_check res"
proof -
  obtain e r' w1 where r: "ro_check ops (re_iface res) w = (e, r', w1)" by (metis prod_cases3)
  have "post_rel (re_needs_post_check res) rc rc' \<and> re_needs_post_check res' = re_needs_post_check res"
  proof (cases "re_needs_post_check res")
    case True
    show ?thesis
    proof (cases e)
      case None
      with True r assms show ?thesis
        by (auto simp: postCheckConfigResourceState_def Let_def desired_to_state_def
            intro!: exI [of _ SUCCEEDED] exI [of _ "[]"])
    next
      case (Some err)
      with True r assms show ?thesis
        by (auto simp: postCheckConfigResourceState_def Let_def
            intro!: exI [of _ FAILED] exI [of _ "truncated x" for x] length_truncated)
    qed
  next
    case False
    with assms show ?thesis by (simp add: postCheckConfigResourceState_def)
  qed
  then show "post_rel (re_needs_post_check res) rc rc'" "re_needs_post_check res' = re_needs_post_check res"
    by simp_all
qed

lemma get_entry_store:
  "get_entry p r (store pid i j rid res rc c)
    = (if p = pid \<and> r = rid \<and> pid \<in> dom (ct_policies c) then Some res else get_entry p r c)"
  by (auto simp: get_entry_def store_def set_entry_def split: option.splits)

lemma needs_flag_store:
  assumes "get_entry pid rid c = Some res" "re_needs_post_check res' = re_needs_post_check res"
  shows "needs_flag (store pid i j rid res' rc c) = needs_flag c"
proof -
  have "needs_flag (store pid i j rid res' rc c) p r = needs_flag c p r" for p r
    using assms by (cases "p = pid \<and> r = rid") (auto simp: needs_flag_def get_entry_store)
  then show ?thesis by (simp add: fun_eq_iff)
qed

lemma post_resources_rows:
  assumes "post_resources ops pid i j crs c w = (c', w')"
    and "i < length (ct_results c)"
    and "length (pr_compliances (ct_results c ! i)) = j + length crs"
  shows "needs_flag c' = needs_flag c \<and>
    (\<exists>row'. ct_results c' = (ct_results c)[i := (ct_results c ! i)\<lparr>pr_compliances :=
        take j (pr_compliances (ct_results c ! i)) @ row'\<rparr>]
      \<and> list_all2 (\<lambda>(r, rc) rc'. post_rel (needs_flag c pid (or_id r)) rc rc')
          (zip crs (drop j (pr_compliances (ct_results c ! i)))) row')"
  using assms
proof (induction crs arbitrary: j c w)
  case Nil
  then show ?case by simp
next
  case (Cons cr crs)
  let ?row = "pr_compliances (ct_results c ! i)"
  have j: "j < length ?row" using Cons.prems(3) by simp
  hence d: "drop j ?row = ?row ! j # drop (Suc j) ?row" by (simp add: Cons_nth_drop_Suc)
  show ?case
  proof (cases "get_entry pid (or_id cr) c")
    case None
    with Cons.prems(1) have "post_resources ops pid i (Suc j) crs c w = (c', w')" by simp
    from Cons.IH [OF this] Cons.prems(2,3) obtain row' where
      n: "needs_flag c' = needs_flag c" and
      r: "ct_results c' = (ct_results c)[i := (ct_results c ! i)\<lparr>pr_compliances := take (Suc j) ?row @ row'\<rparr>]"
      "list_all2 (\<lambda>(r, rc) rc'. post_rel (needs_flag c pid (or_id r)) rc rc') (zip crs (drop (Suc j) ?row)) row'"
      by auto
    have "\<not> needs_flag c pid (or_id cr)" using None by (simp add: needs_flag_def)
    with n r j d show ?thesis
      by (intro conjI exI [of _ "?row ! j # row'"]) (simp_all add: take_Suc_conv_app_nth)
  next
    case (Some res)
    obtain res' rc' w1 where p: "postCheckConfigResourceState ops (or_id cr) res (?row ! j) w = (res', rc', w1)"
      by (metis prod_cases3)
    define c1 where "c1 = store pid i j (or_id cr) res' rc' c"
    note f = postCheck_facts [OF p]
    from Some p Cons.prems(1) have r1: "post_resources ops pid i (Suc j) crs c1 w1 = (c', w')"
      by (simp add: get_compliance_def c1_def)
    have nf: "needs_flag c1 = needs_flag c" unfolding c1_def by (rule needs_flag_store [OF Some f(2)])
    have row1: "ct_results c1 = (ct_results c)[i := (ct_results c ! i)\<lparr>pr_compliances := ?row[j := rc']\<rparr>]"
      by (simp add: c1_def)
    from Cons.IH [OF r1] Cons.prems(2,3) row1 nf obtain row' where
      n: "needs_flag c' = needs_flag c" and
      r: "ct_results c' = (ct_results c)[i := (ct_results c ! i)\<lparr>pr_compliances := take (Suc j) (?row[j := rc']) @ row'\<rparr>]"
      "list_all2 (\<lambda>(r, rc) rc'. post_rel (needs_flag c pid (or_id r)) rc rc') (zip crs (drop (Suc j) ?row)) row'"
      by auto
    have "needs_flag c pid (or_id cr) = re_needs_post_check res" using Some by (simp add: needs_flag_def)
    with n r j d f(1) show ?thesis
      by (intro conjI exI [of _ "rc' # row'"]) (simp_all add: list_update_append_drop)
  qed
qed

definition post_row :: "(string \<Rightarrow> string \<Rightarrow> bool) \<Rightarrow> 'p os_policy \<Rightarrow> policy_result \<Rightarrow> policy_result \<Rightarrow> bool" where
  "post_row nf p r r' \<longleftrightarrow> pr_id r' = pr_id r \<and> pr_assignment r' = pr_assignment r \<and>
     list_all2 (\<lambda>(q, rc) rc'. post_rel (nf (op_id p) (or_id q)) rc rc')
       (zip (op_resources p) (pr_compliances r)) (pr_compliances r')"

lemma post_policies_rows:
  assumes "post_policies ops i ps c w = (c', w')"
    and "list_all2 (\<lambda>p r. length (pr_compliances r) = length (op_resources p)) ps (drop i (ct_results c))"
    and "op_id ` set ps \<subseteq> dom (ct_policies c)" and "i \<le> length (ct_results c)"
  shows "take i (ct_results c') = take i (ct_results c)
    \<and> list_all2 (\<lambda>(p, r) r'. post_row (needs_flag c) p r r') (zip ps (drop i (ct_results c))) (drop i (ct_results c'))"
  using assms
proof (induction ps arbitrary: i c w)
  case Nil
  then show ?case by simp
next
  case (Cons p ps)
  from Cons.prems(2) have i: "i < length (ct_results c)" by (auto simp: list_all2_Cons1 drop_Cons' dest: Cons_nth_drop_Suc) (metis drop_all list.distinct(1) not_le)
  hence d: "drop i (ct_results c) = ct_results c ! i # drop (Suc i) (ct_results c)" by (simp add: Cons_nth_drop_Suc)
  obtain m where m: "ct_policies c (op_id p) = Some m" using Cons.prems(3) by auto
  obtain c1 w1 where r: "post_resources ops (op_id p) i 0 (op_resources p) c w = (c1, w1)" by fastforce
  with m Cons.prems(1) have rr: "post_policies ops (Suc i) ps c1 w1 = (c', w')" by simp
  from Cons.prems(2) d have len: "length (pr_compliances (ct_results c ! i)) = 0 + length (op_resources p)" by simp
  from post_resources_rows [OF r i len] obtain row' where nf: "needs_flag c1 = needs_flag c"
    and r1: "ct_results c1 = (ct_results c)[i := (ct_results c ! i)\<lparr>pr_compliances := row'\<rparr>]"
    and rel: "list_all2 (\<lambda>(r, rc) rc'. post_rel (needs_flag c (op_id p) (or_id r)) rc rc')
          (zip (op_resources p) (pr_compliances (ct_results c ! i))) row'" by auto
  from post_resources_frame [OF r] have dom: "dom (ct_policies c1) = dom (ct_policies c)"
    by (simp add: same_frame_def)
  have len1: "length (ct_results c1) = length (ct_results c)"
    and d1: "drop (Suc i) (ct_results c1) = drop (Suc i) (ct_results c)" using r1 by simp_all
  have "list_all2 (\<lambda>p r. length (pr_compliances r) = length (op_resources p)) ps (drop (Suc i) (ct_results c1))"
    using Cons.prems(2) d d1 by simp
  from Cons.IH [OF rr this] have t: "take (Suc i) (ct_results c') = take (Suc i) (ct_results c1)"
    and l: "list_all2 (\<lambda>(p, r) r'. post_row (needs_flag c) p r r') (zip ps (drop (Suc i) (ct_results c))) (drop (Suc i) (ct_results c'))"
    using Cons.prems(3) i dom len1 d1 nf by auto
  from t i len1 have i': "i < length (ct_results c')"
    by (metis Suc_leI length_take min.absorb2 min_less_iff_conj lessI)
  have n: "ct_results c' ! i = (ct_results c ! i)\<lparr>pr_compliances := row'\<rparr>"
    using arg_cong [OF t, of "\<lambda>xs. xs ! i"] r1 i by simp
  have "take i (ct_results c') = take i (ct_results c)"
    using arg_cong [OF t, of "take i"] r1 by (simp add: min_def)
  moreover have "drop i (ct_results c') = ct_results c' ! i # drop (Suc i) (ct_results c')"
    using i' by (simp add: Cons_nth_drop_Suc)
  ultimately show ?case using l rel n d by (simp add: post_row_def)
qed

section \<open>Reports and cleanup\<close>

lemma reportCompletedState_simps [simp]:
  "ct_results (fst (snd (reportCompletedState cl m st c w))) = ct_results c"
  "ct_policies (fst (snd (reportCompletedState cl m st c w))) = ct_policies c"
  "ct_task (fst (snd (reportCompletedState cl m st c w))) = ct_task c"
  "ct_sent (fst (snd (reportCompletedState cl m st c w))) = ct_sent c @ [CfgComplete (ct_task_id c) m st (ct_results c)]"
  by (simp_all add: reportCompletedState_def split: prod.splits)

definition error_report :: "string \<Rightarrow> go_error \<Rightarrow> string \<times> cfg_output" where
  "error_report msg err = (if err = ErrServerCancel then (err_text ErrServerCancel, OUT_CANCELLED)
     else (msg @ '': '' @ err_text err, OUT_FAILED))"

lemma handleErrorState_simps [simp]:
  "ct_results (fst (snd (handleErrorState cl m err c w))) = ct_results c"
  "ct_policies (fst (snd (handleErrorState cl m err c w))) = ct_policies c"
  "ct_task (fst (snd (handleErrorState cl m err c w))) = ct_task c"
  "ct_sent (fst (snd (handleErrorState cl m err c w)))
     = ct_sent c @ [CfgComplete (ct_task_id c) (fst (error_report m err)) (snd (error_report m err)) (ct_results c)]"
  by (simp_all add: handleErrorState_def error_report_def)

lemma reportContinuingState_frame:
  assumes "reportContinuingState cl s c w = (e, c', w')"
  shows "ct_results c' = ct_results c \<and> ct_policies c' = ct_policies c \<and> ct_task c' = ct_task c
    \<and> ct_task_id c' = ct_task_id c
    \<and> (ct_last_progress c s = None \<longrightarrow> ct_sent c' = ct_sent c @ [CfgProgress (ct_task_id c) s])
    \<and> (\<forall>t. t \<noteq> s \<longrightarrow> ct_last_progress c' t = ct_last_progress c t)"
  using assms
  by (auto simp: reportContinuingState_def Let_def split: option.splits prod.splits sum.splits directive.splits if_splits)

lemma cleanup_resources_panic:
  "is_panic (cleanup_resources ops pid crs c w) \<longleftrightarrow> crs \<noteq> [] \<and> ct_policies c pid = None"
proof (induction crs arbitrary: c w)
  case (Cons cr crs)
  have "ct_policies (set_entry pid rid res c) pid = None \<longleftrightarrow> ct_policies c pid = None" for rid res
    by (auto simp: set_entry_def split: option.splits)
  with Cons.IH show ?case by (auto split: option.splits prod.splits)
qed simp

lemma cleanup_resources_frame:
  "cleanup_resources ops pid crs c w = Done (c', w') \<Longrightarrow> same_frame c c' \<and> ct_results c' = ct_results c"
proof (induction crs arbitrary: c w)
  case (Cons cr crs)
  then show ?case
    by (fastforce split: option.splits prod.splits simp: same_frame_def)
qed simp

lemma cleanup_policies_frame:
  "cleanup_policies ops ps c w = Done (c', w') \<Longrightarrow> same_frame c c' \<and> ct_results c' = ct_results c"
proof (induction ps arbitrary: c w)
  case (Cons p ps)
  then show ?case
    by (fastforce simp: obind_Done_iff dest: cleanup_resources_frame intro: same_frame_trans)
qed simp

lemma cleanup_policies_panic:
  "is_panic (cleanup_policies ops ps c w) \<longleftrightarrow> (\<exists>p \<in> set ps. op_resources p \<noteq> [] \<and> ct_policies c (op_id p) = None)"
proof (induction ps arbitrary: c w)
  case (Cons p ps)
  have dom: "ct_policies c1 pid = None \<longleftrightarrow> ct_policies c pid = None"
    if "cleanup_resources ops (op_id p) (op_resources p) c w = Done (c1, w1)" for c1 w1 pid
    using cleanup_resources_frame [OF that] unfolding same_frame_def by (metis domIff)
  show ?case
  proof (cases "cleanup_resources ops (op_id p) (op_resources p) c w")
    case (Done x)
    then obtain c1 w1 where x: "cleanup_resources ops (op_id p) (op_resources p) c w = Done (c1, w1)"
      by (cases x) auto
    with cleanup_resources_panic [of ops "op_id p" "op_resources p" c w] have
      "\<not> (op_resources p \<noteq> [] \<and> ct_policies c (op_id p) = None)" by simp
    with x Cons.IH [of c1 w1] dom [OF x] show ?thesis by auto
  next
    case (Panic msg)
    with cleanup_resources_panic [of ops "op_id p" "op_resources p" c w] show ?thesis by simp
  qed
qed simp

lemma with_cleanup_panic:
  "is_panic (with_cleanup ops (e, c, w)) \<longleftrightarrow> (\<exists>p \<in> set (ct_task c). op_resources p \<noteq> [] \<and> ct_policies c (op_id p) = None)"
  by (simp add: with_cleanup_def cleanup_def obind_panic_iff cleanup_policies_panic)

lemma with_cleanup_Done:
  "with_cleanup ops (e, c, w) = Done (e', c', w') \<Longrightarrow> e' = e \<and> same_frame c c' \<and> ct_results c' = ct_results c"
  by (auto simp: with_cleanup_def cleanup_def obind_Done_iff dest: cleanup_policies_frame)

section \<open>The ways a run ends\<close>

definition sent_error :: "string \<Rightarrow> cfg_request list \<Rightarrow> policy_result list \<Rightarrow> go_error \<Rightarrow> cfg_request list" where
  "sent_error tid pre rs err =
     pre @ [CfgComplete tid (fst (error_report rcsErrMsg err)) (snd (error_report rcsErrMsg err)) rs]"

definition apply_state :: "'p os_policy list \<Rightarrow> string \<Rightarrow> ('p, 'r) config_task \<Rightarrow> bool" where
  "apply_state ps tid c \<longleftrightarrow> ct_results c = map base_result ps \<and> ct_task c = ps \<and> ct_task_id c = tid
     \<and> ct_sent c = [CfgProgress tid PS_STARTED, CfgProgress tid PS_APPLYING_CONFIG]"

text \<open>The run after its first report.\<close>

definition run_apply :: "('p, 'r, 'w) resource_ops \<Rightarrow> 'w task_client \<Rightarrow> ('p, 'r) config_task \<Rightarrow> 'w
    \<Rightarrow> (go_error option \<times> ('p, 'r) config_task \<times> 'w) outcome" where
  "run_apply ops cl c1 w1 =
     (case reportContinuingState cl PS_APPLYING_CONFIG (generateBaseResults c1) w1 of
        (Some err, c2, w2) \<Rightarrow> with_cleanup ops (handleErrorState cl rcsErrMsg err c2 w2)
      | (None, c2, w2) \<Rightarrow>
          (case run_policies ops 0 (ct_task c2) (c2\<lparr>ct_policies := Map.empty\<rparr>) w2 of (c3, w3) \<Rightarrow>
             (case postCheckState ops c3 w3 of (c4, w4) \<Rightarrow>
                with_cleanup ops (reportCompletedState cl [] OUT_SUCCEEDED c4 w4))))"

lemma run_config_split:
  "run_config ops cl c w =
     (case reportContinuingState cl PS_STARTED (c\<lparr>ct_started_at := tc_now cl w\<rparr>) w of
        (Some err, c1, w1) \<Rightarrow> Done (handleErrorState cl rcsErrMsg err c1 w1)
      | (None, c1, w1) \<Rightarrow>
          if ct_task c1 = [] then Done (reportCompletedState cl [] OUT_SUCCEEDED c1 w1)
          else run_apply ops cl c1 w1)"
  unfolding run_config_def run_apply_def ..

abbreviation started :: "string \<Rightarrow> cfg_request list" where
  "started tid \<equiv> [CfgProgress tid PS_STARTED]"

abbreviation applying :: "string \<Rightarrow> cfg_request list" where
  "applying tid \<equiv> [CfgProgress tid PS_STARTED, CfgProgress tid PS_APPLYING_CONFIG]"

definition start_state :: "'p os_policy list \<Rightarrow> string \<Rightarrow> ('p, 'r) config_task \<Rightarrow> bool" where
  "start_state ps tid c \<longleftrightarrow> ct_results c = [] \<and> ct_policies c = Map.empty \<and> ct_task c = ps
     \<and> ct_task_id c = tid \<and> ct_sent c = started tid \<and> ct_last_progress c PS_APPLYING_CONFIG = None"

lemma first_report:
  assumes "reportContinuingState cl PS_STARTED ((new_config_task tid ps)\<lparr>ct_started_at := t\<rparr>) w = (e1, c1, w1)"
  shows "start_state ps tid c1"
  using reportContinuingState_frame [OF assms] by (auto simp: new_config_task_def start_state_def)

lemma second_report:
  assumes "reportContinuingState cl PS_APPLYING_CONFIG (generateBaseResults c1) w1 = (e2, c2, w2)"
    and "start_state ps tid c1"
  shows "apply_state ps tid c2" and "ct_policies c2 = Map.empty"
  using reportContinuingState_frame [OF assms(1)] assms(2)
  by (auto simp: generateBaseResults_def apply_state_def start_state_def)

lemma error_phase:
  assumes "with_cleanup ops (handleErrorState cl rcsErrMsg err c2 w2) = Done (e, c', w')"
    and "apply_state ps tid c2" "ct_policies c2 = Map.empty"
  shows "ct_sent c' = sent_error tid (applying tid) (map base_result ps) err"
    and "list_all (\<lambda>p. op_resources p = []) ps"
proof -
  define h where "h = handleErrorState cl rcsErrMsg err c2 w2"
  obtain e3 c3 w3 where h: "h = (e3, c3, w3)" by (metis prod_cases3)
  have "c3 = fst (snd h)" by (simp add: h)
  with assms(2,3) have s3: "ct_sent c3 = sent_error tid (applying tid) (map base_result ps) err"
    "ct_task c3 = ps" "ct_policies c3 = Map.empty"
    by (simp_all add: h_def apply_state_def sent_error_def)
  from assms(1) h have wc: "with_cleanup ops (e3, c3, w3) = Done (e, c', w')" by (simp add: h_def)
  from with_cleanup_Done [OF wc] s3(1) show "ct_sent c' = sent_error tid (applying tid) (map base_result ps) err"
    by (simp add: same_frame_def)
  show "list_all (\<lambda>p. op_resources p = []) ps"
    using with_cleanup_panic [of ops e3 c3 w3] wc s3(2,3) by (auto simp: list_all_iff)
qed

lemma apply_frame:
  assumes "run_policies ops 0 ps (c2\<lparr>ct_policies := Map.empty\<rparr>) w2 = (c3, w3)"
    and "post_policies ops 0 ps c3 w3 = (c4, w4)" "apply_state ps tid c2"
  shows "ct_task c4 = ps" and "ct_task c3 = ps" and "ct_task_id c4 = tid" and "ct_sent c4 = applying tid"
    and "dom (ct_policies c4) = op_id ` set ps" and "dom (ct_policies c3) = op_id ` set ps"
  using run_policies_frame [OF assms(1)] post_policies_frame [OF assms(2)] assms(3)
  by (simp_all add: apply_state_def same_frame_def)

lemma done_phase:
  assumes "with_cleanup ops (reportCompletedState cl [] OUT_SUCCEEDED c4 w4) = Done (e, c', w')"
    and "ct_task_id c4 = tid" "ct_sent c4 = applying tid"
  shows "ct_sent c' = applying tid @ [CfgComplete tid [] OUT_SUCCEEDED (ct_results c4)]"
proof -
  define h where "h = reportCompletedState cl [] OUT_SUCCEEDED c4 w4"
  obtain e5 c5 w5 where h: "h = (e5, c5, w5)" by (metis prod_cases3)
  have "c5 = fst (snd h)" by (simp add: h)
  with assms(2,3) have s5: "ct_sent c5 = applying tid @ [CfgComplete tid [] OUT_SUCCEEDED (ct_results c4)]"
    by (simp add: h_def)
  from assms(1) h have "with_cleanup ops (e5, c5, w5) = Done (e, c', w')" by (simp add: h_def)
  from with_cleanup_Done [OF this] s5 show ?thesis by (simp add: same_frame_def)
qed

lemma run_apply_cases:
  assumes "run_apply ops cl c1 w1 = Done (e, c', w')" and "start_state ps tid c1"
  obtains (apply_error) err where "list_all (\<lambda>p. op_resources p = []) ps"
      "ct_sent c' = sent_error tid (applying tid) (map base_result ps) err"
  | (applied) c2 w2 c3 w3 c4 w4 where "apply_state ps tid c2"
      "run_policies ops 0 ps (c2\<lparr>ct_policies := Map.empty\<rparr>) w2 = (c3, w3)"
      "post_policies ops 0 ps c3 w3 = (c4, w4)"
      "ct_sent c' = applying tid @ [CfgComplete tid [] OUT_SUCCEEDED (ct_results c4)]"
proof -
  obtain e2 c2 w2 where r2: "reportContinuingState cl PS_APPLYING_CONFIG (generateBaseResults c1) w1 = (e2, c2, w2)"
    by (metis prod_cases3)
  note f2 = second_report [OF r2 assms(2)]
  show thesis
  proof (cases e2)
    case (Some err)
    with assms(1) r2 have "with_cleanup ops (handleErrorState cl rcsErrMsg err c2 w2) = Done (e, c', w')"
      by (simp add: run_apply_def)
    from error_phase [OF this f2] show thesis by (intro apply_error)
  next
    case None
    obtain c3 w3 where rp: "run_policies ops 0 ps (c2\<lparr>ct_policies := Map.empty\<rparr>) w2 = (c3, w3)" by fastforce
    obtain c4 w4 where pp: "post_policies ops 0 ps c3 w3 = (c4, w4)" by fastforce
    note f4 = apply_frame [OF rp pp f2(1)]
    have "ct_task c2 = ps" using f2 by (simp add: apply_state_def)
    with assms(1) r2 None rp pp f4(2) have
      "with_cleanup ops (reportCompletedState cl [] OUT_SUCCEEDED c4 w4) = Done (e, c', w')"
      by (simp add: run_apply_def postCheckState_def)
    from done_phase [OF this f4(3,4)] f2(1) rp pp show thesis by (intro applied)
  qed
qed

lemma run_cases:
  fixes c' :: "('p, 'r) config_task"
  assumes "RunApplyConfig ops cl tid ps w = Done (e, c', w')"
  obtains (start_error) err where "ct_sent c' = sent_error tid (started tid) [] err"
  | (nothing) "ps = []" "ct_sent c' = started tid @ [CfgComplete tid [] OUT_SUCCEEDED []]"
  | (apply_error) err where "ps \<noteq> []" "list_all (\<lambda>p. op_resources p = []) ps"
      "ct_sent c' = sent_error tid (applying tid) (map base_result ps) err"
  | (applied) c2 w2 c3 w3 c4 w4 where "ps \<noteq> []" "apply_state ps tid c2"
      "run_policies ops 0 ps (c2\<lparr>ct_policies := Map.empty\<rparr>) w2 = (c3, w3)"
      "post_policies ops 0 ps c3 w3 = (c4, w4)"
      "ct_sent c' = applying tid @ [CfgComplete tid [] OUT_SUCCEEDED (ct_results c4)]"
proof -
  obtain e1 c1 w1 where r1: "reportContinuingState cl PS_STARTED
      ((new_config_task tid ps :: ('p, 'r) config_task)\<lparr>ct_started_at := tc_now cl w\<rparr>) w = (e1, c1, w1)" by (metis prod_cases3)
  note f1 = first_report [OF r1]
  note run = assms [unfolded RunApplyConfig_def run_config_split r1]
  consider (err) err where "e1 = Some err" | (none) "e1 = None" "ps = []" | (some) "e1 = None" "ps \<noteq> []"
    by (cases e1) auto
  then show thesis
  proof cases
    case err
    with run have "c' = fst (snd (handleErrorState cl rcsErrMsg err c1 w1))" by simp
    with f1 show thesis by (intro start_error [of err]) (simp add: sent_error_def start_state_def)
  next
    case none
    with run f1 have "c' = fst (snd (reportCompletedState cl [] OUT_SUCCEEDED c1 w1))" by (simp add: start_state_def)
    with f1 none show thesis by - (rule nothing, simp_all add: start_state_def)
  next
    case some
    with run f1 have "run_apply ops cl c1 w1 = Done (e, c', w')" by (simp add: start_state_def)
    from this f1 show thesis by (rule run_apply_cases) (use some in \<open>auto intro: apply_error applied\<close>)
  qed
qed

section \<open>The final report\<close>

text \<open>
  The final step sequence of a resource: that of the first phase, possibly followed by one post
  check, which then alone decides the state and which no failed validation or check receives.
\<close>

definition post_state_ok :: "step_outcome \<Rightarrow> compliance_state \<Rightarrow> bool" where
  "post_state_ok out st \<longleftrightarrow> (if out = SUCCEEDED then st \<in> {COMPLIANT, NON_COMPLIANT} else st = UNKNOWN_STATE)"

definition final_ok :: "bool \<Rightarrow> compliance \<Rightarrow> bool" where
  "final_ok vo rc \<longleftrightarrow>
     (case rev (step_shape rc) of
        (DESIRED_STATE_CHECK_POST_ENFORCEMENT, out) # pre \<Rightarrow>
          list_ex (phase_ok vo (rev pre)) [UNKNOWN_STATE, COMPLIANT, NON_COMPLIANT]
          \<and> \<not> vc_failed rc \<and> post_state_ok out (rc_state rc)
      | _ \<Rightarrow> phase_ok vo (step_shape rc) (rc_state rc))"

fun final_row_ok :: "bool \<Rightarrow> compliance list \<Rightarrow> bool" where
  "final_row_ok vo [] \<longleftrightarrow> True"
| "final_row_ok vo (rc # rcs) \<longleftrightarrow> final_ok vo rc \<and> messages_ok rc \<and>
     (if stopping rc then list_all (\<lambda>r. rc_steps r = [] \<and> rc_state r = STATE_UNSPECIFIED) rcs
      else final_row_ok vo rcs)"

definition final_result_ok :: "'p os_policy \<Rightarrow> policy_result \<Rightarrow> bool" where
  "final_result_ok p r \<longleftrightarrow> pr_id r = op_id p \<and> pr_assignment r = op_assignment p
     \<and> map rc_id (pr_compliances r) = map or_id (op_resources p)
     \<and> final_row_ok (op_mode p = MODE_VALIDATION) (pr_compliances r)"

text \<open>What the post check phase may do to one compliance.\<close>

definition post_change :: "compliance \<Rightarrow> compliance \<Rightarrow> bool" where
  "post_change rc rc' \<longleftrightarrow> (\<exists>b. post_rel b rc rc' \<and> (b \<longrightarrow> rc_steps rc \<noteq> [] \<and> \<not> vc_failed rc))"

lemma phase_ok_cases:
  assumes "phase_ok vo sh st"
  obtains "sh = [(VALIDATION, FAILED)]" | "sh = [(VALIDATION, SUCCEEDED), (DESIRED_STATE_CHECK, FAILED)]"
  | "sh = [(VALIDATION, SUCCEEDED), (DESIRED_STATE_CHECK, SUCCEEDED)]"
  | out where "sh = [(VALIDATION, SUCCEEDED), (DESIRED_STATE_CHECK, SUCCEEDED), (DESIRED_STATE_ENFORCEMENT, out)]"
  using assms by (cases "(vo, sh, st)" rule: phase_ok.cases) auto

lemma phase_ok_no_post:
  "phase_ok vo sh st \<Longrightarrow> DESIRED_STATE_CHECK_POST_ENFORCEMENT \<notin> fst ` set sh"
  by (erule phase_ok_cases) auto

lemma phase_ok_state:
  "phase_ok vo sh st \<Longrightarrow> st \<in> {UNKNOWN_STATE, COMPLIANT, NON_COMPLIANT}"
  by (cases "(vo, sh, st)" rule: phase_ok.cases) auto

lemma phase_ok_final:
  assumes "phase_ok vo (step_shape rc) (rc_state rc)"
  shows "final_ok vo rc"
  using assms by (rule phase_ok_cases) (use assms in \<open>simp_all add: final_ok_def\<close>)

lemma post_rel_preds:
  assumes "post_rel b rc rc'"
  shows "vc_failed rc' = vc_failed rc" and "enforce_failed rc' = enforce_failed rc" and "stopping rc' = stopping rc"
    and "has_step DESIRED_STATE_ENFORCEMENT rc' = has_step DESIRED_STATE_ENFORCEMENT rc"
    and "messages_ok rc \<Longrightarrow> messages_ok rc'" and "rc_id rc' = rc_id rc"
    and "has_step DESIRED_STATE_CHECK_POST_ENFORCEMENT rc' \<longleftrightarrow> b \<or> has_step DESIRED_STATE_CHECK_POST_ENFORCEMENT rc"
  using assms by (cases b; auto simp: compliance_preds)+

lemma post_change_final:
  assumes "phase_ok vo (step_shape rc) (rc_state rc)" and "post_change rc rc'"
  shows "final_ok vo rc'"
proof -
  from assms(2) obtain b where b: "post_rel b rc rc'" "b \<longrightarrow> rc_steps rc \<noteq> [] \<and> \<not> vc_failed rc"
    by (auto simp: post_change_def)
  show ?thesis
  proof (cases b)
    case False
    with b assms(1) show ?thesis by (simp add: phase_ok_final)
  next
    case True
    with b(1) obtain out msg st where
      "rc' = add_step DESIRED_STATE_CHECK_POST_ENFORCEMENT out msg st rc" "post_state_ok out st"
      by (auto simp: post_state_ok_def)
    with True b post_rel_preds(1) [OF b(1)] have
      rc': "step_shape rc' = step_shape rc @ [(DESIRED_STATE_CHECK_POST_ENFORCEMENT, out)]"
      "post_state_ok out (rc_state rc')" and nv: "\<not> vc_failed rc'"
      by (auto simp: step_shape_def)
    from phase_ok_state [OF assms(1)] assms(1) have
      "list_ex (phase_ok vo (step_shape rc)) [UNKNOWN_STATE, COMPLIANT, NON_COMPLIANT]" by auto
    with rc' nv show ?thesis by (simp add: final_ok_def)
  qed
qed

lemma post_change_untouched:
  "post_change rc rc' \<Longrightarrow> rc_steps rc = [] \<Longrightarrow> rc' = rc"
  by (auto simp: post_change_def)

lemma post_change_row:
  assumes "row_ok vo rcs" and "list_all2 post_change rcs rcs'"
  shows "final_row_ok vo rcs'"
  using assms
proof (induction rcs arbitrary: rcs')
  case (Cons rc rcs)
  from Cons.prems(2) obtain rc' rest where r: "rcs' = rc' # rest" "post_change rc rc'" "list_all2 post_change rcs rest"
    by (auto simp: list_all2_Cons1)
  from r(2) obtain b where b: "post_rel b rc rc'" by (auto simp: post_change_def)
  note pr = post_rel_preds [OF b]
  have "rest = rcs" if "list_all (\<lambda>r. rc_steps r = [] \<and> rc_state r = STATE_UNSPECIFIED) rcs"
    using that r(3) by (intro nth_equalityI)
      (simp_all add: list_all2_conv_all_nth list_all_length post_change_untouched)
  with Cons.IH [OF _ r(3)] Cons.prems(1) r pr(3,5) show ?case
    by (auto simp: post_change_final)
qed simp

definition phase_result_ok :: "'p os_policy \<Rightarrow> policy_result \<Rightarrow> bool" where
  "phase_result_ok p r \<longleftrightarrow> pr_id r = op_id p \<and> pr_assignment r = op_assignment p
     \<and> map rc_id (pr_compliances r) = map or_id (op_resources p)
     \<and> row_ok (op_mode p = MODE_VALIDATION) (pr_compliances r)"

lemma eval_policies_ok: "list_all2 phase_result_ok ps (fst (eval_policies ops ps w))"
proof (induction ps arbitrary: w)
  case (Cons p ps)
  obtain rcs w1 where e: "eval_resources ops (op_mode p = MODE_VALIDATION) (op_resources p)
      (map base_compliance (op_resources p)) w = (rcs, w1)" by fastforce
  obtain rest w2 where e2: "eval_policies ops ps w1 = (rest, w2)" by fastforce
  have "row_ok (op_mode p = MODE_VALIDATION) rcs"
    using eval_resources_row_ok [of "map base_compliance (op_resources p)" "op_resources p"
        "op_mode p = MODE_VALIDATION" ops w] e by simp
  moreover have "map rc_id rcs = map or_id (op_resources p)"
    using trans [OF eval_resources_ids [OF base_rows(2)] base_rows(3)] e by (metis fst_conv)
  ultimately have "phase_result_ok p \<lparr>pr_id = op_id p, pr_assignment = op_assignment p, pr_compliances = rcs\<rparr>"
    by (simp add: phase_result_ok_def)
  moreover have "list_all2 phase_result_ok ps rest" using Cons.IH [of w1] e2 by simp
  ultimately show ?case using e e2 by simp
qed simp

end
