(* ===== verification/ConfigRun.thy ===== *)
theory ConfigRun
  imports ConfigFacts
begin

text \<open>
  The properties of the ApplyConfig task, from the lemmas of theory ConfigFacts, with a small
  concrete instance (one integer resource, a client that always answers) on which the witnesses
  run the whole task.
\<close>

section \<open>The two phases of a run that reaches its end\<close>

lemma link_inv_start:
  assumes "apply_state ps tid c2" "ps \<noteq> []"
  shows "link_inv (before 0 0) (c2\<lparr>ct_policies := Map.empty\<rparr>)" and "dims_ok (c2\<lparr>ct_policies := Map.empty\<rparr>)"
proof -
  show "link_inv (before 0 0) (c2\<lparr>ct_policies := Map.empty\<rparr>)"
    using assms by (auto simp: apply_state_def link_inv_def before_def entry_at_def get_entry_def
        get_compliance_def base_result_def base_compliance_def valid_pos_def)
  show "dims_ok (c2\<lparr>ct_policies := Map.empty\<rparr>)"
    using assms by (auto simp: apply_state_def dims_ok_def base_result_def list_all2_conv_all_nth)
qed

lemma needs_flag_linked:
  assumes "link_inv (before (length (ct_task c)) 0) c" "valid_pos (ct_task c) a k"
  shows "needs_flag c (op_id (ct_task c ! a)) (or_id (op_resources (ct_task c ! a) ! k))
    \<longleftrightarrow> rc_steps (get_compliance a k c) \<noteq> [] \<and> \<not> vc_failed (get_compliance a k c)
       \<and> enforced_from (\<lambda>_ _. True) c a k"
proof -
  have "link_inv (\<lambda>_ _. True) c" by (rule link_inv_extend [OF assms(1)]) simp
  with assms(2) have "linked (\<lambda>_ _. True) c a k" by (simp add: link_inv_def)
  then show ?thesis by (auto simp: linked_def needs_flag_def entry_at_def split: option.splits)
qed

lemma two_phases:
  assumes "run_policies ops 0 ps (c2\<lparr>ct_policies := Map.empty\<rparr>) w2 = (c3, w3)"
    and "post_policies ops 0 ps c3 w3 = (c4, w4)"
    and "apply_state ps tid c2" "ps \<noteq> []" "distinct_ids ps"
  shows "ct_task c3 = ps" and "ct_results c3 = fst (eval_policies ops ps w2)"
    and "list_all2 (\<lambda>(p, r) r'. post_row (needs_flag c3) p r r') (zip ps (ct_results c3)) (ct_results c4)"
    and "dims_ok c3"
    and "valid_pos ps a k \<Longrightarrow> needs_flag c3 (op_id (ps ! a)) (or_id (op_resources (ps ! a) ! k))
      \<longleftrightarrow> rc_steps (get_compliance a k c3) \<noteq> [] \<and> \<not> vc_failed (get_compliance a k c3)
         \<and> enforced_from (\<lambda>_ _. True) c3 a k"
proof -
  have t2: "ct_task (c2\<lparr>ct_policies := Map.empty\<rparr>) = ps" using assms(3) by (simp add: apply_state_def)
  note fr = apply_frame [OF assms(1-3)]
  show t3: "ct_task c3 = ps" by (rule fr(2))
  have "distinct_ids (ct_task (c2\<lparr>ct_policies := Map.empty\<rparr>))" "ps = drop 0 (ct_task (c2\<lparr>ct_policies := Map.empty\<rparr>))"
    "0 \<le> length (ct_task (c2\<lparr>ct_policies := Map.empty\<rparr>))" using t2 assms(5) by simp_all
  from run_policies_linked [OF assms(1) link_inv_start(1) [OF assms(3,4)] this(1) link_inv_start(2) [OF assms(3,4)] this(2,3)]
  have l: "link_inv (before (length (ct_task c3)) 0) c3" and d: "dims_ok c3" unfolding t2 t3 by simp_all
  show "dims_ok c3" by (rule d)
  show "ct_results c3 = fst (eval_policies ops ps w2)"
    using run_policies_results [OF assms(1)] assms(3) by (simp add: apply_state_def)
  show "list_all2 (\<lambda>(p, r) r'. post_row (needs_flag c3) p r r') (zip ps (ct_results c3)) (ct_results c4)"
    using post_policies_rows [OF assms(2)] d t3 fr(6) by (simp add: dims_ok_def)
  show "needs_flag c3 (op_id (ps ! a)) (or_id (op_resources (ps ! a) ! k))
      \<longleftrightarrow> rc_steps (get_compliance a k c3) \<noteq> [] \<and> \<not> vc_failed (get_compliance a k c3)
         \<and> enforced_from (\<lambda>_ _. True) c3 a k" if "valid_pos ps a k"
    using needs_flag_linked [OF l] that t3 by simp
qed

text \<open>Position by position: a post check exactly where the flag asks for it.\<close>

lemma two_phases_at:
  assumes "run_policies ops 0 ps (c2\<lparr>ct_policies := Map.empty\<rparr>) w2 = (c3, w3)"
    and "post_policies ops 0 ps c3 w3 = (c4, w4)"
    and "apply_state ps tid c2" "ps \<noteq> []" "distinct_ids ps" "valid_pos ps a k"
  shows "post_rel (rc_steps (get_compliance a k c3) \<noteq> [] \<and> \<not> vc_failed (get_compliance a k c3)
         \<and> enforced_from (\<lambda>_ _. True) c3 a k) (get_compliance a k c3) (get_compliance a k c4)"
    and "a < length (ct_results c4)" and "k < length (pr_compliances (ct_results c4 ! a))"
    and "phase_ok (op_mode (ps ! a) = MODE_VALIDATION) (step_shape (get_compliance a k c3)) (rc_state (get_compliance a k c3))
      \<or> rc_steps (get_compliance a k c3) = []"
proof -
  note tp = two_phases [OF assms(1-5)]
  from assms(6) have a: "a < length ps" and k: "k < length (op_resources (ps ! a))" by (simp_all add: valid_pos_def)
  from tp(1,4) a have l3: "length (ct_results c3) = length ps"
    and lk: "length (pr_compliances (ct_results c3 ! a)) = length (op_resources (ps ! a))"
    by (auto simp: dims_ok_def list_all2_conv_all_nth)
  from list_all2_nthD [OF tp(3), of a] a l3 have "post_row (needs_flag c3) (ps ! a) (ct_results c3 ! a) (ct_results c4 ! a)"
    by simp
  hence rows: "list_all2 (\<lambda>(q, rc) rc'. post_rel (needs_flag c3 (op_id (ps ! a)) (or_id q)) rc rc')
       (zip (op_resources (ps ! a)) (pr_compliances (ct_results c3 ! a))) (pr_compliances (ct_results c4 ! a))"
    by (simp add: post_row_def)
  from list_all2_nthD [OF rows, of k] k lk tp(5) [OF assms(6)] show
    "post_rel (rc_steps (get_compliance a k c3) \<noteq> [] \<and> \<not> vc_failed (get_compliance a k c3)
         \<and> enforced_from (\<lambda>_ _. True) c3 a k) (get_compliance a k c3) (get_compliance a k c4)"
    by (simp add: get_compliance_def)
  show "a < length (ct_results c4)" using list_all2_lengthD [OF tp(3)] a l3 by simp
  show "k < length (pr_compliances (ct_results c4 ! a))" using list_all2_lengthD [OF rows] k lk by simp
  have "row_ok (op_mode (ps ! a) = MODE_VALIDATION) (pr_compliances (ct_results c3 ! a))"
    using list_all2_nthD [OF eval_policies_ok a, of ops w2] by (simp add: tp(2) phase_result_ok_def)
  moreover have "row_ok vo rcs \<Longrightarrow> k < length rcs \<Longrightarrow>
      phase_ok vo (step_shape (rcs ! k)) (rc_state (rcs ! k)) \<or> rc_steps (rcs ! k) = []" for vo rcs
  proof (induction rcs arbitrary: k)
    case (Cons rc rcs)
    then show ?case by (cases k) (auto simp: list_all_length split: if_splits)
  qed simp
  ultimately show "phase_ok (op_mode (ps ! a) = MODE_VALIDATION) (step_shape (get_compliance a k c3)) (rc_state (get_compliance a k c3))
      \<or> rc_steps (get_compliance a k c3) = []" using k lk by (simp add: get_compliance_def)
qed

section \<open>A concrete instance\<close>

text \<open>The world is one integer; a resource wants a value there, and fails to be validated below zero.\<close>

record int_resource =
  ir_want :: int
  ir_ok :: bool

definition int_ops :: "(int, int_resource, int) resource_ops" where
  "int_ops = \<lparr>ro_new = (\<lambda>r. \<lparr>ir_want = or_body r, ir_ok = False\<rparr>),
     ro_validate = (\<lambda>r w. (if ir_want r < 0 then Some (ErrMsg ''negative'') else None, r, w)),
     ro_check = (\<lambda>r w. (None, r\<lparr>ir_ok := (w = ir_want r)\<rparr>, w)),
     ro_enforce = (\<lambda>r w. (None, r, ir_want r)),
     ro_populate = (\<lambda>r out. out),
     ro_cleanup = (\<lambda>r w. (None, r, w)),
     ro_in_desired = ir_ok,
     ro_managed = (\<lambda>r. None)\<rparr>"

definition yes_client :: "int task_client" where
  "yes_client = \<lparr>tc_progress = (\<lambda>tid s w. (Inr DIRECTIVE_CONTINUE, w)),
     tc_complete = (\<lambda>tid m st rs w. (None, w)), tc_now = (\<lambda>w. 0)\<rparr>"

definition int_policies :: "int os_policy list" where
  "int_policies =
    [\<lparr>op_id = ''p'', op_assignment = ''a'', op_mode = MODE_ENFORCEMENT,
      op_resources = [\<lparr>or_id = ''r'', or_body = 3\<rparr>, \<lparr>or_id = ''s'', or_body = -1\<rparr>, \<lparr>or_id = ''t'', or_body = 5\<rparr>]\<rparr>]"

definition int_steps :: "(step_type \<times> step_outcome) list list" where
  "int_steps = [[(VALIDATION, SUCCEEDED), (DESIRED_STATE_CHECK, SUCCEEDED), (DESIRED_STATE_ENFORCEMENT, SUCCEEDED),
      (DESIRED_STATE_CHECK_POST_ENFORCEMENT, SUCCEEDED)], [(VALIDATION, FAILED)], []]"

definition demo_run :: "(go_error option \<times> (int, int_resource) config_task \<times> int) outcome" where
  "demo_run = RunApplyConfig int_ops yes_client ''t1'' int_policies 0"

definition demo_task :: "(int, int_resource) config_task" where
  "demo_task = (case demo_run of Done (e, c, w) \<Rightarrow> c | Panic p \<Rightarrow> new_config_task [] [])"

section \<open>Properties\<close>

lemma case_outcome_DoneD: "(case m of Done r \<Rightarrow> P r | Panic p \<Rightarrow> False) \<Longrightarrow> \<exists>r. m = Done r \<and> P r"
  by (cases m) auto

definition demo_report :: "policy_result list" where
  "demo_report = ct_results demo_task"

lemma run_completed:
  assumes "RunApplyConfig ops cl tid ps w = Done (e, c', w')"
    and "CfgComplete tid [] OUT_SUCCEEDED rs \<in> set (ct_sent c')"
  obtains "ps = []" "rs = []"
  | c2 w2 c3 w3 c4 w4 where "ps \<noteq> []" "apply_state ps tid c2"
      "run_policies ops 0 ps (c2\<lparr>ct_policies := Map.empty\<rparr>) w2 = (c3, w3)"
      "post_policies ops 0 ps c3 w3 = (c4, w4)" "rs = ct_results c4"
  using assms(1)
  by (rule run_cases) (use assms(2) that in \<open>auto simp: sent_error_def error_report_def split: if_splits\<close>)

lemma post_rel_steps: "post_rel b rc rc' \<Longrightarrow> rc_steps rc' = [] \<longleftrightarrow> rc_steps rc = [] \<and> \<not> b"
  by (cases b) auto

lemma two_phases_results:
  assumes "run_policies ops 0 ps (c2\<lparr>ct_policies := Map.empty\<rparr>) w2 = (c3, w3)"
    and "post_policies ops 0 ps c3 w3 = (c4, w4)"
    and "apply_state ps tid c2" "ps \<noteq> []" "distinct_ids ps"
  shows "list_all2 final_result_ok ps (ct_results c4)"
proof -
  note tp = two_phases [OF assms]
  note at = two_phases_at [OF assms]
  have ev: "list_all2 phase_result_ok ps (ct_results c3)" using eval_policies_ok tp(2) by metis
  have len: "length (ct_results c4) = length ps"
    using list_all2_lengthD [OF tp(3)] list_all2_lengthD [OF ev] by simp
  show ?thesis
  proof (rule list_all2_all_nthI)
    show "length ps = length (ct_results c4)" using len by simp
    fix n assume n: "n < length ps"
    let ?r3 = "ct_results c3 ! n" and ?r4 = "ct_results c4 ! n"
    from list_all2_nthD [OF ev n] have p3: "phase_result_ok (ps ! n) ?r3" .
    hence lk: "length (pr_compliances ?r3) = length (op_resources (ps ! n))"
      by (auto simp: phase_result_ok_def dest: map_eq_imp_length_eq)
    from list_all2_nthD [OF tp(3), of n] n len list_all2_lengthD [OF ev]
    have pr: "post_row (needs_flag c3) (ps ! n) ?r3 ?r4" by simp
    hence lk4: "length (pr_compliances ?r4) = length (pr_compliances ?r3)"
      by (auto simp: post_row_def lk dest: list_all2_lengthD)
    have pc: "list_all2 post_change (pr_compliances ?r3) (pr_compliances ?r4)"
    proof (rule list_all2_all_nthI)
      fix k assume "k < length (pr_compliances ?r3)"
      with n lk have "valid_pos ps n k" by (simp add: valid_pos_def)
      from at(1) [OF this] show "post_change (pr_compliances ?r3 ! k) (pr_compliances ?r4 ! k)"
        unfolding post_change_def get_compliance_def by blast
    qed (simp add: lk4)
    have ids: "map rc_id (pr_compliances ?r4) = map rc_id (pr_compliances ?r3)"
      using pc by (auto simp: list_all2_conv_all_nth post_change_def post_rel_preds(6) intro!: nth_equalityI)
    show "final_result_ok (ps ! n) ?r4"
      using p3 pr ids post_change_row [OF _ pc]
      by (simp add: final_result_ok_def phase_result_ok_def post_row_def)
  qed
qed

lemma run_apply_panic:
  assumes f1: "start_state ps tid c1"
  shows "is_panic (run_apply ops cl c1 w1) \<longleftrightarrow> (\<exists>p \<in> set ps. op_resources p \<noteq> [])
    \<and> fst (reportContinuingState cl PS_APPLYING_CONFIG (generateBaseResults c1) w1) \<noteq> None"
proof -
  obtain e2 c2 w2 where r2: "reportContinuingState cl PS_APPLYING_CONFIG (generateBaseResults c1) w1 = (e2, c2, w2)"
    by (metis prod_cases3)
  note f2 = second_report [OF r2 f1]
  hence t2: "ct_task c2 = ps" by (simp add: apply_state_def)
  show ?thesis
  proof (cases e2)
    case (Some err)
    obtain e3 c3 w3 where h: "handleErrorState cl rcsErrMsg err c2 w2 = (e3, c3, w3)" by (metis prod_cases3)
    with handleErrorState_simps [of cl rcsErrMsg err c2 w2] t2 f2(2) have "ct_task c3 = ps" "ct_policies c3 = Map.empty"
      by simp_all
    with Some r2 h show ?thesis by (simp add: run_apply_def with_cleanup_panic)
  next
    case None
    obtain c3 w3 where rp: "run_policies ops 0 ps (c2\<lparr>ct_policies := Map.empty\<rparr>) w2 = (c3, w3)" by fastforce
    obtain c4 w4 where pp: "post_policies ops 0 ps c3 w3 = (c4, w4)" by fastforce
    note f4 = apply_frame [OF rp pp f2(1)]
    obtain e5 c5 w5 where h: "reportCompletedState cl [] OUT_SUCCEEDED c4 w4 = (e5, c5, w5)" by (metis prod_cases3)
    with reportCompletedState_simps [of cl "[]" OUT_SUCCEEDED c4 w4] f4 have
      "ct_task c5 = ps" "dom (ct_policies c5) = op_id ` set ps" by simp_all
    hence "\<not> is_panic (with_cleanup ops (e5, c5, w5))" by (auto simp: with_cleanup_panic)
    with None r2 rp pp h t2 f4(2) show ?thesis by (simp add: run_apply_def postCheckState_def)
  qed
qed


lemma demo_run_Done: "demo_run = Done (None, demo_task, 3)"
proof -
  have "(case demo_run of Done r \<Rightarrow> fst r = None \<and> snd (snd r) = 3 | Panic p \<Rightarrow> False)" by code_simp
  then obtain r where "demo_run = Done r" "fst r = None" "snd (snd r) = 3" by (auto dest: case_outcome_DoneD)
  moreover have "demo_task = fst (snd r)"
    unfolding demo_task_def \<open>demo_run = Done r\<close> by (simp split: prod.splits)
  ultimately show ?thesis by (metis prod.collapse)
qed

lemma demo_sent: "ct_sent demo_task = applying ''t1'' @ [CfgComplete ''t1'' [] OUT_SUCCEEDED demo_report]"
  by code_simp

lemma demo_distinct: "distinct_ids int_policies"
  by code_simp




text \<open>
  C3. When the task panics, exactly: the deferred cleanup dereferences the policy entries,
  which exist only once the second progress report has succeeded. The run panics if and only if
  its first report succeeds, some policy has a resource, and the second report ends in an error
  or in the server's STOP.
\<close>

theorem config_panic_exact:
  fixes ops :: "('p, 'r, 'w) resource_ops" and ps :: "'p os_policy list"
  shows "is_panic (RunApplyConfig ops cl tid ps w) \<longleftrightarrow>
    (\<exists>(c1 :: ('p, 'r) config_task) w1.
        reportContinuingState cl PS_STARTED ((new_config_task tid ps)\<lparr>ct_started_at := tc_now cl w\<rparr>) w = (None, c1, w1)
        \<and> (\<exists>p \<in> set ps. op_resources p \<noteq> [])
        \<and> fst (reportContinuingState cl PS_APPLYING_CONFIG (generateBaseResults c1) w1) \<noteq> None)"
proof -
  let ?c0 = "(new_config_task tid ps :: ('p, 'r) config_task)\<lparr>ct_started_at := tc_now cl w\<rparr>"
  obtain e1 c1 w1 where r1: "reportContinuingState cl PS_STARTED ?c0 w = (e1, c1, w1)" by (metis prod_cases3)
  note f1 = first_report [OF r1]
  have t: "ct_task c1 = ps" using f1 by (simp add: start_state_def)
  have "is_panic (RunApplyConfig ops cl tid ps w) \<longleftrightarrow> e1 = None \<and> ps \<noteq> [] \<and> is_panic (run_apply ops cl c1 w1)"
    using t by (cases e1) (simp_all add: RunApplyConfig_def run_config_split r1)
  also have "\<dots> \<longleftrightarrow> e1 = None \<and> (\<exists>p \<in> set ps. op_resources p \<noteq> [])
        \<and> fst (reportContinuingState cl PS_APPLYING_CONFIG (generateBaseResults c1) w1) \<noteq> None"
    using run_apply_panic [OF f1, of ops cl w1] by auto
  finally show ?thesis using r1 by simp
qed

text \<open>
  C4. The conversation with the server: a run that returns has sent STARTED, then possibly
  APPLYING_CONFIG, then exactly one completion, which comes last. The completion is SUCCEEDED
  exactly when it carries no error message, CANCELLED exactly when it carries the text of the
  server's cancellation; one that is not SUCCEEDED carries no evaluated result.
\<close>

theorem config_conversation:
  assumes "RunApplyConfig ops cl tid ps w = Done (e, c', w')"
  shows "\<exists>pre m st rs. ct_sent c' = pre @ [CfgComplete tid m st rs]
    \<and> (pre = [CfgProgress tid PS_STARTED] \<or> pre = [CfgProgress tid PS_STARTED, CfgProgress tid PS_APPLYING_CONFIG])
    \<and> (st = OUT_SUCCEEDED \<longleftrightarrow> m = []) \<and> (st = OUT_CANCELLED \<longleftrightarrow> m = err_text ErrServerCancel)
    \<and> (st = OUT_SUCCEEDED \<or> (\<forall>r \<in> set rs. \<forall>rc \<in> set (pr_compliances r). rc_steps rc = []))"
  using assms
proof (rule run_cases)
  fix err assume "ct_sent c' = sent_error tid (started tid) [] err"
  then show ?thesis
    by (cases "err = ErrServerCancel") (auto simp: sent_error_def error_report_def rcsErrMsg_def)
next
  assume "ct_sent c' = started tid @ [CfgComplete tid [] OUT_SUCCEEDED []]"
  then show ?thesis by auto
next
  fix err assume "ct_sent c' = sent_error tid (applying tid) (map base_result ps) err"
  then show ?thesis
    by (cases "err = ErrServerCancel")
       (auto simp: sent_error_def error_report_def rcsErrMsg_def base_result_def base_compliance_def)
next
  fix rs assume "ct_sent c' = applying tid @ [CfgComplete tid [] OUT_SUCCEEDED rs]"
  then show ?thesis by auto
qed

corollary config_conversation_witness:
  "\<exists>pre m st rs. ct_sent demo_task = pre @ [CfgComplete ''t1'' m st rs]
    \<and> (pre = [CfgProgress ''t1'' PS_STARTED] \<or> pre = [CfgProgress ''t1'' PS_STARTED, CfgProgress ''t1'' PS_APPLYING_CONFIG])
    \<and> (st = OUT_SUCCEEDED \<longleftrightarrow> m = []) \<and> (st = OUT_CANCELLED \<longleftrightarrow> m = err_text ErrServerCancel)
    \<and> (st = OUT_SUCCEEDED \<or> (\<forall>r \<in> set rs. \<forall>rc \<in> set (pr_compliances r). rc_steps rc = []))"
  by (rule config_conversation [OF demo_run_Done [unfolded demo_run_def]])

text \<open>In VALIDATION mode the loops never call \<open>ro_enforce\<close> or \<open>ro_populate\<close>.\<close>

lemma steps_enforce_irrelevant:
  "new_entry (ops\<lparr>ro_enforce := f, ro_populate := g\<rparr>) = new_entry ops"
  "validateConfigResource (ops\<lparr>ro_enforce := f, ro_populate := g\<rparr>) = validateConfigResource ops"
  "checkConfigResourceState (ops\<lparr>ro_enforce := f, ro_populate := g\<rparr>) = checkConfigResourceState ops"
  "postCheckConfigResourceState (ops\<lparr>ro_enforce := f, ro_populate := g\<rparr>) = postCheckConfigResourceState ops"
  by (intro ext; simp add: new_entry_def validateConfigResource_def checkConfigResourceState_def
      postCheckConfigResourceState_def Let_def split: prod.split option.split)+

lemma process_resource_validate:
  "process_resource (ops\<lparr>ro_enforce := f, ro_populate := g\<rparr>) True cr rc w = process_resource ops True cr rc w"
  by (simp add: process_resource_def steps_enforce_irrelevant split: prod.split)

lemma run_resources_validate:
  "run_resources (ops\<lparr>ro_enforce := f, ro_populate := g\<rparr>) True pid i j crs c w = run_resources ops True pid i j crs c w"
  by (induction crs arbitrary: j c w) (simp_all add: process_resource_validate Let_def split: prod.split)

lemma run_policies_validate:
  "list_all (\<lambda>p. op_mode p = MODE_VALIDATION) ps \<Longrightarrow>
   run_policies (ops\<lparr>ro_enforce := f, ro_populate := g\<rparr>) i ps c w = run_policies ops i ps c w"
  by (induction ps arbitrary: i c w) (simp_all add: run_policy_def run_resources_validate split: prod.split)

lemma post_resources_enforce_irrelevant:
  "post_resources (ops\<lparr>ro_enforce := f, ro_populate := g\<rparr>) pid i j crs c w = post_resources ops pid i j crs c w"
  by (induction crs arbitrary: j c w)
     (simp_all add: steps_enforce_irrelevant split: prod.split option.split)

lemma post_policies_enforce_irrelevant:
  "post_policies (ops\<lparr>ro_enforce := f, ro_populate := g\<rparr>) i ps c w = post_policies ops i ps c w"
  by (induction ps arbitrary: i c w)
     (simp_all add: post_resources_enforce_irrelevant split: prod.split option.split)

lemma cleanup_resources_enforce_irrelevant:
  "cleanup_resources (ops\<lparr>ro_enforce := f, ro_populate := g\<rparr>) pid crs c w = cleanup_resources ops pid crs c w"
  by (induction crs arbitrary: c w) (simp_all split: prod.split option.split)

lemma cleanup_policies_enforce_irrelevant:
  "cleanup_policies (ops\<lparr>ro_enforce := f, ro_populate := g\<rparr>) ps c w = cleanup_policies ops ps c w"
  by (induction ps arbitrary: c w)
     (simp_all add: cleanup_resources_enforce_irrelevant case_prod_beta' cong: if_cong)

lemma with_cleanup_enforce_irrelevant:
  "with_cleanup (ops\<lparr>ro_enforce := f, ro_populate := g\<rparr>) r = with_cleanup ops r"
  by (simp add: with_cleanup_def cleanup_def cleanup_policies_enforce_irrelevant)

text \<open>
  A task whose policies are all in VALIDATION mode changes nothing: the run, its report and
  the world it leaves are the same whatever \<open>EnforceState\<close> and \<open>PopulateOutput\<close> would do.
\<close>

theorem config_validation_mode:
  assumes "list_all (\<lambda>p. op_mode p = MODE_VALIDATION) ps"
  shows "RunApplyConfig (ops\<lparr>ro_enforce := f, ro_populate := g\<rparr>) cl tid ps w = RunApplyConfig ops cl tid ps w"
proof -
  have "run_apply (ops\<lparr>ro_enforce := f, ro_populate := g\<rparr>) cl c1 w1 = run_apply ops cl c1 w1"
    if "start_state ps tid c1" for c1 w1
  proof -
    obtain e2 c2 w2 where r2: "reportContinuingState cl PS_APPLYING_CONFIG (generateBaseResults c1) w1 = (e2, c2, w2)"
      by (metis prod_cases3)
    have "ct_task c2 = ps" using second_report [OF r2 that] by (simp add: apply_state_def)
    then show ?thesis
      by (simp add: run_apply_def r2 run_policies_validate assms postCheckState_def
          post_policies_enforce_irrelevant with_cleanup_enforce_irrelevant split: option.split)
  qed
  then show ?thesis
    by (auto simp: RunApplyConfig_def run_config_split dest: first_report split: option.split prod.split)
qed

definition validation_policies :: "int os_policy list" where
  "validation_policies = map (\<lambda>p. p\<lparr>op_mode := MODE_VALIDATION\<rparr>) int_policies"

corollary config_validation_mode_witness:
  "RunApplyConfig (int_ops\<lparr>ro_enforce := (\<lambda>r w. (None, r, 99)), ro_populate := (\<lambda>r out. out)\<rparr>)
       yes_client ''t1'' validation_policies 0
     = RunApplyConfig int_ops yes_client ''t1'' validation_policies 0"
  by (rule config_validation_mode) code_simp

text \<open>
  \<open>truncateMessage\<close> at the limit the file uses: it never panics, keeps a message that fits,
  and cuts a longer one to exactly 512 bytes: a prefix of it, an ellipsis, and its last 256 bytes.
\<close>

theorem truncateMessage_limit:
  "\<exists>m. truncateMessage msg maxErrorMessage = Done m
     \<and> (if length msg \<le> 512 then m = msg
        else length m = 512 \<and> m = take 253 msg @ ''...'' @ drop (length msg - 256) msg)"
  by (simp add: truncateMessage_def maxErrorMessage_def Let_def)

text \<open>The panic of C3 on a concrete input: the server answers STOP to the second report.\<close>

definition stop_client :: "int task_client" where
  "stop_client = yes_client\<lparr>tc_progress := (\<lambda>tid s w.
     (Inr (if s = PS_APPLYING_CONFIG then DIRECTIVE_STOP else DIRECTIVE_CONTINUE), w))\<rparr>"

lemma config_stop_panics: "is_panic (RunApplyConfig int_ops stop_client ''t1'' int_policies 0)"
  by code_simp

end
