(* ===== verification/Retry.thy ===== *)
theory Retry
  imports GoLib
begin

text \<open>
  \<open>retryutil/retry.go\<close>: the sleeps between attempts and the two retry loops. Times are in
  seconds (\<open>RetrySleep\<close> only makes whole seconds). The pseudo-random draw of attempt \<open>i\<close> is
  \<open>draws i\<close>, reduced as \<open>rand.Intn\<close> does; the loops thread a world \<open>'w\<close> through the retried
  function and the sleeper, and return the sleeps they made, newest last.
\<close>

section \<open>RetrySleep\<close>

text \<open>\<open>math.Min\<close> of whole numbers below 2^53 is exact, so the minimum is taken on integers.\<close>

definition RetrySleep :: "nat \<Rightarrow> nat \<Rightarrow> nat \<Rightarrow> nat" where
  "RetrySleep rnd base extra = min ((base + extra) * base + rnd mod (base + extra)) 300"

lemma RetrySleep_bounds:
  assumes "0 < base"
  shows "min ((base + extra) * base) 300 \<le> RetrySleep rnd base extra" and "RetrySleep rnd base extra \<le> 300"
    and "RetrySleep rnd base extra < (base + extra) * Suc base"
proof -
  have "rnd mod (base + extra) < base + extra" using assms by simp
  then show "min ((base + extra) * base) 300 \<le> RetrySleep rnd base extra" "RetrySleep rnd base extra \<le> 300"
    "RetrySleep rnd base extra < (base + extra) * Suc base"
    by (auto simp: RetrySleep_def)
qed

lemma RetrySleep_pos: "0 < base \<Longrightarrow> 0 < RetrySleep rnd base extra"
  using RetrySleep_bounds(1) [of base extra rnd] by (cases base) auto

lemma retry_progress: "\<not> maxTime < tot + RetrySleep rnd (Suc i) extra \<Longrightarrow> tot < maxTime"
  using RetrySleep_pos [of "Suc i" rnd extra] by simp

section \<open>RetryFunc\<close>

function retry_func :: "(nat \<Rightarrow> nat) \<Rightarrow> (nat \<Rightarrow> 'w \<Rightarrow> 'w) \<Rightarrow> nat \<Rightarrow> ('w \<Rightarrow> go_error option \<times> 'w)
    \<Rightarrow> nat \<Rightarrow> nat \<Rightarrow> 'w \<Rightarrow> go_error option \<times> nat list \<times> 'w" where
  "retry_func draws sleep maxTime f i tot w =
     (case f w of
        (None, w1) \<Rightarrow> (None, [], w1)
      | (Some err, w1) \<Rightarrow>
          (let ns = RetrySleep (draws i) (Suc i) 0 in
           if tot + ns > maxTime then (Some err, [], w1)
           else (case retry_func draws sleep maxTime f (Suc i) (tot + ns) (sleep ns w1) of
                   (r, sl, w2) \<Rightarrow> (r, ns # sl, w2))))"
  by pat_completeness auto
termination
  by (relation "measure (\<lambda>(draws, sleep, maxTime, f, i, tot, w). maxTime - tot)")
     (auto simp: RetrySleep_pos split: if_splits intro!: diff_less_mono2 dest: retry_progress)

declare retry_func.simps [simp del]

definition RetryFunc :: "(nat \<Rightarrow> nat) \<Rightarrow> (nat \<Rightarrow> 'w \<Rightarrow> 'w) \<Rightarrow> nat \<Rightarrow> ('w \<Rightarrow> go_error option \<times> 'w)
    \<Rightarrow> 'w \<Rightarrow> go_error option \<times> nat list \<times> 'w" where
  "RetryFunc draws sleep maxTime f w = retry_func draws sleep maxTime f 0 0 w"

section \<open>RetryAPICall\<close>

definition isRetriable :: "rpc_code \<Rightarrow> bool" where
  "isRetriable c \<longleftrightarrow> c \<in> {Aborted, DeadlineExceeded, Internal, ResourceExhausted, Unavailable}"

definition isResourceExhausted :: "rpc_code \<Rightarrow> bool" where
  "isResourceExhausted c \<longleftrightarrow> c = ResourceExhausted"

fun code_name :: "rpc_code \<Rightarrow> string" where
  "code_name OK = ''OK''" | "code_name Canceled = ''Canceled''" | "code_name Unknown = ''Unknown''"
| "code_name InvalidArgument = ''InvalidArgument''" | "code_name DeadlineExceeded = ''DeadlineExceeded''"
| "code_name NotFound = ''NotFound''" | "code_name AlreadyExists = ''AlreadyExists''"
| "code_name PermissionDenied = ''PermissionDenied''" | "code_name ResourceExhausted = ''ResourceExhausted''"
| "code_name FailedPrecondition = ''FailedPrecondition''" | "code_name Aborted = ''Aborted''"
| "code_name OutOfRange = ''OutOfRange''" | "code_name Unimplemented = ''Unimplemented''"
| "code_name Internal = ''Internal''" | "code_name Unavailable = ''Unavailable''"
| "code_name DataLoss = ''DataLoss''" | "code_name Unauthenticated = ''Unauthenticated''"

text \<open>The details of a status are an empty list for every status of this model.\<close>

definition errorFromStatus :: "rpc_code \<times> string \<Rightarrow> go_error" where
  "errorFromStatus s = ErrMsg (''code: '' @ quote (code_name (fst s)) @ '', message: '' @ quote (snd s) @ '', details: []'')"

definition humanReadableError :: "go_error \<Rightarrow> rpc_code \<times> string \<Rightarrow> go_error" where
  "humanReadableError err s =
     (if is_not_defined err then ErrMsg ''no service account set for instance'' else errorFromStatus s)"

function retry_api :: "(nat \<Rightarrow> nat) \<Rightarrow> (nat \<Rightarrow> 'w \<Rightarrow> 'w) \<Rightarrow> nat \<Rightarrow> ('w \<Rightarrow> go_error option \<times> 'w)
    \<Rightarrow> nat \<Rightarrow> nat \<Rightarrow> 'w \<Rightarrow> go_error option \<times> nat list \<times> 'w" where
  "retry_api draws sleep maxTime f i tot w =
     (case f w of
        (None, w1) \<Rightarrow> (None, [], w1)
      | (Some err, w1) \<Rightarrow>
          (case status_of err of
             None \<Rightarrow> (Some err, [], w1)
           | Some s \<Rightarrow>
               if \<not> isRetriable (fst s) then (Some (humanReadableError err s), [], w1)
               else
                 (let ns = RetrySleep (draws i) (Suc i) (if isResourceExhausted (fst s) then 10 else 1) in
                  if tot + ns > maxTime then (Some (errorFromStatus s), [], w1)
                  else (case retry_api draws sleep maxTime f (Suc i) (tot + ns) (sleep ns w1) of
                          (r, sl, w2) \<Rightarrow> (r, ns # sl, w2)))))"
  by pat_completeness auto
termination
  by (relation "measure (\<lambda>(draws, sleep, maxTime, f, i, tot, w). maxTime - tot)")
     (auto simp: RetrySleep_pos split: if_splits intro!: diff_less_mono2 dest: retry_progress)

declare retry_api.simps [simp del]

definition RetryAPICall :: "(nat \<Rightarrow> nat) \<Rightarrow> (nat \<Rightarrow> 'w \<Rightarrow> 'w) \<Rightarrow> nat \<Rightarrow> ('w \<Rightarrow> go_error option \<times> 'w)
    \<Rightarrow> 'w \<Rightarrow> go_error option \<times> nat list \<times> 'w" where
  "RetryAPICall draws sleep maxTime f w = retry_api draws sleep maxTime f 0 0 w"

definition apiRetrySec :: nat where
  "apiRetrySec = 600"

definition retryPeriod :: nat where
  "retryPeriod = 180"

section \<open>Lemmas on the loops\<close>

text \<open>The world of the attempt that follows the given sleeps.\<close>

fun world_at :: "('w \<Rightarrow> go_error option \<times> 'w) \<Rightarrow> (nat \<Rightarrow> 'w \<Rightarrow> 'w) \<Rightarrow> nat list \<Rightarrow> 'w \<Rightarrow> 'w" where
  "world_at f sleep [] w = w"
| "world_at f sleep (s # sl) w = world_at f sleep sl (sleep s (snd (f w)))"

lemma retry_func_sleeps:
  assumes "retry_func draws sleep maxTime f i tot w = (r, sl, w')"
  shows "(tot \<le> maxTime \<longrightarrow> tot + sum_list sl \<le> maxTime)
    \<and> (\<forall>k < length sl. min (Suc (i + k) * Suc (i + k)) 300 \<le> sl ! k)
    \<and> (r \<noteq> None \<longrightarrow> maxTime < tot + sum_list sl + RetrySleep (draws (i + length sl)) (Suc (i + length sl)) 0)"
  using assms
proof (induction draws sleep maxTime f i tot w arbitrary: r sl w' rule: retry_func.induct)
  case (1 draws sleep maxTime f i tot w)
  let ?ns = "RetrySleep (draws i) (Suc i) 0"
  show ?case
  proof (cases "f w")
    case (Pair e w1)
    show ?thesis
    proof (cases "e = None \<or> tot + ?ns > maxTime")
      case True
      with 1(2) Pair show ?thesis by (auto simp: retry_func.simps [of draws] Let_def split: option.splits)
    next
      case False
      then obtain err where e: "e = Some err" by auto
      obtain r2 sl2 w2 where rec: "retry_func draws sleep maxTime f (Suc i) (tot + ?ns) (sleep ?ns w1) = (r2, sl2, w2)"
        by (metis prod_cases3)
      with 1(2) Pair False e have sl: "r = r2" "sl = ?ns # sl2" by (auto simp: retry_func.simps [of draws] Let_def)
      from 1(1) [OF Pair [symmetric] e refl _ rec] False have IH:
        "tot + ?ns + sum_list sl2 \<le> maxTime" "\<forall>k < length sl2. min (Suc (Suc i + k) * Suc (Suc i + k)) 300 \<le> sl2 ! k"
        "r2 \<noteq> None \<longrightarrow> maxTime < tot + ?ns + sum_list sl2 + RetrySleep (draws (Suc i + length sl2)) (Suc (Suc i + length sl2)) 0"
        by auto
      have "min (Suc i * Suc i) 300 \<le> ?ns" using RetrySleep_bounds(1) [of "Suc i" 0] by simp
      with IH sl show ?thesis by (auto simp: nth_Cons split: nat.splits)
    qed
  qed
qed

lemma retry_func_trace:
  assumes "retry_func draws sleep maxTime f i tot w = (r, sl, w')"
  shows "(r, w') = f (world_at f sleep sl w) \<and> (\<forall>k < length sl. fst (f (world_at f sleep (take k sl) w)) \<noteq> None)"
  using assms
proof (induction draws sleep maxTime f i tot w arbitrary: r sl w' rule: retry_func.induct)
  case (1 draws sleep maxTime f i tot w)
  let ?ns = "RetrySleep (draws i) (Suc i) 0"
  show ?case
  proof (cases "f w")
    case (Pair e w1)
    show ?thesis
    proof (cases "e = None \<or> tot + ?ns > maxTime")
      case True
      with 1(2) Pair show ?thesis by (auto simp: retry_func.simps [of draws] Let_def split: option.splits)
    next
      case False
      then obtain err where e: "e = Some err" by auto
      obtain r2 sl2 w2 where rec: "retry_func draws sleep maxTime f (Suc i) (tot + ?ns) (sleep ?ns w1) = (r2, sl2, w2)"
        by (metis prod_cases3)
      with 1(2) Pair False e have sl: "r = r2" "sl = ?ns # sl2" "w' = w2" by (auto simp: retry_func.simps [of draws] Let_def)
      from 1(1) [OF Pair [symmetric] e refl _ rec] False have IH: "(r2, w2) = f (world_at f sleep sl2 (sleep ?ns w1))"
        "\<forall>k < length sl2. fst (f (world_at f sleep (take k sl2) (sleep ?ns w1))) \<noteq> None" by auto
      have "fst (f (world_at f sleep (take k sl) w)) \<noteq> None" if "k < length sl" for k
        using that sl IH(2) Pair e by (cases k) auto
      with IH(1) sl Pair show ?thesis by simp
    qed
  qed
qed

definition retriable_failure :: "go_error option \<Rightarrow> bool" where
  "retriable_failure e \<longleftrightarrow> (case e of None \<Rightarrow> False | Some err \<Rightarrow>
     (case status_of err of None \<Rightarrow> False | Some s \<Rightarrow> isRetriable (fst s)))"

text \<open>What the caller of \<open>RetryAPICall\<close> sees of the last attempt.\<close>

definition api_result :: "go_error option \<Rightarrow> go_error option" where
  "api_result e = (case e of None \<Rightarrow> None | Some err \<Rightarrow>
     (case status_of err of
        None \<Rightarrow> Some err
      | Some s \<Rightarrow> Some (if isRetriable (fst s) then errorFromStatus s else humanReadableError err s)))"

lemma retry_api_sleeps:
  assumes "retry_api draws sleep maxTime f i tot w = (r, sl, w')"
  shows "(tot \<le> maxTime \<longrightarrow> tot + sum_list sl \<le> maxTime)
    \<and> (\<forall>k < length sl. min (Suc (Suc (i + k)) * Suc (i + k)) 300 \<le> sl ! k)"
  using assms
proof (induction draws sleep maxTime f i tot w arbitrary: r sl w' rule: retry_api.induct)
  case (1 draws sleep maxTime f i tot w)
  obtain e w1 where fw: "f w = (e, w1)" by fastforce
  show ?case
  proof (cases "retriable_failure e")
    case False
    with 1(2) fw show ?thesis
      by (auto simp: retry_api.simps [of draws] Let_def retriable_failure_def split: option.splits)
  next
    case True
    then obtain err s where e: "e = Some err" "status_of err = Some s" "isRetriable (fst s)"
      by (auto simp: retriable_failure_def split: option.splits)
    define x where "x = (if isResourceExhausted (fst s) then 10 else 1 :: nat)"
    let ?ns = "RetrySleep (draws i) (Suc i) x"
    have x: "1 \<le> x" by (simp add: x_def)
    show ?thesis
    proof (cases "tot + ?ns > maxTime")
      case True
      with 1(2) fw e show ?thesis by (auto simp: retry_api.simps [of draws] Let_def x_def)
    next
      case False
      obtain r2 sl2 w2 where rec: "retry_api draws sleep maxTime f (Suc i) (tot + ?ns) (sleep ?ns w1) = (r2, sl2, w2)"
        by (metis prod_cases3)
      with 1(2) fw False e have sl: "sl = ?ns # sl2" by (auto simp: retry_api.simps [of draws] Let_def x_def)
      from 1(1) [OF fw [symmetric] e(1,2) _ refl _ rec [unfolded x_def]] e(3) False [unfolded x_def] have IH:
        "tot + ?ns + sum_list sl2 \<le> maxTime" "\<forall>k < length sl2. min (Suc (Suc (Suc i + k)) * Suc (Suc i + k)) 300 \<le> sl2 ! k"
        by (auto simp: x_def)
      have "Suc (Suc i) * Suc i \<le> (Suc i + x) * Suc i" using x by (intro mult_le_mono1) simp
      with RetrySleep_bounds(1) [of "Suc i" x "draws i"] have "min (Suc (Suc i) * Suc i) 300 \<le> ?ns" by linarith
      with IH sl show ?thesis by (auto simp: nth_Cons split: nat.splits)
    qed
  qed
qed

lemma retry_api_trace:
  assumes "retry_api draws sleep maxTime f i tot w = (r, sl, w')"
  shows "r = api_result (fst (f (world_at f sleep sl w))) \<and> w' = snd (f (world_at f sleep sl w))
    \<and> (\<forall>k < length sl. retriable_failure (fst (f (world_at f sleep (take k sl) w))))"
  using assms
proof (induction draws sleep maxTime f i tot w arbitrary: r sl w' rule: retry_api.induct)
  case (1 draws sleep maxTime f i tot w)
  obtain e w1 where fw: "f w = (e, w1)" by fastforce
  show ?case
  proof (cases "retriable_failure e")
    case False
    with 1(2) fw show ?thesis
      by (auto simp: retry_api.simps [of draws] Let_def retriable_failure_def api_result_def split: option.splits)
  next
    case True
    then obtain err s where e: "e = Some err" "status_of err = Some s" "isRetriable (fst s)"
      by (auto simp: retriable_failure_def split: option.splits)
    let ?ns = "RetrySleep (draws i) (Suc i) (if isResourceExhausted (fst s) then 10 else 1)"
    show ?thesis
    proof (cases "tot + ?ns > maxTime")
      case nr: True
      with 1(2) fw e show ?thesis by (auto simp: retry_api.simps [of draws] Let_def api_result_def)
    next
      case False
      obtain r2 sl2 w2 where rec: "retry_api draws sleep maxTime f (Suc i) (tot + ?ns) (sleep ?ns w1) = (r2, sl2, w2)"
        by (metis prod_cases3)
      with 1(2) fw False e have sl: "r = r2" "sl = ?ns # sl2" "w' = w2"
        by (auto simp: retry_api.simps [of draws] Let_def)
      from 1(1) [OF fw [symmetric] e(1,2) _ refl _ rec] e(3) False have IH:
        "r2 = api_result (fst (f (world_at f sleep sl2 (sleep ?ns w1))))" "w2 = snd (f (world_at f sleep sl2 (sleep ?ns w1)))"
        "\<forall>k < length sl2. retriable_failure (fst (f (world_at f sleep (take k sl2) (sleep ?ns w1))))" by auto
      have "retriable_failure (fst (f (world_at f sleep (take k sl) w)))" if "k < length sl" for k
        using that sl IH(3) fw True by (cases k) auto
      with IH(1,2) sl fw show ?thesis by simp
    qed
  qed
qed

lemma sum_list_lower:
  assumes "\<forall>k < length xs. g k \<le> xs ! k" "n \<le> length xs"
  shows "sum_list (map g [0..<n]) \<le> (sum_list xs :: nat)"
proof -
  have "sum_list (map g [0..<n]) = (\<Sum>k<n. g k)" by (simp add: interv_sum_list_conv_sum_set_nat atLeast0LessThan)
  also have "\<dots> \<le> (\<Sum>k<n. xs ! k)" using assms by (intro sum_mono) auto
  also have "\<dots> \<le> (\<Sum>k<length xs. xs ! k)" using assms(2) by (intro sum_mono2) auto
  also have "\<dots> = sum_list xs" by (simp add: sum_list_sum_nth atLeast0LessThan)
  finally show ?thesis .
qed

text \<open>
  C8. \<open>RetryAPICall\<close> with the agent's ten minutes: it makes at most 12 calls and sleeps at most
  600 seconds in total; every call before the last failed with a retriable gRPC status; and the
  result is the last call's: nothing, an error that is no status as it is, or the readable form
  of its status.
\<close>

theorem RetryAPICall_bounded:
  assumes "RetryAPICall draws sleep apiRetrySec f w = (r, sl, w')"
  shows "Suc (length sl) \<le> 12 \<and> sum_list sl \<le> 600
    \<and> r = api_result (fst (f (world_at f sleep sl w))) \<and> w' = snd (f (world_at f sleep sl w))
    \<and> (\<forall>k < length sl. retriable_failure (fst (f (world_at f sleep (take k sl) w))))"
proof -
  note run = assms [unfolded RetryAPICall_def]
  note s = retry_api_sleeps [OF run]
  have lower: "sum_list (map (\<lambda>k. min (Suc (Suc (0 + k)) * Suc (0 + k)) 300) [0..<12]) = 728" by code_simp
  have "length sl < 12"
  proof (rule ccontr)
    assume "\<not> length sl < 12"
    with sum_list_lower [of sl "\<lambda>k. min (Suc (Suc (0 + k)) * Suc (0 + k)) 300" 12] s have "728 \<le> sum_list sl"
      unfolding lower by simp
    with s show False by (simp add: apiRetrySec_def)
  qed
  with s retry_api_trace [OF run] show ?thesis by (simp add: apiRetrySec_def)
qed

definition flaky :: "nat \<Rightarrow> go_error option \<times> nat" where
  "flaky n = (if n < 2 then Some (ErrStatus Unavailable ''try again'') else None, Suc n)"

lemma flaky_run: "RetryAPICall (\<lambda>i. 0) (\<lambda>s w. w) apiRetrySec flaky 0 = (None, [2, 6], 3)"
  by code_simp

corollary RetryAPICall_bounded_witness:
  "Suc (length [2, 6 :: nat]) \<le> 12 \<and> (None :: go_error option) = api_result (fst (flaky (world_at flaky (\<lambda>s w. w) [2, 6] 0)))"
  using RetryAPICall_bounded [OF flaky_run] by blast

text \<open>
  \<open>RetryFunc\<close> with the three minutes of the patch task: at most 8 attempts and 180 seconds
  of sleep; it stops at the first success, and gives up with the last error only when the next
  sleep would exceed the time.
\<close>

theorem RetryFunc_bounded:
  assumes "RetryFunc draws sleep retryPeriod f w = (r, sl, w')"
  shows "Suc (length sl) \<le> 8 \<and> sum_list sl \<le> 180 \<and> (r, w') = f (world_at f sleep sl w)
    \<and> (\<forall>k < length sl. fst (f (world_at f sleep (take k sl) w)) \<noteq> None)
    \<and> (r \<noteq> None \<longrightarrow> 180 < sum_list sl + RetrySleep (draws (length sl)) (Suc (length sl)) 0)"
proof -
  note run = assms [unfolded RetryFunc_def]
  note s = retry_func_sleeps [OF run]
  have lower: "sum_list (map (\<lambda>k. min (Suc (0 + k) * Suc (0 + k)) 300) [0..<8]) = 204" by code_simp
  have "length sl < 8"
  proof (rule ccontr)
    assume "\<not> length sl < 8"
    with sum_list_lower [of sl "\<lambda>k. min (Suc (0 + k) * Suc (0 + k)) 300" 8] s have "204 \<le> sum_list sl"
      unfolding lower by simp
    with s show False by (simp add: retryPeriod_def)
  qed
  with s retry_func_trace [OF run] show ?thesis by (simp add: retryPeriod_def)
qed

lemma flaky_func: "RetryFunc (\<lambda>i. 0) (\<lambda>s w. w) retryPeriod flaky 0 = (None, [1, 4], 3)"
  by code_simp

corollary RetryFunc_bounded_witness:
  "sum_list [1, 4 :: nat] \<le> 180 \<and> (None, 3) = flaky (world_at flaky (\<lambda>s w. w) [1, 4] 0)"
  using RetryFunc_bounded [OF flaky_func] by blast

text \<open>
  The comment of \<open>RetrySleep\<close> says that base 1 with extra 0 gives 1 to 2 seconds; \<open>rand.Intn(n)\<close>
  is below \<open>n\<close>, so it is always exactly 1.
\<close>

lemma RetrySleep_first: "RetrySleep rnd 1 0 = 1"
  by (simp add: RetrySleep_def)

end
