(* ===== verification/PatchTask.thy ===== *)
theory PatchTask
  imports GoLib
begin

text \<open>
  The ApplyPatches task: \<open>agentendpoint/patch_task.go\<close> and the state file of
  \<open>agentendpoint/task_state.go\<close> that carries it over a reboot.

  \<^item> The state file is JSON. \<open>StateJson st\<close> is the text that \<open>json.Marshal\<close> makes of \<open>st\<close>, read
    back by \<open>json.Unmarshal\<close> as \<open>st\<close>; \<open>StateGarbage\<close> is a text it rejects.
  \<^item> \<open>disk\<close> holds the current and the old state file; \<open>dk_faults\<close> lists what the next
    system calls answer.
  \<^item> The rest of the machine is a type \<open>'x\<close> with the operations of \<open>patch_env\<close>.
  \<^item> A step ends in \<open>Continue\<close> (the next turn of the loop), \<open>Finished\<close> (the return value) or
    \<open>Rebooting\<close> (the endless sleep after the reboot call: the process dies there).
\<close>

section \<open>The task and its saved state\<close>

datatype reboot_config = REBOOT_CONFIG_UNSPECIFIED | DEFAULT | ALWAYS | NEVER

record patch_config =
  pc_reboot :: reboot_config
  pc_apt_excludes :: "string list"
  pc_apt_exclusive :: "string list"
  pc_apt_dist :: bool
  pc_yum_security :: bool
  pc_yum_minimal :: bool
  pc_yum_excludes :: "string list"
  pc_yum_exclusive :: "string list"
  pc_zypper_categories :: "string list"
  pc_zypper_severities :: "string list"
  pc_zypper_with_update :: bool
  pc_zypper_with_optional :: bool
  pc_zypper_excludes :: "string list"
  pc_zypper_exclusive :: "string list"

datatype patch_progress = PP_STARTED | PP_APPLYING_PATCHES | PP_REBOOTING

datatype patch_output = PO_FAILED | PO_SUCCEEDED | PO_SUCCEEDED_REBOOT_REQUIRED

record patch_task =
  pt_id :: string
  pt_config :: patch_config
  pt_dry_run :: bool
  pt_started_at :: int
  pt_step :: string
  pt_pre_reboots :: int
  pt_post_reboots :: int
  pt_last_progress :: "patch_progress \<rightharpoonup> int"

text \<open>Unexported fields (\<open>client\<close>, \<open>state\<close>, \<open>lastProgressState\<close>) are not marshalled.\<close>

definition persisted :: "patch_task \<Rightarrow> patch_task" where
  "persisted r = r\<lparr>pt_last_progress := Map.empty\<rparr>"

record task_state =
  ts_patch :: "patch_task option"
  ts_labels :: "(string \<times> string) list"

definition empty_task_state :: task_state where
  "empty_task_state = \<lparr>ts_patch = None, ts_labels = []\<rparr>"

section \<open>task_state.go\<close>

datatype state_file = StateJson task_state | StateGarbage string

record disk =
  dk_current :: "state_file option"
  dk_old :: "state_file option"
  dk_faults :: "go_error option list"

definition disk_call :: "disk \<Rightarrow> go_error option \<times> disk" where
  "disk_call d = (case dk_faults d of [] \<Rightarrow> (None, d) | f # fs \<Rightarrow> (f, d\<lparr>dk_faults := fs\<rparr>))"

text \<open>\<open>writeFile\<close>: temporary file, write, close, rename; only the rename touches the live path.\<close>

definition write_state_file :: "state_file \<Rightarrow> disk \<Rightarrow> go_error option \<times> disk" where
  "write_state_file data d =
     (case disk_call d of
        (Some e, d1) \<Rightarrow> (Some e, d1)
      | (None, d1) \<Rightarrow>
          (case disk_call d1 of
             (Some e, d2) \<Rightarrow> (Some e, d2)
           | (None, d2) \<Rightarrow>
               (case disk_call d2 of
                  (Some e, d3) \<Rightarrow> (Some e, d3)
                | (None, d3) \<Rightarrow>
                    (case disk_call d3 of
                       (Some e, d4) \<Rightarrow> (Some e, d4)
                     | (None, d4) \<Rightarrow> (None, d4\<lparr>dk_current := Some data\<rparr>)))))"

definition save_state :: "task_state \<Rightarrow> disk \<Rightarrow> go_error option \<times> disk" where
  "save_state st d =
     (case disk_call d of
        (Some e, d1) \<Rightarrow> (Some e, d1)
      | (None, d1) \<Rightarrow> write_state_file (StateJson (st\<lparr>ts_patch := map_option persisted (ts_patch st)\<rparr>)) d1)"

text \<open>\<open>os.ReadFile\<close> of one of the two files: absent, unreadable, or its text.\<close>

definition read_state_file :: "state_file option \<Rightarrow> disk \<Rightarrow> state_file option res \<times> disk" where
  "read_state_file f d = (case disk_call d of (Some e, d1) \<Rightarrow> (Inl e, d1) | (None, d1) \<Rightarrow> (Inr f, d1))"

fun unmarshal_state :: "state_file \<Rightarrow> task_state res" where
  "unmarshal_state (StateJson st) = Inr st"
| "unmarshal_state (StateGarbage s) = Inl (ErrMsg ''invalid character in state file'')"

definition loadState :: "disk \<Rightarrow> task_state option res \<times> disk" where
  "loadState d =
     (let finish = (\<lambda>data d2. (map_sum id Some (unmarshal_state data), (snd (disk_call d2))\<lparr>dk_old :=
             (if fst (disk_call d2) = None then None else dk_old d2)\<rparr>))
      in case read_state_file (dk_current d) d of
        (Inl e, d1) \<Rightarrow> (Inl e, d1)
      | (Inr (Some data), d1) \<Rightarrow> finish data d1
      | (Inr None, d1) \<Rightarrow>
          (case read_state_file (dk_old d1) d1 of
             (Inl e, d2) \<Rightarrow> (Inl e, d2)
           | (Inr None, d2) \<Rightarrow> (Inr None, d2)
           | (Inr (Some data), d2) \<Rightarrow> finish data d2))"

section \<open>The machine around the task\<close>

record 'x patch_env =
  pe_progress :: "string \<Rightarrow> patch_progress \<Rightarrow> 'x \<Rightarrow> bool res \<times> 'x"
  pe_complete :: "string \<Rightarrow> string \<Rightarrow> patch_output \<Rightarrow> 'x \<Rightarrow> go_error option \<times> 'x"
  pe_now :: "'x \<Rightarrow> int"
  pe_reboot_required :: "'x \<Rightarrow> bool res \<times> 'x"
  pe_updates :: "patch_task \<Rightarrow> 'x \<Rightarrow> go_error option outcome \<times> 'x"
  pe_reboot :: "'x \<Rightarrow> go_error option \<times> 'x"

text \<open>\<open>pt\<close> with the labels of its \<open>taskState\<close>, the disk and the machine.\<close>

record 'x patch_world =
  pw_disk :: disk
  pw_rest :: 'x
  pw_labels :: "(string \<times> string) list"
  pw_sent :: "(patch_output \<times> string) list"

definition pw_lift :: "('x \<Rightarrow> 'a \<times> 'x) \<Rightarrow> 'x patch_world \<Rightarrow> 'a \<times> 'x patch_world" where
  "pw_lift f w = (case f (pw_rest w) of (a, x) \<Rightarrow> (a, w\<lparr>pw_rest := x\<rparr>))"

definition saveState :: "patch_task \<Rightarrow> 'x patch_world \<Rightarrow> go_error option \<times> 'x patch_world" where
  "saveState r w =
     (case save_state \<lparr>ts_patch = Some r, ts_labels = pw_labels w\<rparr> (pw_disk w) of (e, d) \<Rightarrow> (e, w\<lparr>pw_disk := d\<rparr>))"

text \<open>\<open>complete\<close>: the error of the save is only logged.\<close>

definition patch_complete :: "'x patch_world \<Rightarrow> 'x patch_world" where
  "patch_complete w = w\<lparr>pw_disk := snd (save_state empty_task_state (pw_disk w))\<rparr>"

definition setStep :: "string \<Rightarrow> patch_task \<Rightarrow> 'x patch_world \<Rightarrow> go_error option \<times> patch_task \<times> 'x patch_world" where
  "setStep stp r w =
     (let r' = r\<lparr>pt_step := stp\<rparr> in
      case saveState r' w of
        (e, w') \<Rightarrow> (map_option (\<lambda>err. ErrMsg (''error saving state: '' @ err_text err)) e, r', w'))"

definition patch_reportCompletedState ::
  "'x patch_env \<Rightarrow> patch_task \<Rightarrow> string \<Rightarrow> patch_output \<Rightarrow> 'x patch_world \<Rightarrow> go_error option \<times> 'x patch_world" where
  "patch_reportCompletedState env r errMsg out w =
     (case pw_lift (pe_complete env (pt_id r) errMsg out) w of
        (e, w') \<Rightarrow> (map_option (\<lambda>err. ErrMsg (''error reporting completed state: '' @ err_text err)) e,
                  w'\<lparr>pw_sent := pw_sent w' @ [(out, errMsg)]\<rparr>))"

definition reportFailed :: "'x patch_env \<Rightarrow> patch_task \<Rightarrow> string \<Rightarrow> 'x patch_world \<Rightarrow> go_error option \<times> 'x patch_world" where
  "reportFailed env r msg w = patch_reportCompletedState env r msg PO_FAILED w"

definition reportCanceled :: "'x patch_env \<Rightarrow> patch_task \<Rightarrow> 'x patch_world \<Rightarrow> go_error option \<times> 'x patch_world" where
  "reportCanceled env r w = patch_reportCompletedState env r (err_text ErrServerCancel) PO_FAILED w"

definition patch_handleErrorState ::
  "'x patch_env \<Rightarrow> patch_task \<Rightarrow> string \<Rightarrow> go_error \<Rightarrow> 'x patch_world \<Rightarrow> go_error option \<times> 'x patch_world" where
  "patch_handleErrorState env r msg err w =
     (if err = ErrServerCancel then reportCanceled env r w else reportFailed env r msg w)"

fun patch_progress_text :: "patch_progress \<Rightarrow> string" where
  "patch_progress_text PP_STARTED = ''STARTED''"
| "patch_progress_text PP_APPLYING_PATCHES = ''APPLYING_PATCHES''"
| "patch_progress_text PP_REBOOTING = ''REBOOTING''"

definition patch_sameStateTimeWindow :: int where
  "patch_sameStateTimeWindow = -5000000000"

text \<open>The progress call answers whether the server's directive is STOP.\<close>

definition patch_reportContinuingState ::
  "'x patch_env \<Rightarrow> patch_progress \<Rightarrow> patch_task \<Rightarrow> 'x patch_world \<Rightarrow> go_error option \<times> patch_task \<times> 'x patch_world" where
  "patch_reportContinuingState env st r w =
     (if (case pt_last_progress r st of
            None \<Rightarrow> False | Some t \<Rightarrow> pe_now env (pw_rest w) + patch_sameStateTimeWindow < t)
      then (None, r, w)
      else
        (case pw_lift (pe_progress env (pt_id r) st) w of
           (Inl err, w1) \<Rightarrow>
             (Some (ErrMsg (''error reporting state '' @ patch_progress_text st @ '': '' @ err_text err)), r, w1)
         | (Inr stop, w1) \<Rightarrow>
             if stop then (Some ErrServerCancel, r, w1)
             else
               (let r' = r\<lparr>pt_last_progress := (pt_last_progress r)(st \<mapsto> pe_now env (pw_rest w1))\<rparr> in
                case saveState r' w1 of (e, w2) \<Rightarrow> (e, r', w2))))"

section \<open>Reboots\<close>

definition totalRebootCountLimit :: int where
  "totalRebootCountLimit = 5"

datatype reboot_result = NoReboot | RebootError go_error | Rebooted

text \<open>The tail of \<open>rebootIfNeeded\<close>, from the point where a reboot is wanted.\<close>

definition do_reboot :: "'x patch_env \<Rightarrow> bool \<Rightarrow> patch_task \<Rightarrow> 'x patch_world \<Rightarrow> reboot_result \<times> patch_task \<times> 'x patch_world" where
  "do_reboot env prePatch r w =
     (if pc_reboot (pt_config r) = NEVER then (NoReboot, r, w)
      else if pt_dry_run r then (NoReboot, r, w)
      else
        (let r1 = (if prePatch then r\<lparr>pt_pre_reboots := pt_pre_reboots r + 1\<rparr>
                   else r\<lparr>pt_post_reboots := pt_post_reboots r + 1\<rparr>) in
         case saveState r1 w of
           (Some e, w1) \<Rightarrow> (RebootError (ErrMsg (''error saving state: '' @ err_text e)), r1, w1)
         | (None, w1) \<Rightarrow>
             (case patch_reportContinuingState env PP_REBOOTING r1 w1 of
                (_, r2, w2) \<Rightarrow>
                  (case pw_lift (pe_reboot env) w2 of
                     (Some e, w3) \<Rightarrow> (RebootError (ErrMsg (''failed to reboot system: '' @ err_text e)), r2, w3)
                   | (None, w3) \<Rightarrow> (Rebooted, r2, w3)))))"

definition rebootIfNeeded :: "'x patch_env \<Rightarrow> bool \<Rightarrow> patch_task \<Rightarrow> 'x patch_world \<Rightarrow> reboot_result \<times> patch_task \<times> 'x patch_world" where
  "rebootIfNeeded env prePatch r w =
     (if pc_reboot (pt_config r) = ALWAYS \<and> \<not> prePatch \<and> pt_post_reboots r = 0
      then do_reboot env prePatch r w
      else
        (case pw_lift (pe_reboot_required env) w of
           (Inl e, w1) \<Rightarrow> (RebootError (ErrMsg (''error checking if a system reboot is required: '' @ err_text e)), r, w1)
         | (Inr need, w1) \<Rightarrow>
             if \<not> need then (NoReboot, r, w1)
             else if pt_pre_reboots r + pt_post_reboots r \<ge> totalRebootCountLimit then (NoReboot, r, w1)
             else do_reboot env prePatch r w1))"

section \<open>The run\<close>

datatype step_result = Continue | Finished "go_error option" | Rebooting | Panicked string

definition prePatch :: string where "prePatch = ''PrePatch''"
definition patching :: string where "patching = ''Patching''"
definition postPatch :: string where "postPatch = ''PostPatch''"

definition finish :: "patch_task \<Rightarrow> go_error option \<times> 'x patch_world \<Rightarrow> step_result \<times> patch_task \<times> 'x patch_world" where
  "finish r res = (Finished (fst res), r, snd res)"

definition step_prePatch :: "'x patch_env \<Rightarrow> patch_task \<Rightarrow> 'x patch_world \<Rightarrow> step_result \<times> patch_task \<times> 'x patch_world" where
  "step_prePatch env r w =
     (case setStep patching (r\<lparr>pt_started_at := pe_now env (pw_rest w)\<rparr>) w of
        (Some e, r1, w1) \<Rightarrow> finish r1 (reportFailed env r1 (''Error saving agent step: '' @ err_text e) w1)
      | (None, r1, w1) \<Rightarrow>
          (case patch_reportContinuingState env PP_STARTED r1 w1 of
             (Some e, r2, w2) \<Rightarrow> finish r2 (patch_handleErrorState env r2 (err_text e) e w2)
           | (None, r2, w2) \<Rightarrow>
               (case rebootIfNeeded env True r2 w2 of
                  (RebootError e, r3, w3) \<Rightarrow>
                    finish r3 (patch_handleErrorState env r3 (''Error running prePatchReboot: '' @ err_text e) e w3)
                | (Rebooted, r3, w3) \<Rightarrow> (Rebooting, r3, w3)
                | (NoReboot, r3, w3) \<Rightarrow> (Continue, r3, w3))))"

definition step_patching :: "'x patch_env \<Rightarrow> patch_task \<Rightarrow> 'x patch_world \<Rightarrow> step_result \<times> patch_task \<times> 'x patch_world" where
  "step_patching env r w =
     (case patch_reportContinuingState env PP_APPLYING_PATCHES r w of
        (Some e, r1, w1) \<Rightarrow> finish r1 (patch_handleErrorState env r1 (err_text e) e w1)
      | (None, r1, w1) \<Rightarrow>
          (case pw_lift (pe_updates env r1) w1 of
             (Panic p, w2) \<Rightarrow> (Panicked p, r1, w2)
           | (Done (Some e), w2) \<Rightarrow>
               finish r1 (patch_handleErrorState env r1 (''Failed to apply patches: '' @ err_text e) e w2)
           | (Done None, w2) \<Rightarrow>
               (case rebootIfNeeded env False r1 w2 of
                  (RebootError e, r3, w3) \<Rightarrow>
                    finish r3 (patch_handleErrorState env r3 (''Error running postPatchReboot: '' @ err_text e) e w3)
                | (Rebooted, r3, w3) \<Rightarrow> (Rebooting, r3, w3)
                | (NoReboot, r3, w3) \<Rightarrow>
                    (case setStep postPatch r3 w3 of
                       (Some e, r4, w4) \<Rightarrow> finish r4 (reportFailed env r4 (''Error saving agent step: '' @ err_text e) w4)
                     | (None, r4, w4) \<Rightarrow> (Continue, r4, w4)))))"

fun output_text :: "patch_output \<Rightarrow> string" where
  "output_text PO_FAILED = ''FAILED''"
| "output_text PO_SUCCEEDED = ''SUCCEEDED''"
| "output_text PO_SUCCEEDED_REBOOT_REQUIRED = ''SUCCEEDED_REBOOT_REQUIRED''"

definition step_postPatch :: "'x patch_env \<Rightarrow> patch_task \<Rightarrow> 'x patch_world \<Rightarrow> step_result \<times> patch_task \<times> 'x patch_world" where
  "step_postPatch env r w =
     (case pw_lift (pe_reboot_required env) w of
        (Inl e, w1) \<Rightarrow> finish r (reportFailed env r (''Error checking if system reboot is required: '' @ err_text e) w1)
      | (Inr need, w1) \<Rightarrow>
          (let finalState = (if need then PO_SUCCEEDED_REBOOT_REQUIRED else PO_SUCCEEDED) in
           case patch_reportCompletedState env r [] finalState w1 of
             (Some e, w2) \<Rightarrow> (Finished (Some (ErrMsg (''failed to report state '' @ output_text finalState @ '': '' @ err_text e))), r, w2)
           | (None, w2) \<Rightarrow> (Finished None, r, w2)))"

definition patch_step :: "'x patch_env \<Rightarrow> patch_task \<Rightarrow> 'x patch_world \<Rightarrow> step_result \<times> patch_task \<times> 'x patch_world" where
  "patch_step env r w =
     (if pt_step r = prePatch then step_prePatch env r w
      else if pt_step r = patching then step_patching env r w
      else if pt_step r = postPatch then step_postPatch env r w
      else finish r (reportFailed env r (''unknown step: '' @ quote (pt_step r)) w))"

section \<open>The state file as an interface\<close>

text \<open>What the task relies on: a save that succeeds is what will be loaded, one that fails changes nothing.\<close>

locale state_store =
  fixes save :: "'s \<Rightarrow> 'd \<Rightarrow> go_error option \<times> 'd"
    and norm :: "'s \<Rightarrow> 's"
    and stored :: "'d \<Rightarrow> 's option"
  assumes save_ok: "save s d = (None, d') \<Longrightarrow> stored d' = Some (norm s)"
    and save_err: "save s d = (Some e, d') \<Longrightarrow> stored d' = stored d"
    and norm_idem: "norm (norm s) = norm s"
begin

lemma stored_after: "stored (snd (save s d)) = (if fst (save s d) = None then Some (norm s) else stored d)"
  using save_ok [of s d] save_err [of s d] by (cases "save s d"; cases "fst (save s d)") auto

text \<open>Saving again a state with the same persistent part cannot lose it.\<close>

lemma save_again:
  assumes "stored d = Some (norm s)" "norm t = norm s"
  shows "stored (snd (save t d)) = Some (norm s)"
  using assms by (simp add: stored_after)

end

definition persist_state :: "task_state \<Rightarrow> task_state" where
  "persist_state st = st\<lparr>ts_patch := map_option persisted (ts_patch st)\<rparr>"

definition current_state :: "disk \<Rightarrow> task_state option" where
  "current_state d = (case dk_current d of Some (StateJson st) \<Rightarrow> Some st | _ \<Rightarrow> None)"

lemma disk_call_frame: "disk_call d = (e, d') \<Longrightarrow> dk_current d' = dk_current d \<and> dk_old d' = dk_old d"
  by (auto simp: disk_call_def split: list.splits)

lemma write_state_file_cases:
  assumes "write_state_file data d = (e, d')"
  shows "dk_current d' = (if e = None then Some data else dk_current d)"
  using assms
  by (auto simp: write_state_file_def split: prod.splits option.splits dest!: disk_call_frame)

lemma save_state_cases:
  assumes "save_state st d = (e, d')"
  shows "dk_current d' = (if e = None then Some (StateJson (persist_state st)) else dk_current d)"
  using assms
  by (auto simp: save_state_def persist_state_def split: prod.splits option.splits dest!: disk_call_frame write_state_file_cases)

lemma persisted_idem [simp]: "persisted (persisted r) = persisted r"
  by (simp add: persisted_def)

interpretation ts: state_store save_state persist_state current_state
proof
  show "save_state s d = (None, d') \<Longrightarrow> current_state d' = Some (persist_state s)" for s d d'
    by (drule save_state_cases) (simp add: current_state_def)
  show "save_state s d = (Some e, d') \<Longrightarrow> current_state d' = current_state d" for s d e d'
    by (drule save_state_cases) (simp add: current_state_def)
  show "persist_state (persist_state s) = persist_state s" for s
    by (cases "ts_patch s") (simp_all add: persist_state_def)
qed

lemma loadState_current:
  assumes "current_state d = Some st" "loadState d = (Inr (Some st'), d')"
  shows "st' = st"
  using assms
  by (auto simp: loadState_def current_state_def read_state_file_def Let_def
      split: option.splits state_file.splits prod.splits sum.splits)

section \<open>The loop\<close>

definition task_with :: "patch_task \<Rightarrow> 'x patch_world \<Rightarrow> task_state" where
  "task_with r w = \<lparr>ts_patch = Some r, ts_labels = pw_labels w\<rparr>"

lemma persist_task_with [simp]: "persist_state (task_with r w) = \<lparr>ts_patch = Some (persisted r), ts_labels = pw_labels w\<rparr>"
  by (simp add: persist_state_def task_with_def)

lemma pw_lift_frame:
  "pw_lift f w = (a, w') \<Longrightarrow> pw_disk w' = pw_disk w \<and> pw_labels w' = pw_labels w \<and> pw_sent w' = pw_sent w"
  by (auto simp: pw_lift_def split: prod.splits)

lemma saveState_cases:
  assumes "saveState r w = (e, w')"
  shows "current_state (pw_disk w') = (if e = None then Some (persist_state (task_with r w)) else current_state (pw_disk w))"
    and "pw_labels w' = pw_labels w" and "pw_sent w' = pw_sent w" and "pw_rest w' = pw_rest w"
proof -
  obtain e1 d where s: "save_state (task_with r w) (pw_disk w) = (e1, d)" by fastforce
  with assms have e: "e = e1" "w' = w\<lparr>pw_disk := d\<rparr>" by (auto simp: saveState_def task_with_def)
  show "current_state (pw_disk w') = (if e = None then Some (persist_state (task_with r w)) else current_state (pw_disk w))"
    using ts.stored_after [of "task_with r w" "pw_disk w"] s e by simp
  show "pw_labels w' = pw_labels w" "pw_sent w' = pw_sent w" "pw_rest w' = pw_rest w" using e by simp_all
qed

lemma report_frame:
  assumes "patch_reportContinuingState env st r w = (e, r', w')"
  shows "persisted r' = persisted r" and "pw_labels w' = pw_labels w" and "pw_sent w' = pw_sent w"
    and "current_state (pw_disk w) = Some (persist_state (task_with r w)) \<Longrightarrow>
         current_state (pw_disk w') = Some (persist_state (task_with r w))"
proof -
  note d = assms [unfolded patch_reportContinuingState_def]
  have "persisted r' = persisted r \<and> pw_labels w' = pw_labels w \<and> pw_sent w' = pw_sent w
    \<and> (current_state (pw_disk w) = Some (persist_state (task_with r w)) \<longrightarrow>
         current_state (pw_disk w') = Some (persist_state (task_with r w)))"
  proof (cases "case pt_last_progress r st of None \<Rightarrow> False | Some t \<Rightarrow> pe_now env (pw_rest w) + patch_sameStateTimeWindow < t")
    case True
    with d show ?thesis by simp
  next
    case False
    obtain p w1 where l: "pw_lift (pe_progress env (pt_id r) st) w = (p, w1)" by fastforce
    note f = pw_lift_frame [OF l]
    show ?thesis
    proof (cases "p = Inr False")
      case True
      define r2 where "r2 = r\<lparr>pt_last_progress := (pt_last_progress r)(st \<mapsto> pe_now env (pw_rest w1))\<rparr>"
      obtain e2 w2 where s: "saveState r2 w1 = (e2, w2)" by fastforce
      from d False l True s have r: "r' = r2" "w' = w2" by (auto simp: r2_def Let_def)
      have "persisted r2 = persisted r" by (simp add: r2_def persisted_def)
      with saveState_cases [OF s] f r show ?thesis by auto
    next
      case nf: False
      from d False l nf f show ?thesis by (auto split: sum.splits if_splits)
    qed
  qed
  then show "persisted r' = persisted r" "pw_labels w' = pw_labels w" "pw_sent w' = pw_sent w"
    "current_state (pw_disk w) = Some (persist_state (task_with r w)) \<Longrightarrow>
         current_state (pw_disk w') = Some (persist_state (task_with r w))" by blast+
qed

lemma persisted_fields:
  assumes "persisted r' = persisted r"
  shows "pt_id r' = pt_id r" "pt_config r' = pt_config r" "pt_dry_run r' = pt_dry_run r" "pt_step r' = pt_step r"
    "pt_pre_reboots r' = pt_pre_reboots r" "pt_post_reboots r' = pt_post_reboots r" "pt_started_at r' = pt_started_at r"
proof -
  have r: "r' = r\<lparr>pt_last_progress := pt_last_progress r'\<rparr>"
    using assms by (cases r; cases r') (simp add: persisted_def)
  show "pt_id r' = pt_id r" "pt_config r' = pt_config r" "pt_dry_run r' = pt_dry_run r" "pt_step r' = pt_step r"
    "pt_pre_reboots r' = pt_pre_reboots r" "pt_post_reboots r' = pt_post_reboots r" "pt_started_at r' = pt_started_at r"
    by (subst r, simp)+
qed

text \<open>What a reboot leaves: the counter raised, the task in the state file.\<close>

definition reboot_bump :: "bool \<Rightarrow> patch_task \<Rightarrow> patch_task" where
  "reboot_bump pre r = (if pre then r\<lparr>pt_pre_reboots := pt_pre_reboots r + 1\<rparr> else r\<lparr>pt_post_reboots := pt_post_reboots r + 1\<rparr>)"

lemma do_reboot_skip:
  "pc_reboot (pt_config r) = NEVER \<or> pt_dry_run r \<Longrightarrow> do_reboot env pre r w = (NoReboot, r, w)"
  by (auto simp: do_reboot_def)

lemma do_reboot_facts:
  assumes "do_reboot env pre r w = (res, r', w')"
  shows "pw_labels w' = pw_labels w \<and> pw_sent w' = pw_sent w
    \<and> (persisted r' = persisted r \<or> persisted r' = persisted (reboot_bump pre r))
    \<and> (res = NoReboot \<longrightarrow> r' = r \<and> w' = w)
    \<and> (res = Rebooted \<longrightarrow> persisted r' = persisted (reboot_bump pre r) \<and> \<not> pt_dry_run r \<and> pc_reboot (pt_config r) \<noteq> NEVER
         \<and> current_state (pw_disk w') = Some (persist_state (task_with r' w)))"
proof (cases "pc_reboot (pt_config r) = NEVER \<or> pt_dry_run r")
  case True
  from assms have "res = NoReboot" "r' = r" "w' = w" unfolding do_reboot_skip [OF True] by auto
  then show ?thesis by simp
next
  case False
  define r1 where "r1 = reboot_bump pre r"
  obtain e1 w1 where s: "saveState r1 w = (e1, w1)" by fastforce
  note sf = saveState_cases [OF s]
  show ?thesis
  proof (cases e1)
    case (Some e)
    with assms False s sf show ?thesis by (auto simp: do_reboot_def Let_def r1_def reboot_bump_def)
  next
    case None
    obtain e2 r2 w2 where c: "patch_reportContinuingState env PP_REBOOTING r1 w1 = (e2, r2, w2)" by (metis prod_cases3)
    note cf = report_frame [OF c]
    obtain e3 w3 where l: "pw_lift (pe_reboot env) w2 = (e3, w3)" by fastforce
    note lf = pw_lift_frame [OF l]
    from assms False s None c l have r: "r' = r2" "w' = w3" "res = (case e3 of None \<Rightarrow> Rebooted | Some e \<Rightarrow> RebootError (ErrMsg (''failed to reboot system: '' @ err_text e)))"
      by (auto simp: do_reboot_def Let_def r1_def reboot_bump_def split: option.splits)
    have "current_state (pw_disk w1) = Some (persist_state (task_with r1 w1))" using sf None by simp
    with cf(4) lf cf(1) sf have "current_state (pw_disk w3) = Some (persist_state (task_with r2 w))" by simp
    with r cf lf sf False show ?thesis by (auto simp: r1_def split: option.splits)
  qed
qed

lemma rebootIfNeeded_facts:
  assumes "rebootIfNeeded env pre r w = (res, r', w')"
  shows "pw_labels w' = pw_labels w \<and> pw_sent w' = pw_sent w
    \<and> (persisted r' = persisted r \<or> persisted r' = persisted (reboot_bump pre r))
    \<and> (res = NoReboot \<longrightarrow> r' = r)
    \<and> (res = Rebooted \<longrightarrow> persisted r' = persisted (reboot_bump pre r) \<and> \<not> pt_dry_run r \<and> pc_reboot (pt_config r) \<noteq> NEVER
         \<and> current_state (pw_disk w') = Some (persist_state (task_with r' w))
         \<and> (pt_pre_reboots r + pt_post_reboots r < totalRebootCountLimit \<or> (\<not> pre \<and> pt_post_reboots r = 0)))"
proof (cases "pc_reboot (pt_config r) = ALWAYS \<and> \<not> pre \<and> pt_post_reboots r = 0")
  case True
  with assms have "do_reboot env pre r w = (res, r', w')" by (simp add: rebootIfNeeded_def)
  from do_reboot_facts [OF this] True show ?thesis by auto
next
  case False
  obtain p w1 where l: "pw_lift (pe_reboot_required env) w = (p, w1)" by fastforce
  note f = pw_lift_frame [OF l]
  consider e where "p = Inl e" | "p = Inr False" | "p = Inr True" "pt_pre_reboots r + pt_post_reboots r \<ge> totalRebootCountLimit"
    | "p = Inr True" "pt_pre_reboots r + pt_post_reboots r < totalRebootCountLimit" by (cases p) force+
  then show ?thesis
  proof cases
    case 4
    with assms l False have "do_reboot env pre r w1 = (res, r', w')" unfolding rebootIfNeeded_def by simp
    from do_reboot_facts [OF this] 4 f show ?thesis by (auto simp: task_with_def)
  qed (use assms l f False in \<open>auto simp: rebootIfNeeded_def\<close>)
qed

lemma setStep_facts:
  assumes "setStep st r w = (e, r', w')"
  shows "r' = r\<lparr>pt_step := st\<rparr>" and "pw_labels w' = pw_labels w" and "pw_sent w' = pw_sent w"
    and "e = None \<Longrightarrow> current_state (pw_disk w') = Some (persist_state (task_with r' w))"
proof -
  obtain e1 w1 where s: "saveState (r\<lparr>pt_step := st\<rparr>) w = (e1, w1)" by fastforce
  with assms have "r' = r\<lparr>pt_step := st\<rparr>" "w' = w1" "e = None \<Longrightarrow> e1 = None" by (auto simp: setStep_def Let_def)
  with saveState_cases [OF s] show "r' = r\<lparr>pt_step := st\<rparr>" "pw_labels w' = pw_labels w" "pw_sent w' = pw_sent w"
    "e = None \<Longrightarrow> current_state (pw_disk w') = Some (persist_state (task_with r' w))" by simp_all
qed

lemma report_complete_facts:
  assumes "patch_reportCompletedState env r m out w = (e, w')"
  shows "pw_sent w' = pw_sent w @ [(out, m)]" and "pw_labels w' = pw_labels w" and "pw_disk w' = pw_disk w"
  using assms by (auto simp: patch_reportCompletedState_def split: prod.splits dest!: pw_lift_frame)

lemma failed_facts:
  "\<exists>m. pw_sent (snd (reportFailed env r msg w)) = pw_sent w @ [(PO_FAILED, m)]"
  "\<exists>m. pw_sent (snd (patch_handleErrorState env r msg err w)) = pw_sent w @ [(PO_FAILED, m)]"
  "pw_labels (snd (reportFailed env r msg w)) = pw_labels w"
  "pw_disk (snd (reportFailed env r msg w)) = pw_disk w"
  using report_complete_facts [of env r msg PO_FAILED w, OF surjective_pairing]
    report_complete_facts [of env r "err_text ErrServerCancel" PO_FAILED w, OF surjective_pairing]
  by (auto simp: reportFailed_def patch_handleErrorState_def reportCanceled_def)

text \<open>One turn of the loop: it goes on only to the next step, it sends exactly one completion
  when it finishes and none otherwise, and a reboot leaves the raised counter on disk.\<close>

lemma step_prePatch_facts:
  assumes "step_prePatch env r w = (res, r', w')"
  shows "(res = Continue \<longrightarrow> pt_step r' = patching \<and> pw_sent w' = pw_sent w
        \<and> pt_pre_reboots r' = pt_pre_reboots r \<and> pt_post_reboots r' = pt_post_reboots r)
    \<and> (\<forall>e. res = Finished e \<longrightarrow> (\<exists>m. pw_sent w' = pw_sent w @ [(PO_FAILED, m)]))
    \<and> (\<forall>p. res \<noteq> Panicked p)
    \<and> (res = Rebooting \<longrightarrow> pw_sent w' = pw_sent w \<and> pt_step r' = patching \<and> \<not> pt_dry_run r' \<and> pc_reboot (pt_config r') \<noteq> NEVER
        \<and> pt_pre_reboots r' = pt_pre_reboots r + 1 \<and> pt_post_reboots r' = pt_post_reboots r
        \<and> current_state (pw_disk w') = Some (persist_state (task_with r' w))
        \<and> pt_pre_reboots r + pt_post_reboots r < totalRebootCountLimit)"
proof -
  obtain e1 r1 w1 where s: "setStep patching (r\<lparr>pt_started_at := pe_now env (pw_rest w)\<rparr>) w = (e1, r1, w1)" by (metis prod_cases3)
  note sf = setStep_facts [OF s]
  show ?thesis
  proof (cases e1)
    case (Some e)
    with assms s sf failed_facts(1) [of env r1 "''Error saving agent step: '' @ err_text e" w1] show ?thesis
      by (auto simp: step_prePatch_def finish_def)
  next
    case None
    obtain e2 r2 w2 where c: "patch_reportContinuingState env PP_STARTED r1 w1 = (e2, r2, w2)" by (metis prod_cases3)
    note cf = report_frame [OF c]
    note cp = persisted_fields [OF cf(1)]
    show ?thesis
    proof (cases e2)
      case (Some e)
      with assms s None c sf cf failed_facts(2) [of env r2 "err_text e" e w2] show ?thesis
        by (auto simp: step_prePatch_def finish_def)
    next
      case n2: None
      obtain rr r3 w3 where b: "rebootIfNeeded env True r2 w2 = (rr, r3, w3)" by (metis prod_cases3)
      note bf = rebootIfNeeded_facts [OF b]
      show ?thesis
      proof (cases rr)
        case NoReboot
        with assms s None c n2 b bf sf cf cp show ?thesis by (auto simp: step_prePatch_def)
      next
        case (RebootError e)
        with assms s None c n2 b bf sf cf failed_facts(2) [of env r3 "''Error running prePatchReboot: '' @ err_text e" e w3]
        show ?thesis by (auto simp: step_prePatch_def finish_def)
      next
        case Rebooted
        with bf have "persisted r3 = persisted (reboot_bump True r2)" by simp
        note rp = persisted_fields [OF this]
        from Rebooted assms s None c n2 b bf sf cf cp rp show ?thesis
          by (auto simp: step_prePatch_def reboot_bump_def task_with_def)
      qed
    qed
  qed
qed

lemma step_patching_facts:
  assumes "step_patching env r w = (res, r', w')"
  shows "(res = Continue \<longrightarrow> pt_step r' = postPatch \<and> pw_sent w' = pw_sent w
        \<and> pt_pre_reboots r' = pt_pre_reboots r \<and> pt_post_reboots r' = pt_post_reboots r)
    \<and> (\<forall>e. res = Finished e \<longrightarrow> (\<exists>m. pw_sent w' = pw_sent w @ [(PO_FAILED, m)]))
    \<and> (\<forall>p. res = Panicked p \<longrightarrow> persisted r' = persisted r \<and> pw_sent w' = pw_sent w \<and> pw_labels w' = pw_labels w
         \<and> (current_state (pw_disk w) = Some (persist_state (task_with r w)) \<longrightarrow>
            current_state (pw_disk w') = Some (persist_state (task_with r w))))
    \<and> (res = Rebooting \<longrightarrow> pw_sent w' = pw_sent w \<and> pt_step r' = pt_step r \<and> \<not> pt_dry_run r' \<and> pc_reboot (pt_config r') \<noteq> NEVER
        \<and> pt_pre_reboots r' = pt_pre_reboots r \<and> pt_post_reboots r' = pt_post_reboots r + 1
        \<and> current_state (pw_disk w') = Some (persist_state (task_with r' w))
        \<and> (pt_pre_reboots r + pt_post_reboots r < totalRebootCountLimit \<or> pt_post_reboots r = 0))"
proof -
  obtain e1 r1 w1 where c: "patch_reportContinuingState env PP_APPLYING_PATCHES r w = (e1, r1, w1)" by (metis prod_cases3)
  note cf = report_frame [OF c]
  note cp = persisted_fields [OF cf(1)]
  show ?thesis
  proof (cases e1)
    case (Some e)
    with assms c cf failed_facts(2) [of env r1 "err_text e" e w1] show ?thesis
      by (auto simp: step_patching_def finish_def)
  next
    case n1: None
    obtain u w2 where l: "pw_lift (pe_updates env r1) w1 = (u, w2)" by fastforce
    note lf = pw_lift_frame [OF l]
    consider p where "u = Panic p" | e where "u = Done (Some e)" | "u = Done None" by (metis option.exhaust outcome.exhaust)
    then show ?thesis
    proof cases
      case 1
      with assms c n1 l lf cf show ?thesis by (auto simp: step_patching_def)
    next
      case (2 e)
      with assms c n1 l lf cf failed_facts(2) [of env r1 "''Failed to apply patches: '' @ err_text e" e w2] show ?thesis
        by (auto simp: step_patching_def finish_def)
    next
      case u: 3
      obtain rr r3 w3 where b: "rebootIfNeeded env False r1 w2 = (rr, r3, w3)" by (metis prod_cases3)
      note bf = rebootIfNeeded_facts [OF b]
      show ?thesis
      proof (cases rr)
        case NoReboot
        obtain e4 r4 w4 where s: "setStep postPatch r3 w3 = (e4, r4, w4)" by (metis prod_cases3)
        note sf = setStep_facts [OF s]
        show ?thesis
        proof (cases e4)
          case None
          with assms c n1 l lf u b NoReboot s bf sf cf cp show ?thesis by (auto simp: step_patching_def)
        next
          case (Some e)
          with assms c n1 l lf u b NoReboot s bf sf cf failed_facts(1) [of env r4 "''Error saving agent step: '' @ err_text e" w4]
          show ?thesis by (auto simp: step_patching_def finish_def)
        qed
      next
        case (RebootError e)
        with assms c n1 l lf u b bf cf failed_facts(2) [of env r3 "''Error running postPatchReboot: '' @ err_text e" e w3]
        show ?thesis by (auto simp: step_patching_def finish_def)
      next
        case Rebooted
        with bf have "persisted r3 = persisted (reboot_bump False r1)" by simp
        note rp = persisted_fields [OF this]
        from Rebooted assms c n1 l lf u b bf cf cp rp show ?thesis
          by (auto simp: step_patching_def reboot_bump_def task_with_def)
      qed
    qed
  qed
qed

lemma step_postPatch_facts:
  assumes "step_postPatch env r w = (res, r', w')"
  shows "\<exists>e out m. res = Finished e \<and> pw_sent w' = pw_sent w @ [(out, m)]"
proof -
  obtain p w1 where l: "pw_lift (pe_reboot_required env) w = (p, w1)" by fastforce
  note lf = pw_lift_frame [OF l]
  show ?thesis
  proof (cases p)
    case (Inl e)
    with assms l lf failed_facts(1) [of env r "''Error checking if system reboot is required: '' @ err_text e" w1] show ?thesis
      by (auto simp: step_postPatch_def finish_def)
  next
    case (Inr need)
    define fin where "fin = (if need then PO_SUCCEEDED_REBOOT_REQUIRED else PO_SUCCEEDED)"
    obtain e2 w2 where c: "patch_reportCompletedState env r [] fin w1 = (e2, w2)" by fastforce
    from assms l lf Inr c report_complete_facts [OF c] show ?thesis
      by (cases e2) (auto simp: step_postPatch_def fin_def Let_def)
  qed
qed

definition step_rank :: "patch_task \<Rightarrow> nat" where
  "step_rank r = (if pt_step r = prePatch then 3 else if pt_step r = patching then 2 else 1)"

lemma step_names [simp]: "prePatch \<noteq> patching" "patching \<noteq> prePatch" "postPatch \<noteq> prePatch" "postPatch \<noteq> patching"
  by (simp_all add: prePatch_def patching_def postPatch_def)

lemma patch_step_rank: "patch_step env r w = (Continue, r', w') \<Longrightarrow> step_rank r' < step_rank r"
  using step_prePatch_facts [of env r w Continue r' w'] step_patching_facts [of env r w Continue r' w']
    step_postPatch_facts [of env r w Continue r' w']
  by (auto simp: patch_step_def step_rank_def finish_def split: if_splits)

text \<open>
  The loop of \<open>run\<close> with its deferred function: after a recovered panic the task is reported as
  failed and \<open>complete\<close> is not called; otherwise \<open>complete\<close> clears the state file. The process
  does not come back from \<open>Rebooting\<close>. (The inventory report in the background is left out.)
\<close>

datatype run_result = RunReturned "go_error option" | RunRebooting

function patch_run :: "'x patch_env \<Rightarrow> patch_task \<Rightarrow> 'x patch_world \<Rightarrow> run_result \<times> patch_task \<times> 'x patch_world" where
  "patch_run env r w =
     (case patch_step env r w of
        (Continue, r', w') \<Rightarrow> patch_run env r' w'
      | (Finished e, r', w') \<Rightarrow> (RunReturned e, r', patch_complete w')
      | (Rebooting, r', w') \<Rightarrow> (RunRebooting, r', w')
      | (Panicked p, r', w') \<Rightarrow>
          (let err = ErrMsg (''Recovered from panic: '' @ p) in
           (RunReturned (Some err), r', snd (reportFailed env r' (err_text err) w'))))"
  by pat_completeness auto
termination
  by (relation "measure (\<lambda>(env, r, w). step_rank r)") (auto dest: patch_step_rank [OF sym])

declare patch_run.simps [simp del]

text \<open>\<open>RunApplyPatches\<close>; the error of the first \<open>setStep\<close> is dropped by the code.\<close>

definition new_patch_task :: "string \<Rightarrow> patch_config \<Rightarrow> bool \<Rightarrow> patch_task" where
  "new_patch_task tid cfg dry = \<lparr>pt_id = tid, pt_config = cfg, pt_dry_run = dry, pt_started_at = 0, pt_step = [],
     pt_pre_reboots = 0, pt_post_reboots = 0, pt_last_progress = Map.empty\<rparr>"

definition RunApplyPatches :: "'x patch_env \<Rightarrow> string \<Rightarrow> patch_config \<Rightarrow> bool \<Rightarrow> 'x patch_world
    \<Rightarrow> run_result \<times> patch_task \<times> 'x patch_world" where
  "RunApplyPatches env tid cfg dry w =
     (case setStep prePatch (new_patch_task tid cfg dry) w of (_, r, w1) \<Rightarrow> patch_run env r w1)"

section \<open>Sessions: the task over reboots\<close>

text \<open>
  What a run does to the reboot counters, in one statement over its whole loop.
\<close>

lemma patch_run_facts:
  assumes "patch_run env r w = (res, r', w')"
  shows "(\<forall>e. res = RunReturned e \<longrightarrow> (\<exists>out m. pw_sent w' = pw_sent w @ [(out, m)]))
    \<and> (res = RunRebooting \<longrightarrow> pw_sent w' = pw_sent w \<and> pt_step r' = patching \<and> \<not> pt_dry_run r' 
        \<and> pc_reboot (pt_config r') \<noteq> NEVER
        \<and> (\<exists>ls. current_state (pw_disk w') = Some \<lparr>ts_patch = Some (persisted r'), ts_labels = ls\<rparr>)
        \<and> ((pt_step r = prePatch \<and> pt_pre_reboots r' = pt_pre_reboots r + 1 \<and> pt_post_reboots r' = pt_post_reboots r
              \<and> pt_pre_reboots r + pt_post_reboots r < totalRebootCountLimit)
           \<or> (pt_pre_reboots r' = pt_pre_reboots r \<and> pt_post_reboots r' = pt_post_reboots r + 1
              \<and> (pt_pre_reboots r + pt_post_reboots r < totalRebootCountLimit \<or> pt_post_reboots r = 0))))"
  using assms
proof (induction env r w arbitrary: res r' w' rule: patch_run.induct)
  case (1 env r w)
  obtain sr r1 w1 where st: "patch_step env r w = (sr, r1, w1)" by (metis prod_cases3)
  note run = 1(2) [unfolded patch_run.simps [of env r w] st]
  note f_pre = step_prePatch_facts [of env r w sr r1 w1]
  note f_pat = step_patching_facts [of env r w sr r1 w1]
  note f_post = step_postPatch_facts [of env r w sr r1 w1]
  consider (pre) "pt_step r = prePatch" "step_prePatch env r w = (sr, r1, w1)"
    | (pat) "pt_step r = patching" "step_patching env r w = (sr, r1, w1)"
    | (post) "\<exists>e out m. sr = Finished e \<and> pw_sent w1 = pw_sent w @ [(out, m)]"
  proof -
    assume a: "pt_step r = prePatch \<Longrightarrow> step_prePatch env r w = (sr, r1, w1) \<Longrightarrow> thesis"
      "pt_step r = patching \<Longrightarrow> step_patching env r w = (sr, r1, w1) \<Longrightarrow> thesis"
      "\<exists>e out m. sr = Finished e \<and> pw_sent w1 = pw_sent w @ [(out, m)] \<Longrightarrow> thesis"
    show thesis
    proof (cases "pt_step r = postPatch")
      case True
      with st have "step_postPatch env r w = (sr, r1, w1)" by (simp add: patch_step_def)
      with a(3) f_post show thesis by blast
    next
      case False
      with a st failed_facts(1) [of env r "''unknown step: '' @ quote (pt_step r)" w] show thesis
        by (auto simp: patch_step_def finish_def split: if_splits)
    qed
  qed
  then show ?case
  proof cases
    case post
    with run show ?thesis by (auto simp: patch_complete_def)
  next
    case c: pre
    note f = f_pre [OF c(2)]
    show ?thesis
    proof (cases sr)
      case Continue
      from run Continue have run1: "patch_run env r1 w1 = (res, r', w')" by simp
      from f Continue have eqs: "pt_step r1 = patching" "pw_sent w1 = pw_sent w"
        "pt_pre_reboots r1 = pt_pre_reboots r" "pt_post_reboots r1 = pt_post_reboots r" by blast+
      from 1(1) [OF st [symmetric, unfolded Continue] refl refl run1, unfolded eqs] show ?thesis
        using step_names by blast
    qed (use run f c in \<open>auto simp: patch_complete_def\<close>)
  next
    case c: pat
    note f = f_pat [OF c(2)]
    show ?thesis
    proof (cases sr)
      case Continue
      from run Continue have run1: "patch_run env r1 w1 = (res, r', w')" by simp
      from f Continue have eqs: "pt_step r1 = postPatch" "pw_sent w1 = pw_sent w"
        "pt_pre_reboots r1 = pt_pre_reboots r" "pt_post_reboots r1 = pt_post_reboots r" by blast+
      from 1(1) [OF st [symmetric, unfolded Continue] refl refl run1, unfolded eqs] show ?thesis
        using step_names by blast
    next
      case (Panicked p)
      with run f c failed_facts(1) [of env r1 "''Recovered from panic: '' @ p" w1] show ?thesis by (auto simp: Let_def)
    qed (use run f c in \<open>auto simp: patch_complete_def\<close>)
  qed
qed

text \<open>
  A resume: the run ended in a reboot, and the next process loads the task from the state file
  (\<open>loadTaskFromState\<close>). The machine, its disk faults and the list of sent requests are then
  arbitrary; only the state file carries over.
\<close>

inductive resumes :: "'x patch_env \<Rightarrow> patch_task \<times> 'x patch_world \<Rightarrow> patch_task \<times> 'x patch_world \<Rightarrow> bool" for env where
  boot: "patch_run env r w = (RunRebooting, r', w') \<Longrightarrow> d0 = (pw_disk w')\<lparr>dk_faults := faults\<rparr>
    \<Longrightarrow> loadState d0 = (Inr (Some st), d) \<Longrightarrow> ts_patch st = Some r''
    \<Longrightarrow> resumes env (r, w) (r'', \<lparr>pw_disk = d, pw_rest = x, pw_labels = ts_labels st, pw_sent = sent\<rparr>)"

inductive_cases resumesE: "resumes env a b"

lemma resumes_facts:
  assumes "resumes env (r, w) (r2, w2)"
  shows "pt_step r2 = patching \<and> \<not> pt_dry_run r2 \<and> pc_reboot (pt_config r2) \<noteq> NEVER
     \<and> ((pt_step r = prePatch \<and> pt_pre_reboots r2 = pt_pre_reboots r + 1 \<and> pt_post_reboots r2 = pt_post_reboots r
              \<and> pt_pre_reboots r + pt_post_reboots r < totalRebootCountLimit)
           \<or> (pt_pre_reboots r2 = pt_pre_reboots r \<and> pt_post_reboots r2 = pt_post_reboots r + 1
              \<and> (pt_pre_reboots r + pt_post_reboots r < totalRebootCountLimit \<or> pt_post_reboots r = 0)))"
  using assms
proof (cases rule: resumes.cases)
  case (boot r' w' d0 faults st d x sent)
  note f = patch_run_facts [OF boot(2)]
  obtain ls where "current_state (pw_disk w') = Some \<lparr>ts_patch = Some (persisted r'), ts_labels = ls\<rparr>" using f by auto
  hence "current_state d0 = Some \<lparr>ts_patch = Some (persisted r'), ts_labels = ls\<rparr>"
    using boot(3) by (simp add: current_state_def split: option.splits state_file.splits)
  from loadState_current [OF this boot(4)] boot(5) have "r2 = persisted r'" by simp
  then show ?thesis using f by (simp add: persisted_def)
qed

definition patch_start :: "string \<Rightarrow> patch_config \<Rightarrow> bool \<Rightarrow> patch_task" where
  "patch_start tid cfg dry = (new_patch_task tid cfg dry)\<lparr>pt_step := prePatch\<rparr>"

lemma RunApplyPatches_start:
  "RunApplyPatches env tid cfg dry w = (res, r', w') \<Longrightarrow> \<exists>w1. patch_run env (patch_start tid cfg dry) w1 = (res, r', w')
     \<and> pw_sent w1 = pw_sent w"
  using setStep_facts [of prePatch "new_patch_task tid cfg dry" w]
  by (auto simp: RunApplyPatches_def patch_start_def split: prod.splits)


definition calm_env :: "unit patch_env" where
  "calm_env = \<lparr>pe_progress = (\<lambda>tid s x. (Inr False, x)), pe_complete = (\<lambda>tid m out x. (None, x)), pe_now = (\<lambda>x. 0),
     pe_reboot_required = (\<lambda>x. (Inr True, x)), pe_updates = (\<lambda>r x. (Done None, x)), pe_reboot = (\<lambda>x. (None, x))\<rparr>"

definition default_config :: patch_config where
  "default_config = \<lparr>pc_reboot = DEFAULT, pc_apt_excludes = [], pc_apt_exclusive = [], pc_apt_dist = False,
     pc_yum_security = False, pc_yum_minimal = False, pc_yum_excludes = [], pc_yum_exclusive = [],
     pc_zypper_categories = [], pc_zypper_severities = [], pc_zypper_with_update = False, pc_zypper_with_optional = False,
     pc_zypper_excludes = [], pc_zypper_exclusive = []\<rparr>"

definition empty_world :: "unit patch_world" where
  "empty_world = \<lparr>pw_disk = \<lparr>dk_current = None, dk_old = None, dk_faults = []\<rparr>, pw_rest = (), pw_labels = [], pw_sent = []\<rparr>"

definition demo_start :: patch_task where
  "demo_start = patch_start ''t'' default_config False"

definition demo_resumed :: "patch_task \<times> unit patch_world" where
  "demo_resumed = (demo_start\<lparr>pt_step := patching, pt_pre_reboots := 1\<rparr>,
     empty_world\<lparr>pw_disk := \<lparr>dk_current = Some (StateJson \<lparr>ts_patch = Some (demo_start\<lparr>pt_step := patching, pt_pre_reboots := 1\<rparr>),
        ts_labels = []\<rparr>), dk_old = None, dk_faults = []\<rparr>\<rparr>)"

lemmas patch_defs = patch_run.simps patch_step_def step_prePatch_def setStep_def saveState_def save_state_def write_state_file_def
  disk_call_def patch_reportContinuingState_def pw_lift_def rebootIfNeeded_def do_reboot_def totalRebootCountLimit_def
  step_patching_def step_postPatch_def patch_reportCompletedState_def reportFailed_def finish_def Let_def

lemma demo_resume: "resumes calm_env (demo_start, empty_world) demo_resumed"
proof -
  let ?r = "demo_start\<lparr>pt_step := patching, pt_pre_reboots := 1\<rparr>"
  obtain r' w' where run: "patch_run calm_env demo_start empty_world = (RunRebooting, r', w')"
    and w: "pw_disk w' = \<lparr>dk_current = Some (StateJson \<lparr>ts_patch = Some ?r, ts_labels = []\<rparr>), dk_old = None, dk_faults = []\<rparr>"
    by (simp add: patch_defs calm_env_def demo_start_def patch_start_def new_patch_task_def default_config_def
        empty_world_def persisted_def)
  let ?st = "\<lparr>ts_patch = Some ?r, ts_labels = []\<rparr>"
  have l: "loadState ((pw_disk w')\<lparr>dk_faults := []\<rparr>) = (Inr (Some ?st), pw_disk w')"
    by (simp add: w loadState_def read_state_file_def disk_call_def Let_def)
  have eq: "demo_resumed = (?r, \<lparr>pw_disk = pw_disk w', pw_rest = (), pw_labels = ts_labels ?st, pw_sent = []\<rparr>)"
    by (simp add: demo_resumed_def w empty_world_def)
  show ?thesis unfolding eq by (rule resumes.boot [OF run refl l]) simp
qed


text \<open>
  C10. How a run ends: when it returns it has sent exactly one completion; when it stops for a
  reboot it has sent none, and the state file holds the task, ready to go on with patching.
\<close>

theorem patch_run_outcome:
  assumes "RunApplyPatches env tid cfg dry w = (res, r', w')"
  shows "(case res of
      RunReturned e \<Rightarrow> \<exists>out m. pw_sent w' = pw_sent w @ [(out, m)]
    | RunRebooting \<Rightarrow> pw_sent w' = pw_sent w \<and> pt_step r' = patching
        \<and> (\<exists>ls. current_state (pw_disk w') = Some \<lparr>ts_patch = Some (persisted r'), ts_labels = ls\<rparr>))"
proof -
  from RunApplyPatches_start [OF assms] obtain w1 where
    "patch_run env (patch_start tid cfg dry) w1 = (res, r', w')" "pw_sent w1 = pw_sent w" by auto
  with patch_run_facts [of env "patch_start tid cfg dry" w1 res r' w'] show ?thesis by (cases res) simp_all
qed

corollary patch_run_outcome_witness:
  "\<exists>r' w'. RunApplyPatches calm_env ''t'' default_config False empty_world = (RunRebooting, r', w')
     \<and> pw_sent w' = [] \<and> pt_step r' = patching"
proof -
  obtain r' w' where run: "RunApplyPatches calm_env ''t'' default_config False empty_world = (RunRebooting, r', w')"
    by (simp add: RunApplyPatches_def patch_defs calm_env_def new_patch_task_def default_config_def empty_world_def)
  from patch_run_outcome [OF run] run show ?thesis by (auto simp: empty_world_def)
qed

text \<open>
  A panic while patching is recovered and reported as FAILED, but the state file is not
  cleared: it still holds the task in step Patching, and the next start of the agent runs it again.
\<close>

theorem patch_panic_keeps_state:
  assumes "pt_step r = patching" and "patch_step env r w = (Panicked p, r1, w1)"
    and "current_state (pw_disk w) = Some (persist_state (task_with r w))"
  shows "\<exists>w' m. patch_run env r w = (RunReturned (Some (ErrMsg (''Recovered from panic: '' @ p))), r1, w')
    \<and> pw_sent w' = pw_sent w @ [(PO_FAILED, m)]
    \<and> current_state (pw_disk w') = Some (persist_state (task_with r w))"
proof -
  from assms(1,2) have "step_patching env r w = (Panicked p, r1, w1)" by (simp add: patch_step_def)
  from step_patching_facts [OF this] assms(3) have f: "pw_sent w1 = pw_sent w"
    "current_state (pw_disk w1) = Some (persist_state (task_with r w))" by auto
  have "patch_run env r w = (RunReturned (Some (ErrMsg (''Recovered from panic: '' @ p))), r1,
      snd (reportFailed env r1 (''Recovered from panic: '' @ p) w1))"
    by (simp add: patch_run.simps [of env r w] assms(2) Let_def)
  with f failed_facts(1,4) [of env r1 "''Recovered from panic: '' @ p" w1] show ?thesis by auto
qed

definition panic_env :: "unit patch_env" where
  "panic_env = calm_env\<lparr>pe_updates := (\<lambda>r x. (Panic ''index out of range'', x))\<rparr>"

corollary patch_panic_keeps_state_witness:
  "\<exists>w' m r1. patch_run panic_env (fst demo_resumed) (snd demo_resumed)
       = (RunReturned (Some (ErrMsg (''Recovered from panic: '' @ ''index out of range''))), r1, w')
    \<and> pw_sent w' = [(PO_FAILED, m)]
    \<and> current_state (pw_disk w') = Some (persist_state (task_with (fst demo_resumed) (snd demo_resumed)))"
proof -
  have st: "pt_step (fst demo_resumed) = patching" by (simp add: demo_resumed_def)
  obtain r1 w1 where p: "patch_step panic_env (fst demo_resumed) (snd demo_resumed) = (Panicked ''index out of range'', r1, w1)"
    by (simp add: patch_defs panic_env_def calm_env_def demo_resumed_def demo_start_def patch_start_def new_patch_task_def
        default_config_def empty_world_def)
  have "current_state (pw_disk (snd demo_resumed)) = Some (persist_state (task_with (fst demo_resumed) (snd demo_resumed)))"
    by (simp add: demo_resumed_def current_state_def persisted_def demo_start_def patch_start_def new_patch_task_def empty_world_def)
  from patch_panic_keeps_state [OF st p this] show ?thesis by (auto simp: demo_resumed_def empty_world_def)
qed

end
