(* ===== verification/FileSys.thy ===== *)
theory FileSys
  imports GoLib
begin

text \<open>
  The file system the agent works on and \<open>util/util.go\<close> on top of it.

  \<^item> \<open>path_clean\<close>, \<open>path_join\<close>, \<open>path_dir\<close>, \<open>path_base\<close> are Go's \<open>filepath\<close> functions on a
    Unix path (lexical).
  \<^item> \<open>fs\<close> is a file system with an adversary: \<open>fs_faults\<close> lists what the next system calls
    answer (an error, or nothing), so every error path of the code is reachable in the model.
    A call that fails changes no file. \<open>fs_draws\<close> are the random numbers of temporary names.
    A file is its content and its mode (the process umask is left out).
  \<^item> \<open>sha\<close>, where it occurs, is the hexadecimal SHA-256 of the standard library, a parameter.
\<close>

section \<open>Paths\<close>

text \<open>\<open>filepath.Clean\<close>: the components, the last one first, of a path cleaned so far.\<close>

fun clean_step :: "bool \<Rightarrow> string list \<Rightarrow> string \<Rightarrow> string list" where
  "clean_step rooted stack seg =
     (if seg = [] \<or> seg = ''.'' then stack
      else if seg = ''..'' then
        (case stack of
           [] \<Rightarrow> (if rooted then [] else [''..''])
         | tp # rest \<Rightarrow> (if tp = ''..'' then ''..'' # stack else rest))
      else seg # stack)"

definition clean_comps :: "bool \<Rightarrow> string \<Rightarrow> string list" where
  "clean_comps rooted p = rev (foldl (clean_step rooted) [] (split_on CHR ''/'' p))"

definition is_abs :: "string \<Rightarrow> bool" where
  "is_abs p = has_prefix p ''/''"

definition path_clean :: "string \<Rightarrow> string" where
  "path_clean p =
     (let body = join ''/'' (clean_comps (is_abs p) p)
      in if is_abs p then ''/'' @ body else if body = [] then ''.'' else body)"

definition path_join :: "string list \<Rightarrow> string" where
  "path_join ps = (case filter (\<lambda>p. p \<noteq> []) ps of [] \<Rightarrow> [] | qs \<Rightarrow> path_clean (join ''/'' qs))"

definition path_dir :: "string \<Rightarrow> string" where
  "path_dir p = path_clean (case last_index_char CHR ''/'' p of None \<Rightarrow> [] | Some i \<Rightarrow> take (Suc i) p)"

definition path_base :: "string \<Rightarrow> string" where
  "path_base p =
     (if p = [] then ''.''
      else let q = trim_right (\<lambda>c. c = CHR ''/'') p in
           if q = [] then ''/''
           else (case last_index_char CHR ''/'' q of None \<Rightarrow> q | Some i \<Rightarrow> drop (Suc i) q))"

section \<open>The file system\<close>

datatype node = FileN string nat | DirN

record fs =
  fs_nodes :: "string \<rightharpoonup> node"
  fs_cwd :: string
  fs_draws :: "nat list"
  fs_faults :: "go_error option list"

definition file_at :: "fs \<Rightarrow> string \<Rightarrow> string option" where
  "file_at s p = (case fs_nodes s p of Some (FileN c m) \<Rightarrow> Some c | _ \<Rightarrow> None)"

text \<open>One system call: it answers the next fault, or does its work on the nodes.\<close>

definition syscall :: "(fs \<Rightarrow> 'a res \<times> fs) \<Rightarrow> fs \<Rightarrow> 'a res \<times> fs" where
  "syscall f s =
     (case fs_faults s of
        [] \<Rightarrow> f s
      | None # rest \<Rightarrow> f (s\<lparr>fs_faults := rest\<rparr>)
      | Some e # rest \<Rightarrow> (Inl e, s\<lparr>fs_faults := rest\<rparr>))"

definition set_node :: "string \<Rightarrow> node \<Rightarrow> fs \<Rightarrow> fs" where
  "set_node p n s = s\<lparr>fs_nodes := (fs_nodes s)(p \<mapsto> n)\<rparr>"

definition os_stat :: "string \<Rightarrow> fs \<Rightarrow> node res \<times> fs" where
  "os_stat p = syscall (\<lambda>s. (case fs_nodes s p of None \<Rightarrow> Inl (ErrNotExist p) | Some n \<Rightarrow> Inr n, s))"

definition os_open :: "string \<Rightarrow> fs \<Rightarrow> unit res \<times> fs" where
  "os_open p = syscall (\<lambda>s. (case fs_nodes s p of None \<Rightarrow> Inl (ErrNotExist p) | Some n \<Rightarrow> Inr (), s))"

text \<open>Reading an open file to its end: the content it has at that moment.\<close>

definition os_read :: "string \<Rightarrow> fs \<Rightarrow> string res \<times> fs" where
  "os_read p = syscall (\<lambda>s. (case fs_nodes s p of
       Some (FileN c m) \<Rightarrow> Inr c
     | Some DirN \<Rightarrow> Inl (ErrMsg (''read '' @ p @ '': is a directory''))
     | None \<Rightarrow> Inr [], s))"

definition os_read_file :: "string \<Rightarrow> fs \<Rightarrow> string res \<times> fs" where
  "os_read_file p s = (case os_open p s of (Inl e, s1) \<Rightarrow> (Inl e, s1) | (Inr _, s1) \<Rightarrow> os_read p s1)"

text \<open>\<open>O_TRUNC|O_CREATE\<close>: an existing file keeps its mode.\<close>

definition os_create :: "string \<Rightarrow> nat \<Rightarrow> fs \<Rightarrow> unit res \<times> fs" where
  "os_create p mode = syscall (\<lambda>s. case fs_nodes s p of
       Some DirN \<Rightarrow> (Inl (ErrMsg (''open '' @ p @ '': is a directory'')), s)
     | Some (FileN c m) \<Rightarrow> (Inr (), set_node p (FileN [] m) s)
     | None \<Rightarrow> (Inr (), set_node p (FileN [] mode) s))"

definition os_create_excl :: "string \<Rightarrow> nat \<Rightarrow> fs \<Rightarrow> unit res \<times> fs" where
  "os_create_excl p mode = syscall (\<lambda>s. case fs_nodes s p of
       Some n \<Rightarrow> (Inl (ErrMsg (''open '' @ p @ '': file exists'')), s)
     | None \<Rightarrow> (Inr (), set_node p (FileN [] mode) s))"

definition os_write :: "string \<Rightarrow> string \<Rightarrow> fs \<Rightarrow> unit res \<times> fs" where
  "os_write p c = syscall (\<lambda>s. case fs_nodes s p of
       Some (FileN old m) \<Rightarrow> (Inr (), set_node p (FileN (old @ c) m) s)
     | _ \<Rightarrow> (Inr (), s))"

definition os_close :: "fs \<Rightarrow> unit res \<times> fs" where
  "os_close = syscall (\<lambda>s. (Inr (), s))"

definition os_remove :: "string \<Rightarrow> fs \<Rightarrow> unit res \<times> fs" where
  "os_remove p = syscall (\<lambda>s. case fs_nodes s p of
       None \<Rightarrow> (Inl (ErrNotExist p), s)
     | Some n \<Rightarrow> (Inr (), s\<lparr>fs_nodes := (fs_nodes s)(p := None)\<rparr>))"

definition under :: "string \<Rightarrow> string \<Rightarrow> bool" where
  "under d p \<longleftrightarrow> p = d \<or> has_prefix p (d @ ''/'')"

definition os_remove_all :: "string \<Rightarrow> fs \<Rightarrow> unit res \<times> fs" where
  "os_remove_all d = syscall (\<lambda>s. (Inr (), s\<lparr>fs_nodes := (\<lambda>p. if under d p then None else fs_nodes s p)\<rparr>))"

definition os_rename :: "string \<Rightarrow> string \<Rightarrow> fs \<Rightarrow> unit res \<times> fs" where
  "os_rename a b = syscall (\<lambda>s. case fs_nodes s a of
       None \<Rightarrow> (Inl (ErrNotExist a), s)
     | Some n \<Rightarrow> (if fs_nodes s b = Some DirN then (Inl (ErrMsg ''file exists''), s)
                 else (Inr (), s\<lparr>fs_nodes := (fs_nodes s)(a := None, b \<mapsto> n)\<rparr>)))"

definition os_mkdir_all :: "string \<Rightarrow> fs \<Rightarrow> unit res \<times> fs" where
  "os_mkdir_all d = syscall (\<lambda>s. case fs_nodes s d of
       Some (FileN c m) \<Rightarrow> (Inl (ErrMsg (''mkdir '' @ d @ '': not a directory'')), s)
     | Some DirN \<Rightarrow> (Inr (), s)
     | None \<Rightarrow> (Inr (), set_node d DirN s))"

text \<open>The next random number; \<open>0\<close> once the list is used up.\<close>

definition draw :: "fs \<Rightarrow> nat \<times> fs" where
  "draw s = (case fs_draws s of [] \<Rightarrow> (0, s) | n # ns \<Rightarrow> (n, s\<lparr>fs_draws := ns\<rparr>))"

text \<open>
  \<open>ioutil.TempDir\<close> and \<open>ioutil.TempFile\<close> of the standard library: random names until one is
  free. The model tries the numbers drawn so far and then counts up from their sum.
\<close>

fun fresh_from :: "nat \<Rightarrow> (string \<rightharpoonup> node) \<Rightarrow> string \<Rightarrow> nat \<Rightarrow> nat option" where
  "fresh_from 0 m pre n = None"
| "fresh_from (Suc fuel) m pre n = (if m (pre @ show_nat n) = None then Some n else fresh_from fuel m pre (Suc n))"

definition make_temp :: "node \<Rightarrow> string \<Rightarrow> string \<Rightarrow> fs \<Rightarrow> string res \<times> fs" where
  "make_temp nd dir pattern s =
     (case draw s of (r, s1) \<Rightarrow>
        syscall (\<lambda>s2.
          (let pre = dir @ ''/'' @ pattern in
           case fresh_from 10000 (fs_nodes s2) pre r of
             None \<Rightarrow> (Inl (ErrMsg (''createtemp '' @ pre @ '': file exists'')), s2)
           | Some n \<Rightarrow> (Inr (pre @ show_nat n), set_node (pre @ show_nat n) nd s2))) s1)"

definition temp_dir :: "string \<Rightarrow> string \<Rightarrow> fs \<Rightarrow> string res \<times> fs" where
  "temp_dir dir pattern = make_temp DirN (if dir = [] then ''/tmp'' else dir) pattern"

definition temp_file :: "string \<Rightarrow> fs \<Rightarrow> string res \<times> fs" where
  "temp_file dir = make_temp (FileN [] 384) dir []"

section \<open>util.go\<close>

definition SanitizePath :: "string \<Rightarrow> string" where
  "SanitizePath p = path_clean (replace_all ''../'' [] p)"

text \<open>On Linux: \<open>filepath.Abs\<close> against the working directory.\<close>

definition NormPath :: "fs \<Rightarrow> string \<Rightarrow> string" where
  "NormPath s p =
     (if has_prefix p [CHR 0x5C, CHR 0x5C, CHR ''?'', CHR 0x5C] then p
      else if is_abs p then path_clean p
      else path_join [fs_cwd s, p])"

definition Exists :: "string \<Rightarrow> fs \<Rightarrow> bool \<times> fs" where
  "Exists name s =
     (if trim_space name = [] then (False, s)
      else (case os_stat name s of (Inl e, s1) \<Rightarrow> (False, s1) | (Inr n, s1) \<Rightarrow> (True, s1)))"

definition TempFile :: "string \<Rightarrow> string \<Rightarrow> nat \<Rightarrow> fs \<Rightarrow> string res \<times> fs" where
  "TempFile dir pattern mode s =
     (case draw s of (r, s1) \<Rightarrow>
        (let name = path_join [dir, pattern @ show_nat (r mod 99999) @ ''.tmp''] in
         case os_create_excl name mode s1 of
           (Inl e, s2) \<Rightarrow> (Inl e, s2)
         | (Inr _, s2) \<Rightarrow> (Inr name, s2)))"

text \<open>The deferred cleanup: the error of the second close and of the removal is ignored.\<close>

definition cleanup_tmp :: "string \<Rightarrow> fs \<Rightarrow> fs" where
  "cleanup_tmp tmp s = snd (os_remove tmp s)"

definition AtomicWrite :: "string \<Rightarrow> string \<Rightarrow> nat \<Rightarrow> fs \<Rightarrow> go_error option \<times> fs" where
  "AtomicWrite p content mode s =
     (let q = NormPath s p in
      case TempFile (path_dir q) (path_base q) mode s of
        (Inl e, s1) \<Rightarrow> (Some (ErrMsg (''unable to create temp file: '' @ err_text e)), s1)
      | (Inr tmp, s1) \<Rightarrow>
          (case os_write tmp content s1 of
             (Inl e, s2) \<Rightarrow> (Some e, cleanup_tmp tmp s2)
           | (Inr _, s2) \<Rightarrow>
               (case os_close s2 of
                  (Inl e, s3) \<Rightarrow> (Some e, cleanup_tmp tmp s3)
                | (Inr _, s3) \<Rightarrow>
                    (case os_rename tmp q s3 of
                       (Inl e, s4) \<Rightarrow> (Some e, cleanup_tmp tmp s4)
                     | (Inr _, s4) \<Rightarrow> (None, s4)))))"

text \<open>
  The results of \<open>AtomicWriteFileStream\<close> are not named, so its deferred function sees only the
  local \<open>err\<close>: it cleans up after a failed copy, and after no other error. \<open>r\<close> is what the
  reader delivers, or the error it ends in.
\<close>

definition AtomicWriteFileStream ::
  "(string \<Rightarrow> string) \<Rightarrow> string res \<Rightarrow> string \<Rightarrow> string \<Rightarrow> nat \<Rightarrow> fs \<Rightarrow> string res \<times> fs" where
  "AtomicWriteFileStream sha r checksum p mode s =
     (let q = NormPath s p in
      case TempFile (path_dir q) (path_base q) mode s of
        (Inl e, s1) \<Rightarrow> (Inl (ErrMsg (''unable to create temp file: '' @ err_text e)), s1)
      | (Inr tmp, s1) \<Rightarrow>
          (case (case r of Inl e \<Rightarrow> (Inl e, s1) | Inr content \<Rightarrow> os_write tmp content s1) of
             (Inl e, s2) \<Rightarrow> (Inl e, cleanup_tmp tmp s2)
           | (Inr _, s2) \<Rightarrow>
               (let computed = sha (case r of Inl e \<Rightarrow> [] | Inr content \<Rightarrow> content) in
                if checksum \<noteq> [] \<and> \<not> equal_fold checksum computed
                then (Inl (ErrMsg (''got '' @ quote computed @ '' for checksum, expected '' @ quote checksum)), s2)
                else
                  (case os_close s2 of
                     (Inl e, s3) \<Rightarrow> (Inl e, s3)
                   | (Inr _, s3) \<Rightarrow>
                       (case os_rename tmp q s3 of
                          (Inl e, s4) \<Rightarrow> (Inl e, s4)
                        | (Inr _, s4) \<Rightarrow> (Inr computed, s4))))))"

section \<open>Lemmas on paths\<close>

declare clean_step.simps [simp del]

definition norm_stack :: "bool \<Rightarrow> string list \<Rightarrow> bool" where
  "norm_stack rooted stack \<longleftrightarrow>
     (\<forall>c \<in> set stack. c \<noteq> [] \<and> c \<noteq> ''.'' \<and> CHR ''/'' \<notin> set c) \<and>
     (if rooted then ''..'' \<notin> set stack
      else (\<exists>as n. stack = as @ replicate n ''..'' \<and> ''..'' \<notin> set as))"

lemma norm_stackI_rel:
  "(\<forall>c \<in> set stack. c \<noteq> [] \<and> c \<noteq> ''.'' \<and> CHR ''/'' \<notin> set c) \<Longrightarrow> stack = as @ replicate n ''..'' \<Longrightarrow> ''..'' \<notin> set as
    \<Longrightarrow> norm_stack False stack"
  unfolding norm_stack_def by auto

lemma norm_stack_Nil: "norm_stack rooted []"
  by (auto simp: norm_stack_def)

lemma clean_step_norm:
  assumes "norm_stack rooted stack" "CHR ''/'' \<notin> set c"
  shows "norm_stack rooted (clean_step rooted stack c)"
proof -
  have el: "\<forall>x \<in> set stack. x \<noteq> [] \<and> x \<noteq> ''.'' \<and> CHR ''/'' \<notin> set x" using assms(1) by (simp add: norm_stack_def)
  consider "c = [] \<or> c = ''.''" | "c = ''..''" "stack = []" | tp rest where "c = ''..''" "stack = tp # rest"
    | "c \<noteq> []" "c \<noteq> ''.''" "c \<noteq> ''..''" by (cases stack) auto
  then show ?thesis
  proof cases
    case 2
    have "norm_stack False [''..'']" by (rule norm_stackI_rel [of _ "[]" "Suc 0"]) simp_all
    moreover have "clean_step rooted [] ''..'' = (if rooted then [] else [''..''])" by (simp add: clean_step.simps)
    ultimately show ?thesis using 2 norm_stack_Nil by (cases rooted) simp_all
  next
    case 3
    show ?thesis
    proof (cases rooted)
      case True
      with 3 assms show ?thesis by (auto simp: norm_stack_def clean_step.simps)
    next
      case False
      with 3 assms(1) obtain as n where as: "tp # rest = as @ replicate n ''..''" "''..'' \<notin> set as"
        by (auto simp: norm_stack_def)
      show ?thesis
      proof (cases as)
        case Nil
        with as 3 have "tp = ''..''" "''..'' # stack = [] @ replicate (Suc n) ''..''" by (cases n; simp)+
        hence "norm_stack False (''..'' # stack)" using norm_stackI_rel [of "''..'' # stack" "[]" "Suc n"] el by simp
        moreover have "clean_step rooted stack c = ''..'' # stack"
          using 3 \<open>tp = ''..''\<close> by (simp add: clean_step.simps)
        ultimately show ?thesis using False by simp
      next
        case (Cons a as')
        with as have "tp \<noteq> ''..''" "rest = as' @ replicate n ''..''" "''..'' \<notin> set as'" by auto
        with 3 False el norm_stackI_rel [of rest as' n] show ?thesis by (simp add: clean_step.simps)
      qed
    qed
  next
    case 4
    show ?thesis
    proof (cases rooted)
      case False
      with assms(1) obtain as n where "stack = as @ replicate n ''..''" "''..'' \<notin> set as" by (auto simp: norm_stack_def)
      with 4 False el assms(2) norm_stackI_rel [of "c # stack" "c # as" n] show ?thesis by (simp add: clean_step.simps)
    qed (use 4 assms in \<open>auto simp: norm_stack_def clean_step.simps\<close>)
  qed (use assms in \<open>simp add: clean_step.simps\<close>)
qed

lemma clean_fold_norm:
  assumes "norm_stack rooted stack" "\<forall>c \<in> set cs. CHR ''/'' \<notin> set c"
  shows "norm_stack rooted (foldl (clean_step rooted) stack cs)"
  using assms by (induction cs arbitrary: stack) (auto simp del: clean_step.simps simp: clean_step_norm)

lemma clean_comps_norm: "norm_stack rooted (rev (clean_comps rooted p))"
  unfolding clean_comps_def rev_rev_ident
  by (rule clean_fold_norm [OF norm_stack_Nil]) (auto dest: split_on_no_sep_parts)

lemma norm_stack_tl: "norm_stack rooted (c # stack) \<Longrightarrow> norm_stack rooted stack"
proof (cases rooted)
  case False
  assume n: "norm_stack rooted (c # stack)"
  with False obtain as n where as: "c # stack = as @ replicate n ''..''" "''..'' \<notin> set as" by (auto simp: norm_stack_def)
  have "\<exists>as n. stack = as @ replicate n ''..'' \<and> ''..'' \<notin> set as"
  proof (cases as)
    case Nil
    with as(1) have "stack = replicate (n - 1) ''..''" by (cases n) auto
    then show ?thesis by (intro exI [of _ "[]"]) auto
  qed (use as in auto)
  with n False show ?thesis by (auto simp: norm_stack_def)
qed (auto simp: norm_stack_def)

lemma clean_step_push:
  assumes "norm_stack rooted (c # stack)"
  shows "clean_step rooted stack c = c # stack"
proof -
  have "c \<noteq> [] \<and> c \<noteq> ''.''" using assms by (simp add: norm_stack_def)
  moreover have "c = ''..'' \<Longrightarrow> \<not> rooted \<and> (stack = [] \<or> hd stack = ''..'')"
  proof
    assume c: "c = ''..''"
    with assms show nr: "\<not> rooted" by (auto simp: norm_stack_def)
    with assms obtain as n where as: "c # stack = as @ replicate n ''..''" "''..'' \<notin> set as" by (auto simp: norm_stack_def)
    with c have "as = []" by (cases as) auto
    with as have "stack = replicate (n - 1) ''..''" by (cases n) auto
    then show "stack = [] \<or> hd stack = ''..''" by (cases "n - 1") auto
  qed
  ultimately show ?thesis by (auto simp: clean_step.simps split: list.splits)
qed

lemma clean_fold_id: "norm_stack rooted stack \<Longrightarrow> foldl (clean_step rooted) [] (rev stack) = stack"
proof (induction stack)
  case (Cons c stack)
  from norm_stack_tl [OF Cons.prems] Cons.IH have "foldl (clean_step rooted) [] (rev stack) = stack" by simp
  with clean_step_push [OF Cons.prems] show ?case by (simp del: clean_step.simps)
qed simp

lemma clean_comps_join:
  assumes "norm_stack rooted (rev cs)"
  shows "clean_comps rooted (join ''/'' cs) = cs"
proof (cases "cs = []")
  case True
  then show ?thesis by (simp add: clean_comps_def clean_step.simps)
next
  case False
  have "\<forall>c \<in> set cs. CHR ''/'' \<notin> set c" using assms by (auto simp: norm_stack_def)
  with False have "split_on CHR ''/'' (join ''/'' cs) = cs" by (simp add: split_on_join)
  with clean_fold_id [OF assms] show ?thesis by (simp add: clean_comps_def)
qed

lemma clean_comps_root: "clean_comps rooted (''/'' @ p) = clean_comps rooted p"
  by (simp add: clean_comps_def clean_step.simps)

lemma join_hd_not_slash:
  assumes "norm_stack rooted (rev cs)"
  shows "\<not> is_abs (join ''/'' cs)"
proof (cases cs)
  case (Cons c rest)
  with assms have "c \<noteq> []" "CHR ''/'' \<notin> set c" by (auto simp: norm_stack_def)
  then show ?thesis using Cons by (cases c; cases rest) (auto simp: is_abs_def has_prefix_def)
qed (simp add: is_abs_def has_prefix_def)

lemma path_clean_abs: "is_abs p \<Longrightarrow> path_clean p = ''/'' @ join ''/'' (clean_comps True p)"
  by (simp add: path_clean_def Let_def)

lemma is_abs_append [simp]: "is_abs (''/'' @ p)"
  by (simp add: is_abs_def has_prefix_def)

lemma is_abs_Cons [simp]: "is_abs (CHR ''/'' # p)"
  by (simp add: is_abs_def has_prefix_def)

lemma path_clean_idem: "path_clean (path_clean p) = path_clean p"
proof (cases "is_abs p")
  case True
  have "clean_comps True (path_clean p) = clean_comps True p"
    unfolding path_clean_abs [OF True] clean_comps_root
    by (rule clean_comps_join) (rule clean_comps_norm)
  moreover have "is_abs (path_clean p)" by (simp add: path_clean_abs [OF True])
  ultimately show ?thesis by (simp add: path_clean_abs True)
next
  case False
  let ?b = "join ''/'' (clean_comps False p)"
  have nb: "\<not> is_abs ?b" by (rule join_hd_not_slash) (rule clean_comps_norm)
  have cb: "clean_comps False ?b = clean_comps False p" by (rule clean_comps_join) (rule clean_comps_norm)
  show ?thesis
  proof (cases "?b = []")
    case True
    then show ?thesis using False by (simp add: path_clean_def clean_comps_def is_abs_def has_prefix_def clean_step.simps)
  next
    case ne: False
    with False have "path_clean p = ?b" by (simp add: path_clean_def)
    with nb cb ne show ?thesis by (simp add: path_clean_def)
  qed
qed

lemma clean_comps_no_dotdot: "''..'' \<notin> set (clean_comps True p)"
  using clean_comps_norm [of True p] by (auto simp: norm_stack_def)

lemma path_clean_rooted_parts:
  assumes "is_abs p"
  shows "''..'' \<notin> set (split_on CHR ''/'' (path_clean p))"
proof (cases "clean_comps True p = []")
  case True
  then show ?thesis by (simp add: path_clean_abs [OF assms])
next
  case False
  have "\<forall>c \<in> set (clean_comps True p). CHR ''/'' \<notin> set c"
    using clean_comps_norm [of True p] by (auto simp: norm_stack_def)
  with False have "split_on CHR ''/'' (join ''/'' (clean_comps True p)) = clean_comps True p" by (simp add: split_on_join)
  then show ?thesis using clean_comps_no_dotdot by (simp add: path_clean_abs [OF assms])
qed

lemma replace_all_head: "\<not> has_prefix (c # s) old \<Longrightarrow> replace_all old new (c # s) = c # replace_all old new s"
  by (simp add: has_prefix_def)



lemma SanitizePath_escape: "SanitizePath ''....//etc'' = ''../etc'' \<and> SanitizePath ''..'' = ''..''"
  by code_simp

section \<open>Lemmas on the system calls\<close>

lemma syscall_cases:
  assumes "syscall f s = (r, s')"
  obtains e where "r = Inl e" "fs_nodes s' = fs_nodes s" "Some e \<in> set (fs_faults s)"
     "length (filter (\<lambda>x. x \<noteq> None) (fs_faults s')) < length (filter (\<lambda>x. x \<noteq> None) (fs_faults s))"
  | s0 where "f s0 = (r, s')" "fs_nodes s0 = fs_nodes s" "fs_cwd s0 = fs_cwd s" 
     "length (filter (\<lambda>x. x \<noteq> None) (fs_faults s0)) = length (filter (\<lambda>x. x \<noteq> None) (fs_faults s))"
     "\<exists>k. fs_faults s0 = drop k (fs_faults s)"
proof (cases "fs_faults s")
  case Nil
  with assms show thesis by (intro that(2) [of s]) (auto simp: syscall_def)
next
  case (Cons x rest)
  show thesis
  proof (cases x)
    case None
    with Cons assms show thesis
      by (intro that(2) [of "s\<lparr>fs_faults := rest\<rparr>"]) (auto simp: syscall_def intro: exI [of _ "Suc 0"])
  next
    case (Some e)
    with Cons assms show thesis by (intro that(1) [of e]) (auto simp: syscall_def)
  qed
qed

definition no_fault :: "fs \<Rightarrow> bool" where
  "no_fault s \<longleftrightarrow> list_all (\<lambda>x. x = None) (fs_faults s)"

definition one_fault :: "fs \<Rightarrow> bool" where
  "one_fault s \<longleftrightarrow> length (filter (\<lambda>x. x \<noteq> None) (fs_faults s)) \<le> 1"

lemma no_fault_count: "no_fault s \<longleftrightarrow> length (filter (\<lambda>x. x \<noteq> None) (fs_faults s)) = 0"
  by (auto simp: no_fault_def list_all_iff filter_empty_conv)

lemma syscall_no_fault:
  assumes "no_fault s"
  obtains s0 where "syscall f s = f s0" "fs_nodes s0 = fs_nodes s" "fs_cwd s0 = fs_cwd s" "no_fault s0"
proof (cases "fs_faults s")
  case Nil
  with assms show thesis by (intro that [of s]) (auto simp: syscall_def)
next
  case (Cons x rest)
  with assms show thesis by (intro that [of "s\<lparr>fs_faults := rest\<rparr>"]) (auto simp: syscall_def no_fault_def)
qed

lemma nodes_set_node [simp]: "fs_nodes (set_node p n s) = (fs_nodes s)(p \<mapsto> n)"
  by (simp add: set_node_def)

lemma faults_set_node [simp]: "fs_faults (set_node p n s) = fs_faults s"
  by (simp add: set_node_def)

definition fault_count :: "fs \<Rightarrow> nat" where
  "fault_count s = length (filter (\<lambda>x. x \<noteq> None) (fs_faults s))"

text \<open>Each call: its effect on success, and on an error no effect; a failed call of one that
  cannot fail by itself has used up a fault.\<close>

lemma os_write_cases:
  assumes "os_write p c s = (r, s')"
  shows "(\<exists>e. r = Inl e \<and> fs_nodes s' = fs_nodes s \<and> fault_count s' < fault_count s)
    \<or> (r = Inr () \<and> fault_count s' = fault_count s \<and>
        (case fs_nodes s p of Some (FileN old m) \<Rightarrow> fs_nodes s' = (fs_nodes s)(p \<mapsto> FileN (old @ c) m)
                   | _ \<Rightarrow> fs_nodes s' = fs_nodes s))"
  using assms unfolding os_write_def
  by (rule syscall_cases) (auto simp: fault_count_def split: option.splits node.splits)

lemma os_close_cases:
  assumes "os_close s = (r, s')"
  shows "fs_nodes s' = fs_nodes s \<and> ((\<exists>e. r = Inl e \<and> fault_count s' < fault_count s) \<or> (r = Inr () \<and> fault_count s' = fault_count s))"
  using assms unfolding os_close_def by (rule syscall_cases) (auto simp: fault_count_def)

lemma os_remove_cases:
  assumes "os_remove p s = (r, s')"
  shows "(\<exists>e. r = Inl e \<and> fs_nodes s' = fs_nodes s \<and> (fault_count s' < fault_count s \<or> fs_nodes s p = None))
    \<or> (r = Inr () \<and> fs_nodes s p \<noteq> None \<and> fs_nodes s' = (fs_nodes s)(p := None) \<and> fault_count s' = fault_count s)"
  using assms unfolding os_remove_def
  by (rule syscall_cases) (auto simp: fault_count_def split: option.splits)

lemma os_rename_cases:
  assumes "os_rename a b s = (r, s')"
  shows "(\<exists>e. r = Inl e \<and> fs_nodes s' = fs_nodes s \<and> (fault_count s' < fault_count s \<or> fs_nodes s a = None \<or> fs_nodes s b = Some DirN))
    \<or> (r = Inr () \<and> fault_count s' = fault_count s
        \<and> (\<exists>n. fs_nodes s a = Some n \<and> fs_nodes s' = (fs_nodes s)(a := None, b \<mapsto> n)))"
  using assms unfolding os_rename_def
  by (rule syscall_cases) (auto simp: fault_count_def split: option.splits if_splits)

lemma os_create_excl_cases:
  assumes "os_create_excl p m s = (r, s')"
  shows "(\<exists>e. r = Inl e \<and> fs_nodes s' = fs_nodes s)
    \<or> (r = Inr () \<and> fs_nodes s p = None \<and> fs_nodes s' = (fs_nodes s)(p \<mapsto> FileN [] m) \<and> fault_count s' = fault_count s)"
  using assms unfolding os_create_excl_def
  by (rule syscall_cases) (auto simp: fault_count_def split: option.splits)

lemma draw_simps [simp]: "fs_nodes (snd (draw s)) = fs_nodes s" "fault_count (snd (draw s)) = fault_count s"
   "fs_faults (snd (draw s)) = fs_faults s" "fs_cwd (snd (draw s)) = fs_cwd s"
  by (simp_all add: draw_def fault_count_def split: list.splits)

lemma TempFile_cases:
  assumes "TempFile d p m s = (r, s')"
  shows "(\<exists>e. r = Inl e \<and> fs_nodes s' = fs_nodes s)
    \<or> (\<exists>t. r = Inr t \<and> fs_nodes s t = None \<and> fs_nodes s' = (fs_nodes s)(t \<mapsto> FileN [] m) \<and> fault_count s' = fault_count s)"
proof -
  obtain n s1 where d: "draw s = (n, s1)" by fastforce
  define name where "name = path_join [d, p @ show_nat (n mod 99999) @ ''.tmp'']"
  obtain r2 s2 where c: "os_create_excl name m s1 = (r2, s2)" by fastforce
  have "fs_nodes s1 = fs_nodes s" "fault_count s1 = fault_count s" using draw_simps [of s] d by simp_all
  moreover have "(r, s') = (case r2 of Inl e \<Rightarrow> Inl e | Inr u \<Rightarrow> Inr name, s2)"
    using assms d c by (simp add: TempFile_def Let_def name_def split: sum.splits)
  ultimately show ?thesis using os_create_excl_cases [OF c] by auto
qed

lemma cleanup_tmp_nodes:
  "fs_nodes (cleanup_tmp t s) = fs_nodes s \<or> fs_nodes (cleanup_tmp t s) = (fs_nodes s)(t := None)"
  using os_remove_cases [of t s "fst (os_remove t s)" "snd (os_remove t s)"] by (auto simp: cleanup_tmp_def)

lemma cleanup_tmp_no_fault:
  "fault_count s = 0 \<Longrightarrow> fs_nodes (cleanup_tmp t s) = (fs_nodes s)(t := None)"
  using os_remove_cases [of t s "fst (os_remove t s)" "snd (os_remove t s)"] by (auto simp: cleanup_tmp_def fun_upd_idem)

section \<open>Atomic writes\<close>

text \<open>The four ways a write goes, for the file system it leaves.\<close>

lemma AtomicWrite_cases:
  assumes "AtomicWrite p c m s = (r, s')"
  obtains e where "r = Some e" "fs_nodes s' = fs_nodes s"
  | e t s1 where "r = Some e" "fs_nodes s t = None" "s' = cleanup_tmp t s1"
      "\<exists>n. fs_nodes s1 = (fs_nodes s)(t \<mapsto> n)" "fault_count s1 < fault_count s \<or> fs_nodes s (NormPath s p) = Some DirN"
  | t where "r = None" "fs_nodes s t = None" "fs_nodes s' = (fs_nodes s)(t := None, NormPath s p \<mapsto> FileN c m)"
proof -
  let ?q = "NormPath s p"
  obtain r1 s1 where t: "TempFile (path_dir ?q) (path_base ?q) m s = (r1, s1)" by fastforce
  show thesis
  proof (cases r1)
    case (Inl e)
    with t TempFile_cases [OF t] assms that(1) show thesis by (auto simp: AtomicWrite_def Let_def)
  next
    case (Inr tmp)
    with TempFile_cases [OF t] have n1: "fs_nodes s tmp = None" "fs_nodes s1 = (fs_nodes s)(tmp \<mapsto> FileN [] m)"
      "fault_count s1 = fault_count s" by auto
    obtain r2 s2 where w: "os_write tmp c s1 = (r2, s2)" by fastforce
    show thesis
    proof (cases r2)
      case (Inl e)
      with t Inr w assms have "r = Some e" "s' = cleanup_tmp tmp s2" by (auto simp: AtomicWrite_def Let_def)
      with os_write_cases [OF w] Inl n1 show thesis by (intro that(2) [of e tmp s2]) auto
    next
      case r2: (Inr u)
      with os_write_cases [OF w] n1 have n2: "fs_nodes s2 = (fs_nodes s)(tmp \<mapsto> FileN c m)" "fault_count s2 = fault_count s" by auto
      obtain r3 s3 where cl: "os_close s2 = (r3, s3)" by fastforce
      show thesis
      proof (cases r3)
        case (Inl e)
        with t Inr w r2 cl assms have "r = Some e" "s' = cleanup_tmp tmp s3" by (auto simp: AtomicWrite_def Let_def)
        with os_close_cases [OF cl] Inl n1 n2 show thesis by (intro that(2) [of e tmp s3]) auto
      next
        case r3: (Inr u3)
        with os_close_cases [OF cl] n2 have n3: "fs_nodes s3 = (fs_nodes s)(tmp \<mapsto> FileN c m)" "fault_count s3 = fault_count s" by auto
        obtain r4 s4 where rn: "os_rename tmp ?q s3 = (r4, s4)" by fastforce
        show thesis
        proof (cases r4)
          case (Inl e)
          with t Inr w r2 cl r3 rn assms have "r = Some e" "s' = cleanup_tmp tmp s4" by (auto simp: AtomicWrite_def Let_def)
          with os_rename_cases [OF rn] Inl n1 n3 show thesis by (intro that(2) [of e tmp s4]) (auto split: if_splits)
        next
          case r4: (Inr u4)
          with t Inr w r2 cl r3 rn assms have "r = None" "s' = s4" by (auto simp: AtomicWrite_def Let_def)
          with os_rename_cases [OF rn] r4 n1 n3 show thesis by (intro that(3) [of tmp]) auto
        qed
      qed
    qed
  qed
qed

text \<open>
  C6. \<open>AtomicWrite\<close> is atomic: after a success the target has exactly the new content and mode;
  after an error every file that existed is as it was, the target included; in both cases no
  other existing file changes. If at most one system call failed, an error leaves nothing behind.
\<close>

theorem AtomicWrite_atomic:
  assumes "AtomicWrite p c m s = (r, s')"
  shows "(r = None \<longrightarrow> fs_nodes s' (NormPath s p) = Some (FileN c m))
    \<and> (r \<noteq> None \<longrightarrow> (\<forall>x. fs_nodes s x \<noteq> None \<longrightarrow> fs_nodes s' x = fs_nodes s x))
    \<and> (\<forall>x. x \<noteq> NormPath s p \<longrightarrow> fs_nodes s x \<noteq> None \<longrightarrow> fs_nodes s' x = fs_nodes s x)
    \<and> (r \<noteq> None \<longrightarrow> fault_count s \<le> 1 \<longrightarrow> fs_nodes s (NormPath s p) \<noteq> Some DirN \<longrightarrow> fs_nodes s' = fs_nodes s)"
  using assms
proof (cases rule: AtomicWrite_cases)
  case (2 e t s1)
  have "fault_count s \<le> 1 \<Longrightarrow> fs_nodes s (NormPath s p) \<noteq> Some DirN \<Longrightarrow> fs_nodes s' = fs_nodes s"
    using 2 cleanup_tmp_no_fault [of s1 t] by (auto simp: fun_upd_idem)
  with 2 cleanup_tmp_nodes [of t s1] show ?thesis by auto
qed auto

definition demo_fs :: fs where
  "demo_fs = \<lparr>fs_nodes = [''/etc/a'' \<mapsto> FileN ''old'' 420], fs_cwd = ''/'', fs_draws = [7],
     fs_faults = [None, Some (ErrMsg ''disk full'')]\<rparr>"

lemma demo_paths:
  "path_clean ''/etc/a'' = ''/etc/a''" "path_dir ''/etc/a'' = ''/etc''" "path_base ''/etc/a'' = ''a''"
  "path_join [''/etc'', ''a7.tmp''] = ''/etc/a7.tmp''" "is_abs ''/etc/a''"
  by code_simp+

lemma demo_fs_norm: "NormPath s ''/etc/a'' = ''/etc/a''"
  by (simp add: NormPath_def demo_paths has_prefix_def)

lemma demo_show: "show_nat (7 mod 99999) = ''7''"
proof -
  have "char_of (55 :: nat) = CHR ''7''" by code_simp
  then show ?thesis by (subst show_nat.simps) (simp add: digit_char_def)
qed

lemmas fs_ops_defs = os_stat_def os_open_def os_read_def os_read_file_def os_create_def os_create_excl_def os_write_def
  os_close_def os_remove_def os_remove_all_def os_rename_def os_mkdir_all_def draw_def syscall_def set_node_def

lemma demo_fs_result: "fst (AtomicWrite ''/etc/a'' ''new'' 420 demo_fs) = Some (ErrMsg ''disk full'')"
  unfolding AtomicWrite_def demo_fs_norm Let_def demo_paths
  by (simp add: TempFile_def fs_ops_defs demo_paths demo_fs_def demo_show [simplified] Let_def)

corollary AtomicWrite_atomic_witness:
  "fs_nodes (snd (AtomicWrite ''/etc/a'' ''new'' 420 demo_fs)) = [''/etc/a'' \<mapsto> FileN ''old'' 420]"
proof -
  let ?r = "AtomicWrite ''/etc/a'' ''new'' 420 demo_fs"
  have "fst ?r \<noteq> None" by (simp add: demo_fs_result)
  moreover have "fault_count demo_fs \<le> 1" by (simp add: demo_fs_def fault_count_def)
  moreover have "fs_nodes demo_fs (NormPath demo_fs ''/etc/a'') \<noteq> Some DirN"
    unfolding demo_fs_norm by (simp add: demo_fs_def)
  ultimately have "fs_nodes (snd ?r) = fs_nodes demo_fs"
    using AtomicWrite_atomic [of "''/etc/a''" "''new''" 420 demo_fs "fst ?r" "snd ?r"] by simp
  then show ?thesis by (simp add: demo_fs_def)
qed

text \<open>
  The stream variant. Its deferred function runs only for a failed copy, so an error after the
  copy leaves the temporary file \<open>t\<close> behind.
\<close>

definition stream_tail :: "(string \<Rightarrow> string) \<Rightarrow> string \<Rightarrow> string \<Rightarrow> string \<Rightarrow> string \<Rightarrow> fs \<Rightarrow> string res \<times> fs" where
  "stream_tail sha ck c tmp q s2 =
     (let computed = sha c in
      if ck \<noteq> [] \<and> \<not> equal_fold ck computed
      then (Inl (ErrMsg (''got '' @ quote computed @ '' for checksum, expected '' @ quote ck)), s2)
      else
        (case os_close s2 of
           (Inl e, s3) \<Rightarrow> (Inl e, s3)
         | (Inr _, s3) \<Rightarrow>
             (case os_rename tmp q s3 of
                (Inl e, s4) \<Rightarrow> (Inl e, s4)
              | (Inr _, s4) \<Rightarrow> (Inr computed, s4))))"

lemma stream_tail_cases:
  assumes "stream_tail sha ck c tmp q s2 = (r, s')" "fs_nodes s2 = (fs_nodes s)(tmp \<mapsto> FileN c m)"
  shows "(\<exists>e. r = Inl e \<and> fs_nodes s' = (fs_nodes s)(tmp \<mapsto> FileN c m))
    \<or> (r = Inr (sha c) \<and> (ck = [] \<or> equal_fold ck (sha c)) \<and> fs_nodes s' = (fs_nodes s)(tmp := None, q \<mapsto> FileN c m))"
proof (cases "ck \<noteq> [] \<and> \<not> equal_fold ck (sha c)")
  case True
  with assms show ?thesis by (auto simp: stream_tail_def Let_def)
next
  case False
  obtain r3 s3 where cl: "os_close s2 = (r3, s3)" by fastforce
  obtain r4 s4 where rn: "os_rename tmp q s3 = (r4, s4)" by fastforce
  from os_close_cases [OF cl] os_rename_cases [OF rn] False assms cl rn show ?thesis
    by (cases r3; cases r4) (auto simp: stream_tail_def Let_def)
qed

lemma AtomicWriteFileStream_cases:
  assumes "AtomicWriteFileStream sha rd ck p m s = (r, s')"
  obtains e where "r = Inl e" "fs_nodes s' = fs_nodes s"
  | e t s1 where "r = Inl e" "fs_nodes s t = None" "s' = cleanup_tmp t s1"
      "fs_nodes s1 = (fs_nodes s)(t \<mapsto> FileN [] m)" "is_err rd \<or> fault_count s1 < fault_count s"
  | e t c where "r = Inl e" "fs_nodes s t = None" "rd = Inr c" "fs_nodes s' = (fs_nodes s)(t \<mapsto> FileN c m)"
  | t c where "r = Inr (sha c)" "rd = Inr c" "fs_nodes s t = None" "ck = [] \<or> equal_fold ck (sha c)"
      "fs_nodes s' = (fs_nodes s)(t := None, NormPath s p \<mapsto> FileN c m)"
proof -
  let ?q = "NormPath s p"
  obtain r1 s1 where t: "TempFile (path_dir ?q) (path_base ?q) m s = (r1, s1)" by fastforce
  show thesis
  proof (cases r1)
    case (Inl e)
    with t TempFile_cases [OF t] assms that(1) show thesis by (auto simp: AtomicWriteFileStream_def Let_def)
  next
    case (Inr tmp)
    with TempFile_cases [OF t] have n1: "fs_nodes s tmp = None" "fs_nodes s1 = (fs_nodes s)(tmp \<mapsto> FileN [] m)"
      "fault_count s1 = fault_count s" by auto
    show thesis
    proof (cases rd)
      case (Inl e)
      with t Inr assms have "r = Inl e" "s' = cleanup_tmp tmp s1" by (auto simp: AtomicWriteFileStream_def Let_def)
      with n1 Inl show thesis by (intro that(2) [of e tmp s1]) auto
    next
      case rd: (Inr c)
      obtain r2 s2 where w: "os_write tmp c s1 = (r2, s2)" by fastforce
      show thesis
      proof (cases r2)
        case (Inl e)
        with t Inr rd w assms have "r = Inl e" "s' = cleanup_tmp tmp s2" by (auto simp: AtomicWriteFileStream_def Let_def)
        with os_write_cases [OF w] Inl n1 show thesis by (intro that(2) [of e tmp s2]) auto
      next
        case r2: (Inr u)
        with os_write_cases [OF w] n1 have n2: "fs_nodes s2 = (fs_nodes s)(tmp \<mapsto> FileN c m)" by auto
        have "stream_tail sha ck c tmp ?q s2 = (r, s')"
          using assms t Inr rd w r2 by (simp add: AtomicWriteFileStream_def stream_tail_def Let_def)
        from stream_tail_cases [OF this n2] n1(1) rd show thesis using that(3,4) by blast
      qed
    qed
  qed
qed

text \<open>
  C7. \<open>AtomicWriteFileStream\<close>: it succeeds only with a content whose checksum is the returned one
  and the wanted one up to case, and then the target holds that content; after any error, a
  wrong checksum included, every file that existed is as it was.
\<close>

theorem AtomicWriteFileStream_checked:
  assumes "AtomicWriteFileStream sha rd ck p m s = (r, s')"
  shows "(case r of
      Inr digest \<Rightarrow> (\<exists>c. rd = Inr c \<and> digest = sha c \<and> (ck = [] \<or> equal_fold ck digest)
                      \<and> fs_nodes s' (NormPath s p) = Some (FileN c m))
    | Inl e \<Rightarrow> (\<forall>x. fs_nodes s x \<noteq> None \<longrightarrow> fs_nodes s' x = fs_nodes s x))"
  using assms
proof (cases rule: AtomicWriteFileStream_cases)
  case (2 e t s1)
  then show ?thesis using cleanup_tmp_nodes [of t s1] by auto
qed auto

text \<open>The leftover: a download with a wrong checksum and no failing system call.\<close>

definition clean_fs :: fs where
  "clean_fs = \<lparr>fs_nodes = Map.empty, fs_cwd = ''/'', fs_draws = [7], fs_faults = []\<rparr>"

lemma stream_mismatch:
  "AtomicWriteFileStream (\<lambda>c. ''abc'') (Inr ''data'') ''def'' ''/etc/a'' 420 clean_fs
    = (Inl (ErrMsg (''got '' @ quote ''abc'' @ '' for checksum, expected '' @ quote ''def'')),
       clean_fs\<lparr>fs_nodes := [''/etc/a7.tmp'' \<mapsto> FileN ''data'' 420], fs_draws := []\<rparr>)"
proof -
  have "\<not> equal_fold ''def'' ''abc''" by code_simp
  then show ?thesis
    unfolding AtomicWriteFileStream_def demo_fs_norm Let_def demo_paths
    by (simp add: TempFile_def fs_ops_defs demo_paths clean_fs_def demo_show [simplified] Let_def)
qed

lemma AtomicWriteFileStream_leaks:
  "\<exists>s. fault_count s = 0 \<and> is_err (fst (AtomicWriteFileStream (\<lambda>c. ''abc'') (Inr ''data'') ''def'' ''/etc/a'' 420 s))
     \<and> fs_nodes (snd (AtomicWriteFileStream (\<lambda>c. ''abc'') (Inr ''data'') ''def'' ''/etc/a'' 420 s)) \<noteq> fs_nodes s"
  by (rule exI [of _ clean_fs]) (simp add: stream_mismatch, simp add: clean_fs_def fault_count_def fun_eq_iff)

lemma stream_success:
  "AtomicWriteFileStream (\<lambda>c. ''abc'') (Inr ''data'') ''ABC'' ''/etc/a'' 420 clean_fs
    = (Inr ''abc'', clean_fs\<lparr>fs_nodes := [''/etc/a7.tmp'' \<mapsto> FileN ''data'' 420](''/etc/a7.tmp'' := None, ''/etc/a'' \<mapsto> FileN ''data'' 420),
         fs_draws := []\<rparr>)"
proof -
  have "equal_fold ''ABC'' ''abc''" by code_simp
  then show ?thesis
    unfolding AtomicWriteFileStream_def demo_fs_norm Let_def demo_paths
    by (simp add: TempFile_def fs_ops_defs demo_paths clean_fs_def demo_show [simplified] Let_def)
qed

corollary AtomicWriteFileStream_checked_witness:
  "\<exists>c. Inr ''data'' = (Inr c :: string res) \<and> ''abc'' = (\<lambda>c. ''abc'') c \<and> (''ABC'' = [] \<or> equal_fold ''ABC'' ''abc'')
     \<and> fs_nodes (snd (AtomicWriteFileStream (\<lambda>c. ''abc'') (Inr ''data'') ''ABC'' ''/etc/a'' 420 clean_fs)) ''/etc/a'' = Some (FileN c 420)"
  using AtomicWriteFileStream_checked [OF stream_success] unfolding stream_success demo_fs_norm by simp

end
