(* ===== verification/ResFile.thy ===== *)
theory ResFile
  imports FileSys
begin

text \<open>
  The file resource of an OS policy: \<open>config/file.go\<close>, \<open>config/file_resource.go\<close> and the two
  fetchers of \<open>external/fetcher.go\<close>, over the file system of theory FileSys.

  \<^item> \<open>res_env\<close> is what lies outside: the SHA-256 of the standard library, Google Cloud Storage
    and HTTP (a fetch fails, or gives a reader: its whole content or the error it ends in).
  \<^item> Each operation takes and returns the resource and the file system.
\<close>

section \<open>Downloads\<close>

record res_env =
  rv_sha :: "string \<Rightarrow> string"
  rv_gcs_client :: "go_error option"
  rv_gcs :: "string \<Rightarrow> string \<Rightarrow> int \<Rightarrow> string res res"
  rv_http :: "string \<Rightarrow> (nat \<times> string res) res"

datatype res_file =
    FileGcs string string int
  | FileRemote string string
  | FileLocal string
  | FileUnset

fun GetLocalPath :: "res_file \<Rightarrow> string" where
  "GetLocalPath (FileLocal p) = p"
| "GetLocalPath _ = []"

definition FetchGCSObject :: "res_env \<Rightarrow> string \<Rightarrow> string \<Rightarrow> int \<Rightarrow> string res res" where
  "FetchGCSObject env bucket object generation = rv_gcs env bucket object generation"

definition FetchRemoteObjectHTTP :: "res_env \<Rightarrow> string \<Rightarrow> string res res" where
  "FetchRemoteObjectHTTP env url =
     (case rv_http env url of
        Inl e \<Rightarrow> Inl e
      | Inr (status, body) \<Rightarrow>
          if status \<noteq> 200
          then Inl (ErrMsg (''got http status '' @ show_nat status @ '' when attempting to download artifact''))
          else Inr body)"

definition downloadFile :: "res_env \<Rightarrow> string \<Rightarrow> nat \<Rightarrow> res_file \<Rightarrow> fs \<Rightarrow> string res \<times> fs" where
  "downloadFile env path perms file s =
     (case file of
        FileGcs bucket object generation \<Rightarrow>
          (case rv_gcs_client env of
             Some e \<Rightarrow> (Inl (ErrMsg (''error creating gcs client: '' @ err_text e)), s)
           | None \<Rightarrow>
               (case FetchGCSObject env bucket object generation of
                  Inl e \<Rightarrow> (Inl e, s)
                | Inr reader \<Rightarrow> AtomicWriteFileStream (rv_sha env) reader [] path perms s))
      | FileRemote uri want \<Rightarrow>
          (case FetchRemoteObjectHTTP env uri of
             Inl e \<Rightarrow> (Inl e, s)
           | Inr reader \<Rightarrow> AtomicWriteFileStream (rv_sha env) reader want path perms s)
      | _ \<Rightarrow> (Inl (ErrMsg ''unknown remote File type''), s))"

section \<open>The resource\<close>

datatype file_state = FS_UNSPECIFIED | FS_PRESENT | FS_ABSENT | FS_CONTENTS_MATCH

datatype file_contents = SrcContent string | SrcFile res_file | SrcUnset

record managed_file =
  mf_path :: string
  mf_temp_dir :: string
  mf_source :: string
  mf_checksum :: string
  mf_state :: file_state
  mf_perms :: nat

record file_resource =
  fr_path :: string
  fr_state :: file_state
  fr_perms :: string
  fr_contents :: file_contents
  fr_managed :: managed_file

definition new_file_resource :: "string \<Rightarrow> file_state \<Rightarrow> string \<Rightarrow> file_contents \<Rightarrow> file_resource" where
  "new_file_resource path st perms src = \<lparr>fr_path = path, fr_state = st, fr_perms = perms, fr_contents = src,
     fr_managed = \<lparr>mf_path = [], mf_temp_dir = [], mf_source = [], mf_checksum = [], mf_state = FS_UNSPECIFIED, mf_perms = 0\<rparr>\<rparr>"

text \<open>\<open>f.GetFile().GetLocalPath()\<close>, empty when the source is not a file.\<close>

definition fr_local_path :: "file_resource \<Rightarrow> string" where
  "fr_local_path f = (case fr_contents f of SrcFile file \<Rightarrow> GetLocalPath file | _ \<Rightarrow> [])"

definition defaultFilePerms :: nat where
  "defaultFilePerms = 420"

definition parsePermissions :: "string \<Rightarrow> nat res" where
  "parsePermissions p =
     (if p = [] then Inr defaultFilePerms
      else (case parse_uint 8 32 p of
              None \<Rightarrow> Inl (ErrMsg (''strconv.ParseUint: parsing '' @ quote p
                         @ (if digits_value 8 0 p = None then '': invalid syntax'' else '': value out of range'')))
            | Some n \<Rightarrow> Inr n))"

definition set_managed :: "(managed_file \<Rightarrow> managed_file) \<Rightarrow> file_resource \<Rightarrow> file_resource" where
  "set_managed g f = f\<lparr>fr_managed := g (fr_managed f)\<rparr>"

definition file_download :: "res_env \<Rightarrow> file_resource \<Rightarrow> fs \<Rightarrow> go_error option \<times> file_resource \<times> fs" where
  "file_download env f s =
     (if fr_local_path f \<noteq> [] then (None, f, s)
      else
        (case temp_dir [] ''osconfig_file_resource_'' s of
           (Inl e, s1) \<Rightarrow> (Some (ErrMsg (''failed to create working dir: '' @ err_text e)), f, s1)
         | (Inr tmpDir, s1) \<Rightarrow>
             (let tmpFile = path_join [tmpDir, path_base (fr_path f)];
                  f1 = set_managed (\<lambda>m. m\<lparr>mf_temp_dir := tmpDir, mf_source := tmpFile\<rparr>) f in
              case (case fr_contents f of
                      SrcContent content \<Rightarrow> AtomicWriteFileStream (rv_sha env) (Inr content) [] tmpFile 420 s1
                    | SrcFile file \<Rightarrow> downloadFile env tmpFile 420 file s1
                    | SrcUnset \<Rightarrow> (Inl (ErrMsg ''unrecognized Source type for FileResource''), s1)) of
                (Inl e, s2) \<Rightarrow> (Some e, set_managed (\<lambda>m. m\<lparr>mf_checksum := []\<rparr>) f1, s2)
              | (Inr digest, s2) \<Rightarrow> (None, set_managed (\<lambda>m. m\<lparr>mf_checksum := digest\<rparr>) f1, s2))))"

text \<open>\<open>checksum\<close> of an open file: the error of a failed read is dropped.\<close>

definition file_checksum :: "res_env \<Rightarrow> string \<Rightarrow> fs \<Rightarrow> string \<times> fs" where
  "file_checksum env p s = (case os_read p s of (Inl e, s1) \<Rightarrow> (rv_sha env [], s1) | (Inr c, s1) \<Rightarrow> (rv_sha env c, s1))"

text \<open>The two last parts of \<open>validate\<close>: a local source is summed up; then the file is pulled.\<close>

definition file_local :: "res_env \<Rightarrow> file_resource \<Rightarrow> fs \<Rightarrow> go_error option \<times> file_resource \<times> fs" where
  "file_local env f s =
     (if fr_local_path f = [] then (None, f, s)
      else
        (let f1 = set_managed (\<lambda>m. m\<lparr>mf_source := fr_local_path f\<rparr>) f in
         case os_open (fr_local_path f) s of
           (Inl e, s1) \<Rightarrow> (Some e, f1, s1)
         | (Inr _, s1) \<Rightarrow>
             (case file_checksum env (fr_local_path f) s1 of
                (digest, s2) \<Rightarrow> (None, set_managed (\<lambda>m. m\<lparr>mf_checksum := digest\<rparr>) f1, s2))))"

definition file_pull :: "res_env \<Rightarrow> file_resource \<Rightarrow> fs \<Rightarrow> go_error option \<times> file_resource \<times> fs" where
  "file_pull env f s =
     (case mf_state (fr_managed f) of
        FS_ABSENT \<Rightarrow> (None, f, s)
      | FS_PRESENT \<Rightarrow>
          (case Exists (mf_path (fr_managed f)) s of
             (True, s1) \<Rightarrow> (None, f, s1)
           | (False, s1) \<Rightarrow> file_download env f s1)
      | FS_CONTENTS_MATCH \<Rightarrow> file_download env f s
      | FS_UNSPECIFIED \<Rightarrow> (Some (ErrMsg ''unrecognized DesiredState for FileResource''), f, s))"

definition file_validate :: "res_env \<Rightarrow> file_resource \<Rightarrow> fs \<Rightarrow> go_error option \<times> file_resource \<times> fs" where
  "file_validate env f s =
     (if fr_state f = FS_UNSPECIFIED then (Some (ErrMsg ''unrecognized DesiredState for FileResource''), f, s)
      else
        (let f1 = set_managed (\<lambda>m. m\<lparr>mf_state := fr_state f, mf_path := fr_path f\<rparr>) f in
         if fr_state f = FS_ABSENT then (None, f1, s)
         else
           (case parsePermissions (fr_perms f) of
              Inl e \<Rightarrow> (Some (ErrMsg (''can't parse permissions '' @ quote (fr_perms f) @ '': '' @ err_text e)), f1, s)
            | Inr perms \<Rightarrow>
                (case file_local env (set_managed (\<lambda>m. m\<lparr>mf_perms := perms\<rparr>) f1) s of
                   (Some e, f2, s1) \<Rightarrow> (Some e, f2, s1)
                 | (None, f2, s1) \<Rightarrow> file_pull env f2 s1))))"

definition contentsMatch :: "res_env \<Rightarrow> string \<Rightarrow> string \<Rightarrow> fs \<Rightarrow> bool res \<times> fs" where
  "contentsMatch env path chksum s =
     (case os_open path s of
        (Inl (ErrNotExist p), s1) \<Rightarrow> (Inr False, s1)
      | (Inl e, s1) \<Rightarrow> (Inl e, s1)
      | (Inr _, s1) \<Rightarrow> (case file_checksum env path s1 of (actual, s2) \<Rightarrow> (Inr (actual = chksum), s2)))"

definition unrecognized_state :: "go_error" where
  "unrecognized_state = ErrMsg ''unrecognized DesiredState for FileResource''"

definition file_checkState :: "res_env \<Rightarrow> file_resource \<Rightarrow> fs \<Rightarrow> bool res \<times> fs" where
  "file_checkState env f s =
     (case mf_state (fr_managed f) of
        FS_ABSENT \<Rightarrow> (case Exists (mf_path (fr_managed f)) s of (b, s1) \<Rightarrow> (Inr (\<not> b), s1))
      | FS_PRESENT \<Rightarrow> (case Exists (mf_path (fr_managed f)) s of (b, s1) \<Rightarrow> (Inr b, s1))
      | FS_CONTENTS_MATCH \<Rightarrow> contentsMatch env (mf_path (fr_managed f)) (mf_checksum (fr_managed f)) s
      | FS_UNSPECIFIED \<Rightarrow> (Inl unrecognized_state, s))"

text \<open>
  \<open>copyFile\<close>: the source is opened before the destination is truncated and read after it. The
  error of the deferred close counts only if there is no other.
\<close>

definition copyFile :: "string \<Rightarrow> string \<Rightarrow> nat \<Rightarrow> fs \<Rightarrow> go_error option \<times> fs" where
  "copyFile dst src perms s =
     (case os_open src s of
        (Inl e, s1) \<Rightarrow> (Some (ErrMsg (''error opening source file: '' @ err_text e)), s1)
      | (Inr _, s1) \<Rightarrow>
          (case os_create dst perms s1 of
             (Inl e, s2) \<Rightarrow> (Some (ErrMsg (''error opening destination file: '' @ err_text e)), s2)
           | (Inr _, s2) \<Rightarrow>
               (case os_read src s2 of
                  (Inl e, s3) \<Rightarrow> (Some e, snd (os_close s3))
                | (Inr c, s3) \<Rightarrow>
                    (case os_write dst c s3 of
                       (Inl e, s4) \<Rightarrow> (Some e, snd (os_close s4))
                     | (Inr _, s4) \<Rightarrow>
                         (case os_close s4 of
                            (Inl e, s5) \<Rightarrow> (Some (ErrMsg (''error closing destination file: '' @ err_text e)), s5)
                          | (Inr _, s5) \<Rightarrow> (None, s5))))))"

definition file_enforceState :: "res_env \<Rightarrow> file_resource \<Rightarrow> fs \<Rightarrow> bool res \<times> file_resource \<times> fs" where
  "file_enforceState env f s =
     (let path = mf_path (fr_managed f) in
      case mf_state (fr_managed f) of
        FS_ABSENT \<Rightarrow>
          (case os_remove path s of
             (Inl e, s1) \<Rightarrow> (Inl (ErrMsg (''error removing '' @ quote path @ '': '' @ err_text e)), f, s1)
           | (Inr _, s1) \<Rightarrow> (Inr True, f, s1))
      | FS_UNSPECIFIED \<Rightarrow> (Inl unrecognized_state, f, s)
      | _ \<Rightarrow>
          (case (if mf_source (fr_managed f) = [] then file_download env f s else (None, f, s)) of
             (Some e, f1, s1) \<Rightarrow> (Inl e, f1, s1)
           | (None, f1, s1) \<Rightarrow>
               (case copyFile path (mf_source (fr_managed f1)) (mf_perms (fr_managed f1)) s1 of
                  (Some e, s2) \<Rightarrow>
                    (Inl (ErrMsg (''error copying '' @ quote (mf_source (fr_managed f1)) @ '' to '' @ quote path @ '': '' @ err_text e)), f1, s2)
                | (None, s2) \<Rightarrow> (Inr True, f1, s2))))"

definition file_cleanup :: "file_resource \<Rightarrow> fs \<Rightarrow> go_error option \<times> fs" where
  "file_cleanup f s =
     (if mf_temp_dir (fr_managed f) \<noteq> [] then
        (case os_remove_all (mf_temp_dir (fr_managed f)) s of (Inl e, s1) \<Rightarrow> (Some e, s1) | (Inr _, s1) \<Rightarrow> (None, s1))
      else (None, s))"

section \<open>System calls without faults\<close>

definition calm_step :: "fs \<Rightarrow> fs \<Rightarrow> bool" where
  "calm_step s s' \<longleftrightarrow> no_fault s' \<and> fs_cwd s' = fs_cwd s"

lemma calm_call:
  assumes "no_fault s" "\<And>s0. f s0 = (g (fs_nodes s0), h s0)" "\<And>s0. fs_nodes (h s0) = fs_nodes s0"
    "\<And>s0. fs_cwd (h s0) = fs_cwd s0" "\<And>s0. fs_faults (h s0) = fs_faults s0"
  shows "\<exists>s1. syscall f s = (g (fs_nodes s), s1) \<and> fs_nodes s1 = fs_nodes s \<and> no_fault s1 \<and> fs_cwd s1 = fs_cwd s"
proof -
  obtain s0 where s0: "syscall f s = f s0" "fs_nodes s0 = fs_nodes s" "fs_cwd s0 = fs_cwd s" "no_fault s0"
    by (rule syscall_no_fault [OF assms(1), of f])
  with assms(2-5) show ?thesis by (intro exI [of _ "h s0"]) (simp add: no_fault_def)
qed

lemma os_open_calm:
  assumes "no_fault s"
  shows "\<exists>s1. os_open p s = (case fs_nodes s p of None \<Rightarrow> Inl (ErrNotExist p) | Some n \<Rightarrow> Inr (), s1)
    \<and> fs_nodes s1 = fs_nodes s \<and> no_fault s1 \<and> fs_cwd s1 = fs_cwd s"
  unfolding os_open_def by (rule calm_call [OF assms, where h = "\<lambda>s. s"]) auto

lemma os_stat_calm:
  assumes "no_fault s"
  shows "\<exists>s1. os_stat p s = (case fs_nodes s p of None \<Rightarrow> Inl (ErrNotExist p) | Some n \<Rightarrow> Inr n, s1)
    \<and> fs_nodes s1 = fs_nodes s \<and> no_fault s1 \<and> fs_cwd s1 = fs_cwd s"
  unfolding os_stat_def by (rule calm_call [OF assms, where h = "\<lambda>s. s"]) auto

lemma os_read_calm:
  assumes "no_fault s"
  shows "\<exists>s1. os_read p s = (case fs_nodes s p of
       Some (FileN c m) \<Rightarrow> Inr c | Some DirN \<Rightarrow> Inl (ErrMsg (''read '' @ p @ '': is a directory'')) | None \<Rightarrow> Inr [], s1)
    \<and> fs_nodes s1 = fs_nodes s \<and> no_fault s1 \<and> fs_cwd s1 = fs_cwd s"
  unfolding os_read_def by (rule calm_call [OF assms, where h = "\<lambda>s. s"]) auto

lemma os_close_calm:
  assumes "no_fault s"
  shows "\<exists>s1. os_close s = (Inr (), s1) \<and> fs_nodes s1 = fs_nodes s \<and> no_fault s1 \<and> fs_cwd s1 = fs_cwd s"
  unfolding os_close_def by (rule calm_call [OF assms, where h = "\<lambda>s. s" and g = "\<lambda>n. Inr ()"]) auto

text \<open>A call that changes nodes: no fault afterwards, the working directory kept.\<close>

lemma syscall_calm:
  assumes "no_fault s" "syscall f s = (r, s')"
    "\<And>s0. fs_cwd (snd (f s0)) = fs_cwd s0" "\<And>s0. fs_faults (snd (f s0)) = fs_faults s0"
  shows "no_fault s' \<and> fs_cwd s' = fs_cwd s"
proof -
  obtain s0 where s0: "syscall f s = f s0" "fs_cwd s0 = fs_cwd s" "no_fault s0"
    by (rule syscall_no_fault [OF assms(1), of f])
  with assms(2) have "s' = snd (f s0)" by (metis snd_conv)
  with s0 assms(3,4) show ?thesis by (simp add: no_fault_def)
qed

lemma cwd_set_node [simp]: "fs_cwd (set_node p n s) = fs_cwd s"
  by (simp add: set_node_def)

lemma calm_ops:
  assumes "no_fault s"
  shows "os_create p m s = (r, s') \<Longrightarrow> no_fault s' \<and> fs_cwd s' = fs_cwd s"
    and "os_create_excl p m s = (r, s') \<Longrightarrow> no_fault s' \<and> fs_cwd s' = fs_cwd s"
    and "os_write p c s = (r, s') \<Longrightarrow> no_fault s' \<and> fs_cwd s' = fs_cwd s"
    and "os_remove p s = (r, s') \<Longrightarrow> no_fault s' \<and> fs_cwd s' = fs_cwd s"
    and "os_rename a b s = (r, s') \<Longrightarrow> no_fault s' \<and> fs_cwd s' = fs_cwd s"
    and "os_mkdir_all p s = (r, s') \<Longrightarrow> no_fault s' \<and> fs_cwd s' = fs_cwd s"
    and "os_remove_all p s = (r, s') \<Longrightarrow> no_fault s' \<and> fs_cwd s' = fs_cwd s"
  unfolding os_create_def os_create_excl_def os_write_def os_remove_def os_rename_def os_mkdir_all_def os_remove_all_def
  by (drule syscall_calm [OF assms]; auto split: option.splits node.splits)+

lemma Exists_calm:
  assumes "no_fault s"
  shows "\<exists>s1. Exists p s = (trim_space p \<noteq> [] \<and> fs_nodes s p \<noteq> None, s1)
    \<and> fs_nodes s1 = fs_nodes s \<and> no_fault s1 \<and> fs_cwd s1 = fs_cwd s"
  using os_stat_calm [OF assms, of p] assms by (auto simp: Exists_def split: option.splits)

lemma os_create_nodes:
  "os_create p m s = (Inr u, s') \<Longrightarrow> \<exists>m'. fs_nodes s' = (fs_nodes s)(p \<mapsto> FileN [] m')"
  unfolding os_create_def by (erule syscall_cases) (auto split: option.splits node.splits)

lemma make_temp_facts:
  assumes "make_temp nd dir pat s = (Inr t, s')"
  shows "\<exists>n. t = dir @ ''/'' @ pat @ show_nat n \<and> fs_nodes s' = (fs_nodes s)(t \<mapsto> nd)"
    and "no_fault s \<Longrightarrow> no_fault s' \<and> fs_cwd s' = fs_cwd s"
proof -
  obtain r s1 where d: "draw s = (r, s1)" by fastforce
  have n1: "fs_nodes s1 = fs_nodes s" "fs_faults s1 = fs_faults s" "fs_cwd s1 = fs_cwd s" using draw_simps [of s] d by simp_all
  let ?f = "\<lambda>s2. (let pre = dir @ ''/'' @ pat in
           case fresh_from 10000 (fs_nodes s2) pre r of
             None \<Rightarrow> (Inl (ErrMsg (''createtemp '' @ pre @ '': file exists'')), s2)
           | Some n \<Rightarrow> (Inr (pre @ show_nat n), set_node (pre @ show_nat n) nd s2))"
  have run: "syscall ?f s1 = (Inr t, s')" using assms d by (simp add: make_temp_def)
  then show "\<exists>n. t = dir @ ''/'' @ pat @ show_nat n \<and> fs_nodes s' = (fs_nodes s)(t \<mapsto> nd)"
    by (rule syscall_cases) (auto simp: Let_def n1 split: option.splits)
  show "no_fault s' \<and> fs_cwd s' = fs_cwd s" if "no_fault s"
    using syscall_calm [OF _ run] that n1 by (auto simp: Let_def no_fault_def split: option.splits)
qed

text \<open>\<open>copyFile\<close>, when it succeeds on a file other than its destination.\<close>

lemma copyFile_success:
  assumes "copyFile dst src perms s = (None, s')" "no_fault s"
  shows "no_fault s'" and "fs_nodes s src \<noteq> None" and "\<exists>c m. fs_nodes s' = (fs_nodes s)(dst \<mapsto> FileN c m)
    \<and> (src \<noteq> dst \<longrightarrow> (\<exists>m'. fs_nodes s src = Some (FileN c m')))"
proof -
  obtain s1 where o1: "os_open src s = (case fs_nodes s src of None \<Rightarrow> Inl (ErrNotExist src) | Some n \<Rightarrow> Inr (), s1)"
    "fs_nodes s1 = fs_nodes s" "no_fault s1" using os_open_calm [OF assms(2), of src] by auto
  with assms(1) have src: "fs_nodes s src \<noteq> None" by (cases "fs_nodes s src") (auto simp: copyFile_def)
  then show "fs_nodes s src \<noteq> None" .
  obtain r2 s2 where c: "os_create dst perms s1 = (r2, s2)" by fastforce
  with assms(1) o1 src obtain u where r2: "r2 = Inr u" by (auto simp: copyFile_def split: sum.splits)
  note n2 = calm_ops(1) [OF o1(3) c]
  from os_create_nodes [OF c [unfolded r2]] o1 obtain m where m: "fs_nodes s2 = (fs_nodes s)(dst \<mapsto> FileN [] m)" by auto
  obtain s3 where rd: "os_read src s2 = (case fs_nodes s2 src of
       Some (FileN c m) \<Rightarrow> Inr c | Some DirN \<Rightarrow> Inl (ErrMsg (''read '' @ src @ '': is a directory'')) | None \<Rightarrow> Inr [], s3)"
    "fs_nodes s3 = fs_nodes s2" "no_fault s3" using os_read_calm [of s2 src] n2 by auto
  have "fs_nodes s2 src \<noteq> None" using src m by auto
  with assms(1) o1 src c r2 rd obtain ct mm where f: "fs_nodes s2 src = Some (FileN ct mm)"
    by (auto simp: copyFile_def split: option.splits node.splits)
  obtain r4 s4 where w: "os_write dst ct s3 = (r4, s4)" by fastforce
  with assms(1) o1 src c r2 rd f obtain u4 where r4: "r4 = Inr u4" by (auto simp: copyFile_def split: sum.splits)
  from os_write_cases [OF w] r4 rd m have n4: "fs_nodes s4 = (fs_nodes s)(dst \<mapsto> FileN ct m)" by auto
  have nf4: "no_fault s4" using calm_ops(3) [OF rd(3) w] by simp
  then obtain s5 where cl: "os_close s4 = (Inr (), s5)" "fs_nodes s5 = fs_nodes s4" "no_fault s5" using os_close_calm by blast
  with assms(1) o1 src c r2 rd f w r4 have s': "s' = s5" by (auto simp: copyFile_def split: sum.splits option.splits)
  with cl show "no_fault s'" by simp
  show "\<exists>c m. fs_nodes s' = (fs_nodes s)(dst \<mapsto> FileN c m) \<and> (src \<noteq> dst \<longrightarrow> (\<exists>m'. fs_nodes s src = Some (FileN c m')))"
    using s' cl n4 f m by (intro exI [of _ ct] exI [of _ m]) auto
qed

lemma contentsMatch_calm:
  assumes "no_fault s"
  shows "\<exists>s1. contentsMatch env p ck s = (case fs_nodes s p of None \<Rightarrow> Inr False
       | Some (FileN c m) \<Rightarrow> Inr (rv_sha env c = ck) | Some DirN \<Rightarrow> Inr (rv_sha env [] = ck), s1)
    \<and> fs_nodes s1 = fs_nodes s \<and> no_fault s1 \<and> fs_cwd s1 = fs_cwd s"
proof -
  obtain s1 where o1: "os_open p s = (case fs_nodes s p of None \<Rightarrow> Inl (ErrNotExist p) | Some n \<Rightarrow> Inr (), s1)"
    "fs_nodes s1 = fs_nodes s" "no_fault s1" "fs_cwd s1 = fs_cwd s" using os_open_calm [OF assms, of p] by auto
  with os_read_calm [OF o1(3), of p] show ?thesis
    by (auto simp: contentsMatch_def file_checksum_def split: option.splits node.splits)
qed

lemma TempFile_calm: "TempFile d p m s = (r, s') \<Longrightarrow> no_fault s \<Longrightarrow> no_fault s' \<and> fs_cwd s' = fs_cwd s"
proof -
  assume t: "TempFile d p m s = (r, s')" and nf: "no_fault s"
  obtain n s1 where d: "draw s = (n, s1)" by fastforce
  define name where "name = path_join [d, p @ show_nat (n mod 99999) @ ''.tmp'']"
  obtain r2 s2 where c: "os_create_excl name m s1 = (r2, s2)" by fastforce
  have "no_fault s1" "fs_cwd s1 = fs_cwd s" using draw_simps [of s] d nf by (simp_all add: no_fault_def)
  moreover have "s' = s2" using t d c by (auto simp: TempFile_def Let_def name_def split: sum.splits)
  ultimately show ?thesis using calm_ops(2) [OF _ c] by simp
qed

lemma cleanup_tmp_calm: "no_fault s \<Longrightarrow> no_fault (cleanup_tmp t s) \<and> fs_cwd (cleanup_tmp t s) = fs_cwd s"
  using calm_ops(4) [of s t "fst (os_remove t s)" "snd (os_remove t s)"] by (simp add: cleanup_tmp_def)

lemma stream_calm:
  assumes "AtomicWriteFileStream sha rd ck p m s = (r, s')" "no_fault s"
  shows "no_fault s' \<and> fs_cwd s' = fs_cwd s"
proof -
  obtain r1 s1 where t: "TempFile (path_dir (NormPath s p)) (path_base (NormPath s p)) m s = (r1, s1)" by fastforce
  note c1 = TempFile_calm [OF t assms(2)]
  show ?thesis
  proof (cases r1)
    case (Inl e)
    with assms t c1 show ?thesis by (simp add: AtomicWriteFileStream_def Let_def)
  next
    case (Inr tmp)
    show ?thesis
    proof (cases rd)
      case (Inl e)
      with assms t \<open>r1 = Inr tmp\<close> c1 cleanup_tmp_calm [of s1 tmp] show ?thesis by (auto simp: AtomicWriteFileStream_def Let_def)
    next
      case rd: (Inr c)
      obtain r2 s2 where w: "os_write tmp c s1 = (r2, s2)" by fastforce
      have c2: "no_fault s2" "fs_cwd s2 = fs_cwd s" using calm_ops(3) [OF _ w] c1 by auto
      obtain s3 where cl: "os_close s2 = (Inr (), s3)" "no_fault s3" "fs_cwd s3 = fs_cwd s" using os_close_calm [OF c2(1)] c2 by auto
      obtain r4 s4 where rn: "os_rename tmp (NormPath s p) s3 = (r4, s4)" by fastforce
      have "no_fault s4" "fs_cwd s4 = fs_cwd s" using calm_ops(5) [OF cl(2) rn] cl by auto
      with assms t Inr rd w cl rn c2 cleanup_tmp_calm [of s2 tmp] show ?thesis
        by (auto simp: AtomicWriteFileStream_def Let_def split: sum.splits if_splits)
    qed
  qed
qed

lemma path_join_abs: "is_abs d \<Longrightarrow> \<exists>q. path_join [d, b] = path_clean q \<and> is_abs q"
proof (intro exI conjI)
  assume "is_abs d"
  then obtain r where d: "d = CHR ''/'' # r" by (cases d) (auto simp: is_abs_def has_prefix_def)
  show "path_join [d, b] = path_clean (join ''/'' (filter (\<lambda>p. p \<noteq> []) [d, b]))" by (simp add: path_join_def d)
  show "is_abs (join ''/'' (filter (\<lambda>p. p \<noteq> []) [d, b]))" by (simp add: d)
qed

lemma NormPath_clean: "is_abs q \<Longrightarrow> NormPath s (path_clean q) = path_clean q"
proof -
  assume q: "is_abs q"
  obtain r where r: "path_clean q = CHR ''/'' # r" by (simp add: path_clean_abs [OF q])
  have "\<not> has_prefix (path_clean q) [CHR 0x5C, CHR 0x5C, CHR ''?'', CHR 0x5C]" by (simp add: r has_prefix_def)
  moreover have "is_abs (path_clean q)" by (simp add: r)
  ultimately show ?thesis by (simp add: NormPath_def path_clean_idem)
qed

lemma NormPath_join: "is_abs d \<Longrightarrow> NormPath s (path_join [d, b]) = path_join [d, b]"
  using path_join_abs [of d b] NormPath_clean by metis

lemma path_join_not_Nil: "is_abs d \<Longrightarrow> path_join [d, b] \<noteq> []"
  using path_join_abs [of d b] path_clean_abs by force

section \<open>The file resource\<close>

definition node_sum :: "res_env \<Rightarrow> node \<Rightarrow> string" where
  "node_sum env n = (case n of FileN c m \<Rightarrow> rv_sha env c | DirN \<Rightarrow> rv_sha env [])"

text \<open>The source has been pulled, and the recorded checksum is that of its content.\<close>

definition source_ok :: "res_env \<Rightarrow> file_resource \<Rightarrow> fs \<Rightarrow> bool" where
  "source_ok env f s \<longleftrightarrow> mf_source (fr_managed f) \<noteq> [] \<and>
     (\<exists>n. fs_nodes s (mf_source (fr_managed f)) = Some n \<and> mf_checksum (fr_managed f) = node_sum env n)"

definition same_goal :: "file_resource \<Rightarrow> file_resource \<Rightarrow> bool" where
  "same_goal f f' \<longleftrightarrow> fr_contents f' = fr_contents f \<and> fr_path f' = fr_path f
     \<and> mf_state (fr_managed f') = mf_state (fr_managed f) \<and> mf_path (fr_managed f') = mf_path (fr_managed f)"

lemma downloadFile_success:
  assumes "downloadFile env p m file s = (Inr digest, s')" "no_fault s"
  shows "no_fault s' \<and> (\<exists>c. digest = rv_sha env c \<and> fs_nodes s' (NormPath s p) = Some (FileN c m))"
proof -
  obtain rd ck where a: "AtomicWriteFileStream (rv_sha env) rd ck p m s = (Inr digest, s')"
    using assms(1) by (auto simp: downloadFile_def split: res_file.splits option.splits sum.splits)
  show ?thesis using stream_calm [OF a assms(2)] AtomicWriteFileStream_cases [OF a] by fastforce
qed

lemma file_download_success:
  assumes "file_download env f s = (None, f', s')" "no_fault s" "fr_local_path f = []"
  shows "no_fault s' \<and> source_ok env f' s' \<and> same_goal f f'"
proof -
  obtain tmpDir s1 where t: "temp_dir [] ''osconfig_file_resource_'' s = (Inr tmpDir, s1)"
    using assms(1,3) by (auto simp: file_download_def split: prod.splits sum.splits)
  note tf = make_temp_facts [OF t [unfolded temp_dir_def]]
  from tf(2) assms(2) have nf1: "no_fault s1" by simp
  have abs: "is_abs tmpDir" using tf(1) by (auto simp: is_abs_def has_prefix_def)
  define tmpFile where "tmpFile = path_join [tmpDir, path_base (fr_path f)]"
  define pull where "pull = (case fr_contents f of
                      SrcContent content \<Rightarrow> AtomicWriteFileStream (rv_sha env) (Inr content) [] tmpFile 420 s1
                    | SrcFile file \<Rightarrow> downloadFile env tmpFile 420 file s1
                    | SrcUnset \<Rightarrow> (Inl (ErrMsg ''unrecognized Source type for FileResource''), s1))"
  obtain rr s2 where pr: "pull = (rr, s2)" by fastforce
  have "file_download env f s = (case pull of
        (Inl e, s2) \<Rightarrow> (Some e, set_managed (\<lambda>m. m\<lparr>mf_checksum := []\<rparr>) (set_managed (\<lambda>m. m\<lparr>mf_temp_dir := tmpDir, mf_source := tmpFile\<rparr>) f), s2)
      | (Inr digest, s2) \<Rightarrow> (None, set_managed (\<lambda>m. m\<lparr>mf_checksum := digest\<rparr>) (set_managed (\<lambda>m. m\<lparr>mf_temp_dir := tmpDir, mf_source := tmpFile\<rparr>) f), s2))"
    unfolding pull_def tmpFile_def using assms(3) t by (simp add: file_download_def Let_def)
  with assms(1) pr obtain digest where rr: "rr = Inr digest" "s' = s2"
    and f': "f' = set_managed (\<lambda>m. m\<lparr>mf_checksum := digest\<rparr>) (set_managed (\<lambda>m. m\<lparr>mf_temp_dir := tmpDir, mf_source := tmpFile\<rparr>) f)"
    by (cases rr) auto
  note d = pr [unfolded pull_def rr]
  have "no_fault s' \<and> (\<exists>c. digest = rv_sha env c \<and> fs_nodes s' (NormPath s1 tmpFile) = Some (FileN c 420))"
  proof (cases "fr_contents f")
    case (SrcContent content)
    with d have a: "AtomicWriteFileStream (rv_sha env) (Inr content) [] tmpFile 420 s1 = (Inr digest, s')" by (simp add: rr)
    show ?thesis using stream_calm [OF a nf1] AtomicWriteFileStream_cases [OF a] by fastforce
  next
    case (SrcFile fl)
    with d have a: "downloadFile env tmpFile 420 fl s1 = (Inr digest, s')" by (simp add: rr)
    show ?thesis using downloadFile_success [OF a nf1] by simp
  qed (use d in simp)
  moreover have "NormPath s1 tmpFile = tmpFile" "tmpFile \<noteq> []"
    using NormPath_join [OF abs] path_join_not_Nil [OF abs] by (simp_all add: tmpFile_def)
  ultimately show ?thesis
    by (auto simp: f' source_ok_def same_goal_def set_managed_def node_sum_def)
qed

lemma file_local_success:
  assumes "file_local env f s = (None, f', s')" "no_fault s"
  shows "no_fault s' \<and> same_goal f f' \<and> (fr_local_path f \<noteq> [] \<longrightarrow> source_ok env f' s')"
proof (cases "fr_local_path f = []")
  case True
  with assms show ?thesis by (simp add: file_local_def same_goal_def)
next
  case False
  obtain s1 where o1: "os_open (fr_local_path f) s = (case fs_nodes s (fr_local_path f) of None \<Rightarrow> Inl (ErrNotExist (fr_local_path f)) | Some n \<Rightarrow> Inr (), s1)"
    "fs_nodes s1 = fs_nodes s" "no_fault s1" using os_open_calm [OF assms(2), of "fr_local_path f"] by auto
  with assms(1) False obtain n where n: "fs_nodes s (fr_local_path f) = Some n"
    by (cases "fs_nodes s (fr_local_path f)") (auto simp: file_local_def Let_def)
  obtain s2 where c: "file_checksum env (fr_local_path f) s1 = (node_sum env n, s2)" "fs_nodes s2 = fs_nodes s" "no_fault s2"
    using os_read_calm [OF o1(3), of "fr_local_path f"] n o1(2)
    by (auto simp: file_checksum_def node_sum_def split: node.splits)
  with assms(1) False o1 n have "f' = set_managed (\<lambda>m. m\<lparr>mf_checksum := node_sum env n\<rparr>) (set_managed (\<lambda>m. m\<lparr>mf_source := fr_local_path f\<rparr>) f)" "s' = s2"
    by (auto simp: file_local_def Let_def)
  with c n False show ?thesis by (auto simp: same_goal_def source_ok_def set_managed_def)
qed

lemma source_ok_nodes: "source_ok env f s \<Longrightarrow> fs_nodes s' = fs_nodes s \<Longrightarrow> source_ok env f s'"
  by (simp add: source_ok_def)

lemma file_pull_success:
  assumes "file_pull env f s = (None, f', s')" "no_fault s" "fr_local_path f \<noteq> [] \<longrightarrow> source_ok env f s"
  shows "no_fault s' \<and> same_goal f f' \<and> (mf_state (fr_managed f) = FS_CONTENTS_MATCH \<longrightarrow> source_ok env f' s')"
proof (cases "mf_state (fr_managed f)")
  case FS_PRESENT
  obtain b s1 where e: "Exists (mf_path (fr_managed f)) s = (b, s1)" "no_fault s1" "fs_nodes s1 = fs_nodes s"
    using Exists_calm [OF assms(2), of "mf_path (fr_managed f)"] by auto
  show ?thesis
  proof (cases "b \<or> fr_local_path f \<noteq> []")
    case True
    with FS_PRESENT e assms(1) show ?thesis
      by (cases b) (auto simp: file_pull_def file_download_def same_goal_def)
  next
    case False
    with FS_PRESENT e assms(1) have "file_download env f s1 = (None, f', s')" by (auto simp: file_pull_def)
    with file_download_success [OF this e(2)] False show ?thesis by (simp add: FS_PRESENT)
  qed
next
  case FS_CONTENTS_MATCH
  with assms(1) have d: "file_download env f s = (None, f', s')" by (simp add: file_pull_def)
  show ?thesis
  proof (cases "fr_local_path f = []")
    case True
    from file_download_success [OF d assms(2) True] show ?thesis by simp
  next
    case False
    with d assms show ?thesis by (auto simp: file_download_def same_goal_def)
  qed
qed (use assms in \<open>auto simp: file_pull_def same_goal_def\<close>)

lemma file_validate_success:
  assumes "file_validate env (new_file_resource path st perms src) s = (None, f, s')" "no_fault s"
  shows "no_fault s' \<and> mf_state (fr_managed f) = st \<and> mf_path (fr_managed f) = path \<and> st \<noteq> FS_UNSPECIFIED
    \<and> (st = FS_CONTENTS_MATCH \<longrightarrow> source_ok env f s') \<and> fr_contents f = src"
proof (cases "st = FS_ABSENT \<or> st = FS_UNSPECIFIED")
  case True
  with assms show ?thesis by (auto simp: file_validate_def new_file_resource_def set_managed_def Let_def)
next
  case False
  define f1 where "f1 = set_managed (\<lambda>m. m\<lparr>mf_state := st, mf_path := path\<rparr>) (new_file_resource path st perms src)"
  obtain p where p: "parsePermissions perms = Inr p"
    using assms(1) False by (auto simp: file_validate_def new_file_resource_def Let_def split: sum.splits)
  define f2 where "f2 = set_managed (\<lambda>m. m\<lparr>mf_perms := p\<rparr>) f1"
  obtain e f3 s1 where l: "file_local env f2 s = (e, f3, s1)" by (metis prod_cases3)
  have "file_validate env (new_file_resource path st perms src) s =
      (case file_local env f2 s of (Some e, f2, s1) \<Rightarrow> (Some e, f2, s1) | (None, f2, s1) \<Rightarrow> file_pull env f2 s1)"
    using False p by (simp add: file_validate_def new_file_resource_def f1_def f2_def Let_def)
  with assms(1) l have e: "e = None" and pl: "file_pull env f3 s1 = (None, f, s')" by (auto split: option.splits)
  note lf = file_local_success [OF l [unfolded e] assms(2)]
  have "fr_local_path f3 \<noteq> [] \<longrightarrow> source_ok env f3 s1" using lf by (simp add: fr_local_path_def same_goal_def)
  note pf = file_pull_success [OF pl _ this]
  have "mf_state (fr_managed f2) = st" "mf_path (fr_managed f2) = path" "fr_contents f2 = src"
    by (simp_all add: f2_def f1_def set_managed_def new_file_resource_def)
  with lf pf False show ?thesis by (auto simp: same_goal_def)
qed

text \<open>
  The cycle of check, enforce, check: on a machine without faults, after a validation, an
  enforcement that follows a failed check and succeeds makes the next check answer true.
\<close>

lemma file_check_calm:
  assumes "file_checkState env f s = (Inr b, s')" "no_fault s"
  shows "no_fault s' \<and> fs_nodes s' = fs_nodes s \<and>
    b = (case mf_state (fr_managed f) of
        FS_ABSENT \<Rightarrow> trim_space (mf_path (fr_managed f)) = [] \<or> fs_nodes s (mf_path (fr_managed f)) = None
      | FS_PRESENT \<Rightarrow> trim_space (mf_path (fr_managed f)) \<noteq> [] \<and> fs_nodes s (mf_path (fr_managed f)) \<noteq> None
      | FS_CONTENTS_MATCH \<Rightarrow> (case fs_nodes s (mf_path (fr_managed f)) of None \<Rightarrow> False
           | Some n \<Rightarrow> node_sum env n = mf_checksum (fr_managed f))
      | FS_UNSPECIFIED \<Rightarrow> False)"
proof -
  obtain b1 s1 where e: "Exists (mf_path (fr_managed f)) s = (b1, s1)" "b1 = (trim_space (mf_path (fr_managed f)) \<noteq> [] \<and> fs_nodes s (mf_path (fr_managed f)) \<noteq> None)"
      "no_fault s1" "fs_nodes s1 = fs_nodes s"
    using Exists_calm [OF assms(2), of "mf_path (fr_managed f)"] by auto
  show ?thesis
  proof (cases "mf_state (fr_managed f)")
    case FS_CONTENTS_MATCH
    with assms contentsMatch_calm [OF assms(2), of env "mf_path (fr_managed f)" "mf_checksum (fr_managed f)"] show ?thesis
      by (auto simp: file_checkState_def node_sum_def split: option.splits node.splits)
  qed (use assms e in \<open>auto simp: file_checkState_def\<close>)
qed

lemma os_remove_nodes: "os_remove p s = (Inr u, s') \<Longrightarrow> fs_nodes s' = (fs_nodes s)(p := None)"
  unfolding os_remove_def by (erule syscall_cases) (auto simp: set_node_def split: option.splits if_splits)

lemma file_check_total: "no_fault s \<Longrightarrow> mf_state (fr_managed f) \<noteq> FS_UNSPECIFIED \<Longrightarrow> \<exists>b s'. file_checkState env f s = (Inr b, s')"
proof -
  assume nf: "no_fault s" and st: "mf_state (fr_managed f) \<noteq> FS_UNSPECIFIED"
  obtain s1 where "contentsMatch env (mf_path (fr_managed f)) (mf_checksum (fr_managed f)) s =
      (case fs_nodes s (mf_path (fr_managed f)) of None \<Rightarrow> Inr False
       | Some (FileN c m) \<Rightarrow> Inr (rv_sha env c = mf_checksum (fr_managed f))
       | Some DirN \<Rightarrow> Inr (rv_sha env [] = mf_checksum (fr_managed f)), s1)"
    using contentsMatch_calm [OF nf, of env "mf_path (fr_managed f)" "mf_checksum (fr_managed f)"] by blast
  with st show ?thesis
    by (cases "mf_state (fr_managed f)") (auto simp: file_checkState_def split: prod.splits option.splits node.splits)
qed

text \<open>The enforcement of a state other than absence: the path ends up a regular file.\<close>

lemma file_enforce_copy:
  assumes "file_enforceState env f s = (Inr b, f', s')" "no_fault s" "mf_state (fr_managed f) \<in> {FS_PRESENT, FS_CONTENTS_MATCH}"
    and "mf_source (fr_managed f) = [] \<longrightarrow> fr_local_path f = []"
  shows "no_fault s' \<and> same_goal f f' \<and> b \<and> (\<exists>c m. fs_nodes s' (mf_path (fr_managed f)) = Some (FileN c m)
     \<and> (mf_source (fr_managed f) \<noteq> [] \<longrightarrow> f' = f \<and> (mf_source (fr_managed f) \<noteq> mf_path (fr_managed f)
          \<longrightarrow> (\<exists>m'. fs_nodes s (mf_source (fr_managed f)) = Some (FileN c m')))))"
proof -
  define pre where "pre = (if mf_source (fr_managed f) = [] then file_download env f s else (None, f, s))"
  have "file_enforceState env f s = (case pre of
             (Some e, f1, s1) \<Rightarrow> (Inl e, f1, s1)
           | (None, f1, s1) \<Rightarrow>
               (case copyFile (mf_path (fr_managed f)) (mf_source (fr_managed f1)) (mf_perms (fr_managed f1)) s1 of
                  (Some e, s2) \<Rightarrow>
                    (Inl (ErrMsg (''error copying '' @ quote (mf_source (fr_managed f1)) @ '' to '' @ quote (mf_path (fr_managed f)) @ '': '' @ err_text e)), f1, s2)
                | (None, s2) \<Rightarrow> (Inr True, f1, s2)))"
    unfolding pre_def using assms(3) by (auto simp: file_enforceState_def Let_def)
  with assms(1) obtain f1 s1 where p: "pre = (None, f1, s1)"
    and c: "copyFile (mf_path (fr_managed f)) (mf_source (fr_managed f1)) (mf_perms (fr_managed f1)) s1 = (None, s')"
    and f': "f' = f1" "b"
    by (auto split: prod.splits option.splits)
  have pre: "no_fault s1 \<and> same_goal f f1 \<and> (mf_source (fr_managed f) \<noteq> [] \<longrightarrow> f1 = f \<and> s1 = s)"
    using file_download_success [of env f s f1 s1] p assms(2,4)
    by (auto simp: pre_def same_goal_def split: if_splits)
  from copyFile_success [OF c] pre obtain ct m where "no_fault s'" "fs_nodes s' = (fs_nodes s1)(mf_path (fr_managed f) \<mapsto> FileN ct m)"
    "mf_source (fr_managed f1) \<noteq> mf_path (fr_managed f) \<longrightarrow> (\<exists>m'. fs_nodes s1 (mf_source (fr_managed f1)) = Some (FileN ct m'))"
    by blast
  with pre f' show ?thesis by auto
qed

lemma file_pull_source:
  assumes "file_pull env f s = (None, f', s')" "no_fault s" "fr_local_path f \<noteq> [] \<longrightarrow> mf_source (fr_managed f) \<noteq> []"
  shows "mf_source (fr_managed f') = [] \<longrightarrow> fr_local_path f' = []"
proof (cases "fr_local_path f = []")
  case False
  with assms show ?thesis
    by (auto simp: file_pull_def file_download_def split: file_state.splits prod.splits bool.splits)
next
  case True
  have "same_goal f f'" using file_pull_success [OF assms(1,2)] True by simp
  with True show ?thesis by (simp add: same_goal_def fr_local_path_def)
qed

lemma file_validate_source:
  assumes "file_validate env (new_file_resource path st perms src) s = (None, f, s')" "no_fault s"
  shows "st \<noteq> FS_ABSENT \<Longrightarrow> mf_source (fr_managed f) = [] \<longrightarrow> fr_local_path f = []"
proof -
  assume na: "st \<noteq> FS_ABSENT"
  with assms(1) have nu: "st \<noteq> FS_UNSPECIFIED" by (auto simp: file_validate_def new_file_resource_def)
  define f1 where "f1 = set_managed (\<lambda>m. m\<lparr>mf_state := st, mf_path := path\<rparr>) (new_file_resource path st perms src)"
  obtain p where p: "parsePermissions perms = Inr p"
    using assms(1) na nu by (auto simp: file_validate_def new_file_resource_def Let_def split: sum.splits)
  define f2 where "f2 = set_managed (\<lambda>m. m\<lparr>mf_perms := p\<rparr>) f1"
  obtain e f3 s1 where l: "file_local env f2 s = (e, f3, s1)" by (metis prod_cases3)
  have "file_validate env (new_file_resource path st perms src) s =
      (case file_local env f2 s of (Some e, f2, s1) \<Rightarrow> (Some e, f2, s1) | (None, f2, s1) \<Rightarrow> file_pull env f2 s1)"
    using na nu p by (simp add: file_validate_def new_file_resource_def f1_def f2_def Let_def)
  with assms(1) l have e: "e = None" and pl: "file_pull env f3 s1 = (None, f, s')" by (auto split: option.splits)
  note lf = file_local_success [OF l [unfolded e] assms(2)]
  then have "fr_local_path f3 \<noteq> [] \<longrightarrow> mf_source (fr_managed f3) \<noteq> []" by (simp add: fr_local_path_def same_goal_def source_ok_def)
  from file_pull_source [OF pl _ this] lf show ?thesis by simp
qed

text \<open>The cycle: validate, a check that fails, an enforcement that succeeds; the next check holds.\<close>

lemma file_cycle:
  assumes "no_fault s" "trim_space path \<noteq> []"
    and v: "file_validate env (new_file_resource path st perms src) s = (None, f, s1)"
    and c: "file_checkState env f s1 = (Inr False, s2)"
    and e: "file_enforceState env f s2 = (Inr b, f', s3)"
  shows "b \<and> no_fault s3 \<and> (\<exists>s4. file_checkState env f' s3 = (Inr True, s4) \<and> no_fault s4)"
proof -
  note vf = file_validate_success [OF v assms(1)]
  from vf have nf1: "no_fault s1" and st: "mf_state (fr_managed f) = st" "st \<noteq> FS_UNSPECIFIED" and pa: "mf_path (fr_managed f) = path" by auto
  note cf = file_check_calm [OF c nf1]
  then have nf2: "no_fault s2" and n2: "fs_nodes s2 = fs_nodes s1" by auto
  have finish: ?thesis
    if hy: "b" "no_fault s3" "same_goal f f'" "case st of FS_ABSENT \<Rightarrow> fs_nodes s3 path = None
      | FS_CONTENTS_MATCH \<Rightarrow> (\<exists>n. fs_nodes s3 path = Some n \<and> node_sum env n = mf_checksum (fr_managed f'))
      | _ \<Rightarrow> fs_nodes s3 path \<noteq> None"
  proof -
    have g: "mf_state (fr_managed f') = st" "mf_path (fr_managed f') = path" using hy(3) st pa by (simp_all add: same_goal_def)
    obtain b4 s4 where c4: "file_checkState env f' s3 = (Inr b4, s4)" using file_check_total [OF hy(2)] g st by metis
    from file_check_calm [OF c4 hy(2)] hy(4) g st assms(2) have "b4" "no_fault s4" by (cases st; auto)+
    with c4 hy show ?thesis by auto
  qed
  show ?thesis
  proof (cases "st = FS_ABSENT")
    case True
    with e st pa have "f' = f" "b" and r: "\<exists>u. os_remove path s2 = (Inr u, s3)"
      by (auto simp: file_enforceState_def Let_def split: prod.splits sum.splits)
    moreover from r calm_ops(4) [OF nf2] have "no_fault s3" by blast
    moreover from r os_remove_nodes have "fs_nodes s3 path = None" by fastforce
    ultimately show ?thesis using True by (intro finish) (simp_all add: same_goal_def)
  next
    case False
    with st have sp: "mf_state (fr_managed f) \<in> {FS_PRESENT, FS_CONTENTS_MATCH}" by (cases st) auto
    note ef = file_enforce_copy [OF e nf2 sp file_validate_source [OF v assms(1) False]]
    show ?thesis
    proof (cases "st = FS_CONTENTS_MATCH")
      case True
      with vf have so: "source_ok env f s1" by simp
      then obtain n where n: "fs_nodes s1 (mf_source (fr_managed f)) = Some n" "mf_checksum (fr_managed f) = node_sum env n" "mf_source (fr_managed f) \<noteq> []"
        by (auto simp: source_ok_def)
      have ne: "mf_source (fr_managed f) \<noteq> mf_path (fr_managed f)" using cf n True st pa by auto
      with ef n n2 pa obtain c m m' where "fs_nodes s3 path = Some (FileN c m)" "n = FileN c m'" "f' = f" by auto
      with n ef True show ?thesis by (intro finish) (auto simp: node_sum_def)
    next
      case F2: False
      with ef pa False st show ?thesis by (intro finish) (auto split: file_state.splits)
    qed
  qed
qed

end
