(* ===== verification/ResRepo.thy ===== *)
theory ResRepo
  imports ResFile
begin

text \<open>
  The repository resource of an OS policy, \<open>config/repository_resource.go\<close>: the contents of the
  four kinds of repository file, and the resource that writes and checks the file. The path of
  the file depends on the checksum of its contents. Fetching, parsing and serialising a GPG key
  (\<open>net/http\<close>, \<open>golang.org/x/crypto/openpgp\<close>) is given by four operations of the environment.
\<close>

section \<open>Repository files\<close>

datatype archive_type = ARCHIVE_TYPE_UNSPECIFIED | DEB | DEB_SRC

record apt_repo =
  ar_archive :: archive_type
  ar_uri :: string
  ar_distribution :: string
  ar_components :: "string list"
  ar_gpg_key :: string

record goo_repo =
  gr_name :: string
  gr_url :: string

record yum_repo =
  yr_id :: string
  yr_display :: string
  yr_base_url :: string
  yr_gpg_keys :: "string list"

datatype repository = RepoApt apt_repo | RepoGoo goo_repo | RepoYum yum_repo | RepoZypper yum_repo | RepoUnset

definition newline :: string where
  "newline = [CHR 0x0A]"

definition managed_header :: string where
  "managed_header = ''# Repo file managed by Google OSConfig agent'' @ newline"

fun archive_text :: "archive_type \<Rightarrow> string" where
  "archive_text DEB = ''deb''"
| "archive_text DEB_SRC = ''deb-src''"
| "archive_text ARCHIVE_TYPE_UNSPECIFIED = ''deb''"

definition aptRepoContents :: "apt_repo \<Rightarrow> string" where
  "aptRepoContents repo =
     managed_header
     @ foldl (\<lambda>line c. line @ '' '' @ c)
         (archive_text (ar_archive repo) @ '' '' @ ar_uri repo @ '' '' @ ar_distribution repo) (ar_components repo)
     @ newline"

definition googetRepoContents :: "goo_repo \<Rightarrow> string" where
  "googetRepoContents repo =
     managed_header @ ''- name: '' @ gr_name repo @ newline @ ''  url: '' @ gr_url repo @ newline"

definition gpg_lines :: "string list \<Rightarrow> string" where
  "gpg_lines keys = (case keys of [] \<Rightarrow> []
     | k # ks \<Rightarrow> ''gpgkey='' @ k @ newline @ concat (map (\<lambda>k. ''       '' @ k @ newline) ks))"

definition repo_head :: "yum_repo \<Rightarrow> string" where
  "repo_head repo =
     managed_header @ ''['' @ yr_id repo @ '']'' @ newline
     @ (if yr_display repo = [] then ''name='' @ yr_id repo @ newline else ''name='' @ yr_display repo @ newline)
     @ ''baseurl='' @ yr_base_url repo @ newline"

definition yumRepoContents :: "yum_repo \<Rightarrow> string" where
  "yumRepoContents repo =
     repo_head repo @ ''enabled=1'' @ newline @ ''gpgcheck=1'' @ newline @ gpg_lines (yr_gpg_keys repo)"

definition zypperRepoContents :: "yum_repo \<Rightarrow> string" where
  "zypperRepoContents repo = repo_head repo @ ''enabled=1'' @ newline @ gpg_lines (yr_gpg_keys repo)"

section \<open>The resource\<close>

text \<open>The package managers found and the file name formats of the configuration: prefix and suffix
  around the \<open>%s\<close>.\<close>

record repo_env = res_env +
  rp_apt_exists :: bool
  rp_goo_exists :: bool
  rp_yum_exists :: bool
  rp_zypper_exists :: bool
  rp_apt_format :: "string \<times> string"
  rp_goo_format :: "string \<times> string"
  rp_yum_format :: "string \<times> string"
  rp_zypper_format :: "string \<times> string"
  rp_key_get :: "string \<Rightarrow> (int \<times> string res) res"
  rp_is_armored :: "string \<Rightarrow> bool"
  rp_armored_ring :: "string \<Rightarrow> string res list res"
  rp_ring :: "string \<Rightarrow> string res list res"

record managed_repo =
  mr_gpg :: "(string \<times> string \<times> string) option"
  mr_path :: string
  mr_checksum :: string
  mr_contents :: string

record repo_resource =
  rr_repo :: repository
  rr_managed :: managed_repo

definition new_repo_resource :: "repository \<Rightarrow> repo_resource" where
  "new_repo_resource r = \<lparr>rr_repo = r, rr_managed = \<lparr>mr_gpg = None, mr_path = [], mr_checksum = [], mr_contents = []\<rparr>\<rparr>"

definition aptGPGDir :: string where
  "aptGPGDir = ''/etc/apt/trusted.gpg.d''"

text \<open>
  The key. The library is outside: the HTTP answer (its \<open>ContentLength\<close>, and the body or the error
  reading it), whether it decodes as armored, and the entities it holds, each with its serialized
  bytes or the error of serializing it.
\<close>

fun serializeGPGKeyEntity :: "string res list \<Rightarrow> string res" where
  "serializeGPGKeyEntity [] = Inr []"
| "serializeGPGKeyEntity (e # es) =
     (case e of
        Inl err \<Rightarrow> Inl (ErrMsg (''error serializing gpg key: '' @ err_text err))
      | Inr bytes \<Rightarrow>
          (case serializeGPGKeyEntity es of Inl err \<Rightarrow> Inl err | Inr rest \<Rightarrow> Inr (bytes @ rest)))"

definition fetchGPGKey :: "'e repo_env_scheme \<Rightarrow> string \<Rightarrow> string res list res" where
  "fetchGPGKey env key =
     (case rp_key_get env key of
        Inl e \<Rightarrow> Inl e
      | Inr (contentLength, body) \<Rightarrow>
          if contentLength > 1024 * 1024 then Inl (ErrMsg (''key size of '' @ show_int contentLength @ '' too large''))
          else
            (case body of
               Inl e \<Rightarrow> Inl (ErrMsg (''can not read response body for key '' @ key @ '', err: '' @ err_text e))
             | Inr keyData \<Rightarrow> if rp_is_armored env keyData then rp_armored_ring env keyData else rp_ring env keyData))"

text \<open>Its file, checksum and contents; an empty serialization is a nil slice, which counts as no key.\<close>

definition apt_gpg :: "'e repo_env_scheme \<Rightarrow> string \<Rightarrow> (string \<times> string \<times> string) option res" where
  "apt_gpg env key =
     (if key = [] then Inr None
      else
        (case (case fetchGPGKey env key of Inl e \<Rightarrow> Inl e | Inr entities \<Rightarrow> serializeGPGKeyEntity entities) of
           Inl e \<Rightarrow> Inl (ErrMsg (''error fetching apt gpg key '' @ quote key @ '': '' @ err_text e))
         | Inr c \<Rightarrow>
             Inr (if c = [] then None
                  else Some (path_join [aptGPGDir, ''osconfig_added_'' @ rv_sha env c @ ''.gpg''], rv_sha env c, c))))"

definition managed_repo_for :: "'e repo_env_scheme \<Rightarrow> (string \<times> string) \<Rightarrow> string \<Rightarrow> (string \<times> string \<times> string) option \<Rightarrow> managed_repo" where
  "managed_repo_for env fmt contents gpg =
     (let digest = rv_sha env contents in
      \<lparr>mr_gpg = gpg, mr_path = fst fmt @ take 10 digest @ snd fmt, mr_checksum = digest, mr_contents = contents\<rparr>)"

definition repo_validate :: "'e repo_env_scheme \<Rightarrow> repo_resource \<Rightarrow> go_error option \<times> repo_resource" where
  "repo_validate env r =
     (let missing = (\<lambda>kind tool. (Some (ErrMsg (''cannot manage '' @ kind @ '' repository because '' @ tool
                       @ '' does not exist on the system'')), r));
          manage = (\<lambda>fmt contents gpg. (None, r\<lparr>rr_managed := managed_repo_for env fmt contents gpg\<rparr>))
      in case rr_repo r of
        RepoApt a \<Rightarrow>
          if \<not> rp_apt_exists env then missing ''Apt'' ''apt-get''
          else (case apt_gpg env (ar_gpg_key a) of
                  Inl e \<Rightarrow> (Some e, r\<lparr>rr_managed := (rr_managed r)\<lparr>mr_contents := aptRepoContents a\<rparr>\<rparr>)
                | Inr gpg \<Rightarrow> manage (rp_apt_format env) (aptRepoContents a) gpg)
      | RepoGoo g \<Rightarrow>
          if \<not> rp_goo_exists env then missing ''googet'' ''googet''
          else manage (rp_goo_format env) (googetRepoContents g) None
      | RepoYum y \<Rightarrow>
          if \<not> rp_yum_exists env then missing ''yum'' ''yum''
          else manage (rp_yum_format env) (yumRepoContents y) None
      | RepoZypper z \<Rightarrow>
          if \<not> rp_zypper_exists env then missing ''zypper'' ''zypper''
          else manage (rp_zypper_format env) (zypperRepoContents z) None
      | RepoUnset \<Rightarrow> (Some (ErrMsg ''Repository field not set or references unknown repository type: <nil>''), r))"

definition strip_env :: "'e repo_env_scheme \<Rightarrow> res_env" where
  "strip_env env = \<lparr>rv_sha = rv_sha env, rv_gcs_client = rv_gcs_client env, rv_gcs = rv_gcs env, rv_http = rv_http env\<rparr>"

definition repo_checkState :: "'e repo_env_scheme \<Rightarrow> repo_resource \<Rightarrow> fs \<Rightarrow> bool res \<times> fs" where
  "repo_checkState env r s =
     (let m = rr_managed r in
      case (case mr_gpg m of
              None \<Rightarrow> (Inr True, s)
            | Some (path, digest, c) \<Rightarrow> contentsMatch (strip_env env) path digest s) of
        (Inl e, s1) \<Rightarrow> (Inl e, s1)
      | (Inr False, s1) \<Rightarrow> (Inr False, s1)
      | (Inr True, s1) \<Rightarrow> contentsMatch (strip_env env) (mr_path m) (mr_checksum m) s1)"

text \<open>\<open>ioutil.WriteFile\<close>: create or truncate, write, close.\<close>

definition os_write_file :: "string \<Rightarrow> string \<Rightarrow> nat \<Rightarrow> fs \<Rightarrow> go_error option \<times> fs" where
  "os_write_file path content perms s =
     (case os_create path perms s of
        (Inl e, s1) \<Rightarrow> (Some e, s1)
      | (Inr _, s1) \<Rightarrow>
          (case os_write path content s1 of
             (Inl e, s2) \<Rightarrow> (Some e, snd (os_close s2))
           | (Inr _, s2) \<Rightarrow> (case os_close s2 of (Inl e, s3) \<Rightarrow> (Some e, s3) | (Inr _, s3) \<Rightarrow> (None, s3))))"

definition repo_enforceState :: "'e repo_env_scheme \<Rightarrow> repo_resource \<Rightarrow> fs \<Rightarrow> bool res \<times> fs" where
  "repo_enforceState env r s =
     (let m = rr_managed r in
      case (case mr_gpg m of None \<Rightarrow> (None, s) | Some (path, digest, c) \<Rightarrow> os_write_file path c 420 s) of
        (Some e, s1) \<Rightarrow> (Inl e, s1)
      | (None, s1) \<Rightarrow>
          (case os_mkdir_all (path_dir (mr_path m)) s1 of
             (Inl e, s2) \<Rightarrow> (Inl e, s2)
           | (Inr _, s2) \<Rightarrow>
               (case AtomicWrite (mr_path m) (mr_contents m) 420 s2 of
                  (Some e, s3) \<Rightarrow> (Inl e, s3)
                | (None, s3) \<Rightarrow> (Inr True, s3))))"

section \<open>The cycle of check and enforce\<close>

lemma os_mkdir_all_nodes: "os_mkdir_all d s = (r, s') \<Longrightarrow> fs_nodes s x \<noteq> None \<Longrightarrow> fs_nodes s' x = fs_nodes s x"
  unfolding os_mkdir_all_def by (erule syscall_cases) (auto simp: set_node_def split: option.splits node.splits)

lemma os_write_file_success:
  assumes "os_write_file p c m s = (None, s')" "no_fault s"
  shows "no_fault s' \<and> fs_cwd s' = fs_cwd s \<and> (\<exists>m'. fs_nodes s' = (fs_nodes s)(p \<mapsto> FileN c m'))"
proof -
  obtain r1 s1 where o1: "os_create p m s = (r1, s1)" by fastforce
  obtain r2 s2 where o2: "os_write p c s1 = (r2, s2)" by fastforce
  note c1 = calm_ops(1) [OF assms(2) o1]
  then have c2: "no_fault s2" "fs_cwd s2 = fs_cwd s" using calm_ops(3) [OF _ o2] by auto
  obtain s3 where o3: "os_close s2 = (Inr (), s3)" "fs_nodes s3 = fs_nodes s2" "no_fault s3" "fs_cwd s3 = fs_cwd s2"
    using os_close_calm [OF c2(1)] by blast
  from assms(1) o1 o2 o3 obtain u1 u2 where r: "r1 = Inr u1" "r2 = Inr u2" "s' = s3"
    by (cases r1; cases r2) (auto simp: os_write_file_def)
  obtain m' where "fs_nodes s1 = (fs_nodes s)(p \<mapsto> FileN [] m')" using os_create_nodes o1 r(1) by blast
  with os_write_cases [OF o2] r have "fs_nodes s2 = (fs_nodes s)(p \<mapsto> FileN c m')" by auto
  with r o3 c2 show ?thesis by auto
qed

lemma AtomicWrite_success:
  assumes "AtomicWrite p c m s = (None, s')" "no_fault s"
  shows "no_fault s' \<and> fs_cwd s' = fs_cwd s \<and> fs_nodes s' (NormPath s p) = Some (FileN c m)
    \<and> (\<forall>x. x \<noteq> NormPath s p \<longrightarrow> fs_nodes s x \<noteq> None \<longrightarrow> fs_nodes s' x = fs_nodes s x)"
proof -
  obtain r1 s1 where t: "TempFile (path_dir (NormPath s p)) (path_base (NormPath s p)) m s = (r1, s1)" by fastforce
  with assms(1) obtain tmp where r1: "r1 = Inr tmp" by (cases r1) (auto simp: AtomicWrite_def Let_def)
  obtain r2 s2 where w: "os_write tmp c s1 = (r2, s2)" by fastforce
  have c1: "no_fault s1" "fs_cwd s1 = fs_cwd s" using TempFile_calm [OF t assms(2)] by auto
  have c2: "no_fault s2" "fs_cwd s2 = fs_cwd s" using calm_ops(3) [OF c1(1) w] c1 by auto
  obtain s3 where cl: "os_close s2 = (Inr (), s3)" "no_fault s3" "fs_cwd s3 = fs_cwd s2" using os_close_calm [OF c2(1)] by auto
  obtain r4 s4 where rn: "os_rename tmp (NormPath s p) s3 = (r4, s4)" by fastforce
  have "no_fault s4" "fs_cwd s4 = fs_cwd s" using calm_ops(5) [OF cl(2) rn] cl c2 by auto
  moreover have "s' = s4" using assms(1) t r1 w cl rn by (auto simp: AtomicWrite_def Let_def split: sum.splits)
  moreover from assms(1) have "fs_nodes s' (NormPath s p) = Some (FileN c m)
    \<and> (\<forall>x. x \<noteq> NormPath s p \<longrightarrow> fs_nodes s x \<noteq> None \<longrightarrow> fs_nodes s' x = fs_nodes s x)"
    by (rule AtomicWrite_cases) auto
  ultimately show ?thesis by blast
qed

text \<open>The checksums a validation records are those of the contents.\<close>

definition managed_ok :: "'e repo_env_scheme \<Rightarrow> managed_repo \<Rightarrow> bool" where
  "managed_ok env m \<longleftrightarrow> mr_checksum m = rv_sha env (mr_contents m)
     \<and> (case mr_gpg m of None \<Rightarrow> True | Some (p, d, c) \<Rightarrow> d = rv_sha env c)"

text \<open>The path of the repository file is absolute and clean, and is not that of the key.\<close>

definition paths_ok :: "managed_repo \<Rightarrow> bool" where
  "paths_ok m \<longleftrightarrow> is_abs (mr_path m) \<and> path_clean (mr_path m) = mr_path m
     \<and> (case mr_gpg m of None \<Rightarrow> True | Some (p, d, c) \<Rightarrow> p \<noteq> mr_path m)"

lemma repo_validate_ok: "repo_validate env r = (None, r') \<Longrightarrow> managed_ok env (rr_managed r')"
  by (auto simp: repo_validate_def managed_ok_def managed_repo_for_def apt_gpg_def Let_def
      split: repository.splits if_splits sum.splits option.splits)

lemma NormPath_id: "is_abs p \<Longrightarrow> path_clean p = p \<Longrightarrow> NormPath s p = p"
  using NormPath_clean [of p s] by simp

lemma contentsMatch_file:
  assumes "no_fault s" "fs_nodes s p = Some (FileN c m)" "rv_sha env c = d"
  shows "\<exists>s1. contentsMatch env p d s = (Inr True, s1) \<and> fs_nodes s1 = fs_nodes s \<and> no_fault s1"
  using contentsMatch_calm [OF assms(1), of env p d] assms(2,3) by auto

lemma repo_enforce_success:
  assumes "repo_enforceState env r s = (Inr b, s')" "no_fault s" "paths_ok (rr_managed r)"
  shows "b \<and> no_fault s' \<and> (\<exists>m. fs_nodes s' (mr_path (rr_managed r)) = Some (FileN (mr_contents (rr_managed r)) m))
    \<and> (case mr_gpg (rr_managed r) of None \<Rightarrow> True | Some (p, d, c) \<Rightarrow> \<exists>m. fs_nodes s' p = Some (FileN c m))"
proof -
  define m where "m = rr_managed r"
  define pre where "pre = (case mr_gpg m of None \<Rightarrow> (None, s) | Some (path, digest, c) \<Rightarrow> os_write_file path c 420 s)"
  obtain e1 s1 where p: "pre = (e1, s1)" by fastforce
  obtain r2 s2 where mk: "os_mkdir_all (path_dir (mr_path m)) s1 = (r2, s2)" by fastforce
  obtain e3 s3 where aw: "AtomicWrite (mr_path m) (mr_contents m) 420 s2 = (e3, s3)" by fastforce
  have ok: "e1 = None" "\<exists>u. r2 = Inr u" "e3 = None" "s' = s3" "b"
    using assms(1) p mk aw by (auto simp: repo_enforceState_def Let_def simp flip: m_def pre_def split: option.splits sum.splits)
  have c1: "no_fault s1 \<and> (case mr_gpg m of None \<Rightarrow> True | Some (p, d, c) \<Rightarrow> \<exists>m. fs_nodes s1 p = Some (FileN c m))"
    using p ok(1) os_write_file_success [OF _ assms(2)] assms(2)
    by (fastforce simp: pre_def split: option.splits)
  have c2: "no_fault s2" using calm_ops(6) [OF _ mk] c1 by auto
  have g2: "case mr_gpg m of None \<Rightarrow> True | Some (p, d, c) \<Rightarrow> \<exists>m. fs_nodes s2 p = Some (FileN c m)"
    using c1 os_mkdir_all_nodes [OF mk] by (auto split: option.splits)
  have np: "NormPath s2 (mr_path m) = mr_path m" using assms(3) by (intro NormPath_id) (auto simp: paths_ok_def m_def)
  from AtomicWrite_success [OF aw [unfolded ok] c2] np ok g2 assms(3) show ?thesis
    by (fastforce simp: m_def paths_ok_def split: option.splits)
qed

lemma repo_cycle:
  assumes "repo_enforceState env r s = (Inr b, s')" "no_fault s" "paths_ok (rr_managed r)" "managed_ok env (rr_managed r)"
  shows "b \<and> no_fault s' \<and> (\<exists>s4. repo_checkState env r s' = (Inr True, s4) \<and> no_fault s4)"
proof -
  define m where "m = rr_managed r"
  from repo_enforce_success [OF assms(1-3)] obtain md where e: "b" "no_fault s'"
    "fs_nodes s' (mr_path m) = Some (FileN (mr_contents m) md)"
    "case mr_gpg m of None \<Rightarrow> True | Some (p, d, c) \<Rightarrow> \<exists>m. fs_nodes s' p = Some (FileN c m)" by (auto simp: m_def)
  have sha: "rv_sha (strip_env env) = rv_sha env" by (simp add: strip_env_def)
  have "\<exists>s1. (case mr_gpg m of None \<Rightarrow> (Inr True, s')
            | Some (path, digest, c) \<Rightarrow> contentsMatch (strip_env env) path digest s') = (Inr True, s1)
       \<and> fs_nodes s1 = fs_nodes s' \<and> no_fault s1"
  proof (cases "mr_gpg m")
    case (Some g)
    obtain p d c where g: "g = (p, d, c)" by (metis prod_cases3)
    with Some e(4) assms(4) obtain mo where "fs_nodes s' p = Some (FileN c mo)" "d = rv_sha env c"
      by (auto simp: managed_ok_def m_def)
    with contentsMatch_file [OF e(2), of p c mo "strip_env env" d] g Some show ?thesis by (simp add: sha)
  qed (use e in simp)
  then obtain s1 where c1: "(case mr_gpg m of None \<Rightarrow> (Inr True, s')
            | Some (path, digest, c) \<Rightarrow> contentsMatch (strip_env env) path digest s') = (Inr True, s1)"
    "fs_nodes s1 = fs_nodes s'" "no_fault s1" by blast
  have "rv_sha (strip_env env) (mr_contents m) = mr_checksum m" using assms(4) by (simp add: sha managed_ok_def m_def)
  with contentsMatch_file [OF c1(3), of "mr_path m" "mr_contents m" md "strip_env env" "mr_checksum m"] c1(2) e(3)
  obtain s2 where c2: "contentsMatch (strip_env env) (mr_path m) (mr_checksum m) s1 = (Inr True, s2)" "no_fault s2" by auto
  have "repo_checkState env r s' = (Inr True, s2)"
    using c1(1) c2(1) by (simp add: repo_checkState_def Let_def flip: m_def)
  with e c2 show ?thesis by blast
qed

end
