(* ===== verification/ResExec.thy ===== *)
theory ResExec
  imports ResRepo
begin

text \<open>
  The exec resource of an OS policy, \<open>config/exec_resource.go\<close>: a validate and an enforce script,
  downloaded to a temporary directory and run; the exit codes 100 and 101 carry the answer.
  Running a command is the operation \<open>xv_run\<close> of the environment: its two outputs and the error
  of \<open>cmd.Run\<close>, an \<open>ErrExit\<close> with the code when the program exited with one.
\<close>

datatype interpreter = INTERPRETER_UNSPECIFIED | INTERP_NONE | INTERP_SHELL | INTERP_POWERSHELL

datatype exec_source = XScript string | XFile res_file | XUnset

record exec_exec =
  xe_interpreter :: interpreter
  xe_source :: exec_source
  xe_args :: "string list"
  xe_output_path :: string

record exec_env = repo_env +
  xv_windows :: bool
  xv_run :: "string \<Rightarrow> string list \<Rightarrow> fs \<Rightarrow> (string \<times> string \<times> go_error option) \<times> fs"

record exec_resource =
  xr_validate :: "exec_exec option"
  xr_enforce :: "exec_exec option"
  xr_validate_path :: string
  xr_enforce_path :: string
  xr_temp_dir :: string
  xr_output :: "string option"

definition new_exec_resource :: "exec_exec option \<Rightarrow> exec_exec option \<Rightarrow> exec_resource" where
  "new_exec_resource v e = \<lparr>xr_validate = v, xr_enforce = e, xr_validate_path = [], xr_enforce_path = [],
     xr_temp_dir = [], xr_output = None\<rparr>"

definition maxExecOutputSize :: nat where
  "maxExecOutputSize = 500 * 1024"

definition exec_strip :: "'e exec_env_scheme \<Rightarrow> res_env" where
  "exec_strip env = \<lparr>rv_sha = rv_sha env, rv_gcs_client = rv_gcs_client env, rv_gcs = rv_gcs env, rv_http = rv_http env\<rparr>"

text \<open>The name and the mode of a script, by its interpreter.\<close>

fun script_name :: "bool \<Rightarrow> interpreter \<Rightarrow> (string \<times> nat) option" where
  "script_name windows INTERP_NONE = Some (if windows then ''script.cmd'' else ''script'', 493)"
| "script_name windows INTERP_SHELL = Some (if windows then ''script.cmd'' else ''script.sh'', 420)"
| "script_name windows INTERP_POWERSHELL = Some (''script.ps1'', 420)"
| "script_name windows INTERPRETER_UNSPECIFIED = None"

text \<open>\<open>download\<close>: a nil \<open>Exec\<close> has no source.\<close>

definition exec_download :: "'e exec_env_scheme \<Rightarrow> string \<Rightarrow> exec_exec option \<Rightarrow> fs \<Rightarrow> string res \<times> fs" where
  "exec_download env tempDir execR s =
     (case temp_dir tempDir [] s of
        (Inl e, s1) \<Rightarrow> (Inl (ErrMsg (''failed to create temp dir: '' @ err_text e)), s1)
      | (Inr tmpDir, s1) \<Rightarrow>
          (case map_option xe_source execR of
             Some (XScript script) \<Rightarrow>
               (case script_name (xv_windows env) (xe_interpreter (the execR)) of
                  None \<Rightarrow> (Inl (ErrMsg ''unsupported interpreter''), s1)
                | Some (base, perms) \<Rightarrow>
                    (let name = path_join [tmpDir, base] in
                     case AtomicWriteFileStream (rv_sha env) (Inr script) [] name perms s1 of
                       (Inl e, s2) \<Rightarrow> (Inl e, s2)
                     | (Inr _, s2) \<Rightarrow> (Inr name, s2)))
           | Some (XFile file) \<Rightarrow>
               (if GetLocalPath file \<noteq> [] then (Inr (GetLocalPath file), s1)
                else
                  (case (case file of
                           FileGcs b obj g \<Rightarrow> if obj \<noteq> [] then Some (path_base obj) else None
                         | FileRemote uri want \<Rightarrow> if uri \<noteq> [] then Some (path_base uri) else None
                         | _ \<Rightarrow> None) of
                     None \<Rightarrow> (Inl (ErrMsg ''unsupported File''), s1)
                   | Some base \<Rightarrow>
                       (let name = path_join [tmpDir, base];
                            perms = (if xe_interpreter (the execR) = INTERP_NONE then 493 else 420) in
                        case downloadFile (exec_strip env) name perms file s1 of
                          (Inl e, s2) \<Rightarrow> (Inl e, s2)
                        | (Inr _, s2) \<Rightarrow> (Inr name, s2))))
           | _ \<Rightarrow> (Inl (ErrMsg ''unrecognized Source type for ExecResource''), s1)))"

definition exec_validate :: "'e exec_env_scheme \<Rightarrow> exec_resource \<Rightarrow> fs \<Rightarrow> go_error option \<times> exec_resource \<times> fs" where
  "exec_validate env e s =
     (case temp_dir [] ''osconfig_exec_resource_'' s of
        (Inl err, s1) \<Rightarrow> (Some (ErrMsg (''failed to create temp dir: '' @ err_text err)), e, s1)
      | (Inr tmpDir, s1) \<Rightarrow>
          (let e1 = e\<lparr>xr_temp_dir := tmpDir\<rparr> in
           case exec_download env tmpDir (xr_validate e) s1 of
             (Inl err, s2) \<Rightarrow> (Some err, e1\<lparr>xr_validate_path := []\<rparr>, s2)
           | (Inr p, s2) \<Rightarrow>
               (let e2 = e1\<lparr>xr_validate_path := p\<rparr> in
                if xr_enforce e = None then (None, e2, s2)
                else (case exec_download env tmpDir (xr_enforce e) s2 of
                        (Inl err, s3) \<Rightarrow> (Some err, e2\<lparr>xr_enforce_path := []\<rparr>, s3)
                      | (Inr q, s3) \<Rightarrow> (None, e2\<lparr>xr_enforce_path := q\<rparr>, s3)))))"

definition winPowershellPath :: string where
  "winPowershellPath = join [CHR 0x5C] [''C:'', ''Windows'', ''System32'', ''WindowsPowerShell'', ''v1.0'', ''PowerShell.exe'']"

text \<open>The command line, or the error \<open>run\<close> returns with exit code 0 before running anything.\<close>

definition exec_command :: "'e exec_env_scheme \<Rightarrow> string \<Rightarrow> exec_exec option \<Rightarrow> (string \<times> string list) res" where
  "exec_command env name execR =
     (case execR of
        None \<Rightarrow> Inl (ErrMsg ''ExecResource Exec cannot be nil'')
      | Some x \<Rightarrow>
          (case xe_interpreter x of
             INTERP_NONE \<Rightarrow> Inr (name, xe_args x)
           | INTERP_SHELL \<Rightarrow> (if xv_windows env then Inr (name, xe_args x) else Inr (''/bin/sh'', name # xe_args x))
           | INTERP_POWERSHELL \<Rightarrow>
               (if xv_windows env
                then Inr (winPowershellPath, ''-File'' # name # xe_args x)
                else Inl (ErrMsg ''interpreter POWERSHELL can only be used on Windows systems''))
           | INTERPRETER_UNSPECIFIED \<Rightarrow> Inl (ErrMsg ''unsupported interpreter'')))"

definition exec_run :: "'e exec_env_scheme \<Rightarrow> string \<Rightarrow> exec_exec option \<Rightarrow> fs
    \<Rightarrow> (string \<times> string \<times> int \<times> go_error option) \<times> fs" where
  "exec_run env name execR s =
     (case exec_command env name execR of
        Inl e \<Rightarrow> (([], [], 0, Some e), s)
      | Inr (cmd, args) \<Rightarrow>
          (case xv_run env cmd args s of
             ((out, err, None), s1) \<Rightarrow> ((out, err, 0, None), s1)
           | ((out, err, Some (ErrExit c m)), s1) \<Rightarrow> ((out, err, c, Some (ErrExit c m)), s1)
           | ((out, err, Some e), s1) \<Rightarrow> ((out, err, -1, Some e), s1)))"

definition unexpected_code :: "string \<Rightarrow> int \<Rightarrow> string \<Rightarrow> string \<Rightarrow> go_error" where
  "unexpected_code what code out err = ErrMsg (''unexpected return code from '' @ what @ '': '' @ show_int code
     @ '', stdout: '' @ out @ '', stderr: '' @ err)"

text \<open>The result and the error, as the code returns both.\<close>

definition exec_checkState :: "'e exec_env_scheme \<Rightarrow> exec_resource \<Rightarrow> fs \<Rightarrow> (bool \<times> go_error option) \<times> fs" where
  "exec_checkState env e s =
     (case exec_run env (xr_validate_path e) (xr_validate e) s of
        ((out, err, code, er), s1) \<Rightarrow>
          (if code = -1 then (False, er)
           else if code = 100 then (True, None)
           else if code = 101 then (False, None)
           else (False, Some (unexpected_code ''validate'' code out err)), s1))"

text \<open>
  One read of at most one byte more than the limit. The output is \<open>None\<close> for a nil slice.
\<close>

definition execOutput :: "string \<Rightarrow> fs \<Rightarrow> (string option \<times> go_error option) \<times> fs" where
  "execOutput path s =
     (if path = [] then ((None, None), s)
      else
        (case os_open path s of
           (Inl e, s1) \<Rightarrow> ((None, Some (ErrMsg (''error opening OutputFilePath: '' @ err_text e))), s1)
         | (Inr _, s1) \<Rightarrow>
             (case os_read path s1 of
                (Inl e, s2) \<Rightarrow> ((Some [], Some (ErrMsg (''error reading from OutputFilePath: '' @ err_text e))), s2)
              | (Inr c, s2) \<Rightarrow>
                  (let output = take (maxExecOutputSize + 1) c in
                   if length output > maxExecOutputSize
                   then ((Some (take maxExecOutputSize output),
                          Some (ErrMsg (''contents of OutputFilePath greater than '' @ show_nat (maxExecOutputSize div 1024) @ ''K''))), s2)
                   else ((Some output, None), s2)))))"

definition exec_enforceState :: "'e exec_env_scheme \<Rightarrow> exec_resource \<Rightarrow> fs \<Rightarrow> (bool \<times> go_error option) \<times> exec_resource \<times> fs" where
  "exec_enforceState env e s =
     (case exec_run env (xr_enforce_path e) (xr_enforce e) s of
        ((out, err, code, er), s1) \<Rightarrow>
          if code = -1 then ((False, er), e, s1)
          else if code = 100 then
            (case execOutput (case xr_enforce e of None \<Rightarrow> [] | Some x \<Rightarrow> xe_output_path x) s1 of
               ((output, oe), s2) \<Rightarrow> ((True, oe), e\<lparr>xr_output := output\<rparr>, s2))
          else ((False, Some (unexpected_code ''enforce'' code out err)), e, s1))"

definition exec_populateOutput :: "exec_resource \<Rightarrow> string option \<Rightarrow> string option" where
  "exec_populateOutput e out = (case xr_output e of None \<Rightarrow> out | Some o' \<Rightarrow> Some o')"

definition exec_cleanup :: "exec_resource \<Rightarrow> fs \<Rightarrow> go_error option \<times> fs" where
  "exec_cleanup e s =
     (if xr_temp_dir e \<noteq> [] then
        (case os_remove_all (xr_temp_dir e) s of (Inl er, s1) \<Rightarrow> (Some er, s1) | (Inr _, s1) \<Rightarrow> (None, s1))
      else (None, s))"

end
