(* ===== verification/ResPkg.thy ===== *)
theory ResPkg
  imports ResExec
begin

text \<open>
  The package resource of an OS policy, \<open>config/package_resource.go\<close>, with its two caches: the
  names of the installed packages, kept for three minutes and dropped by every enforcement, and
  the information on package files, kept in a file for seven days.

  \<^item> The functions of package \<open>packages\<close> that the resource calls are operations of \<open>pkg_env\<close>;
    a \<open>pkg_action\<close> names one that changes the machine.
  \<^item> \<open>pkg_world\<close> is the file system and the package-level variables. Times are in nanoseconds.
  \<^item> \<open>packageInfoCacheStore\<close> is an association list; \<open>None\<close> is the nil map. \<open>encoding/json\<close> and
    the key (a marshalled protobuf) are operations of the environment.
\<close>

datatype pkg_state = PKG_UNSPECIFIED | PKG_INSTALLED | PKG_REMOVED

datatype system_package =
    SpApt string | SpDeb res_file bool | SpGooGet string | SpMsi res_file "string list"
  | SpYum string | SpZypper string | SpRpm res_file bool | SpUnset

datatype managed_package =
    MApt string pkg_state | MDeb string string | MGooGet string pkg_state | MMsi string string string
  | MYum string pkg_state | MZypper string pkg_state | MRpm string string

datatype pkg_kind = KApt | KDeb | KGoo | KYum | KZypper | KRpm

datatype pkg_action =
    AptUpdate | InstallApt "string list" | RemoveApt "string list" | DpkgInstall string
  | InstallGoo "string list" | RemoveGoo "string list" | InstallMsi string "string list"
  | InstallYum "string list" | RemoveYum "string list" | InstallZypper "string list" | RemoveZypper "string list"
  | RpmInstall string

datatype pkg_lister = ListDeb | ListGoo | ListRpm

record file_info =
  fi_name :: string
  fi_version :: string

type_synonym info_cache = "(string \<times> file_info \<times> int) list"

record pkg_env = exec_env +
  pv_dpkg_exists :: bool
  pv_msi_exists :: bool
  pv_rpm_exists :: bool
  pv_list :: "pkg_lister \<Rightarrow> fs \<Rightarrow> string list res \<times> fs"
  pv_act :: "pkg_action \<Rightarrow> fs \<Rightarrow> go_error option \<times> fs"
  pv_deb_info :: "string \<Rightarrow> fs \<Rightarrow> file_info res \<times> fs"
  pv_rpm_info :: "string \<Rightarrow> fs \<Rightarrow> file_info res \<times> fs"
  pv_msi_info :: "string \<Rightarrow> fs \<Rightarrow> file_info res \<times> fs"
  pv_msi_installed :: "string \<Rightarrow> fs \<Rightarrow> bool res \<times> fs"
  pv_key :: "res_file \<Rightarrow> string res"
  pv_marshal :: "info_cache \<Rightarrow> string res"
  pv_unmarshal :: "string \<Rightarrow> info_cache res"
  pv_cache_file :: string

record pkg_world =
  pkw_fs :: fs
  pkw_now :: int
  pkw_installed :: "pkg_kind \<rightharpoonup> string list \<times> int"
  pkw_info :: "info_cache option"

record pkg_resource =
  kr_state :: pkg_state
  kr_package :: system_package
  kr_managed :: "managed_package option"
  kr_temp_dir :: string

definition new_pkg_resource :: "pkg_state \<Rightarrow> system_package \<Rightarrow> pkg_resource" where
  "new_pkg_resource st p = \<lparr>kr_state = st, kr_package = p, kr_managed = None, kr_temp_dir = []\<rparr>"

definition on_fs :: "(fs \<Rightarrow> 'a \<times> fs) \<Rightarrow> pkg_world \<Rightarrow> 'a \<times> pkg_world" where
  "on_fs f w = (case f (pkw_fs w) of (a, s) \<Rightarrow> (a, w\<lparr>pkw_fs := s\<rparr>))"

section \<open>The package information cache\<close>

text \<open>\<open>packageInfoCacheTimeout\<close> is minus seven days.\<close>

definition packageInfoCacheTimeout :: int where
  "packageInfoCacheTimeout = -604800000000000"

definition loadPackageInfoCache :: "'e pkg_env_scheme \<Rightarrow> pkg_world \<Rightarrow> pkg_world" where
  "loadPackageInfoCache env w =
     (if pkw_info w \<noteq> None then w
      else
        (case on_fs (os_read_file (pv_cache_file env)) w of
           (Inl e, w1) \<Rightarrow> w1\<lparr>pkw_info := Some []\<rparr>
         | (Inr data, w1) \<Rightarrow>
             (case pv_unmarshal env data of
                Inl e \<Rightarrow> w1\<lparr>pkw_info := Some []\<rparr>
              | Inr cache \<Rightarrow> w1\<lparr>pkw_info := Some cache\<rparr>)))"

definition cache_entries :: "pkg_world \<Rightarrow> info_cache" where
  "cache_entries w = (case pkw_info w of None \<Rightarrow> [] | Some c \<Rightarrow> c)"

definition getPackageInfoFromCache :: "'e pkg_env_scheme \<Rightarrow> res_file \<Rightarrow> pkg_world \<Rightarrow> file_info option \<times> pkg_world" where
  "getPackageInfoFromCache env file w =
     (let w1 = loadPackageInfoCache env w in
      case pv_key env file of
        Inl e \<Rightarrow> (None, w1)
      | Inr key \<Rightarrow> (map_option fst (map_of (cache_entries w1) key), w1))"

text \<open>Entries not looked up for seven days go, then the entry of this file is set.\<close>

definition updatePackageInfoCache :: "'e pkg_env_scheme \<Rightarrow> file_info \<Rightarrow> res_file \<Rightarrow> pkg_world \<Rightarrow> pkg_world" where
  "updatePackageInfoCache env info file w =
     (let w1 = loadPackageInfoCache env w;
          kept = filter (\<lambda>(k, i, t). \<not> (pkw_now w1 + packageInfoCacheTimeout > t)) (cache_entries w1)
      in case pv_key env file of
           Inl e \<Rightarrow> w1\<lparr>pkw_info := Some kept\<rparr>
         | Inr key \<Rightarrow> w1\<lparr>pkw_info := Some ((key, info, pkw_now w1) # filter (\<lambda>(k, x). k \<noteq> key) kept)\<rparr>)"

definition savePackageInfoCache :: "'e pkg_env_scheme \<Rightarrow> pkg_world \<Rightarrow> go_error option \<times> pkg_world" where
  "savePackageInfoCache env w =
     (case pkw_info w of
        None \<Rightarrow> (None, w)
      | Some cache \<Rightarrow>
          (case pv_marshal env cache of
             Inl e \<Rightarrow> (Some e, w)
           | Inr data \<Rightarrow> on_fs (os_write_file (pv_cache_file env) data 420) (w\<lparr>pkw_info := None\<rparr>)))"

section \<open>Validation\<close>

definition validateFile :: "res_file \<Rightarrow> pkg_world \<Rightarrow> go_error option \<times> pkg_world" where
  "validateFile file w =
     (if GetLocalPath file \<noteq> [] then
        (case on_fs (Exists (GetLocalPath file)) w of
           (b, w1) \<Rightarrow> (if b then None else Some (ErrMsg (quote (GetLocalPath file) @ '' does not exist'')), w1))
      else (None, w))"

definition pkg_strip :: "'e pkg_env_scheme \<Rightarrow> res_env" where
  "pkg_strip env = \<lparr>rv_sha = rv_sha env, rv_gcs_client = rv_gcs_client env, rv_gcs = rv_gcs env, rv_http = rv_http env\<rparr>"

definition pkg_download :: "'e pkg_env_scheme \<Rightarrow> string \<Rightarrow> res_file \<Rightarrow> pkg_resource \<Rightarrow> pkg_world
    \<Rightarrow> string res \<times> pkg_resource \<times> pkg_world" where
  "pkg_download env name file p w =
     (if GetLocalPath file \<noteq> [] then (Inr (GetLocalPath file), p, w)
      else
        (case on_fs (temp_dir [] ''osconfig_package_resource_'') w of
           (Inl e, w1) \<Rightarrow> (Inl (ErrMsg (''failed to create temp dir: '' @ err_text e)), p, w1)
         | (Inr tmpDir, w1) \<Rightarrow>
             (let p1 = p\<lparr>kr_temp_dir := tmpDir\<rparr>; path = path_join [tmpDir, name] in
              case on_fs (downloadFile (pkg_strip env) path 420 file) w1 of
                (Inl e, w2) \<Rightarrow> (Inl e, p1, w2)
              | (Inr _, w2) \<Rightarrow> (Inr path, p1, w2))))"

text \<open>The common part of the deb, msi and rpm cases: the information from the cache or the file.\<close>

definition pkg_file_info :: "'e pkg_env_scheme \<Rightarrow> string \<Rightarrow> (string \<Rightarrow> fs \<Rightarrow> file_info res \<times> fs) \<Rightarrow> res_file \<Rightarrow> pkg_resource
    \<Rightarrow> pkg_world \<Rightarrow> (string \<times> file_info) res \<times> pkg_resource \<times> pkg_world" where
  "pkg_file_info env name query file p w =
     (case getPackageInfoFromCache env file w of
        (Some info, w1) \<Rightarrow> (Inr ([], info), p, updatePackageInfoCache env info file w1)
      | (None, w1) \<Rightarrow>
          (case pkg_download env name file p w1 of
             (Inl e, p1, w2) \<Rightarrow> (Inl e, p1, w2)
           | (Inr path, p1, w2) \<Rightarrow>
               (case on_fs (query path) w2 of
                  (Inl e, w3) \<Rightarrow> (Inl e, p1, w3)
                | (Inr info, w3) \<Rightarrow> (Inr (path, info), p1, updatePackageInfoCache env info file w3))))"

fun pkg_state_text :: "pkg_state \<Rightarrow> string" where
  "pkg_state_text PKG_UNSPECIFIED = ''DESIRED_STATE_UNSPECIFIED''"
| "pkg_state_text PKG_INSTALLED = ''INSTALLED''"
| "pkg_state_text PKG_REMOVED = ''REMOVED''"

definition pkg_from_file :: "'e pkg_env_scheme \<Rightarrow> string \<Rightarrow> string \<Rightarrow> bool \<Rightarrow> string \<Rightarrow> (string \<Rightarrow> fs \<Rightarrow> file_info res \<times> fs) \<Rightarrow> res_file
    \<Rightarrow> (file_info \<Rightarrow> string \<Rightarrow> managed_package) \<Rightarrow> pkg_resource \<Rightarrow> pkg_world \<Rightarrow> go_error option \<times> pkg_resource \<times> pkg_world" where
  "pkg_from_file env missing label present name query file mk p w =
     (if \<not> present then (Some (ErrMsg missing), p, w)
      else if kr_state p \<noteq> PKG_INSTALLED
      then (Some (ErrMsg (''desired state of '' @ quote (pkg_state_text (kr_state p)) @ '' not applicable for '' @ label @ '' package'')), p, w)
      else
        (case validateFile file w of
           (Some e, w1) \<Rightarrow> (Some e, p, w1)
         | (None, w1) \<Rightarrow>
             (case pkg_file_info env name query file p w1 of
                (Inl e, p1, w2) \<Rightarrow> (Some e, p1, w2)
              | (Inr (path, info), p1, w2) \<Rightarrow> (None, p1\<lparr>kr_managed := Some (mk info path)\<rparr>, w2))))"

definition pkg_by_name :: "bool \<Rightarrow> string \<Rightarrow> managed_package \<Rightarrow> pkg_resource \<Rightarrow> pkg_world \<Rightarrow> go_error option \<times> pkg_resource \<times> pkg_world" where
  "pkg_by_name present missing m p w =
     (if \<not> present then (Some (ErrMsg missing), p, w) else (None, p\<lparr>kr_managed := Some m\<rparr>, w))"

definition no_tool :: "string \<Rightarrow> string \<Rightarrow> string \<Rightarrow> string" where
  "no_tool kind name tool = ''cannot manage '' @ kind @ '' package '' @ quote name @ '' because '' @ tool @ '' does not exist on the system''"

definition pkg_validate :: "'e pkg_env_scheme \<Rightarrow> pkg_resource \<Rightarrow> pkg_world \<Rightarrow> go_error option \<times> pkg_resource \<times> pkg_world" where
  "pkg_validate env p w =
     (case kr_package p of
        SpApt name \<Rightarrow> pkg_by_name (rp_apt_exists env) (no_tool ''Apt'' name ''apt-get'') (MApt name (kr_state p)) p w
      | SpGooGet name \<Rightarrow> pkg_by_name (rp_goo_exists env) (no_tool ''GooGet'' name ''googet'') (MGooGet name (kr_state p)) p w
      | SpYum name \<Rightarrow> pkg_by_name (rp_yum_exists env) (no_tool ''Yum'' name ''yum'') (MYum name (kr_state p)) p w
      | SpZypper name \<Rightarrow> pkg_by_name (rp_zypper_exists env) (no_tool ''Zypper'' name ''zypper'') (MZypper name (kr_state p)) p w
      | SpDeb file pull \<Rightarrow>
          pkg_from_file env ''cannot manage Deb package because dpkg does not exist on the system'' ''deb'' (pv_dpkg_exists env)
            ''pkg.deb'' (pv_deb_info env) file (\<lambda>info path. MDeb (fi_name info) path) p w
      | SpMsi file props \<Rightarrow>
          pkg_from_file env ''cannot manage MSI package because msiexec does not exist on the system'' ''MSI'' (pv_msi_exists env)
            ''pkg.msi'' (pv_msi_info env) file (\<lambda>info path. MMsi (fi_name info) (fi_version info) path) p w
      | SpRpm file pull \<Rightarrow>
          pkg_from_file env ''cannot manage RPM package because rpm does not exist on the system'' ''rpm'' (pv_rpm_exists env)
            ''pkg.rpm'' (pv_rpm_info env) file (\<lambda>info path. MRpm (fi_name info) path) p w
      | SpUnset \<Rightarrow> (Some (ErrMsg ''SystemPackage field not set or references unknown package manager: <nil>''), p, w))"

section \<open>The installed packages\<close>

text \<open>The cache and the listing function of a managed package; none for an MSI.\<close>

fun cache_kind :: "managed_package \<Rightarrow> (pkg_kind \<times> pkg_lister) option" where
  "cache_kind (MApt _ _) = Some (KApt, ListDeb)"
| "cache_kind (MDeb _ _) = Some (KDeb, ListDeb)"
| "cache_kind (MGooGet _ _) = Some (KGoo, ListGoo)"
| "cache_kind (MMsi _ _ _) = None"
| "cache_kind (MYum _ _) = Some (KYum, ListRpm)"
| "cache_kind (MZypper _ _) = Some (KZypper, ListRpm)"
| "cache_kind (MRpm _ _) = Some (KRpm, ListRpm)"

definition cache_age_limit :: int where
  "cache_age_limit = 180000000000"

definition populateInstalledCache :: "'e pkg_env_scheme \<Rightarrow> managed_package option \<Rightarrow> pkg_world \<Rightarrow> go_error option \<times> pkg_world" where
  "populateInstalledCache env mp w =
     (case mp of
        None \<Rightarrow> (Some (ErrMsg ''unknown or unpopulated ManagedPackage package type''), w)
      | Some m \<Rightarrow>
          (case cache_kind m of
             None \<Rightarrow> (None, w)
           | Some (kind, lister) \<Rightarrow>
               (if (case pkw_installed w kind of None \<Rightarrow> False | Some (names, refreshed) \<Rightarrow> refreshed > pkw_now w - cache_age_limit)
                then (None, w)
                else
                  (case on_fs (pv_list env lister) w of
                     (Inl e, w1) \<Rightarrow> (Some e, w1)
                   | (Inr names, w1) \<Rightarrow>
                       (None, w1\<lparr>pkw_installed := (pkw_installed w1)(kind \<mapsto> (names, pkw_now w1))\<rparr>)))))"

text \<open>The name and the desired state looked for.\<close>

fun package_goal :: "managed_package \<Rightarrow> string \<times> pkg_state" where
  "package_goal (MApt n st) = (n, st)"
| "package_goal (MDeb n p) = (n, PKG_INSTALLED)"
| "package_goal (MGooGet n st) = (n, st)"
| "package_goal (MMsi n code p) = (code, PKG_INSTALLED)"
| "package_goal (MYum n st) = (n, st)"
| "package_goal (MZypper n st) = (n, st)"
| "package_goal (MRpm n p) = (n, PKG_INSTALLED)"

definition in_cache :: "pkg_world \<Rightarrow> pkg_kind \<Rightarrow> string \<Rightarrow> bool" where
  "in_cache w kind name = (case pkw_installed w kind of None \<Rightarrow> False | Some (names, t) \<Rightarrow> name \<in> set names)"

fun judge :: "pkg_state \<Rightarrow> bool \<Rightarrow> bool res" where
  "judge PKG_INSTALLED ins = Inr ins"
| "judge PKG_REMOVED ins = Inr (\<not> ins)"
| "judge PKG_UNSPECIFIED ins = Inl (ErrMsg ''DesiredState field not set or references state'')"

definition pkg_checkState :: "'e pkg_env_scheme \<Rightarrow> pkg_resource \<Rightarrow> pkg_world \<Rightarrow> bool res \<times> pkg_world" where
  "pkg_checkState env p w =
     (case populateInstalledCache env (kr_managed p) w of
        (Some e, w1) \<Rightarrow> (Inl e, w1)
      | (None, w1) \<Rightarrow>
          (case kr_managed p of
             None \<Rightarrow> (Inl (ErrMsg ''DesiredState field not set or references state''), w1)
           | Some m \<Rightarrow>
               (case cache_kind m of
                  Some (kind, lister) \<Rightarrow> (judge (snd (package_goal m)) (in_cache w1 kind (fst (package_goal m))), w1)
                | None \<Rightarrow>
                    (case on_fs (pv_msi_installed env (fst (package_goal m))) w1 of
                       (Inl e, w2) \<Rightarrow> (Inl e, w2)
                     | (Inr ins, w2) \<Rightarrow> (judge (snd (package_goal m)) ins, w2)))))"

section \<open>Enforcement\<close>

text \<open>Actions in sequence, up to the first error.\<close>

fun run_actions :: "'e pkg_env_scheme \<Rightarrow> pkg_action list \<Rightarrow> fs \<Rightarrow> go_error option \<times> fs" where
  "run_actions env [] s = (None, s)"
| "run_actions env (a # as) s =
     (case pv_act env a s of (Some e, s1) \<Rightarrow> (Some e, s1) | (None, s1) \<Rightarrow> run_actions env as s1)"

definition by_state :: "pkg_state \<Rightarrow> pkg_action list \<Rightarrow> pkg_action list \<Rightarrow> (string \<times> pkg_action list) option" where
  "by_state st install remove =
     (case st of PKG_INSTALLED \<Rightarrow> Some (''installing'', install)
      | PKG_REMOVED \<Rightarrow> Some (''removing'', remove)
      | PKG_UNSPECIFIED \<Rightarrow> None)"

text \<open>The package file, downloaded now if it was not pulled by the validation.\<close>

definition pull_package :: "'e pkg_env_scheme \<Rightarrow> string \<Rightarrow> res_file \<Rightarrow> string \<Rightarrow> pkg_resource \<Rightarrow> pkg_world
    \<Rightarrow> string res \<times> pkg_resource \<times> pkg_world" where
  "pull_package env name file localPath p w =
     (if localPath = [] then pkg_download env name file p w else (Inr localPath, p, w))"

definition package_source :: "pkg_resource \<Rightarrow> res_file \<times> bool \<times> string list" where
  "package_source p = (case kr_package p of SpDeb f d \<Rightarrow> (f, d, []) | SpRpm f d \<Rightarrow> (f, d, [])
     | SpMsi f props \<Rightarrow> (f, False, props) | _ \<Rightarrow> (FileUnset, False, []))"

text \<open>
  What \<open>enforceState\<close> decides: the kind of package, its name, the verb and the actions, \<open>None\<close>
  where the code is left with a nil function. An error ends the enforcement before the action.
\<close>

definition plan_enforce :: "'e pkg_env_scheme \<Rightarrow> managed_package \<Rightarrow> pkg_resource \<Rightarrow> pkg_world
    \<Rightarrow> (string \<times> string \<times> (string \<times> pkg_action list) option) res \<times> pkg_resource \<times> pkg_world" where
  "plan_enforce env m p w =
     (let (file, pull, props) = package_source p in
      case m of
        MApt n st \<Rightarrow> (Inr (''apt'', n, by_state st [AptUpdate, InstallApt [n]] [RemoveApt [n]]), p, w)
      | MGooGet n st \<Rightarrow> (Inr (''googet'', n, by_state st [InstallGoo [n]] [RemoveGoo [n]]), p, w)
      | MYum n st \<Rightarrow> (Inr (''yum'', n, by_state st [InstallYum [n]] [RemoveYum [n]]), p, w)
      | MZypper n st \<Rightarrow> (Inr (''zypper'', n, by_state st [InstallZypper [n]] [RemoveZypper [n]]), p, w)
      | MDeb n localPath \<Rightarrow>
          (case pull_package env ''pkg.deb'' file localPath p w of
             (Inl e, p1, w1) \<Rightarrow> (Inl e, p1, w1)
           | (Inr path, p1, w1) \<Rightarrow>
               (Inr (''deb'', n, Some (''installing'', [if pull then InstallApt [path] else DpkgInstall path])),
                p1\<lparr>kr_managed := Some (MDeb n path)\<rparr>, w1))
      | MMsi n code localPath \<Rightarrow>
          (case pull_package env ''pkg.msi'' file localPath p w of
             (Inl e, p1, w1) \<Rightarrow> (Inl e, p1, w1)
           | (Inr path, p1, w1) \<Rightarrow>
               (Inr (''msi'', n, Some (''installing'', [InstallMsi path props])), p1\<lparr>kr_managed := Some (MMsi n code path)\<rparr>, w1))
      | MRpm n localPath \<Rightarrow>
          (case pull_package env ''pkg.rpm'' file localPath p w of
             (Inl e, p1, w1) \<Rightarrow> (Inl e, p1, w1)
           | (Inr path, p1, w1) \<Rightarrow>
               (let p2 = p1\<lparr>kr_managed := Some (MRpm n path)\<rparr> in
                if \<not> pull then (Inr (''rpm'', n, Some (''installing'', [RpmInstall path])), p2, w1)
                else if rp_yum_exists env then (Inr (''rpm'', n, Some (''installing'', [InstallYum [path]])), p2, w1)
                else if rp_zypper_exists env then (Inr (''rpm'', n, Some (''installing'', [InstallZypper [path]])), p2, w1)
                else (Inl (ErrMsg (''cannot install rpm '' @ quote n @ '' with 'PullDeps' option as neither yum or zypper exist on system'')), p2, w1))))"

definition drop_cache :: "managed_package \<Rightarrow> pkg_world \<Rightarrow> pkg_world" where
  "drop_cache m w = (case cache_kind m of None \<Rightarrow> w | Some (kind, lister) \<Rightarrow> w\<lparr>pkw_installed := (pkw_installed w)(kind := None)\<rparr>)"

definition pkg_enforceState :: "'e pkg_env_scheme \<Rightarrow> pkg_resource \<Rightarrow> pkg_world \<Rightarrow> (bool res \<times> pkg_resource \<times> pkg_world) outcome" where
  "pkg_enforceState env p w =
     (case kr_managed p of
        None \<Rightarrow> Panic ''nil pointer dereference''
      | Some m \<Rightarrow>
          (case plan_enforce env m p w of
             (Inl e, p1, w1) \<Rightarrow> Done (Inl e, p1, w1)
           | (Inr (kind, name, None), p1, w1) \<Rightarrow> Panic ''nil function call''
           | (Inr (kind, name, Some (action, acts)), p1, w1) \<Rightarrow>
               (case on_fs (run_actions env acts) (drop_cache m w1) of
                  (Some e, w2) \<Rightarrow> Done (Inl (ErrMsg (''error '' @ action @ '' '' @ kind @ '' package '' @ quote name)), p1, w2)
                | (None, w2) \<Rightarrow> Done (Inr True, p1, w2))))"

definition pkg_cleanup :: "'e pkg_env_scheme \<Rightarrow> pkg_resource \<Rightarrow> pkg_world \<Rightarrow> go_error option \<times> pkg_world" where
  "pkg_cleanup env p w =
     (case savePackageInfoCache env w of
        (_, w1) \<Rightarrow>
          if kr_temp_dir p \<noteq> [] then
            (case on_fs (os_remove_all (kr_temp_dir p)) w1 of (Inl e, w2) \<Rightarrow> (Some e, w2) | (Inr _, w2) \<Rightarrow> (None, w2))
          else (None, w1))"

end
