(* ===== verification/PolicyRes.thy ===== *)
theory PolicyRes
  imports ResPkg ConfigRun
begin

text \<open>
  The resource of an OS policy, \<open>config/config.go\<close>: one object that dispatches to the file,
  repository, package or exec resource, and so implements the interface the ApplyConfig task of
  theory ConfigTask calls.

  \<^item> \<open>resource_type\<close> is the oneof of the protobuf message, \<open>inner_resource\<close> the Go interface
    value \<open>resource\<close>, \<open>None\<close> before \<open>Validate\<close>.
  \<^item> \<open>policy_ops\<close> packs the methods for the task. \<open>EnforceState\<close> may panic in a package resource;
    the task calls it only after a successful check, where it cannot (\<open>check_then_enforce\<close>).
  \<^item> \<open>resource_contract\<close> is what the report of the task relies on: an enforcement that succeeds
    after a failed check makes the next check succeed.
\<close>

section \<open>config.go\<close>

datatype resource_type =
    RtPkg pkg_state system_package
  | RtRepository repository
  | RtFile string file_state string file_contents
  | RtExec "exec_exec option" "exec_exec option"
  | RtUnset

datatype inner_resource = InPkg pkg_resource | InRepo repo_resource | InFile file_resource | InExec exec_resource

record os_policy_resource =
  px_inner :: "inner_resource option"
  px_type :: resource_type
  px_managed :: "managed_resources option"
  px_desired :: bool

definition new_os_policy_resource :: "resource_type os_resource \<Rightarrow> os_policy_resource" where
  "new_os_policy_resource cr = \<lparr>px_inner = None, px_type = or_body cr, px_managed = None, px_desired = False\<rparr>"

definition InDesiredState :: "os_policy_resource \<Rightarrow> bool" where
  "InDesiredState r = px_desired r"

definition ManagedResources :: "os_policy_resource \<Rightarrow> managed_resources option" where
  "ManagedResources r = px_managed r"

fun new_inner :: "resource_type \<Rightarrow> inner_resource option" where
  "new_inner (RtPkg st p) = Some (InPkg (new_pkg_resource st p))"
| "new_inner (RtRepository r) = Some (InRepo (new_repo_resource r))"
| "new_inner (RtFile path st perms src) = Some (InFile (new_file_resource path st perms src))"
| "new_inner (RtExec v e) = Some (InExec (new_exec_resource v e))"
| "new_inner RtUnset = None"

fun managed_of :: "inner_resource \<Rightarrow> managed_resources option" where
  "managed_of (InPkg p) = Some \<lparr>mr_packages = (case kr_managed p of None \<Rightarrow> [] | Some m \<Rightarrow> [fst (package_goal m)]),
      mr_repositories = [], mr_files = []\<rparr>"
| "managed_of (InRepo r) = Some \<lparr>mr_packages = [], mr_repositories = [mr_path (rr_managed r)], mr_files = []\<rparr>"
| "managed_of (InFile f) = Some \<lparr>mr_packages = [], mr_repositories = [], mr_files = [mf_path (fr_managed f)]\<rparr>"
| "managed_of (InExec e) = None"

definition env_of :: "'e pkg_env_scheme \<Rightarrow> res_env" where
  "env_of env = \<lparr>rv_sha = rv_sha env, rv_gcs_client = rv_gcs_client env, rv_gcs = rv_gcs env, rv_http = rv_http env\<rparr>"

text \<open>The four methods of the interface, by dispatch on the dynamic type.\<close>

fun inner_validate :: "'e pkg_env_scheme \<Rightarrow> inner_resource \<Rightarrow> pkg_world \<Rightarrow> go_error option \<times> inner_resource \<times> pkg_world" where
  "inner_validate env (InPkg p) w = (case pkg_validate env p w of (e, p', w') \<Rightarrow> (e, InPkg p', w'))"
| "inner_validate env (InRepo r) w = (case repo_validate env r of (e, r') \<Rightarrow> (e, InRepo r', w))"
| "inner_validate env (InFile f) w =
     (case file_validate (env_of env) f (pkw_fs w) of (e, f', s) \<Rightarrow> (e, InFile f', w\<lparr>pkw_fs := s\<rparr>))"
| "inner_validate env (InExec x) w =
     (case exec_validate env x (pkw_fs w) of (e, x', s) \<Rightarrow> (e, InExec x', w\<lparr>pkw_fs := s\<rparr>))"

definition answer :: "bool res \<Rightarrow> bool \<times> go_error option" where
  "answer r = (case r of Inl e \<Rightarrow> (False, Some e) | Inr b \<Rightarrow> (b, None))"

fun inner_check :: "'e pkg_env_scheme \<Rightarrow> inner_resource \<Rightarrow> pkg_world \<Rightarrow> (bool \<times> go_error option) \<times> pkg_world" where
  "inner_check env (InPkg p) w = (case pkg_checkState env p w of (r, w') \<Rightarrow> (answer r, w'))"
| "inner_check env (InRepo r) w = (case on_fs (repo_checkState env r) w of (a, w') \<Rightarrow> (answer a, w'))"
| "inner_check env (InFile f) w = (case on_fs (file_checkState (env_of env) f) w of (a, w') \<Rightarrow> (answer a, w'))"
| "inner_check env (InExec x) w = on_fs (exec_checkState env x) w"

fun inner_enforce :: "'e pkg_env_scheme \<Rightarrow> inner_resource \<Rightarrow> pkg_world
    \<Rightarrow> ((bool \<times> go_error option) \<times> inner_resource \<times> pkg_world) outcome" where
  "inner_enforce env (InPkg p) w =
     obind (pkg_enforceState env p w) (\<lambda>(a, p', w'). Done (answer a, InPkg p', w'))"
| "inner_enforce env (InRepo r) w = (case on_fs (repo_enforceState env r) w of (a, w') \<Rightarrow> Done (answer a, InRepo r, w'))"
| "inner_enforce env (InFile f) w =
     (case file_enforceState (env_of env) f (pkw_fs w) of (a, f', s) \<Rightarrow> Done (answer a, InFile f', w\<lparr>pkw_fs := s\<rparr>))"
| "inner_enforce env (InExec x) w =
     (case exec_enforceState env x (pkw_fs w) of (a, x', s) \<Rightarrow> Done (a, InExec x', w\<lparr>pkw_fs := s\<rparr>))"

fun inner_populate :: "inner_resource \<Rightarrow> string option \<Rightarrow> string option" where
  "inner_populate (InExec x) out = exec_populateOutput x out"
| "inner_populate _ out = out"

fun inner_cleanup :: "'e pkg_env_scheme \<Rightarrow> inner_resource \<Rightarrow> pkg_world \<Rightarrow> go_error option \<times> pkg_world" where
  "inner_cleanup env (InPkg p) w = pkg_cleanup env p w"
| "inner_cleanup env (InRepo r) w = (None, w)"
| "inner_cleanup env (InFile f) w = (case file_cleanup f (pkw_fs w) of (e, s) \<Rightarrow> (e, w\<lparr>pkw_fs := s\<rparr>))"
| "inner_cleanup env (InExec x) w = (case exec_cleanup x (pkw_fs w) of (e, s) \<Rightarrow> (e, w\<lparr>pkw_fs := s\<rparr>))"

text \<open>The exported methods.\<close>

definition Validate :: "'e pkg_env_scheme \<Rightarrow> os_policy_resource \<Rightarrow> pkg_world \<Rightarrow> go_error option \<times> os_policy_resource \<times> pkg_world" where
  "Validate env r w =
     (case new_inner (px_type r) of
        None \<Rightarrow> (Some (ErrMsg ''ResourceType field not set''), r, w)
      | Some x \<Rightarrow>
          (case inner_validate env x w of
             (e, x', w') \<Rightarrow> (e, r\<lparr>px_inner := Some x', px_managed := (if e = None then managed_of x' else None)\<rparr>, w')))"

definition CheckState :: "'e pkg_env_scheme \<Rightarrow> os_policy_resource \<Rightarrow> pkg_world \<Rightarrow> go_error option \<times> os_policy_resource \<times> pkg_world" where
  "CheckState env r w =
     (case px_inner r of
        None \<Rightarrow> (Some (ErrMsg ''CheckState run before Validate''), r, w)
      | Some x \<Rightarrow> (case inner_check env x w of ((b, e), w') \<Rightarrow> (e, r\<lparr>px_desired := b\<rparr>, w')))"

definition EnforceState :: "'e pkg_env_scheme \<Rightarrow> os_policy_resource \<Rightarrow> pkg_world
    \<Rightarrow> (go_error option \<times> os_policy_resource \<times> pkg_world) outcome" where
  "EnforceState env r w =
     (case px_inner r of
        None \<Rightarrow> Done (Some (ErrMsg ''EnforceState run before Validate''), r, w)
      | Some x \<Rightarrow>
          obind (inner_enforce env x w)
            (\<lambda>((b, e), x', w'). Done (e, r\<lparr>px_inner := Some x', px_desired := b\<rparr>, w')))"

definition PopulateOutput :: "os_policy_resource \<Rightarrow> string option \<Rightarrow> string option" where
  "PopulateOutput r out = (case px_inner r of None \<Rightarrow> out | Some x \<Rightarrow> inner_populate x out)"

definition Cleanup :: "'e pkg_env_scheme \<Rightarrow> os_policy_resource \<Rightarrow> pkg_world \<Rightarrow> go_error option \<times> os_policy_resource \<times> pkg_world" where
  "Cleanup env r w =
     (case px_inner r of
        None \<Rightarrow> (Some (ErrMsg ''Cleanup run before Validate''), r, w)
      | Some x \<Rightarrow> (case inner_cleanup env x w of (e, w') \<Rightarrow> (e, r, w')))"

text \<open>For the task; the second branch of \<open>ro_enforce\<close> is unreachable there.\<close>

definition policy_ops :: "'e pkg_env_scheme \<Rightarrow> (resource_type, os_policy_resource, pkg_world) resource_ops" where
  "policy_ops env = \<lparr>ro_new = new_os_policy_resource, ro_validate = Validate env, ro_check = CheckState env,
     ro_enforce = (\<lambda>r w. case EnforceState env r w of Done x \<Rightarrow> x | Panic p \<Rightarrow> (Some (ErrMsg p), r, w)),
     ro_populate = PopulateOutput, ro_cleanup = Cleanup env, ro_in_desired = InDesiredState, ro_managed = ManagedResources\<rparr>"

section \<open>Enforcement cannot panic after a check\<close>

lemma plan_enforce_action:
  assumes "plan_enforce env m p w = (Inr (kind, name, act), p1, w1)" "snd (package_goal m) \<noteq> PKG_UNSPECIFIED"
  shows "act \<noteq> None"
  using assms
  by (cases m; cases "snd (package_goal m)")
    (auto simp: plan_enforce_def Let_def by_state_def split: prod.splits sum.splits if_splits)

lemma pkg_check_goal:
  assumes "pkg_checkState env p w = (Inr b, w')"
  shows "\<exists>m. kr_managed p = Some m \<and> snd (package_goal m) \<noteq> PKG_UNSPECIFIED"
proof (cases "kr_managed p")
  case None
  with assms show ?thesis by (simp add: pkg_checkState_def populateInstalledCache_def)
next
  case (Some m)
  have "judge PKG_UNSPECIFIED c \<noteq> Inr b" for c by simp
  with Some assms show ?thesis
    by (auto simp: pkg_checkState_def split: prod.splits option.splits sum.splits)
qed

lemma check_then_enforce:
  assumes "CheckState env r w = (None, r', w')"
  shows "\<exists>x. EnforceState env r' w'' = Done x"
proof (cases "px_inner r")
  case None
  with assms show ?thesis by (simp add: CheckState_def)
next
  case (Some x)
  with assms have r': "px_inner r' = Some x" by (auto simp: CheckState_def split: prod.splits)
  show ?thesis
  proof (cases x)
    case (InPkg p)
    obtain a w1 where c: "pkg_checkState env p w = (a, w1)" by fastforce
    with assms Some InPkg obtain b where "a = Inr b" by (cases a) (auto simp: CheckState_def answer_def)
    with pkg_check_goal c obtain m where m: "kr_managed p = Some m" "snd (package_goal m) \<noteq> PKG_UNSPECIFIED" by blast
    obtain res p1 w1 where pl: "plan_enforce env m p w'' = (res, p1, w1)" by (metis prod_cases3)
    have "\<exists>y. pkg_enforceState env p w'' = Done y"
    proof (cases res)
      case (Inr q)
      obtain k n act where q: "q = (k, n, act)" by (metis prod_cases3)
      with plan_enforce_action [OF pl [unfolded Inr q] m(2)] obtain v as where "act = Some (v, as)" by auto
      with m pl Inr q show ?thesis by (auto simp: pkg_enforceState_def split: prod.splits option.splits)
    qed (use m pl in \<open>auto simp: pkg_enforceState_def\<close>)
    with r' InPkg show ?thesis by (auto simp: EnforceState_def split: prod.splits)
  qed (use r' in \<open>auto simp: EnforceState_def split: prod.splits\<close>)
qed

section \<open>The contract of a resource\<close>

text \<open>A row of the report that is compliant, or names a step that failed.\<close>

definition good_row :: "compliance \<Rightarrow> bool" where
  "good_row rc \<longleftrightarrow> rc_state rc = COMPLIANT \<or> (\<exists>st \<in> set (rc_steps rc). st_outcome st = FAILED)"

locale resource_contract =
  fixes ops :: "('p, 'r, 'w) resource_ops"
    and calm :: "'w \<Rightarrow> bool"
    and admissible :: "'p os_resource \<Rightarrow> bool"
  assumes cycle: "calm w \<Longrightarrow> admissible cr \<Longrightarrow> ro_validate ops (ro_new ops cr) w = (None, r1, w1)
    \<Longrightarrow> ro_check ops r1 w1 = (None, r2, w2) \<Longrightarrow> \<not> ro_in_desired ops r2
    \<Longrightarrow> ro_enforce ops r2 w2 = (None, r3, w3)
    \<Longrightarrow> \<exists>r4 w4. ro_check ops r3 w3 = (None, r4, w4) \<and> ro_in_desired ops r4"
begin

text \<open>One resource through the loop body and, if it was marked, the post check.\<close>

lemma process_then_post:
  assumes "process_resource ops False cr rc w = (stop, act, res, rc1, w1)" "calm w" "admissible cr"
    and "postCheckConfigResourceState ops (or_id cr) (if act then res\<lparr>re_needs_post_check := True\<rparr> else res) rc1 w1 = (res2, rc2, w2)"
  shows "good_row rc2"
proof -
  obtain e1 r1 wa where v: "ro_validate ops (ro_new ops cr) w = (e1, r1, wa)" by (metis prod_cases3)
  show ?thesis
  proof (cases e1)
    case (Some e)
    with v assms(1,4) show ?thesis
      by (auto simp: process_resource_def validateConfigResource_def new_entry_def postCheckConfigResourceState_def good_row_def add_step_def)
  next
    case None
    obtain e2 r2 wb where c: "ro_check ops r1 wa = (e2, r2, wb)" by (metis prod_cases3)
    show ?thesis
    proof (cases e2)
      case (Some e)
      with None v c assms(1,4) show ?thesis
        by (auto simp: process_resource_def validateConfigResource_def checkConfigResourceState_def detectPolicyConflicts_def
            new_entry_def postCheckConfigResourceState_def good_row_def add_step_def)
    next
      case e2: None
      show ?thesis
      proof (cases "ro_in_desired ops r2")
        case True
        with None e2 v c assms(1,4) show ?thesis
          by (auto simp: process_resource_def validateConfigResource_def checkConfigResourceState_def detectPolicyConflicts_def
              enforceConfigResourceState_def desired_to_state_def
              new_entry_def postCheckConfigResourceState_def good_row_def add_step_def)
      next
        case False
        obtain e3 r3 wc where e: "ro_enforce ops r2 wb = (e3, r3, wc)" by (metis prod_cases3)
        obtain e4 r4 wd where p: "ro_check ops r3 wc = (e4, r4, wd)" by (metis prod_cases3)
        have last: "e3 = None \<Longrightarrow> e4 = None \<and> ro_in_desired ops r4"
          using cycle [OF assms(2,3) v [unfolded None] c [unfolded e2] False] e p by auto
        define rcb where "rcb = add_step DESIRED_STATE_CHECK SUCCEEDED [] NON_COMPLIANT (add_step VALIDATION SUCCEEDED [] UNKNOWN_STATE rc)"
        define en where "en = enforceConfigResourceState ops (or_id cr) \<lparr>re_iface = r2, re_needs_post_check = False, re_vc_error = False\<rparr> rcb wb"
        have pr: "process_resource ops False cr rc w = (case en of (actionTaken, hasError3, res3, rc3, w3) \<Rightarrow>
             (hasError3, actionTaken, res3, rc3\<lparr>rc_output := ro_populate ops (re_iface res3) (rc_output rc3)\<rparr>, w3))"
          using None e2 v c False
          by (simp add: process_resource_def validateConfigResource_def checkConfigResourceState_def detectPolicyConflicts_def
              desired_to_state_def new_entry_def en_def rcb_def)
        show ?thesis
        proof (cases e3)
          case (Some e')
          with pr e False assms(1) have "act" "res = \<lparr>re_iface = r3, re_needs_post_check = False, re_vc_error = False\<rparr>" "w1 = wc"
            "\<exists>st \<in> set (rc_steps rc1). st_outcome st = FAILED"
            by (auto simp: en_def enforceConfigResourceState_def add_step_def)
          with p assms(4) show ?thesis
            by (cases e4) (auto simp: postCheckConfigResourceState_def good_row_def add_step_def)
        next
          case e3: None
          with pr e False assms(1) have "act" "res = \<lparr>re_iface = r3, re_needs_post_check = False, re_vc_error = False\<rparr>" "w1 = wc"
            by (auto simp: en_def enforceConfigResourceState_def)
          with p last [OF e3] assms(4) show ?thesis
            by (auto simp: postCheckConfigResourceState_def good_row_def add_step_def desired_to_state_def)
        qed
      qed
    qed
  qed
qed

end

text \<open>A report is sent without leaving the calm worlds.\<close>

lemma reportContinuingState_calm:
  assumes "reportContinuingState cl st c w = (e, c', w')" "calm w"
    and "\<And>tid s w. calm w \<Longrightarrow> calm (snd (tc_progress cl tid s w))"
  shows "calm w'"
  using assms(1,2) assms(3) [of w "ct_task_id c" st]
  by (auto simp: reportContinuingState_def Let_def split: option.splits prod.splits sum.splits directive.splits if_splits)

lemma applied_world:
  fixes c' :: "('p, 'r) config_task"
  assumes "RunApplyConfig ops cl tid ps w = Done (e, c', w')"
    and "CfgComplete tid [] OUT_SUCCEEDED rs \<in> set (ct_sent c')" and "ps \<noteq> []" and "calm w"
    and pk: "\<And>tid s w. calm w \<Longrightarrow> calm (snd (tc_progress cl tid s w))"
  obtains c2 :: "('p, 'r) config_task" and w2 c3 w3 c4 w4 where "apply_state ps tid c2" "calm w2"
      "run_policies ops 0 ps (c2\<lparr>ct_policies := Map.empty\<rparr>) w2 = (c3, w3)"
      "post_policies ops 0 ps c3 w3 = (c4, w4)" "rs = ct_results c4"
proof -
  obtain e1 c1 w1 where r1: "reportContinuingState cl PS_STARTED
      ((new_config_task tid ps :: ('p, 'r) config_task)\<lparr>ct_started_at := tc_now cl w\<rparr>) w = (e1, c1, w1)" by (metis prod_cases3)
  note f1 = first_report [OF r1]
  note run = assms(1) [unfolded RunApplyConfig_def run_config_split r1]
  have k1: "calm w1" by (rule reportContinuingState_calm [where calm = calm, OF r1 assms(4) pk])
  have "e1 = None"
  proof (rule ccontr)
    assume "e1 \<noteq> None"
    then obtain err where "e1 = Some err" by auto
    with run have "c' = fst (snd (handleErrorState cl rcsErrMsg err c1 w1))" by simp
    with assms(2) f1 show False by (auto simp: start_state_def error_report_def split: if_splits)
  qed
  with run f1 assms(3) have ra: "run_apply ops cl c1 w1 = Done (e, c', w')" by (simp add: start_state_def)
  obtain e2 c2 w2 where r2: "reportContinuingState cl PS_APPLYING_CONFIG (generateBaseResults c1) w1 = (e2, c2, w2)" by (metis prod_cases3)
  have k2: "calm w2" by (rule reportContinuingState_calm [where calm = calm, OF r2 k1 pk])
  note f2 = second_report [OF r2 f1]
  have e2: "e2 = None"
  proof (rule ccontr)
    assume "e2 \<noteq> None"
    then obtain err where "e2 = Some err" by auto
    with ra r2 have "with_cleanup ops (handleErrorState cl rcsErrMsg err c2 w2) = Done (e, c', w')" by (simp add: run_apply_def)
    from error_phase(1) [OF this f2] assms(2) show False by (auto simp: sent_error_def error_report_def split: if_splits)
  qed
  obtain c3 w3 where p3: "run_policies ops 0 ps (c2\<lparr>ct_policies := Map.empty\<rparr>) w2 = (c3, w3)" by fastforce
  obtain c4 w4 where p4: "post_policies ops 0 ps c3 w3 = (c4, w4)" by fastforce
  obtain e5 c5 w5 where rc: "reportCompletedState cl [] OUT_SUCCEEDED c4 w4 = (e5, c5, w5)" by (metis prod_cases3)
  note fr = apply_frame [OF p3 p4 f2(1)]
  from ra r2 e2 f2 p3 p4 fr rc have "with_cleanup ops (e5, c5, w5) = Done (e, c', w')"
    by (simp add: run_apply_def postCheckState_def apply_state_def)
  from with_cleanup_Done [OF this] have "ct_sent c' = ct_sent c5" by (simp add: same_frame_def)
  moreover have "ct_sent c5 = applying tid @ [CfgComplete tid [] OUT_SUCCEEDED (ct_results c4)]"
    using reportCompletedState_simps(4) [of cl "[]" OUT_SUCCEEDED c4 w4] rc fr by simp
  ultimately have "rs = ct_results c4" using assms(2) by auto
  with f2(1) k2 p3 p4 that show thesis by blast
qed

context resource_contract
begin

lemma single_policy:
  assumes "run_policies ops 0 [p] (c2\<lparr>ct_policies := Map.empty\<rparr>) w2 = (c3, w3)" "post_policies ops 0 [p] c3 w3 = (c4, w4)"
    and "apply_state [p] tid c2" "op_resources p = [cr]" "op_mode p \<noteq> MODE_VALIDATION" "calm w2" "admissible cr"
  shows "\<exists>rc. ct_results c4 = [(base_result p)\<lparr>pr_compliances := [rc]\<rparr>] \<and> good_row rc"
proof -
  obtain stop act res rc1 w1 where pr: "process_resource ops False cr (base_compliance cr) w2 = (stop, act, res, rc1, w1)"
    by (metis prod_cases5)
  define fin where "fin = (if act then res\<lparr>re_needs_post_check := True\<rparr> else res)"
  obtain res2 rc2 wp where po: "postCheckConfigResourceState ops (or_id cr) fin rc1 w1 = (res2, rc2, wp)" by (metis prod_cases3)
  have nv: "act \<Longrightarrow> \<not> re_vc_error res"
    using pr by (auto simp: process_resource_def validateConfigResource_def checkConfigResourceState_def detectPolicyConflicts_def
        enforceConfigResourceState_def new_entry_def Let_def split: prod.splits option.splits if_splits)
  have c2: "ct_results c2 = [base_result p]" "ct_task c2 = [p]" using assms(3) by (simp_all add: apply_state_def)
  have c3: "ct_results c3 = [(base_result p)\<lparr>pr_compliances := [rc1]\<rparr>]" "ct_policies c3 = [op_id p \<mapsto> [or_id cr \<mapsto> fin]]" "w3 = w1"
    using assms(1,4,5) c2 pr nv
    by (auto simp: run_policy_def get_compliance_def base_result_def store_def set_compliance_def set_entry_def
        markPostCheckRequired_def fin_def Let_def split: if_splits)
  have "ct_results c4 = [(base_result p)\<lparr>pr_compliances := [rc2]\<rparr>]"
    using assms(2,4) c3 po
    by (auto simp: get_entry_def get_compliance_def store_def set_compliance_def set_entry_def)
  with process_then_post [OF pr assms(6,7) po [unfolded fin_def]] show ?thesis by blast
qed

text \<open>The client's lemma: the report on a policy with one resource.\<close>

lemma run_single:
  assumes "RunApplyConfig ops cl tid [p] w = Done (e, c', w')"
    and "CfgComplete tid [] OUT_SUCCEEDED rs \<in> set (ct_sent c')"
    and "op_resources p = [cr]" "op_mode p \<noteq> MODE_VALIDATION" "calm w" "admissible cr"
    and "\<And>tid s w. calm w \<Longrightarrow> calm (snd (tc_progress cl tid s w))"
  shows "\<exists>rc. rs = [(base_result p)\<lparr>pr_compliances := [rc]\<rparr>] \<and> good_row rc"
  by (rule applied_world [where calm = calm, OF assms(1,2) _ assms(5,7)]) (use single_policy assms(3,4,6) in auto)

end

section \<open>File and repository resources keep the contract\<close>

definition calm_machine :: "pkg_world \<Rightarrow> bool" where
  "calm_machine w \<longleftrightarrow> no_fault (pkw_fs w)"

text \<open>
  A file resource with a path that is not blank; a repository resource whose file name format
  gives an absolute clean path other than that of the key.
\<close>

definition file_or_repo :: "'e pkg_env_scheme \<Rightarrow> resource_type os_resource \<Rightarrow> bool" where
  "file_or_repo env cr =
     (case or_body cr of
        RtFile path st perms src \<Rightarrow> trim_space path \<noteq> []
      | RtRepository r \<Rightarrow>
          (case repo_validate env (new_repo_resource r) of (e, r') \<Rightarrow> e = None \<longrightarrow> paths_ok (rr_managed r'))
      | _ \<Rightarrow> False)"

lemma on_fs_split: "on_fs f w = (a, w') \<longleftrightarrow> (\<exists>s. f (pkw_fs w) = (a, s) \<and> w' = w\<lparr>pkw_fs := s\<rparr>)"
  by (auto simp: on_fs_def split: prod.splits)

lemma answer_ok: "answer a = (b, None) \<longleftrightarrow> a = Inr b"
  by (auto simp: answer_def split: sum.splits)

lemma file_contract:
  assumes "calm_machine w" "or_body cr = RtFile path st perms src" "trim_space path \<noteq> []"
    and v: "Validate env (new_os_policy_resource cr) w = (None, r1, w1)"
    and c: "CheckState env r1 w1 = (None, r2, w2)" and nd: "\<not> InDesiredState r2"
    and e: "EnforceState env r2 w2 = Done (None, r3, w3)"
  shows "\<exists>r4 w4. CheckState env r3 w3 = (None, r4, w4) \<and> InDesiredState r4"
proof -
  obtain f s1 where v': "file_validate (env_of env) (new_file_resource path st perms src) (pkw_fs w) = (None, f, s1)"
    and r1: "px_inner r1 = Some (InFile f)" "w1 = w\<lparr>pkw_fs := s1\<rparr>"
    using v assms(2) by (auto simp: Validate_def new_os_policy_resource_def split: prod.splits)
  from c r1 nd obtain s2 where c': "file_checkState (env_of env) f s1 = (Inr False, s2)"
    and r2: "px_inner r2 = Some (InFile f)" "w2 = w\<lparr>pkw_fs := s2\<rparr>"
    by (auto simp: CheckState_def InDesiredState_def on_fs_def answer_def split: prod.splits sum.splits)
  from e r2 obtain b f' s3 where e': "file_enforceState (env_of env) f s2 = (Inr b, f', s3)"
    and r3: "px_inner r3 = Some (InFile f')" "w3 = w\<lparr>pkw_fs := s3\<rparr>"
    by (auto simp: EnforceState_def answer_def split: prod.splits sum.splits)
  have nf: "no_fault (pkw_fs w)" using assms(1) by (simp add: calm_machine_def)
  from file_cycle [OF nf assms(3) v' c' e'] obtain s4 where "file_checkState (env_of env) f' s3 = (Inr True, s4)" by blast
  with r3 show ?thesis by (auto simp: CheckState_def InDesiredState_def on_fs_def answer_def)
qed

lemma repo_check_no_fault:
  assumes "repo_checkState env r s = (a, s')" "no_fault s"
  shows "no_fault s'"
proof -
  have cm: "no_fault s3" if "contentsMatch e p d s2 = (b, s3)" "no_fault s2" for e p d s2 b s3
    using contentsMatch_calm [OF that(2), of e p d] that(1) by auto
  from assms show ?thesis
    by (auto simp: repo_checkState_def Let_def split: option.splits sum.splits bool.splits prod.splits dest: cm)
qed

lemma repo_contract:
  assumes "calm_machine w" "or_body cr = RtRepository rp" "file_or_repo env cr"
    and v: "Validate env (new_os_policy_resource cr) w = (None, r1, w1)"
    and c: "CheckState env r1 w1 = (None, r2, w2)"
    and e: "EnforceState env r2 w2 = Done (None, r3, w3)"
  shows "\<exists>r4 w4. CheckState env r3 w3 = (None, r4, w4) \<and> InDesiredState r4"
proof -
  obtain m where v': "repo_validate env (new_repo_resource rp) = (None, m)"
    and r1: "px_inner r1 = Some (InRepo m)" "w1 = w"
    using v assms(2) by (auto simp: Validate_def new_os_policy_resource_def split: prod.splits)
  from c r1 obtain a s2 where c': "repo_checkState env m (pkw_fs w) = (a, s2)"
    and r2: "px_inner r2 = Some (InRepo m)" "w2 = w\<lparr>pkw_fs := s2\<rparr>"
    by (auto simp: CheckState_def on_fs_def split: prod.splits)
  from e r2 obtain b s3 where e': "repo_enforceState env m s2 = (Inr b, s3)"
    and r3: "px_inner r3 = Some (InRepo m)" "w3 = w\<lparr>pkw_fs := s3\<rparr>"
    by (auto simp: EnforceState_def on_fs_def answer_def split: prod.splits sum.splits)
  have nf: "no_fault s2" using repo_check_no_fault [OF c'] assms(1) by (simp add: calm_machine_def)
  have "paths_ok (rr_managed m)" using assms(2,3) v' by (simp add: file_or_repo_def)
  from repo_cycle [OF e' nf this repo_validate_ok [OF v']] obtain s4 where "repo_checkState env m s3 = (Inr True, s4)" by blast
  with r3 show ?thesis by (auto simp: CheckState_def InDesiredState_def on_fs_def answer_def)
qed

lemma policy_ops_simps [simp]:
  "ro_new (policy_ops env) = new_os_policy_resource" "ro_validate (policy_ops env) = Validate env"
  "ro_check (policy_ops env) = CheckState env" "ro_in_desired (policy_ops env) = InDesiredState"
  by (simp_all add: policy_ops_def)

lemma policy_ops_enforce:
  "CheckState env r w = (None, r2, w2) \<Longrightarrow> ro_enforce (policy_ops env) r2 w2 = (e, r3, w3) \<Longrightarrow> EnforceState env r2 w2 = Done (e, r3, w3)"
  using check_then_enforce [of env r w r2 w2 w2] by (auto simp: policy_ops_def)

interpretation managed: resource_contract "policy_ops env" calm_machine "file_or_repo env" for env
proof
  fix w cr r1 w1 r2 w2 r3 w3
  assume a: "calm_machine w" "file_or_repo env cr" "ro_validate (policy_ops env) (ro_new (policy_ops env) cr) w = (None, r1, w1)"
    "ro_check (policy_ops env) r1 w1 = (None, r2, w2)" "\<not> ro_in_desired (policy_ops env) r2"
    "ro_enforce (policy_ops env) r2 w2 = (None, r3, w3)"
  then have e: "EnforceState env r2 w2 = Done (None, r3, w3)" by (auto dest: policy_ops_enforce)
  show "\<exists>r4 w4. ro_check (policy_ops env) r3 w3 = (None, r4, w4) \<and> ro_in_desired (policy_ops env) r4"
  proof (cases "or_body cr")
    case (RtFile path st perms src)
    with a(2) have "trim_space path \<noteq> []" by (simp add: file_or_repo_def)
    from file_contract [OF a(1) RtFile this] a(3-5) e show ?thesis by simp
  next
    case (RtRepository rp)
    from repo_contract [OF a(1) this a(2)] a(3-5) e show ?thesis by simp
  qed (use a(2) in \<open>auto simp: file_or_repo_def\<close>)
qed


definition demo_env :: pkg_env where
  "demo_env = \<lparr>rv_sha = (\<lambda>c. c), rv_gcs_client = None, rv_gcs = (\<lambda>b obj g. Inl (ErrMsg ''offline'')),
     rv_http = (\<lambda>u. Inl (ErrMsg ''offline'')),
     rp_apt_exists = True, rp_goo_exists = False, rp_yum_exists = False, rp_zypper_exists = False,
     rp_apt_format = (''/etc/apt/sources.list.d/osconfig_managed_'', ''.list''), rp_goo_format = ([], []),
     rp_yum_format = ([], []), rp_zypper_format = ([], []),
     rp_key_get = (\<lambda>k. Inl (ErrMsg ''offline'')), rp_is_armored = (\<lambda>d. False),
     rp_armored_ring = (\<lambda>d. Inr []), rp_ring = (\<lambda>d. Inr []),
     xv_windows = False, xv_run = (\<lambda>c a s. (([], [], None), s)),
     pv_dpkg_exists = True, pv_msi_exists = False, pv_rpm_exists = False,
     pv_list = (\<lambda>l s. (Inr [], s)), pv_act = (\<lambda>a s. (None, s)),
     pv_deb_info = (\<lambda>p s. (Inl (ErrMsg ''no deb''), s)), pv_rpm_info = (\<lambda>p s. (Inl (ErrMsg ''no rpm''), s)),
     pv_msi_info = (\<lambda>p s. (Inl (ErrMsg ''no msi''), s)), pv_msi_installed = (\<lambda>c s. (Inr False, s)),
     pv_key = (\<lambda>f. Inr []), pv_marshal = (\<lambda>c. Inr []), pv_unmarshal = (\<lambda>d. Inr []), pv_cache_file = ''/var/cache/info''\<rparr>"

definition demo_machine :: pkg_world where
  "demo_machine = \<lparr>pkw_fs = \<lparr>fs_nodes = [''/tmp/x'' \<mapsto> FileN ''old'' 420], fs_cwd = ''/'', fs_draws = [], fs_faults = []\<rparr>,
     pkw_now = 0, pkw_installed = Map.empty, pkw_info = None\<rparr>"

definition quiet_client :: "pkg_world task_client" where
  "quiet_client = \<lparr>tc_progress = (\<lambda>tid s w. (Inr DIRECTIVE_CONTINUE, w)), tc_complete = (\<lambda>tid m st rs w. (None, w)), tc_now = (\<lambda>w. 0)\<rparr>"

definition absent_policy :: "resource_type os_policy" where
  "absent_policy = \<lparr>op_id = ''p'', op_assignment = ''a'', op_mode = MODE_ENFORCEMENT,
      op_resources = [\<lparr>or_id = ''r'', or_body = RtFile ''/tmp/x'' FS_ABSENT [] SrcUnset\<rparr>]\<rparr>"

definition absent_run :: "(go_error option \<times> (resource_type, os_policy_resource) config_task \<times> pkg_world) outcome" where
  "absent_run = RunApplyConfig (policy_ops demo_env) quiet_client ''t1'' [absent_policy] demo_machine"

definition absent_report :: "policy_result list" where
  "absent_report = (case absent_run of Done (e, c, w) \<Rightarrow> ct_results c | Panic p \<Rightarrow> [])"

lemma absent_run_Done: "case absent_run of Done (e, c, w) \<Rightarrow>
    ct_sent c = applying ''t1'' @ [CfgComplete ''t1'' [] OUT_SUCCEEDED absent_report] | Panic p \<Rightarrow> False"
  by code_simp


end
