(* ===== verification/PkgFacts.thy ===== *)
theory PkgFacts
  imports PolicyRes
begin

text \<open>
  What the package and exec resources of \<open>config/\<close> guarantee: the freshness of the installed
  package caches and what an enforcement does to them, the package information cache and its
  file, the meaning of a script's exit code and the bound on its output.
\<close>

section \<open>The installed package caches\<close>

text \<open>Every cache that is used is at most three minutes old.\<close>

definition fresh_cache :: "pkg_kind \<Rightarrow> pkg_world \<Rightarrow> bool" where
  "fresh_cache kind w = (case pkw_installed w kind of None \<Rightarrow> False | Some (names, t) \<Rightarrow> t > pkw_now w - cache_age_limit)"

lemma populate_fresh:
  assumes "populateInstalledCache env (Some m) w = (None, w')" "cache_kind m = Some (kind, lister)"
  shows "fresh_cache kind w' \<and> (fresh_cache kind w \<longrightarrow> w' = w)
    \<and> (\<not> fresh_cache kind w \<longrightarrow> (\<exists>names s. pv_list env lister (pkw_fs w) = (Inr names, s)
          \<and> w' = w\<lparr>pkw_fs := s, pkw_installed := (pkw_installed w)(kind \<mapsto> (names, pkw_now w))\<rparr>))"
  using assms
  by (auto simp: populateInstalledCache_def fresh_cache_def on_fs_def cache_age_limit_def split: if_splits prod.splits sum.splits option.splits)

text \<open>
  The answer of a package check (an MSI apart): it is that of a list of installed packages
  taken less than three minutes ago, either the cached one, and then nothing was asked, or one
  the package manager has just given.
\<close>

theorem pkg_check_fresh:
  assumes "pkg_checkState env p w = (Inr b, w')" "kr_managed p = Some m" "cache_kind m = Some (kind, lister)"
  shows "\<exists>names t. pkw_installed w' kind = Some (names, t) \<and> pkw_now w' - t < cache_age_limit
    \<and> (b \<longleftrightarrow> (snd (package_goal m) = PKG_INSTALLED) = (fst (package_goal m) \<in> set names))
    \<and> (w' = w \<or> (t = pkw_now w \<and> (\<exists>s. pv_list env lister (pkw_fs w) = (Inr names, s) \<and> pkw_fs w' = s)))"
proof -
  obtain e w1 where pop: "populateInstalledCache env (Some m) w = (e, w1)" by fastforce
  with assms have e: "e = None" and j: "judge (snd (package_goal m)) (in_cache w1 kind (fst (package_goal m))) = Inr b" and w1: "w1 = w'"
    by (auto simp: pkg_checkState_def split: option.splits)
  note pf = populate_fresh [OF pop [unfolded e] assms(3)]
  then obtain names t where n: "pkw_installed w' kind = Some (names, t)" "t > pkw_now w' - cache_age_limit"
    by (auto simp: fresh_cache_def w1 split: option.splits)
  have "b \<longleftrightarrow> (snd (package_goal m) = PKG_INSTALLED) = (fst (package_goal m) \<in> set names)"
    using j n by (cases "snd (package_goal m)") (auto simp: in_cache_def w1)
  moreover have "w' = w \<or> (t = pkw_now w \<and> (\<exists>s. pv_list env lister (pkw_fs w) = (Inr names, s) \<and> pkw_fs w' = s))"
    using pf n by (cases "fresh_cache kind w") (auto simp: w1)
  ultimately show ?thesis using n by auto
qed

definition demo_pkg :: pkg_resource where
  "demo_pkg = (new_pkg_resource PKG_REMOVED (SpApt ''vim''))\<lparr>kr_managed := Some (MApt ''vim'' PKG_REMOVED)\<rparr>"

corollary pkg_check_fresh_witness:
  "\<exists>names t. pkw_installed (snd (pkg_checkState demo_env demo_pkg demo_machine)) KApt = Some (names, t)"
proof -
  have "pkg_checkState demo_env demo_pkg demo_machine = (Inr True, snd (pkg_checkState demo_env demo_pkg demo_machine))"
    by (simp add: prod_eq_iff) code_simp
  from pkg_check_fresh [OF this, of "MApt ''vim'' PKG_REMOVED" KApt ListDeb]
  show ?thesis by (auto simp: demo_pkg_def)
qed

text \<open>What an enforcement does to the caches: its own is dropped, the others stay.\<close>

lemma pkg_download_installed: "pkg_download env name file p w = (r, p', w') \<Longrightarrow> pkw_installed w' = pkw_installed w \<and> pkw_now w' = pkw_now w
    \<and> kr_managed p' = kr_managed p"
  by (auto simp: pkg_download_def on_fs_def Let_def split: if_splits prod.splits sum.splits)

lemma plan_enforce_frame:
  assumes "plan_enforce env m p w = (r, p', w')" "kr_managed p = Some m"
  shows "pkw_installed w' = pkw_installed w \<and> pkw_now w' = pkw_now w
    \<and> (\<exists>m'. kr_managed p' = Some m' \<and> cache_kind m' = cache_kind m \<and> package_goal m' = package_goal m)"
  using assms
  by (cases m) (auto simp: plan_enforce_def pull_package_def Let_def dest!: pkg_download_installed split: prod.splits sum.splits if_splits)

lemma pkg_enforce_caches:
  assumes "pkg_enforceState env p w = Done (Inr b, p', w')" "kr_managed p = Some m" "cache_kind m = Some (kind, lister)"
  shows "pkw_installed w' = (pkw_installed w)(kind := None) \<and> pkw_now w' = pkw_now w
    \<and> (\<exists>m'. kr_managed p' = Some m' \<and> cache_kind m' = Some (kind, lister) \<and> package_goal m' = package_goal m)"
proof -
  obtain r p1 w1 where pl: "plan_enforce env m p w = (r, p1, w1)" by (metis prod_cases3)
  from plan_enforce_frame [OF pl assms(2)] assms pl show ?thesis
    by (auto simp: pkg_enforceState_def drop_cache_def on_fs_def split: sum.splits prod.splits option.splits)
qed

text \<open>
  The check that follows a successful enforcement asks the package manager: its answer is
  that of a new list, whatever was cached before. The caches of the other package resources are
  not touched, so for up to three minutes a \<open>deb\<close> resource may still answer from before an
  \<open>apt\<close> one changed the same package.
\<close>

theorem pkg_check_after_enforce:
  assumes "pkg_enforceState env p w = Done (Inr b, p', w')" "kr_managed p = Some m" "cache_kind m = Some (kind, lister)"
    and "pkg_checkState env p' w' = (Inr b', w'')"
  shows "\<exists>names s. pv_list env lister (pkw_fs w') = (Inr names, s)
    \<and> (b' \<longleftrightarrow> (snd (package_goal m) = PKG_INSTALLED) = (fst (package_goal m) \<in> set names))
    \<and> (\<forall>k. k \<noteq> kind \<longrightarrow> pkw_installed w'' k = pkw_installed w k)"
proof -
  note ec = pkg_enforce_caches [OF assms(1-3)]
  then obtain m' where m': "kr_managed p' = Some m'" "cache_kind m' = Some (kind, lister)" "package_goal m' = package_goal m" by auto
  obtain e w1 where pop: "populateInstalledCache env (Some m') w' = (e, w1)" by fastforce
  with assms(4) m' have e: "e = None" and j: "judge (snd (package_goal m)) (in_cache w1 kind (fst (package_goal m))) = Inr b'" and w1: "w1 = w''"
    by (auto simp: pkg_checkState_def split: option.splits)
  have "\<not> fresh_cache kind w'" using ec by (simp add: fresh_cache_def)
  with populate_fresh [OF pop [unfolded e] m'(2)] obtain names s where n: "pv_list env lister (pkw_fs w') = (Inr names, s)"
    "w'' = w'\<lparr>pkw_fs := s, pkw_installed := (pkw_installed w')(kind \<mapsto> (names, pkw_now w'))\<rparr>" by (auto simp: w1)
  have "b' \<longleftrightarrow> (snd (package_goal m) = PKG_INSTALLED) = (fst (package_goal m) \<in> set names)"
    using j n by (cases "snd (package_goal m)") (auto simp: in_cache_def w1)
  with n ec show ?thesis by auto
qed

corollary pkg_check_after_enforce_witness:
  "\<exists>names s. pv_list demo_env ListDeb (pkw_fs demo_machine) = (Inr names, s)
    \<and> (True \<longleftrightarrow> (PKG_REMOVED = PKG_INSTALLED) = (''vim'' \<in> set names))"
proof -
  define w' where "w' = demo_machine\<lparr>pkw_installed := Map.empty(KApt := None)\<rparr>"
  have e: "pkg_enforceState demo_env demo_pkg demo_machine = Done (Inr True, demo_pkg, w')"
    by (simp add: pkg_enforceState_def demo_pkg_def plan_enforce_def package_source_def by_state_def Let_def demo_env_def
        drop_cache_def on_fs_def demo_machine_def w'_def)
  have c: "pkg_checkState demo_env demo_pkg w' = (Inr True, w'\<lparr>pkw_installed := (pkw_installed w')(KApt \<mapsto> ([], 0))\<rparr>)"
    by (simp add: pkg_checkState_def populateInstalledCache_def demo_pkg_def on_fs_def demo_env_def demo_machine_def w'_def in_cache_def)
  from pkg_check_after_enforce [OF e _ _ c, of "MApt ''vim'' PKG_REMOVED" KApt ListDeb] show ?thesis
    by (auto simp: demo_pkg_def w'_def)
qed

text \<open>The stale answer, concretely: \<open>apt\<close> has removed the package, the \<open>deb\<close> list still has it.\<close>

lemma deb_cache_stale:
  "pkw_installed w KDeb = Some ([''vim''], pkw_now w) \<Longrightarrow> kr_managed q = Some (MDeb ''vim'' path)
    \<Longrightarrow> pkg_enforceState env demo_pkg w = Done (Inr b, p', w') \<Longrightarrow> fst (pkg_checkState env q w') = Inr True"
  using pkg_enforce_caches [of env demo_pkg w b p' w' "MApt ''vim'' PKG_REMOVED" KApt ListDeb]
  by (auto simp: demo_pkg_def pkg_checkState_def populateInstalledCache_def cache_age_limit_def in_cache_def)

section \<open>The package information cache\<close>

text \<open>Keys are unique in the association list that stands for the Go map.\<close>

definition cache_ok :: "info_cache \<Rightarrow> bool" where
  "cache_ok c \<longleftrightarrow> distinct (map fst c)"

lemma map_of_filter_key: "cache_ok c \<Longrightarrow> map_of (filter (\<lambda>(k, x). P k x) c) k = (case map_of c k of None \<Rightarrow> None | Some x \<Rightarrow> if P k x then Some x else None)"
proof (induction c)
  case (Cons a c)
  obtain k' x where a: "a = (k', x)" by (cases a)
  have "k' \<notin> fst ` set c" using Cons.prems a by (simp add: cache_ok_def)
  then have "map_of c k' = None" by (simp add: map_of_eq_None_iff)
  with Cons a show ?case by (auto simp: cache_ok_def split: option.splits)
qed simp

lemma updatePackageInfoCache_map:
  assumes "cache_ok (cache_entries (loadPackageInfoCache env w))"
  shows "cache_ok (cache_entries (updatePackageInfoCache env info rf w))"
    and "map_of (cache_entries (updatePackageInfoCache env info rf w)) k =
      (if pv_key env rf = Inr k then Some (info, pkw_now (loadPackageInfoCache env w))
       else (case map_of (cache_entries (loadPackageInfoCache env w)) k of
               None \<Rightarrow> None
             | Some (i, t) \<Rightarrow> if pkw_now (loadPackageInfoCache env w) + packageInfoCacheTimeout > t then None else Some (i, t)))"
proof -
  let ?w1 = "loadPackageInfoCache env w" and ?n = "pkw_now (loadPackageInfoCache env w)"
  define kept where "kept = filter (\<lambda>(k, i, t). \<not> (?n + packageInfoCacheTimeout > t)) (cache_entries ?w1)"
  have k0: "cache_ok kept" using assms by (auto simp: kept_def cache_ok_def intro: distinct_map_filter)
  have mk: "map_of kept k = (case map_of (cache_entries ?w1) k of None \<Rightarrow> None
       | Some (i, t) \<Rightarrow> if ?n + packageInfoCacheTimeout > t then None else Some (i, t))" for k
    using map_of_filter_key [OF assms, of "\<lambda>k (i, t). \<not> (?n + packageInfoCacheTimeout > t)" k]
    by (auto simp: kept_def split: option.splits)
  have eq: "cache_entries (updatePackageInfoCache env info rf w) = (case pv_key env rf of Inl e \<Rightarrow> kept
       | Inr key \<Rightarrow> (key, info, ?n) # filter (\<lambda>(k, x). k \<noteq> key) kept)"
    by (auto simp: updatePackageInfoCache_def Let_def kept_def cache_entries_def split: sum.splits)
  show "cache_ok (cache_entries (updatePackageInfoCache env info rf w))"
    using k0 by (auto simp: eq cache_ok_def intro: distinct_map_filter split: sum.splits)
  show "map_of (cache_entries (updatePackageInfoCache env info rf w)) k =
      (if pv_key env rf = Inr k then Some (info, ?n)
       else (case map_of (cache_entries ?w1) k of None \<Rightarrow> None
             | Some (i, t) \<Rightarrow> if ?n + packageInfoCacheTimeout > t then None else Some (i, t)))"
  proof (cases "pv_key env rf")
    case (Inl e)
    then show ?thesis by (simp add: eq mk)
  next
    case (Inr key)
    then show ?thesis
      using mk [of k] map_of_filter_key [OF k0, of "\<lambda>k x. k \<noteq> key" k] by (auto simp: eq split: option.splits)
  qed
qed

lemma read_written:
  assumes "os_write_file p c m s = (None, s')" "no_fault s"
  shows "\<exists>s2. os_read_file p s' = (Inr c, s2)"
proof -
  from os_write_file_success [OF assms] obtain m' where n: "no_fault s'" "fs_nodes s' p = Some (FileN c m')" by auto
  obtain s1 where o: "os_open p s' = (Inr (), s1)" "fs_nodes s1 = fs_nodes s'" "no_fault s1" using os_open_calm [OF n(1), of p] n(2) by auto
  with os_read_calm [OF o(3), of p] n show ?thesis by (auto simp: os_read_file_def)
qed

text \<open>
  The package information cache survives its file. On a machine without faults, and with a
  codec that decodes what it encodes, saving clears the variable, and the next lookup of any
  file finds what the saved cache had; updating it keeps one entry per key, the new entry with
  the present time, and drops exactly the entries that were not used for seven days.
\<close>

theorem package_info_cache_roundtrip:
  assumes "no_fault (pkw_fs w)" "pkw_info w = Some c" "savePackageInfoCache env w = (None, w')"
    and "\<And>c d. pv_marshal env c = Inr d \<Longrightarrow> pv_unmarshal env d = Inr c"
    and "cache_ok c" "pv_key env rf = Inr key"
  shows "pkw_info w' = None
    \<and> fst (getPackageInfoFromCache env rf w') = fst (getPackageInfoFromCache env rf w)
    \<and> map_of (cache_entries (updatePackageInfoCache env info rf w')) key = Some (info, pkw_now w')
    \<and> (\<forall>k. k \<noteq> key \<longrightarrow> map_of (cache_entries (updatePackageInfoCache env info rf w')) k =
          (case map_of c k of None \<Rightarrow> None
           | Some (i, t) \<Rightarrow> if pkw_now w' - t > 604800000000000 then None else Some (i, t)))"
proof -
  obtain d where d: "pv_marshal env c = Inr d" using assms(2,3) by (auto simp: savePackageInfoCache_def split: sum.splits)
  with assms(2,3) obtain s where wr: "os_write_file (pv_cache_file env) d 420 (pkw_fs w) = (None, s)"
    and w': "w' = w\<lparr>pkw_info := None, pkw_fs := s\<rparr>"
    by (auto simp: savePackageInfoCache_def on_fs_def split: prod.splits)
  from read_written [OF wr assms(1)] obtain s2 where r: "os_read_file (pv_cache_file env) s = (Inr d, s2)" by blast
  have ld: "loadPackageInfoCache env w' = w'\<lparr>pkw_info := Some c, pkw_fs := s2\<rparr>"
    using r assms(4) [OF d] by (simp add: loadPackageInfoCache_def w' on_fs_def)
  have "fst (getPackageInfoFromCache env rf w') = fst (getPackageInfoFromCache env rf w)"
    using assms(2) by (simp add: getPackageInfoFromCache_def ld cache_entries_def Let_def loadPackageInfoCache_def [of env w] split: sum.splits)
  moreover have "map_of (cache_entries (updatePackageInfoCache env info rf w')) k =
      (if k = key then Some (info, pkw_now w')
       else case map_of c k of None \<Rightarrow> None
           | Some (i, t) \<Rightarrow> if pkw_now w' - t > 604800000000000 then None else Some (i, t))" for k
    using updatePackageInfoCache_map(2) [of env w' info rf k] assms(5,6)
    by (auto simp: ld cache_entries_def packageInfoCacheTimeout_def split: option.splits)
  ultimately show ?thesis by (simp add: w')
qed

definition info_machine :: pkg_world where
  "info_machine = demo_machine\<lparr>pkw_info := Some []\<rparr>"

corollary package_info_cache_roundtrip_witness:
  "pkw_info (snd (savePackageInfoCache (demo_env\<lparr>pv_marshal := (\<lambda>c. if c = [] then Inr ''{}'' else Inl (ErrMsg ''no''))\<rparr>) info_machine)) = None"
proof (rule package_info_cache_roundtrip [THEN conjunct1])
  show "no_fault (pkw_fs info_machine)" by (simp add: info_machine_def demo_machine_def no_fault_def)
  show "pkw_info info_machine = Some []" by (simp add: info_machine_def)
  let ?env = "demo_env\<lparr>pv_marshal := (\<lambda>c. if c = [] then Inr ''{}'' else Inl (ErrMsg ''no''))\<rparr>"
  have "fst (savePackageInfoCache ?env info_machine) = None" by code_simp
  then show "savePackageInfoCache ?env info_machine = (None, snd (savePackageInfoCache ?env info_machine))"
    by (metis prod.collapse)
  show "pv_unmarshal ?env d = Inr c" if "pv_marshal ?env c = Inr d" for c d
    using that by (simp add: demo_env_def split: if_splits)
  show "cache_ok []" by (simp add: cache_ok_def)
  show "pv_key ?env FileUnset = Inr []" by (simp add: demo_env_def)
qed

section \<open>Scripts\<close>

text \<open>
  What a script's exit code means: the resource is in the desired state only if the validate
  command was started and exited with 100, is not only if it exited with 101, and every other
  ending is an error. The output an enforcement records is a prefix of the output file, of at
  most 500 KiB, recorded only after an exit code of 100.
\<close>

theorem exec_verdict:
  assumes "exec_checkState env x s = ((b, e), s')" and "exec_enforceState env x s = ((b2, e2), x', s'')" and "xr_output x = None"
  shows "(b \<longleftrightarrow> (\<exists>cmd args out err m. exec_command env (xr_validate_path x) (xr_validate x) = Inr (cmd, args)
              \<and> xv_run env cmd args s = ((out, err, Some (ErrExit 100 m)), s')))
    \<and> (\<not> b \<and> e = None \<longleftrightarrow> (\<exists>cmd args out err m. exec_command env (xr_validate_path x) (xr_validate x) = Inr (cmd, args)
              \<and> xv_run env cmd args s = ((out, err, Some (ErrExit 101 m)), s')))
    \<and> (\<forall>o'. xr_output x' = Some o' \<longrightarrow> b2 \<and> length o' \<le> 500 * 1024
         \<and> (\<exists>cmd args out err m s1. exec_command env (xr_enforce_path x) (xr_enforce x) = Inr (cmd, args)
              \<and> xv_run env cmd args s = ((out, err, Some (ErrExit 100 m)), s1)))"
proof (intro conjI)
  show "b \<longleftrightarrow> (\<exists>cmd args out err m. exec_command env (xr_validate_path x) (xr_validate x) = Inr (cmd, args)
              \<and> xv_run env cmd args s = ((out, err, Some (ErrExit 100 m)), s'))"
    and "\<not> b \<and> e = None \<longleftrightarrow> (\<exists>cmd args out err m. exec_command env (xr_validate_path x) (xr_validate x) = Inr (cmd, args)
              \<and> xv_run env cmd args s = ((out, err, Some (ErrExit 101 m)), s'))"
    using assms(1)
    by (auto simp: exec_checkState_def exec_run_def split: sum.splits prod.splits option.splits go_error.splits if_splits)
  show "\<forall>o'. xr_output x' = Some o' \<longrightarrow> b2 \<and> length o' \<le> 500 * 1024
         \<and> (\<exists>cmd args out err m s1. exec_command env (xr_enforce_path x) (xr_enforce x) = Inr (cmd, args)
              \<and> xv_run env cmd args s = ((out, err, Some (ErrExit 100 m)), s1))"
    using assms(2,3)
    by (auto simp: exec_enforceState_def exec_run_def execOutput_def maxExecOutputSize_def Let_def
        split: sum.splits prod.splits option.splits go_error.splits if_splits)
qed

definition exec_demo_env :: pkg_env where
  "exec_demo_env = demo_env\<lparr>xv_run := (\<lambda>c a s. ((''out'', [], Some (ErrExit 100 ''exit status 100'')), s))\<rparr>"

definition exec_demo :: exec_resource where
  "exec_demo = (let x = \<lparr>xe_interpreter = INTERP_SHELL, xe_source = XScript ''exit 100'', xe_args = [], xe_output_path = ''/tmp/x''\<rparr>
     in (new_exec_resource (Some x) (Some x))\<lparr>xr_validate_path := ''/tmp/a/script.sh'', xr_enforce_path := ''/tmp/b/script.sh''\<rparr>)"

corollary exec_verdict_witness:
  "True \<longleftrightarrow> (\<exists>cmd args out err m. exec_command exec_demo_env ''/tmp/a/script.sh'' (xr_validate exec_demo) = Inr (cmd, args)
     \<and> xv_run exec_demo_env cmd args (pkw_fs demo_machine) = ((out, err, Some (ErrExit 100 m)), pkw_fs demo_machine))"
proof -
  have p: "xr_validate_path exec_demo = ''/tmp/a/script.sh''" by (simp add: exec_demo_def Let_def)
  have c: "exec_checkState exec_demo_env exec_demo (pkw_fs demo_machine) = ((True, None), pkw_fs demo_machine)"
    by (simp add: exec_checkState_def exec_run_def exec_command_def exec_demo_def exec_demo_env_def demo_env_def Let_def new_exec_resource_def)
  obtain b2 e2 x' s'' where e: "exec_enforceState exec_demo_env exec_demo (pkw_fs demo_machine) = ((b2, e2), x', s'')"
    by (metis prod.collapse)
  have "xr_output exec_demo = None" by (simp add: exec_demo_def new_exec_resource_def Let_def)
  from exec_verdict [OF c e this] show ?thesis unfolding p by blast
qed

text \<open>
  An error before the command starts is returned with code 0, and \<open>checkState\<close> looks only at the
  code: the error is replaced by one about an unexpected return code.
\<close>

lemma exec_error_lost:
  "exec_command env (xr_validate_path x) (xr_validate x) = Inl e
    \<Longrightarrow> exec_checkState env x s = ((False, Some (unexpected_code ''validate'' 0 [] [])), s)"
  by (simp add: exec_checkState_def exec_run_def)

end
