(* ===== verification/OsInfo.thy ===== *)
theory OsInfo
  imports FileSys
begin

text \<open>
  Operating system information, \<open>osinfo/osinfo.go\<close> and \<open>osinfo/osinfo_linux.go\<close>: the name and the
  version from the release files, the rest from \<open>uname\<close>.

  \<^item> A \<open>Utsname\<close> field of 65 bytes is its string with the trailing zero bytes.
  \<^item> \<open>bufio.Scanner\<close> yields the lines without their end, and stops at one of 64 KiB or more.
\<close>

section \<open>osinfo.go\<close>

record os_info =
  oi_hostname :: string
  oi_long :: string
  oi_short :: string
  oi_version :: string
  oi_kernel_version :: string
  oi_kernel_release :: string
  oi_arch :: string

definition DefaultShortNameLinux :: string where
  "DefaultShortNameLinux = ''linux''"

definition NormalizeArchitecture :: "string \<Rightarrow> string" where
  "NormalizeArchitecture arch =
     (if arch \<in> {''amd64'', ''64-bit''} then ''x86_64''
      else if arch \<in> {''i386'', ''i686'', ''32-bit''} then ''x86_32''
      else if arch = ''noarch'' then ''all''
      else arch)"

section \<open>The release files\<close>

text \<open>\<open>bufio.ScanLines\<close>: the text after the last line end is a line unless it is empty.\<close>

definition drop_cr :: "string \<Rightarrow> string" where
  "drop_cr l = (if l \<noteq> [] \<and> last l = CHR 0x0D then butlast l else l)"

definition scan_lines :: "string \<Rightarrow> string list" where
  "scan_lines s =
     (let ls = split_on (CHR 0x0A) s; all = (if last ls = [] then butlast ls else ls)
      in map drop_cr (takeWhile (\<lambda>l. length l < 65536) all))"

text \<open>
  The loop over the entries. \<open>entry[1]\<close> of a line without an equals sign is out of range; the
  loop ends once all three values are known.
\<close>

fun os_release_loop :: "string list \<Rightarrow> string \<times> string \<times> string \<Rightarrow> (string \<times> string \<times> string) outcome" where
  "os_release_loop [] acc = Done acc"
| "os_release_loop (l # ls) (short, long, ver) =
     (case split_on (CHR ''='') l of
        [] \<Rightarrow> Panic ''index out of range''
      | key # rest \<Rightarrow>
          if key = [] then os_release_loop ls (short, long, ver)
          else
            (case (if key \<in> {''PRETTY_NAME'', ''VERSION_ID'', ''ID''}
                   then (case rest of [] \<Rightarrow> Panic ''index out of range'' | v # _ \<Rightarrow> Done (trim [CHR 0x22] v))
                   else Done []) of
               Panic p \<Rightarrow> Panic p
             | Done v \<Rightarrow>
                 (let short' = (if key = ''ID'' then v else short);
                      long' = (if key = ''PRETTY_NAME'' then v else long);
                      ver' = (if key = ''VERSION_ID'' then v else ver)
                  in if long' \<noteq> [] \<and> ver' \<noteq> [] \<and> short' \<noteq> [] then Done (short', long', ver')
                     else os_release_loop ls (short', long', ver'))))"

definition parseOsRelease :: "string \<Rightarrow> (string \<times> string \<times> string) outcome" where
  "parseOsRelease details =
     obind (os_release_loop (scan_lines details) ([], [], []))
       (\<lambda>(short, long, ver). Done (if short = [] then DefaultShortNameLinux else short, long, ver))"

text \<open>The regular expression \<open>\d+(\.\d+)?(\.\d+)?\<close>, leftmost match.\<close>

definition is_digit :: "char \<Rightarrow> bool" where
  "is_digit c \<longleftrightarrow> digit_val c \<noteq> None"

definition dot_digits :: "string \<Rightarrow> string \<times> string" where
  "dot_digits s =
     (case s of
        c # cs \<Rightarrow>
          if c = CHR ''.'' \<and> takeWhile is_digit cs \<noteq> []
          then (CHR ''.'' # takeWhile is_digit cs, dropWhile is_digit cs) else ([], s)
      | [] \<Rightarrow> ([], s))"

definition find_version :: "string \<Rightarrow> string" where
  "find_version s =
     (let t = dropWhile (\<lambda>c. \<not> is_digit c) s;
          (a, r1) = dot_digits (dropWhile is_digit t);
          (b, r2) = dot_digits r1
      in takeWhile is_digit t @ a @ b)"

definition parseEnterpriseRelease :: "string \<Rightarrow> string \<times> string \<times> string" where
  "parseEnterpriseRelease details =
     (if contains_str details ''CentOS'' then ''centos''
      else if contains_str details ''Red Hat'' then ''rhel''
      else if contains_str details ''Oracle'' then ''ol''
      else DefaultShortNameLinux,
      replace_first '' release '' '' '' details, find_version details)"

definition defaultReleaseFilepath :: string where "defaultReleaseFilepath = ''/etc/os-release''"
definition oracleReleaseFilepath :: string where "oracleReleaseFilepath = ''/etc/oracle-release''"
definition redHatReleaseFilepath :: string where "redHatReleaseFilepath = ''/etc/redhat-release''"

definition read_release :: "string \<Rightarrow> (string \<Rightarrow> (string \<times> string \<times> string) outcome) \<Rightarrow> fs
    \<Rightarrow> (string \<times> string \<times> string) outcome \<times> fs" where
  "read_release path parse s =
     (case os_read_file path s of
        (Inl e, s1) \<Rightarrow> (Done (DefaultShortNameLinux, [], []), s1)
      | (Inr b, s1) \<Rightarrow> (parse b, s1))"

definition osNameAndVersion :: "fs \<Rightarrow> (string \<times> string \<times> string) outcome \<times> fs" where
  "osNameAndVersion s =
     (case Exists defaultReleaseFilepath s of
        (True, s1) \<Rightarrow> read_release defaultReleaseFilepath parseOsRelease s1
      | (False, s1) \<Rightarrow>
          (case Exists oracleReleaseFilepath s1 of
             (True, s2) \<Rightarrow> read_release oracleReleaseFilepath (Done \<circ> parseEnterpriseRelease) s2
           | (False, s2) \<Rightarrow>
               (case Exists redHatReleaseFilepath s2 of
                  (True, s3) \<Rightarrow> read_release redHatReleaseFilepath (Done \<circ> parseEnterpriseRelease) s3
                | (False, s3) \<Rightarrow> (Done (DefaultShortNameLinux, [], []), s3))))"

section \<open>The provider\<close>

record utsname =
  ut_nodename :: string
  ut_release :: string
  ut_version :: string
  ut_machine :: string

definition stringFromUtsField :: "string \<Rightarrow> string" where
  "stringFromUtsField f = trim_right (\<lambda>c. c = CHR 0x00) f"

definition empty_os_info :: os_info where
  "empty_os_info = \<lparr>oi_hostname = [], oi_long = [], oi_short = [], oi_version = [], oi_kernel_version = [],
     oi_kernel_release = [], oi_arch = []\<rparr>"

definition os_info_of :: "utsname \<Rightarrow> string \<times> string \<times> string \<Rightarrow> os_info" where
  "os_info_of uts nv = (case nv of (short, long, ver) \<Rightarrow>
     \<lparr>oi_hostname = stringFromUtsField (ut_nodename uts), oi_long = long, oi_short = short, oi_version = ver,
       oi_kernel_version = stringFromUtsField (ut_version uts),
       oi_kernel_release = stringFromUtsField (ut_release uts),
       oi_arch = NormalizeArchitecture (stringFromUtsField (ut_machine uts))\<rparr>)"

text \<open>\<open>Get\<close>: \<open>uname\<close> first, then the release files.\<close>

definition os_get :: "utsname res \<Rightarrow> fs \<Rightarrow> os_info res outcome \<times> fs" where
  "os_get uname s =
     (case uname of
        Inl e \<Rightarrow> (Done (Inl (ErrWrap ''unable to extract osinfo, err:  unable to get unix.Uname, err'' e)), s)
      | Inr uts \<Rightarrow>
          (case osNameAndVersion s of (nv, s1) \<Rightarrow> (obind nv (\<lambda>x. Done (Inr (os_info_of uts x))), s1)))"

end
