(* ===== verification/PkgParse.thy ===== *)
theory PkgParse
  imports OsInfo "HOL-Library.AList"
begin

text \<open>
  The parsers of package \<open>packages\<close>: what the output of dpkg, apt-get, yum, rpm, zypper, googet
  and gem means (\<open>apt_deb.go\<close>, \<open>yum.go\<close>, \<open>rpm.go\<close>, \<open>zypper.go\<close>, \<open>googet.go\<close>, \<open>gem.go\<close> and
  \<open>packages.go\<close>). Each is a function on the bytes of the output; an index or a slice bound out
  of range is a \<open>Panic\<close>. A line of JSON is decoded by a parameter, the decoder of
  \<open>encoding/json\<close> at the type \<open>packageMetadata\<close>.
\<close>

section \<open>Packages\<close>

record pkg_info =
  pi_name :: string
  pi_arch :: string
  pi_raw_arch :: string
  pi_version :: string
  pi_type :: string
  pi_purl :: string
  pi_source_name :: string
  pi_source_version :: string
  pi_location :: "string list option"

definition new_pkg :: "string \<Rightarrow> string \<Rightarrow> string \<Rightarrow> string \<Rightarrow> pkg_info" where
  "new_pkg name arch version type = \<lparr>pi_name = name, pi_arch = arch, pi_raw_arch = [], pi_version = version,
     pi_type = type, pi_purl = [], pi_source_name = [], pi_source_version = [], pi_location = None\<rparr>"

definition typeRPM :: string where "typeRPM = ''rpm''"
definition typeDebian :: string where "typeDebian = ''deb''"
definition typeGooGet :: string where "typeGooGet = ''googet''"
definition typeGem :: string where "typeGem = ''gem''"
definition typePypi :: string where "typePypi = ''pypi''"
definition typeCos :: string where "typeCos = ''cos''"

definition noarch :: string where
  "noarch = NormalizeArchitecture ''noarch''"

record zypper_patch =
  zp_name :: string
  zp_category :: string
  zp_severity :: string
  zp_summary :: string
  zp_purl :: string

record package_metadata =
  pm_package :: string
  pm_architecture :: string
  pm_version :: string
  pm_status :: string
  pm_source_name :: string
  pm_source_version :: string

definition pkgInfoFromPackageMetadata :: "package_metadata \<Rightarrow> string \<Rightarrow> pkg_info" where
  "pkgInfoFromPackageMetadata pm type =
     (new_pkg (pm_package pm) (NormalizeArchitecture (pm_architecture pm)) (pm_version pm) type)
       \<lparr>pi_source_name := pm_source_name pm, pi_source_version := pm_source_version pm\<rparr>"

text \<open>\<open>bytes.Split(bytes.TrimSpace(data), "\n")\<close>.\<close>

definition lines_of :: "string \<Rightarrow> string list" where
  "lines_of data = split_on (CHR 0x0A) (trim_space data)"

text \<open>Sorted field descriptors, so the order of the Go map does not show.\<close>

fun insert_string :: "string \<Rightarrow> string list \<Rightarrow> string list" where
  "insert_string x [] = [x]"
| "insert_string x (y # ys) =
     (if lexordp (<) (map (of_char :: char \<Rightarrow> nat) y) (map of_char x) then y # insert_string x ys else x # y # ys)"

definition formatFieldsMapping :: "(string \<times> string) list \<Rightarrow> string" where
  "formatFieldsMapping m =
     [CHR 0x5C, CHR ''{'']
     @ join '','' (foldr insert_string (map (\<lambda>(name, selector). [CHR 0x22] @ name @ [CHR 0x22, CHR '':'', CHR 0x22] @ selector @ [CHR 0x22]) m) [])
     @ [CHR 0x5C, CHR ''}'', CHR 0x0A]"

section \<open>apt_deb.go\<close>

fun dpkg_deb_loop :: "string list \<Rightarrow> pkg_info \<Rightarrow> pkg_info" where
  "dpkg_deb_loop [] info = info"
| "dpkg_deb_loop (ln # lns) info =
     (if pi_name info \<noteq> [] \<and> pi_version info \<noteq> [] \<and> pi_arch info \<noteq> [] then info
      else
        (case str_fields ln of
           [k, v] \<Rightarrow>
             if contains_str k ''Package:'' then dpkg_deb_loop lns (info\<lparr>pi_name := to_lower v\<rparr>)
             else if contains_str k ''Version:'' then dpkg_deb_loop lns (info\<lparr>pi_version := v\<rparr>)
             else if contains_str k ''Architecture:'' then dpkg_deb_loop lns (info\<lparr>pi_arch := NormalizeArchitecture v\<rparr>)
             else dpkg_deb_loop lns info
         | _ \<Rightarrow> dpkg_deb_loop lns info))"

definition parseDpkgDeb :: "string \<Rightarrow> pkg_info res" where
  "parseDpkgDeb data =
     (let info = dpkg_deb_loop (lines_of data) (new_pkg [] [] [] []) in
      if pi_name info = [] \<or> pi_version info = [] \<or> pi_arch info = []
      then Inl (ErrMsg (''could not parse dpkg-deb output: '' @ quote data))
      else Inr (info\<lparr>pi_type := typeDebian\<rparr>))"

text \<open>One line of \<open>apt-get --just-print\<close>; \<open>None\<close> when the line is skipped.\<close>

definition apt_update_line :: "bool \<Rightarrow> string \<Rightarrow> pkg_info option outcome" where
  "apt_update_line showNew ln =
     (let pkg0 = str_fields ln in
      if length pkg0 < 5 \<or> hd pkg0 \<noteq> ''Inst'' then Done None
      else
        (let pkg1 = tl pkg0;
             upgrade = has_prefix (pkg1 ! 1) ''['';
             pkg2 = (if upgrade then take 1 pkg1 @ drop 2 pkg1 else pkg1)
         in if \<not> upgrade \<and> \<not> showNew then Done None
            else if pkg2 = [] then Panic ''index out of range''
            else
              (let pkg3 = (if contains_str (last pkg2) ''[]'' then butlast pkg2 else pkg2) in
               if length pkg3 < 2 then Panic ''index out of range''
               else if \<not> has_prefix (pkg3 ! 1) ''('' \<or> \<not> has_suffix (last pkg3) '')'' then Done None
               else Done (Some (new_pkg (hd pkg3) (NormalizeArchitecture (trim ''[])'' (last pkg3)))
                                  (trim ''('' (pkg3 ! 1)) typeDebian)))))"

fun collect :: "('a \<Rightarrow> 'b option outcome) \<Rightarrow> 'a list \<Rightarrow> 'b list outcome" where
  "collect f [] = Done []"
| "collect f (x # xs) =
     obind (f x) (\<lambda>r. obind (collect f xs) (\<lambda>rs. Done (case r of None \<Rightarrow> rs | Some y \<Rightarrow> y # rs)))"

definition parseAptUpdates :: "string \<Rightarrow> bool \<Rightarrow> pkg_info list outcome" where
  "parseAptUpdates data showNew = collect (apt_update_line showNew) (lines_of data)"

definition parseInstalledDebPackages :: "(string \<Rightarrow> package_metadata res) \<Rightarrow> string \<Rightarrow> pkg_info list" where
  "parseInstalledDebPackages unmarshal data =
     concat (map (\<lambda>entry. case unmarshal entry of
                    Inl e \<Rightarrow> []
                  | Inr dpkg \<Rightarrow> (if pm_status dpkg \<noteq> ''installed'' then [] else [pkgInfoFromPackageMetadata dpkg typeDebian]))
             (lines_of data))"

section \<open>rpm.go\<close>

definition normalizeRpmMetadata :: "package_metadata \<Rightarrow> package_metadata" where
  "normalizeRpmMetadata rpm =
     (let r1 = (if pm_architecture rpm = ''(none)'' then rpm\<lparr>pm_architecture := ''noarch''\<rparr> else rpm)
      in if pm_source_name r1 = ''(none)'' then r1\<lparr>pm_source_name := pm_package r1\<rparr> else r1)"

definition parseInstalledRPMPackages :: "(string \<Rightarrow> package_metadata res) \<Rightarrow> string \<Rightarrow> pkg_info list" where
  "parseInstalledRPMPackages unmarshal data =
     concat (map (\<lambda>entry. case unmarshal entry of
                    Inl e \<Rightarrow> []
                  | Inr rpm \<Rightarrow> [pkgInfoFromPackageMetadata (normalizeRpmMetadata rpm) typeRPM])
             (lines_of data))"

section \<open>yum.go\<close>

definition yum_keywords :: "string list" where
  "yum_keywords = [''Upgrading:'', ''Updating:'', ''Installing:'', ''Installing dependencies:'', ''Installing weak dependencies:'']"

fun yum_loop :: "bool \<Rightarrow> string list \<Rightarrow> pkg_info list" where
  "yum_loop upgrading [] = []"
| "yum_loop upgrading (ln # lns) =
     (let pkg = str_fields ln in
      if pkg = [] then yum_loop upgrading lns
      else if join '' '' pkg \<in> set yum_keywords then yum_loop True lns
      else if \<not> upgrading then yum_loop upgrading lns
      else if length pkg < 6 then (if hd pkg = ''replacing'' then yum_loop upgrading lns else [])
      else (new_pkg (pkg ! 0) (NormalizeArchitecture (pkg ! 1)) (pkg ! 2) typeRPM)\<lparr>pi_raw_arch := pkg ! 1\<rparr>
           # yum_loop upgrading lns)"

definition parseYumUpdates :: "string \<Rightarrow> pkg_info list" where
  "parseYumUpdates data = yum_loop False (lines_of data)"

fun yum_tx_loop :: "string list \<Rightarrow> string" where
  "yum_tx_loop [] = []"
| "yum_tx_loop (ln # lns) =
     (case str_fields ln of
        [a, b, c] \<Rightarrow> if b = ''load-transaction'' \<and> has_prefix c ''/tmp/yum_save_tx.'' then c else yum_tx_loop lns
      | _ \<Rightarrow> yum_tx_loop lns)"

definition getYumTXFile :: "string \<Rightarrow> string" where
  "getYumTXFile data = yum_tx_loop (lines_of data)"

section \<open>googet.go\<close>

definition googet_update_line :: "string \<Rightarrow> pkg_info option" where
  "googet_update_line ln =
     (let pkg = str_fields ln in
      if length pkg < 4 then None
      else (case split_on (CHR ''.'') (hd pkg) of
              [name, arch] \<Rightarrow> Some (new_pkg name (trim '','' arch) (pkg ! 3) typeGooGet)
            | _ \<Rightarrow> None))"

definition parseGooGetUpdates :: "string \<Rightarrow> pkg_info list" where
  "parseGooGetUpdates data = List.map_filter googet_update_line (lines_of data)"

definition googet_installed_line :: "string \<Rightarrow> pkg_info option" where
  "googet_installed_line ln =
     (case str_fields ln of
        [p, ver] \<Rightarrow> (case split_on (CHR ''.'') p of [name, arch] \<Rightarrow> Some (new_pkg name arch ver typeGooGet) | _ \<Rightarrow> None)
      | _ \<Rightarrow> None)"

definition parseInstalledGooGetPackages :: "string \<Rightarrow> pkg_info list" where
  "parseInstalledGooGetPackages data = List.map_filter googet_installed_line (lines_of data)"

section \<open>gem.go and pip.go\<close>

definition gem_update_line :: "string \<Rightarrow> pkg_info option" where
  "gem_update_line ln =
     (case str_fields ln of [n, a, b, v] \<Rightarrow> Some (new_pkg n noarch (trim '')'' v) typeGem) | _ \<Rightarrow> None)"

definition parseGemUpdates :: "string \<Rightarrow> pkg_info list" where
  "parseGemUpdates data = (if trim_space data = [] then [] else List.map_filter gem_update_line (lines_of data))"

text \<open>\<open>entry[:-1]\<close> of an entry without a parenthesis is a slice bound out of range.\<close>

definition parseGemEntry :: "string \<Rightarrow> pkg_info list outcome" where
  "parseGemEntry entry =
     (case index_of ''('' entry of
        None \<Rightarrow> Panic ''slice bounds out of range''
      | Some i \<Rightarrow>
          Done (map (\<lambda>v. new_pkg (trim_space (take i entry)) noarch (trim_prefix ''default: '' (trim_space v)) typeGem)
                  (split_on (CHR '','') (trim ''()'' (drop i entry)))))"

definition parseInstalledGems :: "string \<Rightarrow> pkg_info list outcome" where
  "parseInstalledGems data =
     (let lines = lines_of data in
      if length lines < 3 then Done []
      else obind (collect (\<lambda>ln. obind (parseGemEntry ln) (\<lambda>gs. Done (Some gs))) (drop 2 lines)) (\<lambda>gss. Done (concat gss)))"

definition pip_packages :: "(string \<times> string) list \<Rightarrow> pkg_info list" where
  "pip_packages ps = map (\<lambda>(name, version). new_pkg name noarch version typePypi) ps"

section \<open>zypper.go\<close>

definition zypper_update_line :: "string \<Rightarrow> pkg_info option" where
  "zypper_update_line ln =
     (case split_on (CHR 0x7C) ln of
        [s, repo, name, current, available, arch] \<Rightarrow>
          if trim_space s \<noteq> ''v'' then None
          else Some (new_pkg (trim_space name) (NormalizeArchitecture (trim_space arch)) (trim_space available) typeRPM)
      | _ \<Rightarrow> None)"

definition parseZypperUpdates :: "string \<Rightarrow> pkg_info list" where
  "parseZypperUpdates data = List.map_filter zypper_update_line (lines_of data)"

definition parseZypperPatch :: "string \<Rightarrow> (zypper_patch \<times> string) res" where
  "parseZypperPatch ln =
     (let patch = split_on (CHR 0x7C) ln in
      if length patch < 7 \<or> length patch > 8
      then Inl (ErrMsg (''not parsable zypper patch line; expected 7 or 8 segments, got - '' @ show_nat (length patch)
                        @ ''; this usually isn't an error; line: '' @ ln))
      else Inr (\<lparr>zp_name = trim_space (patch ! 1), zp_category = trim_space (patch ! 2), zp_severity = trim_space (patch ! 3),
                  zp_summary = trim_space (patch ! (if length patch = 8 then 7 else 6)), zp_purl = []\<rparr>,
                trim_space (patch ! 5)))"

definition patches_with :: "string \<Rightarrow> string \<Rightarrow> zypper_patch list" where
  "patches_with status data =
     List.map_filter (\<lambda>ln. case parseZypperPatch ln of Inr (p, st) \<Rightarrow> (if st = status then Some p else None) | Inl e \<Rightarrow> None)
       (lines_of data)"

text \<open>Installed and available.\<close>

definition parseZypperPatches :: "string \<Rightarrow> zypper_patch list \<times> zypper_patch list" where
  "parseZypperPatches data = (patches_with ''applied'' data, patches_with ''needed'' data)"

text \<open>
  The regular expressions of \<open>parseZypperPatchInfo\<close>. \<open>\s\<close> is without the vertical tab; the
  optional blanks at the ends of a pattern do not matter for whether it is found.
\<close>

definition re_space :: "char \<Rightarrow> bool" where
  "re_space c \<longleftrightarrow> c \<in> {CHR '' '', CHR 0x09, CHR 0x0A, CHR 0x0C, CHR 0x0D}"

definition after_word :: "string \<Rightarrow> string \<Rightarrow> string option" where
  "after_word word s =
     (if has_prefix s word
      then (case dropWhile re_space (drop (length word) s) of
              c # r \<Rightarrow> if c = CHR '':'' then Some (dropWhile re_space r) else None
            | [] \<Rightarrow> None)
      else None)"

text \<open>\<open>\s*Name\s*:\s*\<close> somewhere in the line.\<close>

fun is_name_line :: "string \<Rightarrow> bool" where
  "is_name_line [] = False"
| "is_name_line (c # cs) \<longleftrightarrow> after_word ''Name'' (c # cs) \<noteq> None \<or> is_name_line cs"

text \<open>\<open>\s*Conflicts\s*:\s*\[\d*\]\s*\<close> somewhere in the line.\<close>

fun is_conflict_line :: "string \<Rightarrow> bool" where
  "is_conflict_line [] = False"
| "is_conflict_line (c # cs) \<longleftrightarrow>
     (case after_word ''Conflicts'' (c # cs) of
        Some (b # r) \<Rightarrow> b = CHR ''['' \<and> has_prefix (dropWhile is_digit r) '']''
      | _ \<Rightarrow> False)
     \<or> is_conflict_line cs"

text \<open>All the matches of \<open>\[[0-9]+\]\<close>, as the digits between the brackets.\<close>

function bracket_numbers :: "string \<Rightarrow> string list" where
  "bracket_numbers [] = []"
| "bracket_numbers (c # cs) =
     (if c = CHR ''['' \<and> takeWhile is_digit cs \<noteq> [] \<and> has_prefix (dropWhile is_digit cs) '']''
      then takeWhile is_digit cs # bracket_numbers (tl (dropWhile is_digit cs))
      else bracket_numbers cs)"
  by pat_completeness auto
termination
proof (relation "measure length")
  fix c :: char and cs
  have "length (dropWhile is_digit cs) \<le> length cs" by (rule length_dropWhile_le)
  then show "(tl (dropWhile is_digit cs), c # cs) \<in> measure length" by simp
qed auto

text \<open>The package of a conflict line.\<close>

definition conflict_package :: "string \<Rightarrow> string res" where
  "conflict_package line =
     (let bad = Inl (ErrMsg (''invalid package info, can't parse line: '' @ line)) in
      case split_on (CHR ''<'') line of
        [nameArch, ver] \<Rightarrow>
          if contains_str nameArch ''srcpackage:'' then
            (let i = (case index_of '':'' nameArch of Some i \<Rightarrow> i | None \<Rightarrow> 0);
                 n = trim '' '' (drop (Suc i) nameArch)
             in if n = [] then bad else Inr n)
          else
            (case last_index_char (CHR ''.'') nameArch of
               None \<Rightarrow> Inr (trim '' '' nameArch)
             | Some i \<Rightarrow> Inr (trim '' '' (take i nameArch)))
      | _ \<Rightarrow> bad)"

type_synonym patch_map = "(string \<times> string list) list"

definition add_patch :: "string \<Rightarrow> string \<Rightarrow> patch_map \<Rightarrow> patch_map" where
  "add_patch pkg patch m =
     AList.update pkg ((case map_of m pkg of None \<Rightarrow> [] | Some ps \<Rightarrow> ps) @ [patch]) m"

text \<open>
  The conflict lines of one patch: \<open>n\<close> of them are read, whether or not there are that many.
\<close>

fun conflict_loop :: "string \<Rightarrow> nat \<Rightarrow> string list \<Rightarrow> patch_map \<Rightarrow> patch_map res outcome" where
  "conflict_loop patch 0 lns m = Done (Inr m)"
| "conflict_loop patch (Suc n) [] m = Panic ''index out of range''"
| "conflict_loop patch (Suc n) (ln # lns) m =
     (case conflict_package ln of
        Inl e \<Rightarrow> Done (Inl e)
      | Inr pkg \<Rightarrow> conflict_loop patch n lns (add_patch pkg patch m))"

text \<open>
  The blobs, one per patch. A blob without a conflict line ends the parsing with a nil map and no
  error.
\<close>

function patch_info_loop :: "string list \<Rightarrow> patch_map \<Rightarrow> patch_map option res outcome" where
  "patch_info_loop lns m =
     (case dropWhile (\<lambda>ln. \<not> is_name_line ln) lns of
        [] \<Rightarrow> Done (if m = [] then Inl (ErrMsg ''invalid patch information, did not find patch blobs'') else Inr (Some m))
      | nameLine # rest \<Rightarrow>
          (case split_on (CHR '':'') nameLine of
             [k, v] \<Rightarrow>
               (case dropWhile (\<lambda>ln. \<not> is_conflict_line ln) rest of
                  [] \<Rightarrow> Done (Inr None)
                | conflictLine # rest2 \<Rightarrow>
                    (case bracket_numbers conflictLine of
                       [ds] \<Rightarrow>
                         (case parse_int 10 64 ds of
                            None \<Rightarrow> Done (Inl (ErrMsg ''invalid patch info: invalid conflict info''))
                          | Some n \<Rightarrow>
                              (case conflict_loop (trim '' '' v) (nat n) rest2 m of
                                 Panic p \<Rightarrow> Panic p
                               | Done (Inl e) \<Rightarrow> Done (Inl e)
                               | Done (Inr m1) \<Rightarrow> patch_info_loop (drop (nat n) rest2) m1))
                     | _ \<Rightarrow> Done (Inl (ErrMsg ''invalid patch info''))))
           | _ \<Rightarrow> Done (Inl (ErrMsg ''invalid name output''))))"
  by pat_completeness auto
termination
proof (relation "measure (\<lambda>(lns, m). length lns)")
  fix lns :: "string list" and m m1 :: patch_map and nl rest cl rest2 n
  assume a: "dropWhile (\<lambda>ln. \<not> is_name_line ln) lns = nl # rest" "dropWhile (\<lambda>ln. \<not> is_conflict_line ln) rest = cl # rest2"
  have "length rest < length lns" using length_dropWhile_le [of "\<lambda>ln. \<not> is_name_line ln" lns] a(1) by simp
  moreover have "length rest2 < length rest" using length_dropWhile_le [of "\<lambda>ln. \<not> is_conflict_line ln" rest] a(2) by simp
  ultimately show "((drop (nat n) rest2, m1), lns, m) \<in> measure (\<lambda>(lns, m). length lns)" by simp
qed simp

declare patch_info_loop.simps [simp del]

definition parseZypperPatchInfo :: "string \<Rightarrow> patch_map option res outcome" where
  "parseZypperPatchInfo out = patch_info_loop (lines_of out) []"

end
