(* ===== verification/PkgCmd.thy ===== *)
theory PkgCmd
  imports PkgParse
begin

text \<open>
  The commands of package \<open>packages\<close>: what is run, with which arguments, how often, and what its
  output and its exit code become (\<open>packages.go\<close>, \<open>apt_deb.go\<close>, \<open>yum.go\<close>, \<open>rpm.go\<close>, \<open>zypper.go\<close>,
  \<open>googet.go\<close>, \<open>gem.go\<close>, \<open>pip.go\<close>, \<open>cos.go\<close> and \<open>packages_linux.go\<close>).

  \<^item> \<open>tools\<close> is the machine: the two command runners, the tools found at start, and the decoders
    and the package URLs that other modules compute. \<open>'x\<close> is its state.
  \<^item> \<open>mc_log\<close> is a history variable: the commands handed to a runner, in order.
  \<^item> A deadline (gem, pip) only makes a command fail, which the runner may always do.
\<close>

text \<open>A path of Windows, from its parts.\<close>

definition windows_path :: "string list \<Rightarrow> string" where
  "windows_path parts = join [CHR 0x5C] parts"

section \<open>Running commands\<close>

record command =
  cmd_path :: string
  cmd_args :: "string list"
  cmd_env :: "string list"

type_synonym cmd_result = "string \<times> string \<times> go_error option"

record 'x tools =
  tl_run :: "command \<Rightarrow> 'x \<Rightarrow> cmd_result \<times> 'x"
  tl_pty :: "command \<Rightarrow> 'x \<Rightarrow> cmd_result \<times> 'x"
  tl_remove :: "string \<Rightarrow> 'x \<Rightarrow> go_error option \<times> 'x"
  tl_unmarshal :: "string \<Rightarrow> package_metadata res"
  tl_pip_unmarshal :: "string \<Rightarrow> (string \<times> string) list res"
  tl_cos :: "'x \<Rightarrow> (string \<times> string \<times> string) list res \<times> 'x"
  tl_arch :: "'x \<Rightarrow> string res \<times> 'x"
  tl_purl :: "string \<Rightarrow> string \<Rightarrow> string \<Rightarrow> string \<Rightarrow> (string \<times> string) list \<Rightarrow> string"
  tl_apt :: bool
  tl_dpkg_query :: bool
  tl_yum :: bool
  tl_zypper :: bool
  tl_rpm_query :: bool
  tl_cos_info :: bool
  tl_gem :: bool
  tl_pip :: bool

record 'x machine =
  mc_rest :: 'x
  mc_log :: "command list"

definition runner_run :: "'x tools \<Rightarrow> command \<Rightarrow> 'x machine \<Rightarrow> cmd_result \<times> 'x machine" where
  "runner_run env c m = (case tl_run env c (mc_rest m) of (r, x) \<Rightarrow> (r, m\<lparr>mc_rest := x, mc_log := mc_log m @ [c]\<rparr>))"

definition pty_run :: "'x tools \<Rightarrow> command \<Rightarrow> 'x machine \<Rightarrow> cmd_result \<times> 'x machine" where
  "pty_run env c m = (case tl_pty env c (mc_rest m) of (r, x) \<Rightarrow> (r, m\<lparr>mc_rest := x, mc_log := mc_log m @ [c]\<rparr>))"

definition cmd :: "string \<Rightarrow> string list \<Rightarrow> command" where
  "cmd path args = \<lparr>cmd_path = path, cmd_args = args, cmd_env = []\<rparr>"

text \<open>\<open>%q\<close> of a slice of strings.\<close>

definition quote_list :: "string list \<Rightarrow> string" where
  "quote_list xs = ''['' @ join '' '' (map quote xs) @ '']''"

definition run_error :: "string \<Rightarrow> string list \<Rightarrow> go_error \<Rightarrow> string \<Rightarrow> string \<Rightarrow> go_error" where
  "run_error path args err out eout =
     ErrMsg (''error running '' @ path @ '' with args '' @ quote_list args @ '': '' @ err_text err
             @ '', stdout: '' @ quote out @ '', stderr: '' @ quote eout)"

definition run_pkg :: "'x tools \<Rightarrow> string \<Rightarrow> string list \<Rightarrow> 'x machine \<Rightarrow> string res \<times> 'x machine" where
  "run_pkg env path args m =
     (case runner_run env (cmd path args) m of
        ((out, eout, Some e), m1) \<Rightarrow> (Inl (run_error path args e out eout), m1)
      | ((out, eout, None), m1) \<Rightarrow> (Inr out, m1))"

definition run_unit :: "'x tools \<Rightarrow> string \<Rightarrow> string list \<Rightarrow> 'x machine \<Rightarrow> go_error option \<times> 'x machine" where
  "run_unit env path args m =
     (case run_pkg env path args m of (Inl e, m1) \<Rightarrow> (Some e, m1) | (Inr _, m1) \<Rightarrow> (None, m1))"

section \<open>apt and dpkg\<close>

definition dpkg :: string where "dpkg = ''/usr/bin/dpkg''"
definition dpkgQuery :: string where "dpkgQuery = ''/usr/bin/dpkg-query''"
definition dpkgDeb :: string where "dpkgDeb = ''/usr/bin/dpkg-deb''"
definition aptGet :: string where "aptGet = ''/usr/bin/apt-get''"
definition dpkgInstallArgs :: "string list" where "dpkgInstallArgs = [''--install'']"
definition dpkgRepairArgs :: "string list" where "dpkgRepairArgs = [''--configure'', ''-a'']"
definition aptGetInstallArgs :: "string list" where "aptGetInstallArgs = [''install'', ''-y'']"
definition aptGetRemoveArgs :: "string list" where "aptGetRemoveArgs = [''remove'', ''-y'']"
definition aptGetUpdateArgs :: "string list" where "aptGetUpdateArgs = [''update'']"
definition aptGetUpgradableArgs :: "string list" where "aptGetUpgradableArgs = [''--just-print'', ''-qq'']"
definition allowDowngradesArg :: string where "allowDowngradesArg = ''--allow-downgrades''"
definition dpkgErr :: string where "dpkgErr = ''dpkg --configure -a''"

definition dpkgQueryArgs :: "string list" where
  "dpkgQueryArgs = [''-W'', ''-f'', formatFieldsMapping
     [(''package'', ''${Package}''), (''architecture'', ''${Architecture}''), (''version'', ''${Version}''),
      (''status'', ''${db:Status-Status}''), (''source_name'', ''${source:Package}''), (''source_version'', ''${source:Version}'')]]"

definition downgradesMsg :: string where
  "downgradesMsg = ''E: Packages were downgraded and -y was used without --allow-downgrades.''"

definition dpkgRepair :: "'x tools \<Rightarrow> string \<Rightarrow> 'x machine \<Rightarrow> bool \<times> 'x machine" where
  "dpkgRepair env out m =
     (if \<not> contains_str out dpkgErr then (False, m)
      else (True, snd (run_pkg env dpkg dpkgRepairArgs m)))"

text \<open>Every call of this file sets the same environment variable, a modifier of the command.\<close>

definition apt_cmd :: "string list \<Rightarrow> command" where
  "apt_cmd args = \<lparr>cmd_path = aptGet, cmd_args = args, cmd_env = [''DEBIAN_FRONTEND=noninteractive'']\<rparr>"

definition runAptGet :: "'x tools \<Rightarrow> string list \<Rightarrow> 'x machine \<Rightarrow> cmd_result \<times> 'x machine" where
  "runAptGet env args m = runner_run env (apt_cmd args) m"

definition runAptGetWithDowngradeRetrial :: "'x tools \<Rightarrow> string list \<Rightarrow> 'x machine \<Rightarrow> cmd_result \<times> 'x machine" where
  "runAptGetWithDowngradeRetrial env args m =
     (case runAptGet env args m of
        ((out, eout, Some e), m1) \<Rightarrow>
          if contains_str eout downgradesMsg then runAptGet env (args @ [allowDowngradesArg]) m1
          else ((out, eout, Some e), m1)
      | (r, m1) \<Rightarrow> (r, m1))"

text \<open>Run, and after a failure that asks for a repair, repair and run again.\<close>

definition with_repair :: "'x tools \<Rightarrow> ('x machine \<Rightarrow> cmd_result \<times> 'x machine) \<Rightarrow> string list \<Rightarrow> 'x machine
    \<Rightarrow> go_error option \<times> 'x machine" where
  "with_repair env apt args m =
     (case (case apt m of
              ((out, eout, Some e), m1) \<Rightarrow>
                (case dpkgRepair env eout m1 of
                   (True, m2) \<Rightarrow> apt m2
                 | (False, m2) \<Rightarrow> ((out, eout, Some e), m2))
            | (r, m1) \<Rightarrow> (r, m1)) of
        ((out, eout, Some e), m3) \<Rightarrow> (Some (run_error aptGet args e out eout), m3)
      | ((out, eout, None), m3) \<Rightarrow> (None, m3))"

definition InstallAptPackages :: "'x tools \<Rightarrow> string list \<Rightarrow> 'x machine \<Rightarrow> go_error option \<times> 'x machine" where
  "InstallAptPackages env pkgs m =
     (let args = aptGetInstallArgs @ pkgs in with_repair env (runAptGetWithDowngradeRetrial env args) args m)"

definition RemoveAptPackages :: "'x tools \<Rightarrow> string list \<Rightarrow> 'x machine \<Rightarrow> go_error option \<times> 'x machine" where
  "RemoveAptPackages env pkgs m =
     (let args = aptGetRemoveArgs @ pkgs in with_repair env (runAptGet env args) args m)"

datatype apt_upgrade_type = AptGetUpgrade | AptGetDistUpgrade | AptGetFullUpgrade

fun aptUpgradeCmd :: "apt_upgrade_type \<Rightarrow> string" where
  "aptUpgradeCmd AptGetUpgrade = ''upgrade''"
| "aptUpgradeCmd AptGetDistUpgrade = ''dist-upgrade''"
| "aptUpgradeCmd AptGetFullUpgrade = ''full-upgrade''"

definition AptUpdate_cmd :: "'x tools \<Rightarrow> 'x machine \<Rightarrow> go_error option \<times> 'x machine" where
  "AptUpdate_cmd env m = (case runAptGet env aptGetUpdateArgs m of ((out, eout, e), m1) \<Rightarrow> (e, m1))"

definition AptUpdates :: "'x tools \<Rightarrow> apt_upgrade_type \<Rightarrow> bool \<Rightarrow> 'x machine \<Rightarrow> pkg_info list res outcome \<times> 'x machine" where
  "AptUpdates env upgradeType showNew m =
     (case AptUpdate_cmd env m of
        (Some e, m1) \<Rightarrow> (Done (Inl e), m1)
      | (None, m1) \<Rightarrow>
          (case runAptGetWithDowngradeRetrial env (aptGetUpgradableArgs @ [aptUpgradeCmd upgradeType]) m1 of
             ((out, eout, Some e), m2) \<Rightarrow> (Done (Inl e), m2)
           | ((out, eout, None), m2) \<Rightarrow> (obind (parseAptUpdates out showNew) (\<lambda>ps. Done (Inr ps)), m2)))"

definition DebPkgInfo :: "'x tools \<Rightarrow> string \<Rightarrow> 'x machine \<Rightarrow> pkg_info res \<times> 'x machine" where
  "DebPkgInfo env path m =
     (case run_pkg env dpkgDeb [''-I'', path] m of (Inl e, m1) \<Rightarrow> (Inl e, m1) | (Inr out, m1) \<Rightarrow> (parseDpkgDeb out, m1))"

definition InstalledDebPackages :: "'x tools \<Rightarrow> 'x machine \<Rightarrow> pkg_info list res \<times> 'x machine" where
  "InstalledDebPackages env m =
     (case run_pkg env dpkgQuery dpkgQueryArgs m of
        (Inl e, m1) \<Rightarrow> (Inl e, m1)
      | (Inr out, m1) \<Rightarrow> (Inr (parseInstalledDebPackages (tl_unmarshal env) out), m1))"

definition DpkgInstall_cmd :: "'x tools \<Rightarrow> string \<Rightarrow> 'x machine \<Rightarrow> go_error option \<times> 'x machine" where
  "DpkgInstall_cmd env path m = run_unit env dpkg (dpkgInstallArgs @ [path]) m"

section \<open>yum\<close>

definition yum :: string where "yum = ''/usr/bin/yum''"
definition yumInstallArgs :: "string list" where "yumInstallArgs = [''install'', ''--assumeyes'']"
definition yumRemoveArgs :: "string list" where "yumRemoveArgs = [''remove'', ''--assumeyes'']"
definition yumUpdateArgs :: "string list" where "yumUpdateArgs = [''update'', ''--assumeyes'']"
definition yumCheckUpdateArgs :: "string list" where "yumCheckUpdateArgs = [''check-update'', ''--assumeyes'']"
definition yumListUpdatesArgs :: "string list" where "yumListUpdatesArgs = [''update'', ''--assumeno'', ''--color=never'']"
definition yumListUpdateMinimalArgs :: "string list" where
  "yumListUpdateMinimalArgs = [''update-minimal'', ''--assumeno'', ''--color=never'']"

definition InstallYumPackages :: "'x tools \<Rightarrow> string list \<Rightarrow> 'x machine \<Rightarrow> go_error option \<times> 'x machine" where
  "InstallYumPackages env pkgs m = run_unit env yum (yumInstallArgs @ pkgs) m"

definition UpdateYumPackages :: "'x tools \<Rightarrow> string list \<Rightarrow> 'x machine \<Rightarrow> go_error option \<times> 'x machine" where
  "UpdateYumPackages env pkgs m = run_unit env yum (yumUpdateArgs @ pkgs) m"

definition RemoveYumPackages :: "'x tools \<Rightarrow> string list \<Rightarrow> 'x machine \<Rightarrow> go_error option \<times> 'x machine" where
  "RemoveYumPackages env pkgs m = run_unit env yum (yumRemoveArgs @ pkgs) m"

text \<open>An empty output is a nil slice. The removal of the transaction file is best effort.\<close>

definition listAndParseYumPackages :: "'x tools \<Rightarrow> bool \<Rightarrow> bool \<Rightarrow> 'x machine \<Rightarrow> pkg_info list res \<times> 'x machine" where
  "listAndParseYumPackages env security minimal m =
     (let args = (if minimal then yumListUpdateMinimalArgs else yumListUpdatesArgs) @ (if security then [''--security''] else []) in
      case pty_run env (cmd yum args) m of
        ((out, eout, Some e), m1) \<Rightarrow> (Inl (run_error yum args e out eout), m1)
      | ((out, eout, None), m1) \<Rightarrow>
          if out = [] then (Inr [], m1)
          else
            (let tx = getYumTXFile out;
                 m2 = (if tx \<noteq> [] then m1\<lparr>mc_rest := snd (tl_remove env tx (mc_rest m1))\<rparr> else m1);
                 pkgs = parseYumUpdates out
             in if pkgs = []
                then (Inl (ErrMsg (''error checking for yum updates, non-zero error code from 'yum update' but no packages parsed, stdout: '' @ quote out)), m2)
                else (Inr pkgs, m2)))"

definition YumUpdates :: "'x tools \<Rightarrow> bool \<Rightarrow> bool \<Rightarrow> 'x machine \<Rightarrow> pkg_info list res \<times> 'x machine" where
  "YumUpdates env security minimal m =
     (case runner_run env (cmd yum yumCheckUpdateArgs) m of
        ((out, eout, None), m1) \<Rightarrow> (Inr [], m1)
      | ((out, eout, Some e), m1) \<Rightarrow>
          if (case e of ErrExit code msg \<Rightarrow> code = 100 | _ \<Rightarrow> False) then listAndParseYumPackages env security minimal m1
          else (Inl (run_error yum yumCheckUpdateArgs e out eout), m1))"

section \<open>rpm\<close>

definition rpmquery :: string where "rpmquery = ''/usr/bin/rpmquery''"
definition rpm :: string where "rpm = ''/bin/rpm''"
definition rpmInstallArgs :: "string list" where "rpmInstallArgs = [''--upgrade'', ''--replacepkgs'', ''-v'']"

definition rpmqueryArgs :: "string list" where
  "rpmqueryArgs = [''--queryformat'', formatFieldsMapping
     [(''package'', ''%{NAME}''), (''architecture'', ''%{ARCH}''),
      (''version'', ''%|EPOCH?{%{EPOCH}:}:{}|%{VERSION}-%{RELEASE}''), (''source_name'', ''%{SOURCERPM}'')]]"

definition InstalledRPMPackages :: "'x tools \<Rightarrow> 'x machine \<Rightarrow> pkg_info list res \<times> 'x machine" where
  "InstalledRPMPackages env m =
     (case run_pkg env rpmquery (rpmqueryArgs @ [''-a'']) m of
        (Inl e, m1) \<Rightarrow> (Inl e, m1)
      | (Inr out, m1) \<Rightarrow> (Inr (parseInstalledRPMPackages (tl_unmarshal env) out), m1))"

definition RPMInstall :: "'x tools \<Rightarrow> string \<Rightarrow> 'x machine \<Rightarrow> go_error option \<times> 'x machine" where
  "RPMInstall env path m = run_unit env rpm (rpmInstallArgs @ [path]) m"

definition RPMPkgInfo :: "'x tools \<Rightarrow> string \<Rightarrow> 'x machine \<Rightarrow> pkg_info res \<times> 'x machine" where
  "RPMPkgInfo env path m =
     (case run_pkg env rpmquery (rpmqueryArgs @ [''-p'', path]) m of
        (Inl e, m1) \<Rightarrow> (Inl e, m1)
      | (Inr out, m1) \<Rightarrow>
          (case parseInstalledRPMPackages (tl_unmarshal env) out of
             [p] \<Rightarrow> (Inr p, m1)
           | ps \<Rightarrow> (Inl (ErrMsg (''unexpected number of parsed rpm packages '' @ show_nat (length ps) @ '': '' @ quote out)), m1)))"

section \<open>zypper\<close>

definition zypper :: string where "zypper = ''/usr/bin/zypper''"
definition zypperInstallArgs :: "string list" where
  "zypperInstallArgs = [''--gpg-auto-import-keys'', ''--non-interactive'', ''install'', ''--auto-agree-with-licenses'']"
definition zypperRemoveArgs :: "string list" where "zypperRemoveArgs = [''--non-interactive'', ''remove'']"
definition zypperListUpdatesArgs :: "string list" where "zypperListUpdatesArgs = [''--gpg-auto-import-keys'', ''-q'', ''list-updates'']"
definition zypperListPatchesArgs :: "string list" where "zypperListPatchesArgs = [''--gpg-auto-import-keys'', ''-q'', ''list-patches'']"
definition zypperPatchInfoArgs :: "string list" where "zypperPatchInfoArgs = [''info'', ''-t'', ''patch'']"

record zypper_list_opts =
  zl_categories :: "string list"
  zl_severities :: "string list"
  zl_with_optional :: bool
  zl_all :: bool

definition InstallZypperPackages :: "'x tools \<Rightarrow> string list \<Rightarrow> 'x machine \<Rightarrow> go_error option \<times> 'x machine" where
  "InstallZypperPackages env pkgs m = run_unit env zypper (zypperInstallArgs @ pkgs) m"

text \<open>Exit code 102 means that a reboot is needed; any other exit code is returned as it is.\<close>

definition ZypperInstall :: "'x tools \<Rightarrow> zypper_patch list \<Rightarrow> pkg_info list \<Rightarrow> 'x machine \<Rightarrow> go_error option \<times> 'x machine" where
  "ZypperInstall env patches pkgs m =
     (let args = zypperInstallArgs @ map (\<lambda>p. ''patch:'' @ zp_name p) patches @ map (\<lambda>p. ''package:'' @ pi_name p) pkgs in
      case runner_run env (cmd zypper args) m of
        ((out, eout, None), m1) \<Rightarrow> (None, m1)
      | ((out, eout, Some (ErrExit code msg)), m1) \<Rightarrow> (if code = 102 then None else Some (ErrExit code msg), m1)
      | ((out, eout, Some e), m1) \<Rightarrow> (Some (run_error zypper args e out eout), m1))"

definition RemoveZypperPackages :: "'x tools \<Rightarrow> string list \<Rightarrow> 'x machine \<Rightarrow> go_error option \<times> 'x machine" where
  "RemoveZypperPackages env pkgs m = run_unit env zypper (zypperRemoveArgs @ pkgs) m"

definition ZypperUpdates :: "'x tools \<Rightarrow> 'x machine \<Rightarrow> pkg_info list res \<times> 'x machine" where
  "ZypperUpdates env m =
     (case run_pkg env zypper zypperListUpdatesArgs m of (Inl e, m1) \<Rightarrow> (Inl e, m1) | (Inr out, m1) \<Rightarrow> (Inr (parseZypperUpdates out), m1))"

definition zypperPatches :: "'x tools \<Rightarrow> zypper_list_opts \<Rightarrow> 'x machine \<Rightarrow> string res \<times> 'x machine" where
  "zypperPatches env o' m =
     run_pkg env zypper
       (zypperListPatchesArgs @ map (\<lambda>c. ''--category='' @ c) (zl_categories o') @ map (\<lambda>s. ''--severity='' @ s) (zl_severities o')
        @ (if zl_with_optional o' then [''--with-optional''] else [])
        @ (if zl_all o' \<or> length (zl_severities o') + length (zl_categories o') \<le> 0 then [''--all''] else [])) m"

definition ZypperPatches :: "'x tools \<Rightarrow> zypper_list_opts \<Rightarrow> 'x machine \<Rightarrow> zypper_patch list res \<times> 'x machine" where
  "ZypperPatches env o' m =
     (case zypperPatches env o' m of (Inl e, m1) \<Rightarrow> (Inl e, m1) | (Inr out, m1) \<Rightarrow> (Inr (snd (parseZypperPatches out)), m1))"

definition ZypperInstalledPatches :: "'x tools \<Rightarrow> zypper_list_opts \<Rightarrow> 'x machine \<Rightarrow> zypper_patch list res \<times> 'x machine" where
  "ZypperInstalledPatches env o' m =
     (case zypperPatches env o' m of (Inl e, m1) \<Rightarrow> (Inl e, m1) | (Inr out, m1) \<Rightarrow> (Inr (fst (parseZypperPatches out)), m1))"

text \<open>\<open>None\<close> is a nil map; looking a package up in it finds nothing.\<close>

definition ZypperPackagesInPatch :: "'x tools \<Rightarrow> zypper_patch list \<Rightarrow> 'x machine \<Rightarrow> patch_map option res outcome \<times> 'x machine" where
  "ZypperPackagesInPatch env patches m =
     (if patches = [] then (Done (Inr (Some [])), m)
      else
        (case run_pkg env zypper (zypperPatchInfoArgs @ map zp_name patches) m of
           (Inl e, m1) \<Rightarrow> (Done (Inl e), m1)
         | (Inr out, m1) \<Rightarrow> (parseZypperPatchInfo out, m1)))"

section \<open>googet, gem, pip, cos\<close>

definition googet :: string where "googet = ''googet.exe''"
definition googetUpdateQueryArgs :: "string list" where "googetUpdateQueryArgs = [''update'']"
definition googetInstalledQueryArgs :: "string list" where "googetInstalledQueryArgs = [''installed'']"
definition googetInstallArgs :: "string list" where "googetInstallArgs = [''-noconfirm'', ''install'']"
definition googetRemoveArgs :: "string list" where "googetRemoveArgs = [''-noconfirm'', ''remove'']"

definition GooGetUpdates :: "'x tools \<Rightarrow> 'x machine \<Rightarrow> pkg_info list res \<times> 'x machine" where
  "GooGetUpdates env m =
     (case run_pkg env googet googetUpdateQueryArgs m of (Inl e, m1) \<Rightarrow> (Inl e, m1) | (Inr out, m1) \<Rightarrow> (Inr (parseGooGetUpdates out), m1))"

definition InstallGooGetPackages :: "'x tools \<Rightarrow> string list \<Rightarrow> 'x machine \<Rightarrow> go_error option \<times> 'x machine" where
  "InstallGooGetPackages env pkgs m = run_unit env googet (googetInstallArgs @ pkgs) m"

definition RemoveGooGetPackages :: "'x tools \<Rightarrow> string list \<Rightarrow> 'x machine \<Rightarrow> go_error option \<times> 'x machine" where
  "RemoveGooGetPackages env pkgs m = run_unit env googet (googetRemoveArgs @ pkgs) m"

definition InstalledGooGetPackages :: "'x tools \<Rightarrow> 'x machine \<Rightarrow> pkg_info list res \<times> 'x machine" where
  "InstalledGooGetPackages env m =
     (case run_pkg env googet googetInstalledQueryArgs m of
        (Inl e, m1) \<Rightarrow> (Inl e, m1) | (Inr out, m1) \<Rightarrow> (Inr (parseInstalledGooGetPackages out), m1))"

definition gem :: string where "gem = ''/usr/bin/gem''"
definition gemListArgs :: "string list" where "gemListArgs = [''list'', ''--local'']"
definition gemOutdatedArgs :: "string list" where "gemOutdatedArgs = [''outdated'', ''--local'']"

definition GemUpdates :: "'x tools \<Rightarrow> 'x machine \<Rightarrow> pkg_info list res \<times> 'x machine" where
  "GemUpdates env m =
     (case run_pkg env gem gemOutdatedArgs m of (Inl e, m1) \<Rightarrow> (Inl e, m1) | (Inr out, m1) \<Rightarrow> (Inr (parseGemUpdates out), m1))"

definition InstalledGemPackages :: "'x tools \<Rightarrow> 'x machine \<Rightarrow> pkg_info list res outcome \<times> 'x machine" where
  "InstalledGemPackages env m =
     (case run_pkg env gem gemListArgs m of
        (Inl e, m1) \<Rightarrow> (Done (Inl e), m1)
      | (Inr out, m1) \<Rightarrow> (obind (parseInstalledGems out) (\<lambda>ps. Done (Inr ps)), m1))"

definition pip :: string where "pip = ''/usr/bin/pip''"
definition pipListArgs :: "string list" where "pipListArgs = [''list'', ''--format=json'']"
definition pipOutdatedArgs :: "string list" where "pipOutdatedArgs = pipListArgs @ [''--outdated'']"

text \<open>The decoder gives name and \<open>latest_version\<close>, or name and \<open>version\<close>.\<close>

definition pip_query :: "'x tools \<Rightarrow> string list \<Rightarrow> 'x machine \<Rightarrow> pkg_info list res \<times> 'x machine" where
  "pip_query env args m =
     (case run_pkg env pip args m of
        (Inl e, m1) \<Rightarrow> (Inl e, m1)
      | (Inr out, m1) \<Rightarrow> (map_sum id pip_packages (tl_pip_unmarshal env out), m1))"

definition PipUpdates :: "'x tools \<Rightarrow> 'x machine \<Rightarrow> pkg_info list res \<times> 'x machine" where
  "PipUpdates env m = pip_query env pipOutdatedArgs m"

definition InstalledPipPackages :: "'x tools \<Rightarrow> 'x machine \<Rightarrow> pkg_info list res \<times> 'x machine" where
  "InstalledPipPackages env m = pip_query env pipListArgs m"

definition parseInstalledCOSPackages :: "string res \<Rightarrow> (string \<times> string \<times> string) list \<Rightarrow> pkg_info list res" where
  "parseInstalledCOSPackages arch ps =
     (case arch of
        Inl e \<Rightarrow> Inl (ErrMsg (''error from readMachineArch: error getting osinfo: '' @ err_text e))
      | Inr a \<Rightarrow> Inr (map (\<lambda>(category, name, version). new_pkg (category @ ''/'' @ name) a version typeCos) ps))"

definition InstalledCOSPackages :: "'x tools \<Rightarrow> 'x machine \<Rightarrow> pkg_info list res \<times> 'x machine" where
  "InstalledCOSPackages env m =
     (case tl_cos env (mc_rest m) of
        (Inl e, x) \<Rightarrow> (Inl (ErrMsg (''error reading COS package list with args: '' @ err_text e @ '', contents: <nil>'')), m\<lparr>mc_rest := x\<rparr>)
      | (Inr ps, x) \<Rightarrow>
          (case tl_arch env x of (a, x1) \<Rightarrow> (parseInstalledCOSPackages a ps, m\<lparr>mc_rest := x1\<rparr>)))"

section \<open>packages_linux.go\<close>

record packages =
  ps_yum :: "pkg_info list"
  ps_rpm :: "pkg_info list"
  ps_apt :: "pkg_info list"
  ps_deb :: "pkg_info list"
  ps_zypper :: "pkg_info list"
  ps_zypper_patches :: "zypper_patch list"
  ps_cos :: "pkg_info list"
  ps_gem :: "pkg_info list"
  ps_pip :: "pkg_info list"

definition no_packages :: packages where
  "no_packages = \<lparr>ps_yum = [], ps_rpm = [], ps_apt = [], ps_deb = [], ps_zypper = [], ps_zypper_patches = [],
     ps_cos = [], ps_gem = [], ps_pip = []\<rparr>"

text \<open>The package URL library is outside: type, namespace, name, version, qualifiers.\<close>

definition enrichDeb :: "'x tools \<Rightarrow> string \<Rightarrow> string \<Rightarrow> pkg_info list \<Rightarrow> pkg_info list" where
  "enrichDeb env shortname version =
     map (\<lambda>p. p\<lparr>pi_purl := tl_purl env (pi_type p) shortname (pi_name p) (pi_version p)
       [(''source'', pi_source_name p), (''arch'', pi_arch p), (''distro'', version)]\<rparr>)"

definition enrichRpm :: "'x tools \<Rightarrow> string \<Rightarrow> string \<Rightarrow> pkg_info list \<Rightarrow> pkg_info list" where
  "enrichRpm env shortname version =
     map (\<lambda>p. p\<lparr>pi_purl := tl_purl env (pi_type p) shortname (pi_name p) (pi_version p)
       [(''arch'', pi_arch p), (''distro'', version)]\<rparr>)"

definition enrichCos :: "'x tools \<Rightarrow> string \<Rightarrow> string \<Rightarrow> pkg_info list \<Rightarrow> pkg_info list" where
  "enrichCos env shortname version =
     map (\<lambda>p. p\<lparr>pi_purl := tl_purl env (pi_type p) shortname (pi_name p) (pi_version p)
       [(''arch'', pi_arch p), (''distro'', shortname @ ''-'' @ version)]\<rparr>)"

definition enrichPlain :: "'x tools \<Rightarrow> pkg_info list \<Rightarrow> pkg_info list" where
  "enrichPlain env = map (\<lambda>p. p\<lparr>pi_purl := tl_purl env (pi_type p) [] (pi_name p) (pi_version p) []\<rparr>)"

definition enrichZypperPatches :: "'x tools \<Rightarrow> string \<Rightarrow> zypper_patch list \<Rightarrow> zypper_patch list" where
  "enrichZypperPatches env shortname =
     map (\<lambda>p. p\<lparr>zp_purl := tl_purl env ''generic'' shortname (zp_name p) [] [(''severity'', zp_severity p)]\<rparr>)"

text \<open>One section of the two functions: query, and either note the error or store the list.\<close>

definition section_of :: "bool \<Rightarrow> string \<Rightarrow> ('x machine \<Rightarrow> 'a res outcome \<times> 'x machine) \<Rightarrow> ('a \<Rightarrow> 'p \<Rightarrow> 'p)
    \<Rightarrow> ('p \<times> string list) outcome \<times> 'x machine \<Rightarrow> ('p \<times> string list) outcome \<times> 'x machine" where
  "section_of present what query put st =
     (case st of
        (Panic p, m) \<Rightarrow> (Panic p, m)
      | (Done (ps, errs), m) \<Rightarrow>
          if \<not> present then (Done (ps, errs), m)
          else
            (case query m of
               (Panic p, m1) \<Rightarrow> (Panic p, m1)
             | (Done (Inl e), m1) \<Rightarrow> (Done (ps, if what = [] then errs else errs @ [what @ '': '' @ err_text e]), m1)
             | (Done (Inr a), m1) \<Rightarrow> (Done (put a ps, errs), m1)))"

definition sure :: "('x machine \<Rightarrow> 'a res \<times> 'x machine) \<Rightarrow> 'x machine \<Rightarrow> 'a res outcome \<times> 'x machine" where
  "sure f m = (case f m of (r, m1) \<Rightarrow> (Done r, m1))"

definition default_zypper_opts :: zypper_list_opts where
  "default_zypper_opts = \<lparr>zl_categories = [], zl_severities = [], zl_with_optional = False, zl_all = False\<rparr>"

text \<open>Errors of gem and pip are only logged (the empty label).\<close>

definition getPackageUpdates :: "'x tools \<Rightarrow> string \<Rightarrow> string \<Rightarrow> 'x machine \<Rightarrow> (packages \<times> string list) outcome \<times> 'x machine" where
  "getPackageUpdates env shortname version m =
     (section_of (tl_pip env) [] (sure (PipUpdates env)) (\<lambda>a ps. ps\<lparr>ps_pip := enrichPlain env a\<rparr>)
     (section_of (tl_gem env) [] (sure (GemUpdates env)) (\<lambda>a ps. ps\<lparr>ps_gem := enrichPlain env a\<rparr>)
     (section_of (tl_zypper env) ''error getting zypper available patches'' (sure (ZypperPatches env default_zypper_opts))
        (\<lambda>a ps. ps\<lparr>ps_zypper_patches := enrichZypperPatches env shortname a\<rparr>)
     (section_of (tl_zypper env) ''error getting zypper updates'' (sure (ZypperUpdates env))
        (\<lambda>a ps. ps\<lparr>ps_zypper := enrichRpm env shortname version a\<rparr>)
     (section_of (tl_yum env) ''error getting yum updates'' (sure (YumUpdates env False False))
        (\<lambda>a ps. ps\<lparr>ps_yum := enrichRpm env shortname version a\<rparr>)
     (section_of (tl_apt env) ''error getting apt updates'' (AptUpdates env AptGetFullUpgrade False)
        (\<lambda>a ps. ps\<lparr>ps_apt := enrichDeb env shortname version a\<rparr>)
     (Done (no_packages, []), m)))))))"

definition getInstalledPackages :: "'x tools \<Rightarrow> string \<Rightarrow> string \<Rightarrow> 'x machine \<Rightarrow> (packages \<times> string list) outcome \<times> 'x machine" where
  "getInstalledPackages env shortname version m =
     (section_of (tl_pip env) [] (sure (InstalledPipPackages env)) (\<lambda>a ps. ps\<lparr>ps_pip := enrichPlain env a\<rparr>)
     (section_of (tl_gem env) [] (InstalledGemPackages env) (\<lambda>a ps. ps\<lparr>ps_gem := enrichPlain env a\<rparr>)
     (section_of (tl_cos_info env) ''error listing installed COS packages'' (sure (InstalledCOSPackages env))
        (\<lambda>a ps. ps\<lparr>ps_cos := enrichCos env shortname version a\<rparr>)
     (section_of (tl_dpkg_query env) ''error listing installed deb packages'' (sure (InstalledDebPackages env))
        (\<lambda>a ps. ps\<lparr>ps_deb := enrichDeb env shortname version a\<rparr>)
     (section_of (tl_zypper env) ''error getting zypper installed patches'' (sure (ZypperInstalledPatches env default_zypper_opts))
        (\<lambda>a ps. ps\<lparr>ps_zypper_patches := enrichZypperPatches env shortname a\<rparr>)
     (section_of (tl_rpm_query env) ''error listing installed rpm packages'' (sure (InstalledRPMPackages env))
        (\<lambda>a ps. ps\<lparr>ps_rpm := enrichRpm env shortname version a\<rparr>)
     (Done (no_packages, []), m)))))))"

text \<open>The providers: the operating system's information first; its error stays unless another replaces it.\<close>

definition provider_result :: "os_info res \<Rightarrow> (packages \<times> string list) outcome \<Rightarrow> (packages \<times> go_error option) outcome" where
  "provider_result oi r =
     obind r (\<lambda>(ps, errs). Done (ps, if errs \<noteq> [] then Some (ErrMsg (join [CHR 0x0A] errs))
                                     else (case oi of Inl e \<Rightarrow> Some e | Inr i \<Rightarrow> None)))"

definition provider_os :: "os_info res \<Rightarrow> os_info" where
  "provider_os oi = (case oi of Inl e \<Rightarrow> empty_os_info | Inr i \<Rightarrow> i)"

definition GetPackageUpdates :: "'x tools \<Rightarrow> os_info res \<Rightarrow> 'x machine \<Rightarrow> (packages \<times> go_error option) outcome \<times> 'x machine" where
  "GetPackageUpdates env oi m =
     (case getPackageUpdates env (oi_short (provider_os oi)) (oi_version (provider_os oi)) m of
        (r, m1) \<Rightarrow> (provider_result oi r, m1))"

definition GetInstalledPackages :: "'x tools \<Rightarrow> os_info res \<Rightarrow> 'x machine \<Rightarrow> (packages \<times> go_error option) outcome \<times> 'x machine" where
  "GetInstalledPackages env oi m =
     (case getInstalledPackages env (oi_short (provider_os oi)) (oi_version (provider_os oi)) m of
        (r, m1) \<Rightarrow> (provider_result oi r, m1))"

end
