(* ===== verification/OsPatch.thy ===== *)
theory OsPatch
  imports PkgCmd Retry PatchTask
begin

text \<open>
  Package updates, the package \<open>ospatch\<close> and \<open>agentendpoint/patch_linux.go\<close>: which updates are
  installed, given the excludes and the exclusive packages of the task, and whether the system
  must reboot afterwards.

  \<^item> A compiled regular expression is its source text; matching is the operation \<open>up_match\<close>, and
    \<open>up_compile\<close> tells whether the source compiles (package \<open>regexp\<close>).
  \<^item> A slice that the code compares with nil is an option, \<open>None\<close> for nil.
  \<^item> The messages of \<open>report.go\<close> are computed but logging them is left out.
\<close>

section \<open>exclude.go\<close>

datatype exclude = RegexExclude string | StringExclude string

record 'x updater =
  up_tools :: "'x tools"
  up_compile :: "string \<Rightarrow> go_error option"
  up_match :: "string \<Rightarrow> string \<Rightarrow> bool"
  up_draws :: "nat \<Rightarrow> nat"
  up_sleep :: "nat \<Rightarrow> 'x \<Rightarrow> 'x"
  up_read :: "string \<Rightarrow> 'x \<Rightarrow> string res \<times> 'x"
  up_exists :: "string \<Rightarrow> 'x \<Rightarrow> bool \<times> 'x"

fun MatchesName :: "'x updater \<Rightarrow> exclude \<Rightarrow> string \<Rightarrow> bool" where
  "MatchesName up (RegexExclude r) name = up_match up r name"
| "MatchesName up (StringExclude s) name \<longleftrightarrow> s = name"

definition regexExcludeFromString :: "'x updater \<Rightarrow> string \<Rightarrow> exclude res" where
  "regexExcludeFromString up s = (case up_compile up s of Some e \<Rightarrow> Inl e | None \<Rightarrow> Inr (RegexExclude s))"

fun convertInputToExcludes :: "'x updater \<Rightarrow> string list \<Rightarrow> exclude list res" where
  "convertInputToExcludes up [] = Inr []"
| "convertInputToExcludes up (s # ss) =
     (case (if length s \<ge> 2 \<and> hd s = CHR ''/'' \<and> last s = CHR ''/''
            then regexExcludeFromString up (butlast (tl s)) else Inr (StringExclude s)) of
        Inl e \<Rightarrow> Inl e
      | Inr x \<Rightarrow> (case convertInputToExcludes up ss of Inl e \<Rightarrow> Inl e | Inr xs \<Rightarrow> Inr (x # xs)))"

section \<open>updates.go\<close>

definition shouldPackageBeExcluded :: "'x updater \<Rightarrow> exclude list \<Rightarrow> string \<Rightarrow> bool" where
  "shouldPackageBeExcluded up excludes name = list_ex (\<lambda>x. MatchesName up x name) excludes"

definition containsString :: "string list \<Rightarrow> string \<Rightarrow> bool" where
  "containsString ss c = list_ex (\<lambda>s. s = c) ss"

definition slice_len :: "'a list option \<Rightarrow> nat" where
  "slice_len s = (case s of None \<Rightarrow> 0 | Some xs \<Rightarrow> length xs)"

definition filterPackages :: "'x updater \<Rightarrow> pkg_info list \<Rightarrow> string list option \<Rightarrow> exclude list \<Rightarrow> pkg_info list res" where
  "filterPackages up pkgs exclusive excludes =
     (if slice_len exclusive \<noteq> 0 \<and> excludes \<noteq> [] then Inl (ErrMsg ''exclusivePackages and excludes can not both be non 0'')
      else Inr (filter (\<lambda>p. \<not> shouldPackageBeExcluded up excludes (pi_name p)
                    \<and> (case exclusive of None \<Rightarrow> True | Some xs \<Rightarrow> containsString xs (pi_name p))) pkgs))"

text \<open>The error of \<open>strconv.ParseInt\<close>.\<close>

definition num_error :: "string \<Rightarrow> go_error" where
  "num_error s = ErrMsg (''strconv.ParseInt: parsing '' @ quote s
     @ (let ds = (case s of c # cs \<Rightarrow> if c = CHR ''-'' \<or> c = CHR ''+'' then cs else s | [] \<Rightarrow> s)
        in if ds \<noteq> [] \<and> list_all is_digit ds then '': value out of range'' else '': invalid syntax''))"

definition rpmquery_path :: string where "rpmquery_path = ''/usr/bin/rpmquery''"
definition procStatPath :: string where "procStatPath = ''/proc/stat''"

text \<open>The scan stops at the first line that starts with \<open>btime\<close>.\<close>

definition scan_too_long :: "string \<Rightarrow> bool" where
  "scan_too_long s = list_ex (\<lambda>l. length l \<ge> 65536) (split_on (CHR 0x0A) s)"

definition parse_btime :: "string \<Rightarrow> string \<Rightarrow> int res" where
  "parse_btime path content =
     (let none = (if scan_too_long content then ErrMsg (''error scanning '' @ path @ '': bufio.Scanner: token too long'')
                  else ErrMsg (''could not find btime in '' @ path))
      in case dropWhile (\<lambda>l. \<not> has_prefix l ''btime'') (scan_lines content) of
           [] \<Rightarrow> Inl none
         | l # _ \<Rightarrow>
             (case index_of '' '' l of
                None \<Rightarrow> Inl (ErrMsg (''error parsing btime from '' @ path @ '': '' @ quote l))
              | Some i \<Rightarrow>
                  (let v = trim_space (drop (Suc i) l) in
                   case parse_int 10 64 v of
                     None \<Rightarrow> Inl (ErrMsg (''error parsing btime: '' @ err_text (num_error v)))
                   | Some t \<Rightarrow> if t = 0 then Inl (ErrMsg (''could not find btime in '' @ path)) else Inr t)))"

definition getBtime :: "'x updater \<Rightarrow> string \<Rightarrow> 'x machine \<Rightarrow> int res \<times> 'x machine" where
  "getBtime up path m =
     (case up_read up path (mc_rest m) of
        (Inl e, x) \<Rightarrow> (Inl (ErrMsg (''error opening '' @ path @ '': '' @ err_text e)), m\<lparr>mc_rest := x\<rparr>)
      | (Inr content, x) \<Rightarrow> (parse_btime path content, m\<lparr>mc_rest := x\<rparr>))"

definition rpmRebootRequired :: "string \<Rightarrow> int \<Rightarrow> bool" where
  "rpmRebootRequired pkgs btime =
     list_ex (\<lambda>l. case parse_int 10 64 l of None \<Rightarrow> False | Some itime \<Rightarrow> itime > btime) (scan_lines pkgs)"

definition reboot_packages :: "string list" where
  "reboot_packages = [''kernel'', ''glibc'', ''gnutls'', ''linux-firmware'', ''openssl-libs'', ''dbus'',
     ''kernel-firmware'', ''libopenssl1_1'', ''libopenssl1_0_0'', ''dbus-1'']"

definition rpmReboot :: "'x updater \<Rightarrow> 'x machine \<Rightarrow> bool res \<times> 'x machine" where
  "rpmReboot up m =
     (let args = [''--queryformat'', ''%{INSTALLTIME}'' @ [CHR 0x0A], ''--whatprovides''] @ reboot_packages in
      case runner_run (up_tools up) (cmd rpmquery_path args) m of
        ((out, eout, e), m1) \<Rightarrow>
          if (case e of None \<Rightarrow> False | Some (ErrExit code msg) \<Rightarrow> False | Some _ \<Rightarrow> True)
          then (Inl (ErrMsg (''error running '' @ rpmquery_path @ '': '' @ err_text (the e))), m1)
          else
            (case getBtime up procStatPath m1 of
               (Inl err, m2) \<Rightarrow> (Inl err, m2)
             | (Inr btime, m2) \<Rightarrow> (Inr (rpmRebootRequired out btime), m2)))"

definition rebootRequiredFile :: string where
  "rebootRequiredFile = ''/var/run/reboot-required''"

definition SystemRebootRequired :: "'x updater \<Rightarrow> 'x machine \<Rightarrow> bool res \<times> 'x machine" where
  "SystemRebootRequired up m =
     (if tl_apt (up_tools up) then
        (case up_read up rebootRequiredFile (mc_rest m) of
           (Inl (ErrNotExist p), x) \<Rightarrow> (Inr False, m\<lparr>mc_rest := x\<rparr>)
         | (Inl e, x) \<Rightarrow> (Inl e, m\<lparr>mc_rest := x\<rparr>)
         | (Inr data, x) \<Rightarrow> (Inr True, m\<lparr>mc_rest := x\<rparr>))
      else
        (case up_exists up rpmquery_path (mc_rest m) of
           (True, x) \<Rightarrow> rpmReboot up (m\<lparr>mc_rest := x\<rparr>)
         | (False, x) \<Rightarrow> (Inl (ErrMsg ''no recognized package manager installed, can't determine if reboot is required''), m\<lparr>mc_rest := x\<rparr>)))"

section \<open>report.go\<close>

definition formatPatches :: "zypper_patch list \<Rightarrow> string" where
  "formatPatches patches = join '', '' (map zp_name patches)"

definition pkg_string :: "pkg_info \<Rightarrow> string" where
  "pkg_string i = pi_name i @ '' '' @ pi_arch i @ '' '' @ pi_version i"

definition report_body :: "string \<Rightarrow> string \<Rightarrow> pkg_info list \<Rightarrow> zypper_patch list \<Rightarrow> string" where
  "report_body onPkgs onPatches pkgs patches =
     (if pkgs \<noteq> [] then onPkgs @ '' '' @ show_nat (length pkgs) @ '' packages: '' @ quote_list (map pkg_string pkgs) else [])
     @ (if patches \<noteq> [] then (if pkgs \<noteq> [] then ''; '' else []) @ onPatches @ '' '' @ show_nat (length patches) @ '' patches: '' @ formatPatches patches else [])"

definition logOps :: "pkg_info list \<Rightarrow> zypper_patch list \<Rightarrow> string" where
  "logOps pkgs patches = report_body ''Updating'' ''Installing'' pkgs patches"

definition logSuccess :: "pkg_info list \<Rightarrow> zypper_patch list \<Rightarrow> string" where
  "logSuccess pkgs patches = ''Success. '' @ report_body ''Updated'' ''Applied'' pkgs patches"

definition logFailure :: "pkg_info list \<Rightarrow> zypper_patch list \<Rightarrow> go_error \<Rightarrow> string" where
  "logFailure pkgs patches err =
     ''Failure: '' @ report_body ''Tried to update'' ''Tried to apply'' pkgs patches @ ''. Error: '' @ err_text err"

section \<open>The four updaters\<close>

record update_opts =
  uo_exclusive :: "string list option"
  uo_excludes :: "exclude list"
  uo_dryrun :: bool

text \<open>The common part: filter, stop when nothing is left or in a dry run, install the names.\<close>

definition run_selected :: "'x updater \<Rightarrow> update_opts \<Rightarrow> (pkg_info \<Rightarrow> string)
    \<Rightarrow> (string list \<Rightarrow> 'x machine \<Rightarrow> go_error option \<times> 'x machine) \<Rightarrow> pkg_info list \<Rightarrow> 'x machine
    \<Rightarrow> go_error option \<times> 'x machine" where
  "run_selected up o' name install pkgs m =
     (case filterPackages up pkgs (uo_exclusive o') (uo_excludes o') of
        Inl e \<Rightarrow> (Some e, m)
      | Inr fPkgs \<Rightarrow>
          if fPkgs = [] then (None, m)
          else if uo_dryrun o' then (None, m)
          else install (map name fPkgs) m)"

definition RunAptGetUpgrade :: "'x updater \<Rightarrow> update_opts \<Rightarrow> apt_upgrade_type \<Rightarrow> 'x machine \<Rightarrow> go_error option outcome \<times> 'x machine" where
  "RunAptGetUpgrade up o' upgradeType m =
     (case AptUpdates (up_tools up) upgradeType True m of
        (Panic p, m1) \<Rightarrow> (Panic p, m1)
      | (Done (Inl e), m1) \<Rightarrow> (Done (Some e), m1)
      | (Done (Inr pkgs), m1) \<Rightarrow>
          (case run_selected up o' pi_name (InstallAptPackages (up_tools up)) pkgs m1 of (e, m2) \<Rightarrow> (Done e, m2)))"

text \<open>The name with the architecture, if present.\<close>

definition fullPackageName :: "pkg_info \<Rightarrow> string" where
  "fullPackageName p = (if length (pi_raw_arch p) > 0 then pi_name p @ ''.'' @ pi_raw_arch p else pi_name p)"

definition RunYumUpdate :: "'x updater \<Rightarrow> update_opts \<Rightarrow> bool \<Rightarrow> bool \<Rightarrow> 'x machine \<Rightarrow> go_error option \<times> 'x machine" where
  "RunYumUpdate up o' security minimal m =
     (case YumUpdates (up_tools up) security minimal m of
        (Inl e, m1) \<Rightarrow> (Some e, m1)
      | (Inr pkgs, m1) \<Rightarrow> run_selected up o' fullPackageName (UpdateYumPackages (up_tools up)) pkgs m1)"

definition RunGooGetUpdate :: "'x updater \<Rightarrow> update_opts \<Rightarrow> 'x machine \<Rightarrow> go_error option \<times> 'x machine" where
  "RunGooGetUpdate up o' m =
     (case GooGetUpdates (up_tools up) m of
        (Inl e, m1) \<Rightarrow> (Some e, m1)
      | (Inr pkgs, m1) \<Rightarrow> run_selected up o' pi_name (InstallGooGetPackages (up_tools up)) pkgs m1)"

definition runFilter :: "'x updater \<Rightarrow> zypper_patch list \<Rightarrow> string list \<Rightarrow> exclude list \<Rightarrow> pkg_info list \<Rightarrow> patch_map option \<Rightarrow> bool
    \<Rightarrow> zypper_patch list \<times> pkg_info list" where
  "runFilter up patches exclusive excludes pkgUpdates pkgToPatches withUpdate =
     (if exclusive \<noteq> [] then (filter (\<lambda>p. containsString exclusive (zp_name p)) patches, [])
      else (filter (\<lambda>p. \<not> shouldPackageBeExcluded up excludes (zp_name p)) patches,
            if withUpdate
            then filter (\<lambda>p. map_of (case pkgToPatches of None \<Rightarrow> [] | Some m \<Rightarrow> m) (pi_name p) = None) pkgUpdates
            else []))"

record zypper_opts = update_opts +
  zo_list :: zypper_list_opts
  zo_with_update :: bool

definition zypper_gather :: "'x updater \<Rightarrow> zypper_opts \<Rightarrow> 'x machine
    \<Rightarrow> (zypper_patch list \<times> pkg_info list \<times> patch_map option) res outcome \<times> 'x machine" where
  "zypper_gather up o' m =
     (case ZypperPatches (up_tools up) (zo_list o') m of
        (Inl e, m1) \<Rightarrow> (Done (Inl e), m1)
      | (Inr patches, m1) \<Rightarrow>
          if \<not> zo_with_update o' then (Done (Inr (patches, [], None)), m1)
          else
            (case ZypperUpdates (up_tools up) m1 of
               (Inl e, m2) \<Rightarrow> (Done (Inl e), m2)
             | (Inr pkgUpdates, m2) \<Rightarrow>
                 (case ZypperPackagesInPatch (up_tools up) patches m2 of
                    (Panic p, m3) \<Rightarrow> (Panic p, m3)
                  | (Done (Inl e), m3) \<Rightarrow> (Done (Inl e), m3)
                  | (Done (Inr pm), m3) \<Rightarrow> (Done (Inr (patches, pkgUpdates, pm)), m3))))"

definition RunZypperPatch :: "'x updater \<Rightarrow> zypper_opts \<Rightarrow> 'x machine \<Rightarrow> go_error option outcome \<times> 'x machine" where
  "RunZypperPatch up o' m =
     (case zypper_gather up o' m of
        (Panic p, m1) \<Rightarrow> (Panic p, m1)
      | (Done (Inl e), m1) \<Rightarrow> (Done (Some e), m1)
      | (Done (Inr (patches, pkgUpdates, pm)), m1) \<Rightarrow>
          (case runFilter up patches (case uo_exclusive o' of None \<Rightarrow> [] | Some xs \<Rightarrow> xs) (uo_excludes o') pkgUpdates pm (zo_with_update o') of
             (fPatches, fPkgs) \<Rightarrow>
               if fPatches = [] \<and> fPkgs = [] then (Done None, m1)
               else if uo_dryrun o' then (Done None, m1)
               else (case ZypperInstall (up_tools up) fPatches fPkgs m1 of (e, m2) \<Rightarrow> (Done e, m2))))"

section \<open>patch_linux.go\<close>

text \<open>
  \<open>RetryFunc\<close> around a function that may panic: the panic leaves the loop at once, like a
  success, and is raised again behind it.
\<close>

definition caught :: "('x machine \<Rightarrow> go_error option outcome \<times> 'x machine) \<Rightarrow> 'x machine \<times> string option
    \<Rightarrow> go_error option \<times> 'x machine \<times> string option" where
  "caught f st = (case f (fst st) of (Done e, m) \<Rightarrow> (e, m, snd st) | (Panic p, m) \<Rightarrow> (None, m, Some p))"

definition retrying :: "'x updater \<Rightarrow> ('x machine \<Rightarrow> go_error option outcome \<times> 'x machine) \<Rightarrow> 'x machine
    \<Rightarrow> go_error option outcome \<times> 'x machine" where
  "retrying up f m =
     (case RetryFunc (up_draws up) (\<lambda>n (m, p). (m\<lparr>mc_rest := up_sleep up n (mc_rest m)\<rparr>, p)) retryPeriod (caught f) (m, None) of
        (e, sleeps, m1, None) \<Rightarrow> (Done e, m1)
      | (e, sleeps, m1, Some p) \<Rightarrow> (Panic p, m1))"

text \<open>A repeated field of a protobuf message that is empty is a nil slice.\<close>

definition repeated :: "string list \<Rightarrow> string list option" where
  "repeated xs = (if xs = [] then None else Some xs)"

text \<open>One manager of \<open>runUpdates\<close>: a regular expression that does not compile ends the whole run.\<close>

definition manager_updates :: "'x updater \<Rightarrow> bool \<Rightarrow> string list \<Rightarrow> (exclude list \<Rightarrow> 'x machine \<Rightarrow> go_error option outcome \<times> 'x machine)
    \<Rightarrow> (string list \<Rightarrow> 'x machine \<Rightarrow> go_error option outcome \<times> 'x machine) \<Rightarrow> string list \<Rightarrow> 'x machine
    \<Rightarrow> go_error option outcome \<times> 'x machine" where
  "manager_updates up present excl f next errs m =
     (if \<not> present then next errs m
      else
        (case convertInputToExcludes up excl of
           Inl e \<Rightarrow> (Done (Some e), m)
         | Inr excludes \<Rightarrow>
             (case retrying up (f excludes) m of
                (Panic p, m1) \<Rightarrow> (Panic p, m1)
              | (Done None, m1) \<Rightarrow> next errs m1
              | (Done (Some e), m1) \<Rightarrow> next (errs @ [err_text e]) m1)))"

definition runUpdates :: "'x updater \<Rightarrow> patch_task \<Rightarrow> 'x machine \<Rightarrow> go_error option outcome \<times> 'x machine" where
  "runUpdates up r m =
     (let c = pt_config r; env = up_tools up;
          opts = (\<lambda>exclusive excludes. \<lparr>uo_exclusive = repeated exclusive, uo_excludes = excludes, uo_dryrun = pt_dry_run r\<rparr>);
          finish = (\<lambda>errs m. (Done (if errs = [] then None else Some (ErrMsg (join ('','' @ [CHR 0x0A]) errs))), m));
          zypper = manager_updates up (tl_zypper env \<and> tl_rpm_query env) (pc_zypper_excludes c)
            (\<lambda>excludes. RunZypperPatch up
               \<lparr>uo_exclusive = repeated (pc_zypper_exclusive c), uo_excludes = excludes, uo_dryrun = pt_dry_run r,
                zo_list = \<lparr>zl_categories = pc_zypper_categories c, zl_severities = pc_zypper_severities c,
                           zl_with_optional = pc_zypper_with_optional c, zl_all = False\<rparr>,
                zo_with_update = pc_zypper_with_update c\<rparr>) finish;
          yum = manager_updates up (tl_yum env \<and> tl_rpm_query env) (pc_yum_excludes c)
            (\<lambda>excludes m. case RunYumUpdate up (opts (pc_yum_exclusive c) excludes) (pc_yum_security c) (pc_yum_minimal c) m of
               (e, m1) \<Rightarrow> (Done e, m1)) zypper
      in manager_updates up (tl_apt env \<and> tl_dpkg_query env) (pc_apt_excludes c)
           (\<lambda>excludes. RunAptGetUpgrade up (opts (pc_apt_exclusive c) excludes)
              (if pc_apt_dist c then AptGetDistUpgrade else AptGetUpgrade)) yum [] m)"

section \<open>The update list of apt\<close>

lemma collect_total: "(\<And>x. x \<in> set xs \<Longrightarrow> \<exists>r. f x = Done r) \<Longrightarrow> \<exists>rs. collect f xs = Done rs"
proof (induction xs)
  case (Cons x xs)
  from Cons.prems [of x] obtain r where "f x = Done r" by auto
  moreover from Cons.IH Cons.prems obtain rs where "collect f xs = Done rs" by auto
  ultimately show ?case by simp
qed simp

lemma collect_map_filter: "(\<And>x. x \<in> set xs \<Longrightarrow> f x = Done (g x)) \<Longrightarrow> collect f xs = Done (List.map_filter g xs)"
  by (induction xs) (auto simp: List.map_filter_simps split: option.splits)

text \<open>The indices of one line are always in range.\<close>

lemma apt_update_line_total: "\<exists>r. apt_update_line showNew ln = Done r"
proof (cases "length (str_fields ln) < 5 \<or> hd (str_fields ln) \<noteq> ''Inst''")
  case False
  define pkg1 where "pkg1 = tl (str_fields ln)"
  define pkg2 where "pkg2 = (if has_prefix (pkg1 ! 1) ''['' then take 1 pkg1 @ drop 2 pkg1 else pkg1)"
  have l1: "4 \<le> length pkg1" using False by (auto simp: pkg1_def)
  then have l2: "3 \<le> length pkg2" by (auto simp: pkg2_def)
  then have "pkg2 \<noteq> []" "\<not> length (if contains_str (last pkg2) ''[]'' then butlast pkg2 else pkg2) < 2" by auto
  with False show ?thesis
    unfolding apt_update_line_def Let_def pkg1_def [symmetric] pkg2_def [symmetric] by auto
qed (simp add: apt_update_line_def Let_def)

lemma parseAptUpdates_total: "\<exists>ps. parseAptUpdates data showNew = Done ps"
  unfolding parseAptUpdates_def by (rule collect_total) (rule apt_update_line_total)

lemma AptUpdates_total: "\<exists>r m'. AptUpdates env ty showNew m = (Done r, m')"
proof -
  obtain e m1 where a: "AptUpdate_cmd env m = (e, m1)" by fastforce
  obtain out eout e2 m2 where b: "runAptGetWithDowngradeRetrial env (aptGetUpgradableArgs @ [aptUpgradeCmd ty]) m1 = ((out, eout, e2), m2)"
    by (metis prod.collapse)
  obtain ps where "parseAptUpdates out showNew = Done ps" using parseAptUpdates_total by blast
  with a b show ?thesis by (cases e; cases e2) (auto simp: AptUpdates_def)
qed

section \<open>The commands an operation runs\<close>

definition ran :: "(command \<Rightarrow> bool) \<Rightarrow> 'x machine \<Rightarrow> 'x machine \<Rightarrow> bool" where
  "ran P m m' \<longleftrightarrow> (\<exists>cs. mc_log m' = mc_log m @ cs \<and> list_all P cs)"

lemma ran_refl [simp]: "ran P m m"
  by (simp add: ran_def)

lemma ran_trans: "ran P m m' \<Longrightarrow> ran P m' m'' \<Longrightarrow> ran P m m''"
  by (auto simp: ran_def)

lemma ran_mono: "ran P m m' \<Longrightarrow> (\<And>c. P c \<Longrightarrow> Q c) \<Longrightarrow> ran Q m m'"
  unfolding ran_def by (blast intro: list.pred_mono_strong)

lemma ran_rest [simp]: "ran P m (m'\<lparr>mc_rest := x\<rparr>) \<longleftrightarrow> ran P m m'" "ran P (m\<lparr>mc_rest := x\<rparr>) m' \<longleftrightarrow> ran P m m'"
  by (simp_all add: ran_def)

lemma ran_runner: "runner_run env c m = (r, m') \<Longrightarrow> P c \<Longrightarrow> ran P m m'"
  by (auto simp: runner_run_def ran_def split: prod.splits)

lemma ran_pty: "pty_run env c m = (r, m') \<Longrightarrow> P c \<Longrightarrow> ran P m m'"
  by (auto simp: pty_run_def ran_def split: prod.splits)

lemma ran_run_pkg: "run_pkg env path args m = (r, m') \<Longrightarrow> P (cmd path args) \<Longrightarrow> ran P m m'"
  by (auto simp: run_pkg_def split: prod.splits option.splits dest: ran_runner)

lemma ran_run_unit: "run_unit env path args m = (r, m') \<Longrightarrow> P (cmd path args) \<Longrightarrow> ran P m m'"
  by (auto simp: run_unit_def split: prod.splits sum.splits dest: ran_run_pkg)

lemma ran_apt: "runAptGet env args m = (r, m') \<Longrightarrow> P (apt_cmd args) \<Longrightarrow> ran P m m'"
  by (auto simp: runAptGet_def dest: ran_runner)

lemma ran_apt_retrial:
  "runAptGetWithDowngradeRetrial env args m = (r, m') \<Longrightarrow> P (apt_cmd args) \<Longrightarrow> P (apt_cmd (args @ [allowDowngradesArg])) \<Longrightarrow> ran P m m'"
  by (auto simp: runAptGetWithDowngradeRetrial_def split: prod.splits option.splits if_splits dest!: ran_apt [where P = P] intro: ran_trans)

lemma ran_repair: "dpkgRepair env out m = (b, m') \<Longrightarrow> P (cmd dpkg dpkgRepairArgs) \<Longrightarrow> ran P m m'"
  using ran_run_pkg [of env dpkg dpkgRepairArgs m "fst (run_pkg env dpkg dpkgRepairArgs m)" "snd (run_pkg env dpkg dpkgRepairArgs m)" P]
  by (auto simp: dpkgRepair_def split: if_splits)

lemma ran_with_repair:
  assumes "with_repair env apt args m = (r, m')" "\<And>m r m'. apt m = (r, m') \<Longrightarrow> ran P m m'" "P (cmd dpkg dpkgRepairArgs)"
  shows "ran P m m'"
  using assms(1)
  by (auto simp: with_repair_def split: prod.splits option.splits bool.splits
      dest!: assms(2) ran_repair [where P = P, OF _ assms(3)] intro: ran_trans)

lemma ran_InstallApt:
  assumes "InstallAptPackages env pkgs m = (r, m')" "P (cmd dpkg dpkgRepairArgs)"
    and "P (apt_cmd (aptGetInstallArgs @ pkgs))" "P (apt_cmd (aptGetInstallArgs @ pkgs @ [allowDowngradesArg]))"
  shows "ran P m m'"
  using ran_with_repair [OF assms(1) [unfolded InstallAptPackages_def Let_def], of P] assms(2-4) ran_apt_retrial [where P = P]
  by (metis append.assoc)

end
