(* ===== verification/PatchSafe.thy ===== *)
theory PatchSafe
  imports OsPatch
begin

text \<open>
  What a patch task may do to its machine: which commands the updaters of \<open>ospatch\<close> run, over their retries,
  and the task of \<open>agentendpoint/patch_task.go\<close> on a machine with them, reboots included
  (\<open>agentendpoint/reboot_linux.go\<close>).
\<close>

section \<open>What a task allows\<close>

text \<open>An entry of the excludes, as the user writes it, and whether it matches a name.\<close>

definition excluded_by :: "'x updater \<Rightarrow> string \<Rightarrow> string \<Rightarrow> bool" where
  "excluded_by up s n \<longleftrightarrow>
     (if length s \<ge> 2 \<and> hd s = CHR ''/'' \<and> last s = CHR ''/'' then up_match up (butlast (tl s)) n else s = n)"

definition selected :: "'x updater \<Rightarrow> string list \<Rightarrow> string list \<Rightarrow> string \<Rightarrow> bool" where
  "selected up excludes exclusive n \<longleftrightarrow> (\<forall>s \<in> set excludes. \<not> excluded_by up s n) \<and> (exclusive = [] \<or> n \<in> set exclusive)"

lemma convert_excluded:
  "convertInputToExcludes up ss = Inr xs \<Longrightarrow> shouldPackageBeExcluded up xs n \<longleftrightarrow> (\<exists>s \<in> set ss. excluded_by up s n)"
proof (induction ss arbitrary: xs)
  case (Cons s ss)
  then show ?case
    by (auto simp: shouldPackageBeExcluded_def excluded_by_def regexExcludeFromString_def split: sum.splits if_splits option.splits)
qed (simp add: shouldPackageBeExcluded_def)

lemma containsString_iff [simp]: "containsString ss c \<longleftrightarrow> c \<in> set ss"
  by (auto simp: containsString_def list_ex_iff)

lemma filter_selected:
  assumes "convertInputToExcludes up ss = Inr xs" "filterPackages up pkgs (repeated exclusive) xs = Inr ps" "p \<in> set ps"
  shows "p \<in> set pkgs \<and> selected up ss exclusive (pi_name p)"
  using assms(2,3) convert_excluded [OF assms(1), of "pi_name p"]
  by (auto simp: filterPackages_def selected_def repeated_def split: if_splits)

text \<open>Commands that only list: they change no package.\<close>

definition listing :: "command \<Rightarrow> bool" where
  "listing c \<longleftrightarrow> c = apt_cmd aptGetUpdateArgs
     \<or> (cmd_path c = aptGet \<and> take 2 (cmd_args c) = aptGetUpgradableArgs)
     \<or> (cmd_path c = yum \<and> (take 1 (cmd_args c) = [''check-update''] \<or> take 1 (drop 1 (cmd_args c)) = [''--assumeno'']))
     \<or> (cmd_path c = zypper \<and> (take 3 (cmd_args c) = zypperListUpdatesArgs \<or> take 3 (cmd_args c) = zypperListPatchesArgs
          \<or> take 3 (cmd_args c) = zypperPatchInfoArgs))
     \<or> cmd_path c = rpmquery_path"

definition apt_install :: "'x updater \<Rightarrow> patch_config \<Rightarrow> command \<Rightarrow> bool" where
  "apt_install up pc c \<longleftrightarrow> (\<exists>names sfx. c = apt_cmd (aptGetInstallArgs @ names @ sfx) \<and> sfx \<in> {[], [allowDowngradesArg]}
     \<and> names \<noteq> [] \<and> (\<forall>n \<in> set names. selected up (pc_apt_excludes pc) (pc_apt_exclusive pc) n))"

definition yum_install :: "'x updater \<Rightarrow> patch_config \<Rightarrow> command \<Rightarrow> bool" where
  "yum_install up pc c \<longleftrightarrow> (\<exists>ps. c = cmd yum (yumUpdateArgs @ map fullPackageName ps) \<and> ps \<noteq> []
     \<and> (\<forall>p \<in> set ps. selected up (pc_yum_excludes pc) (pc_yum_exclusive pc) (pi_name p)))"

text \<open>For zypper the excludes and the exclusive list are about patches, and packages come only with an update.\<close>

definition zypper_install :: "'x updater \<Rightarrow> patch_config \<Rightarrow> command \<Rightarrow> bool" where
  "zypper_install up pc c \<longleftrightarrow> (\<exists>(patches :: zypper_patch list) (ps :: pkg_info list). c = cmd zypper (zypperInstallArgs @ map (\<lambda>p. ''patch:'' @ zp_name p) patches @ map (\<lambda>p. ''package:'' @ pi_name p) ps)
     \<and> (patches \<noteq> [] \<or> ps \<noteq> [])
     \<and> (\<forall>p \<in> set patches. (pc_zypper_exclusive pc = [] \<longrightarrow> (\<forall>s \<in> set (pc_zypper_excludes pc). \<not> excluded_by up s (zp_name p)))
          \<and> (pc_zypper_exclusive pc \<noteq> [] \<longrightarrow> zp_name p \<in> set (pc_zypper_exclusive pc)))
     \<and> (ps \<noteq> [] \<longrightarrow> pc_zypper_with_update pc \<and> pc_zypper_exclusive pc = []))"

definition allowed :: "'x updater \<Rightarrow> patch_config \<Rightarrow> bool \<Rightarrow> command \<Rightarrow> bool" where
  "allowed up pc dry c \<longleftrightarrow> listing c
     \<or> (\<not> dry \<and> (c = cmd dpkg dpkgRepairArgs \<or> apt_install up pc c \<or> yum_install up pc c \<or> zypper_install up pc c))"

section \<open>Each updater keeps to it\<close>

lemma listing_cmds:
  "listing (apt_cmd aptGetUpdateArgs)" "listing (apt_cmd (aptGetUpgradableArgs @ xs))"
  "listing (cmd yum yumCheckUpdateArgs)" "listing (cmd yum (yumListUpdatesArgs @ xs))" "listing (cmd yum (yumListUpdateMinimalArgs @ xs))"
  "listing (cmd yum yumListUpdatesArgs)" "listing (cmd yum yumListUpdateMinimalArgs)"
  "listing (cmd zypper zypperListUpdatesArgs)" "listing (cmd zypper (zypperListPatchesArgs @ xs))" "listing (cmd zypper (zypperPatchInfoArgs @ xs))"
  "listing (cmd rpmquery_path xs)"
  by (auto simp: listing_def cmd_def apt_cmd_def aptGetUpgradableArgs_def yumCheckUpdateArgs_def yumListUpdatesArgs_def
      yumListUpdateMinimalArgs_def zypperListUpdatesArgs_def zypperListPatchesArgs_def zypperPatchInfoArgs_def)

lemma AptUpdates_ran: "AptUpdates env ty showNew m = (r, m') \<Longrightarrow> ran listing m m'"
  by (auto simp: AptUpdates_def AptUpdate_cmd_def split: prod.splits option.splits
      dest!: ran_apt [where P = listing] ran_apt_retrial [where P = listing] intro: ran_trans simp: listing_cmds append.assoc)

lemma YumUpdates_ran: "YumUpdates env security minimal m = (r, m') \<Longrightarrow> ran listing m m'"
  by (auto simp: YumUpdates_def listAndParseYumPackages_def Let_def split: prod.splits option.splits if_splits go_error.splits
      dest!: ran_runner [where P = listing] ran_pty [where P = listing] intro: ran_trans simp: listing_cmds)

lemma zypper_gather_ran: "zypper_gather up o' m = (r, m') \<Longrightarrow> ran listing m m'"
  by (auto simp: zypper_gather_def ZypperPatches_def zypperPatches_def ZypperUpdates_def ZypperPackagesInPatch_def
      split: prod.splits sum.splits if_splits outcome.splits
      dest!: ran_run_pkg [where P = listing] intro: ran_trans simp: listing_cmds)

lemma run_selected_ran:
  assumes "run_selected up \<lparr>uo_exclusive = repeated exclusive, uo_excludes = xs, uo_dryrun = dry\<rparr> name install pkgs m = (e, m')"
    and "convertInputToExcludes up ss = Inr xs"
    and "\<And>ps m r m'. install (map name ps) m = (r, m') \<Longrightarrow> ps \<noteq> [] \<Longrightarrow> \<not> dry
      \<Longrightarrow> \<forall>p \<in> set ps. selected up ss exclusive (pi_name p) \<Longrightarrow> ran P m m'"
  shows "ran P m m'"
  using assms(1) filter_selected [OF assms(2)] assms(3)
  by (fastforce simp: run_selected_def split: sum.splits if_splits)


lemma allowed_listing: "listing c \<Longrightarrow> allowed up pc dry c"
  by (simp add: allowed_def)

lemma RunAptGetUpgrade_ran:
  assumes "RunAptGetUpgrade up \<lparr>uo_exclusive = repeated (pc_apt_exclusive pc), uo_excludes = xs, uo_dryrun = dry\<rparr> ty m = (r, m')"
    and xs: "convertInputToExcludes up (pc_apt_excludes pc) = Inr xs"
  shows "ran (allowed up pc dry) m m'"
proof -
  obtain u m1 where u: "AptUpdates (up_tools up) ty True m = (Done u, m1)" using AptUpdates_total [of "up_tools up" ty True m] by blast
  then have 1: "ran (allowed up pc dry) m m1" by (blast intro: ran_mono AptUpdates_ran allowed_listing)
  have inst: "ran (allowed up pc dry) a b"
    if hy: "InstallAptPackages (up_tools up) (map pi_name ps) a = (e, b)" "ps \<noteq> []" "\<not> dry"
      "\<forall>p \<in> set ps. selected up (pc_apt_excludes pc) (pc_apt_exclusive pc) (pi_name p)" for ps a b e
  proof -
    have k: "apt_install up pc (apt_cmd (aptGetInstallArgs @ map pi_name ps @ sfx))" if "sfx \<in> {[], [allowDowngradesArg]}" for sfx
      unfolding apt_install_def using that hy by force
    show ?thesis
      by (rule ran_InstallApt [OF hy(1)]) (use k [of "[]"] k [of "[allowDowngradesArg]"] hy(3) in \<open>simp_all add: allowed_def\<close>)
  qed
  have "ran (allowed up pc dry) m1 m'"
  proof (cases u)
    case (Inr pkgs)
    with assms(1) u obtain e where "run_selected up \<lparr>uo_exclusive = repeated (pc_apt_exclusive pc), uo_excludes = xs, uo_dryrun = dry\<rparr>
        pi_name (InstallAptPackages (up_tools up)) pkgs m1 = (e, m')"
      by (auto simp: RunAptGetUpgrade_def split: prod.splits)
    then show ?thesis by (rule run_selected_ran [OF _ xs]) (rule inst)
  qed (use assms(1) u in \<open>auto simp: RunAptGetUpgrade_def\<close>)
  with 1 show ?thesis by (rule ran_trans)
qed

lemma RunYumUpdate_ran:
  assumes "RunYumUpdate up \<lparr>uo_exclusive = repeated (pc_yum_exclusive pc), uo_excludes = xs, uo_dryrun = dry\<rparr> security minimal m = (r, m')"
    and xs: "convertInputToExcludes up (pc_yum_excludes pc) = Inr xs"
  shows "ran (allowed up pc dry) m m'"
proof -
  obtain u m1 where u: "YumUpdates (up_tools up) security minimal m = (u, m1)" by fastforce
  then have 1: "ran (allowed up pc dry) m m1" by (blast intro: ran_mono YumUpdates_ran allowed_listing)
  have inst: "ran (allowed up pc dry) a b"
    if "UpdateYumPackages (up_tools up) (map fullPackageName ps) a = (e, b)" "ps \<noteq> []" "\<not> dry"
      "\<forall>p \<in> set ps. selected up (pc_yum_excludes pc) (pc_yum_exclusive pc) (pi_name p)" for ps a b e
  proof -
    have "yum_install up pc (cmd yum (yumUpdateArgs @ map fullPackageName ps))"
      unfolding yum_install_def using that by blast
    with that(3) have "allowed up pc dry (cmd yum (yumUpdateArgs @ map fullPackageName ps))" by (simp add: allowed_def)
    with that(1) show ?thesis unfolding UpdateYumPackages_def by (rule ran_run_unit)
  qed
  have "ran (allowed up pc dry) m1 m'"
  proof (cases u)
    case (Inr pkgs)
    with assms(1) u have "run_selected up \<lparr>uo_exclusive = repeated (pc_yum_exclusive pc), uo_excludes = xs, uo_dryrun = dry\<rparr>
        fullPackageName (UpdateYumPackages (up_tools up)) pkgs m1 = (r, m')"
      by (simp add: RunYumUpdate_def)
    then show ?thesis by (rule run_selected_ran [OF _ xs]) (rule inst)
  qed (use assms(1) u in \<open>auto simp: RunYumUpdate_def\<close>)
  with 1 show ?thesis by (rule ran_trans)
qed


lemma zypper_gather_done:
  "zypper_gather up o' m = (Done (Inr (patches, pkgs, pm)), m') \<Longrightarrow> \<not> zo_with_update o' \<Longrightarrow> pkgs = []"
  by (auto simp: zypper_gather_def split: prod.splits sum.splits if_splits outcome.splits)

lemma RunZypperPatch_ran:
  assumes run: "RunZypperPatch up \<lparr>uo_exclusive = repeated (pc_zypper_exclusive pc), uo_excludes = xs, uo_dryrun = dry,
      zo_list = zl, zo_with_update = pc_zypper_with_update pc\<rparr> m = (r, m')"
    and xs: "convertInputToExcludes up (pc_zypper_excludes pc) = Inr xs"
  shows "ran (allowed up pc dry) m m'"
proof -
  let ?o = "\<lparr>uo_exclusive = repeated (pc_zypper_exclusive pc), uo_excludes = xs, uo_dryrun = dry,
      zo_list = zl, zo_with_update = pc_zypper_with_update pc\<rparr>"
  obtain g m1 where g: "zypper_gather up ?o m = (g, m1)" by fastforce
  then have 1: "ran (allowed up pc dry) m m1" by (blast intro: ran_mono zypper_gather_ran allowed_listing)
  have ex: "(case repeated (pc_zypper_exclusive pc) of None \<Rightarrow> [] | Some es \<Rightarrow> es) = pc_zypper_exclusive pc"
    by (simp add: repeated_def)
  have "ran (allowed up pc dry) m1 m'"
  proof (cases "\<exists>patches pkgs pm. g = Done (Inr (patches, pkgs, pm))")
    case True
    then obtain patches pkgs pm where gg: "g = Done (Inr (patches, pkgs, pm))" by blast
    obtain fp fk where f: "runFilter up patches (pc_zypper_exclusive pc) xs pkgs pm (pc_zypper_with_update pc) = (fp, fk)" by fastforce
    have sel: "\<forall>p \<in> set fp. (pc_zypper_exclusive pc = [] \<longrightarrow> (\<forall>s \<in> set (pc_zypper_excludes pc). \<not> excluded_by up s (zp_name p)))
          \<and> (pc_zypper_exclusive pc \<noteq> [] \<longrightarrow> zp_name p \<in> set (pc_zypper_exclusive pc))"
      "fk \<noteq> [] \<longrightarrow> pc_zypper_with_update pc \<and> pc_zypper_exclusive pc = []"
      using f convert_excluded [OF xs] by (auto simp: runFilter_def split: if_splits)
    show ?thesis
    proof (cases "fp = [] \<and> fk = [] \<or> dry")
      case True
      with run g gg f ex show ?thesis by (auto simp: RunZypperPatch_def split: if_splits)
    next
      case False
      then obtain e where z: "ZypperInstall (up_tools up) fp fk m1 = (e, m')"
        using run g gg f ex by (auto simp: RunZypperPatch_def split: prod.splits)
      have "allowed up pc dry (cmd zypper (zypperInstallArgs @ map (\<lambda>p. ''patch:'' @ zp_name p) fp @ map (\<lambda>p. ''package:'' @ pi_name p) fk))"
        using False sel unfolding allowed_def zypper_install_def by blast
      with z show ?thesis
        by (auto simp: ZypperInstall_def Let_def split: prod.splits option.splits go_error.splits dest!: ran_runner [where P = "allowed up pc dry"])
    qed
  next
    case False
    with run g show ?thesis by (auto simp: RunZypperPatch_def split: outcome.splits sum.splits)
  qed
  with 1 show ?thesis by (rule ran_trans)
qed

section \<open>The whole update\<close>

lemma retry_func_keeps:
  assumes f: "\<And>w r w'. f w = (r, w') \<Longrightarrow> R w w'" and sl: "\<And>n w. R w (sleep n w)" and tr: "\<And>a b c. R a b \<Longrightarrow> R b c \<Longrightarrow> R a c"
  shows "retry_func draws sleep maxTime f i tot w = (r, sl, w') \<Longrightarrow> R w w'"
  using f sl
proof (induction draws sleep maxTime f i tot w arbitrary: r sl w' rule: retry_func.induct)
  case (1 draws sleep maxTime f i tot w)
  let ?ns = "RetrySleep (draws i) (Suc i) 0"
  obtain e w1 where fw: "f w = (e, w1)" by fastforce
  then have w1: "R w w1" by (rule "1.prems"(2))
  note run = "1.prems"(1) [unfolded retry_func.simps [of draws sleep maxTime f i tot w] fw Let_def prod.case]
  show ?case
  proof (cases "e = None \<or> tot + ?ns > maxTime")
    case True
    with run w1 show ?thesis by (cases e) auto
  next
    case False
    then obtain err where e: "e = Some err" by auto
    obtain r2 sl2 w2 where rec: "retry_func draws sleep maxTime f (Suc i) (tot + ?ns) (sleep ?ns w1) = (r2, sl2, w2)"
      by (metis prod_cases3)
    with run e False have "w' = w2" by simp
    have "R (sleep ?ns w1) w2"
      by (rule "1.IH" [OF fw [symmetric] e refl _ rec]) (use False e in simp, fact+)
    from tr [OF tr [OF w1 "1.prems"(3)] this] show ?thesis by (simp only: \<open>w' = w2\<close>)
  qed
qed

lemma retrying_ran:
  assumes run: "retrying up f m = (r, m')" and f: "\<And>m r m'. f m = (r, m') \<Longrightarrow> ran P m m'"
  shows "ran P m m'"
proof -
  let ?sleep = "\<lambda>n (m, p). (m\<lparr>mc_rest := up_sleep up n (mc_rest m)\<rparr>, p)"
  obtain e sl m1 p where rf: "RetryFunc (up_draws up) ?sleep retryPeriod (caught f) (m, None) = (e, sl, m1, p)"
    by (rule prod_cases4)
  have "ran P (fst (m, None :: string option)) (fst (m1, p))"
  proof (rule retry_func_keeps [where R = "\<lambda>a b. ran P (fst a) (fst b)" and f = "caught f" and sleep = ?sleep, OF _ _ _ rf [unfolded RetryFunc_def]])
    show "ran P (fst w) (fst w')" if "caught f w = (r, w')" for w r w'
    proof -
      obtain q n where q: "f (fst w) = (q, n)" by (cases "f (fst w)")
      from f [OF this] that q show ?thesis by (cases q) (auto simp: caught_def)
    qed
    show "ran P (fst w) (fst (?sleep n w))" for n w by (cases w) simp
    show "ran P (fst a) (fst c)" if "ran P (fst a) (fst b)" "ran P (fst b) (fst c)" for a b c using that by (rule ran_trans)
  qed
  with run rf show ?thesis by (cases p) (auto simp: retrying_def)
qed

lemma manager_updates_ran:
  assumes run: "manager_updates up present excl f next errs m = (r, m')"
    and f: "\<And>xs m r m'. convertInputToExcludes up excl = Inr xs \<Longrightarrow> f xs m = (r, m') \<Longrightarrow> ran P m m'"
    and next': "\<And>errs m r m'. next errs m = (r, m') \<Longrightarrow> ran P m m'"
  shows "ran P m m'"
proof (cases "present \<and> (\<exists>xs. convertInputToExcludes up excl = Inr xs)")
  case True
  then obtain xs where xs: "convertInputToExcludes up excl = Inr xs" by blast
  obtain u m1 where u: "retrying up (f xs) m = (u, m1)" by fastforce
  have "ran P m m1" by (rule retrying_ran [OF u]) (rule f [OF xs])
  moreover have "m1 = m' \<or> (\<exists>errs. next errs m1 = (r, m'))"
    using run True xs u by (auto simp: manager_updates_def split: outcome.splits option.splits)
  ultimately show ?thesis using next' ran_trans by blast
next
  case False
  with run next' show ?thesis by (auto simp: manager_updates_def split: if_splits sum.splits)
qed

lemma runUpdates_ran:
  "runUpdates up task m = (r, m') \<Longrightarrow> ran (allowed up (pt_config task) (pt_dry_run task)) m m'"
  unfolding runUpdates_def Let_def
  by (elim manager_updates_ran)
     (auto split: prod.splits intro: RunAptGetUpgrade_ran RunYumUpdate_ran RunZypperPatch_ran)

text \<open>
  C12. The commands a patch run may give to the machine: it only lists, unless the task is no dry run; then
  it may also repair dpkg and install, and what it installs are packages (for zypper: patches) that no
  exclude of the task matches and that are in the exclusive list if there is one; zypper updates plain packages
  only when asked to and without an exclusive list.
\<close>

theorem patch_selection_safe:
  assumes "runUpdates up task m = (r, m')"
  shows "\<exists>cs. mc_log m' = mc_log m @ cs \<and> list_all (allowed up (pt_config task) (pt_dry_run task)) cs"
  using runUpdates_ran [OF assms] by (simp add: ran_def)

section \<open>The patch task on such a machine\<close>

text \<open>
  What the ApplyPatches task promises about the machine it runs on, for any relation \<open>ok\<close> between the
  machine before and after that each single operation of the environment keeps.
\<close>

definition task_keeps :: "(patch_config \<Rightarrow> bool \<Rightarrow> 'x \<Rightarrow> 'x \<Rightarrow> bool) \<Rightarrow> patch_task \<Rightarrow> 'x patch_world \<Rightarrow> patch_task \<Rightarrow> 'x patch_world \<Rightarrow> bool" where
  "task_keeps ok r w r' w' \<longleftrightarrow> pt_config r' = pt_config r \<and> pt_dry_run r' = pt_dry_run r
     \<and> ok (pt_config r) (pt_dry_run r) (pw_rest w) (pw_rest w')"

locale patch_machine =
  fixes env :: "'x patch_env" and ok :: "patch_config \<Rightarrow> bool \<Rightarrow> 'x \<Rightarrow> 'x \<Rightarrow> bool"
  assumes ok_refl: "ok c d x x"
    and ok_trans: "ok c d x y \<Longrightarrow> ok c d y z \<Longrightarrow> ok c d x z"
    and progress_ok: "pe_progress env tid st x = (a, y) \<Longrightarrow> ok c d x y"
    and complete_ok: "pe_complete env tid msg out x = (e, y) \<Longrightarrow> ok c d x y"
    and required_ok: "pe_reboot_required env x = (b, y) \<Longrightarrow> ok c d x y"
    and reboot_ok: "pe_reboot env x = (e, y) \<Longrightarrow> pc_reboot c \<noteq> NEVER \<Longrightarrow> \<not> d \<Longrightarrow> ok c d x y"
    and updates_ok: "pe_updates env r x = (u, y) \<Longrightarrow> ok (pt_config r) (pt_dry_run r) x y"
begin

lemma keeps_refl: "task_keeps ok r w r w"
  by (simp add: task_keeps_def ok_refl)

lemma keeps_trans: "task_keeps ok r w r1 w1 \<Longrightarrow> task_keeps ok r1 w1 r2 w2 \<Longrightarrow> task_keeps ok r w r2 w2"
  by (auto simp: task_keeps_def intro: ok_trans)

lemma keeps_rest:
  "pt_config r' = pt_config r \<Longrightarrow> pt_dry_run r' = pt_dry_run r \<Longrightarrow> pw_rest w' = pw_rest w \<Longrightarrow> task_keeps ok r w r' w'"
  by (simp add: task_keeps_def ok_refl)

lemma keeps_lift: "pw_lift f w = (a, w') \<Longrightarrow> (\<And>a y. f (pw_rest w) = (a, y) \<Longrightarrow> ok (pt_config r) (pt_dry_run r) (pw_rest w) y) \<Longrightarrow> task_keeps ok r w r w'"
  by (auto simp: task_keeps_def pw_lift_def split: prod.splits)

lemma keeps_save: "saveState r w = (e, w') \<Longrightarrow> task_keeps ok r w r w'"
  by (rule keeps_rest) (simp_all add: saveState_cases)

lemma keeps_setStep: "setStep st r w = (e, r', w') \<Longrightarrow> task_keeps ok r w r' w'"
  by (rule keeps_rest) (auto simp: setStep_def saveState_def Let_def split: prod.splits)

lemma keeps_report:
  assumes "patch_reportContinuingState env st r w = (e, r', w')"
  shows "task_keeps ok r w r' w'"
proof -
  obtain p w1 where l: "pw_lift (pe_progress env (pt_id r) st) w = (p, w1)" by fastforce
  have 1: "task_keeps ok r w r w1" by (rule keeps_lift [OF l]) (rule progress_ok)
  define r2 where "r2 = r\<lparr>pt_last_progress := (pt_last_progress r)(st \<mapsto> pe_now env (pw_rest w1))\<rparr>"
  obtain e2 w2 where s: "saveState r2 w1 = (e2, w2)" by fastforce
  have "task_keeps ok r w1 r2 w1" by (rule keeps_rest) (simp_all add: r2_def)
  from keeps_trans [OF keeps_trans [OF 1 this] keeps_save [OF s]] have 2: "task_keeps ok r w r2 w2" .
  from assms have "(r', w') \<in> {(r, w), (r, w1), (r2, w2)}"
    unfolding patch_reportContinuingState_def l s r2_def [symmetric] Let_def prod.case
    by (cases p) (auto split: if_splits)
  with 1 2 keeps_refl show ?thesis by auto
qed

lemma keeps_completed: "patch_reportCompletedState env r m out w = (e, w') \<Longrightarrow> task_keeps ok r w r w'"
  by (auto simp: patch_reportCompletedState_def task_keeps_def pw_lift_def split: prod.splits dest: complete_ok)

lemma keeps_failed:
  "task_keeps ok r w r (snd (reportFailed env r msg w))"
  "task_keeps ok r w r (snd (patch_handleErrorState env r msg err w))"
  using keeps_completed [OF surjective_pairing]
  by (simp_all add: reportFailed_def patch_handleErrorState_def reportCanceled_def)

lemma keeps_do_reboot:
  assumes "do_reboot env pre r w = (res, r', w')"
  shows "task_keeps ok r w r' w'"
proof (cases "pc_reboot (pt_config r) = NEVER \<or> pt_dry_run r")
  case True
  from assms have "r' = r" "w' = w" unfolding do_reboot_skip [OF True] by auto
  then show ?thesis by (simp add: keeps_refl)
next
  case False
  define r1 where "r1 = reboot_bump pre r"
  obtain e1 w1 where s: "saveState r1 w = (e1, w1)" by fastforce
  obtain e2 r2 w2 where c: "patch_reportContinuingState env PP_REBOOTING r1 w1 = (e2, r2, w2)" by (metis prod_cases3)
  obtain e3 w3 where l: "pw_lift (pe_reboot env) w2 = (e3, w3)" by fastforce
  have 0: "task_keeps ok r w r1 w" by (rule keeps_rest) (simp_all add: r1_def reboot_bump_def)
  note 1 = keeps_trans [OF 0 keeps_save [OF s]]
  note 2 = keeps_trans [OF 1 keeps_report [OF c]]
  then have "pc_reboot (pt_config r2) \<noteq> NEVER" "\<not> pt_dry_run r2" using False by (auto simp: task_keeps_def)
  then have "task_keeps ok r2 w2 r2 w3" by (intro keeps_lift [OF l] reboot_ok)
  note 3 = keeps_trans [OF 2 this]
  from assms False have "(r', w') \<in> {(r1, w1), (r2, w3)}"
    unfolding do_reboot_def reboot_bump_def [symmetric] r1_def [symmetric] Let_def s c l prod.case
    by (cases e1; cases e3) (simp_all add: s c l)
  with 1 3 show ?thesis by auto
qed

lemma keeps_rebootIfNeeded:
  assumes "rebootIfNeeded env pre r w = (res, r', w')"
  shows "task_keeps ok r w r' w'"
proof (cases "pc_reboot (pt_config r) = ALWAYS \<and> \<not> pre \<and> pt_post_reboots r = 0")
  case True
  with assms have "do_reboot env pre r w = (res, r', w')" by (simp add: rebootIfNeeded_def)
  then show ?thesis by (rule keeps_do_reboot)
next
  case False
  obtain p w1 where l: "pw_lift (pe_reboot_required env) w = (p, w1)" by fastforce
  have 1: "task_keeps ok r w r w1" by (rule keeps_lift [OF l]) (rule required_ok)
  from assms False l have "(r', w') = (r, w1) \<or> do_reboot env pre r w1 = (res, r', w')"
    by (auto simp: rebootIfNeeded_def split: sum.splits if_splits)
  then show ?thesis
  proof
    assume "do_reboot env pre r w1 = (res, r', w')"
    from keeps_trans [OF 1 keeps_do_reboot [OF this]] show ?thesis .
  qed (use 1 in simp)
qed

text \<open>A step that ends in a report to the server keeps what its work kept.\<close>

lemma keeps_finish:
  "task_keeps ok r w r1 w1 \<Longrightarrow> task_keeps ok r w r1 (snd (reportFailed env r1 msg w1))"
  "task_keeps ok r w r1 w1 \<Longrightarrow> task_keeps ok r w r1 (snd (patch_handleErrorState env r1 msg err w1))"
  by (rule keeps_trans, assumption, rule keeps_failed)+

lemma keeps_prePatch:
  assumes "step_prePatch env r w = (res, r', w')"
  shows "task_keeps ok r w r' w'"
proof -
  let ?r = "r\<lparr>pt_started_at := pe_now env (pw_rest w)\<rparr>"
  obtain e1 r1 w1 where s: "setStep patching ?r w = (e1, r1, w1)" by (metis prod_cases3)
  obtain e2 r2 w2 where c: "patch_reportContinuingState env PP_STARTED r1 w1 = (e2, r2, w2)" by (metis prod_cases3)
  obtain e3 r3 w3 where b: "rebootIfNeeded env True r2 w2 = (e3, r3, w3)" by (metis prod_cases3)
  have "task_keeps ok r w ?r w" by (rule keeps_rest) simp_all
  note 1 = keeps_trans [OF this keeps_setStep [OF s]]
  note 2 = keeps_trans [OF 1 keeps_report [OF c]]
  note 3 = keeps_trans [OF 2 keeps_rebootIfNeeded [OF b]]
  show ?thesis
    using assms 1 2 3 unfolding step_prePatch_def s c b prod.case finish_def
    by (cases e1; cases e2; cases e3) (auto simp: c b intro: keeps_finish)
qed

lemma keeps_patching:
  assumes "step_patching env r w = (res, r', w')"
  shows "task_keeps ok r w r' w'"
proof -
  obtain e1 r1 w1 where c: "patch_reportContinuingState env PP_APPLYING_PATCHES r w = (e1, r1, w1)" by (metis prod_cases3)
  obtain u w2 where l: "pw_lift (pe_updates env r1) w1 = (u, w2)" by fastforce
  obtain e3 r3 w3 where b: "rebootIfNeeded env False r1 w2 = (e3, r3, w3)" by (metis prod_cases3)
  obtain e4 r4 w4 where s: "setStep postPatch r3 w3 = (e4, r4, w4)" by (metis prod_cases3)
  note 1 = keeps_report [OF c]
  have "task_keeps ok r1 w1 r1 w2" by (rule keeps_lift [OF l]) (rule updates_ok)
  note 2 = keeps_trans [OF 1 this]
  note 3 = keeps_trans [OF 2 keeps_rebootIfNeeded [OF b]]
  note 4 = keeps_trans [OF 3 keeps_setStep [OF s]]
  show ?thesis
  proof (cases "e1 = None \<and> u = Done None")
    case True
    with assms 3 4 c l b s show ?thesis
      by (cases e3; cases e4) (auto simp: step_patching_def finish_def intro: keeps_finish)
  next
    case False
    with assms 1 2 c l show ?thesis
      by (cases e1; cases u) (auto simp: step_patching_def finish_def split: option.splits intro: keeps_finish)
  qed
qed

lemma keeps_step:
  assumes "patch_step env r w = (res, r', w')"
  shows "task_keeps ok r w r' w'"
proof -
  have "task_keeps ok r w r' w'" if "step_postPatch env r w = (res, r', w')"
  proof -
    obtain p w1 where l: "pw_lift (pe_reboot_required env) w = (p, w1)" by fastforce
    have 1: "task_keeps ok r w r w1" by (rule keeps_lift [OF l]) (rule required_ok)
    show ?thesis
      using that 1 l keeps_trans [OF 1 keeps_completed]
      by (auto simp: step_postPatch_def finish_def Let_def split: sum.splits prod.splits option.splits intro: keeps_finish)
  qed
  moreover have "task_keeps ok r w r (snd (reportFailed env r msg w))" for msg by (rule keeps_failed)
  ultimately show ?thesis
    using assms keeps_prePatch keeps_patching by (auto simp: patch_step_def finish_def split: if_splits)
qed

lemma keeps_run: "patch_run env r w = (res, r', w') \<Longrightarrow> task_keeps ok r w r' w'"
proof (induction "step_rank r" arbitrary: r w rule: less_induct)
  case less
  obtain sr r1 w1 where st: "patch_step env r w = (sr, r1, w1)" by (metis prod_cases3)
  note 1 = keeps_step [OF st]
  note run = less.prems [unfolded patch_run.simps [of env r w] st prod.case]
  show ?case
  proof (cases sr)
    case Continue
    with run have "patch_run env r1 w1 = (res, r', w')" by simp
    with less.hyps patch_step_rank st Continue have "task_keeps ok r1 w1 r' w'" by blast
    with 1 show ?thesis by (rule keeps_trans)
  next
    case (Finished e)
    with run 1 show ?thesis by (auto simp: patch_complete_def task_keeps_def)
  next
    case (Panicked p)
    with run 1 show ?thesis by (auto simp: Let_def intro: keeps_finish)
  qed (use run 1 in auto)
qed

end

section \<open>The machine of the agent\<close>

text \<open>
  The operations the task gets on Linux. \<open>mc_log\<close> also records how the machine is rebooted; the system
  call of the last resort is noted as a command of its own.
\<close>

record 'x agent_host =
  ah_updater :: "'x updater"
  ah_progress :: "string \<Rightarrow> patch_progress \<Rightarrow> 'x \<Rightarrow> bool res \<times> 'x"
  ah_complete :: "string \<Rightarrow> string \<Rightarrow> patch_output \<Rightarrow> 'x \<Rightarrow> go_error option \<times> 'x"
  ah_now :: "'x \<Rightarrow> int"
  ah_exec :: "command \<Rightarrow> 'x \<Rightarrow> go_error option \<times> 'x"

definition systemctl :: string where "systemctl = ''/bin/systemctl''"
definition reboot_path :: string where "reboot_path = ''/bin/reboot''"
definition shutdown :: string where "shutdown = ''/bin/shutdown''"

definition host_exec :: "'x agent_host \<Rightarrow> command \<Rightarrow> 'x machine \<Rightarrow> go_error option \<times> 'x machine" where
  "host_exec h c m = (case ah_exec h c (mc_rest m) of (e, x) \<Rightarrow> (e, m\<lparr>mc_rest := x, mc_log := mc_log m @ [c]\<rparr>))"

definition host_exists :: "'x agent_host \<Rightarrow> string \<Rightarrow> 'x machine \<Rightarrow> bool \<times> 'x machine" where
  "host_exists h p m = (case up_exists (ah_updater h) p (mc_rest m) of (b, x) \<Rightarrow> (b, m\<lparr>mc_rest := x\<rparr>))"

definition rebootSystem :: "'x agent_host \<Rightarrow> 'x machine \<Rightarrow> go_error option \<times> 'x machine" where
  "rebootSystem h m =
     (case host_exists h systemctl m of
        (True, m1) \<Rightarrow> host_exec h (cmd systemctl [''reboot'']) m1
      | (False, m1) \<Rightarrow>
          (case host_exists h reboot_path m1 of
             (True, m2) \<Rightarrow> host_exec h (cmd reboot_path []) m2
           | (False, m2) \<Rightarrow>
               (case host_exists h shutdown m2 of
                  (True, m3) \<Rightarrow> host_exec h (cmd shutdown [''-r'', ''-t'', ''0'']) m3
                | (False, m3) \<Rightarrow> host_exec h (cmd ''syscall:reboot'' []) m3)))"

definition machine_lift :: "('x \<Rightarrow> 'a \<times> 'x) \<Rightarrow> 'x machine \<Rightarrow> 'a \<times> 'x machine" where
  "machine_lift f m = (case f (mc_rest m) of (a, x) \<Rightarrow> (a, m\<lparr>mc_rest := x\<rparr>))"

definition host_env :: "'x agent_host \<Rightarrow> 'x machine patch_env" where
  "host_env h = \<lparr>pe_progress = (\<lambda>tid st. machine_lift (ah_progress h tid st)),
     pe_complete = (\<lambda>tid msg out. machine_lift (ah_complete h tid msg out)),
     pe_now = (\<lambda>m. ah_now h (mc_rest m)),
     pe_reboot_required = SystemRebootRequired (ah_updater h),
     pe_updates = runUpdates (ah_updater h),
     pe_reboot = rebootSystem h\<rparr>"

definition rebooting :: "command \<Rightarrow> bool" where
  "rebooting c \<longleftrightarrow> c \<in> {cmd systemctl [''reboot''], cmd reboot_path [], cmd shutdown [''-r'', ''-t'', ''0''], cmd ''syscall:reboot'' []}"

definition task_allowed :: "'x agent_host \<Rightarrow> patch_config \<Rightarrow> bool \<Rightarrow> command \<Rightarrow> bool" where
  "task_allowed h pc dry c \<longleftrightarrow> allowed (ah_updater h) pc dry c
     \<or> (\<not> dry \<and> pc_reboot pc \<noteq> NEVER \<and> rebooting c)"

lemma machine_lift_ran: "machine_lift f m = (a, m') \<Longrightarrow> ran P m m'"
  by (auto simp: machine_lift_def split: prod.splits)

lemma host_exec_ran: "host_exec h c m = (e, m') \<Longrightarrow> P c \<Longrightarrow> ran P m m'"
  by (auto simp: host_exec_def ran_def split: prod.splits)

lemma host_exists_ran: "host_exists h p m = (b, m') \<Longrightarrow> ran P m m'"
  by (auto simp: host_exists_def split: prod.splits)

lemma rebooting_cmds:
  "rebooting (cmd systemctl [''reboot''])" "rebooting (cmd reboot_path [])"
  "rebooting (cmd shutdown [''-r'', ''-t'', ''0''])" "rebooting (cmd ''syscall:reboot'' [])"
  by (simp_all add: rebooting_def)

lemma rebootSystem_ran: "rebootSystem h m = (e, m') \<Longrightarrow> ran rebooting m m'"
  by (auto simp: rebootSystem_def split: prod.splits bool.splits
      dest!: host_exec_ran [where P = rebooting] host_exists_ran [where P = rebooting]
      intro: ran_trans simp: rebooting_cmds)

lemma SystemRebootRequired_ran: "SystemRebootRequired up m = (b, m') \<Longrightarrow> ran listing m m'"
  by (auto simp: SystemRebootRequired_def rpmReboot_def getBtime_def Let_def
      split: prod.splits if_splits sum.splits go_error.splits bool.splits option.splits
      dest!: ran_runner [where P = listing] simp: listing_cmds)

lemma task_allowed_cases:
  "listing c \<Longrightarrow> task_allowed h pc dry c" "allowed (ah_updater h) pc dry c \<Longrightarrow> task_allowed h pc dry c"
  "rebooting c \<Longrightarrow> pc_reboot pc \<noteq> NEVER \<Longrightarrow> \<not> dry \<Longrightarrow> task_allowed h pc dry c"
  by (simp_all add: task_allowed_def allowed_listing)

interpretation host: patch_machine "host_env h" "\<lambda>pc dry. ran (task_allowed h pc dry)" for h
proof unfold_locales
  fix c :: patch_config and d x y b assume "pe_reboot_required (host_env h) x = (b, y)"
  then show "ran (task_allowed h c d) x y"
    by (auto simp: host_env_def intro: ran_mono [OF SystemRebootRequired_ran] task_allowed_cases)
next
  fix c :: patch_config and e d x y assume "pe_reboot (host_env h) x = (e, y)" "pc_reboot c \<noteq> NEVER" "\<not> d"
  then show "ran (task_allowed h c d) x y"
    by (auto simp: host_env_def intro: ran_mono [OF rebootSystem_ran] task_allowed_cases)
next
  fix r x u y assume "pe_updates (host_env h) r x = (u, y)"
  then show "ran (task_allowed h (pt_config r) (pt_dry_run r)) x y"
    by (auto simp: host_env_def intro: ran_mono [OF runUpdates_ran] task_allowed_cases)
qed (auto simp: host_env_def intro: machine_lift_ran ran_trans)

text \<open>
  C13. Over a whole run of an ApplyPatches task on Linux, from any step and through its retries, reports and
  reboots, the machine is only given the commands the task allows: listing commands in a dry run, and beyond
  them repairs, installs of selected names, and a reboot unless the reboot setting is NEVER.
\<close>

theorem patch_task_safe:
  assumes "patch_run (host_env h) r w = (res, r', w')"
  shows "\<exists>cs. mc_log (pw_rest w') = mc_log (pw_rest w) @ cs
    \<and> list_all (task_allowed h (pt_config r) (pt_dry_run r)) cs"
  using host.keeps_run [OF assms] by (auto simp: task_keeps_def ran_def)

section \<open>Examples\<close>

text \<open>A machine with apt and two updates, of which the task excludes one; it then needs a reboot.\<close>

definition demo_listing :: string where
  "demo_listing = ''Inst vim [8.1] (8.2 Ubuntu:18.04/bionic-updates [amd64])'' @ [CHR 0x0A]
     @ ''Inst libssl1.1 [1.1.1] (1.1.2 Ubuntu:18.04/bionic-security [amd64])'' @ [CHR 0x0A]"

definition demo_tools :: "unit tools" where
  "demo_tools = \<lparr>tl_run = (\<lambda>c x. ((if take 1 (cmd_args c) = [''--just-print''] then demo_listing else [], [], None), x)),
     tl_pty = (\<lambda>c x. (([], [], None), x)), tl_remove = (\<lambda>p x. (None, x)), tl_unmarshal = (\<lambda>s. Inl (ErrMsg s)),
     tl_pip_unmarshal = (\<lambda>s. Inr []), tl_cos = (\<lambda>x. (Inr [], x)), tl_arch = (\<lambda>x. (Inr ''x86_64'', x)),
     tl_purl = (\<lambda>t n p v q. []), tl_apt = True, tl_dpkg_query = True, tl_yum = False, tl_zypper = False, tl_rpm_query = False,
     tl_cos_info = False, tl_gem = False, tl_pip = False\<rparr>"

definition demo_updater :: "unit updater" where
  "demo_updater = \<lparr>up_tools = demo_tools, up_compile = (\<lambda>s. None), up_match = (\<lambda>r n. has_prefix n r), up_draws = (\<lambda>i. 0),
     up_sleep = (\<lambda>n x. x), up_read = (\<lambda>p x. (Inr [], x)), up_exists = (\<lambda>p x. (p = reboot_path, x))\<rparr>"

definition demo_host :: "unit agent_host" where
  "demo_host = \<lparr>ah_updater = demo_updater, ah_progress = (\<lambda>tid st x. (Inr False, x)), ah_complete = (\<lambda>tid msg out x. (None, x)),
     ah_now = (\<lambda>x. 0), ah_exec = (\<lambda>c x. (None, x))\<rparr>"

definition demo_task :: "bool \<Rightarrow> patch_task" where
  "demo_task dry = (patch_start ''t'' (default_config\<lparr>pc_apt_excludes := [''/vi/'']\<rparr>) dry)\<lparr>pt_step := patching\<rparr>"

definition idle_machine :: "unit machine" where
  "idle_machine = \<lparr>mc_rest = (), mc_log = []\<rparr>"

definition idle_world :: "unit machine patch_world" where
  "idle_world = \<lparr>pw_disk = \<lparr>dk_current = None, dk_old = None, dk_faults = []\<rparr>, pw_rest = idle_machine, pw_labels = [], pw_sent = []\<rparr>"

lemma demo_updates:
  "fst (runUpdates demo_updater (demo_task False) idle_machine) = Done None"
  "mc_log (snd (runUpdates demo_updater (demo_task False) idle_machine))
     = [apt_cmd [''update''], apt_cmd [''--just-print'', ''-qq'', ''upgrade''], apt_cmd [''install'', ''-y'', ''libssl1.1'']]"
  by code_simp+

corollary patch_selection_safe_witness:
  "list_all (allowed demo_updater (pt_config (demo_task False)) False)
     [apt_cmd [''update''], apt_cmd [''--just-print'', ''-qq'', ''upgrade''], apt_cmd [''install'', ''-y'', ''libssl1.1'']]"
  using patch_selection_safe [of demo_updater "demo_task False" idle_machine, OF surjective_pairing]
  unfolding demo_updates by (simp add: idle_machine_def demo_task_def patch_start_def new_patch_task_def)

lemma demo_run:
  "fst (patch_run (host_env demo_host) (demo_task False) idle_world) = RunRebooting"
  "mc_log (pw_rest (snd (snd (patch_run (host_env demo_host) (demo_task False) idle_world))))
     = [apt_cmd [''update''], apt_cmd [''--just-print'', ''-qq'', ''upgrade''], apt_cmd [''install'', ''-y'', ''libssl1.1''], cmd reboot_path []]"
  by code_simp+

corollary patch_task_safe_witness:
  "list_all (task_allowed demo_host (pt_config (demo_task False)) False)
     [apt_cmd [''update''], apt_cmd [''--just-print'', ''-qq'', ''upgrade''], apt_cmd [''install'', ''-y'', ''libssl1.1''], cmd reboot_path []]"
proof -
  obtain res r' w' where run: "patch_run (host_env demo_host) (demo_task False) idle_world = (res, r', w')" by (metis prod_cases3)
  have start: "mc_log (pw_rest idle_world) = []" "pt_dry_run (demo_task False) = False"
    by (simp_all add: idle_world_def idle_machine_def demo_task_def patch_start_def new_patch_task_def)
  from patch_task_safe [OF run] demo_run(2) [unfolded run prod.sel] show ?thesis
    unfolding start by auto
qed

end
