(* ===== verification/AgentConfig.thy ===== *)
theory AgentConfig
  imports GoLib
begin

text \<open>
  The agent's settings, \<open>agentconfig/agentconfig.go\<close>: how the metadata of the project and of the
  instance become one configuration, the watch loop that installs a new one, and the identity token.

  \<^item> The decoded metadata is a record; a \<open>*json.Number\<close> is an option of its text. Decoding JSON and
    the sha256 sum are parameters.
  \<^item> The command line flags are the record \<open>agent_flags\<close>; the accessors are those of Linux.
  \<^item> One turn of the watch loop is a pair: what the metadata server answers, and what the \<open>select\<close>
    at the end of the turn receives.
\<close>

section \<open>Data\<close>

record agent_config =
  ac_instance_name :: string
  ac_instance_zone :: string
  ac_project_id :: string
  ac_endpoint :: string
  ac_instance_id :: string
  ac_universe :: string
  ac_numeric_project :: int
  ac_poll_interval :: int
  ac_debug :: bool
  ac_tasks :: bool
  ac_guest_policies :: bool
  ac_inventory :: bool
  ac_scalibr :: bool
  ac_guest_attributes :: bool
  ac_trace :: bool
  ac_extended :: bool
  ac_extractors :: "string list"

record attributes =
  at_poll_old :: "string option"
  at_poll :: "string option"
  at_inventory_old :: string
  at_inventory :: string
  at_features_old :: string
  at_features :: string
  at_debug_old :: string
  at_log_level :: string
  at_endpoint_old :: string
  at_endpoint :: string
  at_osconfig :: string
  at_disabled :: string
  at_guest_attributes :: string
  at_trace :: string
  at_scalibr :: string
  at_extended :: string
  at_extractors :: string

record metadata =
  md_instance :: attributes
  md_instance_id :: "string option"
  md_zone :: string
  md_name :: string
  md_project :: attributes
  md_project_id :: string
  md_numeric_project :: int
  md_universe :: string

record agent_flags =
  af_endpoint :: string
  af_debug :: bool

definition prodEndpoint :: string where
  "prodEndpoint = ''{zone}-osconfig.googleapis.com.:443''"

definition universeDomainDefault :: string where
  "universeDomainDefault = ''googleapis.com''"

definition osConfigPollIntervalDefault :: int where
  "osConfigPollIntervalDefault = 10"

section \<open>From metadata to settings\<close>

definition apply_feature :: "string \<Rightarrow> bool \<Rightarrow> agent_config \<Rightarrow> agent_config" where
  "apply_feature feature enabled c =
     (let f = to_lower (trim_space feature) in
      if f \<in> {''tasks'', ''ospatch''} then c\<lparr>ac_tasks := enabled\<rparr>
      else if f \<in> {''guestpolicies'', ''ospackage''} then c\<lparr>ac_guest_policies := enabled\<rparr>
      else if f = ''osinventory'' then c\<lparr>ac_inventory := enabled\<rparr>
      else c)"

definition parseFeatures :: "string \<Rightarrow> bool \<Rightarrow> agent_config \<Rightarrow> agent_config" where
  "parseFeatures features enabled c = foldl (\<lambda>c f. apply_feature f enabled c) c (split_on (CHR '','') features)"

definition parseBool :: "string \<Rightarrow> bool" where
  "parseBool s = (case parse_bool s of None \<Rightarrow> False | Some b \<Rightarrow> b)"

definition parseSlice :: "string \<Rightarrow> string list" where
  "parseSlice s = filter (\<lambda>item. item \<noteq> []) (map trim_space (split_on (CHR '','') s))"

text \<open>What one level of metadata, first the project and then the instance, says about the features.\<close>

definition level_inventory :: "attributes \<Rightarrow> agent_config \<Rightarrow> agent_config" where
  "level_inventory a c =
     (if at_inventory a \<noteq> [] then c\<lparr>ac_inventory := parseBool (at_inventory a)\<rparr>
      else if at_inventory_old a \<noteq> [] then c\<lparr>ac_inventory := parseBool (at_inventory_old a)\<rparr>
      else c)"

definition level_osconfig :: "attributes \<Rightarrow> agent_config \<Rightarrow> agent_config" where
  "level_osconfig a c =
     (if at_osconfig a \<noteq> []
      then (let e = parseBool (at_osconfig a) in c\<lparr>ac_tasks := e, ac_guest_policies := e, ac_inventory := e\<rparr>)
      else c)"

definition level_features :: "attributes \<Rightarrow> agent_config \<Rightarrow> agent_config" where
  "level_features a c =
     parseFeatures (at_disabled a) False
       (level_osconfig a
         (parseFeatures (at_features a) True
           (parseFeatures (at_features_old a) True
             (level_inventory a c))))"

definition set_poll :: "string \<Rightarrow> agent_config \<Rightarrow> agent_config" where
  "set_poll number c = (case parse_int 10 64 number of None \<Rightarrow> c | Some v \<Rightarrow> c\<lparr>ac_poll_interval := v\<rparr>)"

definition poll_project :: "attributes \<Rightarrow> agent_config \<Rightarrow> agent_config" where
  "poll_project a c =
     (case at_poll a of Some n \<Rightarrow> set_poll n c
      | None \<Rightarrow> (case at_poll_old a of Some n \<Rightarrow> set_poll n c | None \<Rightarrow> c))"

text \<open>The second case of the code reads \<open>PollInterval\<close>, which is nil there.\<close>

definition poll_instance :: "attributes \<Rightarrow> agent_config \<Rightarrow> agent_config outcome" where
  "poll_instance a c =
     (case at_poll a of Some n \<Rightarrow> Done (set_poll n c)
      | None \<Rightarrow> (case at_poll_old a of Some n \<Rightarrow> Panic ''nil pointer dereference'' | None \<Rightarrow> Done c))"

definition log_level :: "string \<Rightarrow> agent_config \<Rightarrow> agent_config" where
  "log_level s c =
     (if to_lower s = ''debug'' then c\<lparr>ac_debug := True\<rparr>
      else if to_lower s = ''info'' then c\<lparr>ac_debug := False\<rparr>
      else c)"

definition set_debug :: "agent_flags \<Rightarrow> metadata \<Rightarrow> agent_config \<Rightarrow> agent_config" where
  "set_debug fl md c =
     (let p = md_project md; i = md_instance md;
          c1 = (if at_debug_old p \<noteq> [] then c\<lparr>ac_debug := parseBool (at_debug_old p)\<rparr>
                else if at_debug_old i \<noteq> [] then c\<lparr>ac_debug := parseBool (at_debug_old i)\<rparr> else c);
          c2 = log_level (at_log_level i) (log_level (at_log_level p) c1)
      in if af_debug fl then c2\<lparr>ac_debug := True\<rparr> else c2)"

definition set_flag :: "(attributes \<Rightarrow> string) \<Rightarrow> (bool \<Rightarrow> agent_config \<Rightarrow> agent_config) \<Rightarrow> metadata \<Rightarrow> agent_config \<Rightarrow> agent_config" where
  "set_flag key put md c =
     (let c1 = (if key (md_project md) \<noteq> [] then put (parseBool (key (md_project md))) c else c)
      in if key (md_instance md) \<noteq> [] then put (parseBool (key (md_instance md))) c1 else c1)"

definition setGuestAttributes :: "metadata \<Rightarrow> agent_config \<Rightarrow> agent_config" where
  "setGuestAttributes = set_flag at_guest_attributes (\<lambda>b c. c\<lparr>ac_guest_attributes := b\<rparr>)"

definition setScalibrEnablement :: "metadata \<Rightarrow> agent_config \<Rightarrow> agent_config" where
  "setScalibrEnablement = set_flag at_scalibr (\<lambda>b c. c\<lparr>ac_scalibr := b\<rparr>)"

definition setTraceGetInventory :: "metadata \<Rightarrow> agent_config \<Rightarrow> agent_config" where
  "setTraceGetInventory = set_flag at_trace (\<lambda>b c. c\<lparr>ac_trace := b\<rparr>)"

definition setExtendedInventory :: "metadata \<Rightarrow> agent_config \<Rightarrow> agent_config" where
  "setExtendedInventory md c =
     (let c1 = set_flag at_extended (\<lambda>b c. c\<lparr>ac_extended := b\<rparr>) md c;
          p = at_extractors (md_project md); i = at_extractors (md_instance md);
          c2 = (if p \<noteq> [] then c1\<lparr>ac_extractors := parseSlice p\<rparr> else c1)
      in if i \<noteq> [] then c2\<lparr>ac_extractors := parseSlice i\<rparr> else c2)"

definition setSVCEndpoint :: "agent_flags \<Rightarrow> metadata \<Rightarrow> agent_config \<Rightarrow> agent_config" where
  "setSVCEndpoint fl md c =
     (let p = md_project md; i = md_instance md;
          e0 = (if af_endpoint fl \<noteq> prodEndpoint then af_endpoint fl
                else if at_endpoint i \<noteq> [] then at_endpoint i
                else if at_endpoint_old i \<noteq> [] then at_endpoint_old i
                else if at_endpoint p \<noteq> [] then at_endpoint p
                else if at_endpoint_old p \<noteq> [] then at_endpoint_old p
                else ac_endpoint c);
          e1 = replace_all ''{zone}'' (last (split_on (CHR ''/'') (ac_instance_zone c))) e0
      in c\<lparr>ac_endpoint := (if ac_universe c \<noteq> universeDomainDefault
                           then replace_all universeDomainDefault (ac_universe c) e1 else e1)\<rparr>)"

definition base_config :: "agent_config \<Rightarrow> metadata \<Rightarrow> agent_config" where
  "base_config old md =
     \<lparr>ac_instance_name = (if md_name md \<noteq> [] then md_name md else ac_instance_name old),
      ac_instance_zone = (if md_zone md \<noteq> [] then md_zone md else ac_instance_zone old),
      ac_project_id = (if md_project_id md \<noteq> [] then md_project_id md else ac_project_id old),
      ac_endpoint = prodEndpoint,
      ac_instance_id = (case md_instance_id md of None \<Rightarrow> ac_instance_id old | Some n \<Rightarrow> n),
      ac_universe = (if md_universe md \<noteq> [] then md_universe md else universeDomainDefault),
      ac_numeric_project = (if md_numeric_project md \<noteq> 0 then md_numeric_project md else ac_numeric_project old),
      ac_poll_interval = osConfigPollIntervalDefault,
      ac_debug = False, ac_tasks = False, ac_guest_policies = False, ac_inventory = False,
      ac_scalibr = False, ac_guest_attributes = False, ac_trace = False, ac_extended = False, ac_extractors = []\<rparr>"

definition createConfigFromMetadata :: "agent_flags \<Rightarrow> agent_config \<Rightarrow> metadata \<Rightarrow> agent_config outcome" where
  "createConfigFromMetadata fl old md =
     obind (poll_instance (md_instance md)
             (poll_project (md_project md)
               (level_features (md_instance md) (level_features (md_project md) (base_config old md)))))
       (\<lambda>c. Done (setExtendedInventory md (setTraceGetInventory md (setSVCEndpoint fl md (setScalibrEnablement md
                 (setGuestAttributes md (set_debug fl md c)))))))"

section \<open>Which features are on\<close>

datatype feature = Tasks | GuestPolicies | OSInventory

fun feature_names :: "feature \<Rightarrow> string list" where
  "feature_names Tasks = [''tasks'', ''ospatch'']"
| "feature_names GuestPolicies = [''guestpolicies'', ''ospackage'']"
| "feature_names OSInventory = [''osinventory'']"

fun has_feature :: "agent_config \<Rightarrow> feature \<Rightarrow> bool" where
  "has_feature c Tasks = ac_tasks c"
| "has_feature c GuestPolicies = ac_guest_policies c"
| "has_feature c OSInventory = ac_inventory c"

text \<open>The reference: settings in order of rising precedence, each for the features it speaks of; the last one wins.\<close>

definition listed :: "string \<Rightarrow> feature \<Rightarrow> bool" where
  "listed s f = list_ex (\<lambda>w. to_lower (trim_space w) \<in> set (feature_names f)) (split_on (CHR '','') s)"

definition level_layers :: "attributes \<Rightarrow> ((feature \<Rightarrow> bool) \<times> bool) list" where
  "level_layers a =
     (if at_inventory a \<noteq> [] then [((\<lambda>f. f = OSInventory), parseBool (at_inventory a))]
      else if at_inventory_old a \<noteq> [] then [((\<lambda>f. f = OSInventory), parseBool (at_inventory_old a))] else [])
     @ [(listed (at_features_old a), True), (listed (at_features a), True)]
     @ (if at_osconfig a \<noteq> [] then [((\<lambda>f. True), parseBool (at_osconfig a))] else [])
     @ [(listed (at_disabled a), False)]"

definition last_says :: "((feature \<Rightarrow> bool) \<times> bool) list \<Rightarrow> feature \<Rightarrow> bool \<Rightarrow> bool" where
  "last_says ls f d = (case find (\<lambda>l. fst l f) (rev ls) of None \<Rightarrow> d | Some l \<Rightarrow> snd l)"

lemma find_append: "find P (xs @ ys) = (case find P xs of None \<Rightarrow> find P ys | Some x \<Rightarrow> Some x)"
  by (induction xs) auto

lemma last_says_simps [simp]:
  "last_says [] f d = d"
  "last_says (l # ls) f d = last_says ls f (if fst l f then snd l else d)"
  by (auto simp: last_says_def find_append split: option.splits)

lemma last_says_append: "last_says (as @ bs) f d = last_says bs f (last_says as f d)"
  by (induction as arbitrary: d) auto

lemma apply_feature_has:
  "has_feature (apply_feature w b c) f \<longleftrightarrow> (if to_lower (trim_space w) \<in> set (feature_names f) then b else has_feature c f)"
  by (cases f) (auto simp: apply_feature_def Let_def)

lemma parseFeatures_has: "has_feature (parseFeatures s b c) f \<longleftrightarrow> (if listed s f then b else has_feature c f)"
proof -
  have "has_feature (foldl (\<lambda>c f. apply_feature f b c) c ws) f
      \<longleftrightarrow> (if list_ex (\<lambda>w. to_lower (trim_space w) \<in> set (feature_names f)) ws then b else has_feature c f)" for ws
    by (induction ws arbitrary: c) (simp_all add: apply_feature_has)
  then show ?thesis by (simp add: parseFeatures_def listed_def)
qed

lemma level_inventory_has:
  "has_feature (level_inventory a c) f = last_says
     (if at_inventory a \<noteq> [] then [((\<lambda>f. f = OSInventory), parseBool (at_inventory a))]
      else if at_inventory_old a \<noteq> [] then [((\<lambda>f. f = OSInventory), parseBool (at_inventory_old a))] else []) f (has_feature c f)"
  by (cases f) (simp_all add: level_inventory_def)

lemma level_osconfig_has:
  "has_feature (level_osconfig a c) f = (if at_osconfig a \<noteq> [] then parseBool (at_osconfig a) else has_feature c f)"
  by (cases f) (simp_all add: level_osconfig_def Let_def)

lemma level_features_has: "has_feature (level_features a c) f = last_says (level_layers a) f (has_feature c f)"
  by (simp add: level_features_def level_layers_def last_says_append parseFeatures_has level_osconfig_has level_inventory_has)

text \<open>What is set afterwards does not touch the features.\<close>

lemma later_settings_has:
  "has_feature (set_poll n c) f = has_feature c f"
  "has_feature (log_level s c) f = has_feature c f"
  "has_feature (set_debug fl md c) f = has_feature c f"
  "has_feature (setGuestAttributes md c) f = has_feature c f"
  "has_feature (setScalibrEnablement md c) f = has_feature c f"
  "has_feature (setTraceGetInventory md c) f = has_feature c f"
  "has_feature (setExtendedInventory md c) f = has_feature c f"
  "has_feature (setSVCEndpoint fl md c) f = has_feature c f"
  by (cases f; simp add: set_poll_def log_level_def set_debug_def setGuestAttributes_def setScalibrEnablement_def
      setTraceGetInventory_def setExtendedInventory_def setSVCEndpoint_def set_flag_def Let_def split: option.splits)+

lemma create_cases:
  "createConfigFromMetadata fl old md = Done c \<Longrightarrow> \<exists>c0. poll_instance (md_instance md)
       (poll_project (md_project md) (level_features (md_instance md) (level_features (md_project md) (base_config old md)))) = Done c0
     \<and> c = setExtendedInventory md (setTraceGetInventory md (setSVCEndpoint fl md (setScalibrEnablement md
                 (setGuestAttributes md (set_debug fl md c0)))))"
  unfolding createConfigFromMetadata_def obind_Done_iff by auto

text \<open>
  C14. Every feature of the configuration made from the metadata follows the documented precedence: among the
  settings of the project and then of the instance (inventory keys, old and new prerelease features,
  \<open>enable-osconfig\<close>, disabled features) the last one that speaks of the feature decides, and it is off if none does.
\<close>

theorem feature_layers:
  assumes "createConfigFromMetadata fl old md = Done c"
  shows "has_feature c f = last_says (level_layers (md_project md) @ level_layers (md_instance md)) f False"
proof -
  obtain c0 where c0: "poll_instance (md_instance md)
       (poll_project (md_project md) (level_features (md_instance md) (level_features (md_project md) (base_config old md)))) = Done c0"
    and c: "c = setExtendedInventory md (setTraceGetInventory md (setSVCEndpoint fl md (setScalibrEnablement md
                 (setGuestAttributes md (set_debug fl md c0)))))"
    using create_cases [OF assms] by blast
  have "has_feature c0 f = has_feature (level_features (md_instance md) (level_features (md_project md) (base_config old md))) f"
    using c0 by (auto simp: poll_instance_def poll_project_def later_settings_has split: option.splits)
  moreover have "has_feature (base_config old md) f = False" by (cases f) (simp_all add: base_config_def)
  ultimately show ?thesis by (simp add: c later_settings_has level_features_has last_says_append)
qed

definition no_attributes :: attributes where
  "no_attributes = \<lparr>at_poll_old = None, at_poll = None, at_inventory_old = [], at_inventory = [], at_features_old = [],
     at_features = [], at_debug_old = [], at_log_level = [], at_endpoint_old = [], at_endpoint = [], at_osconfig = [],
     at_disabled = [], at_guest_attributes = [], at_trace = [], at_scalibr = [], at_extended = [], at_extractors = []\<rparr>"

definition no_config :: agent_config where
  "no_config = \<lparr>ac_instance_name = [], ac_instance_zone = [], ac_project_id = [], ac_endpoint = [], ac_instance_id = [],
     ac_universe = [], ac_numeric_project = 0, ac_poll_interval = 0, ac_debug = False, ac_tasks = False,
     ac_guest_policies = False, ac_inventory = False, ac_scalibr = False, ac_guest_attributes = False, ac_trace = False,
     ac_extended = False, ac_extractors = []\<rparr>"

definition default_flags :: agent_flags where
  "default_flags = \<lparr>af_endpoint = prodEndpoint, af_debug = False\<rparr>"

definition demo_metadata :: metadata where
  "demo_metadata = \<lparr>md_instance = no_attributes\<lparr>at_disabled := ''guestpolicies, OSInventory''\<rparr>, md_instance_id = Some ''7'',
     md_zone = ''projects/1/zones/us-west1-b'', md_name = ''vm'', md_project = no_attributes\<lparr>at_osconfig := ''TRUE''\<rparr>,
     md_project_id = ''p'', md_numeric_project = 1, md_universe = []\<rparr>"

definition demo_config :: agent_config where
  "demo_config = no_config\<lparr>ac_instance_name := ''vm'', ac_instance_zone := ''projects/1/zones/us-west1-b'', ac_project_id := ''p'',
     ac_endpoint := ''us-west1-b-osconfig.googleapis.com.:443'', ac_instance_id := ''7'', ac_universe := ''googleapis.com'',
     ac_numeric_project := 1, ac_poll_interval := 10, ac_tasks := True\<rparr>"

lemma demo_create: "createConfigFromMetadata default_flags no_config demo_metadata = Done demo_config"
  by code_simp

corollary feature_layers_witness:
  "last_says (level_layers (md_project demo_metadata) @ level_layers (md_instance demo_metadata)) GuestPolicies False = False
     \<and> last_says (level_layers (md_project demo_metadata) @ level_layers (md_instance demo_metadata)) Tasks False = True"
  using feature_layers [OF demo_create, of GuestPolicies] feature_layers [OF demo_create, of Tasks]
  by (simp add: demo_config_def no_config_def)

text \<open>
  The agent crashes on its metadata exactly when the instance sets the old poll interval key and not the
  new one: the code then reads the number behind a nil pointer.
\<close>

theorem config_crash_exact:
  "is_panic (createConfigFromMetadata fl old md) \<longleftrightarrow> at_poll (md_instance md) = None \<and> at_poll_old (md_instance md) \<noteq> None"
  by (auto simp: createConfigFromMetadata_def poll_instance_def split: option.splits)

text \<open>An old debug key of the project hides the one of the instance.\<close>

lemma project_debug_wins:
  "createConfigFromMetadata default_flags no_config
     (demo_metadata\<lparr>md_project := no_attributes\<lparr>at_debug_old := ''false''\<rparr>, md_instance := no_attributes\<lparr>at_debug_old := ''true''\<rparr>\<rparr>)
   = Done (demo_config\<lparr>ac_tasks := False, ac_debug := False\<rparr>)"
  by code_simp

section \<open>Watching the metadata\<close>

datatype net_error = DNSError | OpError | OtherError

datatype http_reply = HttpError net_error go_error | HttpReply nat "string res" string

fun formatMetadataError :: "net_error \<Rightarrow> go_error \<Rightarrow> go_error" where
  "formatMetadataError DNSError e = ErrWrap ''DNS error when requesting metadata, check DNS settings and ensure metadata.google.internal is setup in your hosts file'' e"
| "formatMetadataError OpError e = ErrWrap ''network error when requesting metadata, make sure your instance has an active network and can reach the metadata server'' e"
| "formatMetadataError OtherError e = e"

text \<open>Any status but 200 gives no data and, as \<open>err\<close> is nil there, no error.\<close>

fun getMetadata :: "http_reply \<Rightarrow> string \<times> string \<times> (net_error \<times> go_error) option" where
  "getMetadata (HttpError k e) = ([], [], Some (k, e))"
| "getMetadata (HttpReply status body etag) =
     (if status \<noteq> 200 then ([], [], None)
      else (case body of Inl e \<Rightarrow> ([], [], Some (OtherError, e)) | Inr b \<Rightarrow> (b, etag, None)))"

datatype watch_end = WatchTimeout | WatchCancelled | WatchTick

record agent_state =
  as_config :: agent_config
  as_etag :: string

text \<open>\<open>None\<close>: the turns given are over and the loop is still watching.\<close>

fun watch_loop :: "agent_flags \<Rightarrow> (string \<Rightarrow> metadata res) \<Rightarrow> (agent_config \<Rightarrow> string) \<Rightarrow> (http_reply \<times> watch_end) list \<Rightarrow> nat \<Rightarrow> nat
    \<Rightarrow> agent_state \<Rightarrow> (go_error option \<times> agent_state) outcome option" where
  "watch_loop fl unmarshal sha [] webErrors unmarshalErrors st = None"
| "watch_loop fl unmarshal sha ((reply, stop) # turns) webErrors unmarshalErrors st =
     (case getMetadata reply of
        (md, etag, None) \<Rightarrow>
          if etag \<noteq> as_etag st then
            (case unmarshal md of
               Inl err \<Rightarrow>
                 if unmarshalErrors \<ge> 3 then Some (Done (Some err, st))
                 else (case stop of
                         WatchTimeout \<Rightarrow> Some (Done (Some err, st))
                       | WatchCancelled \<Rightarrow> Some (Done (None, st))
                       | WatchTick \<Rightarrow> watch_loop fl unmarshal sha turns webErrors (Suc unmarshalErrors) st)
             | Inr m \<Rightarrow>
                 (case createConfigFromMetadata fl (as_config st) m of
                    Panic p \<Rightarrow> Some (Panic p)
                  | Done c \<Rightarrow>
                      if sha (as_config st) \<noteq> sha c then Some (Done (None, \<lparr>as_config = c, as_etag = etag\<rparr>))
                      else (case stop of
                              WatchTick \<Rightarrow> watch_loop fl unmarshal sha turns webErrors 0 (st\<lparr>as_etag := etag\<rparr>)
                            | _ \<Rightarrow> Some (Done (None, st\<lparr>as_etag := etag\<rparr>)))))
          else (case stop of
                  WatchTick \<Rightarrow> watch_loop fl unmarshal sha turns webErrors unmarshalErrors st
                | _ \<Rightarrow> Some (Done (None, st)))
      | (md, etag, Some (k, err)) \<Rightarrow>
          if webErrors = 12 then Some (Done (Some (formatMetadataError k err), st))
          else (case stop of
                  WatchTimeout \<Rightarrow> Some (Done (Some err, st))
                | WatchCancelled \<Rightarrow> Some (Done (None, st))
                | WatchTick \<Rightarrow> watch_loop fl unmarshal sha turns (Suc webErrors) unmarshalErrors st))"

definition WatchConfig :: "agent_flags \<Rightarrow> (string \<Rightarrow> metadata res) \<Rightarrow> (agent_config \<Rightarrow> string) \<Rightarrow> (http_reply \<times> watch_end) list
    \<Rightarrow> agent_state \<Rightarrow> (go_error option \<times> agent_state) outcome option" where
  "WatchConfig fl unmarshal sha turns st = watch_loop fl unmarshal sha turns 0 0 st"

definition web_error :: "http_reply \<times> watch_end \<Rightarrow> bool" where
  "web_error t \<longleftrightarrow> snd (snd (getMetadata (fst t))) \<noteq> None"

lemma watch_loop_waiting:
  "watch_loop fl unmarshal sha turns we ue st = None \<Longrightarrow> we \<le> 12
    \<Longrightarrow> list_all (\<lambda>t. snd t = WatchTick) turns \<and> length (filter web_error turns) + we \<le> 12"
proof (induction fl unmarshal sha turns we ue st rule: watch_loop.induct)
  case (2 fl unmarshal sha reply stop turns we ue st)
  obtain md etag e where g: "getMetadata reply = (md, etag, e)" by (metis prod_cases3)
  have stop: "stop = WatchTick" using "2.prems"(1) g
    by (cases stop) (auto split: option.splits if_splits sum.splits outcome.splits)
  show ?case
  proof (cases e)
    case None
    then have "\<not> web_error (reply, stop)" by (simp add: web_error_def g)
    with "2.prems" "2.IH"(1-3) g None stop show ?thesis
      by (auto split: if_splits sum.splits outcome.splits)
  next
    case (Some ke)
    then obtain k err where ke: "e = Some (k, err)" by (cases ke) auto
    have "web_error (reply, stop)" by (simp add: web_error_def g Some)
    with "2.prems" "2.IH"(4) g ke stop show ?thesis by (auto split: if_splits)
  qed
qed simp

text \<open>
  The watch ends: while \<open>WatchConfig\<close> has not returned, its timer has not fired and nothing was
  cancelled, and at most twelve requests have failed; the thirteenth failure ends it.
\<close>

theorem watch_config_ends:
  assumes "WatchConfig fl unmarshal sha turns st = None"
  shows "list_all (\<lambda>t. snd t = WatchTick) turns \<and> length (filter web_error turns) \<le> 12"
  using watch_loop_waiting [OF assms [unfolded WatchConfig_def]] by simp

text \<open>A reply the server gave in these turns that decodes to \<open>m\<close>, with its tag.\<close>

definition replied :: "(string \<Rightarrow> metadata res) \<Rightarrow> (http_reply \<times> watch_end) list \<Rightarrow> metadata \<Rightarrow> string \<Rightarrow> bool" where
  "replied unmarshal turns m etag \<longleftrightarrow> (\<exists>b stop. (HttpReply 200 (Inr b) etag, stop) \<in> set turns \<and> unmarshal b = Inr m)
     \<or> (\<exists>reply stop. (reply, stop) \<in> set turns \<and> getMetadata reply = ([], [], None) \<and> etag = [] \<and> unmarshal [] = Inr m)"

lemma replied_Cons: "replied unmarshal turns m etag \<Longrightarrow> replied unmarshal (t # turns) m etag"
  by (auto simp: replied_def)

lemma getMetadata_replied:
  "getMetadata reply = (b, etag, None) \<Longrightarrow> unmarshal b = Inr m \<Longrightarrow> replied unmarshal ((reply, stop) # turns) m etag"
  by (cases reply) (auto simp: replied_def split: if_splits sum.splits)

lemma watch_loop_installs:
  "watch_loop fl unmarshal sha turns we ue st = Some (Done (e, st'))
    \<Longrightarrow> as_config st' = as_config st
       \<or> e = None \<and> sha (as_config st') \<noteq> sha (as_config st)
         \<and> (\<exists>m. replied unmarshal turns m (as_etag st') \<and> createConfigFromMetadata fl (as_config st) m = Done (as_config st'))"
proof (induction fl unmarshal sha turns we ue st rule: watch_loop.induct)
  case (2 fl unmarshal sha reply stop turns we ue st)
  obtain md etag er where g: "getMetadata reply = (md, etag, er)" by (metis prod_cases3)
  show ?case
  proof (cases "er = None \<and> etag \<noteq> as_etag st \<and> \<not> is_err (unmarshal md)")
    case True
    then obtain m where m: "unmarshal md = Inr m" by (cases "unmarshal md") auto
    have r: "replied unmarshal ((reply, stop) # turns) m etag"
      by (rule getMetadata_replied [where b = md]) (use g True m in auto)
    show ?thesis
    proof (cases "createConfigFromMetadata fl (as_config st) m")
      case (Done c)
      show ?thesis
      proof (cases "sha (as_config st) = sha c \<and> stop = WatchTick")
        case tick: True
        with "2.prems" g True m Done
        have "watch_loop fl unmarshal sha turns we 0 (st\<lparr>as_etag := etag\<rparr>) = Some (Done (e, st'))" by simp
        with "2.IH"(2) [of md "(etag, er)" etag er m c] g True m Done tick show ?thesis by (auto intro: replied_Cons)
      next
        case False
        with "2.prems" g True m Done r show ?thesis by (auto split: if_splits watch_end.splits)
      qed
    qed (use "2.prems" g True m in simp)
  next
    case False
    then consider "er = None" "etag = as_etag st" | err where "er = None" "etag \<noteq> as_etag st" "unmarshal md = Inl err"
      | k err where "er = Some (k, err)"
      by (cases er; cases "unmarshal md") auto
    then show ?thesis
    proof cases
      case 1
      with "2.prems" "2.IH"(3) [of md "(etag, er)" etag er] g show ?thesis by (cases stop) (auto intro: replied_Cons)
    next
      case 2
      with "2.prems" "2.IH"(1) [of md "(etag, er)" etag er err] g show ?thesis by (cases stop) (auto split: if_splits intro: replied_Cons)
    next
      case 3
      with "2.prems" "2.IH"(4) [of md "(etag, er)" etag er "(k, err)" k err] g show ?thesis by (cases stop) (auto split: if_splits intro: replied_Cons)
    qed
  qed
qed simp

text \<open>
  C15. \<open>WatchConfig\<close> changes the configuration only without an error, only to the one made from an answer of
  the metadata server whose tag it stores, and only when the new one has another digest; whatever error it
  returns, the configuration is the old one.
\<close>

theorem watch_config_installs:
  assumes "WatchConfig fl unmarshal sha turns st = Some (Done (e, st'))"
  shows "as_config st' = as_config st
       \<or> e = None \<and> sha (as_config st') \<noteq> sha (as_config st)
         \<and> (\<exists>m. replied unmarshal turns m (as_etag st') \<and> createConfigFromMetadata fl (as_config st) m = Done (as_config st'))"
  by (rule watch_loop_installs [OF assms [unfolded WatchConfig_def]])

definition start_state :: agent_state where
  "start_state = \<lparr>as_config = no_config, as_etag = ''0''\<rparr>"

definition demo_turns :: "(http_reply \<times> watch_end) list" where
  "demo_turns = [(HttpError DNSError (ErrMsg ''no such host''), WatchTick), (HttpReply 200 (Inr ''{}'') ''e1'', WatchTick)]"

lemma demo_watch:
  "WatchConfig default_flags (\<lambda>b. if b = ''{}'' then Inr demo_metadata else Inl (ErrMsg ''unexpected end of JSON input'')) ac_endpoint
     demo_turns start_state = Some (Done (None, \<lparr>as_config = demo_config, as_etag = ''e1''\<rparr>))"
  by code_simp

lemma demo_watch_waiting:
  "WatchConfig default_flags (\<lambda>b. Inl (ErrMsg ''unexpected end of JSON input'')) ac_endpoint (take 1 demo_turns) start_state = None"
  by code_simp

corollary watch_config_ends_witness: "length (filter web_error (take 1 demo_turns)) \<le> 12"
  using watch_config_ends [OF demo_watch_waiting] by simp

corollary watch_config_installs_witness:
  "\<exists>m. replied (\<lambda>b. if b = ''{}'' then Inr demo_metadata else Inl (ErrMsg ''unexpected end of JSON input'')) demo_turns m ''e1''
     \<and> createConfigFromMetadata default_flags no_config m = Done demo_config"
  using watch_config_installs [OF demo_watch] by (auto simp: start_state_def demo_config_def no_config_def)

section \<open>The identity token\<close>

record id_token =
  it_raw :: string
  it_exp :: "int option"

text \<open>\<open>fetch\<close> is the metadata server, \<open>expiry\<close> the decoder of the token (\<open>jws.Decode\<close>); times are seconds.\<close>

definition id_get :: "('x \<Rightarrow> string res \<times> 'x) \<Rightarrow> (string \<Rightarrow> int res) \<Rightarrow> id_token \<Rightarrow> 'x \<Rightarrow> go_error option \<times> id_token \<times> 'x" where
  "id_get fetch expiry t x =
     (case fetch x of
        (Inl e, x1) \<Rightarrow> (Some (ErrWrap ''error getting token from metadata'' e), t, x1)
      | (Inr raw, x1) \<Rightarrow>
          (case expiry raw of
             Inl e \<Rightarrow> (Some e, t, x1)
           | Inr ex \<Rightarrow> (None, \<lparr>it_raw = raw, it_exp = Some ex\<rparr>, x1)))"

definition IDToken :: "('x \<Rightarrow> string res \<times> 'x) \<Rightarrow> (string \<Rightarrow> int res) \<Rightarrow> int \<Rightarrow> id_token \<Rightarrow> 'x \<Rightarrow> string res \<times> id_token \<times> 'x" where
  "IDToken fetch expiry now t x =
     (if (case it_exp t of None \<Rightarrow> True | Some ex \<Rightarrow> now > ex - 600)
      then (case id_get fetch expiry t x of
              (Some e, t1, x1) \<Rightarrow> (Inl e, t1, x1)
            | (None, t1, x1) \<Rightarrow> (Inr (it_raw t1), t1, x1))
      else (Inr (it_raw t), t, x))"

definition token_inv :: "(string \<Rightarrow> int res) \<Rightarrow> id_token \<Rightarrow> bool" where
  "token_inv expiry t \<longleftrightarrow> (\<forall>ex. it_exp t = Some ex \<longrightarrow> expiry (it_raw t) = Inr ex)"

text \<open>
  C16. The cached identity token always matches its stored expiry, also after a failed renewal; a call that
  succeeds hands out a token that decodes, and that was just fetched or is good for ten minutes more.
\<close>

theorem id_token_fresh:
  assumes "token_inv expiry t" "IDToken fetch expiry now t x = (r, t', x')"
  shows "token_inv expiry t'
    \<and> (\<forall>raw. r = Inr raw \<longrightarrow> (\<exists>ex. expiry raw = Inr ex \<and> (fst (fetch x) = Inr raw \<or> (now + 600 \<le> ex \<and> x' = x))))"
  using assms
  by (auto simp: IDToken_def id_get_def token_inv_def split: option.splits prod.splits sum.splits if_splits)

corollary id_token_fresh_witness:
  "\<exists>ex. (Inr 1000 :: int res) = Inr ex \<and> (fst ((Inr ''b'', ()) :: string res \<times> unit) = Inr ''a'' \<or> (100 + 600 \<le> ex \<and> () = ()))"
  using id_token_fresh [where expiry = "\<lambda>s. Inr 1000" and t = "\<lparr>it_raw = ''a'', it_exp = Some 1000\<rparr>" and fetch = "\<lambda>x. (Inr ''b'', ())"
      and now = 100 and x = "()" and t' = "\<lparr>it_raw = ''a'', it_exp = Some 1000\<rparr>" and x' = "()" and r = "Inr ''a''"]
  by (auto simp: token_inv_def IDToken_def)

section \<open>Accessors\<close>

text \<open>\<open>int\<close> minutes as the poll period; the service loop makes a ticker of it, which panics unless it is positive.\<close>

definition SvcPollInterval :: "agent_config \<Rightarrow> int" where
  "SvcPollInterval c = ac_poll_interval c * 60"

definition Debug :: "agent_flags \<Rightarrow> agent_config \<Rightarrow> bool" where
  "Debug fl c \<longleftrightarrow> af_debug fl \<or> ac_debug c"

definition Instance :: "agent_config \<Rightarrow> string" where
  "Instance c = ac_instance_zone c @ ''/instances/'' @ ac_instance_name c"

definition UserAgent :: "string \<Rightarrow> string" where
  "UserAgent version = ''google-osconfig-agent/'' @ version"

text \<open>Both environment variables are lowered when they are read.\<close>

definition env_enabled :: "string \<Rightarrow> bool" where
  "env_enabled v \<longleftrightarrow> equal_fold (to_lower v) ''true'' \<or> to_lower v = ''1''"

definition DisableCloudLogging :: "agent_config \<Rightarrow> bool" where
  "DisableCloudLogging c \<longleftrightarrow> \<not> equal_fold (ac_universe c) universeDomainDefault"

definition cacheDirLinux :: string where "cacheDirLinux = ''/var/lib/google_osconfig_agent''"
definition oldConfigDirLinux :: string where "oldConfigDirLinux = ''/etc/osconfig''"
definition taskStateFileLinux :: string where "taskStateFileLinux = cacheDirLinux @ ''/osconfig_task.state''"
definition oldTaskStateFileLinux :: string where "oldTaskStateFileLinux = oldConfigDirLinux @ ''/osconfig_task.state''"
definition restartFileLinux :: string where "restartFileLinux = cacheDirLinux @ ''/osconfig_agent_restart_required''"
definition OldRestartFile :: string where "OldRestartFile = oldConfigDirLinux @ ''/osconfig_agent_restart_required''"
definition aptRepoDir :: string where "aptRepoDir = ''/etc/apt/sources.list.d''"
definition yumRepoDir :: string where "yumRepoDir = ''/etc/yum.repos.d''"
definition zypperRepoDir :: string where "zypperRepoDir = ''/etc/zypp/repos.d''"
definition googetRepoDir :: string where "googetRepoDir = ''C:/ProgramData/GooGet/repos''"
definition aptRepoFilePath :: string where "aptRepoFilePath = aptRepoDir @ ''/google_osconfig_managed.list''"
definition yumRepoFilePath :: string where "yumRepoFilePath = yumRepoDir @ ''/google_osconfig_managed.repo''"
definition zypperRepoFilePath :: string where "zypperRepoFilePath = zypperRepoDir @ ''/google_osconfig_managed.repo''"
definition googetRepoFilePath :: string where "googetRepoFilePath = googetRepoDir @ ''/google_osconfig_managed.repo''"

text \<open>The switches that choose the providers of the inventory and start the loops.\<close>

definition ScalibrLinuxEnabled :: "agent_config \<Rightarrow> bool" where "ScalibrLinuxEnabled c = ac_scalibr c"
definition TraceGetInventory :: "agent_config \<Rightarrow> bool" where "TraceGetInventory c = ac_trace c"
definition ExtendedInventoryEnabled :: "agent_config \<Rightarrow> bool" where "ExtendedInventoryEnabled c = ac_extended c"
definition ExtendedInventoryExtractorsAllowed :: "agent_config \<Rightarrow> string list" where
  "ExtendedInventoryExtractorsAllowed c = ac_extractors c"
definition OSInventoryEnabled :: "agent_config \<Rightarrow> bool" where "OSInventoryEnabled c = ac_inventory c"
definition GuestPoliciesEnabled :: "agent_config \<Rightarrow> bool" where "GuestPoliciesEnabled c = ac_guest_policies c"
definition TaskNotificationEnabled :: "agent_config \<Rightarrow> bool" where "TaskNotificationEnabled c = ac_tasks c"
definition SvcEndpoint :: "agent_config \<Rightarrow> string" where "SvcEndpoint c = ac_endpoint c"
definition NumericProjectID :: "agent_config \<Rightarrow> int" where "NumericProjectID c = ac_numeric_project c"
definition Capabilities :: "string list" where "Capabilities = [''PATCH_GA'', ''GUEST_POLICY_BETA'', ''CONFIG_V1'']"

text \<open>A poll interval of the instance is taken over as it is, also a zero or a negative one.\<close>

lemma later_settings_poll:
  "ac_poll_interval (log_level l c) = ac_poll_interval c"
  "ac_poll_interval (set_debug fl md c) = ac_poll_interval c"
  "ac_poll_interval (setGuestAttributes md c) = ac_poll_interval c"
  "ac_poll_interval (setScalibrEnablement md c) = ac_poll_interval c"
  "ac_poll_interval (setTraceGetInventory md c) = ac_poll_interval c"
  "ac_poll_interval (setExtendedInventory md c) = ac_poll_interval c"
  "ac_poll_interval (setSVCEndpoint fl md c) = ac_poll_interval c"
  by (simp_all add: log_level_def set_debug_def setGuestAttributes_def setScalibrEnablement_def
      setTraceGetInventory_def setExtendedInventory_def setSVCEndpoint_def set_flag_def Let_def)

lemma poll_interval_unchecked:
  assumes "createConfigFromMetadata fl old md = Done c" "at_poll (md_instance md) = Some n" "parse_int 10 64 n = Some v"
  shows "SvcPollInterval c = v * 60"
  using create_cases [OF assms(1)] assms(2,3)
  by (auto simp: poll_instance_def set_poll_def SvcPollInterval_def later_settings_poll)

end
