(* ===== verification/AgentPaths.thy ===== *)
theory AgentPaths
  imports AgentConfig FileSys
begin

text \<open>
  The getters of \<open>agentconfig/agentconfig.go\<close> that only read the settings, the flags or the environment, the
  places of the agent's files on both systems, and the removal of old repository files that uses them
  (\<open>cleanupRepos\<close> of \<open>agentendpoint/config_task.go\<close>).

  \<^item> \<open>agent_place\<close> is what the places depend on: the system, the user's cache directory if there is one, the
    directory for temporary files. Paths of Windows are joined with its separator, from parts that are clean.
  \<^item> \<open>glob\<close> lists the files that match the format of a repository; formats are the text before and after the name.
\<close>

section \<open>Getters\<close>

definition ProjectID :: "agent_config \<Rightarrow> string" where "ProjectID c = ac_project_id c"
definition Zone :: "agent_config \<Rightarrow> string" where "Zone c = ac_instance_zone c"
definition Name :: "agent_config \<Rightarrow> string" where "Name c = ac_instance_name c"
definition ID :: "agent_config \<Rightarrow> string" where "ID c = ac_instance_id c"
definition GuestAttributesEnabled :: "agent_config \<Rightarrow> bool" where "GuestAttributesEnabled c = ac_guest_attributes c"
definition UniverseDomain :: "agent_config \<Rightarrow> string" where "UniverseDomain c = ac_universe c"

record log_flags =
  lf_stdout :: bool
  lf_disable_local :: bool

definition Stdout :: "log_flags \<Rightarrow> bool" where "Stdout f = lf_stdout f"
definition DisableLocalLogging :: "log_flags \<Rightarrow> bool" where "DisableLocalLogging f = lf_disable_local f"

definition SerialLogPort :: "bool \<Rightarrow> string" where
  "SerialLogPort windows = (if windows then ''COM1'' else [])"

text \<open>The text that \<open>LogFeatures\<close> logs.\<close>

definition show_bool :: "bool \<Rightarrow> string" where
  "show_bool b = (if b then ''true'' else ''false'')"

definition LogFeatures :: "agent_config \<Rightarrow> string" where
  "LogFeatures c = ''OSConfig enabled features status:{GuestPolicies: '' @ show_bool (GuestPoliciesEnabled c)
     @ '', OSInventory: '' @ show_bool (OSInventoryEnabled c) @ '', PatchManagement: '' @ show_bool (TaskNotificationEnabled c) @ ''}.''"

section \<open>Places\<close>

record agent_place =
  pl_windows :: bool
  pl_user_cache :: "string res"
  pl_temp :: string

definition win_join :: "string list \<Rightarrow> string" where
  "win_join parts = join [CHR 0x5C] parts"

definition GetCacheDirWindows :: "agent_place \<Rightarrow> string" where
  "GetCacheDirWindows pl = win_join [case pl_user_cache pl of Inl e \<Rightarrow> pl_temp pl | Inr d \<Rightarrow> d, ''Google'', ''OSConfig'']"

definition oldTaskStateFileWindows :: string where
  "oldTaskStateFileWindows = win_join [''C:'', ''Program Files'', ''Google'', ''OSConfig'', ''osconfig_task.state'']"

definition TaskStateFile :: "agent_place \<Rightarrow> string" where
  "TaskStateFile pl = (if pl_windows pl then win_join [GetCacheDirWindows pl, ''osconfig_task.state''] else taskStateFileLinux)"

definition OldTaskStateFile :: "agent_place \<Rightarrow> string" where
  "OldTaskStateFile pl = (if pl_windows pl then oldTaskStateFileWindows else oldTaskStateFileLinux)"

definition RestartFile :: "agent_place \<Rightarrow> string" where
  "RestartFile pl = (if pl_windows pl then win_join [GetCacheDirWindows pl, ''osconfig_agent_restart_required''] else restartFileLinux)"

definition CacheDir :: "agent_place \<Rightarrow> string" where
  "CacheDir pl = (if pl_windows pl then GetCacheDirWindows pl else cacheDirLinux)"

text \<open>The format of a managed repository file; the name goes between the two texts. Windows writes its own separator.\<close>

definition native_path :: "bool \<Rightarrow> string \<Rightarrow> string" where
  "native_path windows p = (if windows then map (\<lambda>c. if c = CHR ''/'' then CHR 0x5C else c) p else p)"

definition AptRepoFormat :: "bool \<Rightarrow> string \<times> string" where
  "AptRepoFormat w = (native_path w (aptRepoDir @ ''/osconfig_managed_''), ''.list'')"

definition YumRepoFormat :: "bool \<Rightarrow> string \<times> string" where
  "YumRepoFormat w = (native_path w (yumRepoDir @ ''/osconfig_managed_''), ''.repo'')"

definition ZypperRepoFormat :: "bool \<Rightarrow> string \<times> string" where
  "ZypperRepoFormat w = (native_path w (zypperRepoDir @ ''/osconfig_managed_''), ''.repo'')"

definition GooGetRepoFormat :: "bool \<Rightarrow> string \<times> string" where
  "GooGetRepoFormat w = (native_path w (googetRepoDir @ ''/osconfig_managed_''), ''.repo'')"

section \<open>Old repository files\<close>

definition repoFormats :: "bool \<Rightarrow> (string \<times> string) list" where
  "repoFormats w = [AptRepoFormat w, YumRepoFormat w, ZypperRepoFormat w, GooGetRepoFormat w]"

definition removeFileIfNoMatch :: "string \<Rightarrow> string list \<Rightarrow> fs \<Rightarrow> fs" where
  "removeFileIfNoMatch a s f = (if a \<in> set s then f else snd (os_remove a f))"

text \<open>A resource without managed files is nil; a failed listing has no matches; errors of the removal are logged.\<close>

definition managed_repos :: "string list option list \<Rightarrow> string list" where
  "managed_repos rs = concat (map (\<lambda>r. case r of None \<Rightarrow> [] | Some repos \<Rightarrow> repos) rs)"

definition cleanup_format :: "(string \<times> string \<Rightarrow> fs \<Rightarrow> string list res) \<Rightarrow> string list \<Rightarrow> string \<times> string \<Rightarrow> fs \<Rightarrow> fs" where
  "cleanup_format glob managed format f =
     fold (\<lambda>m. removeFileIfNoMatch m managed) (case glob format f of Inl e \<Rightarrow> [] | Inr ms \<Rightarrow> ms) f"

definition cleanupRepos :: "bool \<Rightarrow> (string \<times> string \<Rightarrow> fs \<Rightarrow> string list res) \<Rightarrow> string list option list \<Rightarrow> fs \<Rightarrow> fs" where
  "cleanupRepos w glob rs f = fold (cleanup_format glob (managed_repos rs)) (repoFormats w) f"

text \<open>What \<open>filepath.Glob\<close> promises of a format: it lists only files of its form.\<close>

definition sound_glob :: "(string \<times> string \<Rightarrow> fs \<Rightarrow> string list res) \<Rightarrow> bool" where
  "sound_glob glob \<longleftrightarrow> (\<forall>pre suf f ms. glob (pre, suf) f = Inr ms \<longrightarrow> (\<forall>m \<in> set ms. \<exists>name. m = pre @ name @ suf))"

definition managed_form :: "bool \<Rightarrow> string \<Rightarrow> bool" where
  "managed_form w p \<longleftrightarrow> (\<exists>(pre, suf) \<in> set (repoFormats w). \<exists>name. p = pre @ name @ suf)"

lemma remove_other:
  "q \<noteq> p \<Longrightarrow> fs_nodes (snd (os_remove p f)) q = fs_nodes f q"
  by (auto simp: os_remove_def syscall_def split: list.splits option.splits)

lemma fold_remove_other:
  "p \<notin> set ms - set managed \<Longrightarrow> fs_nodes (fold (\<lambda>m. removeFileIfNoMatch m managed) ms f) p = fs_nodes f p"
proof (induction ms arbitrary: f)
  case (Cons m ms)
  have "fs_nodes (removeFileIfNoMatch m managed f) p = fs_nodes f p"
    using Cons.prems by (cases "m = p") (auto simp: removeFileIfNoMatch_def remove_other)
  moreover have "p \<notin> set ms - set managed" using Cons.prems by auto
  ultimately show ?case using Cons.IH by simp
qed simp

text \<open>The clean-up touches no file but managed repository files that no resource manages any more.\<close>

lemma cleanup_keeps:
  assumes "sound_glob glob" "p \<in> set (managed_repos rs) \<or> \<not> managed_form w p"
  shows "fs_nodes (cleanupRepos w glob rs f) p = fs_nodes f p"
proof -
  have one: "fs_nodes (cleanup_format glob (managed_repos rs) fmt g) p = fs_nodes g p" if fmt: "fmt \<in> set (repoFormats w)" for fmt g
  proof -
    have "p \<notin> set (case glob fmt g of Inl e \<Rightarrow> [] | Inr ms \<Rightarrow> ms) - set (managed_repos rs)"
    proof (cases "p \<in> set (managed_repos rs)")
      case False
      then have no: "\<not> managed_form w p" using assms(2) by blast
      show ?thesis
      proof (cases "glob fmt g")
        case (Inr ms)
        have "p \<notin> set ms"
        proof
          assume "p \<in> set ms"
          then obtain name where "p = fst fmt @ name @ snd fmt"
            using assms(1) Inr unfolding sound_glob_def by (metis prod.collapse)
          then show False using no fmt unfolding managed_form_def by force
        qed
        then show ?thesis using Inr by simp
      qed simp
    qed simp
    then show ?thesis unfolding cleanup_format_def by (rule fold_remove_other)
  qed
  have "fs_nodes (fold (cleanup_format glob (managed_repos rs)) fmts g) p = fs_nodes g p" if "set fmts \<subseteq> set (repoFormats w)" for fmts g
    using that by (induction fmts arbitrary: g) (simp_all add: one)
  then show ?thesis by (simp add: cleanupRepos_def)
qed

end
