(* ===== verification/Tasker.thy ===== *)
theory Tasker
  imports Prelude
begin

text \<open>
  The task queue of \<open>tasker/tasker.go\<close>: goroutines that call \<open>Enqueue\<close> and \<open>Close\<close>, the mutex \<open>mx\<close>, the
  unbuffered channel \<open>tc\<close>, the wait group and the one goroutine that runs the tasks.

  \<^item> Goroutines are numbers. An event is one atomic step of one of them; a step that would block cannot
    happen, so \<open>fire\<close> gives \<open>None\<close> for it. Any order of events is an interleaving.
  \<^item> A send on the unbuffered channel is a step of the sender and the receiver together.
  \<^item> \<open>tk_accepted\<close> and \<open>tk_done\<close> are history: the tasks handed over and the tasks that ran to their end.
\<close>

section \<open>State and steps\<close>

datatype 't caller =
    Idle
  | EnqLock 't
  | EnqSend 't
  | EnqUnlock
  | CloseLock
  | CloseWait
  | CloseReturned
  | Crashed string

datatype task_chan = NilChan | OpenChan | ClosedChan

datatype 't worker = NotStarted | Starting | Waiting | Running 't | Exited

record 't tasker =
  tk_chan :: task_chan
  tk_lock :: "nat option"
  tk_callers :: "nat \<Rightarrow> 't caller"
  tk_worker :: "'t worker"
  tk_wg :: nat
  tk_accepted :: "'t list"
  tk_done :: "'t list"

definition no_tasker :: "'t tasker" where
  "no_tasker = \<lparr>tk_chan = NilChan, tk_lock = None, tk_callers = (\<lambda>p. Idle), tk_worker = NotStarted, tk_wg = 0,
     tk_accepted = [], tk_done = []\<rparr>"

datatype 't event =
    CallEnqueue nat 't
  | CallClose nat
  | Acquire nat
  | Send nat
  | Unlock nat
  | WaitOver nat
  | WorkerStart
  | TaskEnds
  | WorkerExit

definition set_caller :: "nat \<Rightarrow> 't caller \<Rightarrow> 't tasker \<Rightarrow> 't tasker" where
  "set_caller p c s = s\<lparr>tk_callers := (tk_callers s)(p := c)\<rparr>"

text \<open>\<open>Enqueue\<close> behind \<open>mx.Lock()\<close>: \<open>initTasker\<close> on the first call.\<close>

definition enqueue_locked :: "nat \<Rightarrow> 't \<Rightarrow> 't tasker \<Rightarrow> 't tasker" where
  "enqueue_locked p t s =
     (let s1 = set_caller p (EnqSend t) s in
      if tk_chan s = NilChan then s1\<lparr>tk_chan := OpenChan, tk_worker := Starting\<rparr> else s1)"

text \<open>\<open>Close\<close> behind \<open>mx.Lock()\<close>: closing a nil or a closed channel panics.\<close>

definition close_locked :: "nat \<Rightarrow> 't tasker \<Rightarrow> 't tasker" where
  "close_locked p s =
     (case tk_chan s of
        NilChan \<Rightarrow> set_caller p (Crashed ''close of nil channel'') s
      | ClosedChan \<Rightarrow> set_caller p (Crashed ''close of closed channel'') s
      | OpenChan \<Rightarrow> set_caller p CloseWait (s\<lparr>tk_chan := ClosedChan\<rparr>))"

fun fire :: "'t event \<Rightarrow> 't tasker \<Rightarrow> 't tasker option" where
  "fire (CallEnqueue p t) s = (case tk_callers s p of Idle \<Rightarrow> Some (set_caller p (EnqLock t) s) | _ \<Rightarrow> None)"
| "fire (CallClose p) s = (case tk_callers s p of Idle \<Rightarrow> Some (set_caller p CloseLock s) | _ \<Rightarrow> None)"
| "fire (Acquire p) s =
     (if tk_lock s \<noteq> None then None
      else (case tk_callers s p of
              EnqLock t \<Rightarrow> Some (enqueue_locked p t (s\<lparr>tk_lock := Some p\<rparr>))
            | CloseLock \<Rightarrow> Some (close_locked p (s\<lparr>tk_lock := Some p\<rparr>))
            | _ \<Rightarrow> None))"
| "fire (Send p) s =
     (case tk_callers s p of
        EnqSend t \<Rightarrow>
          (case tk_chan s of
             ClosedChan \<Rightarrow> Some (set_caller p (Crashed ''send on closed channel'') s)
           | NilChan \<Rightarrow> None
           | OpenChan \<Rightarrow>
               (case tk_worker s of
                  Waiting \<Rightarrow> Some (set_caller p EnqUnlock (s\<lparr>tk_worker := Running t, tk_accepted := tk_accepted s @ [t]\<rparr>))
                | _ \<Rightarrow> None))
      | _ \<Rightarrow> None)"
| "fire (Unlock p) s =
     (case tk_callers s p of EnqUnlock \<Rightarrow> Some (set_caller p Idle (s\<lparr>tk_lock := None\<rparr>)) | _ \<Rightarrow> None)"
| "fire (WaitOver p) s =
     (case tk_callers s p of CloseWait \<Rightarrow> (if tk_wg s = 0 then Some (set_caller p CloseReturned s) else None) | _ \<Rightarrow> None)"
| "fire WorkerStart s = (case tk_worker s of Starting \<Rightarrow> Some (s\<lparr>tk_worker := Waiting, tk_wg := tk_wg s + 1\<rparr>) | _ \<Rightarrow> None)"
| "fire TaskEnds s = (case tk_worker s of Running t \<Rightarrow> Some (s\<lparr>tk_worker := Waiting, tk_done := tk_done s @ [t]\<rparr>) | _ \<Rightarrow> None)"
| "fire WorkerExit s =
     (case tk_worker s of
        Waiting \<Rightarrow> (if tk_chan s = ClosedChan then Some (s\<lparr>tk_worker := Exited, tk_wg := tk_wg s - 1\<rparr>) else None)
      | _ \<Rightarrow> None)"

fun fire_all :: "'t event list \<Rightarrow> 't tasker \<Rightarrow> 't tasker option" where
  "fire_all [] s = Some s"
| "fire_all (e # es) s = (case fire e s of None \<Rightarrow> None | Some s' \<Rightarrow> fire_all es s')"

section \<open>The invariant\<close>

text \<open>Who is between \<open>Lock\<close> and \<open>Unlock\<close>; \<open>Close\<close> never unlocks.\<close>

fun in_section :: "'t caller \<Rightarrow> bool" where
  "in_section (EnqSend t) = True"
| "in_section EnqUnlock = True"
| "in_section CloseWait = True"
| "in_section CloseReturned = True"
| "in_section (Crashed p) = True"
| "in_section _ = False"

definition lock_inv :: "'t tasker \<Rightarrow> bool" where
  "lock_inv s \<longleftrightarrow> (\<forall>p. in_section (tk_callers s p) \<longleftrightarrow> tk_lock s = Some p)"

definition chan_inv :: "'t tasker \<Rightarrow> bool" where
  "chan_inv s \<longleftrightarrow>
     (tk_chan s = NilChan \<longrightarrow> tk_worker s = NotStarted \<and> tk_accepted s = [] \<and> tk_done s = [])
   \<and> (tk_chan s = ClosedChan \<longrightarrow> (\<exists>p. tk_callers s p \<in> {CloseWait, CloseReturned}) \<and> tk_worker s \<notin> {NotStarted, Starting})
   \<and> (tk_chan s = OpenChan \<longrightarrow> tk_worker s \<notin> {NotStarted, Exited})"

definition worker_inv :: "'t tasker \<Rightarrow> bool" where
  "worker_inv s \<longleftrightarrow>
     tk_wg s = (case tk_worker s of Waiting \<Rightarrow> 1 | Running t \<Rightarrow> 1 | _ \<Rightarrow> 0)
   \<and> tk_accepted s = tk_done s @ (case tk_worker s of Running t \<Rightarrow> [t] | _ \<Rightarrow> [])
   \<and> (tk_worker s = Starting \<longrightarrow> (\<exists>p t. tk_callers s p = EnqSend t))"

definition caller_inv :: "'t tasker \<Rightarrow> bool" where
  "caller_inv s \<longleftrightarrow> (\<forall>p.
     (\<forall>t. tk_callers s p = EnqSend t \<longrightarrow> tk_chan s = OpenChan)
   \<and> (tk_callers s p = EnqUnlock \<longrightarrow> tk_chan s = OpenChan)
   \<and> (tk_callers s p \<in> {CloseWait, CloseReturned} \<longrightarrow> tk_chan s = ClosedChan)
   \<and> (tk_callers s p = CloseReturned \<longrightarrow> tk_worker s = Exited)
   \<and> (\<forall>m. tk_callers s p = Crashed m \<longrightarrow> tk_chan s = NilChan \<and> m = ''close of nil channel''))"

definition tasker_inv :: "'t tasker \<Rightarrow> bool" where
  "tasker_inv s \<longleftrightarrow> lock_inv s \<and> chan_inv s \<and> worker_inv s \<and> caller_inv s"

lemma tasker_inv_start: "tasker_inv no_tasker"
  by (simp add: tasker_inv_def lock_inv_def chan_inv_def worker_inv_def caller_inv_def no_tasker_def)

lemma set_caller_simps [simp]:
  "tk_callers (set_caller p c s) q = (if q = p then c else tk_callers s q)"
  "tk_chan (set_caller p c s) = tk_chan s" "tk_lock (set_caller p c s) = tk_lock s"
  "tk_worker (set_caller p c s) = tk_worker s" "tk_wg (set_caller p c s) = tk_wg s"
  "tk_accepted (set_caller p c s) = tk_accepted s" "tk_done (set_caller p c s) = tk_done s"
  by (auto simp: set_caller_def)

text \<open>A step that only moves one goroutine outside the critical section keeps the invariant.\<close>

lemma tasker_inv_idle:
  assumes "tasker_inv s" "\<not> in_section (tk_callers s p)" "\<not> in_section c"
  shows "tasker_inv (set_caller p c s)"
  using assms unfolding tasker_inv_def lock_inv_def chan_inv_def worker_inv_def caller_inv_def
  by (auto split: worker.splits; metis in_section.simps)

lemma free_lock:
  assumes "tasker_inv s" "tk_lock s = None"
  shows "\<not> in_section (tk_callers s q)" "tk_chan s \<noteq> ClosedChan" "tk_worker s \<noteq> Starting"
proof -
  show n: "\<not> in_section (tk_callers s q)" for q using assms by (simp add: tasker_inv_def lock_inv_def)
  show "tk_chan s \<noteq> ClosedChan" using assms n unfolding tasker_inv_def chan_inv_def by (metis in_section.simps(3,4) insertE singletonD)
  show "tk_worker s \<noteq> Starting" using assms n unfolding tasker_inv_def worker_inv_def by (metis in_section.simps(1))
qed

lemma tasker_inv_acquire:
  assumes inv: "tasker_inv s" and free: "tk_lock s = None"
  shows "tk_callers s p = EnqLock t \<Longrightarrow> tasker_inv (enqueue_locked p t (s\<lparr>tk_lock := Some p\<rparr>))"
    and "tk_callers s p = CloseLock \<Longrightarrow> tasker_inv (close_locked p (s\<lparr>tk_lock := Some p\<rparr>))"
proof -
  note n = free_lock [OF inv free]
  note i = inv [unfolded tasker_inv_def lock_inv_def chan_inv_def worker_inv_def caller_inv_def]
  have nc: "tk_callers s q \<notin> {CloseWait, CloseReturned, EnqUnlock}" "\<And>t. tk_callers s q \<noteq> EnqSend t" "\<And>m. tk_callers s q \<noteq> Crashed m" for q
    using n(1) [of q] by auto
  show "tasker_inv (enqueue_locked p t (s\<lparr>tk_lock := Some p\<rparr>))" if "tk_callers s p = EnqLock t"
    using i n nc that unfolding tasker_inv_def lock_inv_def chan_inv_def worker_inv_def caller_inv_def enqueue_locked_def Let_def
    by (cases "tk_chan s") (auto split: worker.splits)
  show "tasker_inv (close_locked p (s\<lparr>tk_lock := Some p\<rparr>))" if "tk_callers s p = CloseLock"
    using i n nc that unfolding tasker_inv_def lock_inv_def chan_inv_def worker_inv_def caller_inv_def close_locked_def
    by (cases "tk_chan s") (auto split: worker.splits)
qed

lemma only_holder:
  assumes "tasker_inv s" "in_section (tk_callers s p)"
  shows "in_section (tk_callers s q) \<longleftrightarrow> q = p"
  using assms unfolding tasker_inv_def lock_inv_def by (metis option.inject)

lemma tasker_inv_send:
  assumes inv: "tasker_inv s" and p: "tk_callers s p = EnqSend t" and w: "tk_worker s = Waiting"
  shows "tasker_inv (set_caller p EnqUnlock (s\<lparr>tk_worker := Running t, tk_accepted := tk_accepted s @ [t]\<rparr>))"
proof -
  have o: "in_section (tk_callers s q) \<longleftrightarrow> q = p" for q by (rule only_holder [OF inv]) (simp add: p)
  have nc: "q \<noteq> p \<Longrightarrow> tk_callers s q \<notin> {CloseWait, CloseReturned, EnqUnlock}" "\<And>t. q \<noteq> p \<Longrightarrow> tk_callers s q \<noteq> EnqSend t" for q
    using o [of q] by auto
  from inv p w nc show ?thesis
    unfolding tasker_inv_def lock_inv_def chan_inv_def worker_inv_def caller_inv_def by auto
qed

lemma tasker_inv_unlock:
  assumes inv: "tasker_inv s" and p: "tk_callers s p = EnqUnlock"
  shows "tasker_inv (set_caller p Idle (s\<lparr>tk_lock := None\<rparr>))"
proof -
  have o: "in_section (tk_callers s q) \<longleftrightarrow> q = p" for q by (rule only_holder [OF inv]) (simp add: p)
  have nc: "q \<noteq> p \<Longrightarrow> tk_callers s q \<notin> {CloseWait, CloseReturned, EnqUnlock}" "\<And>t. tk_callers s q \<noteq> EnqSend t" for q
    using o [of q] p by auto
  have ns: "tk_worker s \<noteq> Starting" using inv nc(2) unfolding tasker_inv_def worker_inv_def by auto
  from inv p nc o ns show ?thesis
    unfolding tasker_inv_def lock_inv_def chan_inv_def worker_inv_def caller_inv_def by auto
qed

lemma tasker_inv_wait_over:
  assumes inv: "tasker_inv s" and p: "tk_callers s p = CloseWait" and w: "tk_wg s = 0"
  shows "tasker_inv (set_caller p CloseReturned s)"
proof -
  have o: "in_section (tk_callers s q) \<longleftrightarrow> q = p" for q by (rule only_holder [OF inv]) (simp add: p)
  have c: "tk_chan s = ClosedChan" using inv p unfolding tasker_inv_def caller_inv_def by auto
  with inv w have e: "tk_worker s = Exited"
    unfolding tasker_inv_def chan_inv_def worker_inv_def by (cases "tk_worker s") auto
  from inv p o c e show ?thesis
    unfolding tasker_inv_def lock_inv_def chan_inv_def worker_inv_def caller_inv_def by auto
qed

lemma tasker_inv_worker:
  assumes inv: "tasker_inv s"
  shows "tk_worker s = Starting \<Longrightarrow> tasker_inv (s\<lparr>tk_worker := Waiting, tk_wg := tk_wg s + 1\<rparr>)"
    and "tk_worker s = Running t \<Longrightarrow> tasker_inv (s\<lparr>tk_worker := Waiting, tk_done := tk_done s @ [t]\<rparr>)"
    and "tk_worker s = Waiting \<Longrightarrow> tk_chan s = ClosedChan \<Longrightarrow> tasker_inv (s\<lparr>tk_worker := Exited, tk_wg := tk_wg s - 1\<rparr>)"
  using inv unfolding tasker_inv_def lock_inv_def chan_inv_def worker_inv_def caller_inv_def by auto

lemma tasker_inv_fire: "tasker_inv s \<Longrightarrow> fire e s = Some s' \<Longrightarrow> tasker_inv s'"
proof (induction e s rule: fire.induct)
  case (4 p s)
  then obtain t where p: "tk_callers s p = EnqSend t" by (auto split: caller.splits)
  then have "tk_chan s = OpenChan" using 4(1) unfolding tasker_inv_def caller_inv_def by auto
  with 4 p show ?case by (auto split: worker.splits intro: tasker_inv_send)
qed (auto split: caller.splits worker.splits if_splits intro: tasker_inv_idle tasker_inv_acquire tasker_inv_unlock tasker_inv_wait_over
      tasker_inv_worker [simplified])

lemma fire_all_append: "fire_all (es @ es') s = (case fire_all es s of None \<Rightarrow> None | Some s1 \<Rightarrow> fire_all es' s1)"
  by (induction es arbitrary: s) (auto split: option.splits)

lemma tasker_inv_reach: "fire_all es s = Some s' \<Longrightarrow> tasker_inv s \<Longrightarrow> tasker_inv s'"
  by (induction es arbitrary: s) (auto split: option.splits dest: tasker_inv_fire)

section \<open>What the queue promises\<close>

text \<open>
  In every interleaving of any number of goroutines the tasks run one at a time and in the order in which
  the queue took them: those that have ended are a prefix of those taken, and at most one more is running.
\<close>

theorem tasker_serial:
  assumes "fire_all es no_tasker = Some s"
  shows "tk_accepted s = tk_done s @ (case tk_worker s of Running t \<Rightarrow> [t] | _ \<Rightarrow> [])"
  using tasker_inv_reach [OF assms tasker_inv_start] by (simp add: tasker_inv_def worker_inv_def)

text \<open>Once \<open>Close\<close> has closed the channel nobody gets the mutex again.\<close>

lemma closed_stays:
  assumes "tasker_inv s" "tk_chan s = ClosedChan" "fire e s = Some s'"
  shows "tk_chan s' = ClosedChan \<and> tk_accepted s' = tk_accepted s"
proof -
  obtain p where "tk_callers s p \<in> {CloseWait, CloseReturned}" using assms unfolding tasker_inv_def chan_inv_def by auto
  then have h: "tk_lock s = Some p" using assms(1) unfolding tasker_inv_def lock_inv_def by (metis in_section.simps(3,4) insertE singletonD)
  show ?thesis using assms(2,3) h
    by (cases e) (auto split: caller.splits worker.splits if_splits)
qed

lemma closed_stays_all:
  "fire_all es s = Some s' \<Longrightarrow> tasker_inv s \<Longrightarrow> tk_chan s = ClosedChan \<Longrightarrow> tk_chan s' = ClosedChan \<and> tk_accepted s' = tk_accepted s"
proof (induction es arbitrary: s)
  case (Cons e es)
  then obtain s1 where "fire e s = Some s1" "fire_all es s1 = Some s'" by (auto split: option.splits)
  with Cons.IH [of s1] Cons.prems closed_stays [of s e s1] tasker_inv_fire show ?case by metis
qed simp

text \<open>
  C18. When \<open>Close\<close> returns, every task that was ever taken has run to its end, the running goroutine is gone,
  and whatever happens later no further task is taken: calls to \<open>Enqueue\<close> block for good.
\<close>

theorem tasker_close_waits:
  assumes "fire_all es no_tasker = Some s" "tk_callers s p = CloseReturned" "fire_all later s = Some s'"
  shows "tk_worker s = Exited \<and> tk_done s = tk_accepted s \<and> tk_accepted s' = tk_accepted s"
proof -
  have inv: "tasker_inv s" by (rule tasker_inv_reach [OF assms(1) tasker_inv_start])
  with assms(2) have c: "tk_chan s = ClosedChan" and w: "tk_worker s = Exited" unfolding tasker_inv_def caller_inv_def by auto
  from inv w have "tk_done s = tk_accepted s" by (simp add: tasker_inv_def worker_inv_def)
  with w closed_stays_all [OF assms(3) inv c] show ?thesis by simp
qed

text \<open>
  The only crash of the queue is \<open>Close\<close> before the first \<open>Enqueue\<close>: no send meets a closed channel and no
  second close happens, because \<open>Close\<close> keeps the mutex.
\<close>

theorem tasker_crash:
  assumes "fire_all es no_tasker = Some s" "tk_callers s p = Crashed m"
  shows "m = ''close of nil channel'' \<and> tk_chan s = NilChan \<and> tk_accepted s = []"
  using tasker_inv_reach [OF assms(1) tasker_inv_start] assms(2)
  unfolding tasker_inv_def caller_inv_def chan_inv_def by blast

definition demo_events :: "nat event list" where
  "demo_events = [CallEnqueue 0 10, CallEnqueue 1 11, Acquire 0, WorkerStart, Send 0, Unlock 0, CallClose 2, Acquire 1, TaskEnds, Send 1,
     Unlock 1, CallEnqueue 0 12, Acquire 2]"

definition demo_queue :: "nat tasker" where
  "demo_queue = the (fire_all demo_events no_tasker)"

definition demo_closed :: "nat tasker" where
  "demo_closed = the (fire_all (demo_events @ [TaskEnds, WorkerExit, WaitOver 2]) no_tasker)"

lemma demo_reach:
  "fire_all demo_events no_tasker = Some demo_queue"
  "fire_all (demo_events @ [TaskEnds, WorkerExit, WaitOver 2]) no_tasker = Some demo_closed"
  "fire_all [] demo_closed = Some demo_closed"
  "fire_all [CallClose 0, Acquire 0] (no_tasker :: nat tasker) = Some ((set_caller 0 (Crashed ''close of nil channel'') no_tasker)\<lparr>tk_lock := Some 0\<rparr>)"
  by (simp_all add: demo_queue_def demo_closed_def demo_events_def no_tasker_def enqueue_locked_def close_locked_def set_caller_def)

lemma demo_fields:
  "tk_accepted demo_queue = [10, 11]" "tk_worker demo_queue = Running 11" "tk_done demo_queue = [10]"
  "tk_callers demo_closed 2 = CloseReturned" "tk_accepted demo_closed = [10, 11]" "tk_callers demo_closed 0 = EnqLock 12"
  by (simp_all add: demo_queue_def demo_closed_def demo_events_def no_tasker_def enqueue_locked_def close_locked_def set_caller_def)

corollary tasker_serial_witness: "[10, 11 :: nat] = [10] @ [11]"
  using tasker_serial [OF demo_reach(1)] by (simp add: demo_fields)

corollary tasker_close_waits_witness: "tk_worker demo_closed = Exited \<and> tk_done demo_closed = [10, 11]"
  using tasker_close_waits [OF demo_reach(2) demo_fields(4) demo_reach(3)] by (simp add: demo_fields)

corollary tasker_crash_witness: "tk_accepted ((set_caller 0 (Crashed ''close of nil channel'') (no_tasker :: nat tasker))\<lparr>tk_lock := Some 0\<rparr>) = []"
  using tasker_crash [OF demo_reach(4), of 0 "''close of nil channel''"] by simp

end
