(* ===== verification/TaskerSpec.thy ===== *)
theory TaskerSpec
  imports Tasker
begin

text \<open>
  What a client of the task queue may rely on, without mutex, channel and wait group: a server with the calls that wait for
  it, one task at most in its hands and the list of what it has finished. The interleavings of \<open>tasker/tasker.go\<close> refine it.
\<close>

section \<open>The specification\<close>

record 't server =
  sq_waiting :: "nat \<Rightarrow> 't option"
  sq_current :: "'t option"
  sq_finished :: "'t list"
  sq_shut :: bool

definition fresh_server :: "'t server" where
  "fresh_server = \<lparr>sq_waiting = (\<lambda>p. None), sq_current = None, sq_finished = [], sq_shut = False\<rparr>"

datatype 't server_act = Submit nat 't | Take nat | Finish | Shut

text \<open>A caller waits with one task; the server takes it when it is free and not shut down.\<close>

fun serve :: "'t server_act \<Rightarrow> 't server \<Rightarrow> 't server option" where
  "serve (Submit p t) v = (if sq_waiting v p = None then Some (v\<lparr>sq_waiting := (sq_waiting v)(p := Some t)\<rparr>) else None)"
| "serve (Take p) v =
     (case sq_waiting v p of
        Some t \<Rightarrow> (if sq_current v = None \<and> \<not> sq_shut v
          then Some (v\<lparr>sq_waiting := (sq_waiting v)(p := None), sq_current := Some t\<rparr>) else None)
      | None \<Rightarrow> None)"
| "serve Finish v =
     (case sq_current v of Some t \<Rightarrow> Some (v\<lparr>sq_current := None, sq_finished := sq_finished v @ [t]\<rparr>) | None \<Rightarrow> None)"
| "serve Shut v = (if sq_shut v then None else Some (v\<lparr>sq_shut := True\<rparr>))"

fun serve_all :: "'t server_act list \<Rightarrow> 't server \<Rightarrow> 't server option" where
  "serve_all [] v = Some v"
| "serve_all (a # acts) v = (case serve a v of None \<Rightarrow> None | Some v' \<Rightarrow> serve_all acts v')"

lemma serve_all_append: "serve_all (xs @ ys) v = (case serve_all xs v of None \<Rightarrow> None | Some v' \<Rightarrow> serve_all ys v')"
  by (induction xs arbitrary: v) (auto split: option.splits)

section \<open>The abstraction\<close>

fun waiting_task :: "'t caller \<Rightarrow> 't option" where
  "waiting_task (EnqLock t) = Some t"
| "waiting_task (EnqSend t) = Some t"
| "waiting_task _ = None"

fun worker_task :: "'t worker \<Rightarrow> 't option" where
  "worker_task (Running t) = Some t"
| "worker_task _ = None"

definition server_of :: "'t tasker \<Rightarrow> 't server" where
  "server_of s =
     \<lparr>sq_waiting = (\<lambda>p. waiting_task (tk_callers s p)), sq_current = worker_task (tk_worker s), sq_finished = tk_done s,
      sq_shut = (tk_chan s = ClosedChan)\<rparr>"

text \<open>What a client sees of a step; the other steps are inside the queue.\<close>

fun seen :: "'t event \<Rightarrow> 't tasker \<Rightarrow> 't server_act list" where
  "seen (CallEnqueue p t) s = [Submit p t]"
| "seen (Acquire p) s = (if tk_callers s p = CloseLock \<and> tk_chan s = OpenChan then [Shut] else [])"
| "seen (Send p) s = [Take p]"
| "seen TaskEnds s = [Finish]"
| "seen _ s = []"

fun seen_all :: "'t event list \<Rightarrow> 't tasker \<Rightarrow> 't server_act list" where
  "seen_all [] s = []"
| "seen_all (e # es) s = seen e s @ (case fire e s of None \<Rightarrow> [] | Some s' \<Rightarrow> seen_all es s')"

lemma same_serverI:
  assumes "\<And>p. waiting_task (tk_callers s' p) = waiting_task (tk_callers s p)" "worker_task (tk_worker s') = worker_task (tk_worker s)"
    "tk_done s' = tk_done s" "(tk_chan s' = ClosedChan) = (tk_chan s = ClosedChan)"
  shows "server_of s' = server_of s"
  using assms by (simp add: server_of_def)

section \<open>The refinement\<close>

lemma enqueue_same: "tk_callers s p = EnqLock t \<Longrightarrow> tk_worker s = NotStarted \<or> tk_chan s \<noteq> NilChan \<Longrightarrow>
    server_of (enqueue_locked p t (s\<lparr>tk_lock := x\<rparr>)) = server_of s"
  by (rule same_serverI) (auto simp: enqueue_locked_def Let_def)

lemma fire_serves:
  assumes inv: "tasker_inv s" and step: "fire e s = Some s'"
  shows "serve_all (seen e s) (server_of s) = Some (server_of s')"
proof (cases e)
  case (Acquire p)
  consider t where "tk_callers s p = EnqLock t" "s' = enqueue_locked p t (s\<lparr>tk_lock := Some p\<rparr>)"
    | "tk_callers s p = CloseLock" "s' = close_locked p (s\<lparr>tk_lock := Some p\<rparr>)"
    using step Acquire by (auto split: caller.splits if_splits)
  then show ?thesis
  proof cases
    case 1
    have "tk_worker s = NotStarted \<or> tk_chan s \<noteq> NilChan" using inv by (auto simp: tasker_inv_def chan_inv_def)
    from enqueue_same [OF 1(1) this] show ?thesis by (simp add: 1 Acquire)
  next
    case 2
    then show ?thesis by (cases "tk_chan s") (auto simp: Acquire server_of_def close_locked_def)
  qed
next
  case (Send p)
  then obtain t where p: "tk_callers s p = EnqSend t" using step by (auto split: caller.splits)
  then have "tk_chan s = OpenChan" using inv by (auto simp: tasker_inv_def caller_inv_def)
  then show ?thesis using step p by (auto simp: Send server_of_def split: worker.splits)
qed (use step in \<open>auto simp: server_of_def split: caller.splits worker.splits if_splits\<close>)

lemma fire_all_serves:
  "fire_all es s = Some s' \<Longrightarrow> tasker_inv s \<Longrightarrow> serve_all (seen_all es s) (server_of s) = Some (server_of s')"
proof (induction es arbitrary: s)
  case (Cons e es)
  then obtain s1 where s1: "fire e s = Some s1" "fire_all es s1 = Some s'" by (auto split: option.splits)
  from Cons.IH [OF s1(2) tasker_inv_fire [OF Cons.prems(2) s1(1)]] show ?case
    by (simp add: s1 serve_all_append fire_serves [OF Cons.prems(2) s1(1)])
qed simp

text \<open>
  C17. Every interleaving of the queue is, in what its clients see, a run of the server: tasks wait with their callers, one at a time is
  taken while the queue is open, and the next one only after it has run to its end; a closed queue takes none. So no lock, channel or
  wait group shows, whatever the order of the steps and also if a caller crashes.
\<close>

theorem tasker_refines_server:
  assumes "fire_all es no_tasker = Some s"
  shows "serve_all (seen_all es no_tasker) fresh_server = Some (server_of s)"
proof -
  have "server_of (no_tasker :: 'a tasker) = fresh_server" by (simp add: server_of_def no_tasker_def fresh_server_def)
  with fire_all_serves [OF assms tasker_inv_start] show ?thesis by simp
qed

corollary tasker_refines_server_witness:
  "serve_all (seen_all demo_events no_tasker) fresh_server = Some (server_of demo_queue)
   \<and> sq_current (server_of demo_queue) = Some 11 \<and> sq_finished (server_of demo_queue) = [10]"
  using tasker_refines_server [OF demo_reach(1)] demo_fields by (simp add: server_of_def)

end
