(* ===== verification/TaskerLive.thy ===== *)
theory TaskerLive
  imports Tasker
begin

text \<open>
  The task queue does not get stuck: when no new calls are made its steps come to an end within a bound, and it rests
  only when every enqueued task has run or \<open>Close\<close> keeps the mutex.
\<close>

section \<open>A measure of the work that is left\<close>

fun internal :: "'t event \<Rightarrow> bool" where
  "internal (CallEnqueue p t) = False"
| "internal (CallClose p) = False"
| "internal _ = True"

fun caller_work :: "'t caller \<Rightarrow> nat" where
  "caller_work (EnqLock t) = 6"
| "caller_work (EnqSend t) = 3"
| "caller_work EnqUnlock = 1"
| "caller_work CloseLock = 2"
| "caller_work CloseWait = 1"
| "caller_work _ = 0"

fun worker_work :: "'t worker \<Rightarrow> nat" where
  "worker_work Starting = 2"
| "worker_work Waiting = 1"
| "worker_work (Running t) = 2"
| "worker_work _ = 0"

definition active :: "'t tasker \<Rightarrow> nat set" where
  "active s = {p. tk_callers s p \<noteq> Idle}"

definition work :: "'t tasker \<Rightarrow> nat" where
  "work s = (\<Sum>p \<in> active s. caller_work (tk_callers s p)) + worker_work (tk_worker s)"

lemma work_superset:
  assumes "finite A" "active s \<subseteq> A"
  shows "work s = (\<Sum>p \<in> A. caller_work (tk_callers s p)) + worker_work (tk_worker s)"
proof -
  have "(\<Sum>p \<in> active s. caller_work (tk_callers s p)) = (\<Sum>p \<in> A. caller_work (tk_callers s p))"
    by (rule sum.mono_neutral_left) (use assms in \<open>auto simp: active_def\<close>)
  then show ?thesis by (simp add: work_def)
qed

text \<open>A step changes one caller and the worker.\<close>

lemma work_one_caller:
  assumes "finite (active s)" "\<And>q. q \<noteq> p \<Longrightarrow> tk_callers s' q = tk_callers s q"
    and "caller_work (tk_callers s' p) + worker_work (tk_worker s') < caller_work (tk_callers s p) + worker_work (tk_worker s)"
  shows "work s' < work s"
proof -
  let ?A = "insert p (active s)"
  have fin: "finite ?A" and s: "active s \<subseteq> ?A" and s': "active s' \<subseteq> ?A"
    using assms(1,2) by (auto simp: active_def)
  have "(\<Sum>q \<in> ?A - {p}. caller_work (tk_callers s' q)) = (\<Sum>q \<in> ?A - {p}. caller_work (tk_callers s q))"
    by (rule sum.cong) (use assms(2) in auto)
  then show ?thesis
    using assms(3) work_superset [OF fin s] work_superset [OF fin s']
      sum.remove [OF fin, of p "\<lambda>q. caller_work (tk_callers s q)"] sum.remove [OF fin, of p "\<lambda>q. caller_work (tk_callers s' q)"]
    by simp
qed

lemma work_worker:
  assumes "tk_callers s' = tk_callers s" "worker_work (tk_worker s') < worker_work (tk_worker s)"
  shows "work s' < work s"
  using assms by (simp add: work_def active_def)

lemma finite_active_fire:
  assumes "fire e s = Some s'" "finite (active s)"
  shows "finite (active s')"
proof -
  have "\<exists>p. active s' \<subseteq> insert p (active s)"
    using assms(1)
    by (cases e) (auto simp: active_def set_caller_def enqueue_locked_def close_locked_def Let_def
        split: caller.splits task_chan.splits worker.splits if_splits)
  then show ?thesis using assms(2) finite_subset by blast
qed

lemma finite_active_reach:
  "fire_all es s = Some s' \<Longrightarrow> finite (active s) \<Longrightarrow> finite (active s')"
  by (induction es arbitrary: s) (auto split: option.splits intro: finite_active_fire)

lemma internal_decreases:
  assumes "fire e s = Some s'" "internal e" "finite (active s)" "tasker_inv s"
  shows "work s' < work s"
proof (cases e)
  case (Acquire p)
  have "tk_chan s = NilChan \<Longrightarrow> tk_worker s = NotStarted" using assms(4) by (simp add: tasker_inv_def chan_inv_def)
  then show ?thesis
    using assms(1,3) Acquire
    by (intro work_one_caller [of s p])
      (auto simp: enqueue_locked_def close_locked_def set_caller_def Let_def split: if_splits caller.splits task_chan.splits)
next
  case (Send p)
  then show ?thesis
    using assms(1,3)
    by (intro work_one_caller [of s p])
      (auto simp: set_caller_def split: if_splits caller.splits task_chan.splits worker.splits)
next
  case (Unlock p)
  then show ?thesis
    using assms(1,3) by (intro work_one_caller [of s p]) (auto simp: set_caller_def split: caller.splits)
next
  case (WaitOver p)
  then show ?thesis
    using assms(1,3) by (intro work_one_caller [of s p]) (auto simp: set_caller_def split: caller.splits if_splits)
qed (use assms in \<open>auto intro!: work_worker split: worker.splits if_splits\<close>)

lemma internal_run_bound:
  assumes "fire_all es s = Some s'" "list_all internal es" "finite (active s)" "tasker_inv s"
  shows "length es + work s' \<le> work s"
  using assms
proof (induction es arbitrary: s)
  case (Cons e es)
  then obtain s1 where s1: "fire e s = Some s1" "fire_all es s1 = Some s'" by (auto split: option.splits)
  have "finite (active s1)" "tasker_inv s1"
    using finite_active_fire [OF s1(1)] tasker_inv_fire [OF _ s1(1)] Cons.prems by simp_all
  then have "length es + work s' \<le> work s1" using Cons.IH [OF s1(2)] Cons.prems(2) by simp
  moreover have "work s1 < work s" using internal_decreases [OF s1(1)] Cons.prems by simp
  ultimately show ?case by simp
qed simp

section \<open>Where the queue rests\<close>

definition at_rest :: "'t tasker \<Rightarrow> bool" where
  "at_rest s \<longleftrightarrow> (\<forall>e. internal e \<longrightarrow> fire e s = None)"

definition stopped :: "'t tasker \<Rightarrow> bool" where
  "stopped s \<longleftrightarrow> (\<exists>p m. tk_callers s p = CloseReturned \<or> tk_callers s p = Crashed m)"

lemma rest_worker:
  assumes "at_rest s"
  shows "\<And>t. tk_worker s \<noteq> Running t" "tk_worker s \<noteq> Starting" "tk_worker s = Waiting \<Longrightarrow> tk_chan s \<noteq> ClosedChan"
proof -
  have e: "fire TaskEnds s = None" "fire WorkerStart s = None" "fire WorkerExit s = None"
    using assms by (simp_all only: at_rest_def internal.simps)
  show "\<And>t. tk_worker s \<noteq> Running t" "tk_worker s \<noteq> Starting" "tk_worker s = Waiting \<Longrightarrow> tk_chan s \<noteq> ClosedChan"
    using e by auto
qed

lemma rest_callers:
  assumes "at_rest s" "tasker_inv s" "\<not> stopped s"
  shows "tk_callers s p = Idle"
proof -
  have e: "fire (Acquire q) s = None" "fire (Send q) s = None" "fire (Unlock q) s = None" "fire (WaitOver q) s = None" for q
    using assms(1) by (simp_all only: at_rest_def internal.simps)
  have lock: "in_section (tk_callers s q) \<longleftrightarrow> tk_lock s = Some q" for q
    using assms(2) by (simp add: tasker_inv_def lock_inv_def)
  have out: "\<not> in_section (tk_callers s q)" for q
  proof
    assume q: "in_section (tk_callers s q)"
    then consider t where "tk_callers s q = EnqSend t" | "tk_callers s q = EnqUnlock" | "tk_callers s q = CloseWait"
      using assms(3) by (cases "tk_callers s q") (auto simp: stopped_def)
    then show False
    proof cases
      case (1 t)
      then have open_chan: "tk_chan s = OpenChan" using assms(2) unfolding tasker_inv_def caller_inv_def by blast
      then have "tk_worker s \<notin> {NotStarted, Exited}" using assms(2) by (simp add: tasker_inv_def chan_inv_def)
      then have "tk_worker s = Waiting" using rest_worker [OF assms(1)] by (cases "tk_worker s") auto
      then show False using e(2) [of q] 1 open_chan by simp
    next
      case 2
      then show False using e(3) [of q] by simp
    next
      case 3
      then have closed: "tk_chan s = ClosedChan" using assms(2) by (auto simp: tasker_inv_def caller_inv_def)
      then have "tk_worker s \<notin> {NotStarted, Starting}" using assms(2) by (simp add: tasker_inv_def chan_inv_def)
      then have "tk_worker s = Exited" using rest_worker [OF assms(1)] closed by (cases "tk_worker s") auto
      then have "tk_wg s = 0" using assms(2) by (simp add: tasker_inv_def worker_inv_def)
      then show False using e(4) [of q] 3 by simp
    qed
  qed
  have free: "tk_lock s = None" using lock out by (metis not_None_eq)
  show ?thesis
    using e(1) [of p] free out [of p] by (cases "tk_callers s p") auto
qed

section \<open>No task is lost\<close>

definition waiting_for :: "'t \<Rightarrow> 't tasker \<Rightarrow> bool" where
  "waiting_for t s \<longleftrightarrow> t \<in> set (tk_accepted s) \<or> (\<exists>p. tk_callers s p \<in> {EnqLock t, EnqSend t})"

lemma waiting_for_caller:
  "waiting_for t s \<Longrightarrow> tk_accepted s' = tk_accepted s \<Longrightarrow> (\<And>q. q \<noteq> p \<Longrightarrow> tk_callers s' q = tk_callers s q) \<Longrightarrow>
    (tk_callers s p \<in> {EnqLock t, EnqSend t} \<Longrightarrow> tk_callers s' p \<in> {EnqLock t, EnqSend t}) \<Longrightarrow> waiting_for t s'"
  unfolding waiting_for_def by metis

lemma waiting_for_fire:
  assumes "fire e s = Some s'" "tasker_inv s" "waiting_for t s"
  shows "waiting_for t s'"
proof (cases e)
  case (Send p)
  then obtain u where p: "tk_callers s p = EnqSend u" using assms(1) by (auto split: caller.splits)
  then have "tk_chan s = OpenChan" using assms(2) unfolding tasker_inv_def caller_inv_def by blast
  with Send p assms(1) have s': "s' = set_caller p EnqUnlock (s\<lparr>tk_worker := Running u, tk_accepted := tk_accepted s @ [u]\<rparr>)"
    by (auto split: worker.splits)
  show ?thesis
  proof (cases "u = t")
    case False
    have "q \<noteq> p" if "tk_callers s q \<in> {EnqLock t, EnqSend t}" for q
      using that p False by auto
    then show ?thesis using assms(3) unfolding waiting_for_def s' by auto
  qed (simp add: waiting_for_def s')
next
  case (Acquire p)
  then show ?thesis
    using assms(1,3)
    by (auto intro!: waiting_for_caller [of t s _ p] simp: enqueue_locked_def close_locked_def Let_def
        split: if_splits caller.splits task_chan.splits)
next
  case (CallEnqueue p u)
  then show ?thesis
    using assms(1,3) by (intro waiting_for_caller [of t s s' p]) (auto split: caller.splits if_splits)
next
  case (CallClose p)
  then show ?thesis
    using assms(1,3) by (intro waiting_for_caller [of t s s' p]) (auto split: caller.splits if_splits)
next
  case (Unlock p)
  then show ?thesis
    using assms(1,3) by (intro waiting_for_caller [of t s s' p]) (auto split: caller.splits if_splits)
next
  case (WaitOver p)
  then show ?thesis
    using assms(1,3) by (intro waiting_for_caller [of t s s' p]) (auto split: caller.splits if_splits)
qed (use assms(1,3) in \<open>auto simp: waiting_for_def split: worker.splits if_splits\<close>)

lemma waiting_for_reach:
  "fire_all es s = Some s' \<Longrightarrow> tasker_inv s \<Longrightarrow> waiting_for t s \<Longrightarrow> waiting_for t s'"
  by (induction es arbitrary: s) (auto split: option.splits intro: waiting_for_fire tasker_inv_fire)

lemma called_waits:
  assumes "fire_all es s = Some s'" "tasker_inv s" "CallEnqueue p t \<in> set es"
  shows "waiting_for t s'"
  using assms
proof (induction es arbitrary: s)
  case (Cons e es)
  then obtain s1 where s1: "fire e s = Some s1" "fire_all es s1 = Some s'" by (auto split: option.splits)
  have inv: "tasker_inv s1" using tasker_inv_fire [OF Cons.prems(2) s1(1)] .
  show ?case
  proof (cases "e = CallEnqueue p t")
    case True
    then have "tk_callers s1 p = EnqLock t" using s1(1) by (auto split: caller.splits)
    then have "waiting_for t s1" by (auto simp: waiting_for_def)
    then show ?thesis by (rule waiting_for_reach [OF s1(2) inv])
  next
    case False
    then show ?thesis using Cons.IH [OF s1(2) inv] Cons.prems(3) by simp
  qed
qed simp

text \<open>C19. Once nobody makes a new call the queue comes to rest, after at most \<open>work s\<close> steps in whatever order they happen; and
  unless a \<open>Close\<close> has returned or crashed, which keeps the mutex, it rests only when every call has returned and every task that was ever
  enqueued has run to its end.\<close>

theorem queue_drains:
  assumes "fire_all es no_tasker = Some s" "fire_all later s = Some s'" "list_all internal later"
  shows "length later \<le> work s \<and>
    (at_rest s' \<longrightarrow> stopped s' \<or>
      (\<forall>p. tk_callers s' p = Idle) \<and> (\<forall>p t. CallEnqueue p t \<in> set es \<longrightarrow> t \<in> set (tk_done s')))"
proof -
  have inv: "tasker_inv s" by (rule tasker_inv_reach [OF assms(1) tasker_inv_start])
  have inv': "tasker_inv s'" by (rule tasker_inv_reach [OF assms(2) inv])
  have "finite (active (no_tasker :: 'a tasker))" by (simp add: active_def no_tasker_def)
  then have fin: "finite (active s)" by (rule finite_active_reach [OF assms(1)])
  have "length later \<le> work s" using internal_run_bound [OF assms(2,3) fin inv] by simp
  moreover have "(\<forall>p. tk_callers s' p = Idle) \<and> (\<forall>p t. CallEnqueue p t \<in> set es \<longrightarrow> t \<in> set (tk_done s'))"
    if rest: "at_rest s'" and on: "\<not> stopped s'"
  proof -
    have idle: "tk_callers s' p = Idle" for p by (rule rest_callers [OF rest inv' on])
    have "tk_accepted s' = tk_done s'"
      using inv' rest_worker(1) [OF rest] by (auto simp: tasker_inv_def worker_inv_def split: worker.splits)
    moreover have "waiting_for t s'" if "CallEnqueue p t \<in> set es" for p t
      using waiting_for_reach [OF assms(2) inv called_waits [OF assms(1) tasker_inv_start that]] .
    ultimately show ?thesis using idle by (auto simp: waiting_for_def)
  qed
  ultimately show ?thesis by blast
qed

text \<open>Two tasks of two goroutines; the second still waits for the mutex.\<close>

definition demo_calls :: "nat event list" where
  "demo_calls = [CallEnqueue 0 10, CallEnqueue 1 11, Acquire 0]"

definition demo_drain :: "nat event list" where
  "demo_drain = [WorkerStart, Send 0, Unlock 0, TaskEnds, Acquire 1, Send 1, TaskEnds, Unlock 1]"

lemma demo_drained:
  "\<exists>s s'. fire_all demo_calls no_tasker = Some s \<and> fire_all demo_drain s = Some s' \<and>
     tk_worker s' = Waiting \<and> tk_chan s' = OpenChan \<and> (\<forall>p. tk_callers s' p = Idle)"
  by (simp add: demo_calls_def demo_drain_def no_tasker_def enqueue_locked_def set_caller_def)

lemma idle_rest:
  assumes "tk_worker s = Waiting" "tk_chan s = OpenChan" "\<forall>p. tk_callers s p = Idle"
  shows "at_rest s" "\<not> stopped s"
proof -
  have "internal e \<Longrightarrow> fire e s = None" for e using assms by (cases e) auto
  then show "at_rest s" by (simp add: at_rest_def)
  show "\<not> stopped s" using assms(3) by (simp add: stopped_def)
qed

corollary queue_drains_witness:
  "\<exists>s s'. fire_all demo_calls no_tasker = Some s \<and> fire_all demo_drain s = Some s' \<and> at_rest s' \<and> 8 \<le> work s \<and> {10, 11} \<subseteq> set (tk_done s')"
proof -
  obtain s s' where s: "fire_all demo_calls no_tasker = Some s" "fire_all demo_drain s = Some s'" and rest: "at_rest s'" "\<not> stopped s'"
    using demo_drained idle_rest by metis
  have "list_all internal demo_drain" "length demo_drain = 8" by (simp_all add: demo_drain_def)
  with queue_drains [OF s] rest have "8 \<le> work s" "\<forall>p t. CallEnqueue p t \<in> set demo_calls \<longrightarrow> t \<in> set (tk_done s')" by auto
  moreover have "CallEnqueue 0 10 \<in> set demo_calls" "CallEnqueue 1 11 \<in> set demo_calls" by (simp_all add: demo_calls_def)
  ultimately show ?thesis using s rest by blast
qed

end
