(* ===== verification/TaskClient.thy ===== *)
theory TaskClient
  imports Retry
begin

text \<open>
  How the agent waits for tasks and runs them: \<open>handleStream\<close>, \<open>runTask\<close>, \<open>waitForTask\<close>,
  \<open>WaitForTaskNotification\<close> and \<open>Close\<close> of \<open>agentendpoint/agentendpoint.go\<close>.

  \<^item> First the interleaving of four goroutines around one client: the stream handler, the running goroutine of
    the task queue, whoever calls \<open>Close\<close>, and other work in the queue. A step that would block gives \<open>None\<close>.
  \<^item> Then the loop that runs tasks until the server has none, over any server and any way to run a task.
  \<^item> Then the loop that waits for notifications, over the list of results of \<open>waitForTask\<close>; \<open>None\<close> in that
    list is a cancelled context.
\<close>

section \<open>Notifications and Close\<close>

datatype handler = Receiving | Enqueueing | Returned

datatype queue_worker = WIdle | WOther | WLocking | WRunning

datatype lock_holder = ByWorker | ByCloser

datatype closer = NotClosing | Closing | CloseDone

record client_sys =
  cs_noti :: bool
  cs_cancelled :: bool
  cs_closed :: bool
  cs_lock :: "lock_holder option"
  cs_handler :: handler
  cs_worker :: queue_worker
  cs_closer :: closer
  cs_runs :: nat

definition client_start :: client_sys where
  "client_start = \<lparr>cs_noti = False, cs_cancelled = False, cs_closed = False, cs_lock = None, cs_handler = Receiving,
     cs_worker = WIdle, cs_closer = NotClosing, cs_runs = 0\<rparr>"

text \<open>
  \<open>NotifySend\<close>, \<open>NotifyIgnore\<close>, \<open>NotifyDone\<close>: a notification and the case of the \<open>select\<close> that is taken.
  \<open>Deliver\<close>: the rendezvous of \<open>tasker.Enqueue\<close> with the idle goroutine of the queue. \<open>Begin\<close>: that goroutine
  gets \<open>c.mx\<close> and either finds the context cancelled or empties the slot and starts \<open>runTask\<close>.
\<close>

datatype client_event =
    NotifySend | NotifyIgnore | NotifyDone | StreamError | Reconnect
  | Deliver | Begin | RunEnds | OtherStart | OtherEnd
  | CallClose | CloseLocks

fun client_fire :: "client_event \<Rightarrow> client_sys \<Rightarrow> client_sys option" where
  "client_fire NotifySend s =
     (if cs_handler s = Receiving \<and> \<not> cs_noti s then Some (s\<lparr>cs_noti := True, cs_handler := Enqueueing\<rparr>) else None)"
| "client_fire NotifyIgnore s =
     (if cs_handler s = Receiving \<and> cs_noti s \<and> \<not> cs_cancelled s then Some s else None)"
| "client_fire NotifyDone s =
     (if cs_handler s = Receiving \<and> cs_cancelled s then Some (s\<lparr>cs_handler := Returned\<rparr>) else None)"
| "client_fire StreamError s = (if cs_handler s = Receiving then Some (s\<lparr>cs_handler := Returned\<rparr>) else None)"
| "client_fire Reconnect s =
     (if cs_handler s = Returned \<and> \<not> cs_cancelled s then Some (s\<lparr>cs_handler := Receiving\<rparr>) else None)"
| "client_fire Deliver s =
     (if cs_handler s = Enqueueing \<and> cs_worker s = WIdle then Some (s\<lparr>cs_handler := Receiving, cs_worker := WLocking\<rparr>) else None)"
| "client_fire Begin s =
     (if cs_worker s = WLocking \<and> cs_lock s = None then
        (if cs_cancelled s then Some (s\<lparr>cs_worker := WIdle\<rparr>)
         else Some (s\<lparr>cs_lock := Some ByWorker, cs_noti := False, cs_worker := WRunning\<rparr>))
      else None)"
| "client_fire RunEnds s =
     (if cs_worker s = WRunning then Some (s\<lparr>cs_lock := None, cs_worker := WIdle, cs_runs := cs_runs s + 1\<rparr>) else None)"
| "client_fire OtherStart s = (if cs_worker s = WIdle then Some (s\<lparr>cs_worker := WOther\<rparr>) else None)"
| "client_fire OtherEnd s = (if cs_worker s = WOther then Some (s\<lparr>cs_worker := WIdle\<rparr>) else None)"
| "client_fire CallClose s = (if cs_closer s = NotClosing then Some (s\<lparr>cs_closer := Closing\<rparr>) else None)"
| "client_fire CloseLocks s =
     (if cs_closer s = Closing \<and> cs_lock s = None
      then Some (s\<lparr>cs_lock := Some ByCloser, cs_cancelled := True, cs_closed := True, cs_closer := CloseDone\<rparr>) else None)"

inductive client_steps :: "client_sys \<Rightarrow> client_event list \<Rightarrow> client_sys \<Rightarrow> bool" where
  stop: "client_steps s [] s"
| step: "client_fire e s = Some s1 \<Longrightarrow> client_steps s1 es s' \<Longrightarrow> client_steps s (e # es) s'"

code_pred (modes: i \<Rightarrow> i \<Rightarrow> o \<Rightarrow> bool) client_steps .

inductive_cases client_steps_ConsE: "client_steps s (e # es) s'"

inductive_simps client_steps_Nil [simp]: "client_steps s [] s'"

definition client_inv :: "client_sys \<Rightarrow> bool" where
  "client_inv s \<longleftrightarrow>
     (cs_lock s = Some ByWorker \<longleftrightarrow> cs_worker s = WRunning)
   \<and> (cs_lock s = Some ByCloser \<longleftrightarrow> cs_closer s = CloseDone)
   \<and> (cs_closed s \<longleftrightarrow> cs_closer s = CloseDone) \<and> (cs_cancelled s \<longleftrightarrow> cs_closed s)
   \<and> (cs_handler s = Enqueueing \<longrightarrow> cs_noti s \<and> cs_worker s \<noteq> WLocking)
   \<and> (cs_worker s = WLocking \<longrightarrow> cs_noti s)
   \<and> (cs_noti s \<and> \<not> cs_closed s \<longrightarrow> cs_handler s = Enqueueing \<or> cs_worker s = WLocking)"

lemma client_inv_fire: "client_inv s \<Longrightarrow> client_fire e s = Some s' \<Longrightarrow> client_inv s'"
  by (cases e) (auto simp: client_inv_def split: if_splits)

lemma client_inv_steps: "client_steps s es s' \<Longrightarrow> client_inv s \<Longrightarrow> client_inv s'"
  by (induction rule: client_steps.induct) (auto intro: client_inv_fire)

lemma client_inv_start: "client_inv client_start"
  by (simp add: client_inv_def client_start_def)


lemma closed_pending_fire:
  assumes "client_inv s" "cs_closed s" "cs_worker s = WLocking" "client_fire e s = Some s'"
  shows "cs_closed s' \<and> cs_worker s' = WLocking \<and> cs_runs s' = cs_runs s"
  using assms by (cases e) (auto simp: client_inv_def split: if_splits)

text \<open>
  C21. \<open>Close\<close> keeps the client's mutex for good. A notification that the queue takes up after that blocks the
  queue's only goroutine forever, so nothing else that is enqueued, by this client or by others, ever runs again.
\<close>

theorem closed_client_blocks_queue:
  assumes "client_steps client_start es s" "cs_closed s" "cs_worker s = WLocking" "client_steps s later s'"
  shows "cs_worker s' = WLocking \<and> cs_runs s' = cs_runs s"
proof -
  have "client_steps s later s' \<Longrightarrow> client_inv s \<Longrightarrow> cs_closed s \<Longrightarrow> cs_worker s = WLocking
      \<Longrightarrow> cs_worker s' = WLocking \<and> cs_runs s' = cs_runs s"
    by (induction rule: client_steps.induct) (simp, metis client_inv_fire closed_pending_fire)
  with assms client_inv_steps [OF assms(1) client_inv_start] show ?thesis by blast
qed

text \<open>It happens: a second notification is queued behind a running task while the agent closes the client.\<close>

definition block_events :: "client_event list" where
  "block_events = [NotifySend, Deliver, Begin, NotifySend, CallClose, RunEnds, CloseLocks, Deliver]"

definition blocked_client :: client_sys where
  "blocked_client = \<lparr>cs_noti = True, cs_cancelled = True, cs_closed = True, cs_lock = Some ByCloser, cs_handler = Receiving,
     cs_worker = WLocking, cs_closer = CloseDone, cs_runs = 1\<rparr>"

lemma blocked_reach: "client_steps client_start block_events blocked_client"
  by (simp add: block_events_def client_start_def blocked_client_def client_steps.step)

lemma blocked_later: "client_steps blocked_client [StreamError] (blocked_client\<lparr>cs_handler := Returned\<rparr>)"
  by (simp add: blocked_client_def client_steps.step)


corollary closed_client_blocks_queue_witness: "cs_worker (blocked_client\<lparr>cs_handler := Returned\<rparr>) = WLocking"
  using closed_client_blocks_queue [OF blocked_reach _ _ blocked_later] by (simp add: blocked_client_def)

section \<open>Calls to the service\<close>

text \<open>
  The identity token first, then the call under \<open>RetryAPICall\<close>. The machine is paired with the last response.
\<close>

record 'x rpc_env =
  rc_token :: "'x \<Rightarrow> string res \<times> 'x"
  rc_draws :: "nat \<Rightarrow> nat"
  rc_sleep :: "nat \<Rightarrow> 'x \<Rightarrow> 'x"

definition attempt :: "('x \<Rightarrow> 'a res \<times> 'x) \<Rightarrow> 'x \<times> 'a option \<Rightarrow> go_error option \<times> 'x \<times> 'a option" where
  "attempt call st = (case call (fst st) of (Inl e, x) \<Rightarrow> (Some e, x, None) | (Inr a, x) \<Rightarrow> (None, x, Some a))"

definition retried :: "'x rpc_env \<Rightarrow> nat \<Rightarrow> (string \<Rightarrow> 'x \<Rightarrow> 'a res \<times> 'x) \<Rightarrow> 'x \<Rightarrow> (go_error + 'a res) \<times> 'x" where
  "retried env maxTime call x =
     (case rc_token env x of
        (Inl e, x1) \<Rightarrow> (Inl e, x1)
      | (Inr token, x1) \<Rightarrow>
          (case RetryAPICall (rc_draws env) (\<lambda>n (y, a). (rc_sleep env n y, a)) maxTime (attempt (call token)) (x1, None) of
             (Some e, sl, x2, a) \<Rightarrow> (Inr (Inl e), x2)
           | (None, sl, x2, a) \<Rightarrow> (Inr (Inr (the a)), x2)))"

definition called :: "string \<Rightarrow> (go_error + 'a res) \<times> 'x \<Rightarrow> 'a res \<times> 'x" where
  "called what r =
     (case r of
        (Inl e, x) \<Rightarrow> (Inl e, x)
      | (Inr (Inl e), x) \<Rightarrow> (Inl (ErrWrap (''error calling '' @ what) e), x)
      | (Inr (Inr a), x) \<Rightarrow> (Inr a, x))"

definition startNextTask :: "'x rpc_env \<Rightarrow> (string \<Rightarrow> 'x \<Rightarrow> 't option res \<times> 'x) \<Rightarrow> 'x \<Rightarrow> 't option res \<times> 'x" where
  "startNextTask env raw x = called ''StartNextTask'' (retried env apiRetrySec raw x)"

definition reportTaskProgress :: "'x rpc_env \<Rightarrow> (string \<Rightarrow> 'x \<Rightarrow> bool res \<times> 'x) \<Rightarrow> 'x \<Rightarrow> bool res \<times> 'x" where
  "reportTaskProgress env raw x = called ''ReportTaskProgress'' (retried env apiRetrySec raw x)"

definition reportTaskComplete :: "'x rpc_env \<Rightarrow> (string \<Rightarrow> 'x \<Rightarrow> unit res \<times> 'x) \<Rightarrow> 'x \<Rightarrow> go_error option \<times> 'x" where
  "reportTaskComplete env raw x =
     (case called ''ReportTaskComplete'' (retried env apiRetrySec raw x) of (Inl e, x1) \<Rightarrow> (Some e, x1) | (Inr _, x1) \<Rightarrow> (None, x1))"

definition RegisterAgent :: "'x rpc_env \<Rightarrow> (string \<Rightarrow> 'x \<Rightarrow> unit res \<times> 'x) \<Rightarrow> 'x \<Rightarrow> go_error option \<times> 'x" where
  "RegisterAgent env raw x =
     (case retried env apiRetrySec raw x of
        (Inl e, x1) \<Rightarrow> (Some e, x1) | (Inr (Inl e), x1) \<Rightarrow> (Some e, x1) | (Inr (Inr _), x1) \<Rightarrow> (None, x1))"

lemma attempt_world: "snd (attempt call st) = (snd (call (fst st)), case fst (call (fst st)) of Inl e \<Rightarrow> None | Inr a \<Rightarrow> Some a)"
  by (auto simp: attempt_def split: prod.splits sum.splits)

text \<open>
  A call to the service that succeeds hands back what the service answered in its last attempt, and left the
  machine as that attempt did; the one that needs no token never reaches the service without one.
\<close>

theorem startNextTask_answer:
  assumes "startNextTask env raw x = (Inr t, x')"
  shows "\<exists>token x1 y. rc_token env x = (Inr token, x1) \<and> raw token y = (Inr t, x')"
proof -
  obtain rt x1 where rt: "rc_token env x = (rt, x1)" by (cases "rc_token env x")
  from assms rt obtain token where tok: "rt = Inr token"
    by (cases rt) (auto simp: startNextTask_def called_def retried_def)
  let ?f = "attempt (raw token)" and ?sleep = "\<lambda>n (y, a). (rc_sleep env n y, a)"
  obtain e sl x2 a where r: "RetryAPICall (rc_draws env) ?sleep apiRetrySec ?f (x1, None) = (e, sl, x2, a)" by (rule prod_cases4)
  from assms rt tok r have e: "e = None" "t = the a" "x' = x2"
    by (cases e; auto simp: startNextTask_def called_def retried_def)+
  obtain w where w: "e = api_result (fst (?f w))" "(x2, a) = snd (?f w)"
    using retry_api_trace [OF r [unfolded RetryAPICall_def]] by blast
  obtain c y where c: "raw token (fst w) = (c, y)" by (cases "raw token (fst w)")
  have "c = Inr (the a)" "y = x2" using w c e(1) by (cases c; simp add: attempt_def api_result_def split: option.splits if_splits)+
  with e rt tok c show ?thesis by blast
qed

section \<open>The task loop\<close>

datatype task_type = APPLY_PATCHES | EXEC_STEP_TASK | APPLY_CONFIG_TASK | OtherTask string

record 'x task_runners =
  tr_patches :: "string \<Rightarrow> 'x \<Rightarrow> go_error option \<times> 'x"
  tr_exec :: "string \<Rightarrow> 'x \<Rightarrow> go_error option \<times> 'x"
  tr_config :: "string \<Rightarrow> 'x \<Rightarrow> go_error option \<times> 'x"

text \<open>Every error of a task is only logged; an unknown type is logged too.\<close>

fun run_one :: "'x task_runners \<Rightarrow> task_type \<times> string \<Rightarrow> 'x \<Rightarrow> 'x" where
  "run_one rs (APPLY_PATCHES, tid) x = snd (tr_patches rs tid x)"
| "run_one rs (EXEC_STEP_TASK, tid) x = snd (tr_exec rs tid x)"
| "run_one rs (APPLY_CONFIG_TASK, tid) x = snd (tr_config rs tid x)"
| "run_one rs (OtherTask name, tid) x = x"

partial_function (option) runTask ::
  "'x task_runners \<Rightarrow> ('x \<Rightarrow> (task_type \<times> string) option res \<times> 'x) \<Rightarrow> 'x \<Rightarrow> 'x option" where
  "runTask rs start x =
     (case start x of
        (Inl e, x1) \<Rightarrow> Some x1
      | (Inr None, x1) \<Rightarrow> Some x1
      | (Inr (Some t), x1) \<Rightarrow> runTask rs start (run_one rs t x1))"

text \<open>The tasks \<open>ts\<close> were handed out and run one after the other, and then the server had none or failed.\<close>

fun ran_tasks :: "'x task_runners \<Rightarrow> ('x \<Rightarrow> (task_type \<times> string) option res \<times> 'x) \<Rightarrow> 'x \<Rightarrow> (task_type \<times> string) list \<Rightarrow> 'x \<Rightarrow> bool" where
  "ran_tasks rs start x [] x' \<longleftrightarrow> snd (start x) = x' \<and> (\<forall>t. fst (start x) \<noteq> Inr (Some t))"
| "ran_tasks rs start x (t # ts) x' \<longleftrightarrow> fst (start x) = Inr (Some t) \<and> ran_tasks rs start (run_one rs t (snd (start x))) ts x'"


text \<open>
  A task of an unknown type is never reported back: a server that hands it out until then is asked forever.
\<close>

theorem runTask_unknown_spins:
  assumes "\<And>x. start x = (Inr (Some (OtherTask name, tid)), x)"
  shows "runTask rs start x = None"
proof -
  let ?spins = "\<lambda>start. \<forall>x. start x = (Inr (Some (OtherTask name, tid)), x)"
  have "\<not> ?spins start" if "runTask rs start x = Some x'" for x'
  proof (rule runTask.raw_induct [where P = "\<lambda>rs start x y. \<not> ?spins start" and xa = "((rs, start), x)" and y = x', simplified prod.case])
    show "\<not> ?spins start"
      if "\<And>start x b y. f start x b = Some y \<Longrightarrow> \<not> ?spins x"
        and "(case start x of (Inl e, x1) \<Rightarrow> Some x1 | (Inr None, x1) \<Rightarrow> Some x1 | (Inr (Some t), x1) \<Rightarrow> f rs start (run_one rs t x1)) = Some y"
      for f rs start x y
      using that(2) by (metis (no_types, lifting) option.simps(5) prod.case sum.case(2) that(1))
  qed (rule that)
  with assms show ?thesis by (cases "runTask rs start x") auto
qed

text \<open>A server with a list of tasks, which a run of any task shortens.\<close>

definition list_server :: "(task_type \<times> string) list \<Rightarrow> (task_type \<times> string) option res \<times> (task_type \<times> string) list" where
  "list_server ts = (Inr (case ts of [] \<Rightarrow> None | t # _ \<Rightarrow> Some t), tl ts)"

definition quiet_runners :: "'x task_runners" where
  "quiet_runners = \<lparr>tr_patches = (\<lambda>tid x. (None, x)), tr_exec = (\<lambda>tid x. (Some (ErrMsg tid), x)), tr_config = (\<lambda>tid x. (None, x))\<rparr>"

lemma quiet_run [simp]: "run_one quiet_runners t x = x"
  by (cases t; cases "fst t") (auto simp: quiet_runners_def)


corollary runTask_unknown_spins_witness:
  "runTask quiet_runners (\<lambda>x :: unit. (Inr (Some (OtherTask ''NEW_TASK'', ''t'')), x)) () = None"
  by (rule runTask_unknown_spins) (rule refl)

definition demo_rpc :: "nat rpc_env" where
  "demo_rpc = \<lparr>rc_token = (\<lambda>x. (Inr ''token'', x)), rc_draws = (\<lambda>i. 0), rc_sleep = (\<lambda>n x. x)\<rparr>"

definition flaky_start :: "string \<Rightarrow> nat \<Rightarrow> (task_type \<times> string) option res \<times> nat" where
  "flaky_start token n = (if n < 2 then Inl (ErrStatus Unavailable ''try again'') else Inr (Some (APPLY_PATCHES, token)), Suc n)"

lemma flaky_answer: "startNextTask demo_rpc flaky_start 0 = (Inr (Some (APPLY_PATCHES, ''token'')), 3)"
  by code_simp

corollary startNextTask_answer_witness: "\<exists>token y. flaky_start token y = (Inr (Some (APPLY_PATCHES, ''token'')), 3)"
  using startNextTask_answer [OF flaky_answer] by blast

section \<open>Waiting for notifications\<close>

text \<open>What \<open>waitForTask\<close> makes of the end of the stream: \<open>None\<close> when the server closed it or it was cancelled.\<close>

definition stream_result :: "go_error option \<Rightarrow> go_error option" where
  "stream_result r =
     (case r of
        None \<Rightarrow> None
      | Some err \<Rightarrow>
          if err = ErrEOF then None
          else (case status_of err of
                  Some (PermissionDenied, m) \<Rightarrow> Some ErrServiceNotEnabled
                | Some (ResourceExhausted, m) \<Rightarrow> Some ErrResourceExhausted
                | _ \<Rightarrow> Some err))"

definition waitForTask :: "go_error + go_error option \<Rightarrow> go_error option" where
  "waitForTask opened = (case opened of Inl e \<Rightarrow> Some e | Inr ended \<Rightarrow> stream_result ended)"

datatype wait_end = WaitCancelled | WaitDisabled | WaitNoAccount | WaitTooMany

text \<open>Which way the loop stopped, if it did, and the sleeps; every end but the first closes the client.\<close>

fun wait_loop :: "(nat \<Rightarrow> nat) \<Rightarrow> nat \<Rightarrow> go_error option option list \<Rightarrow> nat \<Rightarrow> nat \<Rightarrow> wait_end option \<times> nat list" where
  "wait_loop draws k [] errs exhausted = (None, [])"
| "wait_loop draws k (None # rs) errs exhausted = (Some WaitCancelled, [])"
| "wait_loop draws k (Some None # rs) errs exhausted = wait_loop draws (Suc k) rs 0 exhausted"
| "wait_loop draws k (Some (Some e) # rs) errs exhausted =
     (if err_root e = ErrServiceNotEnabled then (Some WaitDisabled, [])
      else if is_not_defined e then (Some WaitNoAccount, [])
      else if err_root e = ErrResourceExhausted
      then (case wait_loop draws (Suc k) rs errs (exhausted + 1) of (r, sl) \<Rightarrow> (r, RetrySleep (draws k) (exhausted + 1) 5 # sl))
      else if errs + 1 \<ge> 10 then (Some WaitTooMany, [])
      else (case wait_loop draws (Suc k) rs (errs + 1) 0 of (r, sl) \<Rightarrow> (r, RetrySleep (draws k) (errs + 1) 0 # sl)))"

definition WaitForTaskNotification :: "(nat \<Rightarrow> nat) \<Rightarrow> go_error option option list \<Rightarrow> wait_end option \<times> nat list" where
  "WaitForTaskNotification draws rs = wait_loop draws 0 rs 0 0"

text \<open>The errors that count, since the last turn that ended well.\<close>

definition plain_error :: "go_error option option \<Rightarrow> bool" where
  "plain_error r = (case r of Some (Some e) \<Rightarrow> err_root e \<noteq> ErrResourceExhausted | _ \<Rightarrow> False)"

fun plain_errors :: "go_error option option list \<Rightarrow> nat \<Rightarrow> nat" where
  "plain_errors [] n = n"
| "plain_errors (r # rs) n = plain_errors rs (if r = Some None then 0 else if plain_error r then n + 1 else n)"

lemma wait_loop_facts:
  "wait_loop draws k rs errs exhausted = (r, sl) \<Longrightarrow> errs \<le> 9
    \<Longrightarrow> list_all (\<lambda>s. 1 \<le> s \<and> s \<le> 300) sl
      \<and> (r = None \<longrightarrow> plain_errors rs errs \<le> 9 \<and> length sl = length (filter (\<lambda>x. x \<noteq> Some None) rs))
      \<and> (r = Some WaitTooMany \<longrightarrow> (\<exists>n. plain_errors (take n rs) errs = 10))"
proof (induction draws k rs errs exhausted arbitrary: r sl rule: wait_loop.induct)
  case (3 draws k rs errs exhausted)
  have t: "\<exists>n. plain_errors (take n (Some None # rs)) errs = 10" if hy: "\<exists>n. plain_errors (take n rs) 0 = 10"
  proof -
    obtain n where "plain_errors (take n rs) 0 = 10" using hy by blast
    then have "plain_errors (take (Suc n) (Some None # rs)) errs = 10" by simp
    then show ?thesis by blast
  qed
  from 3 t show ?case by auto
next
  case (4 draws k e rs errs exhausted)
  let ?x = "Some (Some e)"
  show ?case
  proof (cases "err_root e = ErrServiceNotEnabled \<or> is_not_defined e")
    case True
    with 4 show ?thesis by (auto split: if_splits)
  next
    case False
    show ?thesis
    proof (cases "err_root e = ErrResourceExhausted")
      case True
      obtain r2 sl2 where w: "wait_loop draws (Suc k) rs errs (exhausted + 1) = (r2, sl2)" by fastforce
      have p: "plain_errors (?x # ys) errs = plain_errors ys errs" for ys by (simp add: plain_error_def True)
      have t: "\<exists>n. plain_errors (take n (?x # rs)) errs = 10" if hy: "\<exists>n. plain_errors (take n rs) errs = 10"
      proof -
          obtain n where "plain_errors (take n rs) errs = 10" using hy by blast
          then have "plain_errors (take (Suc n) (?x # rs)) errs = 10" by (simp only: take_Suc_Cons p)
          then show ?thesis by blast
        qed
      from 4(1) [OF _ _ True w] 4(3,4) False True w t show ?thesis
        using RetrySleep_bounds(2) [of "exhausted + 1" "draws k" 5] RetrySleep_pos [of "exhausted + 1" "draws k" 5] p
        by auto
    next
      case nt: False
      have p: "plain_errors (?x # ys) errs = plain_errors ys (errs + 1)" for ys by (simp add: plain_error_def nt)
      show ?thesis
      proof (cases "errs + 1 \<ge> 10")
        case True
        with 4(3,4) False nt have "r = Some WaitTooMany" "sl = []" "plain_errors (take 1 (?x # rs)) errs = 10"
          by (auto simp: plain_error_def)
        then show ?thesis by (auto simp del: take_Suc_Cons)
      next
        case few: False
        obtain r2 sl2 where w: "wait_loop draws (Suc k) rs (errs + 1) 0 = (r2, sl2)" by fastforce
        have t: "\<exists>n. plain_errors (take n (?x # rs)) errs = 10" if hy: "\<exists>n. plain_errors (take n rs) (errs + 1) = 10"
        proof -
          obtain n where "plain_errors (take n rs) (errs + 1) = 10" using hy by blast
          then have "plain_errors (take (Suc n) (?x # rs)) errs = 10" by (simp only: take_Suc_Cons p)
          then show ?thesis by blast
        qed
        from 4(2) [OF _ _ nt few w] 4(3,4) False nt few w t show ?thesis
          using RetrySleep_bounds(2) [of "errs + 1" "draws k" 0] RetrySleep_pos [of "errs + 1" "draws k" 0] p
          by auto
      qed
    qed
  qed
qed auto

text \<open>
  C23. The notification watcher gives up exactly at the tenth counted error since the last stream that ended well:
  as long as it watches there were at most nine, and it slept between one second and five minutes after each error.
\<close>

theorem wait_gives_up:
  assumes "WaitForTaskNotification draws rs = (r, sl)"
  shows "list_all (\<lambda>s. 1 \<le> s \<and> s \<le> 300) sl
      \<and> (r = None \<longrightarrow> plain_errors rs 0 \<le> 9 \<and> length sl = length (filter (\<lambda>x. x \<noteq> Some None) rs))
      \<and> (r = Some WaitTooMany \<longrightarrow> (\<exists>n. plain_errors (take n rs) 0 = 10))"
  using wait_loop_facts [OF assms [unfolded WaitForTaskNotification_def]] by simp

lemma demo_wait:
  "WaitForTaskNotification (\<lambda>i. 0) (replicate 9 (Some (Some (ErrMsg ''reset''))) @ [Some None] @ replicate 10 (Some (Some (ErrMsg ''reset''))))
     = (Some WaitTooMany, [1, 4, 9, 16, 25, 36, 49, 64, 81, 1, 4, 9, 16, 25, 36, 49, 64, 81])"
  by code_simp

corollary wait_gives_up_witness: "list_all (\<lambda>s. 1 \<le> s \<and> s \<le> (300 :: nat)) [1, 4, 9, 16, 25, 36, 49, 64, 81, 1, 4, 9, 16, 25, 36, 49, 64, 81]"
  using wait_gives_up [OF demo_wait] by blast

text \<open>A stream that ended well does not reset the other counter.\<close>

lemma exhausted_not_reset:
  "WaitForTaskNotification (\<lambda>i. 0) [Some (Some ErrResourceExhausted), Some None, Some (Some ErrResourceExhausted)] = (None, [6, 14])"
  by code_simp

end
