(* ===== verification/ExecTask.thy ===== *)
theory ExecTask
  imports FileSys
begin

text \<open>
  The ExecStep task, \<open>agentendpoint/exec_task.go\<close>, on Linux and on Windows.

  \<^item> The world is the file system, the rest of the machine, and the completions sent so far (history).
  \<^item> \<open>et_windows\<close> is the system root of a Windows machine, \<open>None\<close> on Linux. Paths of downloads are written as on Linux.
  \<^item> The service, the storage client and the process runner are operations of \<open>exec_env\<close>. A run command gives
    the exit code of its process, if it was started, and the error of \<open>CombinedOutput\<close>; it may change files.
\<close>

section \<open>Data\<close>

datatype exec_interpreter = INTERPRETER_UNSPECIFIED | SHELL | POWERSHELL | OtherInterpreter string

record exec_step_config =
  esc_local_path :: string
  esc_gcs :: "(string \<times> string \<times> int) option"
  esc_interpreter :: exec_interpreter

datatype exec_output_state = EXEC_COMPLETED | EXEC_CANCELLED

record 'x exec_world =
  ew_fs :: fs
  ew_rest :: 'x
  ew_sent :: "(string \<times> exec_output_state \<times> int) list"

record 'x exec_task_env =
  et_progress :: "'x \<Rightarrow> bool res \<times> 'x"
  et_complete :: "string \<Rightarrow> exec_output_state \<Rightarrow> int \<Rightarrow> 'x \<Rightarrow> go_error option \<times> 'x"
  et_client :: "'x \<Rightarrow> go_error option \<times> 'x"
  et_object :: "string \<times> string \<times> int \<Rightarrow> 'x \<Rightarrow> string res res \<times> 'x"
  et_run :: "string \<Rightarrow> string list \<Rightarrow> fs \<times> 'x \<Rightarrow> (int option \<times> go_error option) \<times> fs \<times> 'x"
  et_sha :: "string \<Rightarrow> string"
  et_windows :: "string option"

definition sh_path :: string where
  "sh_path = ''/bin/sh''"

definition errLinuxPowerShell :: go_error where
  "errLinuxPowerShell = ErrMsg ''interpreter POWERSHELL cannot be used on non-Windows system''"

definition errWinNoInt :: go_error where
  "errWinNoInt = ErrMsg ''an interpreter value of `SHELL` or `POWERSHELL` must be set for files ran on Windows systems''"

text \<open>The programs of Windows; an empty \<open>SystemRoot\<close> stands for the usual one.\<close>

definition winProgram :: "string \<Rightarrow> string list \<Rightarrow> string" where
  "winProgram root parts = join [CHR 0x5C] ((if root = [] then join [CHR 0x5C] [''C:'', ''Windows''] else root) # parts)"

definition winCmd :: "string \<Rightarrow> string" where
  "winCmd root = winProgram root [''System32'', ''cmd.exe'']"

definition winPowershell :: "string \<Rightarrow> string" where
  "winPowershell root = winProgram root [''System32'', ''WindowsPowerShell'', ''v1.0'', ''PowerShell.exe'']"

definition winPowershellArgs :: "string list" where
  "winPowershellArgs = [''-NonInteractive'', ''-NoProfile'', ''-ExecutionPolicy'', ''Bypass'']"

section \<open>Operations\<close>

text \<open>The object's reader gives its bytes or ends in an error; either way the file is written atomically.\<close>

definition getGCSObject :: "'x exec_task_env \<Rightarrow> string \<times> string \<times> int \<Rightarrow> 'x exec_world \<Rightarrow> string res \<times> 'x exec_world" where
  "getGCSObject env object w =
     (case et_client env (ew_rest w) of
        (Some e, x) \<Rightarrow> (Inl (ErrMsg (''error creating gcs client: '' @ err_text e)), w\<lparr>ew_rest := x\<rparr>)
      | (None, x) \<Rightarrow>
          (case et_object env object x of
             (Inl e, x1) \<Rightarrow> (Inl (ErrMsg (''error fetching GCS object: '' @ err_text e)), w\<lparr>ew_rest := x1\<rparr>)
           | (Inr reader, x1) \<Rightarrow>
               (let localPath = path_join [''/tmp'', path_base (fst (snd object))] in
                case AtomicWriteFileStream (et_sha env) reader [] localPath 493 (ew_fs w) of
                  (Inl e, s) \<Rightarrow> (Inl (ErrMsg (''error downloading GCS object: '' @ err_text e)), w\<lparr>ew_rest := x1, ew_fs := s\<rparr>)
                | (Inr digest, s) \<Rightarrow> (Inr localPath, w\<lparr>ew_rest := x1, ew_fs := s\<rparr>))))"

definition executeCommand :: "'x exec_task_env \<Rightarrow> string \<Rightarrow> string list \<Rightarrow> 'x exec_world \<Rightarrow> (int \<times> go_error option) \<times> 'x exec_world" where
  "executeCommand env path args w =
     (case et_run env path args (ew_fs w, ew_rest w) of
        ((code, err), s, x) \<Rightarrow>
          ((case err of
              None \<Rightarrow> (case code of None \<Rightarrow> 0 | Some c \<Rightarrow> c, None)
            | Some (ErrExit c m) \<Rightarrow> (case code of None \<Rightarrow> 0 | Some c \<Rightarrow> c, None)
            | Some e \<Rightarrow> (-1, Some e)),
           w\<lparr>ew_fs := s, ew_rest := x\<rparr>))"

definition exec_reportCompletedState :: "'x exec_task_env \<Rightarrow> string \<Rightarrow> exec_output_state \<Rightarrow> int \<Rightarrow> 'x exec_world \<Rightarrow> go_error option \<times> 'x exec_world" where
  "exec_reportCompletedState env msg st code w =
     (case et_complete env msg st code (ew_rest w) of
        (e, x) \<Rightarrow> (map_option (\<lambda>err. ErrMsg (''error reporting completed state: '' @ err_text err)) e,
                 w\<lparr>ew_rest := x, ew_sent := ew_sent w @ [(msg, st, code)]\<rparr>))"

definition run_interpreter :: "'x exec_task_env \<Rightarrow> exec_interpreter \<Rightarrow> string \<Rightarrow> 'x exec_world \<Rightarrow> (int \<times> go_error option) \<times> 'x exec_world" where
  "run_interpreter env interp localPath w =
     (case (interp, et_windows env) of
        (INTERPRETER_UNSPECIFIED, None) \<Rightarrow> executeCommand env localPath [] w
      | (INTERPRETER_UNSPECIFIED, Some root) \<Rightarrow> ((-1, Some errWinNoInt), w)
      | (SHELL, None) \<Rightarrow> executeCommand env sh_path [localPath] w
      | (SHELL, Some root) \<Rightarrow> executeCommand env (winCmd root) [''/c'', localPath] w
      | (POWERSHELL, None) \<Rightarrow> ((-1, Some errLinuxPowerShell), w)
      | (POWERSHELL, Some root) \<Rightarrow> executeCommand env (winPowershell root) (winPowershellArgs @ [''-File'', localPath]) w
      | (OtherInterpreter s, _) \<Rightarrow> ((-1, Some (ErrMsg (''invalid interpreter '' @ quote s))), w))"

definition run_step :: "'x exec_task_env \<Rightarrow> exec_interpreter \<Rightarrow> string \<Rightarrow> 'x exec_world \<Rightarrow> go_error option \<times> 'x exec_world" where
  "run_step env interp localPath w =
     (case run_interpreter env interp localPath w of
        ((code, Some e), w1) \<Rightarrow> exec_reportCompletedState env (''Error running ExecStepTask: '' @ err_text e) EXEC_COMPLETED code w1
      | ((code, None), w1) \<Rightarrow> exec_reportCompletedState env [] EXEC_COMPLETED code w1)"

text \<open>The deferred removal of the downloaded file; its error is only logged.\<close>

definition remove_download :: "string \<Rightarrow> go_error option \<times> 'x exec_world \<Rightarrow> go_error option \<times> 'x exec_world" where
  "remove_download path r = (fst r, (snd r)\<lparr>ew_fs := snd (os_remove path (ew_fs (snd r)))\<rparr>)"

text \<open>The step configuration of this system.\<close>

definition step_config :: "'x exec_task_env \<Rightarrow> exec_step_config option \<Rightarrow> exec_step_config option \<Rightarrow> exec_step_config option" where
  "step_config env linux windows = (if et_windows env = None then linux else windows)"

definition exec_task_run :: "'x exec_task_env \<Rightarrow> exec_step_config option \<Rightarrow> exec_step_config option \<Rightarrow> 'x exec_world \<Rightarrow> go_error option \<times> 'x exec_world" where
  "exec_task_run env linux windows w =
     (case et_progress env (ew_rest w) of
        (Inl e, x) \<Rightarrow> (Some (ErrMsg (''error reporting state STARTED: '' @ err_text e)), w\<lparr>ew_rest := x\<rparr>)
      | (Inr stop, x) \<Rightarrow>
          (let w1 = w\<lparr>ew_rest := x\<rparr> in
           if stop then exec_reportCompletedState env (err_text ErrServerCancel) EXEC_CANCELLED 0 w1
           else
             (case step_config env linux windows of
                None \<Rightarrow> exec_reportCompletedState env [] EXEC_COMPLETED 0 w1
              | Some c \<Rightarrow>
                  (case esc_gcs c of
                     None \<Rightarrow> run_step env (esc_interpreter c) (esc_local_path c) w1
                   | Some object \<Rightarrow>
                       (case getGCSObject env object w1 of
                          (Inl e, w2) \<Rightarrow>
                            exec_reportCompletedState env (''Error downloading GCS object: '' @ err_text e) EXEC_COMPLETED (-1) w2
                        | (Inr localPath, w2) \<Rightarrow> remove_download localPath (run_step env (esc_interpreter c) localPath w2))))))"

section \<open>What is reported\<close>

text \<open>What the run of the step found: the world before and after it and its exit code or error.\<close>

definition step_verdict :: "int \<times> go_error option \<Rightarrow> string \<times> exec_output_state \<times> int" where
  "step_verdict v = (case snd v of None \<Rightarrow> [] | Some e \<Rightarrow> ''Error running ExecStepTask: '' @ err_text e, EXEC_COMPLETED, fst v)"

lemma run_step_sent:
  "run_step env i p w = (e, w') \<Longrightarrow> ew_sent (snd (run_interpreter env i p w)) = ew_sent w
    \<and> ew_sent w' = ew_sent w @ [step_verdict (fst (run_interpreter env i p w))]
    \<and> ew_fs w' = ew_fs (snd (run_interpreter env i p w))"
  by (cases i; cases "et_windows env") (auto simp: run_step_def run_interpreter_def executeCommand_def exec_reportCompletedState_def step_verdict_def
      split: prod.splits option.splits)

lemma getGCSObject_sent: "getGCSObject env obj w = (r, w') \<Longrightarrow> ew_sent w' = ew_sent w"
  by (auto simp: getGCSObject_def Let_def split: prod.splits sum.splits option.splits)


text \<open>The download is gone after the task unless its removal failed.\<close>

lemma exec_download_removed:
  assumes "exec_task_run env linux windows w = (e, w')" "step_config env linux windows = Some c" "et_progress env (ew_rest w) = (Inr False, x)" "esc_gcs c = Some obj"
    "getGCSObject env obj (w\<lparr>ew_rest := x\<rparr>) = (Inr path, w2)" "run_step env (esc_interpreter c) path w2 = (e3, w3)"
    "os_remove path (ew_fs w3) = (Inr (), s)"
  shows "file_at (ew_fs w') path = None"
  using assms by (auto simp: exec_task_run_def remove_download_def os_remove_def syscall_def file_at_def split: option.splits list.splits)

definition demo_exec_env :: "unit exec_task_env" where
  "demo_exec_env = \<lparr>et_progress = (\<lambda>x. (Inr False, x)), et_complete = (\<lambda>m st c x. (None, x)), et_client = (\<lambda>x. (None, x)),
     et_object = (\<lambda>ob x. (Inr (Inr ''exit 3''), x)), et_run = (\<lambda>p args st. ((Some 3, Some (ErrExit 3 ''exit status 3'')), st)),
     et_sha = (\<lambda>s. s), et_windows = None\<rparr>"

definition demo_step :: exec_step_config where
  "demo_step = \<lparr>esc_local_path = ''/opt/run.sh'', esc_gcs = None, esc_interpreter = SHELL\<rparr>"

definition demo_exec_world :: "unit exec_world" where
  "demo_exec_world = \<lparr>ew_fs = clean_fs, ew_rest = (), ew_sent = []\<rparr>"

lemma demo_exec: "exec_task_run demo_exec_env (Some demo_step) None demo_exec_world
    = (None, demo_exec_world\<lparr>ew_sent := [([], EXEC_COMPLETED, 3)]\<rparr>)"
  by (simp add: exec_task_run_def demo_exec_env_def demo_step_def demo_exec_world_def step_config_def run_step_def run_interpreter_def
      executeCommand_def exec_reportCompletedState_def)


end
