(* ===== verification/RecipeDb.thy ===== *)
theory RecipeDb
  imports ResFile "HOL-Library.AList" "HOL-Library.Multiset"
begin

text \<open>
  Software recipes of guest policies, first part: the versions (\<open>policies/recipes/recipe.go\<close>)
  and the database of installed recipes (\<open>policies/recipes/recipedb.go\<close>).

  \<^item> \<open>RecipeDB\<close>, a map from names to recipes, is an association list; the order in which Go
    iterates over it is the argument \<open>order\<close>.
  \<^item> The JSON text of a list of recipes (package \<open>encoding/json\<close>) is computed by the argument
    \<open>marshal\<close> and read by \<open>unmarshal\<close>. \<open>now\<close> is the wall clock in seconds.
  \<^item> The file is read and written with the system calls of theory FileSys, each of which may fail.
\<close>

section \<open>recipe.go\<close>

record recipe_rec =
  rc_name :: string
  rc_version :: "int list"
  rc_time :: int
  rc_success :: bool

definition errInvalidVersion :: go_error where
  "errInvalidVersion = ErrMsg ''invalid Version string''"

fun version_elements :: "nat \<Rightarrow> string list \<Rightarrow> int list res" where
  "version_elements idx [] = Inr []"
| "version_elements idx (e # es) =
     (if idx > 3 then Inl errInvalidVersion
      else (case parse_int 10 64 e of
              None \<Rightarrow> Inl errInvalidVersion
            | Some v \<Rightarrow>
                if v < 0 then Inl errInvalidVersion
                else (case version_elements (Suc idx) es of Inl err \<Rightarrow> Inl err | Inr vs \<Rightarrow> Inr (v # vs))))"

definition convertVersion :: "string \<Rightarrow> int list res" where
  "convertVersion version = (if version = [] then Inr [0] else version_elements 0 (split_on CHR ''.'' version))"

definition pad_zeros :: "int list \<Rightarrow> nat \<Rightarrow> int list" where
  "pad_zeros v n = v @ replicate (n - length v) 0"

fun version_loop :: "int list \<Rightarrow> int list \<Rightarrow> bool" where
  "version_loop (a # as) (b # bs) = (if a \<noteq> b then b > a else version_loop as bs)"
| "version_loop _ _ = False"

definition recipe_compare :: "recipe_rec \<Rightarrow> string \<Rightarrow> bool" where
  "recipe_compare r version =
     (if version = [] then False
      else (case convertVersion version of
              Inl err \<Rightarrow> False
            | Inr c \<Rightarrow> version_loop (pad_zeros (rc_version r) (length c)) (pad_zeros c (length (rc_version r)))))"

section \<open>recipedb.go\<close>

type_synonym recipe_db = "(string \<times> recipe_rec) list"

definition dbDirUnix :: string where "dbDirUnix = ''/var/lib/google''"
definition dbFileName :: string where "dbFileName = ''osconfig_recipedb''"
definition db_path :: string where "db_path = ''/var/lib/google/osconfig_recipedb''"

definition fill_db :: "recipe_rec list \<Rightarrow> recipe_db" where
  "fill_db rs = foldl (\<lambda>db r. AList.update (rc_name r) r db) [] rs"

definition newRecipeDB :: "(string \<Rightarrow> recipe_rec list res) \<Rightarrow> fs \<Rightarrow> recipe_db res \<times> fs" where
  "newRecipeDB unmarshal s =
     (case os_open db_path s of
        (Inl (ErrNotExist p), s1) \<Rightarrow> (Inr [], s1)
      | (Inl e, s1) \<Rightarrow> (Inl e, s1)
      | (Inr _, s1) \<Rightarrow>
          (case os_read db_path s1 of
             (Inl e, s2) \<Rightarrow> (Inl e, s2)
           | (Inr bytes, s2) \<Rightarrow>
               (case unmarshal bytes of Inl e \<Rightarrow> (Inl e, s2) | Inr rs \<Rightarrow> (Inr (fill_db rs), s2))))"

definition getRecipe :: "recipe_db \<Rightarrow> string \<Rightarrow> recipe_rec option" where
  "getRecipe db name = map_of db name"

text \<open>
  \<open>os.MkdirTemp\<close> and \<open>os.CreateTemp\<close>: the random number stands for the last star of the pattern,
  or behind it; a pattern with a path separator is refused.
\<close>

definition temp_affixes :: "string \<Rightarrow> (string \<times> string) option" where
  "temp_affixes pattern =
     (if CHR ''/'' \<in> set pattern then None
      else (case last_index_char CHR ''*'' pattern of
              None \<Rightarrow> Some (pattern, [])
            | Some i \<Rightarrow> Some (take i pattern, drop (Suc i) pattern)))"

definition temp_node :: "node \<Rightarrow> string \<Rightarrow> string \<Rightarrow> fs \<Rightarrow> string res \<times> fs" where
  "temp_node nd dir pattern s =
     (case temp_affixes pattern of
        None \<Rightarrow> (Inl (ErrMsg (''createtemp '' @ pattern @ '': pattern contains path separator'')), s)
      | Some (pre, suf) \<Rightarrow>
          (case draw s of (r, s1) \<Rightarrow>
             syscall (\<lambda>s2.
               (let stem = dir @ ''/'' @ pre in
                case fresh_from 10000 (\<lambda>p. fs_nodes s2 (p @ suf)) stem r of
                  None \<Rightarrow> (Inl (ErrMsg (''createtemp '' @ dir @ ''/'' @ pattern @ '': file exists'')), s2)
                | Some n \<Rightarrow> (Inr (stem @ show_nat n @ suf), set_node (stem @ show_nat n @ suf) nd s2))) s1))"

text \<open>The map of the caller is updated even when the file is not written.\<close>

definition write_db :: "string \<Rightarrow> fs \<Rightarrow> go_error option \<times> fs" where
  "write_db dbBytes s =
     (case os_mkdir_all dbDirUnix s of
        (Inl e, s1) \<Rightarrow> (Some e, s1)
      | (Inr _, s1) \<Rightarrow>
          (case temp_node (FileN [] 384) dbDirUnix (dbFileName @ ''_*'') s1 of
             (Inl e, s2) \<Rightarrow> (Some e, s2)
           | (Inr tmp, s2) \<Rightarrow>
               (case os_write tmp dbBytes s2 of
                  (Inl e, s3) \<Rightarrow> (Some e, snd (os_close s3))
                | (Inr _, s3) \<Rightarrow>
                    (case os_close s3 of
                       (Inl e, s4) \<Rightarrow> (Some e, s4)
                     | (Inr _, s4) \<Rightarrow>
                         (case os_rename tmp db_path s4 of (Inl e, s5) \<Rightarrow> (Some e, s5) | (Inr _, s5) \<Rightarrow> (None, s5))))))"

definition new_recipe :: "string \<Rightarrow> int list \<Rightarrow> int \<Rightarrow> bool \<Rightarrow> recipe_rec" where
  "new_recipe name v now ok = \<lparr>rc_name = name, rc_version = v, rc_time = now, rc_success = ok\<rparr>"

definition addRecipe :: "(recipe_rec list \<Rightarrow> string) \<Rightarrow> (recipe_rec list \<Rightarrow> recipe_rec list) \<Rightarrow> int \<Rightarrow> string \<Rightarrow> string \<Rightarrow> bool
    \<Rightarrow> recipe_db \<Rightarrow> fs \<Rightarrow> go_error option \<times> recipe_db \<times> fs" where
  "addRecipe marshal order now name version success db s =
     (case convertVersion version of
        Inl err \<Rightarrow> (Some err, db, s)
      | Inr v \<Rightarrow>
          (let db1 = AList.update name (new_recipe name v now success) db in
           case write_db (marshal (order (map snd db1))) s of (e, s1) \<Rightarrow> (e, db1, s1)))"

section \<open>The order of versions\<close>

text \<open>A version denotes the sequence of its numbers, followed by zeros.\<close>

definition part :: "int list \<Rightarrow> nat \<Rightarrow> int" where
  "part v i = (if i < length v then v ! i else 0)"

definition newer :: "int list \<Rightarrow> int list \<Rightarrow> bool" where
  "newer v w \<longleftrightarrow> (\<exists>i. (\<forall>j < i. part v j = part w j) \<and> part v i < part w i)"

lemma part_Cons [simp]: "part (a # v) 0 = a" "part (a # v) (Suc i) = part v i"
  by (simp_all add: part_def)

lemma newer_Cons: "newer (a # v) (b # w) \<longleftrightarrow> a < b \<or> (a = b \<and> newer v w)"
proof
  assume "newer (a # v) (b # w)"
  then obtain i where i: "\<forall>j < i. part (a # v) j = part (b # w) j" "part (a # v) i < part (b # w) i"
    unfolding newer_def by blast
  show "a < b \<or> (a = b \<and> newer v w)"
  proof (cases i)
    case (Suc k)
    from i(1) Suc have "a = b" by (metis part_Cons(1) zero_less_Suc)
    moreover have "part v j = part w j" if "j < k" for j
      using i(1) Suc that by (metis Suc_less_eq part_Cons(2))
    ultimately show ?thesis using i(2) Suc unfolding newer_def by auto
  qed (use i in simp)
next
  assume "a < b \<or> (a = b \<and> newer v w)"
  then show "newer (a # v) (b # w)"
  proof (elim disjE conjE)
    assume "a = b" "newer v w"
    then obtain i where i: "\<forall>j < i. part v j = part w j" "part v i < part w i" unfolding newer_def by blast
    have "part (a # v) j = part (b # w) j" if "j < Suc i" for j
      using that i(1) \<open>a = b\<close> by (cases j) auto
    with i(2) show ?thesis unfolding newer_def by (intro exI [of _ "Suc i"]) simp
  qed (auto simp: newer_def intro: exI [of _ 0])
qed

lemma version_loop_newer: "length v = length w \<Longrightarrow> version_loop v w \<longleftrightarrow> newer v w"
  by (induction v w rule: list_induct2) (auto simp: newer_Cons, simp add: newer_def)

lemma part_pad [simp]: "part (pad_zeros v n) i = part v i"
  by (auto simp: part_def pad_zeros_def nth_append)

lemma newer_pad: "newer (pad_zeros v m) (pad_zeros w n) \<longleftrightarrow> newer v w"
  by (simp add: newer_def)

lemma recipe_compare_newer:
  "recipe_compare r version \<longleftrightarrow> version \<noteq> [] \<and> (\<exists>c. convertVersion version = Inr c \<and> newer (rc_version r) c)"
proof -
  have "length (pad_zeros v (length c)) = length (pad_zeros c (length v))" for v c :: "int list"
    by (simp add: pad_zeros_def)
  then show ?thesis by (auto simp: recipe_compare_def version_loop_newer newer_pad split: sum.splits)
qed

lemma newer_irrefl: "\<not> newer v v"
  by (auto simp: newer_def)

lemma newer_trans: "newer u v \<Longrightarrow> newer v w \<Longrightarrow> newer u w"
proof -
  assume "newer u v" "newer v w"
  then obtain i j where i: "\<forall>k < i. part u k = part v k" "part u i < part v i"
    and j: "\<forall>k < j. part v k = part w k" "part v j < part w j" unfolding newer_def by blast
  have "part u (min i j) < part w (min i j)"
    using i j by (cases i j rule: linorder_cases) auto
  moreover have "\<forall>k < min i j. part u k = part w k" using i(1) j(1) by simp
  ultimately show ?thesis unfolding newer_def by blast
qed

lemma newer_total: "newer v w \<or> newer w v \<or> (\<forall>i. part v i = part w i)"
proof (cases "\<forall>i. part v i = part w i")
  case False
  define i where "i = (LEAST i. part v i \<noteq> part w i)"
  from False have "part v i \<noteq> part w i" unfolding i_def by (metis (mono_tags, lifting) LeastI)
  moreover have "part v j = part w j" if "j < i" for j using that not_less_Least unfolding i_def by blast
  ultimately show ?thesis unfolding newer_def by (metis linorder_neqE)
qed auto

lemma convertVersion_parts:
  assumes "convertVersion s = Inr v"
  shows "1 \<le> length v \<and> length v \<le> 4 \<and> (\<forall>x \<in> set v. 0 \<le> x)"
proof -
  have el: "version_elements i es = Inr w \<Longrightarrow> length w = length es \<and> i + length es \<le> max i 4 \<and> (\<forall>x \<in> set w. 0 \<le> x)" for i es w
    by (induction i es arbitrary: w rule: version_elements.induct) (auto split: if_splits option.splits sum.splits)
  show ?thesis
  proof (cases "s = []")
    case False
    with assms el [of 0 "split_on CHR ''.'' s" v] show ?thesis
      by (cases "split_on CHR ''.'' s") (auto simp: convertVersion_def)
  qed (use assms in \<open>auto simp: convertVersion_def\<close>)
qed

text \<open>
  C26. The comparison of versions: \<open>compare\<close> holds exactly if the wanted version is not empty, is
  well-formed, and is newer as a sequence of numbers padded with zeros. Being newer is a strict
  weak order, two versions that are not ordered differ in trailing zeros only, and a recipe is
  never older than the version it was recorded with.
\<close>

theorem recipe_compare_order:
  "(recipe_compare r version \<longleftrightarrow> version \<noteq> [] \<and> (\<exists>c. convertVersion version = Inr c \<and> newer (rc_version r) c))
    \<and> \<not> newer u u \<and> (newer u v \<longrightarrow> newer v w \<longrightarrow> newer u w)
    \<and> (\<not> newer u v \<longrightarrow> \<not> newer v u \<longrightarrow> (\<forall>i. part u i = part v i))
    \<and> (convertVersion version = Inr (rc_version r) \<longrightarrow> \<not> recipe_compare r version)"
  using recipe_compare_newer newer_irrefl newer_trans newer_total by (metis Inr_inject)

lemma parse_int_small: "parse_int 10 64 ''1'' = Some 1" "parse_int 10 64 ''2'' = Some 2" "parse_int 10 64 ''10'' = Some 10"
  by (simp_all add: parse_int_def parse_uint_def digit_val_def Let_def)

lemma version_demo: "convertVersion ''1.10'' = Inr [1, 10]" "convertVersion ''1.2'' = Inr [1, 2]"
  "convertVersion ''1.2.1.1.1'' = Inl errInvalidVersion"
proof -
  have "parse_int 10 64 ''1'' = Some 1" "parse_int 10 64 ''2'' = Some 2" "parse_int 10 64 ''10'' = Some 10"
    by (fact parse_int_small)+
  then show "convertVersion ''1.10'' = Inr [1, 10]" "convertVersion ''1.2'' = Inr [1, 2]"
    "convertVersion ''1.2.1.1.1'' = Inl errInvalidVersion" by (simp_all add: convertVersion_def)
qed

corollary recipe_compare_order_witness:
  "recipe_compare (new_recipe ''r'' [1, 2] 0 True) ''1.10'' \<and> \<not> recipe_compare (new_recipe ''r'' [1, 10] 0 True) ''1.10''"
proof -
  have "newer [1, 2] [1, 10]" by (simp add: newer_Cons)
  then show ?thesis
    using recipe_compare_order [of "new_recipe ''r'' [1, 2] 0 True" "''1.10''" "[1]" "[1]" "[1]"]
      recipe_compare_order [of "new_recipe ''r'' [1, 10] 0 True" "''1.10''" "[1]" "[1]" "[1]"]
    by (simp add: version_demo new_recipe_def newer_irrefl)
qed

section \<open>The database\<close>

text \<open>The invariant of the map: one entry per name, and each entry has its key as its name.\<close>

definition db_ok :: "recipe_db \<Rightarrow> bool" where
  "db_ok db \<longleftrightarrow> distinct (map fst db) \<and> (\<forall>(k, r) \<in> set db. rc_name r = k)"

lemma db_ok_update: "db_ok db \<Longrightarrow> db_ok (AList.update (rc_name r) r db)"
proof -
  assume ok: "db_ok db"
  have "set (AList.update k r db) \<subseteq> insert (k, r) (set db)" for k by (induction db) auto
  with ok distinct_update [of db "rc_name r" r] show ?thesis by (fastforce simp: db_ok_def)
qed

lemma db_ok_fill: "db_ok (fill_db rs)"
  unfolding fill_db_def by (rule foldl_invariant) (simp_all add: db_ok_update, simp add: db_ok_def)

lemma newRecipeDB_ok: "newRecipeDB unmarshal s = (Inr db, s') \<Longrightarrow> db_ok db"
  by (auto simp: newRecipeDB_def db_ok_fill split: prod.splits sum.splits go_error.splits) (simp_all add: db_ok_def)

lemma fill_db_lookup: "map_of (foldl (\<lambda>db r. AList.update (rc_name r) r db) db rs) = map_of db ++ map_of (rev (map (\<lambda>r. (rc_name r, r)) rs))"
  by (induction rs arbitrary: db) (auto simp: update_conv')

lemma fill_db_perm:
  assumes "db_ok db" "mset rs = mset (map snd db)"
  shows "map_of (fill_db rs) = map_of db"
proof -
  let ?ys = "map (\<lambda>r. (rc_name r, r)) rs"
  have "map (\<lambda>r. (rc_name r, r)) (map snd db) = db"
    using assms(1) by (auto simp: db_ok_def comp_def intro!: map_idI)
  with assms(2) have m: "mset ?ys = mset db" by (metis mset_map)
  with assms(1) have "distinct (map fst ?ys)" by (metis db_ok_def mset_eq_imp_distinct_iff mset_map)
  then have "distinct (map fst (rev ?ys))" by (simp add: rev_map [symmetric])
  moreover have "set (rev ?ys) = set db" using m by (metis mset_rev mset_eq_setD)
  ultimately have "map_of (rev ?ys) = map_of db" using assms(1) by (auto simp: db_ok_def map_of_inject_set)
  then show ?thesis by (simp add: fill_db_def fill_db_lookup)
qed

lemma temp_node_cases:
  assumes "temp_node nd d pat s = (r, s')"
  shows "(\<exists>e. r = Inl e \<and> fs_nodes s' = fs_nodes s)
    \<or> (\<exists>t pre suf n. r = Inr t \<and> temp_affixes pat = Some (pre, suf) \<and> t = d @ ''/'' @ pre @ show_nat n @ suf
         \<and> fs_nodes s t = None \<and> fs_nodes s' = (fs_nodes s)(t \<mapsto> nd))"
proof (cases "temp_affixes pat")
  case (Some a)
  obtain pre suf where a: "a = (pre, suf)" by fastforce
  obtain n s1 where d: "draw s = (n, s1)" by fastforce
  have n1: "fs_nodes s1 = fs_nodes s" using draw_simps [of s] d by simp
  have fresh: "fresh_from k m q i = Some j \<Longrightarrow> m (q @ show_nat j) = None" for k m q i j
    by (induction k arbitrary: i) (auto split: if_splits)
  have free: "fresh_from 10000 (\<lambda>p. fs_nodes s (p @ suf)) (d @ CHR ''/'' # pre) n = Some j
      \<Longrightarrow> fs_nodes s (d @ CHR ''/'' # pre @ show_nat j @ suf) = None" for j
    using fresh [of 10000 "\<lambda>p. fs_nodes s (p @ suf)" "d @ CHR ''/'' # pre" n j] by simp
  from assms Some a d obtain f where "syscall f s1 = (r, s')"
    and f: "f = (\<lambda>s2. let stem = d @ ''/'' @ pre in
                case fresh_from 10000 (\<lambda>p. fs_nodes s2 (p @ suf)) stem n of
                  None \<Rightarrow> (Inl (ErrMsg (''createtemp '' @ d @ ''/'' @ pat @ '': file exists'')), s2)
                | Some n \<Rightarrow> (Inr (stem @ show_nat n @ suf), set_node (stem @ show_nat n @ suf) nd s2))"
    by (auto simp: temp_node_def)
  from this(1) show ?thesis
  proof (cases rule: syscall_cases)
    case (2 s0)
    with n1 Some a show ?thesis
      by (auto simp: f Let_def dest: free split: option.splits)
  qed (use n1 in auto)
qed (use assms in \<open>auto simp: temp_node_def\<close>)

lemma db_temp_affixes: "temp_affixes (dbFileName @ ''_*'') = Some (''osconfig_recipedb_'', [])"
  by code_simp

lemma db_temp_path: "dbDirUnix @ ''/'' @ ''osconfig_recipedb_'' @ show_nat n @ [] \<noteq> db_path"
  by (simp add: dbDirUnix_def db_path_def)

lemma write_db_cases:
  assumes "write_db bytes s = (r, s')"
  shows "(r = None \<longrightarrow> (\<exists>m. fs_nodes s' db_path = Some (FileN bytes m))) \<and> (r \<noteq> None \<longrightarrow> fs_nodes s' db_path = fs_nodes s db_path)"
proof -
  obtain r1 s1 where mk: "os_mkdir_all dbDirUnix s = (r1, s1)" by fastforce
  have "dbDirUnix \<noteq> db_path" by (simp add: dbDirUnix_def db_path_def)
  with mk have n1: "fs_nodes s1 db_path = fs_nodes s db_path"
    unfolding os_mkdir_all_def by (elim syscall_cases) (auto simp: set_node_def split: option.splits node.splits)
  obtain r2 s2 where t: "temp_node (FileN [] 384) dbDirUnix (dbFileName @ ''_*'') s1 = (r2, s2)" by fastforce
  consider e where "r1 = Inl e" | u e where "r1 = Inr u" "r2 = Inl e" | u tmp where "r1 = Inr u" "r2 = Inr tmp"
    by (cases r1; cases r2) auto
  then show ?thesis
  proof cases
    case 1
    with assms mk n1 show ?thesis by (auto simp: write_db_def)
  next
    case 2
    with assms mk t n1 temp_node_cases [OF t] show ?thesis by (auto simp: write_db_def)
  next
    case r12: (3 u tmp)
    from temp_node_cases [OF t] r12 db_temp_affixes db_temp_path
    have tmp: "tmp \<noteq> db_path" "fs_nodes s2 = (fs_nodes s1)(tmp \<mapsto> FileN [] 384)" by auto
    obtain r3 s3 where w: "os_write tmp bytes s2 = (r3, s3)" by fastforce
    obtain r4 s4 where cl: "os_close s3 = (r4, s4)" by fastforce
    obtain r5 s5 where rn: "os_rename tmp db_path s4 = (r5, s5)" by fastforce
    note facts = os_write_cases [OF w] os_close_cases [OF cl] os_rename_cases [OF rn] tmp n1
    from facts have n4: "fs_nodes s4 db_path = fs_nodes s db_path" by auto
    show ?thesis
      by (cases r3; cases r4; cases r5) (use assms mk t r12 w cl rn facts n4 in \<open>auto simp: write_db_def\<close>)

  qed
qed

lemma newRecipeDB_calm:
  assumes "no_fault s" "fs_nodes s db_path = Some (FileN bytes m)" "unmarshal bytes = Inr rs"
  obtains s' where "newRecipeDB unmarshal s = (Inr (fill_db rs), s')" "fs_nodes s' = fs_nodes s" "no_fault s'" "fs_cwd s' = fs_cwd s"
proof -
  obtain s1 where o: "os_open db_path s = (Inr (), s1)" "fs_nodes s1 = fs_nodes s" "no_fault s1" "fs_cwd s1 = fs_cwd s"
    using os_open_calm [OF assms(1), of db_path] assms(2) by auto
  obtain s2 where "os_read db_path s1 = (Inr bytes, s2)" "fs_nodes s2 = fs_nodes s" "no_fault s2" "fs_cwd s2 = fs_cwd s"
    using os_read_calm [OF o(3), of db_path] o assms(2) by auto
  with o assms(3) that show thesis by (simp add: newRecipeDB_def)
qed

text \<open>
  C27. Recording a recipe: if \<open>addRecipe\<close> succeeds, the database read back maps the recipe's name to
  the new record and every other name as before; if it fails, the database file is what it was.
  The two hypotheses on the JSON text and on the order of a map's iteration are what
  \<open>encoding/json\<close> and the language document.
\<close>

theorem recipe_db_update:
  assumes "addRecipe marshal order now name version ok db s = (r, db', s')" "db_ok db"
    and "mset (order (map snd db')) = mset (map snd db')"
    and "unmarshal (marshal (order (map snd db'))) = Inr (order (map snd db'))"
  shows "(r = None \<longrightarrow> no_fault s' \<longrightarrow> (\<exists>v db2 s2. convertVersion version = Inr v \<and> newRecipeDB unmarshal s' = (Inr db2, s2)
        \<and> map_of db2 = (map_of db)(name \<mapsto> new_recipe name v now ok)))
    \<and> (r \<noteq> None \<longrightarrow> fs_nodes s' db_path = fs_nodes s db_path)"
proof (cases "convertVersion version")
  case (Inl e)
  with assms(1) show ?thesis by (auto simp: addRecipe_def)
next
  case (Inr v)
  let ?new = "new_recipe name v now ok"
  from assms(1) Inr have db': "db' = AList.update name ?new db"
    and w: "write_db (marshal (order (map snd db'))) s = (r, s')" by (auto simp: addRecipe_def Let_def split: prod.splits)
  have "db_ok db'" using db_ok_update [OF assms(2), of ?new] db' by (simp add: new_recipe_def)
  then have same: "map_of (fill_db (order (map snd db'))) = map_of db'" using fill_db_perm assms(3) by blast
  show ?thesis
  proof (intro conjI impI)
    assume "r = None" "no_fault s'"
    with write_db_cases [OF w] obtain m where "fs_nodes s' db_path = Some (FileN (marshal (order (map snd db'))) m)" by blast
    then obtain s2 where "newRecipeDB unmarshal s' = (Inr (fill_db (order (map snd db'))), s2)"
      using newRecipeDB_calm \<open>no_fault s'\<close> assms(4) by metis
    with Inr same db' show "\<exists>v db2 s2. convertVersion version = Inr v \<and> newRecipeDB unmarshal s' = (Inr db2, s2)
        \<and> map_of db2 = (map_of db)(name \<mapsto> new_recipe name v now ok)" by (auto simp: update_conv')
  qed (use write_db_cases [OF w] in blast)
qed

text \<open>
  A version that does not parse is found out only here, after the steps have run: nothing is
  recorded then.
\<close>

lemma addRecipe_bad_version:
  "convertVersion version = Inl e \<Longrightarrow> addRecipe marshal order now name version ok db s = (Some e, db, s)"
  by (simp add: addRecipe_def)

definition demo_db_fs :: fs where
  "demo_db_fs = \<lparr>fs_nodes = [dbDirUnix \<mapsto> DirN], fs_cwd = ''/'', fs_draws = [3], fs_faults = []\<rparr>"

definition demo_recipe :: recipe_rec where
  "demo_recipe = new_recipe ''r'' [1, 2] 5 True"

definition demo_marshal :: "recipe_rec list \<Rightarrow> string" where
  "demo_marshal rs = (if rs = [demo_recipe] then ''[r]'' else ''[]'')"

definition demo_unmarshal :: "string \<Rightarrow> recipe_rec list res" where
  "demo_unmarshal t = (if t = ''[r]'' then Inr [demo_recipe] else if t = ''[]'' then Inr [] else Inl (ErrMsg ''invalid character''))"

lemma demo_add:
  "\<exists>s'. addRecipe demo_marshal rev 5 ''r'' ''1.2'' True [] demo_db_fs = (None, [(''r'', demo_recipe)], s') \<and> no_fault s'"
proof -
  have first: "0 < k \<Longrightarrow> m (q @ show_nat n) = None \<Longrightarrow> fresh_from k m q n = Some n" for k m q n by (cases k) auto
  let ?q = "''/var/lib/google'' @ ''/'' @ ''osconfig_recipedb_''"
  have "fresh_from 10000 (\<lambda>p. if p = ''/var/lib/google'' then Some DirN else None) ?q 3 = Some 3" by (rule first) simp_all
  then show ?thesis
    using db_temp_path [of 3]
    by (simp add: addRecipe_def version_demo Let_def write_db_def fs_ops_defs demo_db_fs_def demo_recipe_def [symmetric]
        temp_node_def db_temp_affixes no_fault_def db_path_def dbDirUnix_def fun_upd_def)
qed

corollary recipe_db_update_witness:
  "\<exists>s' db2 s2. newRecipeDB demo_unmarshal s' = (Inr db2, s2) \<and> map_of db2 = [''r'' \<mapsto> demo_recipe]"
proof -
  obtain s' where s': "addRecipe demo_marshal rev 5 ''r'' ''1.2'' True [] demo_db_fs = (None, [(''r'', demo_recipe)], s')" "no_fault s'"
    using demo_add by blast
  from recipe_db_update [OF s'(1), of demo_unmarshal] s'(2)
  show ?thesis by (force simp: db_ok_def demo_marshal_def demo_unmarshal_def version_demo demo_recipe_def [symmetric])
qed

end
