(* ===== verification/RecipeSteps.thy ===== *)
theory RecipeSteps
  imports RecipeDb PkgCmd "HOL-Library.Sublist"
begin

text \<open>
  Software recipes of guest policies, second part: fetching the artifacts
  (\<open>policies/recipes/artifacts.go\<close>), the steps (\<open>policies/recipes/steps.go\<close>, with
  \<open>steps_linux.go\<close>) and \<open>InstallRecipe\<close> (\<open>policies/recipes/installrecipe.go\<close>), on Linux.

  \<^item> The machine is the file system of theory FileSys together with a rest \<open>'y\<close> (links, owners,
    devices, processes). \<open>recipe_env\<close> is what lies outside: the system calls that FileSys does not
    have, the decoders of archives, URLs and JSON, and the commands.
  \<^item> \<open>rw_calls\<close> is a history variable: the system calls and commands the steps made, in order.
  \<^item> A call changes anything but the working directory of the process.
  \<^item> An archive is the list of its entries; an entry's data is what its reader delivers and the
    error, if any, that the reader ends in.
\<close>

section \<open>The machine\<close>

datatype sys_call =
    SChmod string int
  | SMkdirAll string int
  | SOpenCreate string int
  | SCopy string string
  | SClose string
  | SChtimes string
  | SChown string int int
  | SLink string string
  | SSymlink string string
  | SMkchar string int int
  | SMkblock string int int
  | SMkfifo string int
  | SExec string "string list" string "string list"

record zip_entry =
  ze_name :: string
  ze_mode :: int
  ze_data :: "(string \<times> go_error option) res"

datatype tar_type = TypeDir | TypeReg | TypeRegA | TypeLink | TypeSymlink | TypeChar | TypeBlock | TypeFifo | TypeOther

record tar_entry =
  te_name :: string
  te_type :: tar_type
  te_link :: string
  te_mode :: int
  te_uid :: int
  te_gid :: int
  te_major :: int
  te_minor :: int
  te_data :: "string \<times> go_error option"

datatype tar_kind = ARCHIVE_UNSPECIFIED | ZIP | TAR | TAR_GZIP | TAR_BZIP | TAR_LZMA | TAR_XZ

record 'y recipe_env =
  re_tools :: "(fs \<times> 'y) tools"
  re_dpkg :: bool
  re_rpm :: bool
  re_files :: res_env
  re_url :: "string \<Rightarrow> (string \<times> string \<times> string) res"
  re_sys :: "sys_call \<Rightarrow> fs \<times> 'y \<Rightarrow> go_error option \<times> fs \<times> 'y"
  re_stat :: "string \<Rightarrow> fs \<times> 'y \<Rightarrow> bool res"
  re_eval_symlinks :: "string \<Rightarrow> fs \<times> 'y \<Rightarrow> string res"
  re_unzip :: "string \<Rightarrow> fs \<times> 'y \<Rightarrow> zip_entry list res"
  re_untar :: "tar_kind \<Rightarrow> string \<Rightarrow> (tar_entry list \<times> go_error option) res"
  re_marshal :: "recipe_rec list \<Rightarrow> string"
  re_unmarshal :: "string \<Rightarrow> recipe_rec list res"
  re_order :: "recipe_rec list \<Rightarrow> recipe_rec list"
  re_env_order :: "(string \<times> string) list \<Rightarrow> (string \<times> string) list"
  re_nanos :: "fs \<times> 'y \<Rightarrow> int"
  re_seconds :: "fs \<times> 'y \<Rightarrow> int"

record 'y recipe_world =
  rw_machine :: "(fs \<times> 'y) machine"
  rw_calls :: "sys_call list"

definition rw_state :: "'y recipe_world \<Rightarrow> fs \<times> 'y" where
  "rw_state w = mc_rest (rw_machine w)"

definition rw_fs :: "'y recipe_world \<Rightarrow> fs" where
  "rw_fs w = fst (rw_state w)"

definition set_state :: "fs \<times> 'y \<Rightarrow> 'y recipe_world \<Rightarrow> 'y recipe_world" where
  "set_state st w = w\<lparr>rw_machine := (rw_machine w)\<lparr>mc_rest := st\<rparr>\<rparr>"

definition on_disk :: "(fs \<Rightarrow> 'a \<times> fs) \<Rightarrow> 'y recipe_world \<Rightarrow> 'a \<times> 'y recipe_world" where
  "on_disk f w = (case f (rw_fs w) of (r, s) \<Rightarrow> (r, set_state (s, snd (rw_state w)) w))"

definition sys :: "'y recipe_env \<Rightarrow> sys_call \<Rightarrow> 'y recipe_world \<Rightarrow> go_error option \<times> 'y recipe_world" where
  "sys env c w =
     (case re_sys env c (rw_state w) of
        (e, s, y) \<Rightarrow> (e, set_state (s\<lparr>fs_cwd := fs_cwd (rw_fs w)\<rparr>, y) w\<lparr>rw_calls := rw_calls w @ [c]\<rparr>))"

text \<open>Statement after statement, up to the first error.\<close>

fun in_order :: "('w \<Rightarrow> go_error option \<times> 'w) list \<Rightarrow> 'w \<Rightarrow> go_error option \<times> 'w" where
  "in_order [] w = (None, w)"
| "in_order (f # fs) w = (case f w of (Some e, w1) \<Rightarrow> (Some e, w1) | (None, w1) \<Rightarrow> in_order fs w1)"

definition failing :: "go_error option \<Rightarrow> 'w \<Rightarrow> go_error option \<times> 'w" where
  "failing e w = (e, w)"

section \<open>artifacts.go\<close>

datatype artifact_source = ArtGcs string string int | ArtRemote string string | ArtUnset

record artifact =
  af_id :: string
  af_source :: artifact_source

definition path_ext :: "string \<Rightarrow> string" where
  "path_ext p =
     (let base = (case last_index_char CHR ''/'' p of None \<Rightarrow> p | Some i \<Rightarrow> drop (Suc i) p) in
      case last_index_char CHR ''.'' base of None \<Rightarrow> [] | Some i \<Rightarrow> drop i base)"

definition isSupportedURL :: "string \<Rightarrow> bool" where
  "isSupportedURL scheme \<longleftrightarrow> scheme = ''http'' \<or> scheme = ''https''"

definition getHTTPArtifact :: "res_env \<Rightarrow> string \<Rightarrow> string \<Rightarrow> string res res" where
  "getHTTPArtifact files scheme uri =
     (if \<not> isSupportedURL scheme then Inl (ErrMsg (''error, unsupported protocol scheme '' @ scheme))
      else FetchRemoteObjectHTTP files uri)"

definition getStoragePath :: "string \<Rightarrow> string \<Rightarrow> string \<Rightarrow> string" where
  "getStoragePath directory fname extension =
     (let localpath = path_join [directory, fname] in if extension \<noteq> [] then localpath @ extension else localpath)"

text \<open>The reader, the wanted checksum and the extension of an artifact.\<close>

definition open_artifact :: "'y recipe_env \<Rightarrow> artifact \<Rightarrow> (string res \<times> string \<times> string) res" where
  "open_artifact env a =
     (case af_source a of
        ArtGcs bucket object generation \<Rightarrow>
          (case rv_gcs_client (re_files env) of
             Some e \<Rightarrow> Inl (ErrMsg (''error creating gcs client: '' @ err_text e))
           | None \<Rightarrow>
               (case FetchGCSObject (re_files env) bucket object generation of
                  Inl e \<Rightarrow> Inl (ErrMsg (''error fetching artifact '' @ quote (af_id a) @ '' from GCS: '' @ err_text e))
                | Inr reader \<Rightarrow> Inr (reader, [], path_ext object)))
      | ArtRemote uri want \<Rightarrow>
          (case re_url env uri of
             Inl e \<Rightarrow> Inl (ErrMsg (''Could not parse url '' @ quote uri @ '' for artifact '' @ quote (af_id a)))
           | Inr (scheme, path, text) \<Rightarrow>
               (case getHTTPArtifact (re_files env) scheme text of
                  Inl e \<Rightarrow> Inl (ErrMsg (''error fetching artifact '' @ quote (af_id a) @ '': '' @ err_text e))
                | Inr reader \<Rightarrow> Inr (reader, want, path_ext path)))
      | ArtUnset \<Rightarrow> Inl (ErrMsg (''unknown artifact type for artifact '' @ af_id a)))"

definition fetchArtifact :: "'y recipe_env \<Rightarrow> artifact \<Rightarrow> string \<Rightarrow> 'y recipe_world \<Rightarrow> string res \<times> 'y recipe_world" where
  "fetchArtifact env a directory w =
     (case open_artifact env a of
        Inl e \<Rightarrow> (Inl e, w)
      | Inr (reader, checksum, extension) \<Rightarrow>
          (let localPath = getStoragePath directory (af_id a) extension in
           case on_disk (AtomicWriteFileStream (rv_sha (re_files env)) reader checksum localPath 384) w of
             (Inl e, w1) \<Rightarrow> (Inl (ErrMsg (''Error downloading stream: '' @ err_text e)), w1)
           | (Inr _, w1) \<Rightarrow> (Inr localPath, w1)))"

fun fetchArtifacts :: "'y recipe_env \<Rightarrow> artifact list \<Rightarrow> string \<Rightarrow> (string \<times> string) list \<Rightarrow> 'y recipe_world
    \<Rightarrow> (string \<times> string) list res \<times> 'y recipe_world" where
  "fetchArtifacts env [] directory names w = (Inr names, w)"
| "fetchArtifacts env (a # as) directory names w =
     (case fetchArtifact env a directory w of
        (Inl e, w1) \<Rightarrow> (Inl e, w1)
      | (Inr path, w1) \<Rightarrow> fetchArtifacts env as directory (AList.update (af_id a) path names) w1)"

section \<open>Paths of archive entries\<close>

text \<open>\<open>filepath.Abs\<close>, and \<open>filepath.Rel\<close> of two absolute paths.\<close>

definition path_abs :: "fs \<Rightarrow> string \<Rightarrow> string" where
  "path_abs s p = (if is_abs p then path_clean p else path_join [fs_cwd s, p])"

fun strip_common :: "'a list \<Rightarrow> 'a list \<Rightarrow> 'a list \<times> 'a list" where
  "strip_common (a # as) (b # bs) = (if a = b then strip_common as bs else (a # as, b # bs))"
| "strip_common as bs = (as, bs)"

definition path_rel :: "string \<Rightarrow> string \<Rightarrow> string" where
  "path_rel base targ =
     (case strip_common (clean_comps True base) (clean_comps True targ) of
        (b, t) \<Rightarrow> if b = [] \<and> t = [] then ''.'' else join ''/'' (replicate (length b) ''..'' @ t))"

definition ensureFilePathBelongsToDir :: "fs \<Rightarrow> string \<Rightarrow> string \<Rightarrow> go_error option" where
  "ensureFilePathBelongsToDir s dirPath filePath =
     (let rel = path_rel (path_abs s dirPath) (path_abs s filePath) in
      if has_prefix rel ''..''
      then Some (ErrMsg (''path '' @ filePath @ '', does not belongs to dir '' @ dirPath @ '', rel '' @ rel)) else None)"

definition ensureSymlinkBelongsToDir :: "'y recipe_env \<Rightarrow> string \<Rightarrow> string \<Rightarrow> 'y recipe_world \<Rightarrow> go_error option" where
  "ensureSymlinkBelongsToDir env dirPath symlink w =
     (case re_eval_symlinks env (path_abs (rw_fs w) symlink) (rw_state w) of
        Inl e \<Rightarrow> Some e
      | Inr target \<Rightarrow>
          (let rel = path_rel (path_abs (rw_fs w) dirPath) target in
           if has_prefix rel ''..''
           then Some (ErrMsg (''symlink '' @ symlink @ '', does not belongs to dir '' @ dirPath @ '', rel '' @ rel)) else None))"

definition zipIsDir :: "string \<Rightarrow> bool" where
  "zipIsDir name = has_suffix name ''/''"

definition entry_path :: "'y recipe_world \<Rightarrow> string \<Rightarrow> string \<Rightarrow> string" where
  "entry_path w dst name = NormPath (rw_fs w) (path_join [dst, name])"

section \<open>extractZip\<close>

fun zip_check :: "'y recipe_env \<Rightarrow> string \<Rightarrow> string \<Rightarrow> zip_entry list \<Rightarrow> 'y recipe_world \<Rightarrow> go_error option" where
  "zip_check env zipPath dst [] w = None"
| "zip_check env zipPath dst (f # fs) w =
     (let filen = entry_path w dst (ze_name f) in
      case ensureFilePathBelongsToDir (rw_fs w) dst filen of
        Some e \<Rightarrow> Some (ErrWrap (''unable to extract zip archive '' @ zipPath) e)
      | None \<Rightarrow>
          (case re_stat env filen (rw_state w) of
             Inl (ErrNotExist p) \<Rightarrow> zip_check env zipPath dst fs w
           | Inl e \<Rightarrow> Some e
           | Inr isDir \<Rightarrow>
               if zipIsDir (ze_name f) \<and> isDir then zip_check env zipPath dst fs w
               else Some (ErrMsg (''unable to extract zip archive '' @ zipPath @ '': file '' @ filen @ '' is already exists''))))"

text \<open>The data of an entry into an open file; a failed copy closes the file.\<close>

definition copy_into :: "'y recipe_env \<Rightarrow> string \<Rightarrow> string \<times> go_error option \<Rightarrow> 'y recipe_world \<Rightarrow> go_error option \<times> 'y recipe_world" where
  "copy_into env filen data w =
     (case in_order [sys env (SCopy filen (fst data)), failing (snd data)] w of
        (Some e, w1) \<Rightarrow> (Some e, snd (sys env (SClose filen) w1))
      | (None, w1) \<Rightarrow> (None, w1))"

definition zip_one :: "'y recipe_env \<Rightarrow> string \<Rightarrow> zip_entry \<Rightarrow> 'y recipe_world \<Rightarrow> go_error option \<times> 'y recipe_world" where
  "zip_one env dst f w =
     (let filen = entry_path w dst (ze_name f); mode = (if ze_mode f = 0 then 493 else ze_mode f) in
      if zipIsDir (ze_name f)
      then in_order [sys env (SMkdirAll filen mode), sys env (SChmod filen mode)] w
      else
        (case sys env (SMkdirAll (path_dir filen) 493) w of
           (Some e, w1) \<Rightarrow> (Some e, w1)
         | (None, w1) \<Rightarrow>
             (case ze_data f of
                Inl e \<Rightarrow> (Some e, w1)
              | Inr data \<Rightarrow>
                  in_order [sys env (SOpenCreate filen mode), copy_into env filen data, sys env (SClose filen),
                    sys env (SChtimes filen)] w1)))"

definition extractZip :: "'y recipe_env \<Rightarrow> string \<Rightarrow> string \<Rightarrow> 'y recipe_world \<Rightarrow> go_error option \<times> 'y recipe_world" where
  "extractZip env zipPath dst w =
     (case re_unzip env zipPath (rw_state w) of
        Inl e \<Rightarrow> (Some e, w)
      | Inr entries \<Rightarrow>
          (case zip_check env zipPath dst entries w of
             Some e \<Rightarrow> (Some e, w)
           | None \<Rightarrow> in_order (map (zip_one env dst) entries) w))"

section \<open>extractTar\<close>

definition decompress :: "'y recipe_env \<Rightarrow> tar_kind \<Rightarrow> string \<Rightarrow> (tar_entry list \<times> go_error option) res" where
  "decompress env kind content =
     (if kind \<in> {TAR, TAR_GZIP, TAR_BZIP, TAR_LZMA, TAR_XZ} then re_untar env kind content
      else Inl (ErrMsg ''Unrecognized archive type when trying to decompress tar''))"

fun checkForConflicts :: "'y recipe_env \<Rightarrow> string \<Rightarrow> tar_entry list \<Rightarrow> go_error option \<Rightarrow> 'y recipe_world \<Rightarrow> go_error option" where
  "checkForConflicts env dst [] ending w = ending"
| "checkForConflicts env dst (h # hs) ending w =
     (let filen = entry_path w dst (te_name h) in
      case ensureFilePathBelongsToDir (rw_fs w) dst filen of
        Some e \<Rightarrow> Some e
      | None \<Rightarrow>
          (case re_stat env filen (rw_state w) of
             Inl (ErrNotExist p) \<Rightarrow> checkForConflicts env dst hs ending w
           | Inl e \<Rightarrow> Some e
           | Inr isDir \<Rightarrow>
               if te_type h = TypeDir \<and> isDir then checkForConflicts env dst hs ending w
               else Some (ErrMsg (''file exists: '' @ filen))))"

definition file_mode :: "int \<Rightarrow> int" where
  "file_mode m = m mod 2 ^ 32"

definition link_step :: "'y recipe_env \<Rightarrow> string \<Rightarrow> string \<Rightarrow> sys_call \<Rightarrow> 'y recipe_world \<Rightarrow> go_error option \<times> 'y recipe_world" where
  "link_step env dst linkname call w =
     (case ensureSymlinkBelongsToDir env dst linkname w of Some e \<Rightarrow> (None, w) | None \<Rightarrow> sys env call w)"

text \<open>What one entry does behind the creation of its parent; after a link, \<open>continue\<close>.\<close>

definition tar_body :: "'y recipe_env \<Rightarrow> string \<Rightarrow> string \<Rightarrow> tar_entry
    \<Rightarrow> ('y recipe_world \<Rightarrow> go_error option \<times> 'y recipe_world) list" where
  "tar_body env dst filen h =
     (let mode = file_mode (te_mode h);
          chown = sys env (SChown filen (te_uid h) (te_gid h));
          rest = [chown, sys env (SChtimes filen)];
          major = te_major h mod 2 ^ 32; minor = te_minor h mod 2 ^ 32 in
      case te_type h of
        TypeDir \<Rightarrow> [sys env (SMkdirAll filen mode), sys env (SChmod filen mode), chown] @ rest
      | TypeReg \<Rightarrow> [sys env (SOpenCreate filen mode), copy_into env filen (te_data h), sys env (SClose filen)] @ rest
      | TypeRegA \<Rightarrow> [sys env (SOpenCreate filen mode), copy_into env filen (te_data h), sys env (SClose filen)] @ rest
      | TypeLink \<Rightarrow> [link_step env dst (te_link h) (SLink (te_link h) filen)]
      | TypeSymlink \<Rightarrow> [link_step env dst (te_link h) (SSymlink (te_link h) filen)]
      | TypeChar \<Rightarrow> [sys env (SMkchar filen major minor), sys env (SChmod filen mode)] @ rest
      | TypeBlock \<Rightarrow> [sys env (SMkblock filen major minor), sys env (SChmod filen mode)] @ rest
      | TypeFifo \<Rightarrow> [sys env (SMkfifo filen mode)] @ rest
      | TypeOther \<Rightarrow> [])"

definition tar_one :: "'y recipe_env \<Rightarrow> string \<Rightarrow> tar_entry \<Rightarrow> 'y recipe_world \<Rightarrow> go_error option \<times> 'y recipe_world" where
  "tar_one env dst h w =
     (let filen = entry_path w dst (te_name h) in
      case ensureFilePathBelongsToDir (rw_fs w) dst filen of
        Some e \<Rightarrow> (Some e, w)
      | None \<Rightarrow> in_order (sys env (SMkdirAll (path_dir filen) 448) # tar_body env dst filen h) w)"

definition extractTar :: "'y recipe_env \<Rightarrow> string \<Rightarrow> string \<Rightarrow> tar_kind \<Rightarrow> 'y recipe_world \<Rightarrow> go_error option \<times> 'y recipe_world" where
  "extractTar env tarName dst kind w =
     (case on_disk (os_read_file tarName) w of
        (Inl e, w1) \<Rightarrow> (Some e, w1)
      | (Inr content, w1) \<Rightarrow>
          (case decompress env kind content of
             Inl e \<Rightarrow> (Some e, w1)
           | Inr (entries, ending) \<Rightarrow>
               (case checkForConflicts env dst entries ending w1 of
                  Some e \<Rightarrow> (Some (ErrMsg (''unable to extract tar archive '' @ tarName @ '': '' @ err_text e)), w1)
                | None \<Rightarrow> in_order (map (tar_one env dst) entries @ [failing ending]) w1)))"

section \<open>The other steps\<close>

type_synonym artifact_map = "(string \<times> string) list"

record copy_step =
  cs_artifact :: string
  cs_destination :: string
  cs_overwrite :: bool
  cs_permissions :: string

definition recipe_parsePermissions :: "string \<Rightarrow> nat res" where
  "recipe_parsePermissions p =
     (if p = [] then Inr 493
      else (case parse_uint 8 32 p of
              None \<Rightarrow> Inl (ErrMsg (''strconv.ParseUint: parsing '' @ quote p
                         @ (if digits_value 8 0 p = None then '': invalid syntax'' else '': value out of range'')))
            | Some n \<Rightarrow> Inr n))"

definition copy_guard :: "'y recipe_env \<Rightarrow> copy_step \<Rightarrow> string \<Rightarrow> nat \<Rightarrow> 'y recipe_world \<Rightarrow> go_error option \<times> 'y recipe_world" where
  "copy_guard env step dest permissions w =
     (case re_stat env dest (rw_state w) of
        Inl (ErrNotExist p) \<Rightarrow> (None, w)
      | Inl e \<Rightarrow> (Some e, w)
      | Inr isDir \<Rightarrow>
          if \<not> cs_overwrite step
          then (Some (ErrMsg (''file already exists at path '' @ quote (cs_destination step) @ '' and Overwrite = false'')), w)
          else sys env (SChmod dest (int permissions)) w)"

definition stepCopyFile :: "'y recipe_env \<Rightarrow> copy_step \<Rightarrow> artifact_map \<Rightarrow> 'y recipe_world \<Rightarrow> go_error option \<times> 'y recipe_world" where
  "stepCopyFile env step artifacts w =
     (let dest = NormPath (rw_fs w) (cs_destination step) in
      case recipe_parsePermissions (cs_permissions step) of
        Inl e \<Rightarrow> (Some e, w)
      | Inr permissions \<Rightarrow>
          (case copy_guard env step dest permissions w of
             (Some e, w1) \<Rightarrow> (Some e, w1)
           | (None, w1) \<Rightarrow>
               (case map_of artifacts (cs_artifact step) of
                  None \<Rightarrow> (Some (ErrMsg (''could not find location for artifact '' @ quote (cs_artifact step))), w1)
                | Some src \<Rightarrow>
                    (case on_disk (os_open src) w1 of
                       (Inl e, w2) \<Rightarrow> (Some e, w2)
                     | (Inr _, w2) \<Rightarrow>
                         (case on_disk (os_read src) w2 of
                            (reader, w3) \<Rightarrow>
                              (case on_disk (AtomicWriteFileStream (rv_sha (re_files env)) reader [] dest permissions) w3 of
                                 (Inl e, w4) \<Rightarrow> (Some e, w4)
                               | (Inr _, w4) \<Rightarrow> (None, w4)))))))"

record archive_step =
  as_artifact :: string
  as_destination :: string
  as_kind :: tar_kind

definition not_in_map :: "string \<Rightarrow> go_error" where
  "not_in_map artifact = ErrMsg (quote artifact @ '' not found in artifact map'')"

definition stepExtractArchive :: "'y recipe_env \<Rightarrow> archive_step \<Rightarrow> artifact_map \<Rightarrow> 'y recipe_world
    \<Rightarrow> go_error option \<times> 'y recipe_world" where
  "stepExtractArchive env step artifacts w =
     (case map_of artifacts (as_artifact step) of
        None \<Rightarrow> (Some (not_in_map (as_artifact step)), w)
      | Some filename \<Rightarrow>
          if as_kind step = ZIP then extractZip env filename (as_destination step) w
          else if as_kind step \<in> {TAR_GZIP, TAR_BZIP, TAR_LZMA, TAR_XZ, TAR}
          then extractTar env filename (as_destination step) (as_kind step) w
          else (Some (ErrMsg ''Unrecognized archive type''), w))"

definition stepInstallMsi :: "'y recipe_world \<Rightarrow> go_error option \<times> 'y recipe_world" where
  "stepInstallMsi w = (Some (ErrMsg ''SoftwareRecipe_Step_InstallMsi only applicable on Windows''), w)"

definition on_machine :: "((fs \<times> 'y) machine \<Rightarrow> 'a \<times> (fs \<times> 'y) machine) \<Rightarrow> 'y recipe_world \<Rightarrow> 'a \<times> 'y recipe_world" where
  "on_machine f w = (case f (rw_machine w) of (r, m) \<Rightarrow> (r, w\<lparr>rw_machine := m\<rparr>))"

definition stepInstallDpkg :: "'y recipe_env \<Rightarrow> string \<Rightarrow> artifact_map \<Rightarrow> 'y recipe_world \<Rightarrow> go_error option \<times> 'y recipe_world" where
  "stepInstallDpkg env artifact artifacts w =
     (if \<not> re_dpkg env then (Some (ErrMsg ''dpkg does not exist on system''), w)
      else (case map_of artifacts artifact of
              None \<Rightarrow> (Some (not_in_map artifact), w)
            | Some path \<Rightarrow> on_machine (DpkgInstall_cmd (re_tools env) path) w))"

definition stepInstallRpm :: "'y recipe_env \<Rightarrow> string \<Rightarrow> artifact_map \<Rightarrow> 'y recipe_world \<Rightarrow> go_error option \<times> 'y recipe_world" where
  "stepInstallRpm env artifact artifacts w =
     (if \<not> re_rpm env then (Some (ErrMsg ''rpm does not exist on system''), w)
      else (case map_of artifacts artifact of
              None \<Rightarrow> (Some (not_in_map artifact), w)
            | Some path \<Rightarrow> on_machine (RPMInstall (re_tools env) path) w))"

text \<open>\<open>err.(*exec.ExitError)\<close> is the constructor \<open>ErrExit\<close>.\<close>

definition recipe_executeCommand :: "'y recipe_env \<Rightarrow> string \<Rightarrow> string list \<Rightarrow> string \<Rightarrow> string list \<Rightarrow> int list
    \<Rightarrow> 'y recipe_world \<Rightarrow> go_error option \<times> 'y recipe_world" where
  "recipe_executeCommand env path args workDir runEnvs allowedExitCodes w =
     (case sys env (SExec path args workDir runEnvs) w of
        (Some (ErrExit code msg), w1) \<Rightarrow>
          if code \<in> set allowedExitCodes then (None, w1) else (Some (ErrExit code msg), w1)
      | (r, w1) \<Rightarrow> (r, w1))"

datatype exec_location = ExecArtifact string | ExecLocal string | ExecUnset

record exec_file_step =
  es_location :: exec_location
  es_args :: "string list"

definition stepExecFile :: "'y recipe_env \<Rightarrow> exec_file_step \<Rightarrow> artifact_map \<Rightarrow> string list \<Rightarrow> string \<Rightarrow> 'y recipe_world
    \<Rightarrow> go_error option \<times> 'y recipe_world" where
  "stepExecFile env step artifacts runEnvs stepDir w =
     (let artifact = (case es_location step of ExecArtifact a \<Rightarrow> a | _ \<Rightarrow> []);
          localPath = (case es_location step of ExecLocal p \<Rightarrow> p | _ \<Rightarrow> []) in
      if artifact \<noteq> []
      then (case map_of artifacts artifact of
              None \<Rightarrow> (Some (not_in_map artifact), w)
            | Some path \<Rightarrow>
                (case sys env (SChmod path 493) w of
                   (Some e, w1) \<Rightarrow>
                     (Some (ErrMsg (''error setting execute permissions on artifact '' @ artifact @ '': '' @ err_text e)), w1)
                 | (None, w1) \<Rightarrow> recipe_executeCommand env path (es_args step) stepDir runEnvs [0] w1))
      else if localPath \<noteq> [] then recipe_executeCommand env localPath (es_args step) stepDir runEnvs [0] w
      else (Some (ErrMsg (''can'' @ [CHR 0x27] @ ''t determine location type'')), w))"

datatype script_interpreter = SCRIPT_UNSPECIFIED | SCRIPT_SHELL | SCRIPT_POWERSHELL | SCRIPT_OTHER string

record script_step =
  ss_script :: string
  ss_codes :: "int list"
  ss_interpreter :: script_interpreter

definition stepRunScript :: "'y recipe_env \<Rightarrow> script_step \<Rightarrow> string list \<Rightarrow> string \<Rightarrow> 'y recipe_world
    \<Rightarrow> go_error option \<times> 'y recipe_world" where
  "stepRunScript env step runEnvs stepDir w =
     (let scriptPath = path_join [stepDir, ''recipe_script_source''] in
      case on_disk (AtomicWrite scriptPath (ss_script step) 493) w of
        (Some e, w1) \<Rightarrow> (Some e, w1)
      | (None, w1) \<Rightarrow>
          (case ss_interpreter step of
             SCRIPT_UNSPECIFIED \<Rightarrow> recipe_executeCommand env scriptPath [] stepDir runEnvs (ss_codes step) w1
           | SCRIPT_SHELL \<Rightarrow> recipe_executeCommand env ''/bin/sh'' [scriptPath] stepDir runEnvs (ss_codes step) w1
           | SCRIPT_POWERSHELL \<Rightarrow> (Some (ErrMsg ''interpreter can only be used on Windows systems''), w1)
           | SCRIPT_OTHER t \<Rightarrow> (Some (ErrMsg ''unsupported interpreter''), w1)))"

section \<open>installrecipe.go\<close>

datatype recipe_step =
    StepFileCopy copy_step
  | StepArchiveExtraction archive_step
  | StepMsiInstallation
  | StepFileExec exec_file_step
  | StepScriptRun script_step
  | StepDpkgInstallation string
  | StepRpmInstallation string
  | StepUnset

datatype desired_state = DESIRED_STATE_UNSPECIFIED | DESIRED_INSTALLED | DESIRED_REMOVED | DESIRED_UPDATED

record software_recipe =
  sr_name :: string
  sr_version :: string
  sr_artifacts :: "artifact list"
  sr_install :: "recipe_step list"
  sr_update :: "recipe_step list"
  sr_desired :: desired_state

definition createBaseDir :: "software_recipe \<Rightarrow> string \<Rightarrow> 'y recipe_world \<Rightarrow> string res \<times> 'y recipe_world" where
  "createBaseDir recipe runID w =
     (let name = (if sr_version recipe \<noteq> [] then sr_name recipe @ ''_'' @ sr_version recipe else sr_name recipe) in
      case on_disk (temp_node DirN ''/tmp'' (name @ ''_'' @ runID @ ''_'')) w of
        (Inl e, w1) \<Rightarrow> (Inl (ErrMsg (''failed to create working dir for recipe: '' @ quote (sr_name recipe) @ '' '' @ err_text e)), w1)
      | (Inr dir, w1) \<Rightarrow> (Inr dir, w1))"

text \<open>The \<open>switch\<close> of the loop: a step of no known type matches no case and leaves \<open>err\<close> nil.\<close>

fun run_recipe_step :: "'y recipe_env \<Rightarrow> recipe_step \<Rightarrow> artifact_map \<Rightarrow> string list \<Rightarrow> string \<Rightarrow> 'y recipe_world
    \<Rightarrow> string \<times> go_error option \<times> 'y recipe_world" where
  "run_recipe_step env (StepFileCopy s) artifacts runEnvs stepDir w = (''CopyFile'', stepCopyFile env s artifacts w)"
| "run_recipe_step env (StepArchiveExtraction s) artifacts runEnvs stepDir w = (''ExtractArchive'', stepExtractArchive env s artifacts w)"
| "run_recipe_step env StepMsiInstallation artifacts runEnvs stepDir w = (''InstallMsi'', stepInstallMsi w)"
| "run_recipe_step env (StepFileExec s) artifacts runEnvs stepDir w = (''ExecFile'', stepExecFile env s artifacts runEnvs stepDir w)"
| "run_recipe_step env (StepScriptRun s) artifacts runEnvs stepDir w = (''RunScript'', stepRunScript env s runEnvs stepDir w)"
| "run_recipe_step env (StepDpkgInstallation a) artifacts runEnvs stepDir w = (''InstallDpkg'', stepInstallDpkg env a artifacts w)"
| "run_recipe_step env (StepRpmInstallation a) artifacts runEnvs stepDir w = (''InstallRpm'', stepInstallRpm env a artifacts w)"
| "run_recipe_step env StepUnset artifacts runEnvs stepDir w = ([], None, w)"

definition two_digits :: "nat \<Rightarrow> string" where
  "two_digits i = (if i < 10 then ''0'' else []) @ show_nat i"

definition record_recipe :: "'y recipe_env \<Rightarrow> software_recipe \<Rightarrow> bool \<Rightarrow> recipe_db \<Rightarrow> 'y recipe_world
    \<Rightarrow> go_error option \<times> 'y recipe_world" where
  "record_recipe env recipe ok db w =
     (case on_disk (\<lambda>s. case addRecipe (re_marshal env) (re_order env) (re_seconds env (rw_state w))
             (sr_name recipe) (sr_version recipe) ok db s of (e, db1, s1) \<Rightarrow> (e, s1)) w of (e, w1) \<Rightarrow> (e, w1))"

fun run_steps :: "'y recipe_env \<Rightarrow> software_recipe \<Rightarrow> recipe_db \<Rightarrow> artifact_map \<Rightarrow> string list \<Rightarrow> string \<Rightarrow> nat
    \<Rightarrow> recipe_step list \<Rightarrow> 'y recipe_world \<Rightarrow> go_error option \<times> 'y recipe_world" where
  "run_steps env recipe db artifacts runEnvs runDir i [] w = record_recipe env recipe True db w"
| "run_steps env recipe db artifacts runEnvs runDir i (step # steps) w =
     (let stepDir = path_join [runDir, ''step'' @ two_digits i] in
      case on_disk (os_mkdir_all stepDir) w of
        (Inl e, w1) \<Rightarrow> (Some (ErrMsg (''failed to create recipe step dir '' @ quote stepDir @ '': '' @ err_text e)), w1)
      | (Inr _, w1) \<Rightarrow>
          (case run_recipe_step env step artifacts runEnvs stepDir w1 of
             (stepType, Some e, w2) \<Rightarrow>
               (case record_recipe env recipe False db w2 of
                  (_, w3) \<Rightarrow>
                    if stepType = [] then (Some (ErrMsg (''unknown step type for step '' @ show_nat i)), w3)
                    else (Some (ErrMsg (''error running step '' @ show_nat i @ '' ('' @ stepType @ ''): '' @ err_text e)), w3))
           | (stepType, None, w2) \<Rightarrow> run_steps env recipe db artifacts runEnvs runDir (Suc i) steps w2))"

definition recipe_envs :: "'y recipe_env \<Rightarrow> software_recipe \<Rightarrow> string \<Rightarrow> artifact_map \<Rightarrow> string list" where
  "recipe_envs env recipe runID artifacts =
     [''RECIPE_NAME='' @ sr_name recipe, ''RECIPE_VERSION='' @ sr_version recipe, ''RUNID='' @ runID]
     @ map (\<lambda>(k, p). k @ ''='' @ p) (re_env_order env artifacts)"

text \<open>Which steps are due: none when the recipe is skipped.\<close>

definition due_steps :: "recipe_db \<Rightarrow> software_recipe \<Rightarrow> recipe_step list option" where
  "due_steps db recipe =
     (case getRecipe db (sr_name recipe) of
        Some installed \<Rightarrow>
          if recipe_compare installed (sr_version recipe) \<and> sr_desired recipe = DESIRED_UPDATED
          then Some (sr_update recipe) else None
      | None \<Rightarrow> Some (sr_install recipe))"

definition run_in_dir :: "'y recipe_env \<Rightarrow> software_recipe \<Rightarrow> recipe_db \<Rightarrow> recipe_step list \<Rightarrow> string \<Rightarrow> string
    \<Rightarrow> 'y recipe_world \<Rightarrow> go_error option \<times> 'y recipe_world" where
  "run_in_dir env recipe db steps runID runDir w =
     (case fetchArtifacts env (sr_artifacts recipe) runDir [] w of
        (Inl e, w1) \<Rightarrow> (Some (ErrMsg (''failed to obtain artifacts: '' @ err_text e)), w1)
      | (Inr artifacts, w1) \<Rightarrow>
          run_steps env recipe db artifacts (recipe_envs env recipe runID artifacts) runDir 0 steps w1)"

definition InstallRecipe :: "'y recipe_env \<Rightarrow> software_recipe \<Rightarrow> 'y recipe_world \<Rightarrow> go_error option \<times> 'y recipe_world" where
  "InstallRecipe env recipe w =
     (case on_disk (newRecipeDB (re_unmarshal env)) w of
        (Inl e, w1) \<Rightarrow> (Some e, w1)
      | (Inr db, w1) \<Rightarrow>
          (case due_steps db recipe of
             None \<Rightarrow> (None, w1)
           | Some steps \<Rightarrow>
               (let runID = ''run_'' @ show_int (re_nanos env (rw_state w1)) in
                case createBaseDir recipe runID w1 of
                  (Inl e, w2) \<Rightarrow> (Some (ErrMsg (''failed to create base directory: '' @ err_text e)), w2)
                | (Inr runDir, w2) \<Rightarrow>
                    (case run_in_dir env recipe db steps runID runDir w2 of
                       (r, w3) \<Rightarrow> (r, snd (on_disk (os_remove_all runDir) w3))))))"

end
