(* ===== verification/GuestPolicies.thy ===== *)
theory GuestPolicies
  imports RecipeSteps OsPatch ResRepo OsInfo Retry
begin

text \<open>
  Guest policies, on Linux: the merge of the looked-up and the local policy
  (\<open>policies/local.go\<close>), the necessary changes (\<open>policies/changes.go\<close>), the repository files and
  the changes of each package manager (\<open>policies/apt.go\<close>, \<open>yum.go\<close>, \<open>zypper.go\<close>, \<open>googet.go\<close>), and
  their composition (\<open>policies/policies.go\<close>).

  \<^item> A pointer to a message that may be nil is an option: dereferencing \<open>None\<close> is a panic, a
    getter answers the default.
  \<^item> \<open>gp_env\<close> extends the environment of recipes with the HTTP answers and the OpenPGP library,
    \<open>uname\<close>, the floor of \<open>strconv.ParseFloat\<close>, the random draws and the sleep of \<open>RetryFunc\<close>,
    and the paths of the agent's configuration.
\<close>

section \<open>Policies\<close>

datatype gp_manager = MANAGER_UNSPECIFIED | MANAGER_ANY | MANAGER_APT | MANAGER_YUM | MANAGER_ZYPPER | MANAGER_GOO

record gp_package =
  gk_name :: string
  gk_state :: desired_state
  gk_manager :: gp_manager

record guest_policy =
  eg_packages :: "gp_package option list"
  eg_repos :: "repository option list"
  eg_recipes :: "software_recipe option list"

record local_config =
  lc_packages :: "gp_package option list"
  lc_repos :: "repository option list"
  lc_recipes :: "software_recipe option list"

definition empty_policy :: guest_policy where
  "empty_policy = \<lparr>eg_packages = [], eg_repos = [], eg_recipes = []\<rparr>"

text \<open>Dereferencing each pointer of a slice.\<close>

fun deref_all :: "'a option list \<Rightarrow> 'a list outcome" where
  "deref_all [] = Done []"
| "deref_all (None # xs) = Panic ''invalid memory address or nil pointer dereference''"
| "deref_all (Some x # xs) = obind (deref_all xs) (\<lambda>ys. Done (x # ys))"

section \<open>local.go\<close>

fun getID :: "repository \<Rightarrow> string" where
  "getID (RepoYum r) = ''yum-'' @ yr_id r"
| "getID (RepoZypper r) = ''zypper-'' @ yr_id r"
| "getID _ = []"

definition merge_lists :: "('a \<Rightarrow> bool) \<Rightarrow> ('a \<Rightarrow> string) \<Rightarrow> 'a option list \<Rightarrow> 'a option list \<Rightarrow> 'a option list outcome" where
  "merge_lists keyed key looked_up local =
     obind (deref_all looked_up) (\<lambda>es. obind (deref_all local) (\<lambda>ls.
       Done (looked_up @ map Some (filter (\<lambda>v. \<not> (keyed v \<and> key v \<in> set (map key (filter keyed es)))) ls))))"

definition mergeConfigs :: "local_config option \<Rightarrow> guest_policy option \<Rightarrow> guest_policy outcome" where
  "mergeConfigs local egp =
     (let e = (case egp of None \<Rightarrow> empty_policy | Some e \<Rightarrow> e) in
      case local of
        None \<Rightarrow> Done e
      | Some lc \<Rightarrow>
          obind (merge_lists (\<lambda>p. True) gk_name (eg_packages e) (lc_packages lc)) (\<lambda>ps.
          obind (merge_lists (\<lambda>r. getID r \<noteq> []) getID (eg_repos e) (lc_repos lc)) (\<lambda>rs.
          obind (merge_lists (\<lambda>r. True) sr_name (eg_recipes e) (lc_recipes lc)) (\<lambda>ss.
          Done \<lparr>eg_packages = ps, eg_repos = rs, eg_recipes = ss\<rparr>))))"

section \<open>changes.go\<close>

record pkg_changes =
  ch_install :: "string list"
  ch_upgrade :: "string list"
  ch_remove :: "string list"

definition necessary :: "string list \<Rightarrow> string list \<Rightarrow> string list \<Rightarrow> string list \<Rightarrow> string list \<Rightarrow> pkg_changes" where
  "necessary installed upgradable install remove update =
     \<lparr>ch_install = filter (\<lambda>p. p \<notin> set installed) install
         @ filter (\<lambda>p. p \<notin> set upgradable \<and> p \<notin> set installed) update,
      ch_upgrade = filter (\<lambda>p. p \<in> set upgradable) update,
      ch_remove = filter (\<lambda>p. p \<in> set installed) remove\<rparr>"

definition getNecessaryChanges :: "pkg_info list \<Rightarrow> pkg_info list \<Rightarrow> gp_package option list \<Rightarrow> gp_package option list
    \<Rightarrow> gp_package option list \<Rightarrow> pkg_changes outcome" where
  "getNecessaryChanges installedPkgs upgradablePkgs installPkgs removePkgs updatePkgs =
     obind (deref_all installPkgs) (\<lambda>is. obind (deref_all removePkgs) (\<lambda>rs. obind (deref_all updatePkgs) (\<lambda>us.
       Done (necessary (map pi_name installedPkgs) (map pi_name upgradablePkgs) (map gk_name is) (map gk_name rs) (map gk_name us)))))"

section \<open>Files\<close>

record gpg_entity =
  ge_fingerprint :: string
  ge_bytes :: string
  ge_error :: "go_error option"

record 'y gp_env = "'y recipe_env" +
  gp_googet :: bool
  gp_key_get :: "string \<Rightarrow> (int \<times> string res) res"
  gp_is_armored :: "string \<Rightarrow> bool"
  gp_armored_ring :: "string \<Rightarrow> gpg_entity list res"
  gp_ring :: "string \<Rightarrow> gpg_entity list res"
  gp_uname :: "utsname res"
  gp_parse_float :: "string \<Rightarrow> int option"
  gp_draws :: "nat \<Rightarrow> nat"
  gp_sleep :: "nat \<Rightarrow> fs \<times> 'y \<Rightarrow> fs \<times> 'y"
  gp_googet_path :: string
  gp_apt_path :: string
  gp_yum_path :: string
  gp_zypper_path :: string

text \<open>\<open>O_RDWR\<close>: a directory cannot be opened.\<close>

definition os_open_rw :: "string \<Rightarrow> fs \<Rightarrow> unit res \<times> fs" where
  "os_open_rw p = syscall (\<lambda>s. (case fs_nodes s p of
       None \<Rightarrow> Inl (ErrNotExist p)
     | Some DirN \<Rightarrow> Inl (ErrMsg (''open '' @ p @ '': is a directory''))
     | Some (FileN c m) \<Rightarrow> Inr (), s))"

definition writeIfChanged :: "(string \<Rightarrow> string) \<Rightarrow> string \<Rightarrow> string \<Rightarrow> fs \<Rightarrow> go_error option \<times> fs" where
  "writeIfChanged sha content path s =
     (case os_open_rw path s of
        (Inl (ErrNotExist p), s1) \<Rightarrow> AtomicWrite path content 420 s1
      | (Inl e, s1) \<Rightarrow> (Some e, s1)
      | (Inr _, s1) \<Rightarrow>
          (case os_read path s1 of
             (r, s2) \<Rightarrow>
               (let h1 = sha content; h2 = sha (case r of Inl e \<Rightarrow> [] | Inr c \<Rightarrow> c); s3 = snd (os_close s2) in
                if h1 = h2 then (None, s3) else AtomicWrite path content 420 s3)))"

section \<open>apt.go: keys and repositories\<close>

definition aptGPGFile :: string where
  "aptGPGFile = ''/etc/apt/trusted.gpg.d/osconfig_agent_managed.gpg''"

definition getAptGPGKey :: "'y gp_env \<Rightarrow> string \<Rightarrow> gpg_entity list res" where
  "getAptGPGKey env key =
     (case gp_key_get env key of
        Inl e \<Rightarrow> Inl e
      | Inr (contentLength, body) \<Rightarrow>
          if contentLength > 1024 * 1024 then Inl (ErrMsg (''key size of '' @ show_int contentLength @ '' too large''))
          else
            (case body of
               Inl e \<Rightarrow> Inl (ErrMsg (''can not read response body for key '' @ key @ '', err: '' @ err_text e))
             | Inr text \<Rightarrow> if gp_is_armored env text then gp_armored_ring env text else gp_ring env text))"

definition containsEntity :: "gpg_entity list \<Rightarrow> gpg_entity \<Rightarrow> bool" where
  "containsEntity es e \<longleftrightarrow> (\<exists>x \<in> set es. ge_fingerprint x = ge_fingerprint e)"

definition add_entity :: "gpg_entity list \<Rightarrow> gpg_entity \<Rightarrow> gpg_entity list" where
  "add_entity es e = (if containsEntity es e then es else es @ [e])"

definition add_key :: "'y gp_env \<Rightarrow> gpg_entity list \<Rightarrow> string \<Rightarrow> gpg_entity list" where
  "add_key env es key = (case getAptGPGKey env key of Inl e \<Rightarrow> es | Inr entities \<Rightarrow> foldl add_entity es entities)"

definition sort_strings :: "string list \<Rightarrow> string list" where
  "sort_strings xs = foldr insert_string xs []"

definition collect_keys :: "'y gp_env \<Rightarrow> apt_repo list \<Rightarrow> gpg_entity list" where
  "collect_keys env repos =
     foldl (add_key env) [] (sort_strings (filter (\<lambda>k. k \<noteq> []) (map ar_gpg_key repos)))"

text \<open>A version that does not parse counts as zero.\<close>

definition readInstanceOsInfo :: "'y gp_env \<Rightarrow> fs \<Rightarrow> (string \<times> int) res outcome \<times> fs" where
  "readInstanceOsInfo env s =
     (case os_get (gp_uname env) s of
        (r, s1) \<Rightarrow>
          (obind r (\<lambda>x. Done (case x of
             Inl e \<Rightarrow> Inl (ErrMsg (''error getting osinfo: '' @ err_text e))
           | Inr oi \<Rightarrow> Inr (oi_short oi, case gp_parse_float env (oi_version oi) of None \<Rightarrow> 0 | Some v \<Rightarrow> v))), s1))"

definition shouldUseSignedBy :: "'y gp_env \<Rightarrow> fs \<Rightarrow> bool outcome \<times> fs" where
  "shouldUseSignedBy env s =
     (case readInstanceOsInfo env s of
        (r, s1) \<Rightarrow>
          (obind r (\<lambda>x. Done (case x of
             Inl e \<Rightarrow> False
           | Inr (osShortName, osVersion) \<Rightarrow>
               (osShortName = ''debian'' \<and> osVersion \<ge> 12) \<or> (osShortName = ''ubuntu'' \<and> osVersion \<ge> 24))), s1))"

definition getAptRepoLine :: "apt_repo \<Rightarrow> bool \<Rightarrow> string" where
  "getAptRepoLine repo useSignedBy =
     (let line = newline @ archive_text (ar_archive repo);
          line = (if useSignedBy then line @ '' [signed-by='' @ aptGPGFile @ '']'' else line);
          line = line @ '' '' @ ar_uri repo @ '' '' @ ar_distribution repo in
      foldl (\<lambda>line c. line @ '' '' @ c) line (ar_components repo))"

definition write_keys :: "'y gp_env \<Rightarrow> gpg_entity list \<Rightarrow> fs \<Rightarrow> fs" where
  "write_keys env es s =
     (if es = [] then s else snd (writeIfChanged (rv_sha (re_files env)) (concat (map ge_bytes es)) aptGPGFile s))"

definition aptRepositories :: "'y gp_env \<Rightarrow> apt_repo list \<Rightarrow> string \<Rightarrow> fs \<Rightarrow> go_error option outcome \<times> fs" where
  "aptRepositories env repos repoFile s =
     (case shouldUseSignedBy env (write_keys env (collect_keys env repos) s) of
        (Panic p, s1) \<Rightarrow> (Panic p, s1)
      | (Done useSignedBy, s1) \<Rightarrow>
          (case writeIfChanged (rv_sha (re_files env))
                  (managed_header @ concat (map (\<lambda>repo. getAptRepoLine repo useSignedBy @ newline) repos)) repoFile s1 of
             (e, s2) \<Rightarrow> (Done e, s2)))"

section \<open>The other repository files\<close>

definition rpm_repo_text :: "yum_repo \<Rightarrow> string" where
  "rpm_repo_text repo =
     newline @ ''['' @ yr_id repo @ '']'' @ newline
     @ (if yr_display repo = [] then ''name='' @ yr_id repo @ newline else ''name='' @ yr_display repo @ newline)
     @ ''baseurl='' @ yr_base_url repo @ newline
     @ ''enabled=1'' @ newline @ ''gpgcheck=1'' @ newline
     @ gpg_lines (yr_gpg_keys repo)"

definition yumRepositories :: "'y gp_env \<Rightarrow> yum_repo list \<Rightarrow> string \<Rightarrow> fs \<Rightarrow> go_error option outcome \<times> fs" where
  "yumRepositories env repos repoFile s =
     (case writeIfChanged (rv_sha (re_files env)) (managed_header @ concat (map rpm_repo_text repos)) repoFile s of
        (e, s1) \<Rightarrow> (Done e, s1))"

definition zypperRepositories :: "'y gp_env \<Rightarrow> yum_repo list \<Rightarrow> string \<Rightarrow> fs \<Rightarrow> go_error option outcome \<times> fs" where
  "zypperRepositories env repos repoFile s =
     (case writeIfChanged (rv_sha (re_files env)) (managed_header @ concat (map rpm_repo_text repos)) repoFile s of
        (e, s1) \<Rightarrow> (Done e, s1))"

definition googetRepositories :: "'y gp_env \<Rightarrow> goo_repo list \<Rightarrow> string \<Rightarrow> fs \<Rightarrow> go_error option outcome \<times> fs" where
  "googetRepositories env repos repoFile s =
     (case writeIfChanged (rv_sha (re_files env))
             (managed_header @ concat (map (\<lambda>r. newline @ ''- name: '' @ gr_name r @ newline @ ''  url: '' @ gr_url r @ newline) repos))
             repoFile s of
        (e, s1) \<Rightarrow> (Done e, s1))"

section \<open>The changes of a package manager\<close>

type_synonym 'y gp_machine = "(fs \<times> 'y) machine"

text \<open>Both lists are asked for only when they are needed; \<open>updates\<close> may panic on what it parses.\<close>

definition plan_changes :: "('y gp_machine \<Rightarrow> pkg_info list res \<times> 'y gp_machine) \<Rightarrow> ('y gp_machine \<Rightarrow> pkg_info list res outcome \<times> 'y gp_machine)
    \<Rightarrow> gp_package option list \<Rightarrow> gp_package option list \<Rightarrow> gp_package option list \<Rightarrow> 'y gp_machine
    \<Rightarrow> pkg_changes res outcome \<times> 'y gp_machine" where
  "plan_changes list_installed list_updates ins rem upd m =
     (case (if ins \<noteq> [] \<or> upd \<noteq> [] \<or> rem \<noteq> [] then list_installed m else (Inr [], m)) of
        (Inl e, m1) \<Rightarrow> (Done (Inl e), m1)
      | (Inr installed, m1) \<Rightarrow>
          (case (if upd \<noteq> [] then list_updates m1 else (Done (Inr []), m1)) of
             (Panic p, m2) \<Rightarrow> (Panic p, m2)
           | (Done (Inl e), m2) \<Rightarrow> (Done (Inl e), m2)
           | (Done (Inr updates), m2) \<Rightarrow>
               (obind (getNecessaryChanges installed updates ins rem upd) (\<lambda>c. Done (Inr c)), m2)))"

text \<open>One of the three commands: nothing for a nil list, and the message of a failure.\<close>

definition change_step :: "string \<Rightarrow> (string list \<Rightarrow> 'y gp_machine \<Rightarrow> go_error option \<times> 'y gp_machine) \<Rightarrow> string list
    \<Rightarrow> string list \<times> 'y gp_machine \<Rightarrow> string list \<times> 'y gp_machine" where
  "change_step what f pkgs st =
     (if pkgs = [] then st
      else (case f pkgs (snd st) of
              (Some e, m1) \<Rightarrow> (fst st @ [what @ '': '' @ err_text e], m1)
            | (None, m1) \<Rightarrow> (fst st, m1)))"

definition join_errors :: "string list \<Rightarrow> go_error option" where
  "join_errors errs = (if errs = [] then None else Some (ErrMsg (join ('','' @ newline) errs)))"

definition apply_changes :: "(string list \<Rightarrow> 'y gp_machine \<Rightarrow> go_error option \<times> 'y gp_machine)
    \<Rightarrow> (string list \<Rightarrow> 'y gp_machine \<Rightarrow> go_error option \<times> 'y gp_machine)
    \<Rightarrow> (string list \<Rightarrow> 'y gp_machine \<Rightarrow> go_error option \<times> 'y gp_machine) \<Rightarrow> string
    \<Rightarrow> pkg_changes res outcome \<times> 'y gp_machine \<Rightarrow> go_error option outcome \<times> 'y gp_machine" where
  "apply_changes ins upg rem name st =
     (case st of
        (Panic p, m) \<Rightarrow> (Panic p, m)
      | (Done (Inl e), m) \<Rightarrow> (Done (Some e), m)
      | (Done (Inr c), m) \<Rightarrow>
          (case change_step (''error removing '' @ name @ '' packages'') rem (ch_remove c)
                  (change_step (''error upgrading '' @ name @ '' packages'') upg (ch_upgrade c)
                    (change_step (''error installing '' @ name @ '' packages'') ins (ch_install c) ([], m))) of
             (errs, m1) \<Rightarrow> (Done (join_errors errs), m1)))"

definition lift_done :: "('y gp_machine \<Rightarrow> 'a \<times> 'y gp_machine) \<Rightarrow> 'y gp_machine \<Rightarrow> 'a outcome \<times> 'y gp_machine" where
  "lift_done f m = (case f m of (r, m1) \<Rightarrow> (Done r, m1))"

definition yumChanges :: "'y gp_env \<Rightarrow> gp_package option list \<Rightarrow> gp_package option list \<Rightarrow> gp_package option list
    \<Rightarrow> 'y gp_machine \<Rightarrow> go_error option outcome \<times> 'y gp_machine" where
  "yumChanges env ins rem upd m =
     (let t = re_tools env in
      apply_changes (InstallYumPackages t) (InstallYumPackages t) (RemoveYumPackages t) ''yum''
        (plan_changes (InstalledRPMPackages t) (lift_done (YumUpdates t False False)) ins rem upd m))"

definition zypperChanges :: "'y gp_env \<Rightarrow> gp_package option list \<Rightarrow> gp_package option list \<Rightarrow> gp_package option list
    \<Rightarrow> 'y gp_machine \<Rightarrow> go_error option outcome \<times> 'y gp_machine" where
  "zypperChanges env ins rem upd m =
     (let t = re_tools env in
      apply_changes (InstallZypperPackages t) (InstallZypperPackages t) (RemoveZypperPackages t) ''zypper''
        (plan_changes (InstalledRPMPackages t) (lift_done (ZypperUpdates t)) ins rem upd m))"

definition googetChanges :: "'y gp_env \<Rightarrow> gp_package option list \<Rightarrow> gp_package option list \<Rightarrow> gp_package option list
    \<Rightarrow> 'y gp_machine \<Rightarrow> go_error option outcome \<times> 'y gp_machine" where
  "googetChanges env ins rem upd m =
     (let t = re_tools env in
      apply_changes (InstallGooGetPackages t) (InstallGooGetPackages t) (RemoveGooGetPackages t) ''googet''
        (plan_changes (InstalledGooGetPackages t) (lift_done (GooGetUpdates t)) ins rem upd m))"

text \<open>apt falls back to one package at a time; the error is then the list of those that fail.\<close>

fun one_by_one :: "(string list \<Rightarrow> 'y gp_machine \<Rightarrow> go_error option \<times> 'y gp_machine) \<Rightarrow> string \<Rightarrow> string list \<Rightarrow> 'y gp_machine
    \<Rightarrow> string list \<times> 'y gp_machine" where
  "one_by_one f what [] m = ([], m)"
| "one_by_one f what (p # ps) m =
     (case f [p] m of
        (e, m1) \<Rightarrow>
          (case one_by_one f what ps m1 of
             (errs, m2) \<Rightarrow>
               ((case e of None \<Rightarrow> errs
                 | Some err \<Rightarrow> (''Error '' @ what @ '' apt package: '' @ p @ ''. Error details: '' @ err_text err) # errs), m2)))"

definition with_fallback :: "(string list \<Rightarrow> 'y gp_machine \<Rightarrow> go_error option \<times> 'y gp_machine) \<Rightarrow> string \<Rightarrow> string list
    \<Rightarrow> 'y gp_machine \<Rightarrow> go_error option \<times> 'y gp_machine" where
  "with_fallback f what pkgs m =
     (case f pkgs m of
        (None, m1) \<Rightarrow> (None, m1)
      | (Some e, m1) \<Rightarrow>
          (case one_by_one f what pkgs m1 of
             (errs, m2) \<Rightarrow> (if errs = [] then None else Some (ErrMsg (join newline errs)), m2)))"

definition apt_install_updated :: "'y gp_env \<Rightarrow> string list \<Rightarrow> 'y gp_machine \<Rightarrow> go_error option \<times> 'y gp_machine" where
  "apt_install_updated env pkgs m =
     (let t = re_tools env in with_fallback (InstallAptPackages t) ''installing'' pkgs (snd (AptUpdate_cmd t m)))"

definition aptChanges :: "'y gp_env \<Rightarrow> gp_package option list \<Rightarrow> gp_package option list \<Rightarrow> gp_package option list
    \<Rightarrow> 'y gp_machine \<Rightarrow> go_error option outcome \<times> 'y gp_machine" where
  "aptChanges env ins rem upd m =
     (let t = re_tools env in
      apply_changes (apt_install_updated env) (InstallAptPackages t) (with_fallback (RemoveAptPackages t) ''removing'') ''apt''
        (plan_changes (InstalledDebPackages t) (AptUpdates t AptGetDistUpgrade False) ins rem upd m))"

section \<open>policies.go\<close>

datatype gp_action = ActInstall | ActRemove | ActUpdate

fun state_action :: "desired_state \<Rightarrow> gp_action" where
  "state_action DESIRED_INSTALLED = ActInstall"
| "state_action DESIRED_STATE_UNSPECIFIED = ActInstall"
| "state_action DESIRED_REMOVED = ActRemove"
| "state_action DESIRED_UPDATED = ActUpdate"

text \<open>The two getters, on a package that may be nil.\<close>

definition package_action :: "gp_package option \<Rightarrow> gp_action" where
  "package_action p = state_action (case p of None \<Rightarrow> DESIRED_STATE_UNSPECIFIED | Some k \<Rightarrow> gk_state k)"

definition package_managers :: "gp_package option \<Rightarrow> gp_manager list" where
  "package_managers p =
     (let m = (case p of None \<Rightarrow> MANAGER_UNSPECIFIED | Some k \<Rightarrow> gk_manager k) in
      if m \<in> {MANAGER_ANY, MANAGER_UNSPECIFIED} then [MANAGER_GOO, MANAGER_APT, MANAGER_YUM, MANAGER_ZYPPER] else [m])"

type_synonym package_lists = "gp_manager \<Rightarrow> gp_action \<Rightarrow> gp_package option list"

definition append_to :: "gp_action \<Rightarrow> gp_package option \<Rightarrow> package_lists \<Rightarrow> gp_manager \<Rightarrow> package_lists" where
  "append_to a p b m = b(m := (b m)(a := b m a @ [p]))"

definition add_package :: "package_lists \<Rightarrow> gp_package option \<Rightarrow> package_lists" where
  "add_package b p = foldl (append_to (package_action p) p) b (package_managers p)"

definition package_lists_of :: "gp_package option list \<Rightarrow> package_lists" where
  "package_lists_of ps = foldl add_package (\<lambda>m a. []) ps"

definition repo_lists :: "repository option list \<Rightarrow> goo_repo list \<times> apt_repo list \<times> yum_repo list \<times> yum_repo list" where
  "repo_lists rs =
     (List.map_filter (\<lambda>r. case r of Some (RepoGoo g) \<Rightarrow> Some g | _ \<Rightarrow> None) rs,
      List.map_filter (\<lambda>r. case r of Some (RepoApt a) \<Rightarrow> Some a | _ \<Rightarrow> None) rs,
      List.map_filter (\<lambda>r. case r of Some (RepoYum y) \<Rightarrow> Some y | _ \<Rightarrow> None) rs,
      List.map_filter (\<lambda>r. case r of Some (RepoZypper z) \<Rightarrow> Some z | _ \<Rightarrow> None) rs)"

definition gp_retrying :: "'y gp_env \<Rightarrow> ('y gp_machine \<Rightarrow> go_error option outcome \<times> 'y gp_machine) \<Rightarrow> 'y gp_machine
    \<Rightarrow> go_error option outcome \<times> 'y gp_machine" where
  "gp_retrying env f m =
     (case RetryFunc (gp_draws env) (\<lambda>n (m, p). (m\<lparr>mc_rest := gp_sleep env n (mc_rest m)\<rparr>, p)) 60 (caught f) (m, None) of
        (e, sleeps, m1, None) \<Rightarrow> (Done e, m1)
      | (e, sleeps, m1, Some p) \<Rightarrow> (Panic p, m1))"

definition on_files :: "(fs \<Rightarrow> 'a \<times> fs) \<Rightarrow> 'y gp_machine \<Rightarrow> 'a \<times> 'y gp_machine" where
  "on_files f m = (case f (fst (mc_rest m)) of (r, s) \<Rightarrow> (r, m\<lparr>mc_rest := (s, snd (mc_rest m))\<rparr>))"

text \<open>One manager: its repositories, then its changes; the errors are collected.\<close>

definition manager_section :: "'y gp_env \<Rightarrow> bool \<Rightarrow> string \<Rightarrow> (fs \<Rightarrow> go_error option outcome \<times> fs)
    \<Rightarrow> ('y gp_machine \<Rightarrow> go_error option outcome \<times> 'y gp_machine)
    \<Rightarrow> string list outcome \<times> 'y gp_machine \<Rightarrow> string list outcome \<times> 'y gp_machine" where
  "manager_section env present name repositories changes st =
     (case st of
        (Panic p, m) \<Rightarrow> (Panic p, m)
      | (Done errs, m) \<Rightarrow>
          if \<not> present then (Done errs, m)
          else
            (case on_files repositories m of
               (Panic p, m1) \<Rightarrow> (Panic p, m1)
             | (Done e1, m1) \<Rightarrow>
                 (case gp_retrying env changes m1 of
                    (Panic p, m2) \<Rightarrow> (Panic p, m2)
                  | (Done e2, m2) \<Rightarrow>
                      (Done (errs
                         @ (case e1 of None \<Rightarrow> [] | Some e \<Rightarrow> [''Error writing '' @ name @ '' repo file: '' @ err_text e])
                         @ (case e2 of None \<Rightarrow> [] | Some e \<Rightarrow> [''Error performing '' @ name @ '' changes: '' @ err_text e])), m2))))"

definition setConfigError :: "string list \<Rightarrow> go_error" where
  "setConfigError errs = ErrMsg (''error applying config:'' @ newline @ join ('','' @ newline) errs)"

definition setConfig :: "'y gp_env \<Rightarrow> guest_policy \<Rightarrow> 'y gp_machine \<Rightarrow> go_error option outcome \<times> 'y gp_machine" where
  "setConfig env egp m =
     (let t = re_tools env; b = package_lists_of (eg_packages egp) in
      case repo_lists (eg_repos egp) of
        (goo, apt, yums, zyppers) \<Rightarrow>
          (case manager_section env (tl_zypper t) ''zypper'' (zypperRepositories env zyppers (gp_zypper_path env))
                  (zypperChanges env (b MANAGER_ZYPPER ActInstall) (b MANAGER_ZYPPER ActRemove) (b MANAGER_ZYPPER ActUpdate))
               (manager_section env (tl_yum t) ''yum'' (yumRepositories env yums (gp_yum_path env))
                  (yumChanges env (b MANAGER_YUM ActInstall) (b MANAGER_YUM ActRemove) (b MANAGER_YUM ActUpdate))
               (manager_section env (tl_apt t) ''apt'' (aptRepositories env apt (gp_apt_path env))
                  (aptChanges env (b MANAGER_APT ActInstall) (b MANAGER_APT ActRemove) (b MANAGER_APT ActUpdate))
               (manager_section env (gp_googet env) ''googet'' (googetRepositories env goo (gp_googet_path env))
                  (googetChanges env (b MANAGER_GOO ActInstall) (b MANAGER_GOO ActRemove) (b MANAGER_GOO ActUpdate))
                  (Done [], m)))) of
             (Panic p, m1) \<Rightarrow> (Panic p, m1)
           | (Done errs, m1) \<Rightarrow>
               (Done (if errs = [] then None
                      else Some (setConfigError errs)), m1)))"

fun install_each :: "'y recipe_env \<Rightarrow> software_recipe option list \<Rightarrow> 'y recipe_world \<Rightarrow> string list \<times> 'y recipe_world" where
  "install_each env [] w = ([], w)"
| "install_each env (None # rs) w = install_each env rs w"
| "install_each env (Some r # rs) w =
     (case InstallRecipe env r w of
        (e, w1) \<Rightarrow>
          (case install_each env rs w1 of
             (errs, w2) \<Rightarrow> ((case e of None \<Rightarrow> errs | Some err \<Rightarrow> (''Error installing recipe: '' @ err_text err) # errs), w2)))"

definition installRecipesError :: "string list \<Rightarrow> go_error" where
  "installRecipesError errs = ErrMsg (''unable to install recipes:'' @ newline @ join ('','' @ newline) errs)"

definition installRecipes :: "'y recipe_env \<Rightarrow> guest_policy \<Rightarrow> 'y recipe_world \<Rightarrow> go_error option \<times> 'y recipe_world" where
  "installRecipes env egp w =
     (case install_each env (eg_recipes egp) w of
        (errs, w1) \<Rightarrow>
          (if errs = [] then None else Some (installRecipesError errs), w1))"

end
