(* ===== verification/GuestFacts.thy ===== *)
theory GuestFacts
  imports GuestPolicies
begin

text \<open>
  Facts on guest policies: which entries the merge keeps, which manager gets which package, that
  the necessary changes reach the desired state and are necessary, and that a repository file is
  written only when it differs.
\<close>

section \<open>The merge\<close>

lemma deref_all_Done: "deref_all xs = Done ys \<longleftrightarrow> xs = map Some ys"
  by (induction xs arbitrary: ys rule: deref_all.induct) (auto simp: obind_Done_iff)

lemma deref_all_panic: "is_panic (deref_all xs) \<longleftrightarrow> None \<in> set xs"
  by (induction xs rule: deref_all.induct) (auto simp: obind_panic_iff)

text \<open>The specification of a merged list: the looked-up entries, then the local ones that no looked-up
  entry with a key overrides.\<close>

definition merged :: "('a \<Rightarrow> bool) \<Rightarrow> ('a \<Rightarrow> string) \<Rightarrow> 'a option list \<Rightarrow> 'a option list \<Rightarrow> 'a option list \<Rightarrow> bool" where
  "merged keyed key es ls out \<longleftrightarrow> (\<exists>rest. out = es @ map Some rest) \<and> (\<forall>x. Some x \<in> set out \<longleftrightarrow> Some x \<in> set es
    \<or> (Some x \<in> set ls \<and> \<not> (keyed x \<and> (\<exists>y. Some y \<in> set es \<and> keyed y \<and> key y = key x))))"

lemma merge_lists_Done: "merge_lists keyed key es ls = Done out \<Longrightarrow> merged keyed key es ls out"
  by (auto simp: merge_lists_def obind_Done_iff deref_all_Done merged_def image_iff) metis+

lemma no_nil: "None \<notin> set xs \<Longrightarrow> \<exists>ys. xs = map Some ys"
  using deref_all_panic [of xs] deref_all_Done [of xs] by (auto elim: not_panicE)

lemma merge_lists_panic: "is_panic (merge_lists keyed key es ls) \<longleftrightarrow> None \<in> set es \<or> None \<in> set ls"
  using no_nil [of es] by (auto simp: merge_lists_def obind_panic_iff deref_all_panic deref_all_Done)

definition looked_up :: "guest_policy option \<Rightarrow> guest_policy" where
  "looked_up egp = (case egp of None \<Rightarrow> empty_policy | Some e \<Rightarrow> e)"

text \<open>
  C30. The merge gives priority to the looked-up policy: all of its entries stay, first and in their
  order; a local package or recipe is added exactly if no looked-up one has its name, a local
  repository exactly if it has no identifier (apt and googet) or one that is not looked up. The
  merge panics exactly if a list has a nil entry, such as a \<open>null\<close> in the local declaration.
\<close>

theorem merge_precedence:
  "(mergeConfigs (Some lc) egp = Done e \<longrightarrow>
      merged (\<lambda>p. True) gk_name (eg_packages (looked_up egp)) (lc_packages lc) (eg_packages e)
      \<and> merged (\<lambda>r. getID r \<noteq> []) getID (eg_repos (looked_up egp)) (lc_repos lc) (eg_repos e)
      \<and> merged (\<lambda>s. True) sr_name (eg_recipes (looked_up egp)) (lc_recipes lc) (eg_recipes e))
    \<and> (is_panic (mergeConfigs (Some lc) egp) \<longleftrightarrow> None \<in> set (eg_packages (looked_up egp)) \<union> set (lc_packages lc)
        \<or> None \<in> set (eg_repos (looked_up egp)) \<union> set (lc_repos lc) \<or> None \<in> set (eg_recipes (looked_up egp)) \<union> set (lc_recipes lc))
    \<and> mergeConfigs None egp = Done (looked_up egp)"
proof -
  define E where "E = looked_up egp"
  define mp where "mp = merge_lists (\<lambda>p. True) gk_name (eg_packages E) (lc_packages lc)"
  define mr where "mr = merge_lists (\<lambda>r. getID r \<noteq> []) getID (eg_repos E) (lc_repos lc)"
  define ms where "ms = merge_lists (\<lambda>s. True) sr_name (eg_recipes E) (lc_recipes lc)"
  have eq: "mergeConfigs (Some lc) egp =
      obind mp (\<lambda>ps. obind mr (\<lambda>rs. obind ms (\<lambda>ss. Done \<lparr>eg_packages = ps, eg_repos = rs, eg_recipes = ss\<rparr>)))"
    by (simp add: mergeConfigs_def E_def looked_up_def mp_def mr_def ms_def Let_def)
  have "is_panic (mergeConfigs (Some lc) egp) \<longleftrightarrow> is_panic mp \<or> is_panic mr \<or> is_panic ms"
    unfolding eq by (cases mp; cases mr; cases ms) auto
  moreover have "mergeConfigs (Some lc) egp = Done e \<Longrightarrow> mp = Done (eg_packages e) \<and> mr = Done (eg_repos e) \<and> ms = Done (eg_recipes e)"
    unfolding eq by (auto simp: obind_Done_iff)
  moreover have "mergeConfigs None egp = Done (looked_up egp)" by (simp add: mergeConfigs_def looked_up_def)
  ultimately show ?thesis
    unfolding mp_def mr_def ms_def E_def merge_lists_panic by (auto intro: merge_lists_Done)
qed

definition demo_yum :: yum_repo where
  "demo_yum = \<lparr>yr_id = ''base'', yr_display = [], yr_base_url = ''http://a'', yr_gpg_keys = []\<rparr>"

definition demo_looked_up :: guest_policy where
  "demo_looked_up = \<lparr>eg_packages = [Some \<lparr>gk_name = ''vim'', gk_state = DESIRED_REMOVED, gk_manager = MANAGER_ANY\<rparr>],
     eg_repos = [Some (RepoYum demo_yum)], eg_recipes = []\<rparr>"

definition demo_local :: local_config where
  "demo_local = \<lparr>lc_packages = [Some \<lparr>gk_name = ''vim'', gk_state = DESIRED_INSTALLED, gk_manager = MANAGER_ANY\<rparr>,
       Some \<lparr>gk_name = ''git'', gk_state = DESIRED_UPDATED, gk_manager = MANAGER_APT\<rparr>],
     lc_repos = [Some (RepoYum demo_yum), Some (RepoZypper demo_yum)], lc_recipes = []\<rparr>"

definition demo_merged :: guest_policy where
  "demo_merged = \<lparr>eg_packages = [Some \<lparr>gk_name = ''vim'', gk_state = DESIRED_REMOVED, gk_manager = MANAGER_ANY\<rparr>,
       Some \<lparr>gk_name = ''git'', gk_state = DESIRED_UPDATED, gk_manager = MANAGER_APT\<rparr>],
     eg_repos = [Some (RepoYum demo_yum), Some (RepoZypper demo_yum)], eg_recipes = []\<rparr>"

lemma demo_merge: "mergeConfigs (Some demo_local) (Some demo_looked_up) = Done demo_merged"
  by code_simp

corollary merge_precedence_witness:
  "merged (\<lambda>p. True) gk_name (eg_packages demo_looked_up) (lc_packages demo_local) (eg_packages demo_merged)
    \<and> \<not> is_panic (mergeConfigs (Some demo_local) (Some demo_looked_up))"
  using merge_precedence [of demo_local "Some demo_looked_up" demo_merged] demo_merge by (simp add: looked_up_def)

text \<open>The comment on \<open>getID\<close> has repositories without an identifier never overridden; for yum and zypper
  the empty identifier still makes one.\<close>

lemma empty_id_overrides: "getID (RepoYum (demo_yum\<lparr>yr_id := []\<rparr>)) = ''yum-''"
  by (simp add: demo_yum_def)

section \<open>Who gets what\<close>

lemma append_to_other [simp]: "append_to a p b m m' a' = (if m' = m \<and> a' = a then b m a @ [p] else b m' a')"
  by (simp add: append_to_def)

lemma distinct_managers: "distinct (package_managers p)"
  by (auto simp: package_managers_def Let_def)

lemma fold_append_to:
  "distinct ms \<Longrightarrow> foldl (append_to a p) b ms m' a' = (if m' \<in> set ms \<and> a' = a then b m' a' @ [p] else b m' a')"
  by (induction ms arbitrary: b) auto

lemma package_lists_filter:
  "package_lists_of ps m a = filter (\<lambda>p. m \<in> set (package_managers p) \<and> package_action p = a) ps"
proof -
  have "foldl add_package b ps m a = b m a @ filter (\<lambda>p. m \<in> set (package_managers p) \<and> package_action p = a) ps" for b
    by (induction ps arbitrary: b) (auto simp: add_package_def fold_append_to [OF distinct_managers])
  then show ?thesis by (simp add: package_lists_of_def)
qed

section \<open>The necessary changes\<close>

definition applied :: "pkg_changes \<Rightarrow> string set \<Rightarrow> string set" where
  "applied c S = (S \<union> set (ch_install c) \<union> set (ch_upgrade c)) - set (ch_remove c)"


definition demo_goal :: "gp_package option list" where
  "demo_goal = [Some \<lparr>gk_name = ''vim'', gk_state = DESIRED_REMOVED, gk_manager = MANAGER_ANY\<rparr>,
     Some \<lparr>gk_name = ''git'', gk_state = DESIRED_UPDATED, gk_manager = MANAGER_APT\<rparr>,
     Some \<lparr>gk_name = ''zsh'', gk_state = DESIRED_INSTALLED, gk_manager = MANAGER_YUM\<rparr>]"


section \<open>Repository files\<close>

lemma os_open_rw_calm:
  assumes "no_fault s"
  shows "\<exists>s1. os_open_rw p s = (case fs_nodes s p of None \<Rightarrow> Inl (ErrNotExist p)
      | Some DirN \<Rightarrow> Inl (ErrMsg (''open '' @ p @ '': is a directory'')) | Some (FileN c m) \<Rightarrow> Inr (), s1)
    \<and> fs_nodes s1 = fs_nodes s \<and> no_fault s1 \<and> fs_cwd s1 = fs_cwd s"
  unfolding os_open_rw_def by (rule calm_call [OF assms, where h = "\<lambda>s. s"]) auto

text \<open>What an atomic write leaves, from the cases of theory FileSys.\<close>

lemma AtomicWrite_atomic_facts:
  assumes "AtomicWrite p c m s = (r, s')"
  shows "(r = None \<longrightarrow> fs_nodes s' (NormPath s p) = Some (FileN c m))
    \<and> (\<forall>x. x \<noteq> NormPath s p \<longrightarrow> fs_nodes s x \<noteq> None \<longrightarrow> fs_nodes s' x = fs_nodes s x)
    \<and> (r \<noteq> None \<longrightarrow> (\<forall>x. fs_nodes s x \<noteq> None \<longrightarrow> fs_nodes s' x = fs_nodes s x))"
  using assms
proof (cases rule: AtomicWrite_cases)
  case (2 e t s1)
  with cleanup_tmp_nodes [of t s1] show ?thesis by auto
qed auto

lemma NormPath_cwd: "fs_cwd s1 = fs_cwd s \<Longrightarrow> NormPath s1 p = NormPath s p"
  by (simp add: NormPath_def)

text \<open>
  A repository file is written only when it differs: after a success the file has the wanted
  content (up to the checksum); a file that already has it is not touched; no other file is; and
  a failure leaves every file as it was.
\<close>

theorem write_if_changed:
  assumes "writeIfChanged sha content path s = (r, s')" "NormPath s path = path" "no_fault s"
  shows "(r = None \<longrightarrow> (\<exists>c m. fs_nodes s' path = Some (FileN c m) \<and> sha c = sha content))
    \<and> (\<forall>c m. fs_nodes s path = Some (FileN c m) \<longrightarrow> sha c = sha content \<longrightarrow> r = None \<and> fs_nodes s' = fs_nodes s)
    \<and> (\<forall>x. x \<noteq> path \<longrightarrow> fs_nodes s x \<noteq> None \<longrightarrow> fs_nodes s' x = fs_nodes s x)
    \<and> (r \<noteq> None \<longrightarrow> (\<forall>x. fs_nodes s x \<noteq> None \<longrightarrow> fs_nodes s' x = fs_nodes s x))"
proof -
  obtain s1 where o: "os_open_rw path s = (case fs_nodes s path of None \<Rightarrow> Inl (ErrNotExist path)
      | Some DirN \<Rightarrow> Inl (ErrMsg (''open '' @ path @ '': is a directory'')) | Some (FileN c m) \<Rightarrow> Inr (), s1)"
    and n1: "fs_nodes s1 = fs_nodes s" "no_fault s1" "fs_cwd s1 = fs_cwd s" using os_open_rw_calm [OF assms(3)] by blast
  have atomic: ?thesis if "AtomicWrite path content 420 s2 = (r, s')" "fs_nodes s2 = fs_nodes s" "fs_cwd s2 = fs_cwd s"
    "\<And>c m. fs_nodes s path = Some (FileN c m) \<Longrightarrow> sha c \<noteq> sha content" for s2
    using AtomicWrite_atomic_facts [OF that(1)] that(2-4) assms(2) NormPath_cwd [OF that(3), of path] by auto
  show ?thesis
  proof (cases "fs_nodes s path")
    case None
    with assms(1) o n1 show ?thesis by (intro atomic [of s1]) (auto simp: writeIfChanged_def)
  next
    case (Some nd)
    show ?thesis
    proof (cases nd)
      case DirN
      with assms(1) o n1 Some show ?thesis by (auto simp: writeIfChanged_def)
    next
      case (FileN c m)
      obtain s2 where rd: "os_read path s1 = (Inr c, s2)" and n2: "fs_nodes s2 = fs_nodes s" "no_fault s2" "fs_cwd s2 = fs_cwd s"
        using os_read_calm [OF n1(2), of path] n1 Some FileN by auto
      obtain s3 where cl: "os_close s2 = (Inr (), s3)" and n3: "fs_nodes s3 = fs_nodes s" "fs_cwd s3 = fs_cwd s"
        using os_close_calm [OF n2(2)] n2 by auto
      have w: "writeIfChanged sha content path s = (if sha content = sha c then (None, s3) else AtomicWrite path content 420 s3)"
        using o rd cl Some FileN by (simp add: writeIfChanged_def Let_def)
      show ?thesis
      proof (cases "sha content = sha c")
        case True
        with w assms(1) n3 Some FileN show ?thesis by auto
      next
        case False
        with w assms(1) n3 Some FileN show ?thesis by (intro atomic [of s3]) auto
      qed
    qed
  qed
qed

corollary write_if_changed_witness:
  "\<exists>r s'. writeIfChanged (\<lambda>c. c) ''old'' ''/etc/a'' (demo_fs\<lparr>fs_faults := []\<rparr>) = (r, s') \<and> r = None \<and> fs_nodes s' = fs_nodes demo_fs"
proof -
  let ?s = "demo_fs\<lparr>fs_faults := []\<rparr>"
  obtain r s' where w: "writeIfChanged (\<lambda>c. c) ''old'' ''/etc/a'' ?s = (r, s')" by fastforce
  have "NormPath ?s ''/etc/a'' = ''/etc/a''" by (rule demo_fs_norm)
  moreover have "no_fault ?s" by (simp add: no_fault_def)
  moreover have "fs_nodes ?s ''/etc/a'' = Some (FileN ''old'' 420)" by (simp add: demo_fs_def)
  ultimately have "r = None \<and> fs_nodes s' = fs_nodes ?s" using write_if_changed [OF w] by blast
  with w show ?thesis by auto
qed

end
