(* ===== verification/GuestRun.thy ===== *)
theory GuestRun
  imports GuestFacts AgentConfig
begin

text \<open>
  One run of the guest policies: \<open>LookupEffectiveGuestPolicies\<close> of
  \<open>agentendpoint/agentendpoint_beta.go\<close>, \<open>readLocalConfig\<close> of \<open>policies/local.go\<close> and \<open>run\<close> of
  \<open>policies/policies.go\<close>, which merges the two policies and applies the result.

  \<^item> \<open>guest_env\<close> adds the error of making the client, the call itself, the metadata server's
    answers, the expiry of a token, the clock and the JSON decoder of the local declaration, which
    delivers what it has read together with its error.
  \<^item> The errors of the parts are only logged: a run has no result, but it may panic.
\<close>

record 'y guest_env = "'y gp_env" +
  gu_client :: "go_error option"
  gu_fetch :: "fs \<times> 'y \<Rightarrow> string res \<times> fs \<times> 'y"
  gu_expiry :: "string \<Rightarrow> int res"
  gu_now :: int
  gu_lookup :: "string \<times> string \<times> string \<Rightarrow> string \<Rightarrow> fs \<times> 'y \<Rightarrow> guest_policy res \<times> fs \<times> 'y"
  gu_metadata :: "string res"
  gu_json :: "string \<Rightarrow> local_config \<times> go_error option"

record 'y guest_world =
  gw_recipes :: "'y recipe_world"
  gw_token :: id_token

text \<open>The retried call: its result is the variable that the closure assigns.\<close>

definition lookup_call :: "'y guest_env \<Rightarrow> string \<times> string \<times> string \<Rightarrow> string \<Rightarrow> (fs \<times> 'y) \<times> guest_policy option
    \<Rightarrow> go_error option \<times> (fs \<times> 'y) \<times> guest_policy option" where
  "lookup_call env req token st =
     (case gu_lookup env req token (fst st) of
        (Inl e, x) \<Rightarrow> (Some e, x, None)
      | (Inr res, x) \<Rightarrow> (None, x, Some res))"

definition LookupEffectiveGuestPolicies :: "'y guest_env \<Rightarrow> id_token \<Rightarrow> fs \<times> 'y
    \<Rightarrow> guest_policy res outcome \<times> id_token \<times> fs \<times> 'y" where
  "LookupEffectiveGuestPolicies env token st =
     (case os_get (gp_uname env) (fst st) of
        (Panic p, s) \<Rightarrow> (Panic p, token, s, snd st)
      | (Done (Inl e), s) \<Rightarrow> (Done (Inl e), token, s, snd st)
      | (Done (Inr info), s) \<Rightarrow>
          (case IDToken (gu_fetch env) (gu_expiry env) (gu_now env) token (s, snd st) of
             (Inl e, token1, st1) \<Rightarrow> (Done (Inl e), token1, st1)
           | (Inr raw, token1, st1) \<Rightarrow>
               (case RetryAPICall (gp_draws env) (\<lambda>n (x, r). (gp_sleep env n x, r)) 30
                       (lookup_call env (oi_short info, oi_version info, oi_arch info) raw) (st1, None) of
                  (Some e, sleeps, st2, r) \<Rightarrow>
                    (Done (Inl (ErrWrap ''error calling LookupEffectiveGuestPolicies'' e)), token1, st2)
                | (None, sleeps, st2, r) \<Rightarrow> (Done (Inr (case r of None \<Rightarrow> empty_policy | Some p \<Rightarrow> p)), token1, st2))))"

text \<open>A missing attribute is no configuration; a text that does not decode still gives what was read.\<close>

definition readLocalConfig :: "'y guest_env \<Rightarrow> local_config option \<times> go_error option" where
  "readLocalConfig env =
     (case gu_metadata env of
        Inl e \<Rightarrow> (None, None)
      | Inr s \<Rightarrow> (case gu_json env s of (lc, e) \<Rightarrow> (Some lc, e)))"

definition look_up :: "'y guest_env \<Rightarrow> 'y guest_world \<Rightarrow> guest_policy option outcome \<times> 'y guest_world" where
  "look_up env w =
     (case gu_client env of
        Some e \<Rightarrow> (Done None, w)
      | None \<Rightarrow>
          (case LookupEffectiveGuestPolicies env (gw_token w) (rw_state (gw_recipes w)) of
             (r, token, st) \<Rightarrow>
               (obind r (\<lambda>x. Done (case x of Inl e \<Rightarrow> None | Inr p \<Rightarrow> Some p)),
                \<lparr>gw_recipes = set_state st (gw_recipes w), gw_token = token\<rparr>)))"

definition apply_policy :: "'y guest_env \<Rightarrow> guest_policy \<Rightarrow> 'y guest_world \<Rightarrow> unit outcome \<times> 'y guest_world" where
  "apply_policy env effective w =
     (case on_machine (setConfig (gp_env.truncate env) effective) (gw_recipes w) of
        (Panic p, w1) \<Rightarrow> (Panic p, w\<lparr>gw_recipes := w1\<rparr>)
      | (Done e, w1) \<Rightarrow>
          (case installRecipes (recipe_env.truncate env) effective w1 of
             (e, w2) \<Rightarrow> (Done (), w\<lparr>gw_recipes := w2\<rparr>)))"

definition guest_run :: "'y guest_env \<Rightarrow> 'y guest_world \<Rightarrow> unit outcome \<times> 'y guest_world" where
  "guest_run env w =
     (case look_up env w of
        (Panic p, w1) \<Rightarrow> (Panic p, w1)
      | (Done resp, w1) \<Rightarrow>
          (case mergeConfigs (fst (readLocalConfig env)) resp of
             Panic p \<Rightarrow> (Panic p, w1)
           | Done effective \<Rightarrow> apply_policy env effective w1))"

text \<open>Without a client, or after a failed lookup, the local declaration alone is applied.\<close>

lemma lookup_failure_uses_local:
  assumes "look_up env w = (Done None, w1)" "readLocalConfig env = (Some lc, e)"
    and "None \<notin> set (lc_packages lc)" "None \<notin> set (lc_repos lc)" "None \<notin> set (lc_recipes lc)"
  shows "guest_run env w = apply_policy env \<lparr>eg_packages = lc_packages lc, eg_repos = lc_repos lc, eg_recipes = lc_recipes lc\<rparr> w1"
proof -
  obtain ps rs ss where "lc_packages lc = map Some ps" "lc_repos lc = map Some rs" "lc_recipes lc = map Some ss"
    using no_nil assms(3-5) by metis
  then have "mergeConfigs (Some lc) None = Done \<lparr>eg_packages = lc_packages lc, eg_repos = lc_repos lc, eg_recipes = lc_recipes lc\<rparr>"
    by (auto simp: mergeConfigs_def merge_lists_def empty_policy_def Let_def obind_Done_iff deref_all_Done)
  with assms(1,2) show ?thesis by (simp add: guest_run_def)
qed

text \<open>A failed lookup or a missing declaration is no error of the run: with neither, nothing is asked for.\<close>

lemma nothing_to_apply:
  assumes "look_up env w = (Done None, w1)" "gu_metadata env = Inl e"
  shows "guest_run env w = apply_policy env empty_policy w1"
  using assms by (simp add: guest_run_def readLocalConfig_def mergeConfigs_def)

end
