(* ===== verification/Inventory.thy ===== *)
theory Inventory
  imports PkgCmd OsInfo Retry "HOL-Library.Multiset" "HOL-Library.List_Lexorder"
begin

text \<open>
  The inventory: gathering it (\<open>inventory/inventory.go\<close>), posting it to the guest attributes
  (\<open>attributes/attributes.go\<close>), its two formats, its fingerprint and the report to the service
  (\<open>agentendpoint/inventory.go\<close>, and \<open>reportInventory\<close>, \<open>reportVMInventory\<close> of
  \<open>agentendpoint/agentendpoint.go\<close>).

  \<^item> \<open>all_packages\<close> adds the lists of other systems to the lists of theory PkgCmd. A time is a number of seconds
    that the argument \<open>iv_format\<close> prints, \<open>iv_parse\<close> reads and \<open>iv_civil\<close> splits; \<open>pi_location\<close>
    is \<open>PkgInfo.Location\<close>, which only the scalibr extractors set. Strings are valid UTF-8: otherwise \<open>structpb\<close> refuses a value.
  \<^item> \<open>inv_env\<close> holds the protobuf library (the text and the bytes of a message), SHA-256, JSON with gzip, and HTTP.
  \<^item> \<open>report_env\<close> holds the two calls of the service, whose response is its \<open>ReportFullInventory\<close>, the identity
    token and the draws and sleep of the retries. \<open>rp_log\<close> is a history variable: requests and answers.
\<close>

section \<open>The instance\<close>

record wua_package =
  wu_deployed :: int
  wu_title :: string
  wu_description :: string
  wu_support :: string
  wu_update_id :: string
  wu_categories :: "string list"
  wu_kb :: "string list"
  wu_urls :: "string list"
  wu_category_ids :: "string list"
  wu_revision :: int
  wu_purl :: string

record qfe_package =
  qf_caption :: string
  qf_description :: string
  qf_hotfix :: string
  qf_installed_on :: string
  qf_purl :: string

record windows_application =
  wa_name :: string
  wa_version :: string
  wa_date :: int
  wa_publisher :: string
  wa_help :: string
  wa_purl :: string

record all_packages = packages +
  ps_snap :: "pkg_info list"
  ps_googet :: "pkg_info list"
  ps_chocolatey :: "pkg_info list"
  ps_winget :: "pkg_info list"
  ps_wua :: "wua_package list"
  ps_qfe :: "qfe_package list"
  ps_apps :: "windows_application list"

text \<open>The lists of a Linux machine.\<close>

definition on_linux :: "packages \<Rightarrow> all_packages" where
  "on_linux ps = packages.extend ps \<lparr>ps_snap = [], ps_googet = [], ps_chocolatey = [], ps_winget = [], ps_wua = [], ps_qfe = [], ps_apps = []\<rparr>"

record instance_inventory =
  ii_os :: os_info
  ii_agent_version :: string
  ii_installed :: "all_packages option"
  ii_updates :: "all_packages option"
  ii_last_updated :: string

text \<open>A provider of packages, and the provider of the inventory, which holds one of each.\<close>

type_synonym 'x packages_provider = "'x machine \<Rightarrow> (all_packages \<times> go_error option) outcome \<times> 'x machine"

definition linux_packages :: "(packages \<times> go_error option) outcome \<times> 'x machine \<Rightarrow> (all_packages \<times> go_error option) outcome \<times> 'x machine" where
  "linux_packages r = (case r of (ps, m) \<Rightarrow> (obind ps (\<lambda>(p, e). Done (on_linux p, e)), m))"

record 'x inventory_provider =
  ip_os :: "os_info res"
  ip_updates :: "'x packages_provider"
  ip_installed :: "'x packages_provider"
  ip_clock :: "'x \<Rightarrow> string"

definition inventory_get :: "'x inventory_provider \<Rightarrow> string \<Rightarrow> 'x machine \<Rightarrow> instance_inventory outcome \<times> 'x machine" where
  "inventory_get p version m =
     (case ip_installed p m of
        (Panic x, m1) \<Rightarrow> (Panic x, m1)
      | (Done (installed, e1), m1) \<Rightarrow>
          (case ip_updates p m1 of
             (Panic x, m2) \<Rightarrow> (Panic x, m2)
           | (Done (updates, e2), m2) \<Rightarrow>
               (Done \<lparr>ii_os = provider_os (ip_os p), ii_agent_version = version, ii_installed = Some installed,
                  ii_updates = Some updates, ii_last_updated = ip_clock p (mc_rest m2)\<rparr>, m2)))"

section \<open>VmInventory\<close>

datatype meta_value = MString string | MNumber int | MList "meta_value list" | MStruct "(string \<times> meta_value) list"

record vm_item =
  vi_name :: string
  vi_type :: string
  vi_version :: string
  vi_purl :: string
  vi_location :: "string list"
  vi_meta :: "(string \<times> meta_value) list option"

record inv_os =
  io_hostname :: string
  io_long :: string
  io_short :: string
  io_version :: string
  io_arch :: string
  io_kernel_version :: string
  io_kernel_release :: string
  io_agent :: string

definition inv_os_of :: "instance_inventory \<Rightarrow> inv_os" where
  "inv_os_of st =
     (let os = ii_os st in
      \<lparr>io_hostname = oi_hostname os, io_long = oi_long os, io_short = oi_short os, io_version = oi_version os, io_arch = oi_arch os,
       io_kernel_version = oi_kernel_version os, io_kernel_release = oi_kernel_release os, io_agent = ii_agent_version st\<rparr>)"

definition dateTimeFormat :: string where
  "dateTimeFormat = ''2006-01-02 15:04:05 +0000 GMT''"

text \<open>The zero value of \<open>time.Time\<close>, the first of January of the year one.\<close>

definition zero_time :: int where
  "zero_time = - 62135596800"

text \<open>The packages of the older \<open>Inventory\<close> message.\<close>

record versioned_package =
  vp_name :: string
  vp_arch :: string
  vp_version :: string
  vp_source :: "(string \<times> string) option"

record wua_details =
  wd_title :: string
  wd_description :: string
  wd_categories :: "(string \<times> string) list"
  wd_kb :: "string list"
  wd_support :: string
  wd_urls :: "string list"
  wd_update_id :: string
  wd_revision :: int
  wd_deployed :: int

datatype software_package =
    AptPackage versioned_package
  | CosPackage versioned_package
  | GoogetPackage versioned_package
  | YumPackage versioned_package
  | ZypperPackage versioned_package
  | ZypperPatch string string string string
  | WuaPackage wua_details
  | QfePackage string string string int
  | WindowsApplication string string string "int \<times> int \<times> int" string

record inv_lib =
  iv_format :: "string \<Rightarrow> int \<Rightarrow> string"
  iv_parse :: "string \<Rightarrow> string \<Rightarrow> int option"
  iv_civil :: "int \<Rightarrow> int \<times> int \<times> int"
  iv_sha :: "string \<Rightarrow> string"
  iv_os_bytes :: "inv_os \<Rightarrow> string res"
  iv_item_text :: "vm_item \<Rightarrow> string"
  iv_package_text :: "software_package \<Rightarrow> string"

fun locationOrDefault :: "string list option \<Rightarrow> string list" where
  "locationOrDefault None = []"
| "locationOrDefault (Some l) = l"

definition pkgInfoToInventoryItem :: "pkg_info \<Rightarrow> vm_item" where
  "pkgInfoToInventoryItem p = \<lparr>vi_name = pi_name p, vi_type = pi_type p, vi_version = pi_version p, vi_purl = pi_purl p,
     vi_location = locationOrDefault (pi_location p), vi_meta = None\<rparr>"

definition aptToInventoryItem :: "pkg_info \<Rightarrow> vm_item" where
  "aptToInventoryItem p = \<lparr>vi_name = pi_name p, vi_type = pi_type p, vi_version = pi_version p, vi_purl = pi_purl p,
     vi_location = locationOrDefault (pi_location p), vi_meta = Some [(''SourceName'', MString (pi_source_name p)), (''SourceVersion'', MString (pi_source_version p))]\<rparr>"

definition debToInventoryItem :: "pkg_info \<Rightarrow> vm_item" where
  "debToInventoryItem p = \<lparr>vi_name = pi_name p, vi_type = pi_type p, vi_version = pi_version p, vi_purl = pi_purl p,
     vi_location = locationOrDefault (pi_location p), vi_meta = Some [(''SourceName'', MString (pi_source_name p)), (''SourceVersion'', MString (pi_source_version p))]\<rparr>"

definition googetToInventoryItem :: "pkg_info \<Rightarrow> vm_item" where
  "googetToInventoryItem p = \<lparr>vi_name = pi_name p, vi_type = pi_type p, vi_version = pi_version p, vi_purl = pi_purl p,
     vi_location = locationOrDefault (pi_location p), vi_meta = Some []\<rparr>"

definition yumToInventoryItem :: "pkg_info \<Rightarrow> vm_item" where
  "yumToInventoryItem p = \<lparr>vi_name = pi_name p, vi_type = pi_type p, vi_version = pi_version p, vi_purl = pi_purl p,
     vi_location = locationOrDefault (pi_location p), vi_meta = Some [(''SourceRPM'', MString (pi_source_name p))]\<rparr>"

definition zypperToInventoryItem :: "pkg_info \<Rightarrow> vm_item" where
  "zypperToInventoryItem p = \<lparr>vi_name = pi_name p, vi_type = pi_type p, vi_version = pi_version p, vi_purl = pi_purl p,
     vi_location = locationOrDefault (pi_location p), vi_meta = Some [(''SourceRPM'', MString (pi_source_name p))]\<rparr>"

definition rpmToInventoryItem :: "pkg_info \<Rightarrow> vm_item" where
  "rpmToInventoryItem p = \<lparr>vi_name = pi_name p, vi_type = pi_type p, vi_version = pi_version p, vi_purl = pi_purl p,
     vi_location = locationOrDefault (pi_location p), vi_meta = Some [(''SourceRPM'', MString (pi_source_name p))]\<rparr>"

definition cosToInventoryItem :: "pkg_info \<Rightarrow> vm_item" where
  "cosToInventoryItem p = \<lparr>vi_name = pi_name p, vi_type = pi_type p, vi_version = pi_version p, vi_purl = pi_purl p,
     vi_location = locationOrDefault (pi_location p), vi_meta = Some []\<rparr>"

definition snapToInventoryItem :: "pkg_info \<Rightarrow> vm_item" where
  "snapToInventoryItem p = \<lparr>vi_name = pi_name p, vi_type = pi_type p, vi_version = pi_version p, vi_purl = pi_purl p,
     vi_location = locationOrDefault (pi_location p), vi_meta = Some []\<rparr>"

definition zypperPatchToInventoryItem :: "zypper_patch \<Rightarrow> vm_item" where
  "zypperPatchToInventoryItem p = \<lparr>vi_name = zp_name p, vi_type = ''zypperPatch'', vi_version = [], vi_purl = zp_purl p, vi_location = [],
     vi_meta = Some [(''Category'', MString (zp_category p)), (''Severity'', MString (zp_severity p)), (''Summary'', MString (zp_summary p))]\<rparr>"

text \<open>One category per identifier; a name that is missing is an index out of range.\<close>

fun formatToCategoriesList :: "string list \<Rightarrow> string list \<Rightarrow> meta_value list outcome" where
  "formatToCategoriesList [] names = Done []"
| "formatToCategoriesList (i # is) [] = Panic ''index out of range''"
| "formatToCategoriesList (i # is) (n # ns) =
     obind (formatToCategoriesList is ns) (\<lambda>vs. Done (MStruct [(''Id'', MString i), (''Name'', MString n)] # vs))"

definition formatToStructList :: "string list \<Rightarrow> meta_value" where
  "formatToStructList xs = MList (map MString xs)"

definition wuaToInventoryItem :: "inv_lib \<Rightarrow> wua_package \<Rightarrow> vm_item outcome" where
  "wuaToInventoryItem lib p =
     obind (formatToCategoriesList (wu_category_ids p) (wu_categories p)) (\<lambda>cats.
       Done \<lparr>vi_name = wu_title p, vi_type = ''wuaPackage'', vi_version = wu_update_id p, vi_purl = wu_purl p, vi_location = [],
         vi_meta = Some [(''Description'', MString (wu_description p)), (''Categories'', MList cats),
           (''CategoryIds'', formatToStructList (wu_category_ids p)), (''KbArticleId'', formatToStructList (wu_kb p)),
           (''MoreInfoUrls'', formatToStructList (wu_urls p)), (''RevisionNumber'', MNumber (wu_revision p)),
           (''LastDeploymentChangeTime'', MString (iv_format lib dateTimeFormat (wu_deployed p))),
           (''SupportUrl'', MString (wu_support p))]\<rparr>)"

fun first_layout :: "inv_lib \<Rightarrow> string list \<Rightarrow> string \<Rightarrow> int option" where
  "first_layout lib [] s = None"
| "first_layout lib (l # ls) s = (case iv_parse lib l s of Some t \<Rightarrow> Some t | None \<Rightarrow> first_layout lib ls s)"

definition parseQFEDate :: "inv_lib \<Rightarrow> string \<Rightarrow> int" where
  "parseQFEDate lib s =
     (case first_layout lib [''1/2/2006'', ''20060102'', ''2006-01-02'', ''02-Jan-2006''] s of None \<Rightarrow> zero_time | Some t \<Rightarrow> t)"

definition qfeToInventoryItem :: "inv_lib \<Rightarrow> qfe_package \<Rightarrow> vm_item" where
  "qfeToInventoryItem lib p = \<lparr>vi_name = qf_caption p, vi_type = ''qfePackage'', vi_version = qf_hotfix p, vi_purl = qf_purl p, vi_location = [],
     vi_meta = Some [(''Description'', MString (qf_description p)),
       (''InstalledOn'', MString (iv_format lib dateTimeFormat (parseQFEDate lib (qf_installed_on p))))]\<rparr>"

definition windowsApplicationToInventoryItem :: "inv_lib \<Rightarrow> windows_application \<Rightarrow> vm_item" where
  "windowsApplicationToInventoryItem lib p = \<lparr>vi_name = wa_name p, vi_type = ''windowsApplication'', vi_version = wa_version p,
     vi_purl = wa_purl p, vi_location = [],
     vi_meta = Some [(''Publisher'', MString (wa_publisher p)), (''InstallDate'', MString (iv_format lib dateTimeFormat (wa_date p))),
       (''HelpLink'', MString (wa_help p))]\<rparr>"

fun omap :: "('a \<Rightarrow> 'b outcome) \<Rightarrow> 'a list \<Rightarrow> 'b list outcome" where
  "omap f [] = Done []"
| "omap f (x # xs) = obind (f x) (\<lambda>y. obind (omap f xs) (\<lambda>ys. Done (y # ys)))"

definition formatPkgsToInventoryItems :: "inv_lib \<Rightarrow> all_packages option \<Rightarrow> vm_item list outcome" where
  "formatPkgsToInventoryItems lib pkgs =
     (case pkgs of
        None \<Rightarrow> Done []
      | Some p \<Rightarrow>
          obind (omap (wuaToInventoryItem lib) (ps_wua p)) (\<lambda>wua. Done (
            map yumToInventoryItem (ps_yum p) @ map rpmToInventoryItem (ps_rpm p) @ map aptToInventoryItem (ps_apt p)
            @ map debToInventoryItem (ps_deb p) @ map zypperToInventoryItem (ps_zypper p)
            @ map zypperPatchToInventoryItem (ps_zypper_patches p) @ map cosToInventoryItem (ps_cos p)
            @ map snapToInventoryItem (ps_snap p) @ map googetToInventoryItem (ps_googet p)
            @ map pkgInfoToInventoryItem (ps_chocolatey p) @ map pkgInfoToInventoryItem (ps_winget p)
            @ wua @ map (qfeToInventoryItem lib) (ps_qfe p) @ map (windowsApplicationToInventoryItem lib) (ps_apps p))))"

record vm_inventory =
  vm_os :: inv_os
  vm_installed :: "vm_item list"
  vm_available :: "vm_item list"

definition formatVMInventory :: "inv_lib \<Rightarrow> instance_inventory \<Rightarrow> vm_inventory outcome" where
  "formatVMInventory lib st =
     obind (formatPkgsToInventoryItems lib (ii_installed st)) (\<lambda>ins.
     obind (formatPkgsToInventoryItems lib (ii_updates st)) (\<lambda>ups.
       Done \<lparr>vm_os = inv_os_of st, vm_installed = ins, vm_available = ups\<rparr>))"

section \<open>Inventory\<close>

definition source_of :: "pkg_info \<Rightarrow> (string \<times> string) option" where
  "source_of p = (if pi_source_name p \<noteq> [] then Some (pi_source_name p, pi_source_version p) else None)"

definition versioned :: "(string \<times> string) option \<Rightarrow> pkg_info \<Rightarrow> versioned_package" where
  "versioned src p = \<lparr>vp_name = pi_name p, vp_arch = pi_arch p, vp_version = pi_version p, vp_source = src\<rparr>"

definition formatAptPackage :: "pkg_info \<Rightarrow> software_package" where
  "formatAptPackage p = AptPackage (versioned (source_of p) p)"

definition formatCOSPackage :: "pkg_info \<Rightarrow> software_package" where
  "formatCOSPackage p = CosPackage (versioned None p)"

definition formatGooGetPackage :: "pkg_info \<Rightarrow> software_package" where
  "formatGooGetPackage p = GoogetPackage (versioned None p)"

definition formatYumPackage :: "pkg_info \<Rightarrow> software_package" where
  "formatYumPackage p = YumPackage (versioned (source_of p) p)"

definition formatZypperPackage :: "pkg_info \<Rightarrow> software_package" where
  "formatZypperPackage p = ZypperPackage (versioned None p)"

definition formatZypperPatch :: "zypper_patch \<Rightarrow> software_package" where
  "formatZypperPatch p = ZypperPatch (zp_name p) (zp_category p) (zp_severity p) (zp_summary p)"

text \<open>Here one identifier per category is looked up: the other way round than above.\<close>

fun wua_categories :: "string list \<Rightarrow> string list \<Rightarrow> (string \<times> string) list outcome" where
  "wua_categories [] ids = Done []"
| "wua_categories (n # ns) [] = Panic ''index out of range''"
| "wua_categories (n # ns) (i # is) = obind (wua_categories ns is) (\<lambda>cs. Done ((i, n) # cs))"

definition formatWUAPackage :: "wua_package \<Rightarrow> software_package outcome" where
  "formatWUAPackage p =
     obind (wua_categories (wu_categories p) (wu_category_ids p)) (\<lambda>cats.
       Done (WuaPackage \<lparr>wd_title = wu_title p, wd_description = wu_description p, wd_categories = cats, wd_kb = wu_kb p,
         wd_support = wu_support p, wd_urls = wu_urls p, wd_update_id = wu_update_id p, wd_revision = wu_revision p,
         wd_deployed = wu_deployed p\<rparr>))"

definition formatQFEPackage :: "inv_lib \<Rightarrow> qfe_package \<Rightarrow> software_package" where
  "formatQFEPackage lib p =
     QfePackage (qf_caption p) (qf_description p) (qf_hotfix p)
       (case iv_parse lib ''1/2/2006'' (qf_installed_on p) of None \<Rightarrow> zero_time | Some t \<Rightarrow> t)"

definition formatWindowsApplication :: "inv_lib \<Rightarrow> windows_application \<Rightarrow> software_package" where
  "formatWindowsApplication lib p =
     WindowsApplication (wa_name p) (wa_version p) (wa_publisher p)
       (if wa_date p = zero_time then (0, 0, 0) else iv_civil lib (wa_date p)) (wa_help p)"

definition formatPackages :: "bool \<Rightarrow> bool \<Rightarrow> inv_lib \<Rightarrow> all_packages option \<Rightarrow> software_package list outcome" where
  "formatPackages yumExists zypperExists lib pkgs =
     (case pkgs of
        None \<Rightarrow> Done []
      | Some p \<Rightarrow>
          obind (omap formatWUAPackage (ps_wua p)) (\<lambda>wua. Done (
            map formatAptPackage (ps_apt p) @ map formatAptPackage (ps_deb p) @ map formatGooGetPackage (ps_googet p)
            @ map formatYumPackage (ps_yum p) @ map formatZypperPackage (ps_zypper p)
            @ map (if yumExists \<or> \<not> zypperExists then formatYumPackage else formatZypperPackage) (ps_rpm p)
            @ map formatZypperPatch (ps_zypper_patches p) @ wua @ map (formatQFEPackage lib) (ps_qfe p)
            @ map formatCOSPackage (ps_cos p) @ map (formatWindowsApplication lib) (ps_apps p))))"

record legacy_inventory =
  li_os :: inv_os
  li_installed :: "software_package list"
  li_available :: "software_package list"

definition formatInventory :: "bool \<Rightarrow> bool \<Rightarrow> inv_lib \<Rightarrow> instance_inventory \<Rightarrow> legacy_inventory outcome" where
  "formatInventory yumExists zypperExists lib st =
     obind (formatPackages yumExists zypperExists lib (ii_installed st)) (\<lambda>ins.
     obind (formatPackages yumExists zypperExists lib (ii_updates st)) (\<lambda>ups.
       Done \<lparr>li_os = inv_os_of st, li_installed = ins, li_available = ups\<rparr>))"

section \<open>Fingerprints\<close>

definition sorted_text :: "string list \<Rightarrow> string" where
  "sorted_text xs = concat (foldr insert_string xs [])"

definition fingerprintForInventoryItem :: "inv_lib \<Rightarrow> vm_item \<Rightarrow> string" where
  "fingerprintForInventoryItem lib p = iv_item_text lib p"

definition fingerprintForPackage :: "inv_lib \<Rightarrow> software_package \<Rightarrow> string" where
  "fingerprintForPackage lib p =
     (case p of
        WuaPackage w \<Rightarrow> wd_title w @ ''-'' @ wd_update_id w @ ''-'' @ show_int (wd_revision w)
      | _ \<Rightarrow> iv_package_text lib p)"

definition computeStableFingerprint :: "inv_lib \<Rightarrow> legacy_inventory \<Rightarrow> string res" where
  "computeStableFingerprint lib i =
     (case iv_os_bytes lib (li_os i) of
        Inl e \<Rightarrow> Inl e
      | Inr b \<Rightarrow> Inr (iv_sha lib (b @ sorted_text (map (fingerprintForPackage lib) (li_installed i)
                                  @ map (fingerprintForPackage lib) (li_available i)))))"

definition computeStableFingerprintVMInventory :: "inv_lib \<Rightarrow> vm_inventory \<Rightarrow> string res" where
  "computeStableFingerprintVMInventory lib i =
     (case iv_os_bytes lib (vm_os i) of
        Inl e \<Rightarrow> Inl e
      | Inr b \<Rightarrow> Inr (iv_sha lib (b @ sorted_text (map (fingerprintForInventoryItem lib) (vm_installed i)
                                  @ map (fingerprintForInventoryItem lib) (vm_available i)))))"

section \<open>The report\<close>

datatype report_request =
    VmRequest string "vm_inventory option" string
  | LegacyRequest string "legacy_inventory option" string

record 'x report_env =
  rp_lib :: inv_lib
  rp_token :: "'x \<Rightarrow> string res \<times> 'x"
  rp_call :: "report_request \<Rightarrow> 'x \<Rightarrow> bool res \<times> 'x"
  rp_draws :: "nat \<Rightarrow> nat"
  rp_sleep :: "nat \<Rightarrow> 'x \<Rightarrow> 'x"

record 'x report_world =
  rp_rest :: 'x
  rp_log :: "(report_request \<times> bool res) list"

text \<open>Token, checksum, call: what both calls share. \<open>mk\<close> gets the checksum and the token.\<close>

definition send_report :: "'x report_env \<Rightarrow> string res \<Rightarrow> (string \<Rightarrow> string \<Rightarrow> report_request) \<Rightarrow> 'x report_world
    \<Rightarrow> bool res \<times> 'x report_world" where
  "send_report env checksum mk w =
     (case rp_token env (rp_rest w) of
        (Inl e, x) \<Rightarrow> (Inl e, w\<lparr>rp_rest := x\<rparr>)
      | (Inr token, x) \<Rightarrow>
          (case checksum of
             Inl e \<Rightarrow> (Inl (ErrWrap ''unable to compute hash, err'' e), w\<lparr>rp_rest := x\<rparr>)
           | Inr digest \<Rightarrow>
               (case rp_call env (mk digest token) x of
                  (r, x1) \<Rightarrow> (r, w\<lparr>rp_rest := x1, rp_log := rp_log w @ [(mk digest token, r)]\<rparr>))))"

definition reportInventory :: "'x report_env \<Rightarrow> legacy_inventory \<Rightarrow> bool \<Rightarrow> 'x report_world \<Rightarrow> bool res \<times> 'x report_world" where
  "reportInventory env li full w =
     send_report env (computeStableFingerprint (rp_lib env) li) (\<lambda>c t. LegacyRequest c (if full then Some li else None) t) w"

definition reportVMInventory :: "'x report_env \<Rightarrow> vm_inventory \<Rightarrow> bool \<Rightarrow> 'x report_world \<Rightarrow> bool res \<times> 'x report_world" where
  "reportVMInventory env vm full w =
     send_report env (computeStableFingerprintVMInventory (rp_lib env) vm) (\<lambda>c t. VmRequest c (if full then Some vm else None) t) w"

definition shouldFallbackToLegacyAPI :: "go_error \<Rightarrow> bool" where
  "shouldFallbackToLegacyAPI e = (case status_of e of Some (c, m) \<Rightarrow> c = FailedPrecondition | None \<Rightarrow> False)"

text \<open>
  The closure \<open>f\<close> with its two captured responses: a call that fails leaves nil there, and the
  legacy one keeps its value when it is not called.
\<close>

type_synonym 'x report_state = "'x report_world \<times> bool option \<times> bool option"

definition answer_of :: "bool res \<Rightarrow> bool option" where
  "answer_of r = (case r of Inl e \<Rightarrow> None | Inr b \<Rightarrow> Some b)"

definition error_of :: "bool res \<Rightarrow> go_error option" where
  "error_of r = (case r of Inl e \<Rightarrow> Some e | Inr b \<Rightarrow> None)"

definition report_attempt :: "'x report_env \<Rightarrow> vm_inventory \<Rightarrow> legacy_inventory \<Rightarrow> bool \<Rightarrow> 'x report_state
    \<Rightarrow> go_error option \<times> 'x report_state" where
  "report_attempt env vm li full st =
     (case st of (w, rv, rl) \<Rightarrow>
        (case reportVMInventory env vm full w of
           (r, w1) \<Rightarrow>
             if (case r of Inl e \<Rightarrow> shouldFallbackToLegacyAPI e | Inr b \<Rightarrow> False)
             then (case reportInventory env li full w1 of
                     (r2, w2) \<Rightarrow> (error_of r2, w2, answer_of r, answer_of r2))
             else (error_of r, w1, answer_of r, rl)))"

definition shouldReportFullInventory :: "bool option \<Rightarrow> bool option \<Rightarrow> bool" where
  "shouldReportFullInventory rv rl \<longleftrightarrow> rv = Some True \<or> rl = Some True"

definition report_round :: "'x report_env \<Rightarrow> vm_inventory \<Rightarrow> legacy_inventory \<Rightarrow> bool \<Rightarrow> 'x report_state
    \<Rightarrow> go_error option \<times> nat list \<times> 'x report_state" where
  "report_round env vm li full st =
     RetryAPICall (rp_draws env) (\<lambda>n (w, r). (w\<lparr>rp_rest := rp_sleep env n (rp_rest w)\<rparr>, r)) apiRetrySec
       (report_attempt env vm li full) st"

definition report_inventories :: "'x report_env \<Rightarrow> vm_inventory \<Rightarrow> legacy_inventory \<Rightarrow> 'x report_world \<Rightarrow> 'x report_world" where
  "report_inventories env vm li w =
     (case report_round env vm li False (w, None, None) of
        (Some e, sleeps, w1, rs) \<Rightarrow> w1
      | (None, sleeps, w1, rv, rl) \<Rightarrow>
          if shouldReportFullInventory rv rl
          then (case report_round env vm li True (w1, rv, rl) of (e, sleeps, w2, rs) \<Rightarrow> w2)
          else w1)"

definition report :: "bool \<Rightarrow> bool \<Rightarrow> 'x report_env \<Rightarrow> instance_inventory \<Rightarrow> 'x report_world \<Rightarrow> 'x report_world outcome" where
  "report yumExists zypperExists env st w =
     obind (formatInventory yumExists zypperExists (rp_lib env) st) (\<lambda>li.
     obind (formatVMInventory (rp_lib env) st) (\<lambda>vm. Done (report_inventories env vm li w)))"

section \<open>Guest attributes\<close>

record 'x attr_env =
  at_put :: "string \<Rightarrow> string \<Rightarrow> 'x \<Rightarrow> (nat \<times> string \<times> string res) res \<times> 'x"
  at_compress :: "all_packages \<Rightarrow> string res"

definition PostAttribute :: "'x attr_env \<Rightarrow> string \<Rightarrow> string \<Rightarrow> 'x \<Rightarrow> go_error option \<times> 'x" where
  "PostAttribute env url value x =
     (case at_put env url value x of
        (Inl e, x1) \<Rightarrow> (Some e, x1)
      | (Inr (code, status, body), x1) \<Rightarrow>
          (if code \<noteq> 200
           then Some (ErrMsg (''received status code '' @ quote status @ '' for request '' @ [CHR 0x22] @ ''PUT '' @ url @ [CHR 0x22]
                   @ (case body of Inl e \<Rightarrow> [] | Inr b \<Rightarrow> [CHR 0x0A] @ '' Error response: '' @ b)))
           else None, x1))"

definition PostAttributeCompressed :: "'x attr_env \<Rightarrow> string \<Rightarrow> all_packages \<Rightarrow> 'x \<Rightarrow> go_error option \<times> 'x" where
  "PostAttributeCompressed env url body x =
     (case at_compress env body of Inl e \<Rightarrow> (Some e, x) | Inr text \<Rightarrow> PostAttribute env url text x)"

text \<open>The fields in the order of the struct; a nil pointer has no kind and is not posted.\<close>

datatype inventory_field = FieldText string | FieldPackages "all_packages option"

definition inventory_fields :: "instance_inventory \<Rightarrow> (string \<times> inventory_field) list" where
  "inventory_fields st =
     (let os = ii_os st in
      [(''Hostname'', FieldText (oi_hostname os)), (''LongName'', FieldText (oi_long os)), (''ShortName'', FieldText (oi_short os)),
       (''Version'', FieldText (oi_version os)), (''Architecture'', FieldText (oi_arch os)),
       (''KernelVersion'', FieldText (oi_kernel_version os)), (''KernelRelease'', FieldText (oi_kernel_release os)),
       (''OSConfigAgentVersion'', FieldText (ii_agent_version st)), (''InstalledPackages'', FieldPackages (ii_installed st)),
       (''PackageUpdates'', FieldPackages (ii_updates st)), (''LastUpdated'', FieldText (ii_last_updated st))])"

fun post_field :: "'x attr_env \<Rightarrow> string \<Rightarrow> string \<times> inventory_field \<Rightarrow> 'x \<Rightarrow> 'x" where
  "post_field env url (name, FieldText t) x = snd (PostAttribute env (url @ ''/'' @ name) t x)"
| "post_field env url (name, FieldPackages None) x = x"
| "post_field env url (name, FieldPackages (Some p)) x = snd (PostAttributeCompressed env (url @ ''/'' @ name) p x)"

definition write_inventory :: "'x attr_env \<Rightarrow> string \<Rightarrow> instance_inventory \<Rightarrow> 'x \<Rightarrow> 'x" where
  "write_inventory env url st x = foldl (\<lambda>x f. post_field env url f x) x (inventory_fields st)"

text \<open>\<open>ReportInventory\<close>, with the two settings of the configuration that guard the attributes.\<close>

definition ReportInventory :: "bool \<Rightarrow> bool \<Rightarrow> string \<Rightarrow> bool \<Rightarrow> bool \<Rightarrow> 'x attr_env \<Rightarrow> 'x report_env
    \<Rightarrow> ('x report_world \<Rightarrow> instance_inventory outcome \<times> 'x report_world) \<Rightarrow> 'x report_world \<Rightarrow> 'x report_world outcome" where
  "ReportInventory guestAttributes disableWrite url yumExists zypperExists attrs env get w =
     (case get w of
        (Panic p, w1) \<Rightarrow> Panic p
      | (Done st, w1) \<Rightarrow>
          (let w2 = (if guestAttributes \<and> \<not> disableWrite then w1\<lparr>rp_rest := write_inventory attrs url st (rp_rest w1)\<rparr> else w1) in
           report yumExists zypperExists env st w2))"

end
