(* ===== verification/InventoryFacts.thy ===== *)
theory InventoryFacts
  imports Inventory
begin

text \<open>
  Facts on the inventory: its fingerprint does not depend on the order in which packages are
  listed, and the whole inventory is sent only when the service asks for it, with the older call
  only after the newer one was refused.
\<close>

section \<open>Fingerprints\<close>

definition byte_key :: "string \<Rightarrow> nat list" where
  "byte_key = map of_char"

lemma byte_key_inj: "byte_key x = byte_key y \<longleftrightarrow> x = y"
  by (simp add: byte_key_def inj_map_eq_map [OF inj_of_char])

lemma insert_string_insort: "insert_string x ys = insort_key byte_key x ys"
proof (induction ys)
  case (Cons y ys)
  have "lexordp (<) (byte_key y) (byte_key x) \<longleftrightarrow> byte_key y < byte_key x"
    by (simp add: List.lexordp_def list_less_def)
  with Cons show ?case by (simp add: byte_key_def not_le [symmetric])
qed simp

lemma insort_byte_comm: "insort_key byte_key x (insort_key byte_key y zs) = insort_key byte_key y (insort_key byte_key x zs)"
  using byte_key_inj [of x y] by (cases "x = y") (auto intro: insort_key_left_comm)

lemma sorted_text_mset:
  assumes "mset xs = mset ys"
  shows "sorted_text xs = sorted_text ys"
proof -
  have "foldr (insort_key byte_key) xs [] = foldr (insort_key byte_key) ys []"
    using assms
  proof (induction xs arbitrary: ys)
    case (Cons x xs)
    from Cons.prems obtain as bs where ys: "ys = as @ x # bs" by (metis list.set_intros(1) mset_eq_setD split_list)
    with Cons.prems have "mset xs = mset (as @ bs)" by simp
    with Cons.IH have "foldr (insort_key byte_key) xs [] = foldr (insort_key byte_key) (as @ bs) []" by blast
    moreover have "insort_key byte_key x (foldr (insort_key byte_key) as zs) = foldr (insort_key byte_key) as (insort_key byte_key x zs)" for zs
      by (induction as) (simp_all add: insort_byte_comm)
    ultimately show ?case by (simp add: ys)
  qed simp
  moreover have "insert_string = insort_key byte_key" by (intro ext) (rule insert_string_insort)
  ultimately show ?thesis by (simp add: sorted_text_def)
qed

lemma sorted_text_map:
  assumes "mset (xs @ ys) = mset (xs' @ ys')"
  shows "sorted_text (map f xs @ map f ys) = sorted_text (map f xs' @ map f ys')"
  by (rule sorted_text_mset) (metis assms map_append mset_map)

text \<open>
  C32. The fingerprints are stable: two inventories with the same operating system and the same
  packages, listed in any order, have the same checksum, in both formats. The hypothesis is about
  the packages of both lists together, so the checksum does not even tell an installed package
  from an available one.
\<close>

theorem fingerprint_stable:
  assumes "mset (vm_installed v @ vm_available v) = mset (vm_installed v' @ vm_available v')" "vm_os v = vm_os v'"
    and "mset (li_installed i @ li_available i) = mset (li_installed i' @ li_available i')" "li_os i = li_os i'"
  shows "computeStableFingerprintVMInventory lib v = computeStableFingerprintVMInventory lib v'
    \<and> computeStableFingerprint lib i = computeStableFingerprint lib i'"
  unfolding computeStableFingerprintVMInventory_def computeStableFingerprint_def assms(2,4)
    sorted_text_map [OF assms(1)] sorted_text_map [OF assms(3)] by simp

definition plain_lib :: inv_lib where
  "plain_lib = \<lparr>iv_format = (\<lambda>l t. []), iv_parse = (\<lambda>l s. None), iv_civil = (\<lambda>t. (1970, 1, 1)), iv_sha = id,
     iv_os_bytes = (\<lambda>os. Inr (io_hostname os)), iv_item_text = vi_name, iv_package_text = (\<lambda>p. case p of AptPackage v \<Rightarrow> vp_name v | _ \<Rightarrow> [])\<rparr>"

definition plain_os :: inv_os where
  "plain_os = \<lparr>io_hostname = ''h'', io_long = [], io_short = [], io_version = [], io_arch = [], io_kernel_version = [],
     io_kernel_release = [], io_agent = []\<rparr>"

definition named_item :: "string \<Rightarrow> vm_item" where
  "named_item n = \<lparr>vi_name = n, vi_type = [], vi_version = [], vi_purl = [], vi_location = [], vi_meta = None\<rparr>"

definition named_apt :: "string \<Rightarrow> software_package" where
  "named_apt n = AptPackage \<lparr>vp_name = n, vp_arch = [], vp_version = [], vp_source = None\<rparr>"

text \<open>Listed in another order, and with one package available instead of installed.\<close>

corollary fingerprint_stable_witness:
  "computeStableFingerprintVMInventory plain_lib
      \<lparr>vm_os = plain_os, vm_installed = [named_item ''b'', named_item ''a''], vm_available = [named_item ''c'']\<rparr>
    = computeStableFingerprintVMInventory plain_lib
      \<lparr>vm_os = plain_os, vm_installed = [named_item ''a''], vm_available = [named_item ''c'', named_item ''b'']\<rparr>
  \<and> computeStableFingerprint plain_lib \<lparr>li_os = plain_os, li_installed = [named_apt ''b'', named_apt ''a''], li_available = []\<rparr>
    = computeStableFingerprint plain_lib \<lparr>li_os = plain_os, li_installed = [named_apt ''a''], li_available = [named_apt ''b'']\<rparr>"
  by (rule fingerprint_stable) simp_all

section \<open>The report\<close>

lemma world_at_inv:
  assumes "\<And>w. I w \<Longrightarrow> I (snd (f w))" "\<And>n w. I w \<Longrightarrow> I (sleep n w)"
  shows "I w \<Longrightarrow> I (world_at f sleep sl w)"
  using assms by (induction sl arbitrary: w) auto

text \<open>An invariant of the calls and the sleeps holds at the end; a success is the success of the last call.\<close>

lemma RetryAPICall_inv:
  assumes "RetryAPICall draws sleep mx f w = (r, sl, w')" "I w"
    and "\<And>w. I w \<Longrightarrow> I (snd (f w))" "\<And>n w. I w \<Longrightarrow> I (sleep n w)"
  shows "I w'" "r = None \<Longrightarrow> \<exists>w0. I w0 \<and> f w0 = (None, w')"
proof -
  let ?w = "world_at f sleep sl w"
  have I: "I ?w" using world_at_inv [of I f sleep] assms(2-4) by blast
  from assms(1) have t: "r = api_result (fst (f ?w))" "w' = snd (f ?w)"
    using retry_api_trace [of draws sleep mx f 0 0 w r sl w'] by (simp_all add: RetryAPICall_def)
  with I assms(3) show "I w'" by simp
  show "\<exists>w0. I w0 \<and> f w0 = (None, w')" if "r = None"
  proof -
    have "fst (f ?w) = None" using that t(1) by (auto simp: api_result_def split: option.splits if_splits)
    with t(2) I show ?thesis by (intro exI [of _ ?w]) (metis prod.collapse)
  qed
qed

text \<open>What a request carries, and whether an older call comes right after a refused newer one.\<close>

fun carries :: "report_request \<Rightarrow> bool" where
  "carries (VmRequest c v t) \<longleftrightarrow> v \<noteq> None"
| "carries (LegacyRequest c i t) \<longleftrightarrow> i \<noteq> None"

fun is_legacy :: "report_request \<Rightarrow> bool" where
  "is_legacy (VmRequest c v t) = False"
| "is_legacy (LegacyRequest c i t) = True"

definition refused :: "bool res \<Rightarrow> bool" where
  "refused r \<longleftrightarrow> (\<exists>e m. r = Inl e \<and> status_of e = Some (FailedPrecondition, m))"

definition legacy_after_refusal :: "(report_request \<times> bool res) list \<Rightarrow> bool" where
  "legacy_after_refusal log \<longleftrightarrow> (\<forall>k < length log. is_legacy (fst (log ! k)) \<longrightarrow>
     0 < k \<and> \<not> is_legacy (fst (log ! (k - 1))) \<and> refused (snd (log ! (k - 1))))"

lemma legacy_append:
  assumes "legacy_after_refusal xs" "legacy_after_refusal ys"
  shows "legacy_after_refusal (xs @ ys)"
  unfolding legacy_after_refusal_def
proof (intro allI impI)
  fix k assume k: "k < length (xs @ ys)" "is_legacy (fst ((xs @ ys) ! k))"
  show "0 < k \<and> \<not> is_legacy (fst ((xs @ ys) ! (k - 1))) \<and> refused (snd ((xs @ ys) ! (k - 1)))"
  proof (cases "k < length xs")
    case True
    with k assms(1) have "0 < k \<and> \<not> is_legacy (fst (xs ! (k - 1))) \<and> refused (snd (xs ! (k - 1)))"
      by (auto simp: legacy_after_refusal_def nth_append)
    with True show ?thesis by (simp add: nth_append) linarith
  next
    case False
    define j where "j = k - length xs"
    have kj: "k = length xs + j" using False by (simp add: j_def)
    with k assms(2) have "0 < j \<and> \<not> is_legacy (fst (ys ! (j - 1))) \<and> refused (snd (ys ! (j - 1)))"
      by (auto simp: legacy_after_refusal_def nth_append)
    then show ?thesis unfolding kj by (auto simp: nth_append)
  qed
qed

lemma legacy_pair:
  "legacy_after_refusal []" "legacy_after_refusal [(VmRequest c v t, r)]"
  "refused r \<Longrightarrow> legacy_after_refusal [(VmRequest c v t, r), (LegacyRequest c' i t', r')]"
  by (auto simp: legacy_after_refusal_def less_Suc_eq nth_Cons split: nat.splits)

text \<open>The invariant of a round: what its requests carry, their order, and where the captured responses come from.\<close>

definition round_inv :: "(report_request \<times> bool res) list \<Rightarrow> (report_request \<times> bool res) list \<Rightarrow> bool \<Rightarrow> 'x report_state \<Rightarrow> bool" where
  "round_inv base past full st \<longleftrightarrow> (case st of (w, rv, rl) \<Rightarrow>
     \<exists>new. rp_log w = base @ new \<and> (\<forall>(q, r) \<in> set new. carries q = full) \<and> legacy_after_refusal new
       \<and> (shouldReportFullInventory rv rl \<longrightarrow> (\<exists>q. (q, Inr True) \<in> set (past @ new))))"

text \<open>The errors of the metadata server and of the protobuf encoder are no gRPC statuses.\<close>

definition plain_errors :: "'x report_env \<Rightarrow> bool" where
  "plain_errors env \<longleftrightarrow> (\<forall>x e x1. rp_token env x = (Inl e, x1) \<longrightarrow> status_of e = None)
     \<and> (\<forall>os e. iv_os_bytes (rp_lib env) os = Inl e \<longrightarrow> status_of e = None)"

lemma status_of_wrap: "status_of (ErrWrap m e) = status_of e"
  by (simp add: status_of_def)

lemma send_report_cases:
  assumes "send_report env checksum mk w = (r, w')" "plain_errors env" "\<And>e. checksum = Inl e \<Longrightarrow> status_of e = None"
  obtains e where "r = Inl e" "status_of e = None" "rp_log w' = rp_log w"
  | c t where "rp_log w' = rp_log w @ [(mk c t, r)]"
proof (cases "rp_token env (rp_rest w)")
  case (Pair tok x)
  show thesis
  proof (cases tok)
    case (Inl e)
    with Pair assms(2) have "status_of e = None" unfolding plain_errors_def by blast
    with assms(1) Pair Inl show thesis by (intro that(1)) (auto simp: send_report_def)
  next
    case (Inr t)
    with assms(1,3) Pair show thesis
      by (cases checksum) (auto simp: send_report_def status_of_wrap split: prod.splits intro: that)
  qed
qed

lemma reportVMInventory_log:
  assumes "reportVMInventory env vm full w = (r, w')" "plain_errors env"
  shows "\<exists>new. rp_log w' = rp_log w @ new \<and> (new = [] \<and> (\<exists>e. r = Inl e \<and> status_of e = None)
    \<or> (\<exists>c t. new = [(VmRequest c (if full then Some vm else None) t, r)]))"
proof -
  have "computeStableFingerprintVMInventory (rp_lib env) vm = Inl e \<Longrightarrow> status_of e = None" for e
    using assms(2) by (auto simp: computeStableFingerprintVMInventory_def plain_errors_def split: sum.splits)
  then show ?thesis
    using send_report_cases [OF assms(1) [unfolded reportVMInventory_def] assms(2)] by (metis append_Nil2)
qed

lemma reportInventory_log:
  assumes "reportInventory env li full w = (r, w')" "plain_errors env"
  shows "\<exists>new. rp_log w' = rp_log w @ new \<and> (new = [] \<and> (\<exists>e. r = Inl e \<and> status_of e = None)
    \<or> (\<exists>c t. new = [(LegacyRequest c (if full then Some li else None) t, r)]))"
proof -
  have "computeStableFingerprint (rp_lib env) li = Inl e \<Longrightarrow> status_of e = None" for e
    using assms(2) by (auto simp: computeStableFingerprint_def plain_errors_def split: sum.splits)
  then show ?thesis
    using send_report_cases [OF assms(1) [unfolded reportInventory_def] assms(2)] by (metis append_Nil2)
qed

text \<open>One attempt adds nothing, a newer call, or a refused newer call and the older one.\<close>

lemma report_attempt_log:
  assumes "report_attempt env vm li full (w, rv, rl) = (e, w', rv', rl')" "plain_errors env"
  shows "\<exists>new. rp_log w' = rp_log w @ new \<and> (\<forall>(q, r) \<in> set new. carries q = full) \<and> legacy_after_refusal new
    \<and> (rv' = Some True \<longrightarrow> (\<exists>q. (q, Inr True) \<in> set new)) \<and> (rl' = Some True \<longrightarrow> rl = Some True \<or> (\<exists>q. (q, Inr True) \<in> set new))"
proof -
  obtain r w1 where v: "reportVMInventory env vm full w = (r, w1)" by fastforce
  from reportVMInventory_log [OF this assms(2)] obtain n1 where n1: "rp_log w1 = rp_log w @ n1"
    "n1 = [] \<and> (\<exists>e. r = Inl e \<and> status_of e = None) \<or> (\<exists>c t. n1 = [(VmRequest c (if full then Some vm else None) t, r)])" by blast
  show ?thesis
  proof (cases "\<exists>e. r = Inl e \<and> shouldFallbackToLegacyAPI e")
    case False
    then have "rv' = answer_of r" "rl' = rl" "w' = w1"
      using v assms(1) by (auto simp: report_attempt_def split: sum.splits)
    then show ?thesis using n1 by (intro exI [of _ n1]) (auto simp: legacy_pair answer_of_def split: sum.splits if_splits)
  next
    case True
    then obtain x where x: "r = Inl x" "shouldFallbackToLegacyAPI x" by blast
    then have ref: "refused r" and st: "status_of x \<noteq> None"
      by (auto simp: shouldFallbackToLegacyAPI_def refused_def split: option.splits prod.splits)
    with n1(2) x(1) obtain c t where c: "n1 = [(VmRequest c (if full then Some vm else None) t, r)]" by auto
    obtain r2 w2 where l: "reportInventory env li full w1 = (r2, w2)" by fastforce
    from reportInventory_log [OF this assms(2)] obtain n2 where n2: "rp_log w2 = rp_log w1 @ n2"
      "n2 = [] \<and> (\<exists>e. r2 = Inl e \<and> status_of e = None) \<or> (\<exists>c t. n2 = [(LegacyRequest c (if full then Some li else None) t, r2)])" by blast
    have "rv' = answer_of r" "rl' = answer_of r2" "w' = w2" using v assms(1) x l by (auto simp: report_attempt_def)
    then show ?thesis using n1(1) n2 c ref x(1)
      by (intro exI [of _ "n1 @ n2"]) (auto simp: legacy_pair answer_of_def split: sum.splits if_splits)
  qed
qed

lemma report_attempt_inv:
  assumes "round_inv base past full st" "plain_errors env"
  shows "round_inv base past full (snd (report_attempt env vm li full st))"
proof -
  obtain w rv rl where st: "st = (w, rv, rl)" by (cases st)
  with assms(1) obtain new where new: "rp_log w = base @ new" "\<forall>(q, r) \<in> set new. carries q = full" "legacy_after_refusal new"
    "shouldReportFullInventory rv rl \<longrightarrow> (\<exists>q. (q, Inr True) \<in> set (past @ new))" by (auto simp: round_inv_def)
  obtain e w' rv' rl' where att: "report_attempt env vm li full (w, rv, rl) = (e, w', rv', rl')" by (metis prod_cases4)
  from report_attempt_log [OF att assms(2)] obtain n1 where n1: "rp_log w' = rp_log w @ n1" "\<forall>(q, r) \<in> set n1. carries q = full"
    "legacy_after_refusal n1" "rv' = Some True \<longrightarrow> (\<exists>q. (q, Inr True) \<in> set n1)"
    "rl' = Some True \<longrightarrow> rl = Some True \<or> (\<exists>q. (q, Inr True) \<in> set n1)" by blast
  have "shouldReportFullInventory rv' rl' \<longrightarrow> (\<exists>q. (q, Inr True) \<in> set (past @ new @ n1))"
    using new(4) n1(4,5) by (auto simp: shouldReportFullInventory_def)
  moreover have "\<forall>(q, r) \<in> set (new @ n1). carries q = full" using new(2) n1(2) by auto
  ultimately show ?thesis
    using new(1) n1(1) legacy_append [OF new(3) n1(3)] unfolding st att round_inv_def by (auto intro!: exI [of _ "new @ n1"])
qed

lemma report_round_inv:
  assumes "report_round env vm li full st = (r, sl, st')" "round_inv base past full st" "plain_errors env"
  shows "round_inv base past full st'"
proof -
  have "round_inv base past full ((\<lambda>n (w, r). (w\<lparr>rp_rest := rp_sleep env n (rp_rest w)\<rparr>, r)) n s)" if "round_inv base past full s" for n s
    using that by (auto simp: round_inv_def split: prod.splits)
  with RetryAPICall_inv(1) [OF assms(1) [unfolded report_round_def], of "round_inv base past full"] assms(2,3) report_attempt_inv
  show ?thesis by blast
qed

text \<open>
  C33. The report asks first: all requests of the first round carry only the checksum; whole inventories are
  sent only afterwards, and only if the service had answered one of those requests with the wish for a full report; and the older
  call is made only right after a newer one that was answered with \<open>FailedPrecondition\<close>. The
  hypothesis says that the token and the encoder do not fail with a gRPC status.
\<close>

theorem report_asks_first:
  assumes "plain_errors env"
  shows "\<exists>first second. rp_log (report_inventories env vm li w) = rp_log w @ first @ second
    \<and> (\<forall>(q, r) \<in> set first. \<not> carries q) \<and> (\<forall>(q, r) \<in> set second. carries q)
    \<and> (second \<noteq> [] \<longrightarrow> (\<exists>q. (q, Inr True) \<in> set first)) \<and> legacy_after_refusal (first @ second)"
proof -
  obtain e sl w1 rv rl where 1: "report_round env vm li False (w, None, None) = (e, sl, w1, rv, rl)" by (metis prod_cases5)
  have "round_inv (rp_log w) [] False (w, None, None)"
    by (auto simp: round_inv_def legacy_pair shouldReportFullInventory_def)
  from report_round_inv [OF 1 this assms] obtain a where a: "rp_log w1 = rp_log w @ a" "\<forall>(q, r) \<in> set a. \<not> carries q"
    "legacy_after_refusal a" "shouldReportFullInventory rv rl \<longrightarrow> (\<exists>q. (q, Inr True) \<in> set a)" by (auto simp: round_inv_def)
  show ?thesis
  proof (cases "e = None \<and> shouldReportFullInventory rv rl")
    case False
    then have "report_inventories env vm li w = w1" using 1 by (auto simp: report_inventories_def split: option.splits)
    with a show ?thesis by (intro exI [of _ a] exI [of _ "[]"]) auto
  next
    case True
    obtain e2 sl2 w2 rv2 rl2 where 2: "report_round env vm li True (w1, rv, rl) = (e2, sl2, w2, rv2, rl2)" by (metis prod_cases5)
    have "round_inv (rp_log w1) a True (w1, rv, rl)" using a(4) by (auto simp: round_inv_def legacy_pair)
    from report_round_inv [OF 2 this assms] obtain b where b: "rp_log w2 = rp_log w1 @ b" "\<forall>(q, r) \<in> set b. carries q"
      "legacy_after_refusal b" by (auto simp: round_inv_def)
    have "report_inventories env vm li w = w2" using 1 2 True by (simp add: report_inventories_def)
    with a b True legacy_append [OF a(3) b(3)] show ?thesis by (intro exI [of _ a] exI [of _ b]) auto
  qed
qed

text \<open>A service that refuses the newer call and asks for the full report.\<close>

definition asking_env :: "unit report_env" where
  "asking_env = \<lparr>rp_lib = plain_lib, rp_token = (\<lambda>x. (Inr ''t'', x)),
     rp_call = (\<lambda>q x. (if is_legacy q then Inr (\<not> carries q) else Inl (ErrStatus FailedPrecondition []), x)),
     rp_draws = (\<lambda>n. 0), rp_sleep = (\<lambda>n x. x)\<rparr>"

definition no_vm :: vm_inventory where
  "no_vm = \<lparr>vm_os = plain_os, vm_installed = [], vm_available = []\<rparr>"

definition no_li :: legacy_inventory where
  "no_li = \<lparr>li_os = plain_os, li_installed = [], li_available = []\<rparr>"

lemma asking_env_plain: "plain_errors asking_env"
  by (simp add: plain_errors_def asking_env_def plain_lib_def)

lemma asking_env_log:
  "map (\<lambda>q. (is_legacy (fst q), carries (fst q))) (rp_log (report_inventories asking_env no_vm no_li \<lparr>rp_rest = (), rp_log = []\<rparr>))
     = [(False, False), (True, False), (False, True), (True, True)]"
  by code_simp

corollary report_asks_first_witness:
  "\<exists>first second. rp_log (report_inventories asking_env no_vm no_li \<lparr>rp_rest = (), rp_log = []\<rparr>) = first @ second
    \<and> list_all (\<lambda>(q, r). \<not> carries q) first \<and> list_all (\<lambda>(q, r). carries q) second
    \<and> second \<noteq> [] \<and> (\<exists>q. (q, Inr True) \<in> set first) \<and> legacy_after_refusal (first @ second)"
proof -
  obtain first second where
    a: "rp_log (report_inventories asking_env no_vm no_li \<lparr>rp_rest = (), rp_log = []\<rparr>) = first @ second"
    "\<forall>(q, r) \<in> set first. \<not> carries q" "\<forall>(q, r) \<in> set second. carries q"
    "second \<noteq> [] \<longrightarrow> (\<exists>q. (q, Inr True) \<in> set first)" "legacy_after_refusal (first @ second)"
    using report_asks_first [OF asking_env_plain, of no_vm no_li "\<lparr>rp_rest = (), rp_log = []\<rparr>"] by auto
  have "second \<noteq> []"
  proof
    assume "second = []"
    with a(1) asking_env_log have "map (\<lambda>q. (is_legacy (fst q), carries (fst q))) first = [(False, False), (True, False), (False, True), (True, True)]"
      by simp
    then have "(True, True) \<in> set (map (\<lambda>q. (is_legacy (fst q), carries (fst q))) first)" by simp
    with a(2) show False by auto
  qed
  with a show ?thesis unfolding list_all_iff by blast
qed

end
