(* ===== verification/RecipeFacts.thy ===== *)
theory RecipeFacts
  imports RecipeSteps "HOL-Library.Countable"
begin

text \<open>
  Facts on software recipes: an archive is extracted only below its destination, an archive that
  conflicts with existing files or escapes is refused before anything is changed, and a recipe
  that was installed is not installed again.
\<close>

section \<open>Paths below a directory\<close>

lemma split_on_trailing: "split_on c (s @ [c]) = split_on c s @ [[]]"
  by (induction s) (auto split: list.splits)

definition inside :: "string \<Rightarrow> string \<Rightarrow> bool" where
  "inside d p \<longleftrightarrow> prefix (clean_comps True d) (clean_comps True p)"

lemma strip_common_split: "strip_common xs ys = (xs', ys') \<Longrightarrow> \<exists>zs. xs = zs @ xs' \<and> ys = zs @ ys'"
proof (induction xs ys rule: strip_common.induct)
  case (1 a as b bs)
  show ?case
  proof (cases "a = b")
    case True
    with 1 obtain zs where "as = zs @ xs' \<and> bs = zs @ ys'" by auto
    with True show ?thesis by (intro exI [of _ "a # zs"]) simp
  qed (use 1(2) in auto)
qed auto

lemma join_replicate_dotdot: "has_prefix (join ''/'' (''..'' # cs)) ''..''"
  by (cases cs) (simp_all add: has_prefix_def)

lemma path_rel_inside: "\<not> has_prefix (path_rel base targ) ''..'' \<Longrightarrow> inside base targ"
proof -
  assume np: "\<not> has_prefix (path_rel base targ) ''..''"
  obtain b t where bt: "strip_common (clean_comps True base) (clean_comps True targ) = (b, t)" by fastforce
  have "b = []"
  proof (rule ccontr)
    assume "b \<noteq> []"
    then obtain b1 bs where "b = b1 # bs" by (cases b) auto
    with np bt show False by (simp add: path_rel_def join_replicate_dotdot)
  qed
  with strip_common_split [OF bt] show ?thesis by (auto simp: inside_def)
qed

lemma clean_comps_clean: "is_abs p \<Longrightarrow> clean_comps True (path_clean p) = clean_comps True p"
  unfolding path_clean_abs clean_comps_root by (rule clean_comps_join) (rule clean_comps_norm)

lemma clean_comps_dir:
  assumes "is_abs p"
  shows "clean_comps True (path_dir (path_clean p)) = butlast (clean_comps True p)"
proof (cases "clean_comps True p" rule: rev_cases)
  case Nil
  then have "path_clean p = ''/''" by (simp add: path_clean_abs [OF assms])
  moreover have "clean_comps True (path_dir ''/'') = []" by code_simp
  ultimately show ?thesis using Nil by simp
next
  case (snoc cs c)
  have n: "norm_stack True (c # rev cs)" using clean_comps_norm [of True p] snoc by simp
  then have c: "CHR ''/'' \<notin> set c" by (auto simp: norm_stack_def)
  have ncs: "norm_stack True (rev cs)" using n by (rule norm_stack_tl)
  define q where "q = (if cs = [] then [] else CHR ''/'' # join ''/'' cs)"
  have cj: "join ''/'' (cs @ [c]) = (if cs = [] then c else join ''/'' cs @ CHR ''/'' # c)"
    by (simp add: join_append)
  have "path_clean p = q @ CHR ''/'' # c" using snoc cj by (simp add: path_clean_abs [OF assms] q_def)
  then have d: "path_dir (path_clean p) = path_clean (q @ ''/'')" by (simp add: path_dir_def last_index_char_append [OF c])
  have abs: "is_abs (q @ ''/'')" by (simp add: q_def)
  have "clean_comps True (q @ ''/'') = clean_comps True q"
    by (cases "q = []") (simp_all add: clean_comps_def split_on_trailing clean_step.simps)
  also have "\<dots> = cs"
  proof (cases "cs = []")
    case True
    then show ?thesis by (simp add: q_def clean_comps_def clean_step.simps)
  next
    case False
    then have "clean_comps True q = clean_comps True (join ''/'' cs)" using clean_comps_root [of True "join ''/'' cs"] by (simp add: q_def)
    also have "\<dots> = cs" by (rule clean_comps_join) (rule ncs)
    finally show ?thesis .
  qed
  finally show ?thesis using d snoc clean_comps_clean [OF abs] by simp
qed

lemma inside_dir:
  assumes "is_abs p" "inside d (path_clean p)"
  shows "inside d (path_dir (path_clean p)) \<or> inside (path_dir (path_clean p)) d"
proof (cases "clean_comps True p = clean_comps True d")
  case True
  then show ?thesis using clean_comps_dir [OF assms(1)] by (simp add: inside_def prefix_def) (metis append_butlast_last_id append_Nil2 butlast.simps(1))
next
  case False
  with assms show ?thesis
    using clean_comps_dir [OF assms(1)] clean_comps_clean [OF assms(1)]
    by (cases "clean_comps True p" rule: rev_cases) (auto simp: inside_def)
qed

text \<open>Where an entry goes does not depend on the machine when the destination is absolute.\<close>

lemma entry_path_abs:
  assumes "is_abs d"
  shows "\<exists>p. is_abs p \<and> (\<forall>w. entry_path w d name = path_clean p)"
proof -
  have ne: "d \<noteq> []" using assms by (auto simp: is_abs_def has_prefix_def)
  define p where "p = (if name = [] then d else d @ ''/'' @ name)"
  have j: "path_join [d, name] = path_clean p" using ne by (simp add: path_join_def p_def)
  obtain d' where "d = CHR ''/'' # d'" using assms ne by (cases d) (auto simp: is_abs_def has_prefix_def)
  then have a: "is_abs p" by (simp add: p_def)
  have "is_abs (path_clean p)" "\<not> has_prefix (path_clean p) [CHR 0x5C, CHR 0x5C, CHR ''?'', CHR 0x5C]"
    by (simp_all add: path_clean_abs [OF a] has_prefix_def)
  then have "entry_path w d name = path_clean p" for w by (simp add: entry_path_def j NormPath_def path_clean_idem)
  with a show ?thesis by blast
qed

lemma ensure_inside:
  assumes "is_abs d" "is_abs p" "ensureFilePathBelongsToDir s d (path_clean p) = None"
  shows "inside d (path_clean p)"
proof -
  have "is_abs (path_clean p)" by (simp add: path_clean_abs [OF assms(2)])
  then have "\<not> has_prefix (path_rel (path_clean d) (path_clean p)) ''..''"
    using assms path_clean_idem [of p] by (auto simp: ensureFilePathBelongsToDir_def path_abs_def Let_def split: if_splits)
  from path_rel_inside [OF this] show ?thesis
    using clean_comps_clean [OF assms(1)] by (simp add: inside_def)
qed

section \<open>Which calls an extraction makes\<close>

definition resolved :: "'y recipe_env \<Rightarrow> string \<Rightarrow> string \<Rightarrow> bool" where
  "resolved env d old \<longleftrightarrow> (\<exists>s st t. re_eval_symlinks env (path_abs s old) st = Inr t \<and> inside d t)"

lemma resolvedI: "re_eval_symlinks env (path_abs s old) st = Inr t \<Longrightarrow> inside d t \<Longrightarrow> resolved env d old"
  unfolding resolved_def by blast

fun confined :: "'y recipe_env \<Rightarrow> string \<Rightarrow> sys_call \<Rightarrow> bool" where
  "confined env d (SMkdirAll p m) \<longleftrightarrow> inside d p \<or> inside p d"
| "confined env d (SLink old p) \<longleftrightarrow> inside d p \<and> resolved env d old"
| "confined env d (SSymlink old p) \<longleftrightarrow> inside d p \<and> resolved env d old"
| "confined env d (SChmod p m) \<longleftrightarrow> inside d p"
| "confined env d (SOpenCreate p m) \<longleftrightarrow> inside d p"
| "confined env d (SCopy p c) \<longleftrightarrow> inside d p"
| "confined env d (SClose p) \<longleftrightarrow> inside d p"
| "confined env d (SChtimes p) \<longleftrightarrow> inside d p"
| "confined env d (SChown p u g) \<longleftrightarrow> inside d p"
| "confined env d (SMkchar p i j) \<longleftrightarrow> inside d p"
| "confined env d (SMkblock p i j) \<longleftrightarrow> inside d p"
| "confined env d (SMkfifo p m) \<longleftrightarrow> inside d p"
| "confined env d (SExec p args dir envs) \<longleftrightarrow> False"

definition adds :: "(sys_call \<Rightarrow> bool) \<Rightarrow> ('y recipe_world \<Rightarrow> go_error option \<times> 'y recipe_world) \<Rightarrow> bool" where
  "adds P f \<longleftrightarrow> (\<forall>w. \<exists>new. rw_calls (snd (f w)) = rw_calls w @ new \<and> list_all P new)"

named_theorems adds_intros

lemma adds_sys [adds_intros]: "P c \<Longrightarrow> adds P (sys env c)"
  by (auto simp: adds_def sys_def split: prod.splits)

lemma adds_failing [adds_intros]: "adds P (failing e)"
  by (simp add: adds_def failing_def)

lemma adds_in_order [adds_intros]: "(\<And>f. f \<in> set fs \<Longrightarrow> adds P f) \<Longrightarrow> adds P (in_order fs)"
proof (induction fs)
  case Nil
  then show ?case by (simp add: adds_def)
next
  case (Cons f fs)
  then have f: "adds P f" and rest: "adds P (in_order fs)" by simp_all
  show ?case unfolding adds_def
  proof
    fix w :: "'a recipe_world"
    obtain e w1 where 1: "f w = (e, w1)" by fastforce
    with f obtain n1 where n1: "rw_calls w1 = rw_calls w @ n1" "list_all P n1" unfolding adds_def by (metis snd_conv)
    show "\<exists>new. rw_calls (snd (in_order (f # fs) w)) = rw_calls w @ new \<and> list_all P new"
    proof (cases e)
      case None
      obtain n2 where "rw_calls (snd (in_order fs w1)) = rw_calls w1 @ n2" "list_all P n2"
        using rest unfolding adds_def by blast
      with 1 n1 None show ?thesis by (intro exI [of _ "n1 @ n2"]) simp
    qed (use 1 n1 in auto)
  qed
qed

lemma adds_copy [adds_intros]:
  assumes "P (SCopy p (fst data))" "P (SClose p)"
  shows "adds P (copy_into env p data)"
  unfolding adds_def
proof
  fix w :: "'a recipe_world"
  let ?fs = "[sys env (SCopy p (fst data)), failing (snd data)]"
  have "adds P (in_order ?fs)" by (rule adds_in_order) (use assms in \<open>auto intro: adds_intros\<close>)
  then obtain n1 where n1: "rw_calls (snd (in_order ?fs w)) = rw_calls w @ n1" "list_all P n1" unfolding adds_def by blast
  obtain e w1 where w1: "in_order ?fs w = (e, w1)" by fastforce
  have "adds P (sys env (SClose p))" using assms(2) by (rule adds_sys)
  then obtain n2 where n2: "rw_calls (snd (sys env (SClose p) w1)) = rw_calls w1 @ n2" "list_all P n2" unfolding adds_def by blast
  show "\<exists>new. rw_calls (snd (copy_into env p data w)) = rw_calls w @ new \<and> list_all P new"
  proof (cases e)
    case None
    with w1 n1 show ?thesis by (auto simp: copy_into_def)
  next
    case (Some x)
    with w1 n1 n2 show ?thesis by (intro exI [of _ "n1 @ n2"]) (simp add: copy_into_def)
  qed
qed

lemma adds_link [adds_intros]:
  assumes "is_abs d" "\<And>t st s. re_eval_symlinks env (path_abs s l) st = Inr t \<Longrightarrow> inside d t \<Longrightarrow> P c"
  shows "adds P (link_step env d l c)"
  unfolding adds_def
proof
  fix w :: "'a recipe_world"
  show "\<exists>new. rw_calls (snd (link_step env d l c w)) = rw_calls w @ new \<and> list_all P new"
  proof (cases "ensureSymlinkBelongsToDir env d l w")
    case None
    then obtain t where t: "re_eval_symlinks env (path_abs (rw_fs w) l) (rw_state w) = Inr t"
      "\<not> has_prefix (path_rel (path_clean d) t) ''..''"
      using assms(1) by (auto simp: ensureSymlinkBelongsToDir_def path_abs_def Let_def split: sum.splits if_splits)
    from path_rel_inside [OF t(2)] have "inside d t" using clean_comps_clean [OF assms(1)] by (simp add: inside_def)
    with t(1) have "P c" by (rule assms(2))
    then have "adds P (sys env c)" by (rule adds_sys)
    with None show ?thesis by (auto simp: adds_def link_step_def)
  qed (simp add: link_step_def)
qed

lemma in_order_two: "in_order [f, g] w = (case f w of (Some e, w1) \<Rightarrow> (Some e, w1) | (None, w1) \<Rightarrow> g w1)"
  by (auto split: prod.splits option.splits)

lemma tar_one_confined:
  assumes "is_abs d"
  shows "adds (confined env d) (tar_one env d h)"
  unfolding adds_def
proof
  fix w :: "'a recipe_world"
  obtain p where p: "is_abs p" "entry_path w d (te_name h) = path_clean p" using entry_path_abs [OF assms] by blast
  let ?q = "path_clean p"
  show "\<exists>new. rw_calls (snd (tar_one env d h w)) = rw_calls w @ new \<and> list_all (confined env d) new"
  proof (cases "ensureFilePathBelongsToDir (rw_fs w) d ?q")
    case None
    then have q: "inside d ?q" using ensure_inside assms p(1) by blast
    have "adds (confined env d) f" if "f \<in> set (sys env (SMkdirAll (path_dir ?q) 448) # tar_body env d ?q h)" for f
      using that q inside_dir [OF p(1) q]
      by (auto simp: tar_body_def Let_def intro: resolvedI split: tar_type.splits if_splits intro!: adds_intros assms)
    then have "adds (confined env d) (in_order (sys env (SMkdirAll (path_dir ?q) 448) # tar_body env d ?q h))" by (rule adds_in_order)
    then show ?thesis using None p(2) by (simp add: adds_def tar_one_def Let_def del: in_order.simps)
  qed (use p in \<open>simp add: tar_one_def\<close>)
qed

lemma zip_one_confined:
  assumes "is_abs d" "\<And>w :: 'y recipe_world. inside d (entry_path w d (ze_name f))"
  shows "adds (confined env d) (zip_one (env :: 'y recipe_env) d f)"
  unfolding adds_def
proof
  fix w :: "'y recipe_world"
  obtain p where p: "is_abs p" "entry_path w d (ze_name f) = path_clean p" using entry_path_abs [OF assms(1)] by blast
  let ?q = "path_clean p"
  have q: "inside d ?q" using assms(2) [of w] p(2) by simp
  let ?mode = "if ze_mode f = 0 then 493 else ze_mode f"
  show "\<exists>new. rw_calls (snd (zip_one env d f w)) = rw_calls w @ new \<and> list_all (confined env d) new"
  proof (cases "zipIsDir (ze_name f)")
    case True
    have "adds (confined env d) (in_order [sys env (SMkdirAll ?q ?mode), sys env (SChmod ?q ?mode)])"
      by (rule adds_in_order) (use q in \<open>auto intro: adds_intros\<close>)
    then show ?thesis using True p(2) by (simp add: adds_def zip_one_def Let_def del: in_order.simps)
  next
    case False
    define head where "head = sys env (SMkdirAll (path_dir ?q) 493)"
    define rest where "rest = (case ze_data f of Inl e \<Rightarrow> failing (Some e)
        | Inr data \<Rightarrow> in_order [sys env (SOpenCreate ?q ?mode), copy_into env ?q data, sys env (SClose ?q), sys env (SChtimes ?q)])"
    have "adds (confined env d) rest"
      unfolding rest_def by (auto split: sum.splits intro!: adds_intros simp: q simp del: in_order.simps)
    moreover have "adds (confined env d) head"
      unfolding head_def by (rule adds_sys) (use inside_dir [OF p(1) q] in auto)
    ultimately have "adds (confined env d) (in_order [head, rest])" by (intro adds_in_order) auto
    moreover have "zip_one env d f w = in_order [head, rest] w"
      using False p(2) unfolding in_order_two zip_one_def Let_def head_def rest_def
      by (cases "ze_data f") (auto simp: failing_def simp del: in_order.simps split: prod.splits option.splits)
    ultimately show ?thesis by (simp add: adds_def)
  qed
qed

lemma zip_check_inside:
  fixes w w' :: "'y recipe_world"
  assumes "is_abs d" "zip_check env z d fs w = None" "f \<in> set fs"
  shows "inside d (entry_path w' d (ze_name f))"
  using assms(2,3)
proof (induction fs)
  case (Cons g gs)
  obtain p where p: "is_abs p" "\<And>w :: 'y recipe_world. entry_path w d (ze_name g) = path_clean p" using entry_path_abs [OF assms(1)] by blast
  from Cons.prems(1) have e: "ensureFilePathBelongsToDir (rw_fs w) d (path_clean p) = None" "zip_check env z d gs w = None"
    by (auto simp: p(2) Let_def split: option.splits sum.splits go_error.splits if_splits)
  with Cons ensure_inside [OF assms(1) p(1)] p(2) show ?case by auto
qed simp

lemma calls_set_state [simp]: "rw_calls (set_state st w) = rw_calls w" "mc_log (rw_machine (set_state st w)) = mc_log (rw_machine w)"
  "rw_state (set_state st w) = st" "rw_fs (set_state st w) = fst st"
  by (simp_all add: set_state_def rw_state_def rw_fs_def)

lemma on_disk_calls: "on_disk f w = (r, w') \<Longrightarrow> rw_calls w' = rw_calls w \<and> mc_log (rw_machine w') = mc_log (rw_machine w)"
  by (auto simp: on_disk_def split: prod.splits)


text \<open>An entry that is outside, or that exists and is not a directory on both sides, refuses the
  whole archive before anything is changed.\<close>

lemma zip_check_refuses:
  assumes "is_abs d" "f \<in> set fs" "\<not> inside d (entry_path w d (ze_name f))
    \<or> (\<exists>isDir. re_stat env (entry_path w d (ze_name f)) (rw_state w) = Inr isDir \<and> \<not> (zipIsDir (ze_name f) \<and> isDir))"
  shows "zip_check env z d fs w \<noteq> None"
  using assms(2)
proof (induction fs)
  case (Cons g gs)
  show ?case
  proof
    assume n: "zip_check env z d (g # gs) w = None"
    then have "zip_check env z d gs w = None"
      by (auto simp: Let_def split: option.splits sum.splits go_error.splits if_splits)
    with Cons have g: "g = f" by auto
    with zip_check_inside [OF assms(1) n] assms(3) obtain isDir
      where "re_stat env (entry_path w d (ze_name f)) (rw_state w) = Inr isDir" "\<not> (zipIsDir (ze_name f) \<and> isDir)" by auto
    with n g show False by (auto simp: Let_def split: option.splits)
  qed
qed simp

lemma zip_refused:
  assumes "re_unzip env z (rw_state w) = Inr fs" "is_abs d" "f \<in> set fs" "\<not> inside d (entry_path w d (ze_name f))
    \<or> (\<exists>isDir. re_stat env (entry_path w d (ze_name f)) (rw_state w) = Inr isDir \<and> \<not> (zipIsDir (ze_name f) \<and> isDir))"
  shows "\<exists>e. extractZip env z d w = (Some e, w)"
  using zip_check_refuses [OF assms(2-4), of z] assms(1) by (auto simp: extractZip_def)

text \<open>The check is on names: an entry whose name begins with two dots is refused although it is inside.\<close>

lemma dotdot_name_refused:
  "inside ''/srv'' ''/srv/..data'' \<and> path_rel ''/srv'' ''/srv/..data'' = ''..data'' \<and> has_prefix ''..data'' ''..''"
  by code_simp

section \<open>A recipe is installed once\<close>

lemma on_disk_fs: "on_disk f w = (r, w') \<Longrightarrow> f (rw_fs w) = (r, rw_fs w')"
  by (auto simp: on_disk_def split: prod.splits)

lemma newRecipeDB_read:
  assumes "newRecipeDB u s = (Inr db, s')"
  shows "fs_nodes s' = fs_nodes s \<and> (db = [] \<or> (\<exists>bytes m rs. fs_nodes s db_path = Some (FileN bytes m) \<and> u bytes = Inr rs \<and> db = fill_db rs))"
proof -
  obtain r1 s1 where o: "os_open db_path s = (r1, s1)" by fastforce
  then have n1: "fs_nodes s1 = fs_nodes s" and ex: "\<And>x. r1 = Inr x \<Longrightarrow> fs_nodes s db_path \<noteq> None"
    unfolding os_open_def by (auto elim!: syscall_cases split: option.splits)
  obtain r2 s2 where rd: "os_read db_path s1 = (r2, s2)" by fastforce
  then have n2: "fs_nodes s2 = fs_nodes s" and bytes: "\<And>c. r2 = Inr c \<Longrightarrow> fs_nodes s db_path \<noteq> None \<Longrightarrow> \<exists>m. fs_nodes s db_path = Some (FileN c m)"
    unfolding os_read_def by (auto elim!: syscall_cases simp: n1 split: option.splits node.splits)
  show ?thesis
  proof (cases r1)
    case (Inl e)
    with assms o n1 show ?thesis by (cases e) (auto simp: newRecipeDB_def)
  next
    case (Inr x)
    with assms o rd n2 bytes ex show ?thesis by (auto simp: newRecipeDB_def split: sum.splits)
  qed
qed

lemma run_steps_None:
  "run_steps env recipe db arts envs dir i steps w = (None, w') \<Longrightarrow> \<exists>wa. record_recipe env recipe True db wa = (None, w')"
  by (induction env recipe db arts envs dir i steps w rule: run_steps.induct)
     (auto simp: Let_def split: prod.splits sum.splits option.splits if_splits)

lemma createBaseDir_tmp: "createBaseDir recipe runID w = (Inr dir, w') \<Longrightarrow> \<not> under dir db_path"
proof -
  assume "createBaseDir recipe runID w = (Inr dir, w')"
  then obtain pat where "on_disk (temp_node DirN ''/tmp'' pat) w = (Inr dir, w')"
    by (auto simp: createBaseDir_def Let_def split: prod.splits sum.splits)
  from temp_node_cases [OF on_disk_fs [OF this]] obtain rest where "dir = ''/tmp'' @ ''/'' @ rest" by auto
  then show ?thesis by (auto simp: under_def db_path_def has_prefix_def)
qed

lemma os_remove_all_keeps: "os_remove_all d s = (r, s') \<Longrightarrow> \<not> under d p \<Longrightarrow> fs_nodes s' p = fs_nodes s p"
  unfolding os_remove_all_def by (erule syscall_cases) auto

lemma recorded_skip:
  assumes "no_fault (rw_fs w)" "fs_nodes (rw_fs w) db_path = Some (FileN bytes m)" "re_unmarshal env bytes = Inr rs"
    "map_of (fill_db rs) (sr_name recipe) = Some r" "\<not> recipe_compare r (sr_version recipe)"
  shows "\<exists>w2. InstallRecipe env recipe w = (None, w2) \<and> rw_calls w2 = rw_calls w
    \<and> mc_log (rw_machine w2) = mc_log (rw_machine w) \<and> fs_nodes (rw_fs w2) = fs_nodes (rw_fs w)"
proof -
  obtain s' where s': "newRecipeDB (re_unmarshal env) (rw_fs w) = (Inr (fill_db rs), s')" "fs_nodes s' = fs_nodes (rw_fs w)"
    using newRecipeDB_calm [where unmarshal = "re_unmarshal env", OF assms(1-3)] by blast
  then have "on_disk (newRecipeDB (re_unmarshal env)) w = (Inr (fill_db rs), set_state (s', snd (rw_state w)) w)"
    by (simp add: on_disk_def)
  with s'(2) assms(4,5) show ?thesis by (simp add: InstallRecipe_def due_steps_def getRecipe_def)
qed

lemma record_recipe_file:
  assumes "record_recipe env recipe ok db w = (None, w')" "db_ok db" "\<And>rs. mset (re_order env rs) = mset rs"
  shows "\<exists>v m rs r. convertVersion (sr_version recipe) = Inr v \<and> fs_nodes (rw_fs w') db_path = Some (FileN (re_marshal env rs) m)
    \<and> map_of (fill_db rs) (sr_name recipe) = Some r \<and> rc_version r = v"
proof -
  obtain db1 where add: "addRecipe (re_marshal env) (re_order env) (re_seconds env (rw_state w)) (sr_name recipe) (sr_version recipe) ok
      db (rw_fs w) = (None, db1, rw_fs w')"
  proof -
    from assms(1) have "on_disk (\<lambda>s. case addRecipe (re_marshal env) (re_order env) (re_seconds env (rw_state w))
             (sr_name recipe) (sr_version recipe) ok db s of (e, db1, s1) \<Rightarrow> (e, s1)) w = (None, w')"
      by (auto simp: record_recipe_def split: prod.splits)
    from on_disk_fs [OF this] that show ?thesis by (auto split: prod.splits)
  qed
  then obtain v where v: "convertVersion (sr_version recipe) = Inr v" by (auto simp: addRecipe_def split: sum.splits)
  let ?new = "new_recipe (sr_name recipe) v (re_seconds env (rw_state w)) ok"
  from add v have db1: "db1 = AList.update (sr_name recipe) ?new db"
    and wr: "write_db (re_marshal env (re_order env (map snd db1))) (rw_fs w) = (None, rw_fs w')"
    by (auto simp: addRecipe_def Let_def split: prod.splits)
  have "db_ok db1" using db_ok_update [OF assms(2), of ?new] db1 by (simp add: new_recipe_def)
  then have "map_of (fill_db (re_order env (map snd db1))) = map_of db1" using fill_db_perm assms(3) by blast
  then have "map_of (fill_db (re_order env (map snd db1))) (sr_name recipe) = Some ?new" using db1 by (simp add: update_conv')
  moreover obtain m where "fs_nodes (rw_fs w') db_path = Some (FileN (re_marshal env (re_order env (map snd db1))) m)"
    using write_db_cases [OF wr] by blast
  moreover have "rc_version ?new = v" by (simp add: new_recipe_def)
  ultimately show ?thesis using v by blast
qed


section \<open>A machine\<close>

text \<open>Records of recipes are countable, which gives a codec to run the theorems with.\<close>

instance recipe_rec_ext :: (countable) countable
proof (rule countable_classI [of "\<lambda>r. to_nat (rc_name r, rc_version r, rc_time r, rc_success r, recipe_rec.more r)"])
  fix x y :: "'a recipe_rec_scheme"
  assume "to_nat (rc_name x, rc_version x, rc_time x, rc_success x, recipe_rec.more x)
    = to_nat (rc_name y, rc_version y, rc_time y, rc_success y, recipe_rec.more y)"
  then show "x = y" by (cases x; cases y) simp
qed

definition number_codec :: "recipe_rec list \<Rightarrow> string" where
  "number_codec rs = replicate (to_nat rs) CHR ''x''"

definition number_decodec :: "string \<Rightarrow> recipe_rec list res" where
  "number_decodec s = Inr (from_nat (length s))"

definition quiet_tools :: "(fs \<times> unit) tools" where
  "quiet_tools = \<lparr>tl_run = (\<lambda>c x. (([], [], None), x)), tl_pty = (\<lambda>c x. (([], [], None), x)), tl_remove = (\<lambda>p x. (None, x)),
     tl_unmarshal = (\<lambda>s. Inl (ErrMsg ''no'')), tl_pip_unmarshal = (\<lambda>s. Inl (ErrMsg ''no'')), tl_cos = (\<lambda>x. (Inr [], x)),
     tl_arch = (\<lambda>x. (Inr ''x86_64'', x)), tl_purl = (\<lambda>a b c d e. []), tl_apt = True, tl_dpkg_query = True, tl_yum = False,
     tl_zypper = False, tl_rpm_query = False, tl_cos_info = False, tl_gem = False, tl_pip = False\<rparr>"

definition demo_zip :: "zip_entry list" where
  "demo_zip = [\<lparr>ze_name = ''a/b'', ze_mode = 420, ze_data = Inr (''data'', None)\<rparr>]"

definition demo_recipe_env :: "unit recipe_env" where
  "demo_recipe_env = \<lparr>re_tools = quiet_tools, re_dpkg = True, re_rpm = False,
     re_files = \<lparr>rv_sha = (\<lambda>s. s), rv_gcs_client = None, rv_gcs = (\<lambda>b k g. Inl (ErrMsg ''404'')), rv_http = (\<lambda>u. Inl (ErrMsg ''404''))\<rparr>,
     re_url = (\<lambda>u. Inl (ErrMsg ''bad'')), re_sys = (\<lambda>c st. (None, st)), re_stat = (\<lambda>p st. Inl (ErrNotExist p)),
     re_eval_symlinks = (\<lambda>p st. Inr p), re_unzip = (\<lambda>p st. Inr demo_zip), re_untar = (\<lambda>k c. Inr ([], None)),
     re_marshal = number_codec, re_unmarshal = number_decodec, re_order = rev, re_env_order = rev,
     re_nanos = (\<lambda>st. 7), re_seconds = (\<lambda>st. 5)\<rparr>"

definition demo_software :: software_recipe where
  "demo_software = \<lparr>sr_name = ''r'', sr_version = ''1.2'', sr_artifacts = [],
     sr_install = [StepFileExec \<lparr>es_location = ExecLocal ''/bin/true'', es_args = []\<rparr>], sr_update = [], sr_desired = DESIRED_INSTALLED\<rparr>"

definition demo_recipe_world :: "unit recipe_world" where
  "demo_recipe_world = \<lparr>rw_machine = \<lparr>mc_rest = (demo_db_fs, ()), mc_log = []\<rparr>, rw_calls = []\<rparr>"

definition demo_archive :: archive_step where
  "demo_archive = \<lparr>as_artifact = ''z'', as_destination = ''/srv'', as_kind = ZIP\<rparr>"

lemma demo_env_simps:
  "sys demo_recipe_env c w = (None, w\<lparr>rw_calls := rw_calls w @ [c]\<rparr>)"
  "re_unzip demo_recipe_env p st = Inr demo_zip" "re_stat demo_recipe_env p st = Inl (ErrNotExist p)"
  "re_unmarshal demo_recipe_env = number_decodec" "re_marshal demo_recipe_env = number_codec" "re_order demo_recipe_env = rev"
  "re_env_order demo_recipe_env = rev" "re_nanos demo_recipe_env st = 7" "re_seconds demo_recipe_env st = 5"
  by (cases w; cases "rw_machine w"; auto simp: sys_def demo_recipe_env_def set_state_def rw_state_def rw_fs_def split: prod.splits)+

lemma demo_archive_calls:
  "rw_calls (snd (stepExtractArchive demo_recipe_env demo_archive [(''z'', ''/tmp/z.zip'')] demo_recipe_world))
    = [SMkdirAll ''/srv/a'' 493, SOpenCreate ''/srv/a/b'' 420, SCopy ''/srv/a/b'' ''data'', SClose ''/srv/a/b'', SChtimes ''/srv/a/b'']"
proof -
  have path: "path_join [''/srv'', ''a/b''] = ''/srv/a/b''" "path_clean ''/srv/a/b'' = ''/srv/a/b''" "path_clean ''/srv'' = ''/srv''"
    "path_dir ''/srv/a/b'' = ''/srv/a''" "has_prefix (path_rel ''/srv'' ''/srv/a/b'') ''..'' = False" "zipIsDir ''a/b'' = False"
    "has_prefix ''/srv/a/b'' [CHR 0x5C, CHR 0x5C, CHR ''?'', CHR 0x5C] = False"
    by code_simp+
  show ?thesis
    by (simp add: stepExtractArchive_def demo_archive_def extractZip_def demo_env_simps demo_zip_def entry_path_def NormPath_def
        ensureFilePathBelongsToDir_def path_abs_def Let_def path zip_one_def copy_into_def failing_def demo_recipe_world_def)
qed


lemma two_digits_0: "two_digits 0 = ''00''"
  by code_simp

lemma demo_install:
  "\<exists>w1. InstallRecipe demo_recipe_env demo_software demo_recipe_world = (None, w1) \<and> no_fault (rw_fs w1)
    \<and> rw_calls w1 = [SExec ''/bin/true'' [] ''/tmp/r_1.2_run_7_3/step00'' [''RECIPE_NAME=r'', ''RECIPE_VERSION=1.2'', ''RUNID=run_7'']]"
proof -
  have first: "0 < k \<Longrightarrow> m (q @ show_nat n) = None \<Longrightarrow> fresh_from k m q n = Some n" for k m q n by (cases k) auto
  have num: "show_int 7 = ''7''" "show_nat 3 = ''3''" by code_simp+
  have paths: "path_join [''/tmp/r_1.2_run_7_3'', ''step00''] = ''/tmp/r_1.2_run_7_3/step00''"
    "temp_affixes ''r_1.2_run_7_'' = Some (''r_1.2_run_7_'', [])" by code_simp+
  have aff: "temp_affixes ''osconfig_recipedb_*'' = Some (''osconfig_recipedb_'', [])" by code_simp
  let ?m0 = "\<lambda>p. if p = ''/var/lib/google'' then Some DirN else None"
  let ?m1 = "?m0(''/tmp/r_1.2_run_7_3'' \<mapsto> DirN, ''/tmp/r_1.2_run_7_3/step00'' \<mapsto> DirN)"
  have f0: "fresh_from 10000 ?m0 ''/tmp/r_1.2_run_7_'' 3 = Some 3" by (rule first) simp_all
  have f1: "fresh_from 10000 ?m1 ''/var/lib/google/osconfig_recipedb_'' 0 = Some 0" by (rule first) simp_all
  show ?thesis
    using f0 f1
    by (simp add: InstallRecipe_def newRecipeDB_def on_disk_def rw_fs_def rw_state_def demo_recipe_world_def demo_db_fs_def
        fs_ops_defs dbDirUnix_def db_path_def due_steps_def getRecipe_def demo_software_def createBaseDir_def demo_env_simps num
        temp_node_def paths Let_def set_state_def fun_upd_def run_in_dir_def two_digits_0 stepExecFile_def recipe_executeCommand_def
        recipe_envs_def record_recipe_def addRecipe_def version_demo write_db_def aff dbFileName_def no_fault_def)
qed


section \<open>Failures\<close>

text \<open>A step of no known type counts as a success: the error for it is behind \<open>err != nil\<close>.\<close>

lemma unknown_step_succeeds:
  assumes "on_disk (os_mkdir_all (path_join [dir, ''step'' @ two_digits i])) w = (Inr u, w1)"
  shows "run_steps env recipe db arts envs dir i (StepUnset # steps) w = run_steps env recipe db arts envs dir (Suc i) steps w1"
  using assms by (simp add: Let_def)

text \<open>A failed recipe is recorded like an installed one, so it is not tried again either.\<close>

lemma failed_recipe_not_retried:
  assumes "run_recipe_step env step arts envs (path_join [dir, ''step'' @ two_digits i]) w1 = (t, Some e, w2)"
    and "on_disk (os_mkdir_all (path_join [dir, ''step'' @ two_digits i])) w = (Inr u, w1)"
    and "record_recipe env recipe False db w2 = (None, w3)" "db_ok db" "no_fault (rw_fs w3)"
    and "\<And>rs. re_unmarshal env (re_marshal env rs) = Inr rs" "\<And>rs. mset (re_order env rs) = mset rs"
  shows "\<exists>e'. run_steps env recipe db arts envs dir i (step # steps) w = (Some e', w3)"
    and "\<exists>w4. InstallRecipe env recipe w3 = (None, w4) \<and> rw_calls w4 = rw_calls w3"
proof -
  show "\<exists>e'. run_steps env recipe db arts envs dir i (step # steps) w = (Some e', w3)"
    using assms(1-3) by (auto simp: Let_def)
  from record_recipe_file [OF assms(3,4,7)] obtain v m rs r
    where f: "convertVersion (sr_version recipe) = Inr v" "fs_nodes (rw_fs w3) db_path = Some (FileN (re_marshal env rs) m)"
      "map_of (fill_db rs) (sr_name recipe) = Some r" "rc_version r = v" by blast
  then have "\<not> recipe_compare r (sr_version recipe)" using newer_irrefl by (auto simp: recipe_compare_newer)
  with recorded_skip [OF assms(5) f(2) assms(6) f(3)] show "\<exists>w4. InstallRecipe env recipe w3 = (None, w4) \<and> rw_calls w4 = rw_calls w3"
    by blast
qed

end
