(* ===== verification/MainLoop.thy ===== *)
theory MainLoop
  imports Tasker TaskClient
begin

text \<open>
  The goroutines of \<open>main.go\<close>: \<open>registerAgent\<close>, \<open>runTaskLoop\<close> with the notification client, its start-up
  signal to \<open>runServiceLoop\<close>, the tasks that \<open>runServiceLoop\<close> enqueues, \<open>runInternalPeriodics\<close>, and the
  choice of what to run.

  \<^item> \<open>loop_env\<close> holds what the task loop calls: making a client, \<open>RegisterAgent\<close>, \<open>Close\<close>, \<open>Closed\<close> of the
    notification client (which closes itself when it gives up), \<open>WaitForTaskNotification\<close>, the configuration,
    \<open>WatchConfig\<close> and the context. Both \<open>registerAgent\<close> and \<open>runTaskLoop\<close> may run forever; \<open>None\<close> is then their result.
  \<^item> \<open>lw_log\<close> is a history variable. \<open>SeenClosed\<close> is a call of \<open>Closed\<close> that answers true.
  \<^item> The configuration changes only in \<open>WatchConfig\<close>, which only this goroutine calls.
\<close>

section \<open>registerAgent\<close>

datatype loop_event = Made bool | Registered bool | ClosedClient | SeenClosed | Slept nat | Watcher | Signalled | ConfigWatched

record 'x loop_env =
  le_new :: "'x \<Rightarrow> go_error option \<times> 'x"
  le_register :: "'x \<Rightarrow> go_error option \<times> 'x"
  le_close :: "'x \<Rightarrow> go_error option \<times> 'x"
  le_sleep :: "nat \<Rightarrow> 'x \<Rightarrow> 'x"
  le_wait :: "'x \<Rightarrow> 'x"
  le_closed :: "'x \<Rightarrow> bool"
  le_enabled :: "'x \<Rightarrow> bool"
  le_signal :: "'x \<Rightarrow> 'x"
  le_watch :: "'x \<Rightarrow> go_error option \<times> 'x"
  le_done :: "'x \<Rightarrow> bool"

record 'x loop_world =
  lw_x :: 'x
  lw_client :: bool
  lw_log :: "loop_event list"

definition noted :: "loop_event \<Rightarrow> 'x \<Rightarrow> 'x loop_world \<Rightarrow> 'x loop_world" where
  "noted e x w = w\<lparr>lw_x := x, lw_log := lw_log w @ [e]\<rparr>"

definition new_client :: "'x loop_env \<Rightarrow> 'x loop_world \<Rightarrow> go_error option \<times> 'x loop_world" where
  "new_client env w = (case le_new env (lw_x w) of (e, x) \<Rightarrow> (e, noted (Made (e = None)) x w))"

definition register :: "'x loop_env \<Rightarrow> 'x loop_world \<Rightarrow> go_error option \<times> 'x loop_world" where
  "register env w = (case le_register env (lw_x w) of (e, x) \<Rightarrow> (e, noted (Registered (e = None)) x w))"

definition slept :: "'x loop_env \<Rightarrow> nat \<Rightarrow> 'x loop_world \<Rightarrow> 'x loop_world" where
  "slept env n w = noted (Slept n) (le_sleep env n (lw_x w)) w"

text \<open>The client of one attempt is closed whatever \<open>RegisterAgent\<close> said; that is not the notification client.\<close>

definition close_attempt :: "'x loop_env \<Rightarrow> 'x loop_world \<Rightarrow> 'x loop_world" where
  "close_attempt env w = w\<lparr>lw_x := snd (le_close env (lw_x w))\<rparr>"

definition register_attempt :: "'x loop_env \<Rightarrow> 'x loop_world \<Rightarrow> bool \<times> 'x loop_world" where
  "register_attempt env w =
     (case new_client env w of
        (Some e, w1) \<Rightarrow> (False, w1)
      | (None, w1) \<Rightarrow> (case register env w1 of (r, w2) \<Rightarrow> (r = None, close_attempt env w2)))"

partial_function (option) registerAgent :: "'x loop_env \<Rightarrow> 'x loop_world \<Rightarrow> 'x loop_world option" where
  "registerAgent env w =
     (case register_attempt env w of
        (r, w1) \<Rightarrow> if r then Some w1 else registerAgent env (slept env 300 w1))"

section \<open>runTaskLoop\<close>

definition start_watcher :: "'x loop_env \<Rightarrow> 'x loop_world \<Rightarrow> 'x loop_world" where
  "start_watcher env w =
     (case new_client env w of
        (Some e, w1) \<Rightarrow> w1\<lparr>lw_client := False\<rparr>
      | (None, w1) \<Rightarrow> noted Watcher (le_wait env (lw_x w1)) (w1\<lparr>lw_client := True\<rparr>))"

definition close_watcher :: "'x loop_env \<Rightarrow> 'x loop_world \<Rightarrow> 'x loop_world" where
  "close_watcher env w = noted ClosedClient (snd (le_close env (lw_x w))) w"

definition saw_closed :: "'x loop_world \<Rightarrow> 'x loop_world" where
  "saw_closed w = noted SeenClosed (lw_x w) w"

definition adjust_watcher :: "'x loop_env \<Rightarrow> 'x loop_world \<Rightarrow> 'x loop_world" where
  "adjust_watcher env w =
     (let x = lw_x w in
      if le_enabled env x \<and> \<not> lw_client w then start_watcher env w
      else if le_enabled env x \<and> le_closed env x then start_watcher env (saw_closed w)
      else if \<not> le_enabled env x \<and> lw_client w then (if le_closed env x then saw_closed w else close_watcher env w)
      else w)"

definition task_turn :: "'x loop_env \<Rightarrow> 'x loop_world \<Rightarrow> 'x loop_world option" where
  "task_turn env w =
     (case (if le_enabled env (lw_x w) \<and> \<not> lw_client w then registerAgent env w else Some w) of
        None \<Rightarrow> None
      | Some w1 \<Rightarrow>
          (let w2 = adjust_watcher env w1; w3 = noted Signalled (le_signal env (lw_x w2)) w2 in
           Some (noted ConfigWatched (snd (le_watch env (lw_x w3))) w3)))"

partial_function (option) runTaskLoop :: "'x loop_env \<Rightarrow> 'x loop_world \<Rightarrow> 'x loop_world option" where
  "runTaskLoop env w =
     (case task_turn env w of
        None \<Rightarrow> None
      | Some w1 \<Rightarrow> if le_done env (lw_x w1) then Some w1 else runTaskLoop env w1)"

inductive task_turns :: "'x loop_env \<Rightarrow> 'x loop_world \<Rightarrow> 'x loop_world \<Rightarrow> bool" for env where
  none: "task_turns env w w"
| turn: "task_turns env w w1 \<Longrightarrow> task_turn env w1 = Some w2 \<Longrightarrow> task_turns env w w2"

inductive_cases task_turnsE: "task_turns env w w'"

section \<open>The start-up signal\<close>

text \<open>
  \<open>runServiceLoop\<close> receives once from an unbuffered channel; \<open>runTaskLoop\<close> sends on it in every turn, but
  only if the receiver is already waiting.
\<close>

datatype main_place = BeforeReceive | AtReceive | InService

datatype loop_place = Working | InWatchConfig

record start_sys =
  ss_main :: main_place
  ss_loop :: loop_place
  ss_turns :: nat

definition start_begin :: start_sys where
  "start_begin = \<lparr>ss_main = BeforeReceive, ss_loop = Working, ss_turns = 0\<rparr>"

datatype start_event = MainArrives | LoopSends | ConfigReturns

fun start_fire :: "start_event \<Rightarrow> start_sys \<Rightarrow> start_sys option" where
  "start_fire MainArrives s = (if ss_main s = BeforeReceive then Some (s\<lparr>ss_main := AtReceive\<rparr>) else None)"
| "start_fire LoopSends s =
     (if ss_loop s = Working
      then Some (s\<lparr>ss_main := (if ss_main s = AtReceive then InService else ss_main s), ss_loop := InWatchConfig, ss_turns := ss_turns s + 1\<rparr>)
      else None)"
| "start_fire ConfigReturns s = (if ss_loop s = InWatchConfig then Some (s\<lparr>ss_loop := Working\<rparr>) else None)"

fun start_run :: "start_event list \<Rightarrow> start_sys \<Rightarrow> start_sys option" where
  "start_run [] s = Some s"
| "start_run (e # es) s = (case start_fire e s of None \<Rightarrow> None | Some s1 \<Rightarrow> start_run es s1)"

section \<open>runServiceLoop\<close>

datatype first_wake = ByTicker | ByTimer | ByContext

record service_turn =
  sv_policies :: bool
  sv_inventory :: bool
  sv_first :: first_wake
  sv_done :: bool

datatype service_task = GuestPolicies | OSInventory

text \<open>The tasks in the order of the calls of \<open>tasker.Enqueue\<close>, each with the number of its turn.\<close>

fun service_tasks :: "bool \<Rightarrow> nat \<Rightarrow> service_turn list \<Rightarrow> (nat \<times> service_task) list" where
  "service_tasks woken i [] = []"
| "service_tasks woken i (t # ts) =
     (if sv_policies t then [(i, GuestPolicies)] else [])
     @ (if sv_inventory t \<and> \<not> woken \<and> sv_first t = ByContext then []
        else (if sv_inventory t then [(i, OSInventory)] else [])
          @ (if sv_done t then [] else service_tasks (woken \<or> sv_inventory t) (Suc i) ts))"

section \<open>runInternalPeriodics\<close>

text \<open>
  One entry per turn: whether the restart file exists and whether the context is done afterwards. The
  deferred functions run after the queue is closed.
\<close>

datatype periodic_action = CloseQueue | RunDeferred | ExitProcess int

fun runInternalPeriodics :: "(bool \<times> bool) list \<Rightarrow> periodic_action list" where
  "runInternalPeriodics [] = []"
| "runInternalPeriodics ((restart, over) # ts) =
     (if restart then [CloseQueue, RunDeferred, ExitProcess 2] else if over then [] else runInternalPeriodics ts)"

section \<open>What to run\<close>

datatype run_mode = ServiceLoop | ReportOnce | PoliciesOnce | WaitOnly | UnknownArg string

definition run_mode_of :: "string \<Rightarrow> run_mode" where
  "run_mode_of action =
     (if action \<in> {'''', ''run'', ''noservice''} then ServiceLoop
      else if action \<in> {''inventory'', ''osinventory''} then ReportOnce
      else if action \<in> {''gp'', ''policies'', ''guestpolicies'', ''ospackage''} then PoliciesOnce
      else if action \<in> {''w'', ''waitfortasknotification'', ''ospatch''} then WaitOnly
      else UnknownArg action)"

end
