(* ===== verification/MainFacts.thy ===== *)
theory MainFacts
  imports MainLoop "HOL-Library.Sublist"
begin

text \<open>
  Facts on the goroutines of \<open>main.go\<close>: when \<open>registerAgent\<close> returns, that there is one watcher at a time
  and only after a registration, what the start-up signal guarantees and when it is lost, and that the
  inventory of a turn is reported after its guest policies were applied, on the task queue of theory Tasker.
\<close>

section \<open>registerAgent\<close>

text \<open>The world before the next attempt, after one that failed.\<close>

definition after_failure :: "'x loop_env \<Rightarrow> 'x loop_world \<Rightarrow> 'x loop_world" where
  "after_failure env w = slept env 300 (snd (register_attempt env w))"

lemma registerAgent_unfold:
  "registerAgent env w =
     (if fst (register_attempt env w) then Some (snd (register_attempt env w)) else registerAgent env (after_failure env w))"
  by (subst registerAgent.simps) (simp add: after_failure_def split: prod.splits)

lemma registerAgent_after:
  assumes "\<forall>k < n. \<not> fst (register_attempt env ((after_failure env ^^ k) w))"
  shows "registerAgent env w = registerAgent env ((after_failure env ^^ n) w)"
  using assms
proof (induction n)
  case (Suc n)
  then have "registerAgent env w = registerAgent env ((after_failure env ^^ n) w)" by simp
  also have "\<dots> = registerAgent env ((after_failure env ^^ Suc n) w)"
    using Suc.prems by (subst registerAgent_unfold) simp
  finally show ?case .
qed simp

lemma registerAgent_attempts:
  fixes env :: "'x loop_env"
  assumes "registerAgent env w = Some w'"
  shows "\<exists>n. (\<forall>k < n. \<not> fst (register_attempt env ((after_failure env ^^ k) w)))
    \<and> register_attempt env ((after_failure env ^^ n) w) = (True, w')"
proof (rule registerAgent.raw_induct [where P = "\<lambda>(env :: 'x loop_env) w w'. \<exists>n. (\<forall>k < n. \<not> fst (register_attempt env ((after_failure env ^^ k) w)))
    \<and> register_attempt env ((after_failure env ^^ n) w) = (True, w')"])
  fix f :: "'x loop_env \<Rightarrow> 'x loop_world \<Rightarrow> 'x loop_world option" and env :: "'x loop_env" and w w'
  let ?fails = "\<lambda>n w. \<forall>k < n. \<not> fst (register_attempt env ((after_failure env ^^ k) w))"
  assume IH: "\<And>(env :: 'x loop_env) w w'. f env w = Some w' \<Longrightarrow> \<exists>n. (\<forall>k < n. \<not> fst (register_attempt env ((after_failure env ^^ k) w)))
      \<and> register_attempt env ((after_failure env ^^ n) w) = (True, w')"
    and f: "(case register_attempt env w of (r, w1) \<Rightarrow> if r then Some w1 else f env (slept env 300 w1)) = Some w'"
  show "\<exists>n. ?fails n w \<and> register_attempt env ((after_failure env ^^ n) w) = (True, w')"
  proof (cases "fst (register_attempt env w)")
    case True
    with f show ?thesis by (intro exI [of _ 0]) (auto split: prod.splits)
  next
    case False
    with f have "f env (after_failure env w) = Some w'" by (auto simp: after_failure_def split: prod.splits)
    from IH [OF this] obtain n where n: "?fails n (after_failure env w)"
      "register_attempt env ((after_failure env ^^ n) (after_failure env w)) = (True, w')" by blast
    have "?fails (Suc n) w" using n(1) False by (auto simp: less_Suc_eq_0_disj funpow_swap1)
    with n(2) show ?thesis by (intro exI [of _ "Suc n"]) (simp add: funpow_swap1)
  qed
qed (rule assms)

text \<open>
  \<open>registerAgent\<close> returns exactly if some attempt succeeds, and then with the first such attempt, after five
  minutes of sleep for each attempt before it; otherwise it goes on forever.
\<close>

theorem registerAgent_returns:
  "(registerAgent env w = Some w' \<longleftrightarrow>
      (\<exists>n. (\<forall>k < n. \<not> fst (register_attempt env ((after_failure env ^^ k) w)))
        \<and> register_attempt env ((after_failure env ^^ n) w) = (True, w')))
   \<and> (registerAgent env w = None \<longleftrightarrow> (\<forall>k. \<not> fst (register_attempt env ((after_failure env ^^ k) w))))"
proof -
  have first_ok: "registerAgent env w = Some w2"
    if "\<forall>k < n. \<not> fst (register_attempt env ((after_failure env ^^ k) w))" "register_attempt env ((after_failure env ^^ n) w) = (True, w2)" for n w2
    using that(2) by (subst registerAgent_after [OF that(1)], subst registerAgent_unfold) simp
  have "registerAgent env w = None" if "\<forall>k. \<not> fst (register_attempt env ((after_failure env ^^ k) w))"
    using that registerAgent_attempts [of env w] by (metis fst_conv not_Some_eq)
  moreover have "\<exists>w2. registerAgent env w = Some w2" if "fst (register_attempt env ((after_failure env ^^ k) w))" for k
  proof -
    let ?ok = "\<lambda>k. fst (register_attempt env ((after_failure env ^^ k) w))"
    define n where "n = (LEAST k. ?ok k)"
    have "?ok n" "\<forall>j < n. \<not> ?ok j" using that unfolding n_def by (auto intro: LeastI dest: not_less_Least)
    then have "register_attempt env ((after_failure env ^^ n) w) = (True, snd (register_attempt env ((after_failure env ^^ n) w)))"
      by (simp add: prod_eq_iff)
    from first_ok [OF \<open>\<forall>j < n. \<not> ?ok j\<close> this] show ?thesis by blast
  qed
  ultimately have "registerAgent env w = None \<longleftrightarrow> (\<forall>k. \<not> fst (register_attempt env ((after_failure env ^^ k) w)))" by fastforce
  then show ?thesis using first_ok registerAgent_attempts [of env w w'] by blast
qed

section \<open>The notification client\<close>

text \<open>Every watcher so far was seen closed or was closed.\<close>

definition closes :: "loop_event \<Rightarrow> bool" where
  "closes e \<longleftrightarrow> e = ClosedClient \<or> e = SeenClosed"

definition none_open :: "loop_event list \<Rightarrow> bool" where
  "none_open es \<longleftrightarrow> (\<forall>xs ys. es = xs @ Watcher # ys \<longrightarrow> (\<exists>e \<in> set ys. closes e))"

definition one_at_a_time :: "loop_event list \<Rightarrow> bool" where
  "one_at_a_time es \<longleftrightarrow> (\<forall>xs ys. es = xs @ Watcher # ys \<longrightarrow> Registered True \<in> set xs \<and> none_open xs)"

lemma none_open_snoc: "none_open (es @ [e]) \<longleftrightarrow> closes e \<or> (e \<noteq> Watcher \<and> none_open es)"
proof
  assume l: "none_open (es @ [e])"
  have "none_open es" if "\<not> closes e"
    unfolding none_open_def
  proof (intro allI impI)
    fix xs ys
    assume "es = xs @ Watcher # ys"
    then have "es @ [e] = xs @ Watcher # (ys @ [e])" by simp
    with l that show "\<exists>e \<in> set ys. closes e" unfolding none_open_def by fastforce
  qed
  moreover have "e \<noteq> Watcher" if "\<not> closes e" using l that unfolding none_open_def by fastforce
  ultimately show "closes e \<or> (e \<noteq> Watcher \<and> none_open es)" by blast
next
  assume r: "closes e \<or> (e \<noteq> Watcher \<and> none_open es)"
  show "none_open (es @ [e])"
    unfolding none_open_def
  proof (intro allI impI)
    fix xs ys
    assume s: "es @ [e] = xs @ Watcher # ys"
    show "\<exists>e \<in> set ys. closes e"
    proof (cases ys rule: rev_cases)
      case Nil
      with s r show ?thesis by (auto simp: closes_def)
    next
      case (snoc zs z)
      with s have "es = xs @ Watcher # zs" "z = e" by auto
      with r snoc show ?thesis by (auto simp: none_open_def)
    qed
  qed
qed

lemma one_snoc: "one_at_a_time (es @ [e]) \<longleftrightarrow> one_at_a_time es \<and> (e = Watcher \<longrightarrow> Registered True \<in> set es \<and> none_open es)"
proof -
  have "(\<exists>ys. es @ [e] = xs @ Watcher # ys) \<longleftrightarrow> (\<exists>ys. es = xs @ Watcher # ys) \<or> (e = Watcher \<and> xs = es)" for xs
    by (auto simp: append_eq_append_conv2 append_eq_Cons_conv Cons_eq_append_conv)
  then show ?thesis unfolding one_at_a_time_def by blast
qed

lemmas one_snoc2 = one_snoc [where es = "es @ [e']" for es e', simplified]

definition watch_inv :: "'x loop_world \<Rightarrow> bool" where
  "watch_inv w \<longleftrightarrow> one_at_a_time (lw_log w) \<and> (lw_client w \<longrightarrow> Registered True \<in> set (lw_log w)) \<and> (\<not> lw_client w \<longrightarrow> none_open (lw_log w))"

lemma noted_fields [simp]:
  "lw_x (noted e x w) = x" "lw_client (noted e x w) = lw_client w" "lw_log (noted e x w) = lw_log w @ [e]"
  by (simp_all add: noted_def)

text \<open>An event other than a watcher keeps all three parts.\<close>

lemma quiet_steps:
  "snd (new_client env w) = noted (Made (fst (new_client env w) = None)) (lw_x (snd (new_client env w))) w"
  "snd (register env w) = noted (Registered (fst (register env w) = None)) (lw_x (snd (register env w))) w"
  by (simp_all add: new_client_def register_def split: prod.splits)

lemma register_attempt_log:
  "lw_client (snd (register_attempt env w)) = lw_client w"
  "\<exists>es. lw_log (snd (register_attempt env w)) = lw_log w @ es \<and> Watcher \<notin> set es
     \<and> (fst (register_attempt env w) \<longrightarrow> Registered True \<in> set es)"
  by (auto simp: register_attempt_def new_client_def register_def close_attempt_def split: prod.splits option.splits)

lemma none_open_append: "none_open es \<Longrightarrow> Watcher \<notin> set fs \<Longrightarrow> none_open (es @ fs)"
  by (induction fs rule: rev_induct) (auto simp: none_open_snoc simp flip: append_assoc)

lemma one_append: "one_at_a_time es \<Longrightarrow> Watcher \<notin> set fs \<Longrightarrow> one_at_a_time (es @ fs)"
  by (induction fs rule: rev_induct) (auto simp: one_snoc simp flip: append_assoc)

definition quiet :: "'x loop_world \<Rightarrow> 'x loop_world \<Rightarrow> bool" where
  "quiet w w' \<longleftrightarrow> lw_client w' = lw_client w \<and> (\<exists>es. lw_log w' = lw_log w @ es \<and> Watcher \<notin> set es)"

lemma quiet_inv: "quiet w w' \<Longrightarrow> watch_inv w \<Longrightarrow> watch_inv w'"
  by (auto simp: quiet_def watch_inv_def none_open_append one_append)

lemma quiet_trans: "quiet w w1 \<Longrightarrow> quiet w1 w2 \<Longrightarrow> quiet w w2"
  by (auto simp: quiet_def)

lemma quiet_noted: "e \<noteq> Watcher \<Longrightarrow> quiet w (noted e x w)"
  by (simp add: quiet_def)

lemma quiet_failures: "quiet w ((after_failure env ^^ n) w)"
proof (induction n)
  case (Suc n)
  have "quiet v (after_failure env v)" for v
    using register_attempt_log [of env v] by (auto simp: quiet_def after_failure_def slept_def)
  with Suc show ?case unfolding funpow.simps o_apply by (rule quiet_trans)
qed (simp add: quiet_def)

lemma registerAgent_log:
  assumes "registerAgent env w = Some w'"
  shows "quiet w w'" "Registered True \<in> set (lw_log w')"
proof -
  obtain n where n: "register_attempt env ((after_failure env ^^ n) w) = (True, w')"
    using registerAgent_attempts [OF assms] by blast
  show "quiet w w'" using quiet_failures [of w n env] register_attempt_log [of env "(after_failure env ^^ n) w"] n by (auto simp: quiet_def)
  show "Registered True \<in> set (lw_log w')" using register_attempt_log(2) [of env "(after_failure env ^^ n) w"] n by auto
qed

lemma start_watcher_inv:
  assumes "watch_inv w" "none_open (lw_log w)" "Registered True \<in> set (lw_log w)"
  shows "watch_inv (start_watcher env w)"
  using assms by (auto simp: start_watcher_def new_client_def watch_inv_def one_snoc one_snoc2 none_open_snoc closes_def split: prod.splits option.splits)

lemma adjust_inv:
  assumes "watch_inv w" "le_enabled env (lw_x w) \<and> \<not> lw_client w \<longrightarrow> Registered True \<in> set (lw_log w)"
  shows "watch_inv (adjust_watcher env w)"
proof -
  have seen: "watch_inv (saw_closed w)" "none_open (lw_log (saw_closed w))"
    using assms(1) quiet_inv [of w "saw_closed w"] by (simp_all add: saw_closed_def quiet_noted none_open_snoc closes_def)
  have "watch_inv (close_watcher env w)"
    using assms(1) quiet_inv [of w "close_watcher env w"] by (simp add: close_watcher_def quiet_noted)
  moreover have "lw_client w \<Longrightarrow> Registered True \<in> set (lw_log (saw_closed w))"
    using assms(1) by (simp add: watch_inv_def saw_closed_def)
  moreover have "\<not> lw_client w \<Longrightarrow> none_open (lw_log w)" using assms(1) by (simp add: watch_inv_def)
  ultimately show ?thesis
    using assms seen start_watcher_inv [of w env] start_watcher_inv [of "saw_closed w" env]
    by (auto simp: adjust_watcher_def Let_def)
qed

lemma task_turn_inv:
  assumes "task_turn env w = Some w'" "watch_inv w"
  shows "watch_inv w'"
proof -
  obtain w1 where w1: "(if le_enabled env (lw_x w) \<and> \<not> lw_client w then registerAgent env w else Some w) = Some w1"
    and w': "quiet (adjust_watcher env w1) w'"
    using assms(1) by (auto simp: task_turn_def Let_def quiet_def split: option.splits)
  have "watch_inv w1 \<and> (le_enabled env (lw_x w1) \<and> \<not> lw_client w1 \<longrightarrow> Registered True \<in> set (lw_log w1))"
  proof (cases "le_enabled env (lw_x w) \<and> \<not> lw_client w")
    case True
    with w1 registerAgent_log [of env w w1] assms(2) quiet_inv show ?thesis by auto
  qed (use w1 assms(2) in auto)
  with adjust_inv [of w1 env] quiet_inv [OF w'] show ?thesis by blast
qed

definition main_start :: "'x \<Rightarrow> 'x loop_world" where
  "main_start x = \<lparr>lw_x = x, lw_client = False, lw_log = []\<rparr>"

text \<open>
  C34. In every run of the task loop a watcher is started only after the agent was registered, and never a
  second one while the first has neither been closed nor been seen closed.
\<close>

theorem one_watcher:
  assumes "task_turns env (main_start x) w" "lw_log w = before @ Watcher # later"
  shows "Registered True \<in> set before
    \<and> (\<forall>xs ys. before = xs @ Watcher # ys \<longrightarrow> ClosedClient \<in> set ys \<or> SeenClosed \<in> set ys)"
proof -
  have "task_turns env v w \<Longrightarrow> watch_inv v \<Longrightarrow> watch_inv w" for v
    by (induction rule: task_turns.induct) (auto intro: task_turn_inv)
  moreover have "watch_inv (main_start x)" by (simp add: watch_inv_def main_start_def one_at_a_time_def none_open_def)
  ultimately have "one_at_a_time (lw_log w)" using assms(1) by (auto simp: watch_inv_def)
  with assms(2) show ?thesis unfolding one_at_a_time_def none_open_def closes_def by blast
qed

text \<open>A notification client that is made at once, and is closed by itself between the second and the third turn.\<close>

definition demo_loop :: "nat loop_env" where
  "demo_loop = \<lparr>le_new = (\<lambda>n. (None, n)), le_register = (\<lambda>n. (if n = 0 then Some (ErrMsg ''no'') else None, n + 1)), le_close = (\<lambda>n. (None, n)),
     le_sleep = (\<lambda>k n. n), le_wait = (\<lambda>n. n), le_closed = (\<lambda>n. n \<ge> 4), le_enabled = (\<lambda>n. True), le_signal = (\<lambda>n. n),
     le_watch = (\<lambda>n. (None, n + 1)), le_done = (\<lambda>n. n \<ge> 5)\<rparr>"

lemma demo_turns:
  "task_turns demo_loop (main_start 0) \<lparr>lw_x = 5, lw_client = True,
     lw_log = [Made True, Registered False, Slept 300, Made True, Registered True, Made True, Watcher, Signalled, ConfigWatched,
       Signalled, ConfigWatched, SeenClosed, Made True, Watcher, Signalled, ConfigWatched]\<rparr>"
proof -
  have "registerAgent demo_loop (main_start 0) = Some \<lparr>lw_x = 2, lw_client = False,
      lw_log = [Made True, Registered False, Slept 300, Made True, Registered True]\<rparr>"
    by (subst registerAgent.simps, subst registerAgent.simps)
      (simp add: demo_loop_def main_start_def register_attempt_def new_client_def register_def close_attempt_def slept_def noted_def)
  then have 1: "task_turn demo_loop (main_start 0) = Some \<lparr>lw_x = 3, lw_client = True,
      lw_log = [Made True, Registered False, Slept 300, Made True, Registered True, Made True, Watcher, Signalled, ConfigWatched]\<rparr>" (is "_ = Some ?w1")
    by (simp add: task_turn_def adjust_watcher_def start_watcher_def new_client_def noted_def Let_def)
      (simp add: demo_loop_def main_start_def)
  have 2: "task_turn demo_loop ?w1 = Some (?w1\<lparr>lw_x := 4, lw_log := lw_log ?w1 @ [Signalled, ConfigWatched]\<rparr>)" (is "_ = Some ?w2")
    by (simp add: task_turn_def adjust_watcher_def noted_def demo_loop_def)
  have 3: "task_turn demo_loop ?w2 = Some (?w2\<lparr>lw_x := 5, lw_log := lw_log ?w2 @ [SeenClosed, Made True, Watcher, Signalled, ConfigWatched]\<rparr>)"
    by (simp add: task_turn_def adjust_watcher_def start_watcher_def new_client_def saw_closed_def noted_def demo_loop_def)
  from turn [OF turn [OF turn [OF none 1] 2] 3] show ?thesis by simp
qed

corollary one_watcher_witness:
  "\<exists>before later. later = [Signalled, ConfigWatched] \<and> Registered True \<in> set before \<and> before \<noteq> []"
  using one_watcher [OF demo_turns, of "[Made True, Registered False, Slept 300, Made True, Registered True, Made True, Watcher, Signalled,
    ConfigWatched, Signalled, ConfigWatched, SeenClosed, Made True]" "[Signalled, ConfigWatched]"] by force

section \<open>The start-up signal\<close>

lemma start_run_append: "start_run (es @ es') s = (case start_run es s of None \<Rightarrow> None | Some s1 \<Rightarrow> start_run es' s1)"
  by (induction es arbitrary: s) (auto split: option.splits)

text \<open>
  The service loop begins only after the task loop has finished a turn up to its signal. A signal is lost if the
  service loop is not waiting yet: it then waits, and nothing is enqueued, until \<open>WatchConfig\<close> returns.
\<close>

theorem start_signal:
  assumes "start_run es start_begin = Some s"
  shows "(ss_main s = InService \<longrightarrow> 0 < ss_turns s)
    \<and> (ss_main s \<noteq> InService \<and> ss_loop s = InWatchConfig \<and> ConfigReturns \<notin> set later \<and> start_run later s = Some s'
        \<longrightarrow> ss_main s' \<noteq> InService)"
proof -
  have "start_run es t = Some s \<Longrightarrow> (ss_main t = InService \<longrightarrow> 0 < ss_turns t) \<Longrightarrow> ss_main s = InService \<longrightarrow> 0 < ss_turns s" for t
  proof (induction es arbitrary: t)
    case (Cons e es)
    then show ?case by (cases e) (auto split: if_splits option.splits)
  qed simp
  moreover have "start_run later t = Some s' \<Longrightarrow> ConfigReturns \<notin> set later \<Longrightarrow> ss_main t \<noteq> InService \<Longrightarrow> ss_loop t = InWatchConfig
      \<Longrightarrow> ss_main s' \<noteq> InService" for t
  proof (induction later arbitrary: t)
    case (Cons e es)
    then show ?case by (cases e) (auto split: if_splits option.splits)
  qed simp
  moreover have "ss_main start_begin = InService \<longrightarrow> 0 < ss_turns start_begin" by (simp add: start_begin_def)
  ultimately show ?thesis using assms by blast
qed

corollary start_signal_witness:
  "\<exists>s. start_run [LoopSends, MainArrives] start_begin = Some s \<and> ss_main s = AtReceive \<and> ss_turns s = 1
    \<and> (\<exists>s'. start_run [] s = Some s' \<and> ss_main s' \<noteq> InService)"
  using start_signal [of "[LoopSends, MainArrives]" _ "[]"] by (auto simp: start_begin_def)

section \<open>Inventory after guest policies\<close>

text \<open>What goroutine \<open>p\<close> asked to enqueue, what the queue took from it, and what it still holds.\<close>

definition calls :: "nat \<Rightarrow> 't event list \<Rightarrow> 't list" where
  "calls p es = concat (map (\<lambda>e. case e of CallEnqueue q t \<Rightarrow> if q = p then [t] else [] | _ \<Rightarrow> []) es)"

definition taken :: "('t \<Rightarrow> nat) \<Rightarrow> nat \<Rightarrow> 't tasker \<Rightarrow> 't list" where
  "taken caller p s = filter (\<lambda>t. caller t = p) (tk_accepted s)"

fun held :: "'t caller \<Rightarrow> 't list" where
  "held (EnqLock t) = [t]"
| "held (EnqSend t) = [t]"
| "held _ = []"

definition marked :: "('t \<Rightarrow> nat) \<Rightarrow> 't tasker \<Rightarrow> bool" where
  "marked caller s \<longleftrightarrow> (\<forall>q. \<forall>t \<in> set (held (tk_callers s q)). caller t = q)"

lemma taken_fire:
  assumes "fire e s = Some s'" "tasker_inv s" "marked caller s" "\<And>q t. e = CallEnqueue q t \<Longrightarrow> caller t = q"
  shows "marked caller s' \<and> taken caller p s' @ held (tk_callers s' p) = taken caller p s @ held (tk_callers s p) @ calls p [e]"
proof -
  have "tk_callers s q = EnqSend t \<Longrightarrow> tk_chan s = OpenChan" for q t
    using assms(2) unfolding tasker_inv_def caller_inv_def by blast
  with assms(1,3,4) show ?thesis
    by (cases e)
      (auto simp: marked_def taken_def calls_def set_caller_def enqueue_locked_def close_locked_def Let_def split: caller.splits if_splits
         task_chan.splits worker.splits)
qed

lemma taken_all:
  assumes "fire_all es s = Some s'" "tasker_inv s" "marked caller s" "\<forall>q t. CallEnqueue q t \<in> set es \<longrightarrow> caller t = q"
  shows "taken caller p s' @ held (tk_callers s' p) = taken caller p s @ held (tk_callers s p) @ calls p es"
  using assms
proof (induction es arbitrary: s)
  case (Cons e es)
  then obtain s1 where s1: "fire e s = Some s1" "fire_all es s1 = Some s'" by (auto split: option.splits)
  from taken_fire [OF s1(1) Cons.prems(2,3), of p] Cons.prems(4)
  have m: "marked caller s1" and t: "taken caller p s1 @ held (tk_callers s1 p) = taken caller p s @ held (tk_callers s p) @ calls p [e]"
    by auto
  have "calls p (e # es) = calls p [e] @ calls p es" by (simp add: calls_def)
  with Cons.IH [OF s1(2) tasker_inv_fire [OF Cons.prems(2) s1(1)] m] Cons.prems(4) t show ?case by simp
qed (simp add: calls_def)

text \<open>The queue takes the tasks of one goroutine in the order of its calls, and runs them so.\<close>

lemma tasks_in_call_order:
  assumes "fire_all es no_tasker = Some s" "\<forall>q t. CallEnqueue q t \<in> set es \<longrightarrow> caller t = q"
  shows "\<exists>rest. calls p es = filter (\<lambda>t. caller t = p) (tk_done s)
    @ filter (\<lambda>t. caller t = p) (case tk_worker s of Running t \<Rightarrow> [t] | _ \<Rightarrow> []) @ rest"
proof -
  have "marked caller no_tasker" by (simp add: marked_def no_tasker_def)
  from taken_all [OF assms(1) tasker_inv_start this assms(2), of p]
  have "calls p es = taken caller p s @ held (tk_callers s p)" by (simp add: taken_def no_tasker_def)
  moreover have "tk_accepted s = tk_done s @ (case tk_worker s of Running t \<Rightarrow> [t] | _ \<Rightarrow> [])"
    using tasker_inv_reach [OF assms(1) tasker_inv_start] by (simp add: tasker_inv_def worker_inv_def)
  ultimately show ?thesis by (simp add: taken_def)
qed

text \<open>What a client needs of the queue: the tasks of one caller run in the order of its calls, one at a time.\<close>

locale ordered_queue =
  fixes reaches :: "'run \<Rightarrow> 's \<Rightarrow> bool"
    and enqueued :: "'p \<Rightarrow> 'run \<Rightarrow> 't list"
    and caller :: "'t \<Rightarrow> 'p"
    and ended :: "'s \<Rightarrow> 't list"
    and current :: "'s \<Rightarrow> 't list"
  assumes in_order: "reaches es s \<Longrightarrow>
      \<exists>rest. enqueued p es = filter (\<lambda>t. caller t = p) (ended s) @ filter (\<lambda>t. caller t = p) (current s) @ rest"
    and one_at_a_time: "length (current s) \<le> 1"
begin

lemma earlier_ended:
  assumes "reaches es s" "caller t = p" "t \<in> set (current s) \<or> t \<in> set (ended s)"
  obtains before later where "enqueued p es = before @ t # later" "set before \<subseteq> {u \<in> set (ended s). caller u = p}"
proof -
  let ?done = "filter (\<lambda>t. caller t = p) (ended s)" and ?now = "filter (\<lambda>t. caller t = p) (current s)"
  obtain rest where c: "enqueued p es = ?done @ ?now @ rest" using in_order [OF assms(1)] by blast
  show thesis
  proof (cases "t \<in> set (ended s)")
    case True
    then have "t \<in> set ?done" using assms(2) by simp
    then obtain xs ys where "?done = xs @ t # ys" by (meson split_list)
    with c have "enqueued p es = xs @ t # (ys @ ?now @ rest)" "set xs \<subseteq> set ?done" by auto
    then show thesis by (intro that) auto
  next
    case False
    then have "current s = [t]" using assms(3) one_at_a_time [of s] by (cases "current s") auto
    with assms(2) c have "enqueued p es = ?done @ t # rest" by simp
    then show thesis by (intro that [of ?done rest]) auto
  qed
qed

end

definition reaches :: "('t \<Rightarrow> nat) \<Rightarrow> 't event list \<Rightarrow> 't tasker \<Rightarrow> bool" where
  "reaches caller es s \<longleftrightarrow> fire_all es no_tasker = Some s \<and> (\<forall>q t. CallEnqueue q t \<in> set es \<longrightarrow> caller t = q)"

definition at_work :: "'t tasker \<Rightarrow> 't list" where
  "at_work s = (case tk_worker s of Running t \<Rightarrow> [t] | _ \<Rightarrow> [])"

interpretation tq: ordered_queue "reaches caller" calls caller tk_done at_work
  for caller :: "'t \<Rightarrow> nat"
proof unfold_locales
  show "reaches caller es s \<Longrightarrow>
      \<exists>rest. calls p es = filter (\<lambda>t. caller t = p) (tk_done s) @ filter (\<lambda>t. caller t = p) (at_work s) @ rest" for es s p
    using tasks_in_call_order [of es s caller p] by (simp add: reaches_def at_work_def)
  show "length (at_work s) \<le> 1" for s :: "'t tasker"
    by (simp add: at_work_def split: worker.split)
qed

text \<open>In the list of the service loop a report comes after the guest policies of its turn.\<close>

lemma service_order:
  assumes "service_tasks woken k turns = xs @ (i, OSInventory) # ys" "sv_policies (turns ! (i - k))"
  shows "k \<le> i \<and> i - k < length turns \<and> (i, GuestPolicies) \<in> set xs"
  using assms
proof (induction turns arbitrary: woken k xs)
  case (Cons t ts)
  have later: "j \<ge> Suc k" if "(j, x) \<in> set (service_tasks woken' (Suc k) ts)" for j x woken'
    using that by (induction ts arbitrary: woken' k) (auto split: if_splits dest!: Suc_leD)
  define pol where "pol = (if sv_policies t then [(k, GuestPolicies)] else [])"
  define rep where "rep = (if sv_inventory t then [(k, OSInventory)] else [])"
  define more where "more = (if sv_done t then [] else service_tasks (woken \<or> sv_inventory t) (Suc k) ts)"
  have eq: "pol @ rep @ more = xs @ (i, OSInventory) # ys"
  proof (cases "sv_inventory t \<and> \<not> woken \<and> sv_first t = ByContext")
    case True
    with Cons.prems(1) show ?thesis by (auto simp: pol_def Cons_eq_append_conv split: if_splits)
  qed (use Cons.prems(1) in \<open>auto simp: pol_def rep_def more_def split: if_splits\<close>)
  show ?case
  proof (cases "length xs < length (pol @ rep)")
    case True
    have at: "(pol @ rep) ! length xs = (i, OSInventory)" using eq True by (metis append.assoc nth_append nth_append_length)
    have xs: "xs = take (length xs) (pol @ rep)" using True arg_cong [OF eq, of "take (length xs)"] by simp
    from at True have "i = k \<and> length xs = length pol"
      by (auto simp: pol_def rep_def nth_Cons' less_Suc_eq split: if_splits)
    with xs Cons.prems(2) show ?thesis by (simp add: pol_def)
  next
    case False
    define zs where "zs = drop (length (pol @ rep)) xs"
    have xs: "xs = (pol @ rep) @ zs" using False arg_cong [OF eq, of "take (length xs)"] eq
      by (metis append.assoc append_eq_append_conv_if append_take_drop_id not_less zs_def)
    with eq have more: "more = zs @ (i, OSInventory) # ys" by simp
    then have "(i, OSInventory) \<in> set more" by simp
    then have "i \<ge> Suc k" using later by (auto simp: more_def split: if_splits)
    with more xs Cons.IH [of "woken \<or> sv_inventory t" "Suc k" zs] Cons.prems(2)
    show ?thesis by (auto simp: more_def nth_Cons' split: if_splits)
  qed
qed simp

text \<open>
  C35. The inventory of a turn is reported after its guest policies were applied: in every interleaving of the
  goroutines that use the queue, when a report that the service loop enqueued is running or has ended, the guest
  policies of the same turn, if it has any, have run to their end. Other tasks may come from anywhere.
\<close>

theorem inventory_after_policies:
  assumes "fire_all es no_tasker = Some s" "\<forall>q t. CallEnqueue q t \<in> set es \<longrightarrow> caller t = q"
    and "prefix (map item (calls p es)) (service_tasks False 0 turns)"
    and "caller t = p" "item t = (i, OSInventory)" "tk_worker s = Running t \<or> t \<in> set (tk_done s)"
    and "sv_policies (turns ! i)"
  shows "\<exists>t'. caller t' = p \<and> item t' = (i, GuestPolicies) \<and> t' \<in> set (tk_done s)"
proof -
  have "reaches caller es s" "t \<in> set (at_work s) \<or> t \<in> set (tk_done s)"
    using assms(1,2,6) by (auto simp: reaches_def at_work_def)
  then obtain before later where b: "calls p es = before @ t # later" "set before \<subseteq> {u \<in> set (tk_done s). caller u = p}"
    using tq.earlier_ended [of caller es s t p] assms(4) by blast
  from assms(3) obtain zs where "service_tasks False 0 turns = map item (calls p es) @ zs" by (auto simp: prefix_def)
  with b(1) assms(5) have "service_tasks False 0 turns = map item before @ (i, OSInventory) # (map item later @ zs)" by simp
  from service_order [OF this] assms(7) have "(i, GuestPolicies) \<in> set (map item before)" by simp
  with b(2) show ?thesis by (fastforce simp: image_iff)
qed

text \<open>One turn with both, while goroutine 1 enqueues a task of its own.\<close>

definition demo_service :: "(nat \<times> nat \<times> service_task) event list" where
  "demo_service = [CallEnqueue 0 (0, 0, GuestPolicies), Acquire 0, WorkerStart, Send 0, Unlock 0, CallEnqueue 0 (0, 0, OSInventory),
     CallEnqueue 1 (1, 7, OSInventory), Acquire 1, TaskEnds, Send 1, Unlock 1, Acquire 0, TaskEnds, Send 0]"

lemma demo_service_run:
  "\<exists>s. fire_all demo_service no_tasker = Some s \<and> tk_worker s = Running (0, 0, OSInventory)
    \<and> tk_done s = [(0, 0, GuestPolicies), (1, 7, OSInventory)]"
  by (simp add: demo_service_def no_tasker_def set_caller_def enqueue_locked_def Let_def)

corollary inventory_after_policies_witness:
  "\<exists>s. fire_all demo_service no_tasker = Some s \<and> (\<exists>t'. fst t' = 0 \<and> snd t' = (0, GuestPolicies) \<and> t' \<in> set (tk_done s))"
proof -
  obtain s where s: "fire_all demo_service no_tasker = Some s" "tk_worker s = Running (0, 0, OSInventory)" using demo_service_run by blast
  have "\<forall>q t. CallEnqueue q t \<in> set demo_service \<longrightarrow> fst t = q" by (auto simp: demo_service_def)
  moreover have "prefix (map snd (calls 0 demo_service))
      (service_tasks False 0 [\<lparr>sv_policies = True, sv_inventory = True, sv_first = ByTimer, sv_done = True\<rparr>])"
    by (simp add: demo_service_def calls_def)
  moreover have "tk_worker s = Running (0, 0, OSInventory) \<or> (0, 0, OSInventory) \<in> set (tk_done s)" using s(2) by simp
  ultimately have "\<exists>t'. fst t' = 0 \<and> snd t' = (0, GuestPolicies) \<and> t' \<in> set (tk_done s)"
    by (intro inventory_after_policies [OF s(1), where turns = "[\<lparr>sv_policies = True, sv_inventory = True, sv_first = ByTimer, sv_done = True\<rparr>]"]) simp_all
  with s(1) show ?thesis by blast
qed

section \<open>The end of the agent\<close>

text \<open>The process ends only after the queue was closed; then, by theory Tasker, every task it took has ended.\<close>

lemma exit_after_queue:
  assumes "ExitProcess n \<in> set (runInternalPeriodics ts)"
  shows "runInternalPeriodics ts = [CloseQueue, RunDeferred, ExitProcess 2] \<and> (\<exists>over. (True, over) \<in> set ts)"
  using assms by (induction ts rule: runInternalPeriodics.induct) (auto split: if_splits)

end
