(* ===== verification/WinUpdate.thy ===== *)
theory WinUpdate
  imports PatchTask OsPatch "HOL-Library.Word"
begin

text \<open>
  The objects of the Windows Update Agent, \<open>packages/wua_windows.go\<close>: sessions, searches, collections, the
  download and the installation of an update, and what the inventory reads of an update.

  \<^item> An update is what its properties answer when they are read, each possibly an error. A collection is
    its count and what its items answer; a count that is no \<open>int32\<close> is \<open>None\<close> and read as 0.
  \<^item> Everything else that the agent asks of COM is a \<open>com_op\<close>, answered by the argument \<open>wu_com\<close>. \<open>wn_com\<close> is a
    history variable: the operations that were tried, with their success. Releasing an object is left out.
  \<^item> \<open>wu_found\<close> is the result of the last search; \<open>wu_built\<close> is how COM shows a collection that the agent built.
\<close>

section \<open>Objects\<close>

record 'a coll =
  co_count :: "int option res"
  co_item :: "nat \<Rightarrow> 'a res"

record wua_category =
  ct_name :: "string res"
  ct_id :: "string res"

record wua_update =
  up_title :: "string res"
  up_description :: "string res"
  up_support :: "string res"
  up_eula :: "int res"
  up_kbs :: "string coll res"
  up_categories :: "wua_category coll res"
  up_urls :: "string coll res"
  up_changed :: "int res"
  up_identity :: "(int res \<times> string res) res"

datatype com_op =
    InitCom
  | CreateSession
  | SessionDispatch
  | CreateSearcher
  | Search string
  | GetUpdates
  | CreateCollection
  | CollectionDispatch
  | AddTo "wua_update list" wua_update
  | AcceptEula wua_update
  | CreateDownloader
  | PutDownload "wua_update list"
  | Download
  | CreateInstaller
  | PutInstall "wua_update list"
  | Install

record 'y win_machine =
  wn_machine :: "'y machine"
  wn_com :: "(com_op \<times> bool) list"

record 'y wua_env =
  wu_com :: "com_op \<Rightarrow> 'y \<Rightarrow> go_error option \<times> 'y"
  wu_found :: "'y \<Rightarrow> wua_update coll"
  wu_built :: "wua_update list \<Rightarrow> wua_update coll"
  wu_date :: "int \<Rightarrow> int res"
  wu_scode :: "go_error \<Rightarrow> string"
  wu_sleep :: "nat \<Rightarrow> 'y \<Rightarrow> 'y"

definition wrap :: "string \<Rightarrow> 'a res \<Rightarrow> 'a res" where
  "wrap m r = (case r of Inl e \<Rightarrow> Inl (ErrMsg (m @ '': '' @ err_text e)) | Inr x \<Rightarrow> Inr x)"

definition bind_res :: "'a res \<Rightarrow> ('a \<Rightarrow> 'b res) \<Rightarrow> 'b res" where
  "bind_res r f = (case r of Inl e \<Rightarrow> Inl e | Inr x \<Rightarrow> f x)"

definition com :: "'y wua_env \<Rightarrow> com_op \<Rightarrow> 'y win_machine \<Rightarrow> go_error option \<times> 'y win_machine" where
  "com env c w =
     (case wu_com env c (mc_rest (wn_machine w)) of
        (e, y) \<Rightarrow> (e, w\<lparr>wn_machine := (wn_machine w)\<lparr>mc_rest := y\<rparr>, wn_com := wn_com w @ [(c, e = None)]\<rparr>))"

text \<open>What becomes of an error; \<open>GetScodeString\<close> appends the status code that an OLE error carries.\<close>

datatype error_text = AsItIs | Named string | WithScode string

fun said :: "'y wua_env \<Rightarrow> error_text \<Rightarrow> go_error \<Rightarrow> go_error" where
  "said env AsItIs e = e"
| "said env (Named m) e = ErrMsg (m @ '': '' @ err_text e)"
| "said env (WithScode m) e = ErrMsg (m @ '': '' @ err_text e @ wu_scode env e)"

fun coms :: "'y wua_env \<Rightarrow> (error_text \<times> com_op) list \<Rightarrow> 'y win_machine \<Rightarrow> go_error option \<times> 'y win_machine" where
  "coms env [] w = (None, w)"
| "coms env ((m, c) # cs) w =
     (case com env c w of
        (Some e, w1) \<Rightarrow> (Some (said env m e), w1)
      | (None, w1) \<Rightarrow> coms env cs w1)"

definition GetCount :: "'a coll \<Rightarrow> int res" where
  "GetCount c = (case co_count c of
     Inl e \<Rightarrow> Inl (ErrMsg (''IDispatch.GetProperty('' @ quote ''Count'' @ ''): '' @ err_text e))
   | Inr n \<Rightarrow> Inr (case n of None \<Rightarrow> 0 | Some k \<Rightarrow> k))"

text \<open>The items in the order in which a loop up to \<open>n\<close> reads them.\<close>

definition items :: "int \<Rightarrow> 'a coll \<Rightarrow> 'a res list" where
  "items n c = map (co_item c) [0..<nat n]"

definition property :: "string \<Rightarrow> string \<Rightarrow> string" where
  "property obj p = obj @ ''.GetProperty('' @ quote p @ '')''"

section \<open>wua_windows.go\<close>

definition NewUpdateSession :: "'y wua_env \<Rightarrow> 'y win_machine \<Rightarrow> go_error option \<times> 'y win_machine" where
  "NewUpdateSession env w =
     coms env [(AsItIs, InitCom),
       (Named (''oleutil.CreateObject('' @ quote ''Microsoft.Update.Session'' @ '')''), CreateSession),
       (Named ''error creating Dispatch object from Microsoft.Update.Session connection'', SessionDispatch)] w"

definition GetWUAUpdateCollection :: "'y wua_env \<Rightarrow> string \<Rightarrow> 'y win_machine \<Rightarrow> wua_update coll res \<times> 'y win_machine" where
  "GetWUAUpdateCollection env query w =
     (case coms env [(WithScode ''error calling CreateUpdateSearcher'', CreateSearcher),
         (WithScode ''error calling method Search on IUpdateSearcher'', Search query),
         (WithScode ''error calling GetProperty Updates on ISearchResult'', GetUpdates)] w of
        (Some e, w1) \<Rightarrow> (Inl e, w1)
      | (None, w1) \<Rightarrow> (Inr (wu_found env (mc_rest (wn_machine w1))), w1))"

definition DownloadWUAUpdateCollection :: "'y wua_env \<Rightarrow> wua_update list \<Rightarrow> 'y win_machine \<Rightarrow> go_error option \<times> 'y win_machine" where
  "DownloadWUAUpdateCollection env us w =
     coms env [(WithScode ''error calling method CreateUpdateDownloader on IUpdateSession'', CreateDownloader),
       (WithScode ''error calling PutProperty Updates on IUpdateDownloader'', PutDownload us),
       (WithScode ''error calling method Download on IUpdateDownloader'', Download)] w"

definition InstallWUAUpdateCollection :: "'y wua_env \<Rightarrow> wua_update list \<Rightarrow> 'y win_machine \<Rightarrow> go_error option \<times> 'y win_machine" where
  "InstallWUAUpdateCollection env us w =
     coms env [(WithScode ''error calling method CreateUpdateInstaller on IUpdateSession'', CreateInstaller),
       (WithScode ''error calling PutProperty Updates on IUpdateInstaller'', PutInstall us),
       (WithScode ''error calling method Install on IUpdateInstaller'', Install)] w"

text \<open>What \<open>Add\<close> makes of its errors.\<close>

definition adding :: "wua_update list \<Rightarrow> wua_update \<Rightarrow> error_text \<times> com_op" where
  "adding us u = (Named (''IUpdateCollection.CallMethod('' @ quote ''Add'' @ '', updt)''), AddTo us u)"

definition creating :: "(error_text \<times> com_op) list" where
  "creating = [(Named (''oleutil.CreateObject('' @ quote ''Microsoft.Update.UpdateColl'' @ '')''), CreateCollection),
     (AsItIs, CollectionDispatch)]"

definition step :: "('w \<Rightarrow> go_error option \<times> 'w) \<Rightarrow> ('w \<Rightarrow> go_error option \<times> 'w) \<Rightarrow> 'w \<Rightarrow> go_error option \<times> 'w" where
  "step f g w = (case f w of (Some e, w1) \<Rightarrow> (Some e, w1) | (None, w1) \<Rightarrow> g w1)"

definition naming :: "string \<Rightarrow> ('w \<Rightarrow> go_error option \<times> 'w) \<Rightarrow> 'w \<Rightarrow> go_error option \<times> 'w" where
  "naming m f w = (case f w of (Some e, w1) \<Rightarrow> (Some (ErrMsg (m @ '': '' @ err_text e)), w1) | (None, w1) \<Rightarrow> (None, w1))"

definition InstallWUAUpdate :: "'y wua_env \<Rightarrow> wua_update \<Rightarrow> 'y win_machine \<Rightarrow> go_error option \<times> 'y win_machine" where
  "InstallWUAUpdate env u w =
     (case wrap (property ''updt'' ''Title'') (up_title u) of
        Inl e \<Rightarrow> (Some e, w)
      | Inr title \<Rightarrow>
          step (coms env creating)
            (\<lambda>w. case wrap (property ''updt'' ''EulaAccepted'') (up_eula u) of
               Inl e \<Rightarrow> (Some e, w)
             | Inr eula \<Rightarrow>
                 step (coms env (if eula = 0 then [(Named (''updt.CallMethod('' @ quote ''AcceptEula'' @ '')''), AcceptEula u)] else []))
                 (step (coms env [adding [] u])
                 (step (naming ''DownloadWUAUpdateCollection error'' (DownloadWUAUpdateCollection env [u]))
                   (naming ''InstallWUAUpdateCollection error'' (InstallWUAUpdateCollection env [u])))) w) w)"

subsection \<open>Reading updates\<close>

fun all_ok :: "'a res list \<Rightarrow> 'a list res" where
  "all_ok [] = Inr []"
| "all_ok (Inl e # rs) = Inl e"
| "all_ok (Inr x # rs) = bind_res (all_ok rs) (\<lambda>xs. Inr (x # xs))"

text \<open>The error of item \<open>i\<close> names it.\<close>

definition named_items :: "string \<Rightarrow> int \<Rightarrow> 'a coll \<Rightarrow> 'a res list" where
  "named_items obj n c =
     map (\<lambda>i. wrap (obj @ ''.GetProperty('' @ quote ''Item'' @ '', '' @ show_nat i @ '')'') (co_item c i)) [0..<nat n]"

definition kbaIDs :: "wua_update \<Rightarrow> string list res" where
  "kbaIDs u = bind_res (wrap (property ''IUpdate'' ''KBArticleIDs'') (up_kbs u)) (\<lambda>c.
     bind_res (GetCount c) (\<lambda>n. all_ok (named_items ''kbArticleIDs'' n c)))"

definition moreInfoURLs :: "wua_update \<Rightarrow> string list res" where
  "moreInfoURLs u = bind_res (wrap (property ''IUpdate'' ''MoreInfoURLs'') (up_urls u)) (\<lambda>c.
     bind_res (GetCount c) (\<lambda>n. all_ok (named_items ''moreInfoURLs'' n c)))"

definition category_pair :: "wua_category \<Rightarrow> (string \<times> string) res" where
  "category_pair k = bind_res (wrap (property ''item'' ''Name'') (ct_name k)) (\<lambda>name.
     bind_res (wrap (property ''item'' ''CategoryID'') (ct_id k)) (\<lambda>i. Inr (name, i)))"

definition wua_categories_of :: "wua_update \<Rightarrow> (string list \<times> string list) res" where
  "wua_categories_of u = bind_res (wrap (property ''IUpdate'' ''Categories'') (up_categories u)) (\<lambda>c.
     bind_res (GetCount c) (\<lambda>n.
       bind_res (all_ok (map (\<lambda>r. bind_res r category_pair) (named_items ''cat'' n c))) (\<lambda>ps. Inr (map fst ps, map snd ps))))"

record wua_found =
  wf_title :: string
  wf_description :: string
  wf_support :: string
  wf_kbs :: "string list"
  wf_update_id :: string
  wf_categories :: "string list"
  wf_category_ids :: "string list"
  wf_urls :: "string list"
  wf_revision :: int
  wf_changed :: int

definition extractPkg :: "'y wua_env \<Rightarrow> wua_update res \<Rightarrow> wua_found res" where
  "extractPkg env item =
     bind_res item (\<lambda>u.
     bind_res (wrap (property ''updt'' ''Title'') (up_title u)) (\<lambda>title.
     bind_res (wrap (property ''updt'' ''Description'') (up_description u)) (\<lambda>description.
     bind_res (kbaIDs u) (\<lambda>kbs.
     bind_res (wua_categories_of u) (\<lambda>cats.
     bind_res (moreInfoURLs u) (\<lambda>urls.
     bind_res (wrap (property ''updt'' ''SupportURL'') (up_support u)) (\<lambda>support.
     bind_res (wrap (property ''updt'' ''LastDeploymentChangeTime'') (up_changed u)) (\<lambda>raw.
     bind_res (wrap ''ole.GetVariantDate(uint64(lastDeploymentChangeTimeRaw.Val))'' (wu_date env raw)) (\<lambda>changed.
     bind_res (wrap (property ''updt'' ''Identity'') (up_identity u)) (\<lambda>identity.
     bind_res (wrap (property ''identity'' ''RevisionNumber'') (fst identity)) (\<lambda>rev.
     bind_res (wrap (property ''identity'' ''UpdateID'') (snd identity)) (\<lambda>uid.
       Inr \<lparr>wf_title = title, wf_description = description, wf_support = support, wf_kbs = kbs, wf_update_id = uid,
         wf_categories = fst cats, wf_category_ids = snd cats, wf_urls = urls,
         wf_revision = sint (word_of_int rev :: 32 word), wf_changed = changed\<rparr>))))))))))))"

definition WUAUpdates :: "'y wua_env \<Rightarrow> string \<Rightarrow> 'y win_machine \<Rightarrow> wua_found list res \<times> 'y win_machine" where
  "WUAUpdates env query w =
     (case NewUpdateSession env w of
        (Some e, w1) \<Rightarrow> (Inl (ErrMsg (''error creating NewUpdateSession: '' @ err_text e)), w1)
      | (None, w1) \<Rightarrow>
          (case GetWUAUpdateCollection env query w1 of
             (Inl e, w2) \<Rightarrow> (Inl (ErrMsg (''error calling GetWUAUpdateCollection with query '' @ quote query @ '': '' @ err_text e)), w2)
           | (Inr c, w2) \<Rightarrow> (bind_res (GetCount c) (\<lambda>n. all_ok (map (extractPkg env) (named_items ''IUpdateCollection'' n c))), w2)))"

end
