(* ===== verification/WinPatch.thy ===== *)
theory WinPatch
  imports WinUpdate
begin

text \<open>
  The selection and installation of updates on Windows, over the objects of theory WinUpdate:
  \<open>ospatch/updates_windows.go\<close>, \<open>agentendpoint/patch_windows.go\<close> and \<open>agentendpoint/reboot_windows.go\<close>. The state of
  the patch task, its reports and its saved state are those of theory PatchTask; GooGet is that of theory OsPatch.
\<close>

section \<open>updates_windows.go\<close>

text \<open>The loops over identifiers and categories stop at the first hit and at the first error.\<close>

fun first_hit :: "('a \<Rightarrow> bool res) \<Rightarrow> 'a res list \<Rightarrow> bool res" where
  "first_hit f [] = Inr False"
| "first_hit f (Inl e # rs) = Inl e"
| "first_hit f (Inr x # rs) = bind_res (f x) (\<lambda>b. if b then Inr True else first_hit f rs)"

text \<open>\<open>strings.TrimLeft\<close> with a set of characters.\<close>

definition kb_number :: "string \<Rightarrow> string" where
  "kb_number e = dropWhile (\<lambda>c. c \<in> set ''KkBb'') e"

definition in_class :: "string list \<Rightarrow> wua_category \<Rightarrow> bool res" where
  "in_class classFilter k = bind_res (wrap (property ''cat'' ''CategoryID'') (ct_id k)) (\<lambda>i. Inr (i \<in> set classFilter))"

definition checkFilters :: "wua_update \<Rightarrow> string list \<Rightarrow> string list \<Rightarrow> string list \<Rightarrow> bool res" where
  "checkFilters u kbExcludes classFilter exclusive_patches =
     bind_res (wrap (property ''updt'' ''Title'') (up_title u)) (\<lambda>title.
     bind_res (wrap (property ''updt'' ''KBArticleIDs'') (up_kbs u)) (\<lambda>kbs.
     bind_res (GetCount kbs) (\<lambda>n.
       if exclusive_patches \<noteq> [] then first_hit (\<lambda>k. Inr (k \<in> set exclusive_patches)) (items n kbs)
       else
         bind_res (if kbExcludes \<noteq> [] then first_hit (\<lambda>k. Inr (\<exists>e \<in> set kbExcludes. kb_number e = k)) (items n kbs) else Inr False) (\<lambda>excluded.
           if excluded then Inr False
           else if classFilter = [] then Inr True
           else
             bind_res (wrap (property ''updt'' ''Categories'') (up_categories u)) (\<lambda>cats.
             bind_res (GetCount cats) (\<lambda>m.
               first_hit (in_class classFilter)
                 (map (wrap (''categories.GetProperty('' @ quote ''Item'' @ '', i)'')) (items m cats))))))))"

text \<open>The updates that pass, added one by one to the collection \<open>acc\<close>.\<close>

fun filter_updates :: "'y wua_env \<Rightarrow> (wua_update \<Rightarrow> bool res) \<Rightarrow> wua_update list \<Rightarrow> wua_update res list \<Rightarrow> 'y win_machine
    \<Rightarrow> wua_update list res \<times> 'y win_machine" where
  "filter_updates env f acc [] w = (Inr acc, w)"
| "filter_updates env f acc (Inl e # us) w = (Inl e, w)"
| "filter_updates env f acc (Inr u # us) w =
     (case f u of
        Inl e \<Rightarrow> (Inl e, w)
      | Inr False \<Rightarrow> filter_updates env f acc us w
      | Inr True \<Rightarrow>
          (case coms env [adding acc u] w of
             (Some e, w1) \<Rightarrow> (Inl e, w1)
           | (None, w1) \<Rightarrow> filter_updates env f (acc @ [u]) us w1))"

definition GetWUAUpdates :: "'y wua_env \<Rightarrow> string list \<Rightarrow> string list \<Rightarrow> string list \<Rightarrow> 'y win_machine
    \<Rightarrow> wua_update coll res \<times> 'y win_machine" where
  "GetWUAUpdates env classFilter kbExcludes exclusivePatches w =
     (case GetWUAUpdateCollection env ''IsInstalled=0 AND RebootRequired=0'' w of
        (Inl e, w1) \<Rightarrow> (Inl (ErrMsg (''GetWUAUpdateCollection error: '' @ err_text e)), w1)
      | (Inr updts, w1) \<Rightarrow>
          if classFilter = [] \<and> kbExcludes = [] \<and> exclusivePatches = [] then (Inr updts, w1)
          else
            (case GetCount updts of
               Inl e \<Rightarrow> (Inl e, w1)
             | Inr n \<Rightarrow>
                 (case coms env creating w1 of
                    (Some e, w2) \<Rightarrow> (Inl e, w2)
                  | (None, w2) \<Rightarrow>
                      (case filter_updates env (\<lambda>u. checkFilters u kbExcludes classFilter exclusivePatches) []
                              (named_items ''IUpdateCollection'' n updts) w2 of
                         (Inl e, w3) \<Rightarrow> (Inl e, w3)
                       | (Inr us, w3) \<Rightarrow> (Inr (wu_built env us), w3)))))"

text \<open>The registry: opening a key of the local machine, and the strings of the value that is read.\<close>

record win_registry =
  rg_open :: "string \<Rightarrow> go_error option"
  rg_strings :: "string list res"

definition registry_missing :: go_error where
  "registry_missing = ErrNotExist ''registry''"

definition SystemRebootRequired_windows :: "win_registry \<Rightarrow> bool res" where
  "SystemRebootRequired_windows reg =
     (let update_key = (case rg_open reg (windows_path [''SOFTWARE'', ''Microsoft'', ''Windows'', ''CurrentVersion'', ''WindowsUpdate'', ''Auto Update'', ''RebootRequired'']) of
            None \<Rightarrow> Inr True
          | Some e \<Rightarrow> if e \<noteq> registry_missing then Inl e else Inr False) in
      case rg_open reg (windows_path [''SYSTEM'', ''CurrentControlSet'', ''Control'', ''Session Manager'']) of
        Some e \<Rightarrow> if e \<noteq> registry_missing then Inl e else update_key
      | None \<Rightarrow>
          (case rg_strings reg of
             Inr val \<Rightarrow> if val \<noteq> [] then Inr True else update_key
           | Inl e \<Rightarrow> if e \<noteq> registry_missing then Inl e else update_key))"

section \<open>patch_windows.go\<close>

datatype wua_classification =
    WU_CRITICAL | WU_SECURITY | WU_DEFINITION | WU_DRIVER | WU_FEATURE_PACK | WU_SERVICE_PACK | WU_TOOL | WU_UPDATE_ROLLUP
  | WU_UPDATE | WU_OTHER string

fun classification_id :: "wua_classification \<Rightarrow> string option" where
  "classification_id WU_CRITICAL = Some ''e6cf1350-c01b-414d-a61f-263d14d133b4''"
| "classification_id WU_SECURITY = Some ''0fa1201d-4330-4fa8-8ae9-b877473b6441''"
| "classification_id WU_DEFINITION = Some ''e0789628-ce08-4437-be74-2495b842f43b''"
| "classification_id WU_DRIVER = Some ''ebfc1fc5-71a4-4f7b-9aca-3b9a503104a0''"
| "classification_id WU_FEATURE_PACK = Some ''b54e7d24-7add-428f-8b75-90a396fa584f''"
| "classification_id WU_SERVICE_PACK = Some ''68c5b0a3-d1a6-4553-ae49-01d3a7827828''"
| "classification_id WU_TOOL = Some ''b4832bd8-e735-4761-8daf-37f882276dab''"
| "classification_id WU_UPDATE_ROLLUP = Some ''28bc880e-0592-4cbf-8f95-c79b17911d5f''"
| "classification_id WU_UPDATE = Some ''cd5ffd1e-e932-4e3a-bf74-18bf0b1bbd83''"
| "classification_id (WU_OTHER s) = None"

record windows_update =
  wc_classifications :: "wua_classification list"
  wc_excludes :: "string list"
  wc_exclusive :: "string list"

fun classification_text :: "wua_classification \<Rightarrow> string" where
  "classification_text (WU_OTHER s) = s"
| "classification_text _ = []"

fun classFilter :: "wua_classification list \<Rightarrow> string list res" where
  "classFilter [] = Inr []"
| "classFilter (c # cs) =
     (case classification_id c of
        None \<Rightarrow> Inl (ErrMsg (''Unknown classification: '' @ classification_text c))
      | Some sc \<Rightarrow> bind_res (classFilter cs) (\<lambda>cf. Inr (sc # cf)))"

type_synonym 'y win_state = "patch_task \<times> 'y win_machine patch_world"

fun install_loop :: "'y wua_env \<Rightarrow> 'y win_machine patch_env \<Rightarrow> int \<Rightarrow> wua_update res list \<Rightarrow> int \<Rightarrow> 'y win_state
    \<Rightarrow> (int \<times> go_error option) \<times> 'y win_state" where
  "install_loop env penv n [] i st = ((n, None), st)"
| "install_loop env penv n (item # rest) i (r, w) =
     (case patch_reportContinuingState penv PP_APPLYING_PATCHES r w of
        (Some e, r1, w1) \<Rightarrow> ((i, Some e), r1, w1)
      | (None, r1, w1) \<Rightarrow>
          (case item of
             Inl e \<Rightarrow> ((i, Some e), r1, w1)
           | Inr u \<Rightarrow>
               (case pw_lift (InstallWUAUpdate env u) w1 of
                  (Some e, w2) \<Rightarrow> ((i, Some (ErrMsg (''installUpdate(updt): '' @ err_text e))), r1, w2)
                | (None, w2) \<Rightarrow> install_loop env penv n rest (i + 1) (r1, w2))))"

definition installWUAUpdates :: "'y wua_env \<Rightarrow> 'y win_machine patch_env \<Rightarrow> windows_update \<Rightarrow> string list \<Rightarrow> 'y win_state
    \<Rightarrow> (int \<times> go_error option) \<times> 'y win_state" where
  "installWUAUpdates env penv c cf st =
     (case st of (r, w) \<Rightarrow>
        (case pw_lift (NewUpdateSession env) w of
           (Some e, w1) \<Rightarrow> ((0, Some e), r, w1)
         | (None, w1) \<Rightarrow>
             (case pw_lift (GetWUAUpdates env cf (wc_excludes c) (wc_exclusive c)) w1 of
                (Inl e, w2) \<Rightarrow> ((0, Some e), r, w2)
              | (Inr updts, w2) \<Rightarrow>
                  (case GetCount updts of
                     Inl e \<Rightarrow> ((0, Some e), r, w2)
                   | Inr n \<Rightarrow>
                       if n = 0 \<or> pt_dry_run r then ((0, None), r, w2)
                       else install_loop env penv n (named_items ''IUpdateCollection'' n updts) 0 (r, w2)))))"

fun wua_rounds :: "'y wua_env \<Rightarrow> 'y win_machine patch_env \<Rightarrow> windows_update \<Rightarrow> string list \<Rightarrow> nat \<Rightarrow> 'y win_state
    \<Rightarrow> go_error option \<times> 'y win_state" where
  "wua_rounds env penv c cf 0 st = (Some (ErrMsg ''failed to install all updates after trying 10 times''), st)"
| "wua_rounds env penv c cf (Suc k) (r, w) =
     (case patch_reportContinuingState penv PP_APPLYING_PATCHES r w of
        (Some e, r1, w1) \<Rightarrow> (Some e, r1, w1)
      | (None, r1, w1) \<Rightarrow>
          (case installWUAUpdates env penv c cf (r1, w1) of
             ((n, Some e), r2, w2) \<Rightarrow>
               wua_rounds env penv c cf k (r2, snd (pw_lift (\<lambda>m. ((), m\<lparr>wn_machine := (wn_machine m)
                 \<lparr>mc_rest := wu_sleep env 60 (mc_rest (wn_machine m))\<rparr>\<rparr>)) w2))
           | ((n, None), r2, w2) \<Rightarrow> if n = 0 then (None, r2, w2) else wua_rounds env penv c cf k (r2, w2)))"

definition task_wuaUpdates :: "'y wua_env \<Rightarrow> 'y win_machine patch_env \<Rightarrow> windows_update \<Rightarrow> 'y win_state
    \<Rightarrow> go_error option \<times> 'y win_state" where
  "task_wuaUpdates env penv c st =
     (case classFilter (wc_classifications c) of Inl e \<Rightarrow> (Some e, st) | Inr cf \<Rightarrow> wua_rounds env penv c cf 10 st)"

definition on_machine_part :: "('y machine \<Rightarrow> 'a \<times> 'y machine) \<Rightarrow> 'y win_machine \<Rightarrow> 'a \<times> 'y win_machine" where
  "on_machine_part f m = (case f (wn_machine m) of (x, m1) \<Rightarrow> (x, m\<lparr>wn_machine := m1\<rparr>))"

definition googet_updates :: "'y updater \<Rightarrow> patch_task \<Rightarrow> 'y machine \<Rightarrow> go_error option outcome \<times> 'y machine" where
  "googet_updates up r = retrying up (\<lambda>m.
     case RunGooGetUpdate up \<lparr>uo_exclusive = None, uo_excludes = [], uo_dryrun = pt_dry_run r\<rparr> m of (e, m1) \<Rightarrow> (Done e, m1))"

definition runUpdates_windows :: "'y wua_env \<Rightarrow> 'y win_machine patch_env \<Rightarrow> 'y updater \<Rightarrow> bool \<Rightarrow> windows_update \<Rightarrow> 'y win_state
    \<Rightarrow> go_error option outcome \<times> 'y win_state" where
  "runUpdates_windows env penv up googet_exists c st =
     (if \<not> googet_exists then (case task_wuaUpdates env penv c st of (e, st1) \<Rightarrow> (Done e, st1))
      else
        (case patch_reportContinuingState penv PP_APPLYING_PATCHES (fst st) (snd st) of
           (Some e, r1, w1) \<Rightarrow> (Done (Some e), r1, w1)
         | (None, r1, w1) \<Rightarrow>
             (case pw_lift (on_machine_part (googet_updates up r1)) w1 of
                (Panic p, w2) \<Rightarrow> (Panic p, r1, w2)
              | (Done (Some e), w2) \<Rightarrow> (Done (Some e), r1, w2)
              | (Done None, w2) \<Rightarrow> (case task_wuaUpdates env penv c (r1, w2) of (e, st1) \<Rightarrow> (Done e, st1)))))"

section \<open>reboot_windows.go\<close>

text \<open>The error of \<open>shutdown.exe\<close>, and its exit code when it has one.\<close>

definition runShutdownCmd :: "go_error option \<Rightarrow> int \<times> bool \<times> go_error option" where
  "runShutdownCmd err =
     (case err of
        None \<Rightarrow> (0, False, None)
      | Some e \<Rightarrow> (case err_root e of ErrExit code m \<Rightarrow> (code, True, Some e) | _ \<Rightarrow> (0, False, Some e)))"

definition isShutdownAlreadyInProgress :: "int \<Rightarrow> bool" where
  "isShutdownAlreadyInProgress code \<longleftrightarrow> (word_of_int code :: 32 word) \<in> {1115, 1190, 1717, 0xC000026B}"

definition rebootSystem_windows :: "string \<Rightarrow> (string \<Rightarrow> 'x \<Rightarrow> go_error option \<times> 'x) \<Rightarrow> 'x \<Rightarrow> go_error option \<times> 'x" where
  "rebootSystem_windows systemRoot shutdown x =
     (let root = (if systemRoot = [] then (windows_path [''C:'', ''Windows'']) else systemRoot) in
      case shutdown root x of
        (err, x1) \<Rightarrow>
          (case runShutdownCmd err of
             (code, hasCode, None) \<Rightarrow> (None, x1)
           | (code, hasCode, Some e) \<Rightarrow> (if hasCode \<and> isShutdownAlreadyInProgress code then None else Some e, x1)))"

end
