(* ===== verification/WinFacts.thy ===== *)
theory WinFacts
  imports WinPatch
begin

text \<open>
  Facts on patching under Windows: only updates that the task selects are ever accepted, downloaded or
  installed, a dry run changes nothing, and there are at most ten searches.
\<close>

section \<open>The selection\<close>

text \<open>The identifiers and the classes of an update that can be read, and what the task allows.\<close>

definition kbs_of :: "wua_update \<Rightarrow> string set" where
  "kbs_of u = {k. \<exists>c i. up_kbs u = Inr c \<and> co_item c i = Inr k \<and> (\<exists>n. GetCount c = Inr n \<and> i < nat n)}"

definition classes_of :: "wua_update \<Rightarrow> string set" where
  "classes_of u = {k. \<exists>c i cat. up_categories u = Inr c \<and> co_item c i = Inr cat \<and> ct_id cat = Inr k}"

definition selected :: "windows_update \<Rightarrow> string list \<Rightarrow> wua_update \<Rightarrow> bool" where
  "selected c cf u \<longleftrightarrow>
     (if wc_exclusive c \<noteq> [] then kbs_of u \<inter> set (wc_exclusive c) \<noteq> {}
      else kbs_of u \<inter> kb_number ` set (wc_excludes c) = {} \<and> (cf = [] \<or> classes_of u \<inter> set cf \<noteq> {}))"

lemma first_hit_True: "first_hit f rs = Inr True \<Longrightarrow> \<exists>x. Inr x \<in> set rs \<and> f x = Inr True"
  by (induction f rs rule: first_hit.induct) (auto simp: bind_res_def split: sum.splits if_splits)

lemma first_hit_False: "first_hit f rs = Inr False \<Longrightarrow> Inr x \<in> set rs \<Longrightarrow> f x = Inr False"
  by (induction f rs rule: first_hit.induct) (auto simp: bind_res_def split: sum.splits if_splits)

lemma bind_res_Inr [simp]: "bind_res r f = Inr y \<longleftrightarrow> (\<exists>x. r = Inr x \<and> f x = Inr y)"
  by (cases r) (auto simp: bind_res_def)

lemma wrap_Inr [simp]: "wrap m r = Inr x \<longleftrightarrow> r = Inr x"
  by (cases r) (auto simp: wrap_def)

lemma wrap_image: "Inr x \<in> wrap m ` S \<longleftrightarrow> Inr x \<in> S"
proof
  assume "Inr x \<in> wrap m ` S"
  then obtain r where "r \<in> S" "wrap m r = Inr x" by (auto simp del: wrap_Inr)
  then show "Inr x \<in> S" by simp
next
  assume "Inr x \<in> S"
  then have "wrap m (Inr x) \<in> wrap m ` S" by (rule imageI)
  then show "Inr x \<in> wrap m ` S" by (simp add: wrap_def)
qed

lemma named_items_Inr:
  assumes "Inr v \<in> set (named_items obj n c)"
  shows "\<exists>k. co_item c k = Inr v"
proof -
  from assms obtain k where "Inr v = wrap (obj @ ''.GetProperty('' @ quote ''Item'' @ '', '' @ show_nat k @ '')'') (co_item c k)"
    unfolding named_items_def by (auto simp del: wrap_Inr)
  from this [symmetric] show ?thesis by auto
qed

lemma items_Inr: "Inr x \<in> set (items n c) \<longleftrightarrow> (\<exists>i < nat n. co_item c i = Inr x)"
  unfolding items_def set_map image_iff by force

lemma checkFilters_selected:
  assumes "checkFilters u (wc_excludes c) cf (wc_exclusive c) = Inr True"
  shows "selected c cf u"
proof -
  obtain kbs n where kbs: "up_kbs u = Inr kbs" "GetCount kbs = Inr n" using assms by (auto simp: checkFilters_def)
  have readable: "k \<in> kbs_of u \<longleftrightarrow> Inr k \<in> set (items n kbs)" for k using kbs by (auto simp: kbs_of_def items_Inr)
  show ?thesis
  proof (cases "wc_exclusive c = []")
    case False
    with assms kbs first_hit_True [of "\<lambda>k. Inr (k \<in> set (wc_exclusive c))" "items n kbs"]
    show ?thesis by (auto simp: checkFilters_def selected_def readable)
  next
    case True
    let ?hit = "\<lambda>k. Inr (\<exists>e \<in> set (wc_excludes c). kb_number e = k) :: bool res"
    have "wc_excludes c = [] \<or> first_hit ?hit (items n kbs) = Inr False"
      using assms kbs True by (auto simp: checkFilters_def split: if_splits)
    with first_hit_False [of ?hit "items n kbs"] have ex: "kbs_of u \<inter> kb_number ` set (wc_excludes c) = {}"
      by (fastforce simp: readable)
    have "cf = [] \<or> classes_of u \<inter> set cf \<noteq> {}"
    proof (cases "cf = []")
      case False
      with assms kbs True obtain cats m where cats: "up_categories u = Inr cats" and
        hit: "first_hit (in_class cf) (map (wrap (''categories.GetProperty('' @ quote ''Item'' @ '', i)'')) (items m cats)) = Inr True"
        by (auto simp: checkFilters_def split: if_splits)
      from first_hit_True [OF hit] obtain k where "Inr k \<in> wrap (''categories.GetProperty('' @ quote ''Item'' @ '', i)'') ` set (items m cats)"
        "in_class cf k = Inr True" by auto
      moreover from this(1) have "Inr k \<in> set (items m cats)" by (simp only: wrap_image)
      ultimately have "Inr k \<in> set (items m cats)" "\<exists>i. ct_id k = Inr i \<and> i \<in> set cf" by (simp_all add: in_class_def)
      with cats show ?thesis by (auto simp: classes_of_def items_Inr)
    qed simp
    with ex True show ?thesis by (simp add: selected_def)
  qed
qed

section \<open>What the agent asks of COM\<close>

definition is_search :: "com_op \<Rightarrow> bool" where
  "is_search c \<longleftrightarrow> (\<exists>q. c = Search q)"

text \<open>Updates are touched only outside a dry run, and only those that \<open>ok\<close> holds for.\<close>

fun com_allowed :: "bool \<Rightarrow> (wua_update \<Rightarrow> bool) \<Rightarrow> com_op \<Rightarrow> bool" where
  "com_allowed dry ok (AcceptEula u) \<longleftrightarrow> \<not> dry \<and> ok u"
| "com_allowed dry ok (PutDownload us) \<longleftrightarrow> \<not> dry \<and> list_all ok us"
| "com_allowed dry ok Download \<longleftrightarrow> \<not> dry"
| "com_allowed dry ok (PutInstall us) \<longleftrightarrow> \<not> dry \<and> list_all ok us"
| "com_allowed dry ok Install \<longleftrightarrow> \<not> dry"
| "com_allowed dry ok _ \<longleftrightarrow> True"

text \<open>The operations from \<open>w\<close> to \<open>w'\<close> satisfy \<open>P\<close>, and at most \<open>n\<close> of them are searches.\<close>

definition asks :: "(com_op \<Rightarrow> bool) \<Rightarrow> nat \<Rightarrow> 'y win_machine \<Rightarrow> 'y win_machine \<Rightarrow> bool" where
  "asks P n w w' \<longleftrightarrow> (\<exists>ops. wn_com w' = wn_com w @ ops \<and> list_all (P \<circ> fst) ops \<and> length (filter (is_search \<circ> fst) ops) \<le> n)"

lemma asks_refl: "wn_com w' = wn_com w \<Longrightarrow> asks P n w w'"
  by (simp add: asks_def)

lemma asks_trans: "asks P n w w1 \<Longrightarrow> asks P m w1 w2 \<Longrightarrow> asks P (n + m) w w2"
  by (fastforce simp: asks_def)

lemma asks_more: "asks P n w w' \<Longrightarrow> n \<le> m \<Longrightarrow> asks P m w w'"
  unfolding asks_def by (meson le_trans)

text \<open>The same for an action, wherever it starts.\<close>

definition asking :: "(com_op \<Rightarrow> bool) \<Rightarrow> nat \<Rightarrow> ('y win_machine \<Rightarrow> 'a \<times> 'y win_machine) \<Rightarrow> bool" where
  "asking P n f \<longleftrightarrow> (\<forall>w. asks P n w (snd (f w)))"

named_theorems asking_intros

lemma asking_com: "P c \<Longrightarrow> asking P (if is_search c then 1 else 0) (com env c)"
  by (auto simp: asking_def com_def asks_def split: prod.splits)

lemma asking_coms: "list_all (\<lambda>c. P (snd c)) cs \<Longrightarrow> asking P (length (filter (\<lambda>c. is_search (snd c)) cs)) (coms env cs)"
proof (induction cs)
  case (Cons mc cs)
  obtain m c where mc: "mc = (m, c)" by fastforce
  let ?n = "if is_search c then 1 else 0 :: nat"
  have first: "asks P ?n w (snd (com env c w))" for w using asking_com [of P c env] Cons.prems by (simp add: asking_def mc)
  have rest: "asks P (length (filter (\<lambda>c. is_search (snd c)) cs)) w (snd (coms env cs w))" for w using Cons by (simp add: asking_def)
  show ?case
    unfolding asking_def
  proof
    fix w
    obtain e w1 where c: "com env c w = (e, w1)" by fastforce
    with first [of w] have f: "asks P ?n w w1" by simp
    show "asks P (length (filter (\<lambda>c. is_search (snd c)) (mc # cs))) w (snd (coms env (mc # cs) w))"
    proof (cases e)
      case None
      from asks_trans [OF f rest [of w1]] show ?thesis by (rule asks_more [elim_format]) (use c None in \<open>auto simp: mc\<close>)
    next
      case (Some x)
      with c f show ?thesis by (auto simp: mc intro: asks_more)
    qed
  qed
qed (simp add: asking_def asks_refl)

lemma asking_quiet [asking_intros]:
  "list_all (\<lambda>c. P (snd c) \<and> \<not> is_search (snd c)) cs \<Longrightarrow> asking P 0 (coms env cs)"
proof -
  assume q: "list_all (\<lambda>c. P (snd c) \<and> \<not> is_search (snd c)) cs"
  then have "filter (\<lambda>c. is_search (snd c)) cs = []" "list_all (\<lambda>c. P (snd c)) cs" by (auto simp: list_all_iff filter_empty_conv)
  with asking_coms [of P cs env] show ?thesis by simp
qed

lemma asking_then:
  assumes "asking P n f" "f w = (r, w1)" "asks P m w1 w2"
  shows "asks P (n + m) w w2"
proof -
  have "asks P n w w1" using assms(1,2) by (metis asking_def snd_conv)
  then show ?thesis using assms(3) by (rule asks_trans)
qed

lemma asking_end:
  assumes "asking P n f" "f w = (r, w1)"
  shows "asks P n w w1"
  using assms by (metis asking_def snd_conv)

lemma asking_step [asking_intros]:
  assumes "asking P 0 f" "asking P 0 g"
  shows "asking P 0 (step f g)"
  unfolding asking_def
proof
  fix w
  obtain e w1 where f: "f w = (e, w1)" by fastforce
  have "asks P 0 w1 (snd (g w1))" using assms(2) by (simp add: asking_def)
  from asking_then [OF assms(1) f this] asking_end [OF assms(1) f] f
  show "asks P 0 w (snd (step f g w))" by (cases e) (simp_all add: step_def)
qed

lemma asking_naming [asking_intros]:
  assumes "asking P 0 f"
  shows "asking P 0 (naming m f)"
  unfolding asking_def
proof
  fix w
  obtain e w1 where f: "f w = (e, w1)" by fastforce
  with asking_end [OF assms f] show "asks P 0 w (snd (naming m f w))" by (cases e) (simp_all add: naming_def)
qed

lemma asking_return [asking_intros]: "asking P 0 (\<lambda>w. (r, w))"
  by (simp add: asking_def asks_refl)

lemma InstallWUAUpdate_asks:
  assumes "ok u"
  shows "asking (com_allowed False ok) 0 (InstallWUAUpdate env u)"
proof (cases "wrap (property ''updt'' ''Title'') (up_title u)")
  case (Inl e)
  then have "InstallWUAUpdate env u = (\<lambda>w. (Some e, w))" by (intro ext) (simp add: InstallWUAUpdate_def)
  then show ?thesis by (simp add: asking_return)
next
  case (Inr title)
  then have "InstallWUAUpdate env u = step (coms env creating)
      (\<lambda>w. case wrap (property ''updt'' ''EulaAccepted'') (up_eula u) of
         Inl e \<Rightarrow> (Some e, w)
       | Inr eula \<Rightarrow>
           step (coms env (if eula = 0 then [(Named (''updt.CallMethod('' @ quote ''AcceptEula'' @ '')''), AcceptEula u)] else []))
           (step (coms env [adding [] u])
           (step (naming ''DownloadWUAUpdateCollection error'' (DownloadWUAUpdateCollection env [u]))
             (naming ''InstallWUAUpdateCollection error'' (InstallWUAUpdateCollection env [u])))) w)"
    by (intro ext) (simp only: InstallWUAUpdate_def Inr sum.case)
  moreover have "asking (com_allowed False ok) 0 (DownloadWUAUpdateCollection env [u])"
    "asking (com_allowed False ok) 0 (InstallWUAUpdateCollection env [u])"
    unfolding DownloadWUAUpdateCollection_def InstallWUAUpdateCollection_def using assms
    by (auto intro!: asking_quiet simp: is_search_def)
  moreover have "asking (com_allowed False ok) 0 (coms env creating)" "asking (com_allowed False ok) 0 (coms env [adding [] u])"
    by (auto intro!: asking_quiet simp: is_search_def creating_def adding_def)
  moreover have "asking (com_allowed False ok) 0 (coms env (if eula = 0 then [(m, AcceptEula u)] else []))" for eula :: int and m
    using assms by (auto intro!: asking_quiet simp: is_search_def)
  ultimately show ?thesis
    by (cases "wrap (property ''updt'' ''EulaAccepted'') (up_eula u)")
      (simp_all only: sum.case, (intro asking_step asking_naming asking_return; assumption)+)
qed

lemma NewUpdateSession_asks: "asking (com_allowed dry ok) 0 (NewUpdateSession env)"
  unfolding NewUpdateSession_def by (rule asking_quiet) (simp add: is_search_def)

lemma GetWUAUpdateCollection_asks:
  assumes "GetWUAUpdateCollection env q w = (r, w')"
  shows "asks (com_allowed dry ok) 1 w w'"
proof -
  let ?cs = "[(WithScode ''error calling CreateUpdateSearcher'', CreateSearcher),
    (WithScode ''error calling method Search on IUpdateSearcher'', Search q),
    (WithScode ''error calling GetProperty Updates on ISearchResult'', GetUpdates)]"
  have "asking (com_allowed dry ok) 1 (coms env ?cs)"
    using asking_coms [of "com_allowed dry ok" ?cs env] by (simp add: is_search_def)
  moreover have "w' = snd (coms env ?cs w)"
    using assms by (auto simp only: GetWUAUpdateCollection_def snd_conv split: prod.splits option.splits)
  ultimately show ?thesis by (simp only: asking_def)
qed

lemma filter_updates_facts:
  assumes "filter_updates env f acc us w = (r, w')"
  shows "asks (com_allowed dry ok) 0 w w'" "r = Inr xs \<Longrightarrow> set xs \<subseteq> set acc \<union> {u. f u = Inr True}"
proof -
  have "asks (com_allowed dry ok) 0 w w' \<and> (\<forall>xs. r = Inr xs \<longrightarrow> set xs \<subseteq> set acc \<union> {u. f u = Inr True})"
    using assms
  proof (induction env f acc us w rule: filter_updates.induct)
    case (3 env f acc u us w)
    show ?case
    proof (cases "f u")
      case (Inr b)
      show ?thesis
      proof (cases b)
        case True
        obtain e w1 where a: "coms env [adding acc u] w = (e, w1)" by fastforce
        have q: "asking (com_allowed dry ok) 0 (coms env [adding acc u])" by (auto intro!: asking_quiet simp: is_search_def adding_def)
        show ?thesis
        proof (cases e)
          case None
          have "asks (com_allowed dry ok) 0 w1 w'" "\<forall>xs. r = Inr xs \<longrightarrow> set xs \<subseteq> set (acc @ [u]) \<union> {u. f u = Inr True}"
            using 3(1) [OF Inr _ a [symmetric]] 3(1) True a None 3(3) Inr by (simp_all del: coms.simps)
          with asking_then [OF q a] Inr True show ?thesis by fastforce
        qed (use 3(3) Inr True a asking_end [OF q a] in \<open>auto simp del: coms.simps\<close>)
      qed (use 3 Inr in simp)
    qed (use 3 in \<open>auto simp: asks_refl\<close>)
  qed (auto simp: asks_refl)
  then show "asks (com_allowed dry ok) 0 w w'" "r = Inr xs \<Longrightarrow> set xs \<subseteq> set acc \<union> {u. f u = Inr True}" by auto
qed

text \<open>COM shows a collection that the agent built with no other updates than those that were added to it.\<close>

definition built_of :: "'y wua_env \<Rightarrow> bool" where
  "built_of env \<longleftrightarrow> (\<forall>us i u. co_item (wu_built env us) i = Inr u \<longrightarrow> u \<in> set us)"

lemma GetWUAUpdates_facts:
  assumes "GetWUAUpdates env cf (wc_excludes c) (wc_exclusive c) w = (r, w')" "built_of env"
  shows "asks (com_allowed dry ok) 1 w w'" "r = Inr col \<Longrightarrow> co_item col i = Inr u \<Longrightarrow> selected c cf u"
proof -
  obtain r1 w1 where g: "GetWUAUpdateCollection env ''IsInstalled=0 AND RebootRequired=0'' w = (r1, w1)" by fastforce
  note one = GetWUAUpdateCollection_asks [OF g, of dry ok]
  have "asks (com_allowed dry ok) 1 w w' \<and> (\<forall>col i u. r = Inr col \<longrightarrow> co_item col i = Inr u \<longrightarrow> selected c cf u)"
  proof (cases "\<exists>updts n. r1 = Inr updts \<and> \<not> (cf = [] \<and> wc_excludes c = [] \<and> wc_exclusive c = []) \<and> GetCount updts = Inr n")
    case False
    then show ?thesis using assms(1) g one
      by (auto simp: GetWUAUpdates_def selected_def split: sum.splits if_splits)
  next
    case True
    then obtain updts n where u: "r1 = Inr updts" "\<not> (cf = [] \<and> wc_excludes c = [] \<and> wc_exclusive c = [])" "GetCount updts = Inr n" by blast
    obtain e w2 where cr: "coms env creating w1 = (e, w2)" by fastforce
    have "asking (com_allowed dry ok) 0 (coms env creating)" by (auto intro!: asking_quiet simp: is_search_def creating_def)
    from asks_trans [OF one asking_end [OF this cr]] have two: "asks (com_allowed dry ok) 1 w w2" by simp
    show ?thesis
    proof (cases e)
      case (Some x)
      with assms(1) g u cr two show ?thesis by (auto simp: GetWUAUpdates_def)
    next
      case None
      obtain r3 w3 where f: "filter_updates env (\<lambda>u. checkFilters u (wc_excludes c) cf (wc_exclusive c)) []
          (named_items ''IUpdateCollection'' n updts) w2 = (r3, w3)" by fastforce
      have "asks (com_allowed dry ok) 1 w w3" using asks_trans [OF two filter_updates_facts(1) [OF f]] by simp
      moreover have "selected c cf u" if "r3 = Inr us" "u \<in> set us" for us u
        using filter_updates_facts(2) [OF f that(1)] that(2) checkFilters_selected by auto
      moreover have "w' = w3 \<and> r = (case r3 of Inl e \<Rightarrow> Inl e | Inr us \<Rightarrow> Inr (wu_built env us))"
        using assms(1) g u cr None f by (auto simp: GetWUAUpdates_def split: sum.splits)
      ultimately show ?thesis using assms(2) by (auto simp: built_of_def split: sum.splits)
    qed
  qed
  then show "asks (com_allowed dry ok) 1 w w'" "r = Inr col \<Longrightarrow> co_item col i = Inr u \<Longrightarrow> selected c cf u" by auto
qed

section \<open>The task\<close>

text \<open>Reporting to the service asks nothing of COM.\<close>

definition reports_apart :: "'y win_machine patch_env \<Rightarrow> bool" where
  "reports_apart penv \<longleftrightarrow> (\<forall>i st x. wn_com (snd (pe_progress penv i st x)) = wn_com x)"

lemma report_apart:
  assumes "patch_reportContinuingState penv st r w = (e, r', w')" "reports_apart penv"
  shows "wn_com (pw_rest w') = wn_com (pw_rest w)" "pt_dry_run r' = pt_dry_run r"
proof -
  have "snd (pw_lift (pe_progress penv (pt_id r) st) w) = w\<lparr>pw_rest := snd (pe_progress penv (pt_id r) st (pw_rest w))\<rparr>"
    by (simp add: pw_lift_def split: prod.splits)
  then have "wn_com (pw_rest (snd (pw_lift (pe_progress penv (pt_id r) st) w))) = wn_com (pw_rest w)"
    using assms(2) by (simp add: reports_apart_def)
  with assms(1) show "wn_com (pw_rest w') = wn_com (pw_rest w)"
    by (auto simp: patch_reportContinuingState_def Let_def split: prod.splits sum.splits if_splits dest: saveState_cases(4))
  show "pt_dry_run r' = pt_dry_run r"
    using report_frame(1) [OF assms(1)] by (metis persisted_fields(3))
qed

lemma asks_rest: "pw_lift f w = (x, w') \<Longrightarrow> asking P n f \<Longrightarrow> asks P n (pw_rest w) (pw_rest w')"
  by (auto simp: pw_lift_def asking_def split: prod.splits) (metis snd_conv)

lemma install_loop_asks:
  assumes "install_loop env penv n its i (r, w) = (res, r', w')" "reports_apart penv" "\<And>u. Inr u \<in> set its \<Longrightarrow> ok u"
  shows "asks (com_allowed False ok) 0 (pw_rest w) (pw_rest w') \<and> pt_dry_run r' = pt_dry_run r"
  using assms
proof (induction its arbitrary: i r w)
  case (Cons item its)
  obtain e r1 w1 where rep: "patch_reportContinuingState penv PP_APPLYING_PATCHES r w = (e, r1, w1)" by (metis prod_cases3)
  note q = report_apart [OF rep assms(2)]
  show ?case
  proof (cases "\<exists>u. e = None \<and> item = Inr u")
    case False
    with Cons.prems(1) rep have "r' = r1 \<and> w' = w1" by (auto split: option.splits sum.splits)
    with q show ?thesis by (simp add: asks_refl)
  next
    case True
    then obtain u where u: "e = None" "item = Inr u" by blast
    obtain e2 w2 where ins: "pw_lift (InstallWUAUpdate env u) w1 = (e2, w2)" by fastforce
    have "ok u" using Cons.prems(3) u by simp
    from asks_trans [OF asks_refl [OF q(1)] asks_rest [OF ins InstallWUAUpdate_asks [where ok = ok, OF this]]]
    have a: "asks (com_allowed False ok) 0 (pw_rest w) (pw_rest w2)" by simp
    show ?thesis
    proof (cases e2)
      case (Some x)
      with Cons.prems(1) rep u ins a q show ?thesis by auto
    next
      case None
      with Cons.prems(1) rep u ins have "install_loop env penv n its (i + 1) (r1, w2) = (res, r', w')" by simp
      from Cons.IH [OF this assms(2)] Cons.prems(3) asks_trans [OF a] q(2) show ?thesis by fastforce
    qed
  qed
qed (simp add: asks_refl)

lemma asks_mono:
  assumes "asks P n w w'" "\<And>c. P c \<Longrightarrow> Q c"
  shows "asks Q n w w'"
  using assms by (auto simp: asks_def list_all_iff)

lemma installWUAUpdates_asks:
  assumes "installWUAUpdates env penv c cf (r, w) = (res, r', w')" "reports_apart penv" "built_of env"
  shows "asks (com_allowed (pt_dry_run r) (selected c cf)) 1 (pw_rest w) (pw_rest w') \<and> pt_dry_run r' = pt_dry_run r"
proof -
  let ?P = "com_allowed (pt_dry_run r) (selected c cf)"
  obtain e w1 where ses: "pw_lift (NewUpdateSession env) w = (e, w1)" by fastforce
  have a1: "asks ?P 0 (pw_rest w) (pw_rest w1)" by (rule asks_rest [OF ses NewUpdateSession_asks])
  obtain g w2 where get: "pw_lift (GetWUAUpdates env cf (wc_excludes c) (wc_exclusive c)) w1 = (g, w2)" by fastforce
  then have get': "GetWUAUpdates env cf (wc_excludes c) (wc_exclusive c) (pw_rest w1) = (g, pw_rest w2)"
    by (auto simp: pw_lift_def split: prod.splits)
  from asks_trans [OF a1 GetWUAUpdates_facts(1) [OF get' assms(3)]] have a2: "asks ?P 1 (pw_rest w) (pw_rest w2)" by simp
  show ?thesis
  proof (cases "\<exists>updts n. e = None \<and> g = Inr updts \<and> GetCount updts = Inr n \<and> n \<noteq> 0 \<and> \<not> pt_dry_run r")
    case False
    then have "r' = r \<and> (w' = w1 \<or> w' = w2)"
      using assms(1) ses get by (auto simp: installWUAUpdates_def split: option.splits sum.splits if_splits)
    with a1 a2 show ?thesis by (auto intro: asks_more)
  next
    case True
    then obtain updts n where u: "e = None" "g = Inr updts" "GetCount updts = Inr n" "n \<noteq> 0" "\<not> pt_dry_run r" by blast
    then have l: "install_loop env penv n (named_items ''IUpdateCollection'' n updts) 0 (r, w2) = (res, r', w')"
      using assms(1) ses get by (simp add: installWUAUpdates_def)
    have "selected c cf v" if "Inr v \<in> set (named_items ''IUpdateCollection'' n updts)" for v
    proof -
      from named_items_Inr [OF that] obtain k where "co_item updts k = Inr v" by blast
      then show ?thesis by (rule GetWUAUpdates_facts(2) [OF get' assms(3) u(2)])
    qed
    from install_loop_asks [OF l assms(2) this] u(5) asks_trans [OF a2] show ?thesis by fastforce
  qed
qed

lemma wua_rounds_asks:
  assumes "wua_rounds env penv c cf k (r, w) = (res, r', w')" "reports_apart penv" "built_of env"
  shows "asks (com_allowed (pt_dry_run r) (selected c cf)) k (pw_rest w) (pw_rest w')"
  using assms
proof (induction k arbitrary: r w)
  case (Suc k)
  obtain e r1 w1 where rep: "patch_reportContinuingState penv PP_APPLYING_PATCHES r w = (e, r1, w1)" by (metis prod_cases3)
  note q = report_apart [OF rep assms(2)]
  obtain n e2 r2 w2 where ins: "installWUAUpdates env penv c cf (r1, w1) = ((n, e2), r2, w2)" by (metis surj_pair)
  let ?P = "com_allowed (pt_dry_run r) (selected c cf)"
  from installWUAUpdates_asks [OF ins assms(2,3)] q(2) have i: "asks ?P 1 (pw_rest w1) (pw_rest w2)" "pt_dry_run r2 = pt_dry_run r" by simp_all
  from asks_trans [OF asks_refl [OF q(1)] i(1)] have a: "asks ?P 1 (pw_rest w) (pw_rest w2)" by simp
  show ?case
  proof (cases "e = None \<and> (e2 \<noteq> None \<or> n \<noteq> 0)")
    case False
    with Suc.prems(1) rep ins have "w' = w1 \<or> w' = w2" by (auto split: option.splits if_splits)
    with a q(1) show ?thesis by (auto intro: asks_more asks_refl)
  next
    case True
    then obtain w3 where w3: "wua_rounds env penv c cf k (r2, w3) = (res, r', w')" "wn_com (pw_rest w3) = wn_com (pw_rest w2)"
      using Suc.prems(1) rep ins by (auto simp: pw_lift_def split: option.splits if_splits)
    from Suc.IH [OF w3(1) assms(2,3)] i(2) have "asks ?P k (pw_rest w3) (pw_rest w')" by simp
    from asks_trans [OF asks_refl [OF w3(2)] this, of 0] have "asks ?P k (pw_rest w2) (pw_rest w')" by simp
    from asks_trans [OF a this] show ?thesis by simp
  qed
qed (simp add: asks_refl)

text \<open>
  C36. Windows updates: of all that an update run asks of COM, it accepts, downloads and installs only updates that
  the task selects (one of the exclusive patches if there are any; otherwise none of the excluded
  articles and, with classifications given, in one of their classes); a dry run does none of these;
  an unknown classification asks nothing at all; and there are at most ten searches.
\<close>

theorem windows_patch_safe:
  assumes "runUpdates_windows env penv up googet_exists c (r, w) = (res, r', w')" "reports_apart penv" "built_of env"
  shows "\<exists>ops. wn_com (pw_rest w') = wn_com (pw_rest w) @ ops
    \<and> (\<forall>op \<in> set ops. com_allowed (pt_dry_run r) (\<lambda>u. \<exists>cf. classFilter (wc_classifications c) = Inr cf \<and> selected c cf u) (fst op))
    \<and> length (filter (is_search \<circ> fst) ops) \<le> 10
    \<and> (\<forall>e. classFilter (wc_classifications c) = Inl e \<longrightarrow> ops = [])"
proof -
  let ?ok = "\<lambda>u. \<exists>cf. classFilter (wc_classifications c) = Inr cf \<and> selected c cf u"
  have task: "asks (com_allowed (pt_dry_run r) ?ok) 10 (pw_rest w0) (pw_rest w')
      \<and> (\<forall>e. classFilter (wc_classifications c) = Inl e \<longrightarrow> wn_com (pw_rest w') = wn_com (pw_rest w0))"
    if t: "task_wuaUpdates env penv c (r0, w0) = (e, r', w')" "pt_dry_run r0 = pt_dry_run r" for r0 w0 e
  proof (cases "classFilter (wc_classifications c)")
    case (Inr cf)
    with t have "wua_rounds env penv c cf 10 (r0, w0) = (e, r', w')" by (simp add: task_wuaUpdates_def)
    from wua_rounds_asks [OF this assms(2,3)] t(2)
    have "asks (com_allowed (pt_dry_run r) (selected c cf)) 10 (pw_rest w0) (pw_rest w')" by simp
    then have "asks (com_allowed (pt_dry_run r) ?ok) 10 (pw_rest w0) (pw_rest w')"
    proof (rule asks_mono)
      fix op assume "com_allowed (pt_dry_run r) (selected c cf) op"
      then show "com_allowed (pt_dry_run r) ?ok op" using Inr by (cases op) (auto simp: list_all_iff)
    qed
    with Inr show ?thesis by simp
  qed (use t in \<open>auto simp: task_wuaUpdates_def asks_refl\<close>)
  have "\<exists>w0. wn_com (pw_rest w0) = wn_com (pw_rest w) \<and> (w' = w0 \<or> (\<exists>r0 e. task_wuaUpdates env penv c (r0, w0) = (e, r', w') \<and> pt_dry_run r0 = pt_dry_run r))"
  proof (cases googet_exists)
    case False
    with assms(1) show ?thesis by (auto simp: runUpdates_windows_def split: prod.splits)
  next
    case True
    obtain e r1 w1 where rep: "patch_reportContinuingState penv PP_APPLYING_PATCHES r w = (e, r1, w1)" by (metis prod_cases3)
    note q = report_apart [OF rep assms(2)]
    obtain o2 w2 where g: "pw_lift (on_machine_part (googet_updates up r1)) w1 = (o2, w2)" by fastforce
    then have "wn_com (pw_rest w2) = wn_com (pw_rest w1)" by (auto simp: pw_lift_def on_machine_part_def split: prod.splits)
    with q True assms(1) rep g show ?thesis
      by (auto simp: runUpdates_windows_def split: option.splits outcome.splits prod.splits)
  qed
  then obtain w0 where w0: "wn_com (pw_rest w0) = wn_com (pw_rest w)"
    "w' = w0 \<or> (\<exists>r0 e. task_wuaUpdates env penv c (r0, w0) = (e, r', w') \<and> pt_dry_run r0 = pt_dry_run r)" by blast
  then have "asks (com_allowed (pt_dry_run r) ?ok) 10 (pw_rest w0) (pw_rest w')
      \<and> (\<forall>e. classFilter (wc_classifications c) = Inl e \<longrightarrow> wn_com (pw_rest w') = wn_com (pw_rest w0))"
    using task by (auto intro: asks_refl)
  with w0(1) show ?thesis by (auto simp: asks_def list_all_iff)
qed

section \<open>A demonstration\<close>

text \<open>Two updates wait, one of them excluded; after an installation nothing waits. The state counts installations.\<close>

definition list_coll :: "'a list \<Rightarrow> 'a coll" where
  "list_coll xs = \<lparr>co_count = Inr (Some (int (length xs))), co_item = (\<lambda>i. if i < length xs then Inr (xs ! i) else Inl (ErrMsg ''no such item''))\<rparr>"

definition demo_wua :: "string \<Rightarrow> wua_update" where
  "demo_wua kb = \<lparr>up_title = Inr kb, up_description = Inr [], up_support = Inr [], up_eula = Inr 0, up_kbs = Inr (list_coll [kb]),
     up_categories = Inr (list_coll []), up_urls = Inr (list_coll []), up_changed = Inr 0, up_identity = Inr (Inr 1, Inr kb)\<rparr>"

definition demo_com :: "nat wua_env" where
  "demo_com = \<lparr>wu_com = (\<lambda>c n. (None, if c = Install then n + 1 else n)),
     wu_found = (\<lambda>n. list_coll (if n = 0 then [demo_wua ''1'', demo_wua ''2''] else [])), wu_built = list_coll,
     wu_date = Inr, wu_scode = (\<lambda>e. []), wu_sleep = (\<lambda>k n. n)\<rparr>"

definition demo_penv :: "nat win_machine patch_env" where
  "demo_penv = \<lparr>pe_progress = (\<lambda>i st x. (Inr False, x)), pe_complete = (\<lambda>i m out x. (None, x)), pe_now = (\<lambda>x. 0),
     pe_reboot_required = (\<lambda>x. (Inr False, x)), pe_updates = (\<lambda>r x. (Done None, x)), pe_reboot = (\<lambda>x. (None, x))\<rparr>"

definition demo_win :: windows_update where
  "demo_win = \<lparr>wc_classifications = [], wc_excludes = [''KB1''], wc_exclusive = []\<rparr>"

definition demo_win_task :: patch_task where
  "demo_win_task = (new_patch_task ''t'' default_config False)\<lparr>pt_last_progress := [PP_APPLYING_PATCHES \<mapsto> 100]\<rparr>"

lemma demo_report: "pt_last_progress r = [PP_APPLYING_PATCHES \<mapsto> 100] \<Longrightarrow> patch_reportContinuingState demo_penv PP_APPLYING_PATCHES r w = (None, r, w)"
  by (simp add: patch_reportContinuingState_def demo_penv_def patch_sameStateTimeWindow_def)

lemma demo_check: "checkFilters (demo_wua kb) [''KB1''] [] [] = Inr (kb \<noteq> ''1'')"
  by (simp add: checkFilters_def demo_wua_def wrap_def bind_res_def list_coll_def GetCount_def items_def kb_number_def)

lemma demo_com_fields [simp]:
  "up_title (demo_wua kb) = Inr kb" "up_eula (demo_wua kb) = Inr 0"
  "wu_found demo_com n = list_coll (if n = 0 then [demo_wua ''1'', demo_wua ''2''] else [])" "wu_built demo_com us = list_coll us"
  "wu_com demo_com c n = (None, if c = Install then n + 1 else n)"
  by (simp_all add: demo_com_def demo_wua_def)

lemma list_coll_simps [simp]:
  "GetCount (list_coll xs) = Inr (int (length xs))" "named_items obj (int (length xs)) (list_coll xs) = map Inr xs"
  by (auto simp: GetCount_def list_coll_def named_items_def wrap_def intro: nth_equalityI)

lemma demo_coms [simp]:
  "coms demo_com cs (w :: nat win_machine) = (None, w\<lparr>wn_machine := (wn_machine w)\<lparr>mc_rest := mc_rest (wn_machine w) + length (filter (\<lambda>c. snd c = Install) cs)\<rparr>,
     wn_com := wn_com w @ map (\<lambda>c. (snd c, True)) cs\<rparr>)"
  by (induction cs arbitrary: w) (auto simp: com_def)

definition demo_win_world :: "nat \<Rightarrow> (com_op \<times> bool) list \<Rightarrow> nat win_machine patch_world" where
  "demo_win_world n ops = \<lparr>pw_disk = \<lparr>dk_current = None, dk_old = None, dk_faults = []\<rparr>,
     pw_rest = \<lparr>wn_machine = \<lparr>mc_rest = n, mc_log = []\<rparr>, wn_com = ops\<rparr>, pw_labels = [], pw_sent = []\<rparr>"

lemma one_item: "named_items obj 1 (list_coll [x]) = [Inr x]" "named_items obj 2 (list_coll [x, y]) = [Inr x, Inr y]" "named_items obj 0 c = []"
  using list_coll_simps(2) [of obj "[x]"] list_coll_simps(2) [of obj "[x, y]"] by (simp_all add: named_items_def)

lemma demo_get: "pw_lift (GetWUAUpdates demo_com [] [''KB1''] []) (demo_win_world n ops) =
   (Inr (list_coll (if n = 0 then [demo_wua ''2''] else [])), demo_win_world n (ops @ [(CreateSearcher, True), (Search ''IsInstalled=0 AND RebootRequired=0'', True),
     (GetUpdates, True), (CreateCollection, True), (CollectionDispatch, True)]
     @ (if n = 0 then [(AddTo [] (demo_wua ''2''), True)] else [])))"
  by (simp del: coms.simps add: pw_lift_def demo_win_world_def GetWUAUpdates_def GetWUAUpdateCollection_def creating_def adding_def demo_check one_item)
lemma demo_inst: "pw_lift (InstallWUAUpdate demo_com (demo_wua kb)) (demo_win_world n ops) =
   (None, demo_win_world (n+1) (ops @ map (\<lambda>c. (c, True)) [CreateCollection, CollectionDispatch, AcceptEula (demo_wua kb), AddTo [] (demo_wua kb), CreateDownloader, PutDownload [demo_wua kb], Download, CreateInstaller, PutInstall [demo_wua kb], Install]))"
  by (simp del: coms.simps add: pw_lift_def demo_win_world_def InstallWUAUpdate_def wrap_def step_def naming_def creating_def adding_def DownloadWUAUpdateCollection_def InstallWUAUpdateCollection_def)
lemma demo_session: "pw_lift (NewUpdateSession demo_com) (demo_win_world n ops) = (None, demo_win_world n (ops @ map (\<lambda>c. (c, True)) [InitCom, CreateSession, SessionDispatch]))"
  by (simp del: coms.simps add: pw_lift_def demo_win_world_def NewUpdateSession_def)

lemma demo_installs:
  assumes "pt_last_progress r = [PP_APPLYING_PATCHES \<mapsto> 100]" "\<not> pt_dry_run r"
  shows "\<exists>more. installWUAUpdates demo_com demo_penv demo_win [] (r, demo_win_world 0 ops) = ((1, None), r, demo_win_world 1 (ops @ more))
      \<and> (Install, True) \<in> set more"
    "\<exists>more. installWUAUpdates demo_com demo_penv demo_win [] (r, demo_win_world 1 ops) = ((0, None), r, demo_win_world 1 (ops @ more))"
  using assms by (simp_all del: coms.simps add: installWUAUpdates_def demo_session demo_get demo_inst one_item demo_report demo_win_def)
    (rule exI, rule conjI, rule refl, simp, rule exI, rule refl)

lemma demo_windows:
  "\<exists>ops. runUpdates_windows demo_com demo_penv up False demo_win (demo_win_task, demo_win_world 0 []) = (Done None, demo_win_task, demo_win_world 1 ops)
    \<and> (Install, True) \<in> set ops"
proof -
  have r: "pt_last_progress demo_win_task = [PP_APPLYING_PATCHES \<mapsto> 100]" "\<not> pt_dry_run demo_win_task"
    by (simp_all add: demo_win_task_def new_patch_task_def)
  obtain more where 1: "installWUAUpdates demo_com demo_penv demo_win [] (demo_win_task, demo_win_world 0 [])
      = ((1, None), demo_win_task, demo_win_world 1 more)" "(Install, True) \<in> set more"
    using demo_installs(1) [OF r, of "[]"] by auto
  obtain more2 where 2: "installWUAUpdates demo_com demo_penv demo_win [] (demo_win_task, demo_win_world 1 more)
      = ((0, None), demo_win_task, demo_win_world 1 (more @ more2))"
    using demo_installs(2) [OF r] by blast
  have "wua_rounds demo_com demo_penv demo_win [] (Suc (Suc 8)) (demo_win_task, demo_win_world 0 [])
      = (None, demo_win_task, demo_win_world 1 (more @ more2))"
    by (simp only: wua_rounds.simps demo_report [OF r(1)] 1(1) 2 prod.case option.case) simp
  then show ?thesis using 1(2)
    by (intro exI [of _ "more @ more2"]) (simp add: runUpdates_windows_def task_wuaUpdates_def demo_win_def)
qed

corollary windows_patch_safe_witness:
  "\<forall>up. \<exists>r' w' ops. runUpdates_windows demo_com demo_penv up False demo_win (demo_win_task, demo_win_world 0 []) = (Done None, r', w')
    \<and> wn_com (pw_rest w') = ops \<and> (Install, True) \<in> set ops
    \<and> list_all (\<lambda>op. com_allowed False (\<lambda>u. \<exists>cf. classFilter [] = Inr cf \<and> selected demo_win cf u) (fst op)) ops"
proof
  fix up :: "nat updater"
  obtain ops where ops: "runUpdates_windows demo_com demo_penv up False demo_win (demo_win_task, demo_win_world 0 [])
      = (Done None, demo_win_task, demo_win_world 1 ops)" "(Install, True) \<in> set ops" using demo_windows by blast
  have "reports_apart demo_penv" "built_of demo_com"
    by (auto simp: reports_apart_def demo_penv_def built_of_def list_coll_def split: if_splits)
  from windows_patch_safe [OF ops(1) this] ops
  show "\<exists>r' w' ops. runUpdates_windows demo_com demo_penv up False demo_win (demo_win_task, demo_win_world 0 []) = (Done None, r', w')
    \<and> wn_com (pw_rest w') = ops \<and> (Install, True) \<in> set ops
    \<and> list_all (\<lambda>op. com_allowed False (\<lambda>u. \<exists>cf. classFilter [] = Inr cf \<and> selected demo_win cf u) (fst op)) ops"
    by (auto simp: list_all_iff demo_win_world_def demo_win_def demo_win_task_def new_patch_task_def)
qed

end
