(* ===== verification/Providers.thy ===== *)
theory Providers
  imports Inventory AgentConfig
begin

text \<open>
  The providers of the installed packages: the scalibr scanner (\<open>packages/scalibr.go\<close>), Windows
  (\<open>packages/packages_windows.go\<close>, \<open>qfe_windows.go\<close>, \<open>windows_application_windows.go\<close>), the traced
  provider (\<open>packages/trace.go\<close>), and how the settings choose one (\<open>packages/packages_linux.go\<close>,
  \<open>packages/packages_windows.go\<close>, \<open>inventory.NewProvider\<close>).

  \<^item> \<open>scanner\<close> is the scalibr library: default roots and directories, the plugins of a list of names, the scan.
    A package of a scan is an \<open>extractor_package\<close>, whose metadata is the \<open>scan_metadata\<close> that the type switch reads.
  \<^item> \<open>win_tools\<close> is a Windows machine: the runner, the registry, WMI, the decoder of what the
    \<open>wuaupdates\<close> process prints, and the time zone (the offset at a time, and the interval where it applies).
\<close>

section \<open>scalibr.go\<close>

datatype scan_metadata =
    DpkgMetadata string string string
  | RpmMetadata string int string
  | CosMetadata string
  | SnapMetadata "string list"
  | ChocolateyMetadata
  | WingetMetadata
  | OtherMetadata

record extractor_package =
  ep_name :: string
  ep_version :: string
  ep_purl :: string
  ep_locations :: "string list option"
  ep_metadata :: scan_metadata

datatype scan_status = ScanUnspecified | ScanSucceeded | ScanPartiallySucceeded | ScanFailed

record scan_result =
  sr_status :: "scan_status option"
  sr_plugins :: "(string \<times> scan_status option) list"
  sr_packages :: "extractor_package list"

record 'l scan_config =
  sc_plugins :: 'l
  sc_roots :: "string list"
  sc_skip :: "string list"

record ('l, 'x) scanner =
  sl_roots :: "'x \<Rightarrow> string list res \<times> 'x"
  sl_plugins :: "string list \<Rightarrow> 'l res"
  sl_skip :: "'x \<Rightarrow> string list res \<times> 'x"
  sl_scan :: "'l scan_config \<Rightarrow> 'x \<Rightarrow> scan_result option \<times> 'x"

record scalibr_provider =
  sp_extractors :: "string list"
  sp_roots :: "string list option"
  sp_skip :: "string list option"

definition typeSnap :: string where "typeSnap = ''snap''"

definition or_else :: "string \<Rightarrow> string \<Rightarrow> string" where
  "or_else d s = (if s = [] then d else s)"

definition extracted :: "extractor_package \<Rightarrow> string \<Rightarrow> string \<Rightarrow> string \<Rightarrow> string \<Rightarrow> pkg_info" where
  "extracted p name version arch type = (new_pkg name arch version type)\<lparr>pi_purl := ep_purl p, pi_location := ep_locations p\<rparr>"

definition pkgInfoFromDpkgExtractorPackage :: "extractor_package \<Rightarrow> string \<Rightarrow> string \<Rightarrow> string \<Rightarrow> pkg_info" where
  "pkgInfoFromDpkgExtractorPackage p source_name source_version arch =
     (extracted p (ep_name p) (ep_version p) (NormalizeArchitecture arch) typeDebian)
       \<lparr>pi_source_name := or_else (ep_name p) source_name, pi_source_version := or_else (ep_version p) source_version\<rparr>"

definition pkgInfoFromRpmExtractorPackage :: "extractor_package \<Rightarrow> string \<Rightarrow> int \<Rightarrow> string \<Rightarrow> pkg_info" where
  "pkgInfoFromRpmExtractorPackage p source epoch arch =
     (extracted p (ep_name p) (if epoch \<noteq> 0 then show_int epoch @ '':'' @ ep_version p else ep_version p)
        (NormalizeArchitecture (or_else ''noarch'' arch)) typeRPM)
       \<lparr>pi_source_name := or_else (ep_name p) source\<rparr>"

definition pkgInfoFromCosExtractorPackage :: "extractor_package \<Rightarrow> string \<Rightarrow> os_info \<Rightarrow> pkg_info" where
  "pkgInfoFromCosExtractorPackage p category os =
     extracted p (category @ ''/'' @ ep_name p) (ep_version p) (oi_arch os) typeCos"

text \<open>\<open>metadata.Architectures[0]\<close> of an empty list is out of range.\<close>

definition pkgInfoFromSnapExtractorPackage :: "extractor_package \<Rightarrow> string list \<Rightarrow> string \<Rightarrow> pkg_info outcome" where
  "pkgInfoFromSnapExtractorPackage p archs default_arch =
     (case archs of
        [] \<Rightarrow> Panic ''index out of range''
      | a # _ \<Rightarrow> Done (extracted p (ep_name p) (ep_version p) (NormalizeArchitecture (or_else default_arch a)) typeSnap))"

definition pkgInfoFromGenericExtractorPackage :: "extractor_package \<Rightarrow> string \<Rightarrow> string \<Rightarrow> pkg_info" where
  "pkgInfoFromGenericExtractorPackage p type arch = extracted p (ep_name p) (ep_version p) arch type"

definition empty_packages :: all_packages where
  "empty_packages = on_linux no_packages"

definition add_extracted :: "os_info \<Rightarrow> extractor_package \<Rightarrow> all_packages \<Rightarrow> all_packages outcome" where
  "add_extracted os p ps =
     (case ep_metadata p of
        DpkgMetadata n v a \<Rightarrow> Done (ps\<lparr>ps_deb := ps_deb ps @ [pkgInfoFromDpkgExtractorPackage p n v a]\<rparr>)
      | RpmMetadata s e a \<Rightarrow> Done (ps\<lparr>ps_rpm := ps_rpm ps @ [pkgInfoFromRpmExtractorPackage p s e a]\<rparr>)
      | CosMetadata c \<Rightarrow> Done (ps\<lparr>ps_cos := ps_cos ps @ [pkgInfoFromCosExtractorPackage p c os]\<rparr>)
      | SnapMetadata archs \<Rightarrow>
          obind (pkgInfoFromSnapExtractorPackage p archs (oi_arch os)) (\<lambda>i. Done (ps\<lparr>ps_snap := ps_snap ps @ [i]\<rparr>))
      | ChocolateyMetadata \<Rightarrow>
          Done (ps\<lparr>ps_chocolatey := ps_chocolatey ps @ [pkgInfoFromGenericExtractorPackage p ''chocolatey'' (oi_arch os)]\<rparr>)
      | WingetMetadata \<Rightarrow> Done (ps\<lparr>ps_winget := ps_winget ps @ [pkgInfoFromGenericExtractorPackage p ''winget'' (oi_arch os)]\<rparr>)
      | OtherMetadata \<Rightarrow> Done ps)"

fun add_all_extracted :: "os_info \<Rightarrow> extractor_package list \<Rightarrow> all_packages \<Rightarrow> all_packages outcome" where
  "add_all_extracted os [] ps = Done ps"
| "add_all_extracted os (p # rest) ps = obind (add_extracted os p ps) (add_all_extracted os rest)"

definition pkgInfosFromExtractorPackages :: "scan_result \<Rightarrow> os_info \<Rightarrow> all_packages outcome" where
  "pkgInfosFromExtractorPackages scan os = add_all_extracted os (sr_packages scan) empty_packages"

text \<open>The defaults are asked for only where the provider has none; the plugins are made in between.\<close>

definition default_or :: "string list option \<Rightarrow> ('x \<Rightarrow> string list res \<times> 'x) \<Rightarrow> 'x \<Rightarrow> string list res \<times> 'x" where
  "default_or given ask x = (case given of Some ps \<Rightarrow> (Inr ps, x) | None \<Rightarrow> ask x)"

definition getScanConfig :: "('l, 'x) scanner \<Rightarrow> scalibr_provider \<Rightarrow> 'x \<Rightarrow> 'l scan_config res \<times> 'x" where
  "getScanConfig lib p x =
     (case default_or (sp_roots p) (sl_roots lib) x of
        (Inl e, x1) \<Rightarrow> (Inl e, x1)
      | (Inr roots, x1) \<Rightarrow>
          (case sl_plugins lib (sp_extractors p) of
             Inl e \<Rightarrow> (Inl e, x1)
           | Inr plugins \<Rightarrow>
               (case default_or (sp_skip p) (sl_skip lib) x1 of
                  (Inl e, x2) \<Rightarrow> (Inl e, x2)
                | (Inr skip, x2) \<Rightarrow> (Inr \<lparr>sc_plugins = plugins, sc_roots = roots, sc_skip = skip\<rparr>, x2))))"

definition scanFailed :: "scan_result option \<Rightarrow> bool" where
  "scanFailed scan =
     (case scan of
        None \<Rightarrow> True
      | Some r \<Rightarrow> (case sr_status r of None \<Rightarrow> True | Some st \<Rightarrow> st = ScanFailed))"

definition failedExtractors :: "(string \<times> scan_status option) list \<Rightarrow> string list" where
  "failedExtractors ps = map fst (filter (\<lambda>p. snd p \<noteq> Some ScanSucceeded) ps)"

text \<open>The error, and the extractors that the warning names, if there is one.\<close>

definition handleScanStatus :: "scan_result option \<Rightarrow> go_error option \<times> string list option" where
  "handleScanStatus scan =
     (if scanFailed scan then (Some (ErrMsg ''failed to extract inventory via scalibr''), None)
      else (case scan of
              Some r \<Rightarrow> (None, if sr_status r = Some ScanPartiallySucceeded then Some (failedExtractors (sr_plugins r)) else None)
            | None \<Rightarrow> (None, None)))"

text \<open>The patches of zypper come from the older extractor.\<close>

definition with_zypper_patches :: "'x tools \<Rightarrow> all_packages \<Rightarrow> 'x machine \<Rightarrow> (all_packages \<times> go_error option) outcome \<times> 'x machine" where
  "with_zypper_patches env ps m =
     (if \<not> tl_zypper env then (Done (ps, None), m)
      else (case ZypperInstalledPatches env default_zypper_opts m of
              (Inl e, m1) \<Rightarrow> (Done (ps, Some (ErrMsg (''error getting zypper installed patches: '' @ err_text e))), m1)
            | (Inr zs, m1) \<Rightarrow> (Done (ps\<lparr>ps_zypper_patches := zs\<rparr>, None), m1)))"

definition scalibr_installed :: "('l, 'x) scanner \<Rightarrow> 'x tools \<Rightarrow> scalibr_provider \<Rightarrow> os_info res \<Rightarrow> 'x packages_provider" where
  "scalibr_installed lib env p oi m =
     (case getScanConfig lib p (mc_rest m) of
        (Inl e, x1) \<Rightarrow> (Done (empty_packages, Some e), m\<lparr>mc_rest := x1\<rparr>)
      | (Inr cfg, x1) \<Rightarrow>
          (case sl_scan lib cfg x1 of
             (scan, x2) \<Rightarrow>
               (case (fst (handleScanStatus scan), scan, oi) of
                  (Some e, _, _) \<Rightarrow> (Done (empty_packages, Some e), m\<lparr>mc_rest := x2\<rparr>)
                | (None, _, Inl e) \<Rightarrow> (Done (empty_packages, Some e), m\<lparr>mc_rest := x2\<rparr>)
                | (None, None, Inr os) \<Rightarrow> (Panic ''nil dereference'', m\<lparr>mc_rest := x2\<rparr>)
                | (None, Some r, Inr os) \<Rightarrow>
                    (case pkgInfosFromExtractorPackages r os of
                       Panic c \<Rightarrow> (Panic c, m\<lparr>mc_rest := x2\<rparr>)
                     | Done ps \<Rightarrow> with_zypper_patches env ps (m\<lparr>mc_rest := x2\<rparr>)))))"

section \<open>trace.go\<close>

text \<open>The tracer starts before the provider that it wraps and is stopped after it; what it measured is logged.\<close>

definition traced :: "('x \<Rightarrow> 'x) \<Rightarrow> ('x \<Rightarrow> 'x) \<Rightarrow> 'x packages_provider \<Rightarrow> 'x packages_provider" where
  "traced start stop provider m =
     (case provider (m\<lparr>mc_rest := start (mc_rest m)\<rparr>) of
        (Panic c, m1) \<Rightarrow> (Panic c, m1)
      | (Done r, m1) \<Rightarrow> (Done r, m1\<lparr>mc_rest := stop (mc_rest m1)\<rparr>))"

section \<open>The choice of a provider\<close>

text \<open>Linux: three extractors, then those the settings allow, each once.\<close>

definition linux_extractors :: "string list" where
  "linux_extractors = [''os/cos'', ''os/dpkg'', ''os/rpm'']"

definition extend_extractors :: "string list \<Rightarrow> string list \<Rightarrow> string list" where
  "extend_extractors es allowed = foldl (\<lambda>es e. if e \<in> set es then es else es @ [e]) es allowed"

definition chosen_extractors :: "agent_config \<Rightarrow> string list" where
  "chosen_extractors c =
     (if ExtendedInventoryEnabled c then extend_extractors linux_extractors (ExtendedInventoryExtractorsAllowed c)
      else linux_extractors)"

definition NewInstalledPackagesProvider :: "agent_config \<Rightarrow> ('l, 'x) scanner \<Rightarrow> 'x tools \<Rightarrow> os_info res \<Rightarrow> 'x packages_provider" where
  "NewInstalledPackagesProvider c lib env oi =
     (if ScalibrLinuxEnabled c
      then scalibr_installed lib env \<lparr>sp_extractors = chosen_extractors c, sp_roots = None, sp_skip = None\<rparr> oi
      else (\<lambda>m. linux_packages (GetInstalledPackages env oi m)))"

definition new_inventory_provider :: "agent_config \<Rightarrow> os_info res \<Rightarrow> 'x packages_provider \<Rightarrow> 'x packages_provider
    \<Rightarrow> ('x \<Rightarrow> 'x) \<Rightarrow> ('x \<Rightarrow> 'x) \<Rightarrow> ('x \<Rightarrow> string) \<Rightarrow> 'x inventory_provider" where
  "new_inventory_provider c oi installed updates start stop clock =
     \<lparr>ip_os = oi, ip_updates = updates,
      ip_installed = (if TraceGetInventory c then traced start stop installed else installed), ip_clock = clock\<rparr>"

definition linux_inventory_provider :: "agent_config \<Rightarrow> ('l, 'x) scanner \<Rightarrow> 'x tools \<Rightarrow> os_info res
    \<Rightarrow> ('x \<Rightarrow> 'x) \<Rightarrow> ('x \<Rightarrow> 'x) \<Rightarrow> ('x \<Rightarrow> string) \<Rightarrow> 'x inventory_provider" where
  "linux_inventory_provider c lib env oi start stop clock =
     new_inventory_provider c oi (NewInstalledPackagesProvider c lib env oi)
       (\<lambda>m. linux_packages (GetPackageUpdates env oi m)) start stop clock"

section \<open>packages_windows.go\<close>

text \<open>A registry key that can be read: its sub keys, and the strings of a sub key that can be opened.\<close>

record dir_key =
  dk_names :: "string list res"
  dk_open :: "string \<Rightarrow> (string \<Rightarrow> string res) res"

record qfe_row =
  qr_caption :: string
  qr_description :: string
  qr_hotfix :: string
  qr_installed_on :: string

record 'x win_tools =
  wt_tools :: "'x tools"
  wt_exe :: "'x \<Rightarrow> string res"
  wt_wua_json :: "string \<Rightarrow> wua_package list res"
  wt_googet_at_start :: bool
  wt_exists :: "string \<Rightarrow> 'x \<Rightarrow> bool"
  wt_wmi :: "string \<Rightarrow> 'x \<Rightarrow> qfe_row list res \<times> 'x"
  wt_registry :: "'x \<Rightarrow> string \<Rightarrow> dir_key res"
  wt_zone :: "int \<Rightarrow> int \<times> int \<times> int"

definition wuaUpdates :: "'x win_tools \<Rightarrow> string \<Rightarrow> 'x machine \<Rightarrow> wua_package list res \<times> 'x machine" where
  "wuaUpdates env query m =
     (case wt_exe env (mc_rest m) of
        Inl e \<Rightarrow> (Inl e, m)
      | Inr exe \<Rightarrow>
          (case runner_run (wt_tools env) (cmd exe [''wuaupdates'', query]) m of
             ((out, eout, Some e), m1) \<Rightarrow>
               (Inl (ErrMsg (''error running agent to query for WUA updates, err: '' @ err_text e @ '', stderr: '' @ quote eout @ '' '')), m1)
           | ((out, eout, None), m1) \<Rightarrow> (wt_wua_json env out, m1)))"

definition qfe_query :: string where
  "qfe_query = ''SELECT Caption, Description, HotFixID, InstalledOn FROM Win32_QuickFixEngineering''"

definition QuickFixEngineering :: "'x win_tools \<Rightarrow> 'x machine \<Rightarrow> qfe_package list res \<times> 'x machine" where
  "QuickFixEngineering env m =
     (case wt_wmi env qfe_query (mc_rest m) of
        (Inl e, x) \<Rightarrow> (Inl (ErrMsg (''wmi.Query('' @ quote qfe_query @ '') error: '' @ err_text e)), m\<lparr>mc_rest := x\<rparr>)
      | (Inr rows, x) \<Rightarrow>
          (Inr (map (\<lambda>r. \<lparr>qf_caption = qr_caption r, qf_description = qr_description r, qf_hotfix = qr_hotfix r,
             qf_installed_on = qr_installed_on r, qf_purl = []\<rparr>) rows), m\<lparr>mc_rest := x\<rparr>))"

section \<open>windows_application_windows.go\<close>

text \<open>\<open>time.Date\<close> at midnight in a zone. A month outside 1 to 12 carries into the year; a day is added as it is.\<close>

definition leap_year :: "int \<Rightarrow> bool" where
  "leap_year y \<longleftrightarrow> y mod 4 = 0 \<and> (y mod 100 \<noteq> 0 \<or> y mod 400 = 0)"

definition days_before_year :: "int \<Rightarrow> int" where
  "days_before_year y = 365 * (y - 1) + (y - 1) div 4 - (y - 1) div 100 + (y - 1) div 400"

definition days_before_month :: "int \<Rightarrow> int \<Rightarrow> int" where
  "days_before_month y mo =
     [0, 31, 59, 90, 120, 151, 181, 212, 243, 273, 304, 334] ! nat mo + (if leap_year y \<and> 2 \<le> mo then 1 else 0)"

definition civil_days :: "int \<Rightarrow> int \<Rightarrow> int \<Rightarrow> int" where
  "civil_days year month day =
     (let y = year + (month - 1) div 12; mo = (month - 1) mod 12
      in days_before_year y + days_before_month y mo + day - 1 - 719162)"

definition time_date :: "(int \<Rightarrow> int \<times> int \<times> int) \<Rightarrow> int \<Rightarrow> int \<Rightarrow> int \<Rightarrow> int" where
  "time_date zone year month day =
     (let unix = civil_days year month day * 86400 in
      case zone unix of
        (offset, from, until) \<Rightarrow>
          if offset = 0 then unix
          else if unix - offset < from \<or> until \<le> unix - offset then unix - fst (zone (unix - offset))
          else unix - offset)"

definition parseDate :: "(int \<Rightarrow> int \<times> int \<times> int) \<Rightarrow> string \<Rightarrow> int" where
  "parseDate zone s =
     (if length s \<noteq> 8 then zero_time
      else case (parse_int 10 32 (take 4 s), parse_int 10 32 (take 2 (drop 4 s)), parse_int 10 32 (drop 6 s)) of
             (Some year, Some month, Some day) \<Rightarrow> time_date zone year month day
           | _ \<Rightarrow> zero_time)"

definition value_of :: "string res \<Rightarrow> string" where
  "value_of r = (case r of Inl e \<Rightarrow> [] | Inr s \<Rightarrow> s)"

definition getWindowsApplication :: "(int \<Rightarrow> int \<times> int \<times> int) \<Rightarrow> (string \<Rightarrow> string res) \<Rightarrow> windows_application option" where
  "getWindowsApplication zone key =
     (case (key ''DisplayName'', key ''UninstallString'') of
        (Inr name, Inr _) \<Rightarrow>
          Some \<lparr>wa_name = name, wa_version = value_of (key ''DisplayVersion''), wa_date = parseDate zone (value_of (key ''InstallDate'')),
            wa_publisher = value_of (key ''Publisher''), wa_help = value_of (key ''HelpLink''), wa_purl = []\<rparr>
      | _ \<Rightarrow> None)"

definition sub_application :: "(int \<Rightarrow> int \<times> int \<times> int) \<Rightarrow> dir_key \<Rightarrow> string \<Rightarrow> windows_application option" where
  "sub_application zone dir name = (case dk_open dir name of Inl e \<Rightarrow> None | Inr key \<Rightarrow> getWindowsApplication zone key)"

definition getWindowsApplications :: "(int \<Rightarrow> int \<times> int \<times> int) \<Rightarrow> (string \<Rightarrow> dir_key res) \<Rightarrow> string \<Rightarrow> windows_application list res" where
  "getWindowsApplications zone registry directory =
     (case registry directory of
        Inl e \<Rightarrow> Inl e
      | Inr dir \<Rightarrow> map_sum id (List.map_filter (sub_application zone dir)) (dk_names dir))"

definition application_directories :: "string list" where
  "application_directories =
     [windows_path [''SOFTWARE'', ''Microsoft'', ''Windows'', ''CurrentVersion'', ''Uninstall''],
      windows_path [''SOFTWARE'', ''Wow6432Node'', ''Microsoft'', ''Windows'', ''CurrentVersion'', ''Uninstall'']]"

text \<open>A directory that cannot be read is logged and left out; there is no error.\<close>

definition GetWindowsApplications :: "(int \<Rightarrow> int \<times> int \<times> int) \<Rightarrow> (string \<Rightarrow> dir_key res) \<Rightarrow> windows_application list res" where
  "GetWindowsApplications zone registry =
     Inr (concat (map (\<lambda>d. case getWindowsApplications zone registry d of Inl e \<Rightarrow> [] | Inr apps \<Rightarrow> apps) application_directories))"

section \<open>The lists of a Windows machine\<close>

definition purlNamespace :: string where "purlNamespace = ''microsoft''"

definition enrichGooget :: "'x tools \<Rightarrow> pkg_info list \<Rightarrow> pkg_info list" where
  "enrichGooget env = map (\<lambda>p. p\<lparr>pi_purl := tl_purl env (pi_type p) purlNamespace (pi_name p) (pi_version p) []\<rparr>)"

definition enrichWua :: "'x tools \<Rightarrow> wua_package list \<Rightarrow> wua_package list" where
  "enrichWua env = map (\<lambda>p. p\<lparr>wu_purl := tl_purl env ''generic'' purlNamespace (wu_title p) (wu_update_id p) []\<rparr>)"

definition enrichQfe :: "'x tools \<Rightarrow> qfe_package list \<Rightarrow> qfe_package list" where
  "enrichQfe env = map (\<lambda>p. p\<lparr>qf_purl := tl_purl env ''generic'' purlNamespace (qf_caption p) (qf_hotfix p) []\<rparr>)"

definition enrichApplications :: "'x tools \<Rightarrow> windows_application list \<Rightarrow> windows_application list" where
  "enrichApplications env =
     map (\<lambda>p. p\<lparr>wa_purl := tl_purl env ''generic'' purlNamespace (wa_name p) (wa_version p) [(''publisher'', wa_publisher p)]\<rparr>)"

definition windows_result :: "(all_packages \<times> string list) outcome \<Rightarrow> (all_packages \<times> go_error option) outcome" where
  "windows_result r =
     obind r (\<lambda>(ps, errs). Done (ps, if errs \<noteq> [] then Some (ErrMsg (join [CHR 0x0A] errs)) else None))"

definition windows_updates :: "'x win_tools \<Rightarrow> 'x packages_provider" where
  "windows_updates env m =
     (case section_of True ''error listing installed Windows updates'' (sure (wuaUpdates env ''IsInstalled=0''))
             (\<lambda>a ps. ps\<lparr>ps_wua := enrichWua (wt_tools env) a\<rparr>)
          (section_of (wt_googet_at_start env) ''error listing googet updates'' (sure (GooGetUpdates (wt_tools env)))
             (\<lambda>a ps. ps\<lparr>ps_googet := enrichGooget (wt_tools env) a\<rparr>)
          (Done (empty_packages, []), m)) of
        (r, m1) \<Rightarrow> (windows_result r, m1))"

definition windows_installed :: "'x win_tools \<Rightarrow> 'x packages_provider" where
  "windows_installed env m =
     (case section_of True ''error listing installed Windows Applications''
             (sure (\<lambda>m. (GetWindowsApplications (wt_zone env) (wt_registry env (mc_rest m)), m)))
             (\<lambda>a ps. ps\<lparr>ps_apps := enrichApplications (wt_tools env) a\<rparr>)
          (section_of True ''error listing installed QuickFixEngineering updates'' (sure (QuickFixEngineering env))
             (\<lambda>a ps. ps\<lparr>ps_qfe := enrichQfe (wt_tools env) a\<rparr>)
          (section_of True ''error listing installed Windows updates'' (sure (wuaUpdates env ''IsInstalled=1''))
             (\<lambda>a ps. ps\<lparr>ps_wua := enrichWua (wt_tools env) a\<rparr>)
          (section_of (wt_exists env googet (mc_rest m)) ''error listing installed googet packages'' (sure (InstalledGooGetPackages (wt_tools env)))
             (\<lambda>a ps. ps\<lparr>ps_googet := enrichGooget (wt_tools env) a\<rparr>)
          (Done (empty_packages, []), m)))) of
        (r, m1) \<Rightarrow> (windows_result r, m1))"

text \<open>Windows: only the extractors that the settings allow, or the default provider.\<close>

definition windows_provider :: "agent_config \<Rightarrow> ('l, 'x) scanner \<Rightarrow> 'x win_tools \<Rightarrow> os_info res \<Rightarrow> 'x packages_provider" where
  "windows_provider c lib env oi =
     (if ExtendedInventoryEnabled c
      then scalibr_installed lib (wt_tools env) \<lparr>sp_extractors = ExtendedInventoryExtractorsAllowed c, sp_roots = None, sp_skip = None\<rparr> oi
      else windows_installed env)"

definition windows_inventory_provider :: "agent_config \<Rightarrow> ('l, 'x) scanner \<Rightarrow> 'x win_tools \<Rightarrow> os_info res
    \<Rightarrow> ('x \<Rightarrow> 'x) \<Rightarrow> ('x \<Rightarrow> 'x) \<Rightarrow> ('x \<Rightarrow> string) \<Rightarrow> 'x inventory_provider" where
  "windows_inventory_provider c lib env oi start stop clock =
     new_inventory_provider c oi (windows_provider c lib env oi) (windows_updates env) start stop clock"

end
