(* ===== verification/ProviderFacts.thy ===== *)
theory ProviderFacts
  imports Providers
begin

text \<open>
  Facts about the providers of packages: what a scan becomes and when it stops the agent, that a scan which failed
  is never reported as an empty machine, which extractors are used, that one failing source of a Windows machine
  does not hide the others, and that tracing changes no answer.
\<close>

section \<open>Scans\<close>

text \<open>What each list takes of one package of a scan.\<close>

fun deb_of :: "extractor_package \<Rightarrow> pkg_info option" where
  "deb_of p = (case ep_metadata p of DpkgMetadata n v a \<Rightarrow> Some (pkgInfoFromDpkgExtractorPackage p n v a) | _ \<Rightarrow> None)"

fun rpm_of :: "extractor_package \<Rightarrow> pkg_info option" where
  "rpm_of p = (case ep_metadata p of RpmMetadata s e a \<Rightarrow> Some (pkgInfoFromRpmExtractorPackage p s e a) | _ \<Rightarrow> None)"

fun cos_of :: "os_info \<Rightarrow> extractor_package \<Rightarrow> pkg_info option" where
  "cos_of os p = (case ep_metadata p of CosMetadata c \<Rightarrow> Some (pkgInfoFromCosExtractorPackage p c os) | _ \<Rightarrow> None)"

fun snap_of :: "os_info \<Rightarrow> extractor_package \<Rightarrow> pkg_info option" where
  "snap_of os p =
     (case ep_metadata p of
        SnapMetadata (a # _) \<Rightarrow> Some (extracted p (ep_name p) (ep_version p) (NormalizeArchitecture (or_else (oi_arch os) a)) typeSnap)
      | _ \<Rightarrow> None)"

fun choco_of :: "os_info \<Rightarrow> extractor_package \<Rightarrow> pkg_info option" where
  "choco_of os p =
     (if ep_metadata p = ChocolateyMetadata then Some (pkgInfoFromGenericExtractorPackage p ''chocolatey'' (oi_arch os)) else None)"

fun winget_of :: "os_info \<Rightarrow> extractor_package \<Rightarrow> pkg_info option" where
  "winget_of os p =
     (if ep_metadata p = WingetMetadata then Some (pkgInfoFromGenericExtractorPackage p ''winget'' (oi_arch os)) else None)"

definition split_by_kind :: "os_info \<Rightarrow> extractor_package list \<Rightarrow> all_packages" where
  "split_by_kind os xs = empty_packages
     \<lparr>ps_deb := List.map_filter deb_of xs, ps_rpm := List.map_filter rpm_of xs, ps_cos := List.map_filter (cos_of os) xs,
      ps_snap := List.map_filter (snap_of os) xs, ps_chocolatey := List.map_filter (choco_of os) xs,
      ps_winget := List.map_filter (winget_of os) xs\<rparr>"

definition merge_kinds :: "all_packages \<Rightarrow> all_packages \<Rightarrow> all_packages" where
  "merge_kinds a b = a
     \<lparr>ps_deb := ps_deb a @ ps_deb b, ps_rpm := ps_rpm a @ ps_rpm b, ps_cos := ps_cos a @ ps_cos b,
      ps_snap := ps_snap a @ ps_snap b, ps_chocolatey := ps_chocolatey a @ ps_chocolatey b, ps_winget := ps_winget a @ ps_winget b\<rparr>"

lemmas split_simps = split_by_kind_def merge_kinds_def empty_packages_def on_linux_def packages.extend_def no_packages_def List.map_filter_simps

lemma split_Cons:
  "split_by_kind os (p # xs) = merge_kinds (split_by_kind os [p]) (split_by_kind os xs)"
  by (simp add: split_simps split: scan_metadata.splits list.splits)

lemma merge_assoc:
  "merge_kinds (merge_kinds a b) c = merge_kinds a (merge_kinds b c)"
  by (simp add: merge_kinds_def)

lemma merge_empty:
  "merge_kinds a (split_by_kind os []) = a"
  "merge_kinds empty_packages (split_by_kind os xs) = split_by_kind os xs"
  by (simp_all add: split_simps)

lemma add_extracted_split:
  assumes "ep_metadata p \<noteq> SnapMetadata []"
  shows "add_extracted os p ps = Done (merge_kinds ps (split_by_kind os [p]))"
  using assms
  by (auto simp: add_extracted_def split_simps pkgInfoFromSnapExtractorPackage_def split: scan_metadata.splits list.splits)

lemma add_extracted_panic:
  assumes "ep_metadata p = SnapMetadata []"
  shows "add_extracted os p ps = Panic ''index out of range''"
  using assms by (simp add: add_extracted_def pkgInfoFromSnapExtractorPackage_def)

lemma add_all_extracted_split:
  "add_all_extracted os xs ps =
     (if \<exists>p \<in> set xs. ep_metadata p = SnapMetadata [] then Panic ''index out of range''
      else Done (merge_kinds ps (split_by_kind os xs)))"
proof (induction xs arbitrary: ps)
  case Nil
  show ?case by (simp add: merge_empty)
next
  case (Cons p xs)
  show ?case
  proof (cases "ep_metadata p = SnapMetadata []")
    case True
    then show ?thesis by (simp add: add_extracted_panic)
  next
    case False
    then show ?thesis
      by (simp add: add_extracted_split Cons.IH merge_assoc split_Cons [symmetric])
  qed
qed

text \<open>A scan is split by the kind of each package, in the order of the scan; a package of an unknown kind is left
  out. A snap without any architecture stops the agent with an index out of range.\<close>

theorem scan_split_by_kind:
  "pkgInfosFromExtractorPackages scan os =
     (if \<exists>p \<in> set (sr_packages scan). ep_metadata p = SnapMetadata [] then Panic ''index out of range''
      else Done (split_by_kind os (sr_packages scan)))"
  by (simp add: pkgInfosFromExtractorPackages_def add_all_extracted_split merge_empty)

text \<open>Where the answer of the scanner comes from: an error before or in the scan, or a scan that did not fail.\<close>

lemma scan_not_failed:
  "fst (handleScanStatus scan) = None \<longleftrightarrow> (\<exists>r st. scan = Some r \<and> sr_status r = Some st \<and> st \<noteq> ScanFailed)"
  by (auto simp: handleScanStatus_def scanFailed_def split: option.splits)

lemma zypper_patches_only:
  assumes "with_zypper_patches env ps m = (Done (qs, e), m')"
  shows "\<exists>zs. qs = ps\<lparr>ps_zypper_patches := zs\<rparr>"
proof -
  have "qs = ps \<or> (\<exists>zs. qs = ps\<lparr>ps_zypper_patches := zs\<rparr>)"
    using assms by (auto simp: with_zypper_patches_def split: if_splits prod.splits sum.splits)
  moreover have "ps = ps\<lparr>ps_zypper_patches := ps_zypper_patches ps\<rparr>" by simp
  ultimately show ?thesis by metis
qed

lemma scalibr_cases:
  assumes "scalibr_installed lib env p oi m = (Done (ps, e), m')"
  obtains (Failed) "e \<noteq> None" "ps = empty_packages"
  | (Scanned) cfg x x' r st os zs where "getScanConfig lib p (mc_rest m) = (Inr cfg, x)" "sl_scan lib cfg x = (Some r, x')"
      "sr_status r = Some st" "st \<noteq> ScanFailed" "oi = Inr os"
      "\<forall>q \<in> set (sr_packages r). ep_metadata q \<noteq> SnapMetadata []"
      "ps = (split_by_kind os (sr_packages r))\<lparr>ps_zypper_patches := zs\<rparr>"
proof -
  obtain c x where c: "getScanConfig lib p (mc_rest m) = (c, x)" by fastforce
  show thesis
  proof (cases c)
    case (Inl err)
    then show thesis using assms c by (intro Failed) (auto simp: scalibr_installed_def)
  next
    case (Inr cfg)
    obtain scan x' where scan: "sl_scan lib cfg x = (scan, x')" by fastforce
    show thesis
    proof (cases "fst (handleScanStatus scan)")
      case (Some err)
      with assms c Inr scan have "ps = empty_packages \<and> e = Some err" by (auto simp: scalibr_installed_def)
      then show thesis by (intro Failed) simp_all
    next
      case None
      then obtain r st where r: "scan = Some r" "sr_status r = Some st" "st \<noteq> ScanFailed"
        by (auto simp: scan_not_failed)
      show thesis
      proof (cases oi)
        case (Inl err)
        with assms c \<open>c = Inr cfg\<close> scan None r have "ps = empty_packages \<and> e = Some err" by (auto simp: scalibr_installed_def)
        then show thesis by (intro Failed) simp_all
      next
        case (Inr os)
        with assms c \<open>c = Inr cfg\<close> scan None r
        have snaps: "\<forall>q \<in> set (sr_packages r). ep_metadata q \<noteq> SnapMetadata []"
          and z: "with_zypper_patches env (split_by_kind os (sr_packages r)) (m\<lparr>mc_rest := x'\<rparr>) = (Done (ps, e), m')"
          by (auto simp: scalibr_installed_def pkgInfosFromExtractorPackages_def add_all_extracted_split merge_empty split: if_splits)
        from zypper_patches_only [OF z] obtain zs where "ps = (split_by_kind os (sr_packages r))\<lparr>ps_zypper_patches := zs\<rparr>" by blast
        with c \<open>c = Inr cfg\<close> scan r Inr snaps show thesis by (intro Scanned) auto
      qed
    qed
  qed
qed

text \<open>C39. The scanner never reports a machine without packages for a scan that failed: an answer without an error comes from a
  scan that the library did not call failed, split by kind.\<close>

theorem scan_failure_reported:
  assumes "scalibr_installed lib env p oi m = (Done (ps, None), m')"
  shows "\<exists>cfg x x' r st os zs. getScanConfig lib p (mc_rest m) = (Inr cfg, x) \<and> sl_scan lib cfg x = (Some r, x') \<and>
    sr_status r = Some st \<and> st \<noteq> ScanFailed \<and> oi = Inr os \<and>
    ps = (split_by_kind os (sr_packages r))\<lparr>ps_zypper_patches := zs\<rparr>"
  using assms by (cases rule: scalibr_cases) blast+

text \<open>A machine with one package, scanned in part.\<close>

definition demo_package :: extractor_package where
  "demo_package = \<lparr>ep_name = ''zsh'', ep_version = ''5.9'', ep_purl = [], ep_locations = None,
     ep_metadata = DpkgMetadata [] [] ''amd64''\<rparr>"

definition demo_scan :: scan_result where
  "demo_scan = \<lparr>sr_status = Some ScanPartiallySucceeded, sr_plugins = [(''os/dpkg'', Some ScanSucceeded), (''os/rpm'', None)],
     sr_packages = [demo_package]\<rparr>"

definition demo_scanner :: "(unit, nat) scanner" where
  "demo_scanner = \<lparr>sl_roots = (\<lambda>x. (Inr [''/''], x)), sl_plugins = (\<lambda>ns. Inr ()), sl_skip = (\<lambda>x. (Inr [''/proc''], x)),
     sl_scan = (\<lambda>c x. (Some demo_scan, x + 1))\<rparr>"

definition scan_tools :: "nat tools" where
  "scan_tools = \<lparr>tl_run = (\<lambda>c x. (([], [], None), x)), tl_pty = (\<lambda>c x. (([], [], None), x)), tl_remove = (\<lambda>p x. (None, x)),
     tl_unmarshal = (\<lambda>t. Inl ErrEOF), tl_pip_unmarshal = (\<lambda>t. Inl ErrEOF), tl_cos = (\<lambda>x. (Inl ErrEOF, x)),
     tl_arch = (\<lambda>x. (Inl ErrEOF, x)), tl_purl = (\<lambda>t ns n v qs. []), tl_apt = False, tl_dpkg_query = False, tl_yum = False,
     tl_zypper = False, tl_rpm_query = False, tl_cos_info = False, tl_gem = False, tl_pip = False\<rparr>"

lemmas demo_scan_simps = demo_package_def demo_scan_def demo_scanner_def scan_tools_def

lemma demo_scan_answer:
  "scalibr_installed demo_scanner scan_tools \<lparr>sp_extractors = [''os/dpkg''], sp_roots = None, sp_skip = None\<rparr> (Inr empty_os_info)
     \<lparr>mc_rest = 0, mc_log = []\<rparr>
   = (Done (split_by_kind empty_os_info [demo_package], None), \<lparr>mc_rest = 1, mc_log = []\<rparr>)"
  by (simp add: scalibr_installed_def getScanConfig_def default_or_def handleScanStatus_def scanFailed_def
      pkgInfosFromExtractorPackages_def add_all_extracted_split merge_empty with_zypper_patches_def demo_scan_simps)

theorem scan_failure_reported_witness:
  "map pi_arch (ps_deb (split_by_kind empty_os_info [demo_package])) = [''x86_64''] \<and>
   (\<exists>cfg x x' r st os zs.
      getScanConfig demo_scanner \<lparr>sp_extractors = [''os/dpkg''], sp_roots = None, sp_skip = None\<rparr> 0 = (Inr cfg, x) \<and>
      sl_scan demo_scanner cfg x = (Some r, x') \<and> sr_status r = Some st \<and> st \<noteq> ScanFailed \<and> Inr empty_os_info = (Inr os :: os_info res) \<and>
      split_by_kind empty_os_info [demo_package] = (split_by_kind os (sr_packages r))\<lparr>ps_zypper_patches := zs\<rparr>)"
proof
  show "map pi_arch (ps_deb (split_by_kind empty_os_info [demo_package])) = [''x86_64'']"
    by (simp add: split_simps demo_package_def pkgInfoFromDpkgExtractorPackage_def extracted_def new_pkg_def NormalizeArchitecture_def)
qed (use scan_failure_reported [OF demo_scan_answer] in simp)

section \<open>Extractors\<close>

lemma extend_extractors_set:
  "set (extend_extractors es allowed) = set es \<union> set allowed"
  unfolding extend_extractors_def by (induction allowed arbitrary: es) auto

lemma extend_extractors_distinct:
  "distinct es \<Longrightarrow> distinct (extend_extractors es allowed)"
  unfolding extend_extractors_def by (induction allowed arbitrary: es) auto

lemma extend_extractors_prefix:
  "\<exists>more. extend_extractors es allowed = es @ more"
  unfolding extend_extractors_def by (induction allowed arbitrary: es) (auto, metis append.assoc)

text \<open>The scanner of Linux always has the extractors of the operating system's packages, first and each once,
  whatever the settings say.\<close>

theorem extractors_distinct:
  "distinct (chosen_extractors c) \<and> take 3 (chosen_extractors c) = linux_extractors \<and>
   set (chosen_extractors c) =
     set linux_extractors \<union> (if ExtendedInventoryEnabled c then set (ExtendedInventoryExtractorsAllowed c) else {})"
proof -
  have d: "distinct linux_extractors" "length linux_extractors = 3" by (simp_all add: linux_extractors_def)
  obtain more where m: "extend_extractors linux_extractors (ExtendedInventoryExtractorsAllowed c) = linux_extractors @ more"
    using extend_extractors_prefix by blast
  show ?thesis
    using d m extend_extractors_distinct [of linux_extractors "ExtendedInventoryExtractorsAllowed c"]
      extend_extractors_set [of linux_extractors "ExtendedInventoryExtractorsAllowed c"]
    by (simp add: chosen_extractors_def)
qed

section \<open>Tracing\<close>

text \<open>The traced provider answers what the provider answers, as long as measuring does not change the machine.\<close>

lemma traced_same:
  "traced (\<lambda>x. x) (\<lambda>x. x) provider m = provider m"
  by (auto simp: traced_def split: prod.splits outcome.splits)

section \<open>Windows\<close>

definition listed_or_empty :: "('a \<Rightarrow> 'b list) \<Rightarrow> 'a res \<Rightarrow> 'b list" where
  "listed_or_empty f r = (case r of Inl e \<Rightarrow> [] | Inr a \<Rightarrow> f a)"

definition failure_note :: "string \<Rightarrow> 'a res \<Rightarrow> string list" where
  "failure_note what r = (case r of Inl e \<Rightarrow> [what @ '': '' @ err_text e] | Inr a \<Rightarrow> [])"

lemma section_of_sure:
  assumes "what \<noteq> []" "query m = (r, m1)"
  shows "section_of True what (sure query) put (Done (ps, errs), m)
    = (Done ((case r of Inl e \<Rightarrow> ps | Inr a \<Rightarrow> put a ps), errs @ failure_note what r), m1)"
  using assms by (simp add: section_of_def sure_def failure_note_def split: sum.splits)

text \<open>On Windows each source of installed software is asked once, and one that fails costs only its own list: the others are
  reported, and the error names every source that failed.\<close>

theorem windows_sources_independent:
  "windows_installed env m =
     (let (g, m1) = (if wt_exists env googet (mc_rest m) then InstalledGooGetPackages (wt_tools env) m else (Inr [], m));
          (w, m2) = wuaUpdates env ''IsInstalled=1'' m1;
          (q, m3) = QuickFixEngineering env m2;
          a = GetWindowsApplications (wt_zone env) (wt_registry env (mc_rest m3));
          errs = failure_note ''error listing installed googet packages'' g @ failure_note ''error listing installed Windows updates'' w
            @ failure_note ''error listing installed QuickFixEngineering updates'' q
      in (Done (empty_packages
            \<lparr>ps_googet := listed_or_empty (enrichGooget (wt_tools env)) g, ps_wua := listed_or_empty (enrichWua (wt_tools env)) w,
             ps_qfe := listed_or_empty (enrichQfe (wt_tools env)) q, ps_apps := listed_or_empty (enrichApplications (wt_tools env)) a\<rparr>,
            if errs = [] then None else Some (ErrMsg (join [CHR 0x0A] errs))), m3))"
proof -
  obtain g m1 where g: "(if wt_exists env googet (mc_rest m) then InstalledGooGetPackages (wt_tools env) m else (Inr [], m)) = (g, m1)"
    by fastforce
  obtain w m2 where w: "wuaUpdates env ''IsInstalled=1'' m1 = (w, m2)" by fastforce
  obtain q m3 where q: "QuickFixEngineering env m2 = (q, m3)" by fastforce
  have start: "section_of (wt_exists env googet (mc_rest m)) ''error listing installed googet packages''
      (sure (InstalledGooGetPackages (wt_tools env))) (\<lambda>a ps. ps\<lparr>ps_googet := enrichGooget (wt_tools env) a\<rparr>) (Done (empty_packages, []), m)
    = (Done (empty_packages\<lparr>ps_googet := listed_or_empty (enrichGooget (wt_tools env)) g\<rparr>,
         failure_note ''error listing installed googet packages'' g), m1)"
    using g by (auto simp: section_of_def sure_def listed_or_empty_def failure_note_def enrichGooget_def empty_packages_def on_linux_def
        packages.extend_def split: if_splits sum.splits)
  obtain apps where apps: "GetWindowsApplications (wt_zone env) (wt_registry env (mc_rest m3)) = Inr apps"
    by (simp add: GetWindowsApplications_def)
  have wua: "section_of True ''error listing installed Windows updates'' (sure (wuaUpdates env ''IsInstalled=1''))
      (\<lambda>a ps. ps\<lparr>ps_wua := enrichWua (wt_tools env) a\<rparr>) (Done (ps, errs), m1)
    = (Done (case w of Inl e \<Rightarrow> ps | Inr a \<Rightarrow> ps\<lparr>ps_wua := enrichWua (wt_tools env) a\<rparr>,
         errs @ failure_note ''error listing installed Windows updates'' w), m2)" for ps :: all_packages and errs
    by (rule section_of_sure) (simp_all add: w)
  have qfe: "section_of True ''error listing installed QuickFixEngineering updates'' (sure (QuickFixEngineering env))
      (\<lambda>a ps. ps\<lparr>ps_qfe := enrichQfe (wt_tools env) a\<rparr>) (Done (ps, errs), m2)
    = (Done (case q of Inl e \<Rightarrow> ps | Inr a \<Rightarrow> ps\<lparr>ps_qfe := enrichQfe (wt_tools env) a\<rparr>,
         errs @ failure_note ''error listing installed QuickFixEngineering updates'' q), m3)" for ps :: all_packages and errs
    by (rule section_of_sure) (simp_all add: q)
  have last: "section_of True ''error listing installed Windows Applications''
      (sure (\<lambda>m. (GetWindowsApplications (wt_zone env) (wt_registry env (mc_rest m)), m)))
      (\<lambda>a ps. ps\<lparr>ps_apps := enrichApplications (wt_tools env) a\<rparr>) (Done (ps, errs), m3)
    = (Done (ps\<lparr>ps_apps := enrichApplications (wt_tools env) apps\<rparr>, errs), m3)" for ps :: all_packages and errs
    by (simp add: section_of_def sure_def apps)
  have "windows_installed env m = (windows_result (Done (empty_packages
      \<lparr>ps_googet := listed_or_empty (enrichGooget (wt_tools env)) g, ps_wua := listed_or_empty (enrichWua (wt_tools env)) w,
       ps_qfe := listed_or_empty (enrichQfe (wt_tools env)) q, ps_apps := enrichApplications (wt_tools env) apps\<rparr>,
      failure_note ''error listing installed googet packages'' g @ failure_note ''error listing installed Windows updates'' w
        @ failure_note ''error listing installed QuickFixEngineering updates'' q)), m3)"
    unfolding windows_installed_def start wua qfe last
    by (simp add: listed_or_empty_def empty_packages_def on_linux_def packages.extend_def split: sum.splits)
  then show ?thesis
    by (simp add: g w q apps windows_result_def listed_or_empty_def [of _ "Inr apps"])
qed

end
