(* ===== verification/PackageTypes.thy ===== *)
theory PackageTypes
  imports ProviderFacts
begin

text \<open>
  The lists of packages are well typed: each list of an answer holds packages of its own kind only, whoever the
  provider is. The package URLs and the items of the inventory are made from that type.
\<close>

section \<open>Lists of one type\<close>

definition of_type :: "string \<Rightarrow> pkg_info list \<Rightarrow> bool" where
  "of_type t ps = list_all (\<lambda>p. pi_type p = t) ps"

named_theorems typed_intro

lemma of_type_Nil [simp]: "of_type t []"
  by (simp add: of_type_def)

lemma of_type_Cons [simp]: "of_type t (p # ps) \<longleftrightarrow> pi_type p = t \<and> of_type t ps"
  by (simp add: of_type_def)

lemma of_type_append [simp]: "of_type t (ps @ qs) \<longleftrightarrow> of_type t ps \<and> of_type t qs"
  by (simp add: of_type_def)

lemma of_type_concat:
  "(\<And>ps. ps \<in> set pss \<Longrightarrow> of_type t ps) \<Longrightarrow> of_type t (concat pss)"
  by (induction pss) simp_all

lemma of_type_map:
  "(\<And>x. x \<in> set xs \<Longrightarrow> pi_type (f x) = t) \<Longrightarrow> of_type t (map f xs)"
  by (induction xs) simp_all

lemma of_type_map_filter:
  "(\<And>x p. f x = Some p \<Longrightarrow> pi_type p = t) \<Longrightarrow> of_type t (List.map_filter f xs)"
  by (induction xs) (auto simp: List.map_filter_simps split: option.splits)

lemma of_type_collect:
  assumes "\<And>x p. f x = Done (Some p) \<Longrightarrow> pi_type p = t"
  shows "collect f xs = Done ps \<Longrightarrow> of_type t ps"
  by (induction xs arbitrary: ps) (auto simp: obind_Done_iff assms split: option.splits)

lemma new_pkg_type [simp]: "pi_type (new_pkg n a v t) = t"
  by (simp add: new_pkg_def)

lemma extracted_type [simp]: "pi_type (extracted p n v a t) = t"
  by (simp add: extracted_def)

section \<open>Parsers\<close>

lemma deb_parser_types [typed_intro]:
  "of_type typeDebian (parseInstalledDebPackages u data)"
  unfolding parseInstalledDebPackages_def
  by (rule of_type_concat) (auto simp: pkgInfoFromPackageMetadata_def split: sum.splits)

lemma apt_parser_types:
  "parseAptUpdates data b = Done ps \<Longrightarrow> of_type typeDebian ps"
  unfolding parseAptUpdates_def
  by (erule of_type_collect [rotated]) (auto simp: apt_update_line_def Let_def split: if_splits)

lemma rpm_parser_types [typed_intro]:
  "of_type typeRPM (parseInstalledRPMPackages u data)"
  unfolding parseInstalledRPMPackages_def
  by (rule of_type_concat) (auto simp: pkgInfoFromPackageMetadata_def split: sum.splits)

lemma yum_loop_types: "of_type typeRPM (yum_loop b lns)"
  by (induction b lns rule: yum_loop.induct) (simp_all add: Let_def)

lemma parser_types [typed_intro]:
  "of_type typeRPM (parseYumUpdates data)"
  "of_type typeRPM (parseZypperUpdates data)"
  "of_type typeGooGet (parseGooGetUpdates data)"
  "of_type typeGooGet (parseInstalledGooGetPackages data)"
  "of_type typeGem (parseGemUpdates data)"
  "of_type typePypi (pip_packages xs)"
  unfolding parseYumUpdates_def parseZypperUpdates_def parseGooGetUpdates_def parseInstalledGooGetPackages_def
    parseGemUpdates_def pip_packages_def
  by (auto intro!: yum_loop_types of_type_map_filter of_type_map
      simp: zypper_update_line_def googet_update_line_def googet_installed_line_def gem_update_line_def Let_def
      split: list.splits if_splits)

lemma gem_parser_types:
  assumes "parseInstalledGems data = Done ps"
  shows "of_type typeGem ps"
proof -
  have entry: "parseGemEntry e = Done gs \<Longrightarrow> of_type typeGem gs" for e gs
    by (auto simp: parseGemEntry_def intro!: of_type_map split: option.splits)
  have "collect (\<lambda>ln. obind (parseGemEntry ln) (\<lambda>gs. Done (Some gs))) xs = Done gss \<Longrightarrow> of_type typeGem (concat gss)" for xs gss
    by (induction xs arbitrary: gss) (auto simp: obind_Done_iff entry)
  then show ?thesis
    using assms by (auto simp: parseInstalledGems_def Let_def obind_Done_iff split: if_splits)
qed

section \<open>Queries\<close>

text \<open>A query whose answers are of one type.\<close>

definition answers :: "string \<Rightarrow> ('x machine \<Rightarrow> pkg_info list res outcome \<times> 'x machine) \<Rightarrow> bool" where
  "answers t query \<longleftrightarrow> (\<forall>m ps m1. query m = (Done (Inr ps), m1) \<longrightarrow> of_type t ps)"

lemma answers_sure:
  "(\<And>m ps m1. query m = (Inr ps, m1) \<Longrightarrow> of_type t ps) \<Longrightarrow> answers t (sure query)"
  by (auto simp: answers_def sure_def split: prod.splits)

lemma query_types [typed_intro]:
  "answers typeDebian (sure (InstalledDebPackages env))"
  "answers typeRPM (sure (InstalledRPMPackages env))"
  "answers typeRPM (sure (ZypperUpdates env))"
  "answers typeGooGet (sure (GooGetUpdates env))"
  "answers typeGooGet (sure (InstalledGooGetPackages env))"
  "answers typeGem (sure (GemUpdates env))"
  by (rule answers_sure;
      auto simp: InstalledDebPackages_def InstalledRPMPackages_def ZypperUpdates_def GooGetUpdates_def
        InstalledGooGetPackages_def GemUpdates_def intro: typed_intro split: prod.splits sum.splits)+

lemma yum_query_types [typed_intro]: "answers typeRPM (sure (YumUpdates env b c))"
proof (rule answers_sure)
  have "listAndParseYumPackages env b c m = (Inr ps, m1) \<Longrightarrow> of_type typeRPM ps" for m ps m1
    using parser_types(1) by (auto simp: listAndParseYumPackages_def Let_def split: prod.splits option.splits if_splits)
  then show "YumUpdates env b c m = (Inr ps, m1) \<Longrightarrow> of_type typeRPM ps" for m ps m1
    by (auto simp: YumUpdates_def split: prod.splits option.splits if_splits)
qed

lemma pip_query_types [typed_intro]:
  "answers typePypi (sure (PipUpdates env))" "answers typePypi (sure (InstalledPipPackages env))"
proof -
  have "pip_query env args m = (Inr ps, m1) \<Longrightarrow> of_type typePypi ps" for args m ps m1
    using parser_types(6) by (auto simp: pip_query_def split: prod.splits sum.splits) (metis map_sum.simps sum.inject(2) sum.exhaust sum.distinct(1))
  then show "answers typePypi (sure (PipUpdates env))" "answers typePypi (sure (InstalledPipPackages env))"
    by (auto intro!: answers_sure simp: PipUpdates_def InstalledPipPackages_def)
qed

lemma cos_query_types [typed_intro]: "answers typeCos (sure (InstalledCOSPackages env))"
  by (rule answers_sure)
    (auto simp: InstalledCOSPackages_def parseInstalledCOSPackages_def intro!: of_type_map split: prod.splits sum.splits)

lemma apt_query_types [typed_intro]: "answers typeDebian (AptUpdates env u b)"
  unfolding answers_def
  by (auto simp: AptUpdates_def obind_Done_iff dest: apt_parser_types split: prod.splits option.splits)

lemma gem_query_types [typed_intro]: "answers typeGem (InstalledGemPackages env)"
  unfolding answers_def
  by (auto simp: InstalledGemPackages_def obind_Done_iff dest: gem_parser_types split: prod.splits sum.splits)

section \<open>Answers of the providers\<close>

definition linux_typed :: "'a packages_scheme \<Rightarrow> bool" where
  "linux_typed ps \<longleftrightarrow>
     of_type typeRPM (ps_yum ps) \<and> of_type typeRPM (ps_rpm ps) \<and> of_type typeDebian (ps_apt ps) \<and> of_type typeDebian (ps_deb ps) \<and>
     of_type typeRPM (ps_zypper ps) \<and> of_type typeCos (ps_cos ps) \<and> of_type typeGem (ps_gem ps) \<and> of_type typePypi (ps_pip ps)"

definition packages_typed :: "all_packages \<Rightarrow> bool" where
  "packages_typed ps \<longleftrightarrow>
     linux_typed ps \<and> of_type typeSnap (ps_snap ps) \<and> of_type typeGooGet (ps_googet ps) \<and>
     of_type ''chocolatey'' (ps_chocolatey ps) \<and> of_type ''winget'' (ps_winget ps)"

text \<open>The package URLs do not touch the types.\<close>

lemma enrich_types [simp]:
  "of_type t (enrichDeb env sn v ps) = of_type t ps"
  "of_type t (enrichRpm env sn v ps) = of_type t ps"
  "of_type t (enrichCos env sn v ps) = of_type t ps"
  "of_type t (enrichPlain env ps) = of_type t ps"
  "of_type t (enrichGooget env ps) = of_type t ps"
  by (simp_all add: enrichDeb_def enrichRpm_def enrichCos_def enrichPlain_def enrichGooget_def of_type_def list.pred_map comp_def)

definition state_ok :: "('p \<Rightarrow> bool) \<Rightarrow> ('p \<times> 'e) outcome \<times> 'x machine \<Rightarrow> bool" where
  "state_ok P st = (case st of (Done (ps, e), m) \<Rightarrow> P ps | _ \<Rightarrow> True)"

lemma section_ok:
  assumes "state_ok P st" "\<And>ps m a m1. P ps \<Longrightarrow> query m = (Done (Inr a), m1) \<Longrightarrow> P (put a ps)"
  shows "state_ok P (section_of present what query put st)"
  using assms by (auto simp: state_ok_def section_of_def split: prod.splits outcome.splits sum.splits)

lemma section_typed:
  assumes "answers t query" "state_ok P st" "\<And>ps a. P ps \<Longrightarrow> of_type t a \<Longrightarrow> P (put a ps)"
  shows "state_ok P (section_of present what query put st)"
  using assms(1,3) by (intro section_ok assms(2)) (auto simp: answers_def)

lemma getPackageUpdates_typed: "state_ok linux_typed (getPackageUpdates env sn v m)"
  unfolding getPackageUpdates_def
  by (intro section_typed [of typePypi] section_typed [of typeGem] section_typed [of typeRPM] section_typed [of typeDebian]
      section_ok typed_intro) (simp_all add: linux_typed_def state_ok_def no_packages_def)

lemma getInstalledPackages_typed: "state_ok linux_typed (getInstalledPackages env sn v m)"
  unfolding getInstalledPackages_def
  by (intro section_typed [of typePypi] section_typed [of typeGem] section_typed [of typeCos] section_typed [of typeRPM]
      section_typed [of typeDebian] section_ok typed_intro) (simp_all add: linux_typed_def state_ok_def no_packages_def)

lemma on_linux_typed: "packages_typed (on_linux ps) = linux_typed ps"
  by (simp add: packages_typed_def linux_typed_def on_linux_def packages.extend_def)

lemma linux_packages_typed:
  "state_ok linux_typed (provider_result oi r, m) \<Longrightarrow> state_ok packages_typed (linux_packages (provider_result oi r, m))"
  by (cases "provider_result oi r") (auto simp: state_ok_def linux_packages_def on_linux_typed)

lemma provider_result_typed:
  "state_ok P (r, m) \<Longrightarrow> state_ok P (provider_result oi r, m)"
  by (cases r) (auto simp: state_ok_def provider_result_def)

lemma linux_default_typed:
  "state_ok packages_typed (linux_packages (GetInstalledPackages env oi m))"
  "state_ok packages_typed (linux_packages (GetPackageUpdates env oi m))"
  using getInstalledPackages_typed [of env "oi_short (provider_os oi)" "oi_version (provider_os oi)" m]
    getPackageUpdates_typed [of env "oi_short (provider_os oi)" "oi_version (provider_os oi)" m]
  by (auto simp: GetInstalledPackages_def GetPackageUpdates_def intro!: linux_packages_typed provider_result_typed split: prod.splits)

lemma empty_typed: "packages_typed empty_packages"
  by (simp add: empty_packages_def on_linux_typed linux_typed_def no_packages_def)

lemma split_typed: "packages_typed ((split_by_kind os xs)\<lparr>ps_zypper_patches := zs\<rparr>)"
  by (auto simp: packages_typed_def linux_typed_def split_by_kind_def empty_packages_def on_linux_def packages.extend_def no_packages_def
      pkgInfoFromDpkgExtractorPackage_def pkgInfoFromRpmExtractorPackage_def pkgInfoFromCosExtractorPackage_def
      pkgInfoFromGenericExtractorPackage_def intro!: of_type_map_filter split: scan_metadata.splits list.splits if_splits)

lemma scalibr_typed: "state_ok packages_typed (scalibr_installed lib env p oi m)"
proof (cases "scalibr_installed lib env p oi m")
  case (Pair r m')
  show ?thesis
  proof (cases r)
    case (Done x)
    with Pair have "scalibr_installed lib env p oi m = (Done (fst x, snd x), m')" by simp
    then have "packages_typed (fst x)" by (cases rule: scalibr_cases) (simp_all add: empty_typed split_typed)
    then show ?thesis using Pair Done by (cases x) (simp add: state_ok_def)
  qed (simp add: Pair state_ok_def)
qed

lemma windows_result_typed:
  "state_ok P st \<Longrightarrow> state_ok P (case st of (r, m) \<Rightarrow> (windows_result r, m))"
  by (cases st; cases "fst st") (auto simp: state_ok_def windows_result_def)

lemma windows_sections_typed:
  "state_ok packages_typed st \<Longrightarrow>
    state_ok packages_typed (section_of b what query (\<lambda>a ps. ps\<lparr>ps_wua := f a\<rparr>) st)"
  "state_ok packages_typed st \<Longrightarrow>
    state_ok packages_typed (section_of b what query' (\<lambda>a ps. ps\<lparr>ps_qfe := g a\<rparr>) st)"
  "state_ok packages_typed st \<Longrightarrow>
    state_ok packages_typed (section_of b what query'' (\<lambda>a ps. ps\<lparr>ps_apps := h a\<rparr>) st)"
  by (rule section_ok; simp add: packages_typed_def linux_typed_def)+

lemma googet_section_typed:
  assumes "answers typeGooGet query"
  shows "state_ok packages_typed (section_of b what query (\<lambda>a ps. ps\<lparr>ps_googet := enrichGooget env a\<rparr>) (Done (empty_packages, []), m))"
  by (rule section_typed [OF assms])
    (use empty_typed in \<open>simp_all add: state_ok_def packages_typed_def linux_typed_def\<close>)

lemma windows_typed:
  "state_ok packages_typed (windows_installed env m)" "state_ok packages_typed (windows_updates env m)"
  unfolding windows_installed_def windows_updates_def
  by (intro windows_result_typed windows_sections_typed googet_section_typed typed_intro)+

section \<open>The contract of a provider\<close>

locale packages_interface =
  fixes provider :: "'x packages_provider"
  assumes well_typed: "state_ok packages_typed (provider m)"
begin

lemma traced_well_typed: "state_ok packages_typed (traced start stop provider m)"
  using well_typed [of "m\<lparr>mc_rest := start (mc_rest m)\<rparr>"]
  by (auto simp: state_ok_def traced_def split: prod.splits outcome.splits)

end

locale inventory_interface =
  inst: packages_interface installed + upd: packages_interface updates
  for installed updates :: "'x packages_provider"
begin

lemma get_well_typed:
  assumes "inventory_get (new_inventory_provider c oi installed updates start stop clock) version m = (Done st, m')"
  shows "\<exists>i u. ii_installed st = Some i \<and> ii_updates st = Some u \<and> packages_typed i \<and> packages_typed u"
proof -
  let ?p = "new_inventory_provider c oi installed updates start stop clock"
  have typed: "state_ok packages_typed (ip_installed ?p n)" "state_ok packages_typed (ip_updates ?p n)" for n
    by (simp_all add: new_inventory_provider_def inst.well_typed inst.traced_well_typed upd.well_typed)
  obtain i e1 m1 u e2 m2 where "ip_installed ?p m = (Done (i, e1), m1)" "ip_updates ?p m1 = (Done (u, e2), m2)"
      "ii_installed st = Some i" "ii_updates st = Some u"
    using assms by (auto simp: inventory_get_def split: prod.splits outcome.splits)
  then show ?thesis
    using typed(1) [of m] typed(2) [of m1] by (simp add: state_ok_def)
qed

end

lemma chosen_providers_typed:
  "state_ok packages_typed (NewInstalledPackagesProvider c lib env oi m)"
  "state_ok packages_typed (windows_provider c lib w oi m)"
  by (simp_all add: NewInstalledPackagesProvider_def windows_provider_def linux_default_typed windows_typed scalibr_typed)

interpretation on_linux: inventory_interface "NewInstalledPackagesProvider c lib env oi" "\<lambda>m. linux_packages (GetPackageUpdates env oi m)"
  for c lib env oi
  by unfold_locales (simp_all add: chosen_providers_typed linux_default_typed)

interpretation on_windows: inventory_interface "windows_provider c lib w oi" "windows_updates w"
  for c lib w oi
  by unfold_locales (simp_all add: chosen_providers_typed windows_typed)

text \<open>A provider of the inventory, on Linux or on Windows, whatever the settings.\<close>

definition agent_provider :: "bool \<Rightarrow> agent_config \<Rightarrow> ('l, 'x) scanner \<Rightarrow> 'x win_tools \<Rightarrow> os_info res
    \<Rightarrow> ('x \<Rightarrow> 'x) \<Rightarrow> ('x \<Rightarrow> 'x) \<Rightarrow> ('x \<Rightarrow> string) \<Rightarrow> 'x inventory_provider" where
  "agent_provider linux c lib env oi start stop clock =
     (if linux then linux_inventory_provider c lib (wt_tools env) oi start stop clock
      else windows_inventory_provider c lib env oi start stop clock)"

text \<open>C37. Every list of packages of an inventory, installed or to be updated, holds packages of its own type only: on Linux and on
  Windows, with the package managers or the scanner, traced or not.\<close>

theorem inventory_well_typed:
  assumes "inventory_get (agent_provider linux c lib env oi start stop clock) version m = (Done st, m')"
  shows "\<exists>installed updates. ii_installed st = Some installed \<and> ii_updates st = Some updates \<and>
    packages_typed installed \<and> packages_typed updates"
proof (cases linux)
  case True
  then show ?thesis
    using assms unfolding agent_provider_def linux_inventory_provider_def
    by (intro on_linux.get_well_typed) (simp only: if_True)
next
  case False
  then show ?thesis
    using assms unfolding agent_provider_def windows_inventory_provider_def
    by (intro on_windows.get_well_typed) (simp only: if_False)
qed

text \<open>A Windows machine whose processes print nothing.\<close>

definition demo_windows :: "nat win_tools" where
  "demo_windows = \<lparr>wt_tools = scan_tools, wt_exe = (\<lambda>x. Inr ''agent.exe''), wt_wua_json = (\<lambda>t. Inl ErrEOF),
     wt_googet_at_start = False, wt_exists = (\<lambda>p x. False), wt_wmi = (\<lambda>q x. (Inl ErrEOF, x)),
     wt_registry = (\<lambda>x d. Inl ErrEOF), wt_zone = (\<lambda>u. (0, 0, 0))\<rparr>"

theorem inventory_well_typed_witness:
  "\<exists>st m' installed updates.
     inventory_get (agent_provider False no_config demo_scanner demo_windows (Inr empty_os_info) id id (\<lambda>x. [])) ''1''
       \<lparr>mc_rest = 0, mc_log = []\<rparr> = (Done st, m') \<and>
     ii_installed st = Some installed \<and> ii_updates st = Some updates \<and> packages_typed installed \<and> packages_typed updates"
proof -
  let ?p = "agent_provider False no_config demo_scanner demo_windows (Inr empty_os_info) id id (\<lambda>x. [])"
  obtain r m' where run: "inventory_get ?p ''1'' \<lparr>mc_rest = 0, mc_log = []\<rparr> = (r, m')" by fastforce
  then obtain st where "r = Done st"
    by (auto simp: agent_provider_def windows_inventory_provider_def new_inventory_provider_def windows_provider_def
        windows_sources_independent windows_updates_def inventory_get_def no_config_def TraceGetInventory_def
        ExtendedInventoryEnabled_def section_of_def sure_def wuaUpdates_def windows_result_def demo_windows_def
        split: prod.splits sum.splits outcome.splits)
  with run inventory_well_typed [of False no_config demo_scanner demo_windows "Inr empty_os_info" id id "\<lambda>x. []"] show ?thesis
    by metis
qed

end
