(* ===== verification/DateFacts.thy ===== *)
theory DateFacts
  imports Providers
begin

text \<open>
  The dates of \<open>parseDate\<close>: the days of the calendar follow one another, a later date is a later time, and a date
  that the calendar does not have is taken for another one.
\<close>

section \<open>The calendar\<close>

definition month_days :: "int \<Rightarrow> int \<Rightarrow> int" where
  "month_days y mo =
     [31, if leap_year y then 29 else 28, 31, 30, 31, 30, 31, 31, 30, 31, 30, 31] ! nat (mo - 1)"

definition valid_date :: "int \<Rightarrow> int \<Rightarrow> int \<Rightarrow> bool" where
  "valid_date y mo d \<longleftrightarrow> 1 \<le> mo \<and> mo \<le> 12 \<and> 1 \<le> d \<and> d \<le> month_days y mo"

definition next_day :: "int \<times> int \<times> int \<Rightarrow> int \<times> int \<times> int" where
  "next_day t =
     (case t of (y, mo, d) \<Rightarrow>
        if d < month_days y mo then (y, mo, d + 1) else if mo < 12 then (y, mo + 1, 1) else (y + 1, 1, 1))"

definition day_number :: "int \<times> int \<times> int \<Rightarrow> int" where
  "day_number t = (case t of (y, mo, d) \<Rightarrow> civil_days y mo d)"

definition year_days :: "int \<Rightarrow> int" where
  "year_days y = (if leap_year y then 366 else 365)"

lemma div_step:
  fixes n y :: int
  assumes "0 < n"
  shows "y div n = (y - 1) div n + (if y mod n = 0 then 1 else 0)"
proof -
  let ?q = "(y - 1) div n" and ?r = "(y - 1) mod n"
  have y: "y = n * ?q + (?r + 1)" using mult_div_mod_eq [of n "y - 1"] by linarith
  have r: "0 \<le> ?r" "?r < n" using assms by simp_all
  show ?thesis
  proof (cases "?r + 1 = n")
    case True
    then have "y = n * (?q + 1)" using y by (simp add: algebra_simps)
    then have "y div n = ?q + 1" "y mod n = 0"
      using assms by (metis nonzero_mult_div_cancel_left order_less_irrefl, metis mod_mult_self1_is_0)
    then show ?thesis by simp
  next
    case False
    then have b: "0 \<le> ?r + 1" "?r + 1 < n" using r by linarith+
    have "y div n = ?q" by (rule int_div_pos_eq [OF y b])
    moreover have "y mod n = ?r + 1" by (rule int_mod_pos_eq [OF y b])
    ultimately show ?thesis using r by simp
  qed
qed

lemma leap_rest:
  fixes y :: int
  shows "y mod 100 = 0 \<Longrightarrow> y mod 4 = 0" "y mod 400 = 0 \<Longrightarrow> y mod 100 = 0"
  using dvd_trans [of 4 100 y] dvd_trans [of 100 400 y] by (simp_all add: mod_eq_0_iff_dvd)

lemma year_days_sum:
  "year_days y = 365 + (if y mod 4 = 0 then 1 else 0) - (if y mod 100 = 0 then 1 else 0) + (if y mod 400 = 0 then 1 else 0)"
  by (cases "y mod 4 = 0"; cases "y mod 100 = 0"; cases "y mod 400 = 0")
    (use leap_rest [of y] in \<open>simp_all add: year_days_def leap_year_def\<close>)

lemma days_before_year_step:
  "days_before_year (y + 1) = days_before_year y + year_days y"
proof -
  have steps: "y div 4 = (y - 1) div 4 + (if y mod 4 = 0 then 1 else 0)"
    "y div 100 = (y - 1) div 100 + (if y mod 100 = 0 then 1 else 0)"
    "y div 400 = (y - 1) div 400 + (if y mod 400 = 0 then 1 else 0)"
    by (rule div_step, simp)+
  have "days_before_year (y + 1) = 365 * y + y div 4 - y div 100 + y div 400"
    by (simp add: days_before_year_def)
  also have "\<dots> = 365 * y + ((y - 1) div 4 + (if y mod 4 = 0 then 1 else 0))
      - ((y - 1) div 100 + (if y mod 100 = 0 then 1 else 0)) + ((y - 1) div 400 + (if y mod 400 = 0 then 1 else 0))"
    by (simp only: steps)
  also have "\<dots> = days_before_year y + year_days y"
    unfolding days_before_year_def year_days_sum by (simp only: algebra_simps)
  finally show ?thesis .
qed

lemma months_cases:
  assumes "1 \<le> mo" "mo \<le> (12 :: int)"
  obtains "mo = 1" | "mo = 2" | "mo = 3" | "mo = 4" | "mo = 5" | "mo = 6" | "mo = 7" | "mo = 8" | "mo = 9" | "mo = 10" | "mo = 11" | "mo = 12"
proof -
  have "mo = 1 \<or> mo = 2 \<or> mo = 3 \<or> mo = 4 \<or> mo = 5 \<or> mo = 6 \<or> mo = 7 \<or> mo = 8 \<or> mo = 9 \<or> mo = 10 \<or> mo = 11 \<or> mo = 12"
    using assms by arith
  then show thesis using that by blast
qed

lemma days_before_month_step:
  assumes "1 \<le> mo" "mo < 12"
  shows "days_before_month y mo = days_before_month y (mo - 1) + month_days y mo"
proof -
  have "mo \<le> 12" using assms by simp
  with assms(1) show ?thesis
    by (cases rule: months_cases) (use assms in \<open>simp_all add: days_before_month_def month_days_def numeral_nat\<close>)
qed

lemma december:
  "days_before_month y 11 + month_days y 12 = year_days y"
  by (simp add: days_before_month_def month_days_def year_days_def numeral_nat)

lemma civil_days_valid:
  assumes "1 \<le> mo" "mo \<le> 12"
  shows "civil_days y mo d = days_before_year y + days_before_month y (mo - 1) + d - 719163"
  using assms by (simp add: civil_days_def Let_def)

lemma before_january: "days_before_month y 0 = 0"
  by (simp add: days_before_month_def)

text \<open>The day after a date is one day later, in every year: with the first of January 1970 as day 0, the count of days
  of \<open>time.Date\<close> is the calendar's.\<close>

theorem calendar_days:
  assumes "valid_date y mo d"
  shows "day_number (next_day (y, mo, d)) = day_number (y, mo, d) + 1 \<and> day_number (1970, 1, 1) = 0"
proof -
  have mo: "1 \<le> mo" "mo \<le> 12" and d: "1 \<le> d" "d \<le> month_days y mo"
    using assms by (simp_all add: valid_date_def)
  have epoch: "day_number (1970, 1, 1) = 0"
    by (simp add: day_number_def civil_days_def days_before_year_def days_before_month_def)
  consider "d < month_days y mo" | "d = month_days y mo" "mo < 12" | "d = month_days y mo" "mo = 12"
    using mo d by linarith
  then have "day_number (next_day (y, mo, d)) = day_number (y, mo, d) + 1"
  proof cases
    case 1
    then show ?thesis by (simp add: next_day_def day_number_def civil_days_def Let_def)
  next
    case 2
    then have "civil_days y (mo + 1) 1 = days_before_year y + days_before_month y mo + 1 - 719163"
      using mo by (subst civil_days_valid) simp_all
    with 2 mo days_before_month_step [of mo y] civil_days_valid [OF mo, of y d] show ?thesis
      by (simp add: next_day_def day_number_def)
  next
    case 3
    then show ?thesis
      using december [of y] days_before_year_step [of y]
      by (simp add: next_day_def day_number_def civil_days_valid before_january)
  qed
  with epoch show ?thesis by simp
qed

theorem calendar_days_witness:
  "day_number (next_day (2024, 2, 28)) = day_number (2024, 2, 28) + 1 \<and> next_day (2024, 2, 28) = (2024, 2, 29)"
proof -
  have "valid_date 2024 2 28" by (simp add: valid_date_def month_days_def leap_year_def)
  from calendar_days [OF this] show ?thesis by (simp add: next_day_def month_days_def leap_year_def)
qed

section \<open>Order\<close>

lemma blocks_mono:
  fixes f g :: "int \<Rightarrow> int"
  assumes step: "\<And>k. a \<le> k \<Longrightarrow> k < b \<Longrightarrow> f (k + 1) = f k + g k" and pos: "\<And>k. a \<le> k \<Longrightarrow> k < b \<Longrightarrow> 0 \<le> g k"
    and "a \<le> i" "i < j" "j \<le> b"
  shows "f i + g i \<le> f j"
proof -
  have "j \<le> b \<longrightarrow> f i + g i \<le> f j" if "i + 1 \<le> j" for j
    using that
  proof (induction rule: int_ge_induct)
    case base
    then show ?case using step [of i] \<open>a \<le> i\<close> by simp
  next
    case (step k)
    then show ?case using assms(1) [of k] pos [of k] \<open>a \<le> i\<close> by auto
  qed
  then show ?thesis using assms by simp
qed

lemma month_days_pos:
  assumes "1 \<le> mo" "mo \<le> 12"
  shows "28 \<le> month_days y mo"
  using assms by (cases rule: months_cases) (simp_all add: month_days_def numeral_nat)

lemma year_days_pos: "0 \<le> year_days y"
  by (simp add: year_days_def)

lemma month_blocks:
  assumes "1 \<le> mo" "mo < mo'" "mo' \<le> 12"
  shows "days_before_month y (mo - 1) + month_days y mo \<le> days_before_month y (mo' - 1)"
  using blocks_mono [of 1 12 "\<lambda>k. days_before_month y (k - 1)" "month_days y" mo mo'] assms
    days_before_month_step [of _ y] month_days_pos [of _ y] by force

lemma year_blocks:
  "y < y' \<Longrightarrow> days_before_year y + year_days y \<le> days_before_year y'"
  using blocks_mono [of y y' days_before_year year_days y y'] days_before_year_step year_days_pos by simp

lemma day_in_year:
  assumes "valid_date y mo d"
  shows "0 < days_before_month y (mo - 1) + d" "days_before_month y (mo - 1) + d \<le> year_days y"
proof -
  have v: "1 \<le> mo" "mo \<le> 12" "1 \<le> d" "d \<le> month_days y mo" using assms by (simp_all add: valid_date_def)
  show "0 < days_before_month y (mo - 1) + d"
    using month_blocks [of 1 mo y] month_days_pos [of 1 y] before_january [of y] v by (cases "mo = 1") auto
  show "days_before_month y (mo - 1) + d \<le> year_days y"
    using month_blocks [of mo 12 y] month_days_pos [of 12 y] december [of y] v by (cases "mo = 12") auto
qed

definition earlier :: "int \<times> int \<times> int \<Rightarrow> int \<times> int \<times> int \<Rightarrow> bool" where
  "earlier s t =
     (case (s, t) of ((y, mo, d), (y', mo', d')) \<Rightarrow> y < y' \<or> y = y' \<and> (mo < mo' \<or> mo = mo' \<and> d < d'))"

lemma day_number_mono:
  assumes "valid_date y mo d" "valid_date y' mo' d'" "earlier (y, mo, d) (y', mo', d')"
  shows "day_number (y, mo, d) < day_number (y', mo', d')"
proof -
  have v: "1 \<le> mo" "mo \<le> 12" "d \<le> month_days y mo" "1 \<le> mo'" "mo' \<le> 12" "1 \<le> d'"
    using assms(1,2) by (simp_all add: valid_date_def)
  consider "y < y'" | "y = y'" "mo < mo'" | "y = y'" "mo = mo'" "d < d'"
    using assms(3) by (auto simp: earlier_def)
  then show ?thesis
  proof cases
    case 1
    then show ?thesis
      using year_blocks [OF 1] day_in_year [OF assms(1)] day_in_year [OF assms(2)] v
      by (simp add: day_number_def civil_days_valid)
  next
    case 2
    then show ?thesis
      using month_blocks [of mo mo' y] v by (simp add: day_number_def civil_days_valid)
  next
    case 3
    then show ?thesis using v by (simp add: day_number_def civil_days_valid)
  qed
qed

text \<open>The date of an application, in a zone with one offset.\<close>

definition date_parts :: "string \<Rightarrow> (int \<times> int \<times> int) option" where
  "date_parts s =
     (case (parse_int 10 32 (take 4 s), parse_int 10 32 (take 2 (drop 4 s)), parse_int 10 32 (drop 6 s)) of
        (Some y, Some mo, Some d) \<Rightarrow> Some (y, mo, d)
      | _ \<Rightarrow> None)"

lemma parseDate_parts:
  assumes "length s = 8" "date_parts s = Some t"
  shows "parseDate (\<lambda>u. (off, lo, hi)) s = day_number t * 86400 - off"
  using assms by (auto simp: parseDate_def date_parts_def time_date_def day_number_def Let_def split: option.splits)

text \<open>In a zone with one offset, a later date that the calendar has is a later time.\<close>

theorem install_dates_ordered:
  assumes "length s = 8" "length t = 8" "date_parts s = Some (y, mo, d)" "date_parts t = Some (y', mo', d')"
    and "valid_date y mo d" "valid_date y' mo' d'" "earlier (y, mo, d) (y', mo', d')"
  shows "parseDate (\<lambda>u. (off, lo, hi)) s < parseDate (\<lambda>u. (off, lo, hi)) t"
  using day_number_mono [OF assms(5-7)] parseDate_parts [OF assms(1,3), of off lo hi] parseDate_parts [OF assms(2,4), of off lo hi]
  by simp

lemma demo_dates:
  "date_parts ''20240229'' = Some (2024, 2, 29)" "date_parts ''20240301'' = Some (2024, 3, 1)"
  "date_parts ''20240230'' = Some (2024, 2, 30)"
  by (simp_all add: date_parts_def parse_int_def parse_uint_def digit_val_def Let_def take_Cons' drop_Cons')

theorem install_dates_ordered_witness:
  "parseDate (\<lambda>u. (3600, 0, 0)) ''20240229'' < parseDate (\<lambda>u. (3600, 0, 0)) ''20240301''"
proof -
  have "valid_date 2024 2 29" "valid_date 2024 3 1" "earlier (2024, 2, 29) (2024, 3, 1)"
    by (simp_all add: valid_date_def month_days_def leap_year_def earlier_def numeral_nat)
  from install_dates_ordered [OF _ _ demo_dates(1,2) this, of 3600 0 0] show ?thesis by simp
qed

text \<open>A date that the calendar does not have is not refused: the thirtieth of February is the first of March.\<close>

lemma missing_date_moves:
  "\<not> valid_date 2024 2 30 \<and> parseDate (\<lambda>u. (0, 0, 0)) ''20240230'' = parseDate (\<lambda>u. (0, 0, 0)) ''20240301''"
proof -
  have "parseDate (\<lambda>u. (0, 0, 0)) ''20240230'' = parseDate (\<lambda>u. (0, 0, 0)) ''20240301''"
    using parseDate_parts [OF _ demo_dates(3), of 0 0 0] parseDate_parts [OF _ demo_dates(2), of 0 0 0]
    by (simp add: day_number_def civil_days_def days_before_month_def leap_year_def numeral_nat)
  then show ?thesis by (simp add: valid_date_def month_days_def leap_year_def numeral_nat)
qed

end
