(* ===== verification/AgentLock.thy ===== *)
theory AgentLock
  imports MainLoop AgentConfig FileSys "HOL-Library.Word"
begin

unbundle bit_operations_syntax

text \<open>
  One agent at a time: \<open>obtainLock\<close> and the function that it defers (\<open>main_linux.go\<close>, \<open>main_windows.go\<close>),
  as one agent runs it and as several agents interleave, the order of start-up in \<open>run\<close> of \<open>main.go\<close>, and
  the Windows service around it (\<open>service.Execute\<close>).

  \<^item> A lock belongs to a file (an inode), not to its name: a name can be removed while agents hold or wait for
    the file. \<open>lk_path\<close> is the file that the name leads to, \<open>lk_owner\<close> who has locked a file.
  \<^item> A step is one system call of one agent. An agent may be killed at any time; the system then drops its lock.
  \<^item> Linux removes the name of an open file; Windows refuses it, for files that are opened as Go opens them.
\<close>

section \<open>One agent\<close>

datatype lock_platform = OnLinux | OnWindows

datatype lock_end = Locked | LockFatal string

text \<open>What \<open>flock\<close> did within a second: an answer, or nothing. \<open>LockFileEx\<close> always answers.\<close>

definition lock_file_linux :: string where "lock_file_linux = ''/run/lock/osconfig_agent.lock''"

text \<open>The mode of \<open>/run/lock\<close>, if it has to be made: a decimal literal.\<close>

definition lock_dir_mode :: nat where "lock_dir_mode = 1777"

definition lock_held :: string where
  "lock_held = ''OSConfig agent lock already held, is the agent already running?''"

definition not_exist_error :: "(go_error \<Rightarrow> bool) \<Rightarrow> go_error option \<Rightarrow> go_error option" where
  "not_exist_error is_exist e = (case e of None \<Rightarrow> None | Some x \<Rightarrow> if is_exist x then None else Some x)"

definition obtainLock_linux :: "(go_error \<Rightarrow> bool) \<Rightarrow> go_error option \<Rightarrow> go_error option \<Rightarrow> go_error option option \<Rightarrow> lock_end" where
  "obtainLock_linux is_exist mkdir open flock =
     (case not_exist_error is_exist mkdir of
        Some e \<Rightarrow> LockFatal (''Cannot obtain agent lock: '' @ err_text e)
      | None \<Rightarrow>
          (case not_exist_error is_exist open of
             Some e \<Rightarrow> LockFatal (''Cannot obtain agent lock: '' @ err_text e)
           | None \<Rightarrow>
               (case flock of
                  None \<Rightarrow> LockFatal lock_held
                | Some (Some e) \<Rightarrow> LockFatal (''Cannot obtain agent lock, is the agent already running? Error: '' @ err_text e)
                | Some None \<Rightarrow> Locked)))"

text \<open>\<open>lockFileEx\<close> and \<open>unlockFileEx\<close>: the result zero of the system call is the error.\<close>

definition LOCKFILE_EXCLUSIVE_LOCK :: nat where "LOCKFILE_EXCLUSIVE_LOCK = 2"
definition LOCKFILE_FAIL_IMMEDIATELY :: nat where "LOCKFILE_FAIL_IMMEDIATELY = 1"

definition lockFileEx :: "nat \<Rightarrow> go_error option" where
  "lockFileEx ret = (if ret = 0 then Some (ErrMsg ''LockFileEx unable to obtain lock'') else None)"

definition unlockFileEx :: "nat \<Rightarrow> go_error option" where
  "unlockFileEx ret = (if ret = 0 then Some (ErrMsg ''UnlockFileEx unable to unlock'') else None)"

definition obtainLock_windows :: "(go_error \<Rightarrow> bool) \<Rightarrow> go_error option \<Rightarrow> go_error option \<Rightarrow> (nat \<Rightarrow> nat) \<Rightarrow> lock_end" where
  "obtainLock_windows is_exist mkdir open lock_call =
     (case not_exist_error is_exist mkdir of
        Some e \<Rightarrow> LockFatal (''Cannot obtain agent lock: '' @ err_text e)
      | None \<Rightarrow>
          (case not_exist_error is_exist open of
             Some e \<Rightarrow> LockFatal (''Cannot obtain agent lock: '' @ err_text e)
           | None \<Rightarrow>
               (case lockFileEx (lock_call (LOCKFILE_EXCLUSIVE_LOCK OR LOCKFILE_FAIL_IMMEDIATELY)) of
                  Some e \<Rightarrow> LockFatal lock_held
                | None \<Rightarrow> Locked)))"

section \<open>Several agents\<close>

datatype lock_phase = Outside | Opened nat | Holding nat | Unlocked nat | Closed | Gone | Ended

record lock_sys =
  lk_path :: "nat option"
  lk_owner :: "nat \<Rightarrow> nat option"
  lk_next :: nat
  lk_phase :: "nat \<Rightarrow> lock_phase"

definition lock_begin :: lock_sys where
  "lock_begin = \<lparr>lk_path = None, lk_owner = (\<lambda>_. None), lk_next = 0, lk_phase = (\<lambda>_. Outside)\<rparr>"

fun open_file :: "lock_phase \<Rightarrow> nat option" where
  "open_file (Opened i) = Some i"
| "open_file (Holding i) = Some i"
| "open_file (Unlocked i) = Some i"
| "open_file _ = None"

definition in_phase :: "nat \<Rightarrow> lock_phase \<Rightarrow> lock_sys \<Rightarrow> lock_sys" where
  "in_phase p f s = s\<lparr>lk_phase := (lk_phase s)(p := f)\<rparr>"

definition drop_lock :: "nat \<Rightarrow> lock_sys \<Rightarrow> lock_sys" where
  "drop_lock p s = s\<lparr>lk_owner := (\<lambda>i. if lk_owner s i = Some p then None else lk_owner s i)\<rparr>"

text \<open>
  The steps in the order of the code: open or create the file, lock it or give up, and at the end the deferred
  function: unlock, close, remove the name. The error of the removal is ignored.
\<close>

inductive lock_step :: "lock_platform \<Rightarrow> lock_sys \<Rightarrow> lock_sys \<Rightarrow> bool" for pl where
  create_file: "lk_phase s p = Outside \<Longrightarrow> lk_path s = None \<Longrightarrow>
    lock_step pl s (in_phase p (Opened (lk_next s)) (s\<lparr>lk_path := Some (lk_next s), lk_next := Suc (lk_next s)\<rparr>))"
| open_old: "lk_phase s p = Outside \<Longrightarrow> lk_path s = Some i \<Longrightarrow> lock_step pl s (in_phase p (Opened i) s)"
| take_lock: "lk_phase s p = Opened i \<Longrightarrow> lk_owner s i = None \<Longrightarrow>
    lock_step pl s (in_phase p (Holding i) (s\<lparr>lk_owner := (lk_owner s)(i := Some p)\<rparr>))"
| killed: "lk_phase s p \<noteq> Gone \<Longrightarrow> lock_step pl s (in_phase p Ended (drop_lock p s))"
| unlock: "lk_phase s p = Holding i \<Longrightarrow> lock_step pl s (in_phase p (Unlocked i) (drop_lock p s))"
| close_lock: "lk_phase s p = Unlocked i \<Longrightarrow> lock_step pl s (in_phase p Closed s)"
| remove_name: "lk_phase s p = Closed \<Longrightarrow> pl = OnLinux \<or> (\<forall>q. open_file (lk_phase s q) = None) \<Longrightarrow>
    lock_step pl s (in_phase p Gone (s\<lparr>lk_path := None\<rparr>))"
| remove_refused: "lk_phase s p = Closed \<Longrightarrow> lock_step pl s (in_phase p Ended s)"

inductive lock_reachable :: "lock_platform \<Rightarrow> lock_sys \<Rightarrow> bool" for pl where
  lock_start: "lock_reachable pl lock_begin"
| step: "lock_reachable pl s \<Longrightarrow> lock_step pl s s' \<Longrightarrow> lock_reachable pl s'"

text \<open>Giving up after a second, or at once on Windows, is the end of that agent: its step is \<open>killed\<close>.\<close>

section \<open>Invariants\<close>

definition owner_inv :: "lock_sys \<Rightarrow> bool" where
  "owner_inv s \<longleftrightarrow> (\<forall>i p. lk_owner s i = Some p \<longleftrightarrow> lk_phase s p = Holding i)"

lemmas lock_simps = in_phase_def drop_lock_def owner_inv_def

lemma owner_inv_begin: "owner_inv lock_begin"
  by (simp add: owner_inv_def lock_begin_def)

lemma owner_inv_step:
  assumes "lock_step pl s s'" "owner_inv s"
  shows "owner_inv s'"
proof -
  have own: "lk_owner s i = Some q \<longleftrightarrow> lk_phase s q = Holding i" for q i
    using assms(2) by (simp add: owner_inv_def)
  have free: "lk_owner s i = None \<Longrightarrow> lk_phase s q \<noteq> Holding i" for q i
    using own [of i q] by auto
  have one: "lk_phase s q = Holding i \<Longrightarrow> lk_phase s r = Holding i \<Longrightarrow> q = r" for q r i
    using own [of i q] own [of i r] by simp
  show ?thesis
    using assms(1) by (cases rule: lock_step.cases) (auto simp: lock_simps own dest: free one)
qed

lemma owner_inv_reachable: "lock_reachable pl s \<Longrightarrow> owner_inv s"
  by (induction rule: lock_reachable.induct) (auto intro: owner_inv_begin owner_inv_step)

text \<open>While the name leads to the file that every agent has open.\<close>

definition one_file :: "lock_sys \<Rightarrow> bool" where
  "one_file s \<longleftrightarrow> (\<forall>p i. open_file (lk_phase s p) = Some i \<longrightarrow> lk_path s = Some i)"

definition removed :: "lock_sys \<Rightarrow> bool" where
  "removed s \<longleftrightarrow> (\<exists>p. lk_phase s p = Gone)"

lemma one_fileD:
  "one_file s \<Longrightarrow> open_file (lk_phase s p) = Some i \<Longrightarrow> lk_path s = Some i"
  "one_file s \<Longrightarrow> lk_phase s p = Opened i \<Longrightarrow> lk_path s = Some i"
  "one_file s \<Longrightarrow> lk_phase s p = Holding i \<Longrightarrow> lk_path s = Some i"
  unfolding one_file_def by (metis open_file.simps)+

lemma one_file_step:
  assumes "lock_step pl s s'" "one_file s" "pl = OnWindows \<or> \<not> removed s'"
  shows "one_file s'"
  unfolding one_file_def [of s']
  using assms by (cases rule: lock_step.cases) (auto simp: lock_simps removed_def split: if_splits dest: one_fileD)

lemma removed_step:
  assumes "lock_step pl s s'" "removed s"
  shows "removed s'"
proof -
  obtain q where "lk_phase s q = Gone" using assms(2) by (auto simp: removed_def)
  with assms(1) have "lk_phase s' q = Gone" by (cases rule: lock_step.cases) (auto simp: lock_simps)
  then show ?thesis by (auto simp: removed_def)
qed

lemma one_file_reachable:
  "lock_reachable pl s \<Longrightarrow> pl = OnWindows \<or> \<not> removed s \<Longrightarrow> one_file s"
proof (induction rule: lock_reachable.induct)
  case lock_start
  then show ?case by (simp add: one_file_def lock_begin_def)
next
  case (step s s')
  then show ?case using one_file_step removed_step by blast
qed

text \<open>C38. One agent at a time: on Windows always, on Linux as long as no agent has removed the lock file at its end, two agents
  that hold the lock are the same agent, however the steps of the agents interleave and whichever of them are killed.\<close>

theorem one_agent_holds_lock:
  assumes "lock_reachable pl s" "pl = OnWindows \<or> \<not> removed s" "lk_phase s p = Holding i" "lk_phase s q = Holding j"
  shows "p = q"
proof -
  have "lk_path s = Some i" "lk_path s = Some j"
    using one_fileD(3) [OF one_file_reachable [OF assms(1,2)]] assms(3,4) by blast+
  then have "lk_owner s i = Some p" "lk_owner s i = Some q"
    using owner_inv_reachable [OF assms(1)] assms(3,4) by (auto simp: owner_inv_def)
  then show ?thesis by simp
qed

section \<open>Runs\<close>

text \<open>Executable runs, to exhibit reachable states.\<close>

datatype lock_act = Open nat | Take nat | Kill nat | Unlock nat | Close nat | Remove nat

fun lock_fire :: "lock_act \<Rightarrow> lock_sys \<Rightarrow> lock_sys option" where
  "lock_fire (Open p) s =
     (if lk_phase s p \<noteq> Outside then None
      else (case lk_path s of
              None \<Rightarrow> Some (in_phase p (Opened (lk_next s)) (s\<lparr>lk_path := Some (lk_next s), lk_next := Suc (lk_next s)\<rparr>))
            | Some i \<Rightarrow> Some (in_phase p (Opened i) s)))"
| "lock_fire (Take p) s =
     (case lk_phase s p of
        Opened i \<Rightarrow> (if lk_owner s i = None then Some (in_phase p (Holding i) (s\<lparr>lk_owner := (lk_owner s)(i := Some p)\<rparr>)) else None)
      | _ \<Rightarrow> None)"
| "lock_fire (Kill p) s = (if lk_phase s p = Gone then None else Some (in_phase p Ended (drop_lock p s)))"
| "lock_fire (Unlock p) s = (case lk_phase s p of Holding i \<Rightarrow> Some (in_phase p (Unlocked i) (drop_lock p s)) | _ \<Rightarrow> None)"
| "lock_fire (Close p) s = (case lk_phase s p of Unlocked i \<Rightarrow> Some (in_phase p Closed s) | _ \<Rightarrow> None)"
| "lock_fire (Remove p) s = (if lk_phase s p = Closed then Some (in_phase p Gone (s\<lparr>lk_path := None\<rparr>)) else None)"

fun lock_run :: "lock_act list \<Rightarrow> lock_sys \<Rightarrow> lock_sys option" where
  "lock_run [] s = Some s"
| "lock_run (a # as) s = (case lock_fire a s of None \<Rightarrow> None | Some s1 \<Rightarrow> lock_run as s1)"

lemma lock_fire_step:
  assumes "lock_fire a s = Some s'"
  shows "lock_step OnLinux s s'"
  using assms
  by (cases a) (auto split: if_splits option.splits lock_phase.splits intro: lock_step.intros)

lemma lock_run_reachable:
  "lock_run as s = Some s' \<Longrightarrow> lock_reachable OnLinux s \<Longrightarrow> lock_reachable OnLinux s'"
proof (induction as arbitrary: s)
  case (Cons a as)
  then obtain s1 where "lock_fire a s = Some s1" "lock_run as s1 = Some s'" by (auto split: option.splits)
  with Cons show ?case using lock_fire_step lock_reachable.step by blast
qed simp

lemma lock_run_begin: "lock_run as lock_begin = Some s \<Longrightarrow> lock_reachable OnLinux s"
  by (rule lock_run_reachable [OF _ lock_reachable.lock_start])

lemmas run_simps = lock_begin_def in_phase_def drop_lock_def

theorem one_agent_holds_lock_witness:
  "\<exists>s. lock_run [Open 1, Open 2, Take 2, Kill 2, Take 1] lock_begin = Some s \<and> lk_phase s 1 = Holding 0 \<and> \<not> removed s \<and>
     lk_phase s 3 \<noteq> Holding 0"
proof -
  obtain s where s: "lock_run [Open 1, Open 2, Take 2, Kill 2, Take 1] lock_begin = Some s" "lk_phase s 1 = Holding 0" "\<not> removed s"
    by (simp add: run_simps removed_def)
  show ?thesis using s one_agent_holds_lock [OF lock_run_begin [OF s(1)] _ s(2), of 3] by auto
qed

text \<open>On Linux a lock file that is removed splits the lock: an agent that waited for it holds the file without a name, and
  the next agent creates and locks another one.\<close>

lemma removal_splits_lock:
  "\<exists>s. lock_reachable OnLinux s \<and> lk_phase s 2 = Holding 0 \<and> lk_phase s 3 = Holding 1"
proof -
  obtain s where s: "lock_run [Open 1, Take 1, Open 2, Unlock 1, Take 2, Close 1, Remove 1, Open 3, Take 3] lock_begin = Some s"
      "lk_phase s 2 = Holding 0" "lk_phase s 3 = Holding 1"
    by (simp add: run_simps)
  then show ?thesis using lock_run_begin [OF s(1)] by blast
qed

text \<open>The mode of the lock directory is decimal: its permission bits are not \<open>0777\<close>, and the sticky bit is not set by it.\<close>

lemma lock_dir_mode_bits:
  "(of_nat lock_dir_mode :: 32 word) AND 0x1FF = 0xF1"
  by (simp add: lock_dir_mode_def)

section \<open>Start-up\<close>

text \<open>
  \<open>run\<close> up to the start of the agent. A fatal error of the logger runs the functions that are registered with the
  logger, which are none until the lock is held, and ends the process.
\<close>

datatype deferred = RemoveOldRestart | CloseLogger | LogShutdown | ReleaseLock

datatype agent_start = FatalStart string "deferred list" | ExitStart int | Running "deferred list"

definition run_start :: "go_error option \<Rightarrow> go_error option \<Rightarrow> lock_end \<Rightarrow> agent_start" where
  "run_start watch logger lock =
     (case watch of
        Some e \<Rightarrow> FatalStart (''Error parsing metadata, agent cannot start: '' @ err_text e) []
      | None \<Rightarrow>
          (case logger of
             Some e \<Rightarrow> ExitStart 1
           | None \<Rightarrow>
               (case lock of
                  LockFatal m \<Rightarrow> FatalStart m []
                | Locked \<Rightarrow> Running [RemoveOldRestart, CloseLogger, LogShutdown, ReleaseLock])))"

text \<open>The first deferred function: the restart file of older agents, and its directory once that is empty.\<close>

definition remove_old_restart :: "bool \<Rightarrow> bool \<Rightarrow> nat res \<Rightarrow> string list" where
  "remove_old_restart linux old_exists listing =
     (if linux \<and> old_exists
      then OldRestartFile # (case listing of Inl e \<Rightarrow> [] | Inr n \<Rightarrow> if 0 < n then [] else [path_dir OldRestartFile])
      else [])"

text \<open>An agent that starts holds the lock, and only that agent releases it.\<close>

lemma running_holds_lock:
  "run_start watch logger lock = Running fs \<longleftrightarrow>
     watch = None \<and> logger = None \<and> lock = Locked \<and> fs = [RemoveOldRestart, CloseLogger, LogShutdown, ReleaseLock]"
  by (auto simp: run_start_def split: option.splits lock_end.splits)

section \<open>The Windows service\<close>

datatype service_state = StartPending | RunningService | StopPending

record service_status =
  st_state :: service_state
  st_accepts_stop :: bool
  st_hint :: nat

datatype service_command = Interrogate service_status | StopService | ShutdownService | OtherCommand nat

text \<open>What the \<open>select\<close> receives: the end of \<open>run\<close>, or a request of the service manager.\<close>

datatype service_event = RunEnded | Request service_command

definition plain_status :: "service_state \<Rightarrow> service_status" where
  "plain_status st = \<lparr>st_state = st, st_accepts_stop = False, st_hint = 0\<rparr>"

text \<open>The statuses sent, whether the context of \<open>run\<close> is cancelled, whether the loop has returned.\<close>

fun service_loop :: "service_event list \<Rightarrow> bool \<Rightarrow> service_status list \<times> bool \<times> bool" where
  "service_loop [] cancelled = ([], cancelled, False)"
| "service_loop (RunEnded # es) cancelled = ([plain_status StopPending], True, True)"
| "service_loop (Request c # es) cancelled =
     (case c of
        Interrogate st \<Rightarrow> (case service_loop es cancelled of (sts, r) \<Rightarrow> (st # sts, r))
      | StopService \<Rightarrow> (case service_loop es True of (sts, r) \<Rightarrow> ((plain_status StopPending)\<lparr>st_hint := 30000\<rparr> # sts, r))
      | ShutdownService \<Rightarrow> (case service_loop es True of (sts, r) \<Rightarrow> ((plain_status StopPending)\<lparr>st_hint := 30000\<rparr> # sts, r))
      | OtherCommand n \<Rightarrow> service_loop es cancelled)"

definition Execute :: "service_event list \<Rightarrow> service_status list \<times> bool \<times> bool" where
  "Execute es =
     (case service_loop es False of
        (sts, r) \<Rightarrow> (plain_status StartPending # (plain_status RunningService)\<lparr>st_accepts_stop := True\<rparr> # sts, r))"

lemma service_loop_end:
  "fst (snd (service_loop es c)) \<longleftrightarrow> c \<or> (\<exists>e \<in> set es. e \<in> {RunEnded, Request StopService, Request ShutdownService})"
  "snd (snd (service_loop es c)) \<longleftrightarrow> RunEnded \<in> set es"
  by (induction es c rule: service_loop.induct) (auto split: service_command.splits prod.splits)

text \<open>The service ends exactly when \<open>run\<close> has returned, whatever the service manager asks; a request to stop or to shut down
  cancels the context of \<open>run\<close> and nothing else does before \<open>run\<close> has returned.\<close>

theorem service_waits_for_run:
  "(snd (snd (Execute es)) \<longleftrightarrow> RunEnded \<in> set es) \<and>
   (fst (snd (Execute es)) \<longleftrightarrow> (\<exists>e \<in> set es. e \<in> {RunEnded, Request StopService, Request ShutdownService}))"
  using service_loop_end [of es False] by (auto simp: Execute_def split: prod.splits)

end
