(* ===== verification/WinSystem.thy ===== *)
theory WinSystem
  imports OsInfo PkgCmd "HOL-Library.Word"
begin

unbundle bit_operations_syntax

text \<open>
  What the agent reads of Windows below Go: the version resource of the kernel and the information of the
  operating system (\<open>osinfo/osinfo_windows.go\<close>), and the Windows Installer (\<open>packages/msi_windows.go\<close>,
  \<open>coInitializeEx\<close> of \<open>packages/packages_windows.go\<close>).

  \<^item> A version resource is its bytes; \<open>VerQueryValueW\<close> answers a place in it, as an offset and a length: a parameter.
    A place outside the resource is a panic of Go. UTF-16 becomes the bytes of the Go string (WTF-8, as \<open>syscall\<close> does).
  \<^item> The installer's library is the argument \<open>ms_call\<close>, which answers each call; \<open>mw_log\<close> is a history variable.
\<close>

section \<open>UTF-16\<close>

text \<open>The bytes of a code point.\<close>

definition rune_bytes :: "nat \<Rightarrow> string" where
  "rune_bytes n =
     (if n < 0x80 then [char_of n]
      else if n < 0x800 then [char_of (0xC0 + n div 64), char_of (0x80 + n mod 64)]
      else if n < 0x10000 then [char_of (0xE0 + n div 4096), char_of (0x80 + n div 64 mod 64), char_of (0x80 + n mod 64)]
      else [char_of (0xF0 + n div 262144), char_of (0x80 + n div 4096 mod 64), char_of (0x80 + n div 64 mod 64), char_of (0x80 + n mod 64)])"

fun utf16_runes :: "nat list \<Rightarrow> nat list" where
  "utf16_runes [] = []"
| "utf16_runes [r] = [r]"
| "utf16_runes (r # s # us) =
     (if 0xD800 \<le> r \<and> r < 0xDC00 \<and> 0xDC00 \<le> s \<and> s < 0xE000
      then (0x10000 + (r - 0xD800) * 1024 + (s - 0xDC00)) # utf16_runes us
      else r # utf16_runes (s # us))"

definition utf16_to_string :: "16 word list \<Rightarrow> string" where
  "utf16_to_string us = concat (map rune_bytes (utf16_runes (map unat (takeWhile (\<lambda>u. u \<noteq> 0) us))))"

section \<open>osinfo_windows.go\<close>

type_synonym ver_query = "8 word list \<Rightarrow> string \<Rightarrow> (nat \<times> nat) option"

definition byte_slice :: "8 word list \<Rightarrow> nat \<Rightarrow> nat \<Rightarrow> 8 word list outcome" where
  "byte_slice b i n = (if i + n \<le> length b then Done (take n (drop i b)) else Panic ''slice bounds out of range'')"

definition ver_query_error :: go_error where
  "ver_query_error = ErrMsg ''zero return code from VerQueryValueW indicates failure''"

definition byte_hex :: "8 word \<Rightarrow> string" where
  "byte_hex w = [hex_digit (unat w div 16), hex_digit (unat w mod 16)]"

definition getTranslation :: "ver_query \<Rightarrow> 8 word list \<Rightarrow> string res outcome" where
  "getTranslation q block =
     (if block = [] then Panic ''index out of range''
      else case q block (windows_path ['''', ''VarFileInfo'', ''Translation'']) of
             None \<Rightarrow> Done (Inl ver_query_error)
           | Some (i, n) \<Rightarrow>
               obind (byte_slice block i n) (\<lambda>t. case t of
                   a # b # c # d # _ \<Rightarrow> Done (Inr (concat (map byte_hex [b, a, d, c])))
                 | _ \<Rightarrow> Panic ''index out of range''))"

text \<open>The characters of a text, two bytes each, the lower one first.\<close>

fun u16s :: "8 word list \<Rightarrow> 16 word list" where
  "u16s (lo # hi # bs) = (push_bit 8 (ucast hi) OR ucast lo) # u16s bs"
| "u16s _ = []"

definition getStringFileInfo :: "ver_query \<Rightarrow> 8 word list \<Rightarrow> string \<Rightarrow> string \<Rightarrow> string res outcome" where
  "getStringFileInfo q block lang name =
     (if block = [] then Panic ''index out of range''
      else case q block (windows_path ['''', ''StringFileInfo'', lang, name]) of
             None \<Rightarrow> Done (Inl ver_query_error)
           | Some (i, n) \<Rightarrow> obind (byte_slice block i (2 * n)) (\<lambda>t. Done (Inr (utf16_to_string (u16s t)))))"

text \<open>An error of the second query keeps the first answer.\<close>

definition getVersion :: "ver_query \<Rightarrow> 8 word list \<Rightarrow> string \<Rightarrow> (string \<times> string \<times> go_error option) outcome" where
  "getVersion q block lang =
     obind (getStringFileInfo q block lang ''FileVersion'') (\<lambda>v. case v of
         Inl e \<Rightarrow> Done ([], [], Some e)
       | Inr ver \<Rightarrow> obind (getStringFileInfo q block lang ''ProductVersion'') (\<lambda>r. case r of
             Inl e \<Rightarrow> Done (ver, [], Some e)
           | Inr rel \<Rightarrow> Done (ver, rel, None)))"

record kernel_file =
  kf_stat :: "string \<Rightarrow> go_error option"
  kf_size :: "string \<Rightarrow> nat"
  kf_info :: "string \<Rightarrow> 8 word list option"
  kf_query :: ver_query

text \<open>\<open>filepath.Join\<close> of a root that is a clean path.\<close>

definition kernel_path :: "string \<Rightarrow> string" where
  "kernel_path root = windows_path [(if root = [] then windows_path [''C:'', ''Windows''] else root), ''System32'', ''ntoskrnl.exe'']"

definition getKernelInfo :: "kernel_file \<Rightarrow> string \<Rightarrow> (string \<times> string \<times> go_error option) outcome" where
  "getKernelInfo k root =
     (let path = kernel_path root in
      case kf_stat k path of
        Some e \<Rightarrow> Done ([], [], Some e)
      | None \<Rightarrow>
          if kf_size k path \<le> 0 then Done ([], [], Some (ErrMsg ''GetFileVersionInfoSize call failed, data size can not be 0''))
          else (case kf_info k path of
                  None \<Rightarrow> Done ([], [], Some (ErrMsg ''zero return code from GetFileVersionInfoW indicates failure''))
                | Some block \<Rightarrow>
                    obind (getTranslation (kf_query k) block) (\<lambda>t. case t of
                        Inl e \<Rightarrow> Done ([], [], Some (ErrMsg (''getTranslation() error: '' @ err_text e)))
                      | Inr lang \<Rightarrow> getVersion (kf_query k) block lang)))"

definition os_query :: string where
  "os_query = ''SELECT Caption, Version FROM Win32_OperatingSystem''"

text \<open>\<open>Get\<close>: what is known so far goes with an error.\<close>

definition windows_os_get :: "string \<Rightarrow> string res \<Rightarrow> kernel_file \<Rightarrow> string \<Rightarrow> (string \<Rightarrow> (string \<times> string) list res)
    \<Rightarrow> (os_info \<times> go_error option) outcome" where
  "windows_os_get goarch hostname k root wmi =
     (let oi = empty_os_info\<lparr>oi_short := ''windows'', oi_arch := NormalizeArchitecture goarch\<rparr> in
      case hostname of
        Inl e \<Rightarrow> Done (oi, Some (ErrMsg (''os.Hostname() error: '' @ err_text e)))
      | Inr hn \<Rightarrow>
          (let oi = oi\<lparr>oi_hostname := hn\<rparr> in
           obind (getKernelInfo k root) (\<lambda>(ver, rel, e). case e of
               Some e \<Rightarrow> Done (oi, Some (ErrMsg (''getKernelInfo() error: '' @ err_text e)))
             | None \<Rightarrow>
                 (let oi = oi\<lparr>oi_kernel_version := ver, oi_kernel_release := rel\<rparr> in
                  case wmi os_query of
                    Inl e \<Rightarrow> Done (oi, Some (ErrMsg (''wmi.Query('' @ quote os_query @ '') error: '' @ err_text e)))
                  | Inr [] \<Rightarrow> Done (oi, Some (ErrMsg (''wmi.Query('' @ quote os_query @ '') nil output'')))
                  | Inr ((caption, version) # _) \<Rightarrow> Done (oi\<lparr>oi_long := caption, oi_version := version\<rparr>, None)))))"

section \<open>msi_windows.go\<close>

datatype msi_call =
    SetInternalUI nat
  | CoInit
  | CoUninit
  | OpenPackage string nat
  | GetProperty nat string
  | CloseHandle nat
  | QueryState string
  | InstallProduct string string

text \<open>The answer of a call: its result code, the handle that it writes and the text that it writes.\<close>

record msi_answer =
  ma_code :: nat
  ma_handle :: nat
  ma_text :: string

record 'x msi_env =
  ms_call :: "msi_call \<Rightarrow> 'x \<Rightarrow> msi_answer \<times> 'x"
  ms_coinit :: "'x \<Rightarrow> (go_error \<times> nat option) option \<times> 'x"
  ms_errno :: "nat \<Rightarrow> string"

record 'x msi_world =
  mw_x :: 'x
  mw_ui_set :: bool
  mw_log :: "msi_call list"

definition msi :: "'x msi_env \<Rightarrow> msi_call \<Rightarrow> 'x msi_world \<Rightarrow> msi_answer \<times> 'x msi_world" where
  "msi env c w = (case ms_call env c (mw_x w) of (a, x) \<Rightarrow> (a, w\<lparr>mw_x := x, mw_log := mw_log w @ [c]\<rparr>))"

definition setUIMode :: "'x msi_env \<Rightarrow> 'x msi_world \<Rightarrow> 'x msi_world" where
  "setUIMode env w = (if mw_ui_set w then w else (snd (msi env (SetInternalUI 2) w))\<lparr>mw_ui_set := True\<rparr>)"

text \<open>The two codes of success are \<open>S_OK\<close> and \<open>S_FALSE\<close>; an error that is not of OLE has no code.\<close>

definition coInitializeEx :: "'x msi_env \<Rightarrow> 'x msi_world \<Rightarrow> go_error option \<times> 'x msi_world" where
  "coInitializeEx env w =
     (case ms_coinit env (mw_x w) of
        (r, x) \<Rightarrow>
          ((case r of
              None \<Rightarrow> None
            | Some (e, code) \<Rightarrow>
                if code = None \<or> code \<noteq> Some 0 \<and> code \<noteq> Some 1
                then Some (ErrMsg (''ole.CoInitializeEx(0, ole.COINIT_MULTITHREADED): '' @ err_text e)) else None),
           w\<lparr>mw_x := x, mw_log := mw_log w @ [CoInit]\<rparr>))"

definition coUninitialize :: "'x msi_env \<Rightarrow> 'x msi_world \<Rightarrow> 'x msi_world" where
  "coUninitialize env w = snd (msi env CoUninit w)"

text \<open>\<open>syscall.UTF16PtrFromString\<close> refuses a text with a NUL byte.\<close>

definition utf16_error :: "string \<Rightarrow> string \<Rightarrow> go_error option" where
  "utf16_error what s =
     (if CHR 0x00 \<in> set s then Some (ErrMsg (''error encoding '' @ what @ '' to UTF16: invalid argument'')) else None)"

definition errno_error :: "'x msi_env \<Rightarrow> string \<Rightarrow> msi_answer \<Rightarrow> go_error" where
  "errno_error env what a = ErrMsg (what @ '' error: '' @ ms_errno env (ma_code a))"

definition msiOpenPackageExW :: "'x msi_env \<Rightarrow> string \<Rightarrow> nat \<Rightarrow> 'x msi_world \<Rightarrow> nat res \<times> 'x msi_world" where
  "msiOpenPackageExW env path options w =
     (case utf16_error ''szPackagePath'' path of
        Some e \<Rightarrow> (Inl e, w)
      | None \<Rightarrow>
          (case msi env (OpenPackage path options) w of
             (a, w1) \<Rightarrow> (if ma_code a \<noteq> 0 then Inl (errno_error env ''MsiOpenPackageExW'' a) else Inr (ma_handle a), w1)))"

definition msiCloseHandle :: "'x msi_env \<Rightarrow> nat \<Rightarrow> 'x msi_world \<Rightarrow> 'x msi_world" where
  "msiCloseHandle env h w = snd (msi env (CloseHandle h) w)"

text \<open>The buffer has 128 characters; a longer value is an error code of the library.\<close>

definition msiGetProductPropertyW :: "'x msi_env \<Rightarrow> nat \<Rightarrow> string \<Rightarrow> 'x msi_world \<Rightarrow> string res \<times> 'x msi_world" where
  "msiGetProductPropertyW env h property w =
     (case utf16_error ''szProperty'' property of
        Some e \<Rightarrow> (Inl e, w)
      | None \<Rightarrow>
          (case msi env (GetProperty h property) w of
             (a, w1) \<Rightarrow> (if ma_code a \<noteq> 0 then Inl (errno_error env ''MsiGetProductPropertyW'' a) else Inr (ma_text a), w1)))"

definition INSTALLSTATE_DEFAULT :: "32 word" where "INSTALLSTATE_DEFAULT = 5"

definition msiQueryProductStateW :: "'x msi_env \<Rightarrow> string \<Rightarrow> 'x msi_world \<Rightarrow> (32 word) res \<times> 'x msi_world" where
  "msiQueryProductStateW env product w =
     (case utf16_error ''szProduct'' product of
        Some e \<Rightarrow> (Inl e, w)
      | None \<Rightarrow> (case msi env (QueryState product) w of (a, w1) \<Rightarrow> (Inr (of_nat (ma_code a)), w1)))"

definition msiInstallProductW :: "'x msi_env \<Rightarrow> string \<Rightarrow> string list \<Rightarrow> 'x msi_world \<Rightarrow> go_error option \<times> 'x msi_world" where
  "msiInstallProductW env path args w =
     (case utf16_error ''szPackagePath'' path of
        Some e \<Rightarrow> (Some e, w)
      | None \<Rightarrow>
          (case utf16_error ''szCommandLine'' (join '' '' args) of
             Some e \<Rightarrow> (Some e, w)
           | None \<Rightarrow>
               (case msi env (InstallProduct path (join '' '' args)) w of
                  (a, w1) \<Rightarrow> (if ma_code a \<noteq> 0 then Some (errno_error env ''MsiInstallProductW'' a) else None, w1))))"

text \<open>The name and the code of the product; every path closes what it opened.\<close>

definition msi_properties :: "'x msi_env \<Rightarrow> nat \<Rightarrow> 'x msi_world \<Rightarrow> (string \<times> string) res \<times> 'x msi_world" where
  "msi_properties env h w =
     (case msiGetProductPropertyW env h ''ProductCode'' w of
        (Inl e, w1) \<Rightarrow> (Inl (ErrMsg (''error getting ProductCode property: '' @ err_text e)), w1)
      | (Inr code, w1) \<Rightarrow>
          (case msiGetProductPropertyW env h ''ProductName'' w1 of
             (Inl e, w2) \<Rightarrow> (Inl (ErrMsg (''error getting ProductName property: '' @ err_text e)), w2)
           | (Inr name, w2) \<Rightarrow> (Inr (name, code), w2)))"

definition MSIInfo :: "'x msi_env \<Rightarrow> string \<Rightarrow> 'x msi_world \<Rightarrow> (string \<times> string) res \<times> 'x msi_world" where
  "MSIInfo env path w =
     (case coInitializeEx env (setUIMode env w) of
        (Some e, w1) \<Rightarrow> (Inl e, w1)
      | (None, w1) \<Rightarrow>
          (case msiOpenPackageExW env path 1 w1 of
             (Inl e, w2) \<Rightarrow> (Inl (ErrMsg (''error opening MSI package '' @ quote path @ '': '' @ err_text e)), coUninitialize env w2)
           | (Inr h, w2) \<Rightarrow>
               (case msi_properties env h w2 of (r, w3) \<Rightarrow> (r, coUninitialize env (msiCloseHandle env h w3)))))"

definition MSIInstalled :: "'x msi_env \<Rightarrow> string \<Rightarrow> 'x msi_world \<Rightarrow> bool res \<times> 'x msi_world" where
  "MSIInstalled env product w =
     (case coInitializeEx env (setUIMode env w) of
        (Some e, w1) \<Rightarrow> (Inl e, w1)
      | (None, w1) \<Rightarrow>
          (case msiQueryProductStateW env product w1 of
             (Inl e, w2) \<Rightarrow> (Inl e, coUninitialize env w2)
           | (Inr st, w2) \<Rightarrow> (Inr (st = INSTALLSTATE_DEFAULT), coUninitialize env w2)))"

definition msiInstallArgs :: "string list" where
  "msiInstallArgs = [''ACTION=INSTALL'', ''REBOOT=ReallySuppress'']"

definition InstallMSIPackage :: "'x msi_env \<Rightarrow> string \<Rightarrow> string list \<Rightarrow> 'x msi_world \<Rightarrow> go_error option \<times> 'x msi_world" where
  "InstallMSIPackage env path args w =
     (case msiInstallProductW env path (msiInstallArgs @ args) (setUIMode env w) of
        (Some e, w1) \<Rightarrow> (Some (ErrMsg (''error installing MSI package '' @ quote path @ '': '' @ err_text e)), w1)
      | (None, w1) \<Rightarrow> (None, w1))"

end
