(* ===== verification/WinSystemFacts.thy ===== *)
theory WinSystemFacts
  imports WinSystem
begin

text \<open>
  Facts about theory WinSystem: a text of the version resource is read back as it was written, whatever its
  characters; what the installer's library is asked, with everything opened closed again.
\<close>

unbundle bit_operations_syntax

section \<open>UTF-16\<close>

definition rune_words :: "nat \<Rightarrow> nat list" where
  "rune_words n = (if n < 0x10000 then [n] else [0xD800 + (n - 0x10000) div 1024, 0xDC00 + (n - 0x10000) mod 1024])"

definition scalar :: "nat \<Rightarrow> bool" where
  "scalar n \<longleftrightarrow> 0 < n \<and> (n < 0xD800 \<or> 0xE000 \<le> n \<and> n < 0x110000)"

definition le_bytes :: "16 word \<Rightarrow> 8 word list" where
  "le_bytes u = [ucast u, ucast (drop_bit 8 u)]"

definition utf16_le :: "nat list \<Rightarrow> 8 word list" where
  "utf16_le ns = concat (map (le_bytes \<circ> word_of_nat) (concat (map rune_words ns)))"

lemma rune_words_runes:
  assumes "scalar n"
  shows "utf16_runes (rune_words n @ us) = n # utf16_runes us"
proof (cases "n < 0x10000")
  case True
  then show ?thesis using assms by (cases us) (auto simp: rune_words_def scalar_def)
next
  case False
  let ?m = "n - 0x10000"
  have m: "?m < 0x100000" "n = 0x10000 + ?m" using assms False by (auto simp: scalar_def)
  then have "?m div 1024 < 1024" by simp
  moreover have "?m div 1024 * 1024 + ?m mod 1024 = ?m" by simp
  ultimately show ?thesis using m False by (simp add: rune_words_def)
qed

lemma utf16_runes_words:
  "list_all scalar ns \<Longrightarrow> utf16_runes (concat (map rune_words ns)) = ns"
  by (induction ns) (simp_all add: rune_words_runes)

lemma rune_words_range:
  assumes "scalar n" "u \<in> set (rune_words n)"
  shows "0 < u \<and> u < 0x10000"
proof -
  have "n < 0x10000 \<or> (n - 0x10000) div 1024 < 1024" using assms(1) by (auto simp: scalar_def)
  moreover have "(n - 0x10000) mod 1024 < 1024" by simp
  ultimately show ?thesis
    using assms by (auto simp: rune_words_def scalar_def split: if_splits)
qed

lemma u16s_le_bytes:
  "u16s (concat (map le_bytes us)) = us"
proof (induction us)
  case (Cons u us)
  have "push_bit 8 (ucast (ucast (drop_bit 8 u) :: 8 word)) OR ucast (ucast u :: 8 word) = u" for u :: "16 word"
    by (rule bit_word_eqI) (auto simp: bit_simps)
  then show ?case using Cons by (simp add: le_bytes_def)
qed simp

lemma length_le_bytes: "length (concat (map le_bytes us)) = 2 * length us"
  by (induction us) (simp_all add: le_bytes_def)

lemma nonzero_words:
  assumes "list_all scalar ns" "u \<in> set (concat (map rune_words ns))"
  shows "0 < u \<and> u < 0x10000"
  using assms by (auto simp: list_all_iff dest: rune_words_range)

lemma utf16_to_string_words:
  assumes "list_all scalar ns"
  shows "utf16_to_string (map word_of_nat (concat (map rune_words ns)) @ 0 # rest) = concat (map rune_bytes ns)"
proof -
  let ?us = "concat (map rune_words ns)"
  have word: "unat (word_of_nat u :: 16 word) = u" "(word_of_nat u :: 16 word) \<noteq> 0" if "u \<in> set ?us" for u
  proof -
    have u: "0 < u" "u < 0x10000" using nonzero_words [OF assms that] by simp_all
    then show unat: "unat (word_of_nat u :: 16 word) = u" by (simp add: unat_of_nat)
    with u show "(word_of_nat u :: 16 word) \<noteq> 0" by force
  qed
  have "takeWhile (\<lambda>u. u \<noteq> 0) (map word_of_nat ?us @ 0 # rest) = (map word_of_nat ?us :: 16 word list)"
    using word(2) by (subst takeWhile_append2) auto
  moreover have "map unat (map word_of_nat ?us :: 16 word list) = ?us"
    unfolding map_map comp_def by (rule map_idI) (rule word(1))
  ultimately show ?thesis
    using utf16_runes_words [OF assms] by (simp add: utf16_to_string_def)
qed

text \<open>C40. A text of the version resource is read back: UTF-16 with the lower byte first, at any place of the resource, closed by a
  zero, becomes the bytes of its characters, those beyond 16 bits included.\<close>

theorem version_text_roundtrip:
  assumes "list_all scalar ns"
    and "block = before @ utf16_le ns @ [0, 0] @ behind"
    and "q block (windows_path ['''', ''StringFileInfo'', lang, name]) = Some (length before, length (concat (map rune_words ns)) + 1)"
  shows "getStringFileInfo q block lang name = Done (Inr (concat (map rune_bytes ns)))"
proof -
  define us where "us = (map word_of_nat (concat (map rune_words ns)) @ [0] :: 16 word list)"
  have bytes: "utf16_le ns @ [0, 0] = concat (map le_bytes us)"
    by (simp add: us_def utf16_le_def le_bytes_def)
  have len: "length (concat (map le_bytes us)) = 2 * (length (concat (map rune_words ns)) + 1)"
    by (subst length_le_bytes) (simp add: us_def)
  have block: "block = before @ concat (map le_bytes us) @ behind"
    using assms(2) bytes by (metis append.assoc)
  have "byte_slice block (length before) (2 * (length (concat (map rune_words ns)) + 1)) = Done (concat (map le_bytes us))"
    unfolding len [symmetric] by (simp add: byte_slice_def block)
  moreover have "block \<noteq> []" using assms(2) by simp
  ultimately show ?thesis
    using assms(3) utf16_to_string_words [OF assms(1), of "[]", folded us_def]
    by (simp add: getStringFileInfo_def u16s_le_bytes)
qed

theorem version_text_roundtrip_witness:
  "getStringFileInfo (\<lambda>b path. Some (2, 4)) ([7, 7] @ utf16_le [0x31, 0x1F600] @ [0, 0] @ [9]) ''040904b0'' ''FileVersion''
   = Done (Inr (''1'' @ [CHR 0xF0, CHR 0x9F, CHR 0x98, CHR 0x80]))"
proof -
  have "list_all scalar [0x31, 0x1F600]" "length (concat (map rune_words [0x31, 0x1F600])) + 1 = 4"
    by (simp_all add: scalar_def rune_words_def)
  then show ?thesis
    using version_text_roundtrip [of "[0x31, 0x1F600]" "[7, 7] @ utf16_le [0x31, 0x1F600] @ [0, 0] @ [9]" "[7, 7]" "[9]"
        "\<lambda>b path. Some (2, 4)" "''040904b0''" "''FileVersion''"]
    by (simp add: rune_bytes_def char_of_def bit_0)
qed

section \<open>Windows Installer\<close>

lemma msi_log:
  "msi env c w = (a, w') \<Longrightarrow> mw_log w' = mw_log w @ [c]"
  by (auto simp: msi_def split: prod.splits)

lemma setUIMode_log:
  "mw_log (setUIMode env w) = mw_log w @ (if mw_ui_set w then [] else [SetInternalUI 2])"
  by (auto simp: setUIMode_def msi_def split: prod.splits)

lemma coInitializeEx_log:
  "coInitializeEx env w = (e, w') \<Longrightarrow> mw_log w' = mw_log w @ [CoInit]"
  by (auto simp: coInitializeEx_def split: prod.splits)

lemma closing_log:
  "mw_log (coUninitialize env w) = mw_log w @ [CoUninit]"
  "mw_log (msiCloseHandle env h w) = mw_log w @ [CloseHandle h]"
  by (simp_all add: coUninitialize_def msiCloseHandle_def msi_def split: prod.splits)

lemma property_log:
  "msiGetProductPropertyW env h ''ProductCode'' w = (r, w') \<Longrightarrow> mw_log w' = mw_log w @ [GetProperty h ''ProductCode'']"
  "msiGetProductPropertyW env h ''ProductName'' w = (r, w') \<Longrightarrow> mw_log w' = mw_log w @ [GetProperty h ''ProductName'']"
  by (auto simp: msiGetProductPropertyW_def utf16_error_def dest!: msi_log split: prod.splits if_splits)

lemma properties_log:
  assumes "msi_properties env h w = (r, w')"
  shows "mw_log w' = mw_log w @ [GetProperty h ''ProductCode''] \<and> isl r
    \<or> mw_log w' = mw_log w @ [GetProperty h ''ProductCode'', GetProperty h ''ProductName'']"
  using assms by (auto simp: msi_properties_def dest!: property_log split: prod.splits sum.splits)

lemma open_log:
  assumes "msiOpenPackageExW env path n w = (r, w')"
  shows "mw_log w' = mw_log w @ (if CHR 0x00 \<in> set path then [] else [OpenPackage path n]) \<and>
    (CHR 0x00 \<in> set path \<longrightarrow> isl r)"
  using assms by (auto simp: msiOpenPackageExW_def utf16_error_def dest!: msi_log split: prod.splits if_splits)

text \<open>Whatever goes wrong while an installer package is read, what was opened is closed: the calls are one of five sequences, in
  which COM is given back last and the handle just before; only the longest gives an answer.\<close>

theorem msi_info_closes:
  assumes "MSIInfo env path w = (r, w')"
  shows "\<exists>calls h. mw_log w' = mw_log w @ (if mw_ui_set w then [] else [SetInternalUI 2]) @ calls \<and>
    (calls \<in> {[CoInit], [CoInit, CoUninit], [CoInit, OpenPackage path 1, CoUninit],
       [CoInit, OpenPackage path 1, GetProperty h ''ProductCode'', CloseHandle h, CoUninit]} \<and> isl r \<or>
     calls = [CoInit, OpenPackage path 1, GetProperty h ''ProductCode'', GetProperty h ''ProductName'', CloseHandle h, CoUninit])"
proof -
  obtain e w1 where init: "coInitializeEx env (setUIMode env w) = (e, w1)" by fastforce
  have log1: "mw_log w1 = mw_log w @ (if mw_ui_set w then [] else [SetInternalUI 2]) @ [CoInit]"
    using coInitializeEx_log [OF init] by (simp add: setUIMode_log)
  show ?thesis
  proof (cases e)
    case (Some x)
    then show ?thesis using assms init log1 by (auto simp: MSIInfo_def)
  next
    case None
    obtain o' w2 where opened: "msiOpenPackageExW env path 1 w1 = (o', w2)" by fastforce
    note log2 = open_log [OF opened]
    show ?thesis
    proof (cases o')
      case (Inl x)
      then show ?thesis using assms init None opened log1 log2 by (auto simp: MSIInfo_def closing_log split: if_splits)
    next
      case (Inr h)
      obtain p w3 where props: "msi_properties env h w2 = (p, w3)" by fastforce
      have "CHR 0x00 \<notin> set path" using log2 Inr by auto
      then show ?thesis
        using assms init None opened Inr props log1 log2 properties_log [OF props]
        by (auto simp: MSIInfo_def closing_log)
    qed
  qed
qed

text \<open>A package without a name: the error of the second property.\<close>

definition demo_msi :: "unit msi_env" where
  "demo_msi = \<lparr>ms_call = (\<lambda>c x. (\<lparr>ma_code = (if c = GetProperty 9 ''ProductName'' then 1608 else 0), ma_handle = 9, ma_text = ''{1}''\<rparr>, x)),
     ms_coinit = (\<lambda>x. (Some (ErrEOF, Some 1), x)), ms_errno = (\<lambda>n. ''unknown property'')\<rparr>"

definition demo_msi_world :: "unit msi_world" where
  "demo_msi_world = \<lparr>mw_x = (), mw_ui_set = True, mw_log = []\<rparr>"

theorem msi_info_closes_witness:
  "\<exists>r w' calls h. MSIInfo demo_msi ''a.msi'' demo_msi_world = (r, w') \<and> isl r \<and> mw_log w' = calls \<and>
     calls = [CoInit, OpenPackage ''a.msi'' 1, GetProperty h ''ProductCode'', GetProperty h ''ProductName'', CloseHandle h, CoUninit]"
proof -
  obtain r w' where run: "MSIInfo demo_msi ''a.msi'' demo_msi_world = (r, w')" by fastforce
  have facts: "isl r" "length (mw_log w') = 6" "mw_ui_set demo_msi_world" "mw_log demo_msi_world = []"
    using run
    by (auto simp: MSIInfo_def setUIMode_def demo_msi_world_def coInitializeEx_def demo_msi_def msiOpenPackageExW_def utf16_error_def
        msi_def msi_properties_def msiGetProductPropertyW_def coUninitialize_def msiCloseHandle_def)
  show ?thesis using msi_info_closes [OF run] facts run by auto
qed

end
