(* ===== verification/Runners.thy ===== *)
theory Runners
  imports PkgCmd
begin

text \<open>
  The two command runners: \<open>DefaultRunner\<close> of \<open>util/util.go\<close>, and the one of \<open>packages/packages.go\<close> and
  \<open>packages/pty_linux.go\<close> that gives \<open>yum\<close> a pseudo terminal, so that it prints its lists for a terminal of 500 columns.

  \<^item> \<open>pty_env\<close> is the kernel: opening a file, the three \<open>ioctl\<close> calls, closing, and a process with what can be read from
    the other end of its terminal. Every call may fail.
  \<^item> \<open>pw_log\<close> is a history variable: what was opened, closed, set and run, in order.
  \<^item> The goroutine that reads is followed through its loop. Only when closing the terminal fails does nobody wait for it;
    then \<open>pe_seen\<close>, any number, says how many bytes it has handled by then.
\<close>

section \<open>The default runner\<close>

record run_log =
  rl_command :: string
  rl_args :: "string list"
  rl_exit_code :: int
  rl_stdout :: string
  rl_stderr :: string

record process_end =
  pr_stdout :: string
  pr_stderr :: string
  pr_state :: "int option"
  pr_err :: "go_error option"

text \<open>\<open>ExitCode\<close> of a process that was never started is -1.\<close>

definition process_exit_code :: "int option \<Rightarrow> int" where
  "process_exit_code st = (case st of None \<Rightarrow> -1 | Some c \<Rightarrow> c)"

definition DefaultRunner_Run :: "(command \<Rightarrow> 'x \<Rightarrow> process_end \<times> 'x) \<Rightarrow> command \<Rightarrow> 'x \<times> run_log list \<Rightarrow> cmd_result \<times> 'x \<times> run_log list" where
  "DefaultRunner_Run exec c w =
     (case exec c (fst w) of
        (p, x) \<Rightarrow> ((pr_stdout p, pr_stderr p, pr_err p),
                   (x, snd w @ [\<lparr>rl_command = cmd_path c, rl_args = cmd_args c, rl_exit_code = process_exit_code (pr_state p),
                                  rl_stdout = pr_stdout p, rl_stderr = pr_stderr p\<rparr>])))"

section \<open>Reading from the terminal\<close>

definition newline_char :: char where "newline_char = CHR 0x0A"

text \<open>\<open>ReadBytes\<close>: the bytes up to the first newline, and the rest; without one the reader gets an error.\<close>

fun read_bytes :: "string \<Rightarrow> (string \<times> string) option" where
  "read_bytes [] = None"
| "read_bytes (c # cs) =
     (if c = newline_char then Some ([c], cs)
      else (case read_bytes cs of None \<Rightarrow> None | Some (b, rest) \<Rightarrow> Some (c # b, rest)))"

lemma read_bytes_split:
  "read_bytes s = Some (b, rest) \<Longrightarrow> s = b @ rest \<and> b \<noteq> [] \<and> last b = newline_char \<and> newline_char \<notin> set (butlast b)"
  by (induction s arbitrary: b) (auto split: if_splits option.splits)

lemma read_bytes_none: "read_bytes s = None \<longleftrightarrow> newline_char \<notin> set s"
  by (induction s) (auto split: option.splits)

function read_loop :: "string \<Rightarrow> string \<Rightarrow> string" where
  "read_loop stdout input = (case read_bytes input of None \<Rightarrow> stdout | Some (b, rest) \<Rightarrow> read_loop (stdout @ b) rest)"
  by pat_completeness auto

termination
  by (relation "measure (\<lambda>(_, input). length input)") (auto dest!: read_bytes_split)

declare read_loop.simps [simp del]

text \<open>The reader keeps complete lines: everything up to the last newline, and nothing after it.\<close>

definition complete_lines :: "string \<Rightarrow> string" where
  "complete_lines s = rev (dropWhile (\<lambda>c. c \<noteq> newline_char) (rev s))"

lemma dropWhile_all: "\<forall>x \<in> set xs. P x \<Longrightarrow> dropWhile P xs = []"
  by (induction xs) auto

lemma complete_lines_none: "newline_char \<notin> set s \<Longrightarrow> complete_lines s = []"
  unfolding complete_lines_def by (subst dropWhile_all) auto

lemma complete_lines_cons:
  assumes "last b = newline_char" "b \<noteq> []"
  shows "complete_lines (b @ rest) = b @ complete_lines rest"
proof -
  have "rev b = newline_char # rev (butlast b)" using assms by (metis append_butlast_last_id rev_eq_Cons_iff rev_rev_ident)
  then have b: "dropWhile (\<lambda>c. c \<noteq> newline_char) (rev b) = rev b" by (simp only:) simp
  show ?thesis
  proof (cases "newline_char \<in> set rest")
    case True
    then show ?thesis by (simp add: complete_lines_def dropWhile_append1 [of newline_char])
  next
    case False
    then have "\<And>c. c \<in> set (rev rest) \<Longrightarrow> c \<noteq> newline_char" by auto
    then have "dropWhile (\<lambda>c. c \<noteq> newline_char) (rev rest @ rev b) = rev b" by (subst dropWhile_append2) (simp_all add: b)
    then show ?thesis using False by (simp add: complete_lines_none) (simp add: complete_lines_def)
  qed
qed

lemma read_loop_complete: "read_loop out s = out @ complete_lines s"
proof (induction out s rule: read_loop.induct)
  case (1 out s)
  show ?case
  proof (cases "read_bytes s")
    case None
    then have "complete_lines s = []" by (simp add: complete_lines_none read_bytes_none)
    with None show ?thesis by (subst read_loop.simps) simp
  next
    case (Some p)
    obtain b rest where p: "p = (b, rest)" by (cases p)
    have s: "s = b @ rest" "b \<noteq> []" "last b = newline_char" using read_bytes_split Some p by blast+
    have "read_loop (out @ b) rest = (out @ b) @ complete_lines rest" using "1.IH" [OF Some p [symmetric]] .
    then show ?thesis
      using Some p s by (subst read_loop.simps) (simp add: complete_lines_cons)
  qed
qed

text \<open>What follows the last newline is lost; nothing else is.\<close>

lemma read_loop_loses:
  "\<exists>rest. s = read_loop [] s @ rest \<and> newline_char \<notin> set rest"
proof -
  have "rev s = takeWhile (\<lambda>c. c \<noteq> newline_char) (rev s) @ dropWhile (\<lambda>c. c \<noteq> newline_char) (rev s)" by simp
  then have "s = complete_lines s @ rev (takeWhile (\<lambda>c. c \<noteq> newline_char) (rev s))"
    unfolding complete_lines_def by (metis rev_append rev_rev_ident)
  moreover have "newline_char \<notin> set (rev (takeWhile (\<lambda>c. c \<noteq> newline_char) (rev s)))" by (auto dest: set_takeWhileD)
  ultimately show ?thesis by (metis read_loop_complete append_Nil)
qed

section \<open>The pseudo terminal\<close>

datatype pty_act = Opened nat | Closed nat | TTYUnlocked nat | WindowSize nat nat nat | Ran command nat

datatype read_stop = ReadEOF | ReadEIO | ReadFails go_error

record pty_end =
  pe_output :: string
  pe_stop :: read_stop
  pe_stderr :: string
  pe_err :: "go_error option"
  pe_seen :: nat

record 'x pty_env =
  py_open :: "string \<Rightarrow> 'x \<Rightarrow> nat res \<times> 'x"
  py_unlock :: "nat \<Rightarrow> 'x \<Rightarrow> go_error option \<times> 'x"
  py_number :: "nat \<Rightarrow> 'x \<Rightarrow> nat res \<times> 'x"
  py_winsize :: "nat \<Rightarrow> nat \<Rightarrow> nat \<Rightarrow> 'x \<Rightarrow> go_error option \<times> 'x"
  py_close :: "nat \<Rightarrow> 'x \<Rightarrow> go_error option \<times> 'x"
  py_run :: "command \<Rightarrow> nat \<Rightarrow> 'x \<Rightarrow> pty_end \<times> 'x"

record 'x pty_world =
  pw_x :: 'x
  pw_log :: "pty_act list"

definition acted :: "pty_act \<Rightarrow> 'x pty_world \<Rightarrow> 'x pty_world" where
  "acted a w = w\<lparr>pw_log := pw_log w @ [a]\<rparr>"

definition open_fd :: "'x pty_env \<Rightarrow> string \<Rightarrow> 'x pty_world \<Rightarrow> nat res \<times> 'x pty_world" where
  "open_fd env path w =
     (case py_open env path (pw_x w) of
        (Inl e, x) \<Rightarrow> (Inl e, w\<lparr>pw_x := x\<rparr>)
      | (Inr fd, x) \<Rightarrow> (Inr fd, acted (Opened fd) (w\<lparr>pw_x := x\<rparr>)))"

definition close_fd :: "'x pty_env \<Rightarrow> nat \<Rightarrow> 'x pty_world \<Rightarrow> go_error option \<times> 'x pty_world" where
  "close_fd env fd w = (case py_close env fd (pw_x w) of (e, x) \<Rightarrow> (e, acted (Closed fd) (w\<lparr>pw_x := x\<rparr>)))"

definition defer_close :: "'x pty_env \<Rightarrow> nat \<Rightarrow> 'r \<times> 'x pty_world \<Rightarrow> 'r \<times> 'x pty_world" where
  "defer_close env fd rw = (fst rw, snd (close_fd env fd (snd rw)))"

text \<open>What the reader leaves in \<open>retErr\<close>: the end of the file and EIO, which a closed terminal gives, are no errors.\<close>

definition read_error :: "read_stop \<Rightarrow> go_error option" where
  "read_error s = (case s of ReadFails e \<Rightarrow> Some e | _ \<Rightarrow> None)"

text \<open>The verdict, once the process has ended and the reader is done: an exit code other than 0 is no error of the caller,
  and the exit code 0 has no output.\<close>

definition pty_verdict :: "pty_end \<Rightarrow> cmd_result" where
  "pty_verdict p =
     (case pe_err p of
        None \<Rightarrow> ([], [], None)
      | Some (ErrExit code m) \<Rightarrow> (read_loop [] (pe_output p), pe_stderr p, read_error (pe_stop p))
      | Some e \<Rightarrow> (read_loop [] (pe_output p), pe_stderr p, Some e))"

definition on_tty :: "'x pty_env \<Rightarrow> command \<Rightarrow> nat \<Rightarrow> nat \<Rightarrow> 'x pty_world \<Rightarrow> cmd_result \<times> 'x pty_world" where
  "on_tty env c pty tty w =
     (case py_winsize env pty 1 500 (pw_x w) of
        (Some e, x) \<Rightarrow> (([], [], Some (ErrMsg (''error from IoctlSetWinsize: '' @ err_text e))), w\<lparr>pw_x := x\<rparr>)
      | (None, x) \<Rightarrow>
          (case py_run env c tty x of
             (p, x1) \<Rightarrow>
               (case close_fd env tty (acted (Ran c tty) (acted (WindowSize pty 1 500) (w\<lparr>pw_x := x1\<rparr>))) of
                  (Some e, w2) \<Rightarrow> ((read_loop [] (take (pe_seen p) (pe_output p)), pe_stderr p, Some e), w2)
                | (None, w2) \<Rightarrow> (pty_verdict p, w2))))"

definition on_pty :: "'x pty_env \<Rightarrow> command \<Rightarrow> nat \<Rightarrow> 'x pty_world \<Rightarrow> cmd_result \<times> 'x pty_world" where
  "on_pty env c pty w =
     (case py_unlock env pty (pw_x w) of
        (Some e, x) \<Rightarrow> (([], [], Some (ErrMsg (''error from ioctl TIOCSPTLCK: '' @ err_text e))), w\<lparr>pw_x := x\<rparr>)
      | (None, x) \<Rightarrow>
          (case py_number env pty x of
             (Inl e, x1) \<Rightarrow> (([], [], Some (ErrMsg (''error from ioctl TIOCGPTN: '' @ err_text e))), acted (TTYUnlocked pty) (w\<lparr>pw_x := x1\<rparr>))
           | (Inr n, x1) \<Rightarrow>
               (case open_fd env (''/dev/pts/'' @ show_nat n) (acted (TTYUnlocked pty) (w\<lparr>pw_x := x1\<rparr>)) of
                  (Inl e, w2) \<Rightarrow> (([], [], Some e), w2)
                | (Inr tty, w2) \<Rightarrow> defer_close env tty (on_tty env c pty tty w2))))"

definition runWithPty :: "'x pty_env \<Rightarrow> command \<Rightarrow> 'x pty_world \<Rightarrow> cmd_result \<times> 'x pty_world" where
  "runWithPty env c w =
     (case open_fd env ''/dev/ptmx'' w of
        (Inl e, w1) \<Rightarrow> (([], [], Some e), w1)
      | (Inr pty, w1) \<Rightarrow> defer_close env pty (on_pty env c pty w1))"

definition ptyRunner_Run :: "'x pty_env \<Rightarrow> command \<Rightarrow> 'x pty_world \<Rightarrow> cmd_result \<times> 'x pty_world" where
  "ptyRunner_Run env c w = runWithPty env c w"

section \<open>Setting the runners\<close>

record 'r runners =
  rn_runner :: 'r
  rn_ptyrunner :: 'r

definition SetCommandRunner :: "'r \<Rightarrow> 'r runners \<Rightarrow> 'r runners" where "SetCommandRunner r s = s\<lparr>rn_runner := r\<rparr>"
definition SetPtyCommandRunner :: "'r \<Rightarrow> 'r runners \<Rightarrow> 'r runners" where "SetPtyCommandRunner r s = s\<lparr>rn_ptyrunner := r\<rparr>"
definition GetCommandRunner :: "'r runners \<Rightarrow> 'r" where "GetCommandRunner s = rn_runner s"
definition GetPtyCommandRunner :: "'r runners \<Rightarrow> 'r" where "GetPtyCommandRunner s = rn_ptyrunner s"

section \<open>What a run leaves behind\<close>

definition opened :: "pty_act list \<Rightarrow> nat set" where "opened acts = {fd. Opened fd \<in> set acts}"
definition closed_fds :: "pty_act list \<Rightarrow> nat set" where "closed_fds acts = {fd. Closed fd \<in> set acts}"

fun runs_of :: "pty_act list \<Rightarrow> command list" where
  "runs_of [] = []"
| "runs_of (Ran c fd # acts) = c # runs_of acts"
| "runs_of (a # acts) = runs_of acts"

lemma runs_of_append [simp]: "runs_of (xs @ ys) = runs_of xs @ runs_of ys"
  by (induction xs rule: runs_of.induct) auto

text \<open>A step of the run: it only adds to the log, closes what it opens, and runs the command at most once.\<close>

definition tidy :: "command \<Rightarrow> 'x pty_world \<Rightarrow> cmd_result \<times> 'x pty_world \<Rightarrow> bool" where
  "tidy c w rw \<longleftrightarrow> (\<exists>acts. pw_log (snd rw) = pw_log w @ acts \<and> opened acts \<subseteq> closed_fds acts \<and>
     (runs_of acts = [c] \<or> runs_of acts = [] \<and> fst (fst rw) = [] \<and> (\<exists>e. snd (snd (fst rw)) = Some e)))"

lemmas log_simps = acted_def close_fd_def open_fd_def defer_close_def opened_def closed_fds_def

lemma on_tty_tidy: "tidy c w (on_tty env c pty tty w)"
  by (auto simp: tidy_def on_tty_def log_simps split: prod.splits option.splits)

lemma tidy_defer:
  assumes "tidy c w rw" "w = acted (Opened fd) w0"
  shows "tidy c w0 (defer_close env fd rw)"
proof -
  obtain acts where acts: "pw_log (snd rw) = pw_log w @ acts" "opened acts \<subseteq> closed_fds acts"
    "runs_of acts = [c] \<or> runs_of acts = [] \<and> fst (fst rw) = [] \<and> (\<exists>e. snd (snd (fst rw)) = Some e)"
    using assms(1) unfolding tidy_def by blast
  have "pw_log (snd (defer_close env fd rw)) = pw_log w0 @ ([Opened fd] @ acts @ [Closed fd])"
    using acts(1) assms(2) by (simp add: defer_close_def close_fd_def acted_def split: prod.splits)
  moreover have "opened ([Opened fd] @ acts @ [Closed fd]) \<subseteq> closed_fds ([Opened fd] @ acts @ [Closed fd])"
    using acts(2) by (auto simp: opened_def closed_fds_def)
  moreover have "runs_of ([Opened fd] @ acts @ [Closed fd]) = runs_of acts" by simp
  moreover have "fst (defer_close env fd rw) = fst rw" by (simp add: defer_close_def)
  ultimately show ?thesis using acts(3) unfolding tidy_def by metis
qed

lemma tidy_later: "tidy c w rw \<Longrightarrow> pw_log w = pw_log w0 @ [TTYUnlocked fd] \<Longrightarrow> tidy c w0 rw"
proof -
  assume t: "tidy c w rw" and w: "pw_log w = pw_log w0 @ [TTYUnlocked fd]"
  obtain acts where acts: "pw_log (snd rw) = pw_log w @ acts" "opened acts \<subseteq> closed_fds acts"
    "runs_of acts = [c] \<or> runs_of acts = [] \<and> fst (fst rw) = [] \<and> (\<exists>e. snd (snd (fst rw)) = Some e)"
    using t unfolding tidy_def by blast
  have "pw_log (snd rw) = pw_log w0 @ ([TTYUnlocked fd] @ acts)" using acts(1) w by simp
  moreover have "opened ([TTYUnlocked fd] @ acts) \<subseteq> closed_fds ([TTYUnlocked fd] @ acts)"
    using acts(2) by (auto simp: opened_def closed_fds_def)
  moreover have "runs_of ([TTYUnlocked fd] @ acts) = runs_of acts" by simp
  ultimately show ?thesis using acts(3) unfolding tidy_def by metis
qed

lemma tidy_quiet:
  "opened acts = {} \<Longrightarrow> runs_of acts = [] \<Longrightarrow> pw_log w1 = pw_log w @ acts \<Longrightarrow> tidy c w (([], eout, Some e), w1)"
  unfolding tidy_def by auto

lemma on_pty_tidy: "tidy c w (on_pty env c pty w)"
proof (cases "py_unlock env pty (pw_x w)")
  case unlocked: (Pair r x)
  show ?thesis
  proof (cases r)
    case (Some e)
    with unlocked show ?thesis by (auto simp: on_pty_def opened_def intro!: tidy_quiet [of "[]"])
  next
    case None
    show ?thesis
    proof (cases "py_number env pty x")
      case number: (Pair q x1)
      let ?w = "acted (TTYUnlocked pty) (w\<lparr>pw_x := x1\<rparr>)"
      have log: "pw_log ?w = pw_log w @ [TTYUnlocked pty]" by (simp add: acted_def)
      show ?thesis
      proof (cases q)
        case (Inl e)
        with unlocked None number show ?thesis
          by (auto simp: on_pty_def acted_def opened_def intro!: tidy_quiet [of "[TTYUnlocked pty]"])
      next
        case (Inr n)
        show ?thesis
        proof (cases "py_open env (''/dev/pts/'' @ show_nat n) (pw_x ?w)")
          case tty: (Pair o_r x2)
          show ?thesis
          proof (cases o_r)
            case (Inl e)
            with unlocked None number Inr tty show ?thesis
              by (auto simp: on_pty_def open_fd_def acted_def opened_def intro!: tidy_quiet [of "[TTYUnlocked pty]"])
          next
            case open_tty: (Inr fd)
            have "tidy c (?w\<lparr>pw_x := x2\<rparr>) (defer_close env fd (on_tty env c pty fd (acted (Opened fd) (?w\<lparr>pw_x := x2\<rparr>))))"
              by (rule tidy_defer [OF on_tty_tidy refl])
            then have "tidy c w (defer_close env fd (on_tty env c pty fd (acted (Opened fd) (?w\<lparr>pw_x := x2\<rparr>))))"
              by (rule tidy_later) (simp add: log)
            with unlocked None number Inr tty open_tty show ?thesis by (simp add: on_pty_def open_fd_def)
          qed
        qed
      qed
    qed
  qed
qed

text \<open>The terminal is always given back: every file that a run opens it closes, on every path, and the command runs at most once; if it does
  not run there is an error and no output.\<close>

lemma runWithPty_tidy: "tidy c w (runWithPty env c w)"
proof (cases "py_open env ''/dev/ptmx'' (pw_x w)")
  case (Pair r x)
  show ?thesis
  proof (cases r)
    case (Inl e)
    with Pair show ?thesis by (auto simp: runWithPty_def open_fd_def opened_def intro!: tidy_quiet [of "[]"])
  next
    case (Inr fd)
    have "tidy c (w\<lparr>pw_x := x\<rparr>) (defer_close env fd (on_pty env c fd (acted (Opened fd) (w\<lparr>pw_x := x\<rparr>))))"
      by (rule tidy_defer [OF on_pty_tidy refl])
    then have "tidy c w (defer_close env fd (on_pty env c fd (acted (Opened fd) (w\<lparr>pw_x := x\<rparr>))))" by (simp add: tidy_def)
    with Pair Inr show ?thesis by (simp add: runWithPty_def open_fd_def)
  qed
qed

text \<open>A run without an error gives the caller nothing, or the complete lines that the process printed.\<close>

lemma on_tty_output:
  assumes "on_tty env c pty tty w = ((out, eout, None), w')"
  shows "out = [] \<or> (\<exists>x p x1. py_run env c tty x = (p, x1) \<and> out = complete_lines (pe_output p))"
proof -
  obtain x where x: "py_winsize env pty 1 500 (pw_x w) = (None, x)"
    using assms by (auto simp: on_tty_def split: prod.splits option.splits)
  obtain p x1 where p: "py_run env c tty x = (p, x1)" by (cases "py_run env c tty x")
  have "pty_verdict p = (out, eout, None)" using assms x p by (auto simp: on_tty_def split: prod.splits option.splits)
  then have "out = [] \<or> out = complete_lines (pe_output p)"
    by (auto simp: pty_verdict_def read_loop_complete split: option.splits go_error.splits)
  then show ?thesis using p by blast
qed

lemma runWithPty_output:
  assumes "runWithPty env c w = ((out, eout, None), w')"
  shows "out = [] \<or> (\<exists>tty x p x1. py_run env c tty x = (p, x1) \<and> out = complete_lines (pe_output p))"
proof -
  obtain pty tty w1 w2 where "on_tty env c pty tty w1 = ((out, eout, None), w2)"
    using assms by (auto simp: runWithPty_def on_pty_def defer_close_def split: prod.splits sum.splits option.splits) (metis prod.collapse)+
  from on_tty_output [OF this] show ?thesis by blast
qed

section \<open>The functions of the other platform\<close>

text \<open>Built instead of the real functions: the Windows Installer on Linux, the pseudo terminal on Windows, and the package list of a
  COS build without its library. They do nothing and succeed.\<close>

definition InstallMSIPackage_stub :: "string \<Rightarrow> string list \<Rightarrow> go_error option" where "InstallMSIPackage_stub path args = None"
definition MSIInfo_stub :: "string \<Rightarrow> (string \<times> string) res" where "MSIInfo_stub path = Inr ([], [])"
definition MSIInstalled_stub :: "string \<Rightarrow> bool res" where "MSIInstalled_stub productCode = Inr False"
definition runWithPty_stub :: "command \<Rightarrow> cmd_result" where "runWithPty_stub c = ([], [], None)"
definition InstalledCOSPackages_stub :: "pkg_info list res" where "InstalledCOSPackages_stub = Inr []"

end
