(* ===== verification/UpdateOptions.thy ===== *)
theory UpdateOptions
  imports OsPatch
begin

text \<open>
  The option functions of the updaters. Go passes the settings of a call as a list of functions that change a record of
  defaults (\<open>ospatch/*_update.go\<close>, \<open>apt_upgrade.go\<close>, \<open>zypper_patch.go\<close>, and the lists of \<open>packages/\<close> below them). The
  models of OsPatch take the settings themselves; here the two are connected, through the option lists that
  \<open>agentendpoint/patch_linux.go\<close> writes down.
\<close>

definition with_options :: "'o \<Rightarrow> ('o \<Rightarrow> 'o) list \<Rightarrow> 'o" where
  "with_options default_opts opts = fold (\<lambda>opt. opt) opts default_opts"

lemma with_options_simps [simp]:
  "with_options d [] = d" "with_options d (opt # opts) = with_options (opt d) opts"
  by (simp_all add: with_options_def)

section \<open>Options of the package lists\<close>

record apt_list_opts =
  al_type :: apt_upgrade_type
  al_show_new :: bool
  al_allow_downgrades :: bool

definition pkg_AptGetUpgradeType :: "apt_upgrade_type \<Rightarrow> apt_list_opts \<Rightarrow> apt_list_opts" where
  "pkg_AptGetUpgradeType t o' = o'\<lparr>al_type := t\<rparr>"

definition AptGetUpgradeShowNew :: "bool \<Rightarrow> apt_list_opts \<Rightarrow> apt_list_opts" where
  "AptGetUpgradeShowNew b o' = o'\<lparr>al_show_new := b\<rparr>"

definition AptGetUpgradeAllowDowngrades :: "bool \<Rightarrow> apt_list_opts \<Rightarrow> apt_list_opts" where
  "AptGetUpgradeAllowDowngrades b o' = o'\<lparr>al_allow_downgrades := b\<rparr>"

definition apt_list_defaults :: apt_list_opts where
  "apt_list_defaults = \<lparr>al_type = AptGetUpgrade, al_show_new = False, al_allow_downgrades = False\<rparr>"

text \<open>\<open>AptUpdates\<close> does not look at the downgrades: it always tries them after a failure that names them.\<close>

definition AptUpdates_options :: "'x tools \<Rightarrow> (apt_list_opts \<Rightarrow> apt_list_opts) list \<Rightarrow> 'x machine \<Rightarrow> pkg_info list res outcome \<times> 'x machine" where
  "AptUpdates_options env opts m = (let o' = with_options apt_list_defaults opts in AptUpdates env (al_type o') (al_show_new o') m)"

record yum_list_opts =
  yl_security :: bool
  yl_minimal :: bool

definition pkg_YumUpdateSecurity :: "bool \<Rightarrow> yum_list_opts \<Rightarrow> yum_list_opts" where
  "pkg_YumUpdateSecurity b o' = o'\<lparr>yl_security := b\<rparr>"

definition pkg_YumUpdateMinimal :: "bool \<Rightarrow> yum_list_opts \<Rightarrow> yum_list_opts" where
  "pkg_YumUpdateMinimal b o' = o'\<lparr>yl_minimal := b\<rparr>"

definition YumUpdates_options :: "'x tools \<Rightarrow> (yum_list_opts \<Rightarrow> yum_list_opts) list \<Rightarrow> 'x machine \<Rightarrow> pkg_info list res \<times> 'x machine" where
  "YumUpdates_options env opts m =
     (let o' = with_options \<lparr>yl_security = False, yl_minimal = False\<rparr> opts in YumUpdates env (yl_security o') (yl_minimal o') m)"

definition ZypperListPatchCategories :: "string list \<Rightarrow> zypper_list_opts \<Rightarrow> zypper_list_opts" where
  "ZypperListPatchCategories cs o' = o'\<lparr>zl_categories := cs\<rparr>"

definition ZypperListPatchSeverities :: "string list \<Rightarrow> zypper_list_opts \<Rightarrow> zypper_list_opts" where
  "ZypperListPatchSeverities ss o' = o'\<lparr>zl_severities := ss\<rparr>"

definition ZypperListPatchWithOptional :: "bool \<Rightarrow> zypper_list_opts \<Rightarrow> zypper_list_opts" where
  "ZypperListPatchWithOptional b o' = o'\<lparr>zl_with_optional := b\<rparr>"

definition ZypperListPatchAll :: "bool \<Rightarrow> zypper_list_opts \<Rightarrow> zypper_list_opts" where
  "ZypperListPatchAll b o' = o'\<lparr>zl_all := b\<rparr>"

definition zypper_list_options :: "(zypper_list_opts \<Rightarrow> zypper_list_opts) list \<Rightarrow> zypper_list_opts" where
  "zypper_list_options opts = with_options \<lparr>zl_categories = [], zl_severities = [], zl_with_optional = False, zl_all = False\<rparr> opts"

section \<open>Options of the updaters\<close>

definition base_opts :: "'b update_opts_scheme \<Rightarrow> update_opts" where
  "base_opts o' = \<lparr>uo_exclusive = uo_exclusive o', uo_excludes = uo_excludes o', uo_dryrun = uo_dryrun o'\<rparr>"

record apt_upgrade_opts = update_opts +
  ao_type :: apt_upgrade_type

definition AptGetUpgradeType :: "apt_upgrade_type \<Rightarrow> apt_upgrade_opts \<Rightarrow> apt_upgrade_opts" where
  "AptGetUpgradeType t o' = o'\<lparr>ao_type := t\<rparr>"

definition AptGetExcludes :: "exclude list \<Rightarrow> apt_upgrade_opts \<Rightarrow> apt_upgrade_opts" where
  "AptGetExcludes xs o' = o'\<lparr>uo_excludes := xs\<rparr>"

definition AptGetExclusivePackages :: "string list option \<Rightarrow> apt_upgrade_opts \<Rightarrow> apt_upgrade_opts" where
  "AptGetExclusivePackages ps o' = o'\<lparr>uo_exclusive := ps\<rparr>"

definition AptGetDryRun :: "bool \<Rightarrow> apt_upgrade_opts \<Rightarrow> apt_upgrade_opts" where
  "AptGetDryRun b o' = o'\<lparr>uo_dryrun := b\<rparr>"

definition RunAptGetUpgrade_options :: "'x updater \<Rightarrow> (apt_upgrade_opts \<Rightarrow> apt_upgrade_opts) list \<Rightarrow> 'x machine \<Rightarrow> go_error option outcome \<times> 'x machine" where
  "RunAptGetUpgrade_options up opts m =
     (let o' = with_options \<lparr>uo_exclusive = None, uo_excludes = [], uo_dryrun = False, ao_type = AptGetUpgrade\<rparr> opts in
      case AptUpdates_options (up_tools up) [pkg_AptGetUpgradeType (ao_type o'), AptGetUpgradeShowNew True] m of
        (Panic p, m1) \<Rightarrow> (Panic p, m1)
      | (Done (Inl e), m1) \<Rightarrow> (Done (Some e), m1)
      | (Done (Inr pkgs), m1) \<Rightarrow>
          (case run_selected up (base_opts o') pi_name (InstallAptPackages (up_tools up)) pkgs m1 of (e, m2) \<Rightarrow> (Done e, m2)))"

record yum_update_opts = update_opts +
  yo_security :: bool
  yo_minimal :: bool

definition YumUpdateSecurity :: "bool \<Rightarrow> yum_update_opts \<Rightarrow> yum_update_opts" where
  "YumUpdateSecurity b o' = o'\<lparr>yo_security := b\<rparr>"

definition YumUpdateMinimal :: "bool \<Rightarrow> yum_update_opts \<Rightarrow> yum_update_opts" where
  "YumUpdateMinimal b o' = o'\<lparr>yo_minimal := b\<rparr>"

definition YumUpdateExcludes :: "exclude list \<Rightarrow> yum_update_opts \<Rightarrow> yum_update_opts" where
  "YumUpdateExcludes xs o' = o'\<lparr>uo_excludes := xs\<rparr>"

definition YumExclusivePackages :: "string list option \<Rightarrow> yum_update_opts \<Rightarrow> yum_update_opts" where
  "YumExclusivePackages ps o' = o'\<lparr>uo_exclusive := ps\<rparr>"

definition YumDryRun :: "bool \<Rightarrow> yum_update_opts \<Rightarrow> yum_update_opts" where
  "YumDryRun b o' = o'\<lparr>uo_dryrun := b\<rparr>"

definition RunYumUpdate_options :: "'x updater \<Rightarrow> (yum_update_opts \<Rightarrow> yum_update_opts) list \<Rightarrow> 'x machine \<Rightarrow> go_error option \<times> 'x machine" where
  "RunYumUpdate_options up opts m =
     (let o' = with_options \<lparr>uo_exclusive = None, uo_excludes = [], uo_dryrun = False, yo_security = False, yo_minimal = False\<rparr> opts in
      case YumUpdates_options (up_tools up) [pkg_YumUpdateMinimal (yo_minimal o'), pkg_YumUpdateSecurity (yo_security o')] m of
        (Inl e, m1) \<Rightarrow> (Some e, m1)
      | (Inr pkgs, m1) \<Rightarrow> run_selected up (base_opts o') fullPackageName (UpdateYumPackages (up_tools up)) pkgs m1)"

definition GooGetExcludes :: "exclude list \<Rightarrow> update_opts \<Rightarrow> update_opts" where
  "GooGetExcludes xs o' = o'\<lparr>uo_excludes := xs\<rparr>"

definition GooGetExclusivePackages :: "string list option \<Rightarrow> update_opts \<Rightarrow> update_opts" where
  "GooGetExclusivePackages ps o' = o'\<lparr>uo_exclusive := ps\<rparr>"

definition GooGetDryRun :: "bool \<Rightarrow> update_opts \<Rightarrow> update_opts" where
  "GooGetDryRun b o' = o'\<lparr>uo_dryrun := b\<rparr>"

definition RunGooGetUpdate_options :: "'x updater \<Rightarrow> (update_opts \<Rightarrow> update_opts) list \<Rightarrow> 'x machine \<Rightarrow> go_error option \<times> 'x machine" where
  "RunGooGetUpdate_options up opts m =
     RunGooGetUpdate up (with_options \<lparr>uo_exclusive = None, uo_excludes = [], uo_dryrun = False\<rparr> opts) m"

record zypper_patch_opts = update_opts +
  zp_categories :: "string list"
  zp_severities :: "string list"
  zp_with_optional :: bool
  zp_with_update :: bool

definition ZypperPatchCategories :: "string list \<Rightarrow> zypper_patch_opts \<Rightarrow> zypper_patch_opts" where
  "ZypperPatchCategories cs o' = o'\<lparr>zp_categories := cs\<rparr>"

definition ZypperPatchSeverities :: "string list \<Rightarrow> zypper_patch_opts \<Rightarrow> zypper_patch_opts" where
  "ZypperPatchSeverities ss o' = o'\<lparr>zp_severities := ss\<rparr>"

definition ZypperUpdateWithOptional :: "bool \<Rightarrow> zypper_patch_opts \<Rightarrow> zypper_patch_opts" where
  "ZypperUpdateWithOptional b o' = o'\<lparr>zp_with_optional := b\<rparr>"

definition ZypperUpdateWithUpdate :: "bool \<Rightarrow> zypper_patch_opts \<Rightarrow> zypper_patch_opts" where
  "ZypperUpdateWithUpdate b o' = o'\<lparr>zp_with_update := b\<rparr>"

definition ZypperUpdateWithExcludes :: "exclude list \<Rightarrow> zypper_patch_opts \<Rightarrow> zypper_patch_opts" where
  "ZypperUpdateWithExcludes xs o' = o'\<lparr>uo_excludes := xs\<rparr>"

definition ZypperUpdateWithExclusivePatches :: "string list option \<Rightarrow> zypper_patch_opts \<Rightarrow> zypper_patch_opts" where
  "ZypperUpdateWithExclusivePatches ps o' = o'\<lparr>uo_exclusive := ps\<rparr>"

definition ZypperUpdateDryrun :: "bool \<Rightarrow> zypper_patch_opts \<Rightarrow> zypper_patch_opts" where
  "ZypperUpdateDryrun b o' = o'\<lparr>uo_dryrun := b\<rparr>"

definition RunZypperPatch_options :: "'x updater \<Rightarrow> (zypper_patch_opts \<Rightarrow> zypper_patch_opts) list \<Rightarrow> 'x machine \<Rightarrow> go_error option outcome \<times> 'x machine" where
  "RunZypperPatch_options up opts m =
     (let o' = with_options \<lparr>uo_exclusive = None, uo_excludes = [], uo_dryrun = False, zp_categories = [], zp_severities = [],
                 zp_with_optional = False, zp_with_update = False\<rparr> opts;
          lo = zypper_list_options [ZypperListPatchCategories (zp_categories o'), ZypperListPatchSeverities (zp_severities o'),
                 ZypperListPatchWithOptional (zp_with_optional o')] in
      RunZypperPatch up \<lparr>uo_exclusive = uo_exclusive o', uo_excludes = uo_excludes o', uo_dryrun = uo_dryrun o',
        zo_list = lo, zo_with_update = zp_with_update o'\<rparr> m)"

section \<open>The option lists of patch_linux.go\<close>

definition apt_options :: "patch_task \<Rightarrow> exclude list \<Rightarrow> (apt_upgrade_opts \<Rightarrow> apt_upgrade_opts) list" where
  "apt_options r excludes =
     [AptGetDryRun (pt_dry_run r), AptGetExcludes excludes, AptGetExclusivePackages (repeated (pc_apt_exclusive (pt_config r)))]
     @ (if pc_apt_dist (pt_config r) then [AptGetUpgradeType AptGetDistUpgrade] else [])"

definition yum_options :: "patch_task \<Rightarrow> exclude list \<Rightarrow> (yum_update_opts \<Rightarrow> yum_update_opts) list" where
  "yum_options r excludes =
     [YumUpdateSecurity (pc_yum_security (pt_config r)), YumUpdateMinimal (pc_yum_minimal (pt_config r)), YumUpdateExcludes excludes,
      YumExclusivePackages (repeated (pc_yum_exclusive (pt_config r))), YumDryRun (pt_dry_run r)]"

definition zypper_options :: "patch_task \<Rightarrow> exclude list \<Rightarrow> (zypper_patch_opts \<Rightarrow> zypper_patch_opts) list" where
  "zypper_options r excludes =
     [ZypperPatchCategories (pc_zypper_categories (pt_config r)), ZypperPatchSeverities (pc_zypper_severities (pt_config r)),
      ZypperUpdateWithUpdate (pc_zypper_with_update (pt_config r)), ZypperUpdateWithOptional (pc_zypper_with_optional (pt_config r)),
      ZypperUpdateWithExcludes excludes, ZypperUpdateWithExclusivePatches (repeated (pc_zypper_exclusive (pt_config r))),
      ZypperUpdateDryrun (pt_dry_run r)]"

definition runUpdates_options :: "'x updater \<Rightarrow> patch_task \<Rightarrow> 'x machine \<Rightarrow> go_error option outcome \<times> 'x machine" where
  "runUpdates_options up r m =
     (let c = pt_config r; env = up_tools up;
          finish = (\<lambda>errs m. (Done (if errs = [] then None else Some (ErrMsg (join ('','' @ [CHR 0x0A]) errs))), m));
          zypper = manager_updates up (tl_zypper env \<and> tl_rpm_query env) (pc_zypper_excludes c)
            (\<lambda>excludes. RunZypperPatch_options up (zypper_options r excludes)) finish;
          yum = manager_updates up (tl_yum env \<and> tl_rpm_query env) (pc_yum_excludes c)
            (\<lambda>excludes m. case RunYumUpdate_options up (yum_options r excludes) m of (e, m1) \<Rightarrow> (Done e, m1)) zypper
      in manager_updates up (tl_apt env \<and> tl_dpkg_query env) (pc_apt_excludes c)
           (\<lambda>excludes. RunAptGetUpgrade_options up (apt_options r excludes)) yum [] m)"

lemmas option_defs =
  apt_options_def yum_options_def zypper_options_def zypper_list_options_def apt_list_defaults_def
  AptUpdates_options_def YumUpdates_options_def pkg_AptGetUpgradeType_def AptGetUpgradeShowNew_def
  pkg_YumUpdateSecurity_def pkg_YumUpdateMinimal_def ZypperListPatchCategories_def ZypperListPatchSeverities_def
  ZypperListPatchWithOptional_def AptGetUpgradeType_def AptGetExcludes_def AptGetExclusivePackages_def AptGetDryRun_def
  YumUpdateSecurity_def YumUpdateMinimal_def YumUpdateExcludes_def YumExclusivePackages_def YumDryRun_def
  ZypperPatchCategories_def ZypperPatchSeverities_def ZypperUpdateWithOptional_def ZypperUpdateWithUpdate_def
  ZypperUpdateWithExcludes_def ZypperUpdateWithExclusivePatches_def ZypperUpdateDryrun_def base_opts_def

lemma apt_options_run:
  "RunAptGetUpgrade_options up (apt_options r excludes) =
     RunAptGetUpgrade up \<lparr>uo_exclusive = repeated (pc_apt_exclusive (pt_config r)), uo_excludes = excludes, uo_dryrun = pt_dry_run r\<rparr>
       (if pc_apt_dist (pt_config r) then AptGetDistUpgrade else AptGetUpgrade)"
  by (rule ext) (simp add: RunAptGetUpgrade_options_def RunAptGetUpgrade_def option_defs Let_def split: prod.splits outcome.splits sum.splits)

lemma yum_options_run:
  "RunYumUpdate_options up (yum_options r excludes) =
     RunYumUpdate up \<lparr>uo_exclusive = repeated (pc_yum_exclusive (pt_config r)), uo_excludes = excludes, uo_dryrun = pt_dry_run r\<rparr>
       (pc_yum_security (pt_config r)) (pc_yum_minimal (pt_config r))"
  by (rule ext) (simp add: RunYumUpdate_options_def RunYumUpdate_def option_defs Let_def split: prod.splits sum.splits)

lemma zypper_options_run:
  "RunZypperPatch_options up (zypper_options r excludes) =
     RunZypperPatch up
       \<lparr>uo_exclusive = repeated (pc_zypper_exclusive (pt_config r)), uo_excludes = excludes, uo_dryrun = pt_dry_run r,
        zo_list = \<lparr>zl_categories = pc_zypper_categories (pt_config r), zl_severities = pc_zypper_severities (pt_config r),
                   zl_with_optional = pc_zypper_with_optional (pt_config r), zl_all = False\<rparr>,
        zo_with_update = pc_zypper_with_update (pt_config r)\<rparr>"
  by (rule ext) (simp add: RunZypperPatch_options_def option_defs Let_def)

text \<open>The run through the option lists is the run that OsPatch models: the theorems about it hold for the code as it calls the
  updaters.\<close>

lemma runUpdates_through_options: "runUpdates_options up r m = runUpdates up r m"
  by (simp only: runUpdates_options_def runUpdates_def apt_options_run yum_options_run zypper_options_run Let_def)

end
