(* ===== verification/AgentLog.thy ===== *)
theory AgentLog
  imports TaskClient
begin

text \<open>
  The log of the agent: \<open>clog/clog.go\<close> and \<open>pretty/pretty.go\<close>, and the calls of \<open>agentendpoint/agentendpoint.go\<close> and
  \<open>agentendpoint_beta.go\<close> as they log their requests. The identity token of the machine is a secret that is part of each request.

  \<^item> Log objects are shared through contexts: \<open>log_heap\<close> is the store of their labels, a context holds at most one reference.
  \<^item> What \<open>logger.Log\<close> gets is a \<open>log_entry\<close>; a log is the list of them. \<open>protojson\<close> and its formatter are arguments.
  \<^item> A message in an interface may be absent (\<open>NoMessage\<close>), or a nil pointer of its type (\<open>Message None\<close>): Go compares only the
    first with nil.
\<close>

section \<open>Labels of a context\<close>

record log_heap =
  lh_labels :: "nat \<Rightarrow> (string \<rightharpoonup> string)"
  lh_next :: nat

type_synonym log_context = "nat option"

definition fromContext :: "log_context \<Rightarrow> log_heap \<Rightarrow> (string \<rightharpoonup> string)" where
  "fromContext c h = (case c of None \<Rightarrow> Map.empty | Some l \<Rightarrow> lh_labels h l)"

definition new_log :: "(string \<rightharpoonup> string) \<Rightarrow> log_heap \<Rightarrow> nat \<times> log_heap" where
  "new_log labels h = (lh_next h, h\<lparr>lh_labels := (lh_labels h)(lh_next h := labels), lh_next := Suc (lh_next h)\<rparr>)"

definition clone :: "nat \<Rightarrow> log_heap \<Rightarrow> nat \<times> log_heap" where
  "clone l h = new_log (lh_labels h l) h"

definition forContext :: "log_context \<Rightarrow> log_heap \<Rightarrow> nat \<times> log_heap" where
  "forContext c h = (case c of None \<Rightarrow> new_log Map.empty h | Some l \<Rightarrow> clone l h)"

definition add_labels :: "nat \<Rightarrow> (string \<times> string) list \<Rightarrow> log_heap \<Rightarrow> log_heap" where
  "add_labels l labels h = h\<lparr>lh_labels := (lh_labels h)(l := fold (\<lambda>(k, v) m. m(k \<mapsto> v)) labels (lh_labels h l))\<rparr>"

definition WithLabels :: "log_context \<Rightarrow> (string \<times> string) list \<Rightarrow> log_heap \<Rightarrow> log_context \<times> log_heap" where
  "WithLabels c labels h =
     (if labels = [] then (c, h) else (case forContext c h of (l, h1) \<Rightarrow> (Some l, add_labels l labels h1)))"

definition in_heap :: "log_context \<Rightarrow> log_heap \<Rightarrow> bool" where
  "in_heap c h \<longleftrightarrow> (case c of None \<Rightarrow> True | Some l \<Rightarrow> l < lh_next h)"

lemma fold_labels: "distinct (map fst labels) \<Longrightarrow> fold (\<lambda>(k, v) m. m(k \<mapsto> v)) labels m = m ++ map_of labels"
proof (induction labels arbitrary: m)
  case (Cons kv labels)
  obtain k v where kv: "kv = (k, v)" by (cases kv)
  then have no: "map_of labels k = None" using Cons.prems by (simp add: map_of_eq_None_iff)
  have "fold (\<lambda>(k, v) m. m(k \<mapsto> v)) (kv # labels) m = fold (\<lambda>(k, v) m. m(k \<mapsto> v)) labels (m(k \<mapsto> v))"
    by (simp only: kv fold_simps prod.case)
  also have "\<dots> = m(k \<mapsto> v) ++ map_of labels" using Cons.prems by (intro Cons.IH) simp
  also have "\<dots> = m ++ map_of (kv # labels)" using no by (auto simp: kv map_add_def fun_eq_iff split: option.splits)
  finally show ?case .
qed simp

text \<open>The new context has the labels of the old one, overwritten by the given ones; every context that was made before keeps its
  labels, although the log objects are shared.\<close>

lemma WithLabels_labels:
  assumes "WithLabels c labels h = (c', h')" "distinct (map fst labels)"
  shows "fromContext c' h' = fromContext c h ++ map_of labels"
  using assms
  by (auto simp: WithLabels_def forContext_def clone_def new_log_def add_labels_def fromContext_def fold_labels
      split: if_splits option.splits prod.splits)

lemma WithLabels_keeps:
  assumes "WithLabels c labels h = (c', h')" "in_heap c0 h"
  shows "fromContext c0 h' = fromContext c0 h" "in_heap c0 h'"
  using assms
  by (auto simp: WithLabels_def forContext_def clone_def new_log_def add_labels_def fromContext_def in_heap_def
      split: if_splits option.splits prod.splits)

section \<open>Entries\<close>

datatype severity = DebugSev | InfoSev | WarningSev | ErrorSev

record log_entry =
  ln_message :: string
  ln_payload :: "(string \<times> string) list option"
  ln_severity :: severity
  ln_labels :: "string \<rightharpoonup> string"

definition log_as :: "severity \<Rightarrow> (string \<rightharpoonup> string) \<Rightarrow> (string \<times> string) list option \<Rightarrow> string \<Rightarrow> log_entry list \<Rightarrow> log_entry list" where
  "log_as sev labels payload msg es = es @ [\<lparr>ln_message = msg, ln_payload = payload, ln_severity = sev, ln_labels = labels\<rparr>]"

definition DebugStructured :: "(string \<rightharpoonup> string) \<Rightarrow> (string \<times> string) list \<Rightarrow> string \<Rightarrow> log_entry list \<Rightarrow> log_entry list" where
  "DebugStructured labels payload msg = log_as DebugSev labels (Some payload) msg"

definition Debugf :: "(string \<rightharpoonup> string) \<Rightarrow> string \<Rightarrow> log_entry list \<Rightarrow> log_entry list" where "Debugf labels = log_as DebugSev labels None"
definition Infof :: "(string \<rightharpoonup> string) \<Rightarrow> string \<Rightarrow> log_entry list \<Rightarrow> log_entry list" where "Infof labels = log_as InfoSev labels None"
definition Warningf :: "(string \<rightharpoonup> string) \<Rightarrow> string \<Rightarrow> log_entry list \<Rightarrow> log_entry list" where "Warningf labels = log_as WarningSev labels None"
definition Errorf :: "(string \<rightharpoonup> string) \<Rightarrow> string \<Rightarrow> log_entry list \<Rightarrow> log_entry list" where "Errorf labels = log_as ErrorSev labels None"

section \<open>Logging a call\<close>

datatype ('b, 'a) message = Request string 'b | Response 'a

datatype 'm iface = NoMessage | Message "'m option"

record 'm clog_env =
  cl_debug :: bool
  cl_labels :: "string \<rightharpoonup> string"
  cl_marshal :: "'m option \<Rightarrow> string res"
  cl_format :: "'m option \<Rightarrow> string"

definition protoToJSON :: "'m clog_env \<Rightarrow> 'm option \<Rightarrow> string" where
  "protoToJSON lg p = (case cl_marshal lg p of Inl e \<Rightarrow> ''Error converting proto: '' @ err_text e | Inr j \<Rightarrow> j)"

definition line_end :: string where "line_end = [CHR 0x0A]"

definition DebugRPC :: "'m clog_env \<Rightarrow> string \<Rightarrow> 'm iface \<Rightarrow> 'm iface \<Rightarrow> log_entry list \<Rightarrow> log_entry list" where
  "DebugRPC lg what req resp es =
     (if \<not> cl_debug lg then es
      else (case (req, resp) of
        (NoMessage, NoMessage) \<Rightarrow> es
      | (Message q, Message p) \<Rightarrow>
          log_as DebugSev (cl_labels lg)
            (Some [(''MethodName'', what), (''Response'', protoToJSON lg p), (''Request'', protoToJSON lg q)])
            (''Called: '' @ what @ '' with request:'' @ line_end @ cl_format lg q @ line_end @ ''response:'' @ line_end @ cl_format lg p @ line_end) es
      | (NoMessage, Message p) \<Rightarrow>
          log_as DebugSev (cl_labels lg) (Some [(''MethodName'', what), (''Response'', protoToJSON lg p)])
            (''Called: '' @ what @ '' with response:'' @ line_end @ cl_format lg p @ line_end) es
      | (Message q, NoMessage) \<Rightarrow>
          log_as DebugSev (cl_labels lg) (Some [(''MethodName'', what), (''Request'', protoToJSON lg q)])
            (''Calling: '' @ what @ '' with request:'' @ line_end @ cl_format lg q @ line_end) es))"

text \<open>A response that a failed call left nil is a nil pointer in an interface, so it is logged all the same.\<close>

lemma DebugRPC_nil_response:
  "cl_debug lg \<Longrightarrow> length (DebugRPC lg what NoMessage (Message None) es) = Suc (length es)"
  by (simp add: DebugRPC_def log_as_def)

section \<open>Calls that log a redacted request\<close>

text \<open>
  The token, the request with a placeholder in its token field, its log entry, the request with the token, the call. The log entry is
  text by the time the field changes. \<open>build\<close> makes the request and what is logged while it is made. The models of TaskClient and
  Inventory leave the log out; here it is added, and \<open>retried_logged_erased\<close> says that nothing else changes. The lines that
  \<open>RetryAPICall\<close> writes about an attempt hold the error of the service only and are left out.
\<close>

record 'x call_world =
  cw_x :: 'x
  cw_log :: "log_entry list"

definition placeholder :: string where "placeholder = ''<redacted>''"

definition set_token :: "string \<Rightarrow> ('b, 'a) message \<Rightarrow> ('b, 'a) message" where
  "set_token t m = (case m of Request t' b \<Rightarrow> Request t b | Response a \<Rightarrow> Response a)"

definition logged_request :: "('b, 'a) message clog_env \<Rightarrow> string \<Rightarrow> ('b, 'a) message \<Rightarrow> 'x call_world \<Rightarrow> 'x call_world" where
  "logged_request lg what req w = w\<lparr>cw_log := DebugRPC lg what (Message (Some (set_token placeholder req))) NoMessage (cw_log w)\<rparr>"

definition logged_response :: "('b, 'a) message clog_env \<Rightarrow> string \<Rightarrow> 'a option \<Rightarrow> 'x call_world \<Rightarrow> 'x call_world" where
  "logged_response lg what resp w = w\<lparr>cw_log := DebugRPC lg what NoMessage (Message (map_option Response resp)) (cw_log w)\<rparr>"

definition retried_logged :: "'x rpc_env \<Rightarrow> ('b, 'a) message clog_env \<Rightarrow> nat \<Rightarrow> string \<Rightarrow> ('x \<Rightarrow> ('b, 'a) message \<times> ('x call_world \<Rightarrow> 'x call_world))
    \<Rightarrow> (('b, 'a) message \<Rightarrow> 'x \<Rightarrow> 'a res \<times> 'x) \<Rightarrow> 'x call_world \<Rightarrow> (go_error + 'a res) \<times> 'x call_world" where
  "retried_logged env lg maxTime what build raw w =
     (case rc_token env (cw_x w) of
        (Inl e, x) \<Rightarrow> (Inl e, w\<lparr>cw_x := x\<rparr>)
      | (Inr token, x) \<Rightarrow>
          (case build x of
             (req, before) \<Rightarrow>
               let w1 = logged_request lg what req (before (w\<lparr>cw_x := x\<rparr>)) in
               (case RetryAPICall (rc_draws env) (\<lambda>n (y, a). (rc_sleep env n y, a)) maxTime (attempt (raw (set_token token req))) (x, None) of
                  (Some e, sl, x2, a) \<Rightarrow> (Inr (Inl e), logged_response lg what a (w1\<lparr>cw_x := x2\<rparr>))
                | (None, sl, x2, a) \<Rightarrow> (Inr (Inr (the a)), logged_response lg what a (w1\<lparr>cw_x := x2\<rparr>)))))"

lemma retried_logged_erased:
  assumes "retried_logged env lg maxTime what build raw w = (r, w')" "\<And>x. build x = (req, nt x)"
  shows "retried env maxTime (\<lambda>token. raw (set_token token req)) (cw_x w) = (r, cw_x w')"
  using assms by (auto simp: retried_logged_def retried_def logged_response_def Let_def split: prod.splits sum.splits option.splits)

definition plain_request :: "'b \<Rightarrow> 'x \<Rightarrow> ('b, 'a) message \<times> ('x call_world \<Rightarrow> 'x call_world)" where
  "plain_request b x = (Request [] b, id)"

definition startNextTask_logged :: "'x rpc_env \<Rightarrow> ('b, 'a) message clog_env \<Rightarrow> 'b \<Rightarrow> (('b, 'a) message \<Rightarrow> 'x \<Rightarrow> 'a res \<times> 'x)
    \<Rightarrow> 'x call_world \<Rightarrow> 'a res \<times> 'x call_world" where
  "startNextTask_logged env lg b raw w = called ''StartNextTask'' (retried_logged env lg apiRetrySec ''StartNextTask'' (plain_request b) raw w)"

definition reportTaskProgress_logged :: "'x rpc_env \<Rightarrow> ('b, 'a) message clog_env \<Rightarrow> 'b \<Rightarrow> (('b, 'a) message \<Rightarrow> 'x \<Rightarrow> 'a res \<times> 'x)
    \<Rightarrow> 'x call_world \<Rightarrow> 'a res \<times> 'x call_world" where
  "reportTaskProgress_logged env lg b raw w =
     called ''ReportTaskProgress'' (retried_logged env lg apiRetrySec ''ReportTaskProgress'' (plain_request b) raw w)"

definition reportTaskComplete_logged :: "'x rpc_env \<Rightarrow> ('b, 'a) message clog_env \<Rightarrow> 'b \<Rightarrow> (('b, 'a) message \<Rightarrow> 'x \<Rightarrow> 'a res \<times> 'x)
    \<Rightarrow> 'x call_world \<Rightarrow> go_error option \<times> 'x call_world" where
  "reportTaskComplete_logged env lg b raw w =
     (case called ''ReportTaskComplete'' (retried_logged env lg apiRetrySec ''ReportTaskComplete'' (plain_request b) raw w) of
        (Inl e, w1) \<Rightarrow> (Some e, w1) | (Inr _, w1) \<Rightarrow> (None, w1))"

text \<open>The fields of the system are empty when it cannot be told; the agent registers all the same.\<close>

definition register_request :: "('b, 'a) message clog_env \<Rightarrow> ('x \<Rightarrow> go_error + 'b) \<Rightarrow> 'b \<Rightarrow> 'x \<Rightarrow> ('b, 'a) message \<times> ('x call_world \<Rightarrow> 'x call_world)" where
  "register_request lg info empty_info x =
     (case info x of
        Inl e \<Rightarrow> (Request [] empty_info, \<lambda>w. w\<lparr>cw_log := Errorf (cl_labels lg) (''osinfo.Get() error: '' @ err_text e) (cw_log w)\<rparr>)
      | Inr b \<Rightarrow> (Request [] b, id))"

definition RegisterAgent_logged :: "'x rpc_env \<Rightarrow> ('b, 'a) message clog_env \<Rightarrow> ('x \<Rightarrow> go_error + 'b) \<Rightarrow> 'b \<Rightarrow> (('b, 'a) message \<Rightarrow> 'x \<Rightarrow> 'a res \<times> 'x)
    \<Rightarrow> 'x call_world \<Rightarrow> go_error option \<times> 'x call_world" where
  "RegisterAgent_logged env lg info empty_info raw w =
     (case retried_logged env lg apiRetrySec ''RegisterAgent'' (register_request lg info empty_info) raw w of
        (Inl e, w1) \<Rightarrow> (Some e, w1) | (Inr (Inl e), w1) \<Rightarrow> (Some e, w1) | (Inr (Inr _), w1) \<Rightarrow> (None, w1))"

text \<open>Calls that are made once: the two reports of the inventory, which need a checksum, and the stream of notifications.\<close>

definition report_logged :: "'x rpc_env \<Rightarrow> ('b, 'a) message clog_env \<Rightarrow> string \<Rightarrow> (string res \<times> (string \<Rightarrow> 'b))
    \<Rightarrow> (('b, 'a) message \<Rightarrow> 'x \<Rightarrow> 'a res \<times> 'x) \<Rightarrow> 'x call_world \<Rightarrow> 'a res \<times> 'x call_world" where
  "report_logged env lg what content raw w =
     (case rc_token env (cw_x w) of
        (Inl e, x) \<Rightarrow> (Inl e, w\<lparr>cw_x := x\<rparr>)
      | (Inr token, x) \<Rightarrow>
          (case fst content of
             Inl e \<Rightarrow> (Inl (ErrWrap ''unable to compute hash, err'' e), w\<lparr>cw_x := x\<rparr>)
           | Inr digest \<Rightarrow>
               let req = Request [] (snd content digest); w1 = logged_request lg what req (w\<lparr>cw_x := x\<rparr>) in
               (case raw (set_token token req) x of
                  (r, x1) \<Rightarrow> (r, logged_response lg what (case r of Inl e \<Rightarrow> None | Inr a \<Rightarrow> Some a) (w1\<lparr>cw_x := x1\<rparr>)))))"

definition receiveTaskNotification :: "'x rpc_env \<Rightarrow> ('b, 'a) message clog_env \<Rightarrow> 'b \<Rightarrow> (('b, 'a) message \<Rightarrow> 'x \<Rightarrow> 'a res \<times> 'x)
    \<Rightarrow> 'x call_world \<Rightarrow> 'a res \<times> 'x call_world" where
  "receiveTaskNotification env lg b raw w =
     (case rc_token env (cw_x w) of
        (Inl e, x) \<Rightarrow> (Inl (ErrWrap ''error fetching Instance IDToken'' e), w\<lparr>cw_x := x\<rparr>)
      | (Inr token, x) \<Rightarrow>
          let w1 = logged_request lg ''ReceiveTaskNotification'' (Request [] b) (w\<lparr>cw_x := x\<rparr>) in
          (case raw (set_token token (Request [] b)) x of (r, x1) \<Rightarrow> (r, w1\<lparr>cw_x := x1\<rparr>)))"

text \<open>The lookup of guest policies logs its request before it has a token, and each response inside the retried function.\<close>

definition lookup_attempt :: "('b, 'a) message clog_env \<Rightarrow> ('x \<Rightarrow> 'a res \<times> 'x) \<Rightarrow> 'x call_world \<times> 'a option \<Rightarrow> go_error option \<times> 'x call_world \<times> 'a option" where
  "lookup_attempt lg call st =
     (case call (cw_x (fst st)) of
        (Inl e, x) \<Rightarrow> (Some e, (fst st)\<lparr>cw_x := x\<rparr>, None)
      | (Inr a, x) \<Rightarrow>
          (None, (fst st)\<lparr>cw_x := x,
             cw_log := Debugf (cl_labels lg) (''LookupEffectiveGuestPolicies response:'' @ line_end @ cl_format lg (Some (Response a))) (cw_log (fst st))\<rparr>,
           Some a))"

definition lookup_logged :: "'x rpc_env \<Rightarrow> ('b, 'a) message clog_env \<Rightarrow> 'b \<Rightarrow> (('b, 'a) message \<Rightarrow> 'x \<Rightarrow> 'a res \<times> 'x)
    \<Rightarrow> 'x call_world \<Rightarrow> 'a res \<times> 'x call_world" where
  "lookup_logged env lg b raw w =
     (case rc_token env (cw_x w) of
        (Inl e, x) \<Rightarrow> (Inl e, w\<lparr>cw_x := x\<rparr>)
      | (Inr token, x) \<Rightarrow>
          let req = Request [] b;
              msg = ''Calling LookupEffectiveGuestPolicies with request:'' @ line_end @ cl_format lg (Some req);
              w1 = w\<lparr>cw_x := x, cw_log := Debugf (cl_labels lg) msg (cw_log w)\<rparr> in
          (case RetryAPICall (rc_draws env) (\<lambda>n (v, a). (v\<lparr>cw_x := rc_sleep env n (cw_x v)\<rparr>, a)) 30
                  (lookup_attempt lg (raw (set_token token req))) (w1, None) of
             (Some e, sl, w2, a) \<Rightarrow> (Inl (ErrWrap ''error calling LookupEffectiveGuestPolicies'' e), w2)
           | (None, sl, w2, a) \<Rightarrow> (Inr (the a), w2)))"

section \<open>The token goes to the service and nowhere else\<close>

text \<open>Every call of the agent that carries the token.\<close>

datatype ('b, 'x) rpc =
    CallRegisterAgent "'x \<Rightarrow> go_error + 'b" 'b
  | CallStartNextTask 'b
  | CallReportTaskProgress 'b
  | CallReportTaskComplete 'b
  | CallReportInventory "string res" "string \<Rightarrow> 'b"
  | CallReportVmInventory "string res" "string \<Rightarrow> 'b"
  | CallReceiveTaskNotification 'b
  | CallLookupEffectiveGuestPolicy 'b

definition as_result :: "go_error option \<times> 'w \<Rightarrow> 'a option res \<times> 'w" where
  "as_result p = (case p of (Some e, w) \<Rightarrow> (Inl e, w) | (None, w) \<Rightarrow> (Inr None, w))"

definition some_result :: "'a res \<times> 'w \<Rightarrow> 'a option res \<times> 'w" where
  "some_result p = (map_sum id Some (fst p), snd p)"

fun agent_call :: "'x rpc_env \<Rightarrow> ('b, 'a) message clog_env \<Rightarrow> (('b, 'a) message \<Rightarrow> 'x \<Rightarrow> 'a res \<times> 'x) \<Rightarrow> ('b, 'x) rpc
    \<Rightarrow> 'x call_world \<Rightarrow> 'a option res \<times> 'x call_world" where
  "agent_call env lg raw (CallRegisterAgent info b) w = as_result (RegisterAgent_logged env lg info b raw w)"
| "agent_call env lg raw (CallStartNextTask b) w = some_result (startNextTask_logged env lg b raw w)"
| "agent_call env lg raw (CallReportTaskProgress b) w = some_result (reportTaskProgress_logged env lg b raw w)"
| "agent_call env lg raw (CallReportTaskComplete b) w = as_result (reportTaskComplete_logged env lg b raw w)"
| "agent_call env lg raw (CallReportInventory digest mk) w = some_result (report_logged env lg ''ReportInventory'' (digest, mk) raw w)"
| "agent_call env lg raw (CallReportVmInventory digest mk) w = some_result (report_logged env lg ''ReportVmInventory'' (digest, mk) raw w)"
| "agent_call env lg raw (CallReceiveTaskNotification b) w = some_result (receiveTaskNotification env lg b raw w)"
| "agent_call env lg raw (CallLookupEffectiveGuestPolicy b) w = some_result (lookup_logged env lg b raw w)"

text \<open>Two machines that differ in the token, and two services that give the same answers, each to requests with its own token.\<close>

definition token_twins :: "'x rpc_env \<Rightarrow> 'x rpc_env \<Rightarrow> (('b, 'a) message \<Rightarrow> 'x \<Rightarrow> 'a res \<times> 'x) \<Rightarrow> (('b, 'a) message \<Rightarrow> 'x \<Rightarrow> 'a res \<times> 'x) \<Rightarrow> bool" where
  "token_twins env env' raw raw' \<longleftrightarrow>
     rc_draws env' = rc_draws env \<and> rc_sleep env' = rc_sleep env \<and>
     (\<forall>x. (\<exists>e x1. rc_token env x = (Inl e, x1) \<and> rc_token env' x = (Inl e, x1)) \<or>
          (\<exists>t t' x1. rc_token env x = (Inr t, x1) \<and> rc_token env' x = (Inr t', x1) \<and> (\<forall>b. raw (Request t b) = raw' (Request t' b))))"

lemma twins_cases:
  assumes "token_twins env env' raw raw'"
  obtains (fails) e x1 where "rc_token env x = (Inl e, x1)" "rc_token env' x = (Inl e, x1)"
  | (token) t t' x1 where "rc_token env x = (Inr t, x1)" "rc_token env' x = (Inr t', x1)" "\<And>b. raw (Request t b) = raw' (Request t' b)"
  using assms unfolding token_twins_def by metis

lemma twins_same: "token_twins env env' raw raw' \<Longrightarrow> rc_draws env' = rc_draws env \<and> rc_sleep env' = rc_sleep env"
  by (simp add: token_twins_def)

lemma set_token_request [simp]: "set_token t (Request u b) = Request t b"
  by (simp add: set_token_def)

lemma retried_logged_twins:
  assumes twins: "token_twins env env' raw raw'" and build: "\<And>x. \<exists>b nt. build x = (Request [] b, nt)"
  shows "retried_logged env lg maxTime what build raw w = retried_logged env' lg maxTime what build raw' w"
proof (rule twins_cases [OF twins, of "cw_x w"])
  fix t t' x1
  assume tok: "rc_token env (cw_x w) = (Inr t, x1)" "rc_token env' (cw_x w) = (Inr t', x1)"
    and same: "\<And>b. raw (Request t b) = raw' (Request t' b)"
  obtain b nt where b: "build x1 = (Request [] b, nt)" using build by blast
  show ?thesis by (simp add: retried_logged_def tok b same twins_same [OF twins])
qed (simp add: retried_logged_def)

lemma register_twins:
  assumes "token_twins env env' raw raw'"
  shows "retried_logged env lg m what (register_request lg info e) raw w = retried_logged env' lg m what (register_request lg info e) raw' w"
  by (rule retried_logged_twins [OF assms]) (simp add: register_request_def split: sum.splits)

lemma plain_twins:
  assumes "token_twins env env' raw raw'"
  shows "retried_logged env lg m what (plain_request b) raw w = retried_logged env' lg m what (plain_request b) raw' w"
  by (rule retried_logged_twins [OF assms]) (simp add: plain_request_def)

lemma report_logged_twins:
  assumes "token_twins env env' raw raw'"
  shows "report_logged env lg what content raw w = report_logged env' lg what content raw' w"
  by (rule twins_cases [OF assms, of "cw_x w"]) (simp_all add: report_logged_def Let_def split: sum.splits)

lemma receive_twins:
  assumes "token_twins env env' raw raw'"
  shows "receiveTaskNotification env lg b raw w = receiveTaskNotification env' lg b raw' w"
  by (rule twins_cases [OF assms, of "cw_x w"]) (simp_all add: receiveTaskNotification_def)

lemma lookup_twins:
  assumes "token_twins env env' raw raw'"
  shows "lookup_logged env lg b raw w = lookup_logged env' lg b raw' w"
  by (rule twins_cases [OF assms, of "cw_x w"]) (simp_all add: lookup_logged_def twins_same [OF assms])

text \<open>C25. The identity token of the machine goes to the service and nowhere else: take two machines that differ in nothing but the
  token, and two services that give the same answers to requests with the one or with the other token, and that may differ in
  everything else. Then every call has the same result and writes the same log on both. So the log does not depend on the token,
  unless the service itself repeats it, and the service is never asked with anything but the token.\<close>

theorem token_only_to_service:
  assumes "token_twins env env' raw raw'"
  shows "agent_call env lg raw c w = agent_call env' lg raw' c w"
proof (cases c)
  case (CallRegisterAgent info b)
  then show ?thesis by (simp add: RegisterAgent_logged_def register_twins [OF assms])
next
  case (CallStartNextTask b)
  then show ?thesis by (simp add: startNextTask_logged_def plain_twins [OF assms])
next
  case (CallReportTaskProgress b)
  then show ?thesis by (simp add: reportTaskProgress_logged_def plain_twins [OF assms])
next
  case (CallReportTaskComplete b)
  then show ?thesis by (simp add: reportTaskComplete_logged_def plain_twins [OF assms])
qed (simp_all add: report_logged_twins [OF assms] receive_twins [OF assms] lookup_twins [OF assms])

text \<open>A machine whose token is a word, and a service that knows the token of this machine only.\<close>

definition demo_machine_of :: "string \<Rightarrow> nat rpc_env" where
  "demo_machine_of t = \<lparr>rc_token = (\<lambda>x. (Inr t, x)), rc_draws = (\<lambda>n. 0), rc_sleep = (\<lambda>n x. x)\<rparr>"

definition demo_service_of :: "string \<Rightarrow> (string, string) message \<Rightarrow> nat \<Rightarrow> string res \<times> nat" where
  "demo_service_of t m x = (case m of Request t' b \<Rightarrow> (if t' = t then Inr ''task'' else Inl (ErrStatus Unauthenticated ''no''), Suc x)
     | Response a \<Rightarrow> (Inr a, x))"

definition demo_clog :: "(string, string) message clog_env" where
  "demo_clog = \<lparr>cl_debug = True, cl_labels = Map.empty,
     cl_marshal = (\<lambda>m. Inr (case m of Some (Request t b) \<Rightarrow> t @ b | Some (Response a) \<Rightarrow> a | None \<Rightarrow> [])),
     cl_format = (\<lambda>m. case m of Some (Request t b) \<Rightarrow> t @ b | Some (Response a) \<Rightarrow> a | None \<Rightarrow> [])\<rparr>"

corollary token_only_to_service_witness:
  "agent_call (demo_machine_of ''secret'') demo_clog (demo_service_of ''secret'') (CallStartNextTask ''body'') \<lparr>cw_x = 0, cw_log = []\<rparr>
   = agent_call (demo_machine_of ''other'') demo_clog (demo_service_of ''other'') (CallStartNextTask ''body'') \<lparr>cw_x = 0, cw_log = []\<rparr>"
proof (rule token_only_to_service)
  have "demo_service_of ''secret'' (Request ''secret'' b) = demo_service_of ''other'' (Request ''other'' b)" for b
    by (rule ext) (simp add: demo_service_of_def)
  then show "token_twins (demo_machine_of ''secret'') (demo_machine_of ''other'') (demo_service_of ''secret'') (demo_service_of ''other'')"
    unfolding token_twins_def by (auto simp: demo_machine_of_def)
qed

end
