(* ===== verification/RecipeWindows.thy ===== *)
theory RecipeWindows
  imports RecipeSteps
begin

text \<open>
  The steps of a software recipe as a Windows machine runs them: \<open>policies/recipes/steps.go\<close> and \<open>steps_windows.go\<close>.

  \<^item> Windows joins the path of a script with its own separator, and the model writes the script through the argument
    \<open>wr_write\<close>; \<open>wr_environ\<close> is the default environment of the process token.
  \<^item> Extraction and copying are the same code on both systems; the devices that an archive may hold are errors here.
\<close>

record 'y win_recipe_env =
  wr_env :: "'y recipe_env"
  wr_write :: "string \<Rightarrow> string \<Rightarrow> 'y recipe_world \<Rightarrow> go_error option \<times> 'y recipe_world"
  wr_environ :: "'y recipe_world \<Rightarrow> string list res"

section \<open>steps_windows.go\<close>

definition mkCharDevice_windows :: "string \<Rightarrow> nat \<Rightarrow> nat \<Rightarrow> go_error option" where
  "mkCharDevice_windows path major minor = Some (ErrMsg ''Creating a char device is not supported on windows'')"

definition mkBlockDevice_windows :: "string \<Rightarrow> nat \<Rightarrow> nat \<Rightarrow> go_error option" where
  "mkBlockDevice_windows path major minor = Some (ErrMsg ''Creating a block device is not supported on windows'')"

definition mkFifo_windows :: "string \<Rightarrow> nat \<Rightarrow> go_error option" where
  "mkFifo_windows path mode = Some (ErrMsg ''Creating a fifo is not supported on windows'')"

definition chownFunc :: "bool \<Rightarrow> (string \<Rightarrow> int \<Rightarrow> int \<Rightarrow> 'w \<Rightarrow> go_error option \<times> 'w) \<Rightarrow> string \<Rightarrow> int \<Rightarrow> int \<Rightarrow> 'w \<Rightarrow> go_error option \<times> 'w" where
  "chownFunc windows os_chown f uid gid w = (if windows then (None, w) else os_chown f uid gid w)"

section \<open>Commands\<close>

definition executeCommand_windows :: "'y win_recipe_env \<Rightarrow> string \<Rightarrow> string list \<Rightarrow> string \<Rightarrow> string list \<Rightarrow> int list
    \<Rightarrow> 'y recipe_world \<Rightarrow> go_error option \<times> 'y recipe_world" where
  "executeCommand_windows env path args workDir runEnvs allowedExitCodes w =
     (case wr_environ env w of
        Inl e \<Rightarrow> (Some (ErrMsg (''error creating default environment: '' @ err_text e)), w)
      | Inr defaultEnv \<Rightarrow> recipe_executeCommand (wr_env env) path args workDir (defaultEnv @ runEnvs) allowedExitCodes w)"

definition msiexec :: string where
  "msiexec = windows_path [''C:'', ''Windows'', ''System32'', ''msiexec.exe'']"

record msi_step =
  mi_artifact :: string
  mi_flags :: "string list"
  mi_codes :: "int list"

text \<open>Without flags the installation is silent, and without exit codes a pending restart counts as a success.\<close>

definition stepInstallMsi_windows :: "'y win_recipe_env \<Rightarrow> msi_step \<Rightarrow> artifact_map \<Rightarrow> string list \<Rightarrow> string
    \<Rightarrow> 'y recipe_world \<Rightarrow> go_error option \<times> 'y recipe_world" where
  "stepInstallMsi_windows env step artifacts runEnvs stepDir w =
     (case map_of artifacts (mi_artifact step) of
        None \<Rightarrow> (Some (not_in_map (mi_artifact step)), w)
      | Some path \<Rightarrow>
          executeCommand_windows env msiexec
            ((if mi_flags step = [] then [''/i'', ''/qn'', ''/norestart''] else mi_flags step) @ [path]) stepDir runEnvs
            (if mi_codes step = [] then [0, 1641, 3010] else mi_codes step) w)"

definition extensionMap :: "script_interpreter \<Rightarrow> string" where
  "extensionMap i = (case i of SCRIPT_UNSPECIFIED \<Rightarrow> ''.bat'' | SCRIPT_SHELL \<Rightarrow> ''.bat'' | SCRIPT_POWERSHELL \<Rightarrow> ''.ps1'' | SCRIPT_OTHER t \<Rightarrow> [])"

definition recipe_powershell :: string where
  "recipe_powershell = windows_path [''C:'', ''Windows'', ''System32'', ''WindowsPowerShell'', ''v1.0'', ''PowerShell.exe'']"

definition stepRunScript_windows :: "'y win_recipe_env \<Rightarrow> script_step \<Rightarrow> string list \<Rightarrow> string \<Rightarrow> 'y recipe_world
    \<Rightarrow> go_error option \<times> 'y recipe_world" where
  "stepRunScript_windows env step runEnvs stepDir w =
     (let scriptPath = windows_path [stepDir, ''recipe_script_source'' @ extensionMap (ss_interpreter step)] in
      case wr_write env scriptPath (ss_script step) w of
        (Some e, w1) \<Rightarrow> (Some e, w1)
      | (None, w1) \<Rightarrow>
          (case ss_interpreter step of
             SCRIPT_UNSPECIFIED \<Rightarrow> executeCommand_windows env scriptPath [] stepDir runEnvs (ss_codes step) w1
           | SCRIPT_SHELL \<Rightarrow> executeCommand_windows env scriptPath [] stepDir runEnvs (ss_codes step) w1
           | SCRIPT_POWERSHELL \<Rightarrow> executeCommand_windows env recipe_powershell [''-File'', scriptPath] stepDir runEnvs (ss_codes step) w1
           | SCRIPT_OTHER t \<Rightarrow> (Some (ErrMsg ''unsupported interpreter''), w1)))"

section \<open>What the steps run\<close>

lemma recipe_executeCommand_calls:
  "recipe_executeCommand env path args workDir runEnvs codes w = (r, w') \<Longrightarrow> rw_calls w' = rw_calls w @ [SExec path args workDir runEnvs]"
  by (auto simp: recipe_executeCommand_def sys_def set_state_def split: prod.splits option.splits go_error.splits if_splits)

text \<open>A step that succeeds ran one command, with an exit code that the step allows, and the environment of the recipe after the
  default one.\<close>

lemma executeCommand_windows_calls:
  assumes "executeCommand_windows env path args workDir runEnvs codes w = (None, w')"
  shows "\<exists>defaults. wr_environ env w = Inr defaults \<and> rw_calls w' = rw_calls w @ [SExec path args workDir (defaults @ runEnvs)]"
  using assms by (cases "wr_environ env w") (auto simp: executeCommand_windows_def dest: recipe_executeCommand_calls)

text \<open>An installer package is installed by one call of msiexec, from the file of its artifact, in the directory of the step.\<close>

lemma msi_step_calls:
  assumes "stepInstallMsi_windows env step artifacts runEnvs stepDir w = (None, w')"
  shows "\<exists>path defaults flags. map_of artifacts (mi_artifact step) = Some path \<and> flags \<noteq> [] \<and>
    rw_calls w' = rw_calls w @ [SExec msiexec (flags @ [path]) stepDir (defaults @ runEnvs)]"
proof (cases "map_of artifacts (mi_artifact step)")
  case (Some path)
  obtain flags codes where flags: "(if mi_flags step = [] then [''/i'', ''/qn'', ''/norestart''] else mi_flags step) = flags" "flags \<noteq> []"
    and codes: "(if mi_codes step = [] then [0, 1641, 3010] else mi_codes step) = codes" by fastforce
  have "executeCommand_windows env msiexec (flags @ [path]) stepDir runEnvs codes w = (None, w')"
    using assms by (simp only: stepInstallMsi_windows_def Some option.case flags(1) codes)
  from executeCommand_windows_calls [OF this] Some flags(2) show ?thesis by blast
qed (use assms in \<open>simp add: stepInstallMsi_windows_def\<close>)

text \<open>An archive with a device or a pipe does not extract on Windows.\<close>

lemma no_devices:
  "mkCharDevice_windows p a b \<noteq> None" "mkBlockDevice_windows p a b \<noteq> None" "mkFifo_windows p m \<noteq> None"
  by (simp_all add: mkCharDevice_windows_def mkBlockDevice_windows_def mkFifo_windows_def)

end
