(* ===== verification/MainEntry.thy ===== *)
theory MainEntry
  imports AgentLock MainLoop AgentPaths
begin

text \<open>
  The entry of the process: \<open>main\<close>, the options of the logger, the serial port and the daily registration of
  \<open>main.go\<close>, and the command \<open>wuaupdates\<close> of both systems.

  \<^item> \<open>main_act\<close> lists what the process does, in order. A service that runs is one act; what it does is in MainLoop and AgentLock.
\<close>

section \<open>Options of the logger\<close>

datatype log_writer = WriteStdout | WriteSerial string

record log_opts =
  lo_disable_local :: bool
  lo_writers :: "log_writer list"
  lo_debug :: bool
  lo_project :: string
  lo_disable_cloud :: bool

definition run_log_opts :: "bool \<Rightarrow> log_flags \<Rightarrow> log_opts" where
  "run_log_opts windows f =
     \<lparr>lo_disable_local = DisableLocalLogging f,
      lo_writers = (if Stdout f then [WriteStdout] else []) @ (if windows then [WriteSerial ''COM1''] else []),
      lo_debug = False, lo_project = [], lo_disable_cloud = False\<rparr>"

text \<open>Once the settings are known.\<close>

definition log_opts_from :: "agent_flags \<Rightarrow> agent_config \<Rightarrow> log_opts \<Rightarrow> log_opts" where
  "log_opts_from f c o' = o'\<lparr>lo_debug := Debug f c, lo_project := ProjectID c, lo_disable_cloud := DisableCloudLogging c\<rparr>"

section \<open>The serial port\<close>

record 'x serial_env =
  se_open :: "string \<Rightarrow> 'x \<Rightarrow> nat res \<times> 'x"
  se_write :: "nat \<Rightarrow> string \<Rightarrow> 'x \<Rightarrow> (nat \<times> go_error option) \<times> 'x"
  se_close :: "nat \<Rightarrow> 'x \<Rightarrow> 'x"

definition serial_Write :: "'x serial_env \<Rightarrow> string \<Rightarrow> string \<Rightarrow> 'x \<Rightarrow> (nat \<times> go_error option) \<times> 'x" where
  "serial_Write env port b x =
     (case se_open env port x of
        (Inl e, x1) \<Rightarrow> ((0, Some e), x1)
      | (Inr p, x1) \<Rightarrow> (case se_write env p b x1 of (r, x2) \<Rightarrow> (r, se_close env p x2)))"

section \<open>The daily registration\<close>

text \<open>One element for each day: whether tasks and whether guest policies are enabled then.\<close>

definition daily_registrations :: "(bool \<times> bool) list \<Rightarrow> nat" where
  "daily_registrations days = length (filter (\<lambda>(tasks, guest_policies). tasks \<or> guest_policies) days)"

section \<open>Printing the updates\<close>

definition wuaUpdates_linux :: "string res" where
  "wuaUpdates_linux = Inl (ErrMsg ''wuaUpdates not implemented on linux'')"

definition print_wuaUpdates :: "(string \<Rightarrow> 'u list res) \<Rightarrow> ('u list \<Rightarrow> string res) \<Rightarrow> string \<Rightarrow> string res" where
  "print_wuaUpdates updates marshal query = (case updates query of Inl e \<Rightarrow> Inl e | Inr us \<Rightarrow> marshal us)"

section \<open>main\<close>

datatype main_act =
    LabelVersion
  | WatchSignals
  | ServeProfile string
  | PrintOut string
  | PrintErr string
  | Exit int
  | RunService
  | RunAgent string
  | Deferred deferred

definition flag_Arg :: "nat \<Rightarrow> string list \<Rightarrow> string" where
  "flag_Arg n args = (if n < length args then args ! n else [])"

definition main :: "bool \<Rightarrow> string list \<Rightarrow> (string \<Rightarrow> string res) \<Rightarrow> deferred list \<Rightarrow> main_act list" where
  "main profile args updates deferredFuncs =
     [LabelVersion, WatchSignals] @ (if profile then [ServeProfile ''localhost:6060''] else []) @
     (let action = flag_Arg 0 args in
      if action = ''wuaupdates''
      then (case updates (flag_Arg 1 args) of
              Inl e \<Rightarrow> [PrintErr (err_text e), Exit 1]
            | Inr text_json \<Rightarrow> [PrintOut text_json, Exit 0])
      else [if action \<in> {[], ''run''} then RunService else RunAgent action] @ map Deferred deferredFuncs)"

fun deferred_of :: "main_act list \<Rightarrow> deferred list" where
  "deferred_of [] = []"
| "deferred_of (Deferred d # acts) = d # deferred_of acts"
| "deferred_of (a # acts) = deferred_of acts"

lemma deferred_of_append [simp]: "deferred_of (xs @ ys) = deferred_of xs @ deferred_of ys"
  by (induction xs rule: deferred_of.induct) auto

lemma deferred_of_map [simp]: "deferred_of (map Deferred ds) = ds"
  by (induction ds) auto

text \<open>The process either prints the updates and exits, with 0 only if they could be listed, or runs the agent and then everything that
  was deferred, in the order in which it was added.\<close>

lemma main_exit:
  assumes "flag_Arg 0 args = ''wuaupdates''"
  shows "last (main profile args updates ds) = Exit (if isl (updates (flag_Arg 1 args)) then 1 else 0)"
    "deferred_of (main profile args updates ds) = []"
  using assms by (cases "updates (flag_Arg 1 args)"; simp add: main_def)+

lemma main_deferred:
  assumes "flag_Arg 0 args \<noteq> ''wuaupdates''"
  shows "deferred_of (main profile args updates ds) = ds"
proof -
  obtain act where act: "flag_Arg 0 args = act" "act \<noteq> ''wuaupdates''" using assms by blast
  then have "main profile args updates ds = [LabelVersion, WatchSignals] @ (if profile then [ServeProfile ''localhost:6060''] else []) @
      [if act \<in> {[], ''run''} then RunService else RunAgent act] @ map Deferred ds"
    by (simp only: main_def Let_def if_False)
  then show ?thesis by (cases profile; cases "act \<in> {[], ''run''}") (simp_all only: deferred_of_append deferred_of_map deferred_of.simps if_True if_False append_Nil)
qed

text \<open>On Linux there are no updates to print.\<close>

lemma wuaupdates_linux:
  "main profile [''wuaupdates''] (\<lambda>q. wuaUpdates_linux) ds =
     [LabelVersion, WatchSignals] @ (if profile then [ServeProfile ''localhost:6060''] else [])
     @ [PrintErr ''wuaUpdates not implemented on linux'', Exit 1]"
  by (simp add: main_def flag_Arg_def wuaUpdates_linux_def)

text \<open>The line that says that the agent shuts down is logged after the logger is closed, also where a restart is requested.\<close>

lemma shutdown_logged_after_close:
  assumes "run_start watch logger lock = Running fs"
  shows "fs = [RemoveOldRestart, CloseLogger, LogShutdown, ReleaseLock]"
  using assms by (simp add: running_holds_lock)

end
