(* ===== verification/Clients.thy ===== *)
theory Clients
  imports AgentPaths
begin

text \<open>
  The two clients of the service as objects: how \<open>agentendpoint.go\<close> and \<open>agentendpoint_beta.go\<close> make and close them.

  \<^item> \<open>client_object\<close> is both structures. \<open>co_cancel\<close> is the function that ends the context of the notifications: absent, or
    present, with whether it was called. \<open>co_locked\<close> is the mutex.
  \<^item> A call that waits for a mutex that nobody will release is \<open>None\<close>.
\<close>

record client_options =
  cp_authenticated :: bool
  cp_tls :: bool
  cp_keepalive :: "(nat \<times> nat \<times> bool) option"
  cp_endpoint :: string
  cp_user_agent :: string

record 'r client_object =
  co_raw :: 'r
  co_cancel :: "bool option"
  co_noti :: bool
  co_closed :: bool
  co_locked :: bool

definition client_opts :: "agent_config \<Rightarrow> string \<Rightarrow> client_options" where
  "client_opts c agent_version =
     \<lparr>cp_authenticated = False, cp_tls = True, cp_keepalive = Some (100, 5, True), cp_endpoint = SvcEndpoint c,
      cp_user_agent = UserAgent agent_version\<rparr>"

definition beta_client_opts :: "agent_config \<Rightarrow> string \<Rightarrow> client_options" where
  "beta_client_opts c agent_version = (client_opts c agent_version)\<lparr>cp_keepalive := None\<rparr>"

definition new_object :: "'r \<Rightarrow> 'r client_object" where
  "new_object raw = \<lparr>co_raw = raw, co_cancel = None, co_noti = False, co_closed = False, co_locked = False\<rparr>"

definition NewClient :: "(client_options \<Rightarrow> 'r res) \<Rightarrow> agent_config \<Rightarrow> string \<Rightarrow> 'r client_object res" where
  "NewClient dial c agent_version = (case dial (client_opts c agent_version) of Inl e \<Rightarrow> Inl e | Inr raw \<Rightarrow> Inr (new_object raw))"

definition NewBetaClient :: "(client_options \<Rightarrow> 'r res) \<Rightarrow> agent_config \<Rightarrow> string \<Rightarrow> 'r client_object res" where
  "NewBetaClient dial c agent_version = (case dial (beta_client_opts c agent_version) of Inl e \<Rightarrow> Inl e | Inr raw \<Rightarrow> Inr (new_object raw))"

text \<open>The mutex is taken and kept: that is how a closed client keeps tasks from running.\<close>

definition client_Close :: "('r \<Rightarrow> go_error option) \<Rightarrow> 'r client_object \<Rightarrow> (go_error option \<times> 'r client_object) option" where
  "client_Close raw_close o' =
     (if co_locked o' then None
      else Some (raw_close (co_raw o'), o'\<lparr>co_locked := True, co_cancel := map_option (\<lambda>_. True) (co_cancel o'), co_closed := True\<rparr>))"

definition BetaClient_Close :: "('r \<Rightarrow> go_error option) \<Rightarrow> 'r client_object \<Rightarrow> (go_error option \<times> 'r client_object) option" where
  "BetaClient_Close raw_close o' =
     (if co_locked o' then None
      else Some (raw_close (co_raw o'), o'\<lparr>co_locked := True, co_cancel := map_option (\<lambda>_. True) (co_cancel o'), co_closed := True\<rparr>))"

definition Closed_client :: "'r client_object \<Rightarrow> bool" where "Closed_client o' = co_closed o'"
definition Closed_beta_client :: "'r client_object \<Rightarrow> bool" where "Closed_beta_client o' = co_closed o'"

text \<open>A new client can be closed once, whatever closing the connection gives; to close it again blocks forever.\<close>

lemma close_new:
  assumes "NewBetaClient dial c v = Inr o'"
  shows "\<not> Closed_beta_client o'" "\<exists>o2. BetaClient_Close cl o' = Some (cl (co_raw o'), o2) \<and> Closed_beta_client o2"
  using assms by (auto simp: NewBetaClient_def new_object_def BetaClient_Close_def Closed_beta_client_def split: sum.splits)

lemma second_close_blocks:
  "client_Close cl o' = Some (e, o2) \<Longrightarrow> client_Close cl2 o2 = None"
  "BetaClient_Close cl o' = Some (e, o2) \<Longrightarrow> BetaClient_Close cl2 o2 = None"
  by (auto simp: client_Close_def BetaClient_Close_def split: if_splits)

end
