(* ===== verification/UtilTrace.thy ===== *)
theory UtilTrace
  imports Complex_Main Prelude
begin

text \<open>
  The sampling of memory and processor time of \<open>util/utiltrace/utiltrace.go\<close>, whose result \<open>packages/trace.go\<close> logs.

  \<^item> The numbers are floating point: their type and operations are an argument (\<open>float_ops\<close>). What the samples mean is shown for
    exact numbers, the instance \<open>exact_ops\<close> on the reals.
  \<^item> A \<open>sample\<close> is what one tick of the timer finds. Times are nanoseconds.
\<close>

record 'f float_ops =
  fo_add :: "'f \<Rightarrow> 'f \<Rightarrow> 'f"
  fo_sub :: "'f \<Rightarrow> 'f \<Rightarrow> 'f"
  fo_mul :: "'f \<Rightarrow> 'f \<Rightarrow> 'f"
  fo_div :: "'f \<Rightarrow> 'f \<Rightarrow> 'f"
  fo_less :: "'f \<Rightarrow> 'f \<Rightarrow> bool"
  fo_nat :: "nat \<Rightarrow> 'f"
  fo_seconds :: "int \<Rightarrow> 'f"

record 'f trace_memory_result =
  tr_before :: 'f
  tr_after :: 'f
  tr_peak :: 'f
  tr_mean :: 'f
  tr_count :: nat

record 'f trace_result = "'f trace_memory_result" +
  tr_cpu_peak :: 'f
  tr_cpu_mean :: 'f
  tr_duration :: int
  tr_alloc :: 'f

record 'f sample =
  sm_memory :: 'f
  sm_cpu :: "int res"
  sm_now :: int

text \<open>\<open>tc_last\<close> is the last sample of the processor time, with its time; the zero time is none.\<close>

record 'f trace_state =
  tc_count :: nat
  tc_mean :: 'f
  tc_peak :: 'f
  tc_last :: "(int \<times> int) option"
  tc_cpu_count :: nat
  tc_cpu_mean :: 'f
  tc_cpu_peak :: 'f

definition megabytes :: "'f float_ops \<Rightarrow> nat \<Rightarrow> 'f" where
  "megabytes fo bytes = fo_div fo (fo_div fo (fo_nat fo bytes) (fo_nat fo 1024)) (fo_nat fo 1024)"

text \<open>The difference is one of \<open>uint64\<close>.\<close>

definition difference_MB :: "'f float_ops \<Rightarrow> nat \<Rightarrow> nat \<Rightarrow> 'f" where
  "difference_MB fo a b = megabytes fo (nat ((int a - int b) mod 2 ^ 64))"

definition memoryUsageMB :: "'f float_ops \<Rightarrow> nat \<Rightarrow> nat \<Rightarrow> 'f" where
  "memoryUsageMB fo sys released = difference_MB fo sys released"

text \<open>The processor time on Linux, from \<open>getrusage\<close>: the seconds and microseconds of the user and of the system part. On Windows it is
  always zero.\<close>

definition getCPUTime_linux :: "((int \<times> int) \<times> (int \<times> int)) res \<Rightarrow> int res" where
  "getCPUTime_linux getrusage =
     (case getrusage of
        Inl e \<Rightarrow> Inl (ErrWrap ''getrusage error'' e)
      | Inr ((us, uu), (ss, su)) \<Rightarrow> Inr ((us * 1000000000 + uu * 1000) + (ss * 1000000000 + su * 1000)))"

definition getCPUTime_windows :: "int res" where
  "getCPUTime_windows = Inr 0"

definition trace_begin :: "'f float_ops \<Rightarrow> 'f \<Rightarrow> int res \<Rightarrow> int \<Rightarrow> 'f trace_state" where
  "trace_begin fo startMB startCPU startTime =
     \<lparr>tc_count = 1, tc_mean = startMB, tc_peak = startMB,
      tc_last = (case startCPU of Inl e \<Rightarrow> None | Inr c \<Rightarrow> Some (c, startTime)),
      tc_cpu_count = 0, tc_cpu_mean = fo_nat fo 0, tc_cpu_peak = fo_nat fo 0\<rparr>"

definition running_mean :: "'f float_ops \<Rightarrow> 'f \<Rightarrow> 'f \<Rightarrow> nat \<Rightarrow> 'f" where
  "running_mean fo mean x n = fo_add fo mean (fo_div fo (fo_sub fo x mean) (fo_nat fo n))"

definition sample_memory :: "'f float_ops \<Rightarrow> 'f \<Rightarrow> 'f trace_state \<Rightarrow> 'f trace_state" where
  "sample_memory fo mb s =
     s\<lparr>tc_count := tc_count s + 1, tc_mean := running_mean fo (tc_mean s) mb (tc_count s + 1),
       tc_peak := (if fo_less fo (tc_peak s) mb then mb else tc_peak s)\<rparr>"

definition sample_cpu :: "'f float_ops \<Rightarrow> int res \<Rightarrow> int \<Rightarrow> 'f trace_state \<Rightarrow> 'f trace_state" where
  "sample_cpu fo cpu now s =
     (case (cpu, tc_last s) of
        (Inr c, Some (c0, t0)) \<Rightarrow>
          let timeDelta = fo_seconds fo (now - t0); cpuDelta = fo_seconds fo (c - c0) in
          (if fo_less fo (fo_nat fo 0) timeDelta
           then (let pct = fo_mul fo (fo_div fo cpuDelta timeDelta) (fo_nat fo 100) in
                 s\<lparr>tc_last := Some (c, now), tc_cpu_count := tc_cpu_count s + 1,
                   tc_cpu_mean := running_mean fo (tc_cpu_mean s) pct (tc_cpu_count s + 1),
                   tc_cpu_peak := (if fo_less fo (tc_cpu_peak s) pct then pct else tc_cpu_peak s)\<rparr>)
           else s\<lparr>tc_last := Some (c, now)\<rparr>)
      | _ \<Rightarrow> s)"

definition trace_tick :: "'f float_ops \<Rightarrow> 'f sample \<Rightarrow> 'f trace_state \<Rightarrow> 'f trace_state" where
  "trace_tick fo sm s = sample_cpu fo (sm_cpu sm) (sm_now sm) (sample_memory fo (sm_memory sm) s)"

text \<open>At the end the mean of the processor time is the one of the whole run, if it can be read.\<close>

definition trace_finish :: "'f float_ops \<Rightarrow> 'f \<Rightarrow> int res \<Rightarrow> int res \<Rightarrow> int \<Rightarrow> 'f \<Rightarrow> 'f \<Rightarrow> 'f trace_state \<Rightarrow> 'f trace_result" where
  "trace_finish fo startMB startCPU finalCPU dur afterMB alloc s =
     (let cpu = (case (finalCPU, tc_last s) of
             (Inr c, Some l) \<Rightarrow>
               if 0 < dur
               then (let c0 = (case startCPU of Inl e \<Rightarrow> 0 | Inr x \<Rightarrow> x);
                         m = fo_mul fo (fo_div fo (fo_seconds fo (c - c0)) (fo_seconds fo dur)) (fo_nat fo 100)
                     in (m, if fo_less fo (tc_cpu_peak s) m then m else tc_cpu_peak s))
               else (tc_cpu_mean s, tc_cpu_peak s)
           | _ \<Rightarrow> (tc_cpu_mean s, tc_cpu_peak s))
      in \<lparr>tr_before = startMB, tr_after = afterMB, tr_peak = tc_peak s, tr_mean = tc_mean s, tr_count = tc_count s,
          tr_cpu_peak = snd cpu, tr_cpu_mean = fst cpu, tr_duration = dur, tr_alloc = alloc\<rparr>)"

definition Trace :: "'f float_ops \<Rightarrow> 'f \<Rightarrow> int res \<Rightarrow> int \<Rightarrow> 'f sample list \<Rightarrow> int res \<Rightarrow> int \<Rightarrow> 'f \<Rightarrow> nat \<Rightarrow> nat \<Rightarrow> 'f trace_result" where
  "Trace fo startMB startCPU startTime samples finalCPU dur afterMB allocBefore allocAfter =
     trace_finish fo startMB startCPU finalCPU dur afterMB (difference_MB fo allocAfter allocBefore)
       (fold (trace_tick fo) samples (trace_begin fo startMB startCPU startTime))"

definition TraceMemory :: "'f trace_result \<Rightarrow> 'f trace_memory_result" where
  "TraceMemory r = \<lparr>tr_before = tr_before r, tr_after = tr_after r, tr_peak = tr_peak r, tr_mean = tr_mean r, tr_count = tr_count r\<rparr>"

section \<open>What the numbers mean\<close>

definition exact_ops :: "real float_ops" where
  "exact_ops = \<lparr>fo_add = (+), fo_sub = (-), fo_mul = (*), fo_div = (/), fo_less = (<), fo_nat = real, fo_seconds = (\<lambda>n. of_int n / 1000000000)\<rparr>"

lemma sample_cpu_memory [simp]:
  "tc_count (sample_cpu fo cpu now s) = tc_count s" "tc_mean (sample_cpu fo cpu now s) = tc_mean s"
  "tc_peak (sample_cpu fo cpu now s) = tc_peak s"
  by (simp_all add: sample_cpu_def Let_def split: sum.splits option.splits prod.splits)

definition memory_inv :: "real list \<Rightarrow> real trace_state \<Rightarrow> bool" where
  "memory_inv xs s \<longleftrightarrow> xs \<noteq> [] \<and> tc_count s = length xs \<and> tc_mean s = sum_list xs / length xs \<and> tc_peak s = Max (set xs)"

lemma mean_step:
  fixes a n x :: real
  assumes "0 < n"
  shows "a / n + (x - a / n) / (n + 1) = (a + x) / (n + 1)"
proof -
  have "a / n + (x - a / n) / (n + 1) = (a / n * (n + 1) + (x - a / n)) / (n + 1)"
    using assms by (simp add: add_divide_distrib)
  also have "a / n * (n + 1) = a + a / n" using assms by (simp add: distrib_left)
  finally show ?thesis by (simp add: add.commute)
qed

lemma memory_inv_tick:
  assumes "memory_inv xs s"
  shows "memory_inv (xs @ [sm_memory sm]) (trace_tick exact_ops sm s)"
proof -
  let ?n = "real (length xs)" and ?x = "sm_memory sm"
  have n: "0 < ?n" and mean: "tc_mean s = sum_list xs / ?n" using assms by (auto simp: memory_inv_def)
  have "tc_mean s + (?x - tc_mean s) / (?n + 1) = (sum_list xs + ?x) / (?n + 1)"
    using mean_step [OF n] unfolding mean .
  moreover have "Max (set (xs @ [?x])) = (if Max (set xs) < ?x then ?x else Max (set xs))"
    using assms by (simp add: memory_inv_def max_def del: Max_less_iff)
  moreover have "tc_peak (trace_tick exact_ops sm s) = (if Max (set xs) < ?x then ?x else Max (set xs))"
    using assms by (simp add: memory_inv_def trace_tick_def sample_memory_def exact_ops_def del: Max_less_iff)
  ultimately show ?thesis
    using assms by (simp add: memory_inv_def trace_tick_def sample_memory_def running_mean_def exact_ops_def add.commute
        del: Max_less_iff)
qed

text \<open>With exact numbers the mean is the mean and the peak the largest of all samples of memory, the first one included.\<close>

lemma Trace_memory:
  fixes startMB :: real
  defines "xs \<equiv> \<lambda>samples. startMB # map sm_memory samples"
  shows "tr_mean (Trace exact_ops startMB c0 t0 samples c1 dur after a0 a1) = sum_list (xs samples) / length (xs samples)"
    "tr_peak (Trace exact_ops startMB c0 t0 samples c1 dur after a0 a1) = Max (set (xs samples))"
    "tr_count (Trace exact_ops startMB c0 t0 samples c1 dur after a0 a1) = length (xs samples)"
proof -
  have "memory_inv ys s \<Longrightarrow> memory_inv (ys @ map sm_memory samples) (fold (trace_tick exact_ops) samples s)" for ys s
  proof (induction samples arbitrary: ys s)
    case (Cons sm samples)
    from Cons.IH [OF memory_inv_tick [OF Cons.prems, of sm]] show ?case by simp
  qed simp
  from this [of "[startMB]" "trace_begin exact_ops startMB c0 t0"]
  have "memory_inv (xs samples) (fold (trace_tick exact_ops) samples (trace_begin exact_ops startMB c0 t0))"
    by (simp add: memory_inv_def trace_begin_def xs_def)
  then show "tr_mean (Trace exact_ops startMB c0 t0 samples c1 dur after a0 a1) = sum_list (xs samples) / length (xs samples)"
    "tr_peak (Trace exact_ops startMB c0 t0 samples c1 dur after a0 a1) = Max (set (xs samples))"
    "tr_count (Trace exact_ops startMB c0 t0 samples c1 dur after a0 a1) = length (xs samples)"
    by (simp_all add: Trace_def trace_finish_def Let_def memory_inv_def)
qed

text \<open>If the processor time cannot be read at the start it is never reported, even when it can be read later.\<close>

lemma no_cpu_time:
  "tr_cpu_peak (Trace fo startMB (Inl e) t0 samples c1 dur after a0 a1) = fo_nat fo 0"
  "tr_cpu_mean (Trace fo startMB (Inl e) t0 samples c1 dur after a0 a1) = fo_nat fo 0"
proof -
  have "tc_last s = None \<Longrightarrow> tc_cpu_peak s = z \<Longrightarrow> tc_cpu_mean s = z \<Longrightarrow>
      (let s' = fold (trace_tick fo) samples s in tc_last s' = None \<and> tc_cpu_peak s' = z \<and> tc_cpu_mean s' = z)" for s z
  proof (induction samples arbitrary: s)
    case (Cons sm samples)
    have "tc_last (trace_tick fo sm s) = None" "tc_cpu_peak (trace_tick fo sm s) = z" "tc_cpu_mean (trace_tick fo sm s) = z"
      using Cons.prems by (simp_all add: trace_tick_def sample_cpu_def sample_memory_def split: sum.splits)
    then show ?case using Cons.IH by simp
  qed (simp add: Let_def)
  from this [of "trace_begin fo startMB (Inl e) t0" "fo_nat fo 0"]
  have "tc_last (fold (trace_tick fo) samples (trace_begin fo startMB (Inl e) t0)) = None"
    "tc_cpu_peak (fold (trace_tick fo) samples (trace_begin fo startMB (Inl e) t0)) = fo_nat fo 0"
    "tc_cpu_mean (fold (trace_tick fo) samples (trace_begin fo startMB (Inl e) t0)) = fo_nat fo 0"
    by (simp_all add: trace_begin_def Let_def)
  then show "tr_cpu_peak (Trace fo startMB (Inl e) t0 samples c1 dur after a0 a1) = fo_nat fo 0"
    "tr_cpu_mean (Trace fo startMB (Inl e) t0 samples c1 dur after a0 a1) = fo_nat fo 0"
    by (simp_all add: Trace_def trace_finish_def Let_def split: sum.splits)
qed

end
