(* ===== verification/TestRig.thy ===== *)
theory TestRig
  imports FileSys
begin

text \<open>
  The parts of the end to end test harness that have a logic of their own (\<open>e2e_tests_v2/internal/\<close>): the settings
  (\<open>config/\<close>), the leases that bound the number of virtual machines (\<open>scheduler/\<close>), waiting for a condition
  (\<open>gcp/poll.go\<close>) and the report of the results (\<open>junitxml/\<close>).

  \<^item> Leases: tests run in parallel, so acquiring and releasing are steps, and a run is any sequence of them.
  \<^item> Waiting: one \<open>poll_round\<close> per call of the check, with its answer and with what ends the pause after it.
  \<^item> Durations are nanoseconds. The seconds of the report are floating point numbers, whose type and operations are arguments.
\<close>

section \<open>config.go\<close>

record test_config =
  tg_project :: string
  tg_zone :: string
  tg_network :: string
  tg_subnetwork :: string
  tg_service_account :: string
  tg_test_timeout :: int
  tg_poll_interval :: int
  tg_cleanup_timeout :: int
  tg_max_vms :: int
  tg_artifact_file :: string

definition seconds :: "int \<Rightarrow> int" where "seconds n = n * 1000000000"

definition test_defaults :: test_config where
  "test_defaults = \<lparr>tg_project = ''gcloud-parity-testing'', tg_zone = ''us-central1-a'', tg_network = ''global/networks/default'',
     tg_subnetwork = [], tg_service_account = ''default'', tg_test_timeout = seconds (60 * 60), tg_poll_interval = seconds 10,
     tg_cleanup_timeout = seconds (5 * 60), tg_max_vms = 5, tg_artifact_file = ''./artifacts/junit.xml''\<rparr>"

definition valueOrDefault :: "string \<Rightarrow> string \<Rightarrow> string" where
  "valueOrDefault val fallback = (if trim_space val = [] then fallback else trim_space val)"

text \<open>The texts of the errors about durations depend on how a duration is printed, an argument.\<close>

definition validate_config :: "(int \<Rightarrow> string) \<Rightarrow> test_config \<Rightarrow> go_error option" where
  "validate_config show_duration c =
     (if trim_space (tg_project c) = [] then Some (ErrMsg ''project is required in configuration'')
      else if trim_space (tg_zone c) = [] then Some (ErrMsg ''zone is required in configuration'')
      else if tg_test_timeout c \<le> 0 then Some (ErrMsg (''test_timeout must be positive, got '' @ show_duration (tg_test_timeout c)))
      else if tg_poll_interval c \<le> 0 then Some (ErrMsg (''poll_interval must be positive, got '' @ show_duration (tg_poll_interval c)))
      else if tg_cleanup_timeout c \<le> 0 then Some (ErrMsg (''cleanup_timeout must be positive, got '' @ show_duration (tg_cleanup_timeout c)))
      else if tg_max_vms c \<le> 0 then Some (ErrMsg (''invalid max VMs amount: '' @ show_int (tg_max_vms c)))
      else None)"

text \<open>The flags as they were parsed, or their defaults.\<close>

definition load_config :: "(int \<Rightarrow> string) \<Rightarrow> test_config \<Rightarrow> test_config res" where
  "load_config show_duration flags =
     (let c = flags\<lparr>tg_project := trim_space (tg_project flags), tg_zone := trim_space (tg_zone flags),
                tg_network := valueOrDefault (tg_network flags) (tg_network test_defaults),
                tg_subnetwork := trim_space (tg_subnetwork flags),
                tg_service_account := valueOrDefault (tg_service_account flags) (tg_service_account test_defaults),
                tg_artifact_file := valueOrDefault (tg_artifact_file flags) (tg_artifact_file test_defaults)\<rparr> in
      case validate_config show_duration c of Some e \<Rightarrow> Inl e | None \<Rightarrow> Inr c)"

lemma valueOrDefault_nonempty: "fallback \<noteq> [] \<Longrightarrow> valueOrDefault val fallback \<noteq> []"
  by (simp add: valueOrDefault_def)

text \<open>Settings that were loaded name a project, a zone, a network and a report file, and every bound is positive.\<close>

lemma load_config_sound:
  assumes "load_config sd flags = Inr c"
  shows "trim_space (tg_project c) \<noteq> []" "trim_space (tg_zone c) \<noteq> []" "tg_network c \<noteq> []" "tg_artifact_file c \<noteq> []"
    "0 < tg_test_timeout c" "0 < tg_poll_interval c" "0 < tg_cleanup_timeout c" "0 < tg_max_vms c"
  using assms
  by (auto simp: load_config_def validate_config_def Let_def valueOrDefault_def test_defaults_def split: if_splits)

section \<open>scheduler.go\<close>

text \<open>\<open>sd_tokens\<close> is the number of tokens in the channel; \<open>sd_leases\<close> says of every lease that was ever given out whether it is held.\<close>

record scheduler =
  sd_capacity :: nat
  sd_tokens :: nat
  sd_leases :: "bool list"

definition new_scheduler :: "int \<Rightarrow> scheduler res" where
  "new_scheduler capacity =
     (if capacity \<le> 0 then Inl (ErrMsg (''scheduler capacity must be positive, got '' @ show_int capacity))
      else Inr \<lparr>sd_capacity = nat capacity, sd_tokens = nat capacity, sd_leases = []\<rparr>)"

definition acquire_error :: "go_error \<Rightarrow> go_error" where "acquire_error e = ErrWrap ''acquire capacity lease'' e"

datatype lease_event = AcquireLease | AcquireDone go_error | ReleaseLease nat | ReleaseNil

text \<open>\<open>Acquire\<close> takes a token or gives up; a lease is released once, and a nil lease not at all. A send into a full channel blocks: then
  the step does not happen.\<close>

fun lease_fire :: "lease_event \<Rightarrow> scheduler \<Rightarrow> scheduler option" where
  "lease_fire AcquireLease s =
     (if 0 < sd_tokens s then Some (s\<lparr>sd_tokens := sd_tokens s - 1, sd_leases := sd_leases s @ [True]\<rparr>) else None)"
| "lease_fire (AcquireDone e) s = Some s"
| "lease_fire (ReleaseLease i) s =
     (if length (sd_leases s) \<le> i then None
      else if \<not> sd_leases s ! i then Some s
      else if sd_tokens s < sd_capacity s then Some (s\<lparr>sd_tokens := sd_tokens s + 1, sd_leases := (sd_leases s)[i := False]\<rparr>)
      else None)"
| "lease_fire ReleaseNil s = Some s"

fun lease_run :: "lease_event list \<Rightarrow> scheduler \<Rightarrow> scheduler option" where
  "lease_run [] s = Some s"
| "lease_run (e # es) s = (case lease_fire e s of None \<Rightarrow> None | Some s1 \<Rightarrow> lease_run es s1)"

definition held :: "scheduler \<Rightarrow> nat" where "held s = length (filter id (sd_leases s))"

definition lease_inv :: "scheduler \<Rightarrow> bool" where "lease_inv s \<longleftrightarrow> sd_tokens s + held s = sd_capacity s"

lemma filter_id_update:
  "i < length bs \<Longrightarrow> bs ! i \<Longrightarrow> Suc (length (filter id (bs[i := False]))) = length (filter id bs)"
  by (induction bs arbitrary: i) (auto split: nat.splits simp: nth_Cons')

lemma held_release:
  assumes "i < length (sd_leases s)" "sd_leases s ! i"
  shows "Suc (held (s\<lparr>sd_tokens := n, sd_leases := (sd_leases s)[i := False]\<rparr>)) = held s"
  using filter_id_update [OF assms] by (simp add: held_def)

lemma lease_inv_fire:
  assumes "lease_inv s" "lease_fire e s = Some s'"
  shows "lease_inv s' \<and> sd_capacity s' = sd_capacity s"
proof (cases e)
  case (ReleaseLease i)
  then show ?thesis
    using assms held_release [of i s "sd_tokens s + 1"] by (auto simp: lease_inv_def split: if_splits)
qed (use assms in \<open>auto simp: lease_inv_def held_def split: if_splits\<close>)

lemma lease_inv_run:
  "lease_run es s = Some s' \<Longrightarrow> lease_inv s \<Longrightarrow> lease_inv s' \<and> sd_capacity s' = sd_capacity s"
proof (induction es arbitrary: s)
  case (Cons e es)
  then obtain s1 where "lease_fire e s = Some s1" "lease_run es s1 = Some s'" by (auto split: option.splits)
  with Cons lease_inv_fire [OF Cons.prems(2)] show ?case by fastforce
qed simp

text \<open>Never more than the capacity are held, in whatever order the tests acquire and release; a release never blocks, and releasing
  twice gives no second token.\<close>

lemma leases_bounded:
  assumes "new_scheduler capacity = Inr s0" "lease_run es s0 = Some s"
  shows "int (held s) \<le> capacity" "i < length (sd_leases s) \<Longrightarrow> \<exists>s'. lease_fire (ReleaseLease i) s = Some s' \<and> lease_fire (ReleaseLease i) s' = Some s'"
proof -
  have s0: "0 < capacity" "s0 = \<lparr>sd_capacity = nat capacity, sd_tokens = nat capacity, sd_leases = []\<rparr>"
    using assms(1) by (auto simp: new_scheduler_def split: if_splits)
  have "lease_inv s0" by (simp add: s0(2) lease_inv_def held_def)
  with lease_inv_run [OF assms(2)] have inv: "lease_inv s" "sd_capacity s = nat capacity" by (simp_all add: s0(2))
  then show "int (held s) \<le> capacity" using s0(1) by (simp add: lease_inv_def)
  assume i: "i < length (sd_leases s)"
  show "\<exists>s'. lease_fire (ReleaseLease i) s = Some s' \<and> lease_fire (ReleaseLease i) s' = Some s'"
  proof (cases "sd_leases s ! i")
    case True
    then have "0 < held s" using filter_id_update [OF i True] unfolding held_def by linarith
    then have "sd_tokens s < sd_capacity s" using inv(1) by (simp add: lease_inv_def)
    then show ?thesis using i True by simp
  qed (use i in simp)
qed

section \<open>poll.go\<close>

text \<open>What ends the pause after a check: the timer, or the context, with its cause if it has one.\<close>

datatype poll_wake = TimerFires | ContextDone "go_error option"

record poll_round =
  pr_observation :: string
  pr_done :: bool
  pr_err :: "go_error option"
  pr_wake :: poll_wake

record wait_error =
  we_description :: string
  we_elapsed :: int
  we_attempts :: nat
  we_observations :: "string list"
  we_cause :: go_error

datatype poll_end = PollDone | PollFailed go_error | PollStopped wait_error

definition observationLimit :: nat where "observationLimit = 5"

definition observe :: "string \<Rightarrow> string list \<Rightarrow> string list" where
  "observe ob obs =
     (if ob = [] then obs
      else let obs' = obs @ [ob] in if observationLimit < length obs' then drop (length obs' - observationLimit) obs' else obs')"

fun poll_loop :: "string \<Rightarrow> int \<Rightarrow> nat \<Rightarrow> string list \<Rightarrow> poll_round list \<Rightarrow> poll_end option" where
  "poll_loop description elapsed attempts obs [] = None"
| "poll_loop description elapsed attempts obs (r # rs) =
     (let obs1 = observe (pr_observation r) obs in
      case pr_err r of
        Some e \<Rightarrow> Some (PollFailed (ErrWrap (''wait for '' @ description) e))
      | None \<Rightarrow>
          if pr_done r then Some PollDone
          else (case pr_wake r of
            ContextDone cause \<Rightarrow>
              Some (PollStopped \<lparr>we_description = description, we_elapsed = elapsed, we_attempts = attempts, we_observations = obs1,
                we_cause = (case cause of None \<Rightarrow> ErrMsg ''context canceled'' | Some e \<Rightarrow> e)\<rparr>)
          | TimerFires \<Rightarrow> poll_loop description elapsed (attempts + 1) obs1 rs))"

text \<open>\<open>None\<close>: the list of rounds is over and the code still waits.\<close>

definition PollUntil :: "int \<Rightarrow> string \<Rightarrow> int \<Rightarrow> poll_round list \<Rightarrow> poll_end option" where
  "PollUntil interval description elapsed rs =
     (if interval \<le> 0 then Some (PollFailed (ErrMsg ''poll interval must be positive'')) else poll_loop description elapsed 1 [] rs)"

definition wait_error_text :: "(int \<Rightarrow> string) \<Rightarrow> wait_error \<Rightarrow> string" where
  "wait_error_text show_duration e =
     ''wait for '' @ we_description e @ '' stopped after '' @ show_duration (we_elapsed e) @ '' ('' @ show_nat (we_attempts e) @ '' attempts): ''
     @ err_text (we_cause e) @ ''; recent observations: ''
     @ (if we_observations e = [] then ''none'' else join '' | '' (we_observations e))"

text \<open>The observations that are kept: the last five that are not empty.\<close>

definition last_of :: "nat \<Rightarrow> 'a list \<Rightarrow> 'a list" where "last_of n xs = drop (length xs - n) xs"

lemma last_of_snoc: "last_of (Suc n) (last_of (Suc n) xs @ [x]) = last_of (Suc n) (xs @ [x])"
proof (cases "length xs \<le> n")
  case False
  then have "Suc (length xs - Suc n) = length xs - n" by simp
  then show ?thesis using False by (simp add: last_of_def)
qed (simp add: last_of_def)

lemma observe_last:
  assumes "obs = last_of observationLimit seen"
  shows "observe ob obs = last_of observationLimit (seen @ (if ob = [] then [] else [ob]))"
proof (cases "ob = []")
  case False
  have "observe ob obs = last_of observationLimit (obs @ [ob])" using False by (auto simp: observe_def last_of_def Let_def)
  then show ?thesis using False last_of_snoc [of 4 seen ob] by (simp add: assms observationLimit_def)
qed (simp add: observe_def assms)

definition seen_in :: "poll_round list \<Rightarrow> string list" where
  "seen_in rs = filter (\<lambda>ob. ob \<noteq> []) (map pr_observation rs)"

definition goes_on :: "poll_round \<Rightarrow> bool" where
  "goes_on r \<longleftrightarrow> pr_err r = None \<and> \<not> pr_done r \<and> pr_wake r = TimerFires"

definition poll_result :: "string \<Rightarrow> int \<Rightarrow> nat \<Rightarrow> string list \<Rightarrow> poll_round \<Rightarrow> poll_end" where
  "poll_result d el n seen r =
     (case pr_err r of
        Some e \<Rightarrow> PollFailed (ErrWrap (''wait for '' @ d) e)
      | None \<Rightarrow>
          if pr_done r then PollDone
          else PollStopped \<lparr>we_description = d, we_elapsed = el, we_attempts = n, we_observations = last_of observationLimit seen,
            we_cause = (case pr_wake r of ContextDone (Some e) \<Rightarrow> e | _ \<Rightarrow> ErrMsg ''context canceled'')\<rparr>)"

lemma poll_loop_end:
  assumes "poll_loop d el n (last_of observationLimit seen) rs = Some res"
  shows "\<exists>before r after. rs = before @ r # after \<and> list_all goes_on before \<and> \<not> goes_on r \<and>
    res = poll_result d el (n + length before) (seen @ seen_in (before @ [r])) r"
  using assms
proof (induction rs arbitrary: n seen)
  case (Cons r rs)
  let ?seen = "seen @ seen_in [r]"
  have obs: "observe (pr_observation r) (last_of observationLimit seen) = last_of observationLimit ?seen"
    by (subst observe_last [OF refl]) (simp add: seen_in_def)
  show ?case
  proof (cases "goes_on r")
    case True
    then have "poll_loop d el (n + 1) (last_of observationLimit ?seen) rs = Some res"
      using Cons.prems obs by (simp add: goes_on_def Let_def)
    from Cons.IH [OF this] obtain before r' after where w: "rs = before @ r' # after" "list_all goes_on before" "\<not> goes_on r'"
      "res = poll_result d el (n + 1 + length before) (?seen @ seen_in (before @ [r'])) r'" by blast
    have "?seen @ seen_in (before @ [r']) = seen @ seen_in ((r # before) @ [r'])" by (simp add: seen_in_def)
    with w have "res = poll_result d el (n + length (r # before)) (seen @ seen_in ((r # before) @ [r'])) r'" by simp
    moreover have "r # rs = (r # before) @ r' # after" "list_all goes_on (r # before)" using w True by simp_all
    ultimately show ?thesis using w(3) by blast
  next
    case False
    have "res = poll_result d el n ?seen r"
      using Cons.prems False
      by (cases "pr_err r"; cases "pr_wake r") (simp_all add: goes_on_def poll_result_def obs Let_def split: if_splits option.splits)
    then have "r # rs = [] @ r # rs" "res = poll_result d el (n + length ([] :: poll_round list)) (seen @ seen_in ([] @ [r])) r" by simp_all
    then show ?thesis using False by (metis list.pred_inject(1))
  qed
qed simp

text \<open>How waiting ends: at the first round whose check fails, is satisfied, or is interrupted; the error of an interruption counts the
  checks and shows the last five things that were observed.\<close>

lemma PollUntil_end:
  assumes "PollUntil interval d el rs = Some res" "0 < interval"
  shows "\<exists>before r after. rs = before @ r # after \<and> list_all goes_on before \<and> \<not> goes_on r \<and>
    (res = PollDone \<longleftrightarrow> pr_err r = None \<and> pr_done r) \<and>
    (\<forall>e. res = PollStopped e \<longrightarrow> we_attempts e = Suc (length before) \<and> we_observations e = last_of 5 (seen_in (before @ [r])) \<and>
       length (we_observations e) \<le> 5)"
proof -
  have "poll_loop d el 1 (last_of observationLimit []) rs = Some res" using assms by (simp add: PollUntil_def last_of_def)
  from poll_loop_end [OF this] obtain before r after where w: "rs = before @ r # after" "list_all goes_on before" "\<not> goes_on r"
    "res = poll_result d el (1 + length before) ([] @ seen_in (before @ [r])) r" by blast
  then have "res = PollDone \<longleftrightarrow> pr_err r = None \<and> pr_done r" by (auto simp: poll_result_def split: option.splits)
  moreover have "\<forall>e. res = PollStopped e \<longrightarrow> we_attempts e = Suc (length before) \<and> we_observations e = last_of 5 (seen_in (before @ [r])) \<and>
       length (we_observations e) \<le> 5"
    using w(4) by (auto simp: poll_result_def observationLimit_def last_of_def split: option.splits if_splits)
  ultimately show ?thesis using w(1-3) by blast
qed

text \<open>It waits as long as nothing ends it.\<close>

lemma PollUntil_waits: "0 < interval \<Longrightarrow> list_all goes_on rs \<Longrightarrow> PollUntil interval d el rs = None"
proof -
  have "list_all goes_on rs \<Longrightarrow> poll_loop d el n obs rs = None" for n obs
    by (induction rs arbitrary: n obs) (auto simp: goes_on_def Let_def)
  then show "0 < interval \<Longrightarrow> list_all goes_on rs \<Longrightarrow> PollUntil interval d el rs = None" by (simp add: PollUntil_def)
qed

section \<open>junitxml.go\<close>

record 'f test_case =
  tk_classname :: string
  tk_name :: string
  tk_time :: 'f
  tk_failure :: "(string \<times> string \<times> string) option"
  tk_skipped :: "string option"
  tk_system_out :: string

record 'f test_suite =
  tu_name :: string
  tu_tests :: nat
  tu_failures :: nat
  tu_errors :: nat
  tu_disabled :: nat
  tu_skipped :: nat
  tu_time :: 'f
  tu_timestamp :: string
  tu_cases :: "'f test_case list"

record 'f test_totals =
  tt_suites :: "'f test_suite list"
  tt_tests :: nat
  tt_failures :: nat
  tt_errors :: nat
  tt_disabled :: nat
  tt_time :: 'f

record 'f float_env =
  fl_zero :: 'f
  fl_add :: "'f \<Rightarrow> 'f \<Rightarrow> 'f"
  fl_seconds :: "int \<Rightarrow> 'f"

text \<open>A reporter is the map of its suites; an association list, which Go may go through in any order.\<close>

type_synonym 'f reporter = "'f test_suite list"

definition new_case :: "'f float_env \<Rightarrow> string \<Rightarrow> string \<Rightarrow> int \<Rightarrow> string \<Rightarrow> bool \<Rightarrow> string \<Rightarrow> 'f test_case" where
  "new_case fl caseName classname duration failureMsg skipped systemOut =
     \<lparr>tk_classname = classname, tk_name = caseName, tk_time = fl_seconds fl duration,
      tk_failure = (if skipped \<or> failureMsg = [] then None else Some (failureMsg, ''failure'', failureMsg)),
      tk_skipped = (if skipped then Some ''Test skipped'' else None), tk_system_out = systemOut\<rparr>"

definition add_case :: "'f float_env \<Rightarrow> int \<Rightarrow> 'f test_case \<Rightarrow> 'f test_suite \<Rightarrow> 'f test_suite" where
  "add_case fl duration tc s =
     s\<lparr>tu_tests := tu_tests s + 1, tu_time := fl_add fl (tu_time s) (fl_seconds fl duration),
       tu_skipped := (if tk_skipped tc \<noteq> None then tu_skipped s + 1 else tu_skipped s),
       tu_failures := (if tk_failure tc \<noteq> None then tu_failures s + 1 else tu_failures s),
       tu_cases := tu_cases s @ [tc]\<rparr>"

definition new_suite :: "'f float_env \<Rightarrow> string \<Rightarrow> string \<Rightarrow> 'f test_suite" where
  "new_suite fl suiteName now =
     \<lparr>tu_name = suiteName, tu_tests = 0, tu_failures = 0, tu_errors = 0, tu_disabled = 0, tu_skipped = 0, tu_time = fl_zero fl,
      tu_timestamp = now, tu_cases = []\<rparr>"

definition Record :: "'f float_env \<Rightarrow> string \<Rightarrow> string \<Rightarrow> string \<Rightarrow> string \<Rightarrow> int \<Rightarrow> string \<Rightarrow> bool \<Rightarrow> string \<Rightarrow> 'f reporter \<Rightarrow> 'f reporter" where
  "Record fl now suiteName caseName classname duration failureMsg skipped systemOut r =
     (let tc = new_case fl caseName classname duration failureMsg skipped systemOut in
      if \<exists>s \<in> set r. tu_name s = suiteName
      then map (\<lambda>s. if tu_name s = suiteName then add_case fl duration tc s else s) r
      else r @ [add_case fl duration tc (new_suite fl suiteName now)])"

definition totals_of :: "'f float_env \<Rightarrow> 'f reporter \<Rightarrow> 'f test_totals" where
  "totals_of fl r =
     \<lparr>tt_suites = r, tt_tests = sum_list (map tu_tests r), tt_failures = sum_list (map tu_failures r),
      tt_errors = sum_list (map tu_errors r), tt_disabled = sum_list (map tu_disabled r),
      tt_time = fold (\<lambda>s t. fl_add fl t (tu_time s)) r (fl_zero fl)\<rparr>"

text \<open>The document, its header, the line after it; a writer gets them in this order and may fail at each.\<close>

definition WriteXML :: "'f float_env \<Rightarrow> ('f test_totals \<Rightarrow> string res) \<Rightarrow> string \<Rightarrow> (string \<Rightarrow> 'w \<Rightarrow> go_error option \<times> 'w) \<Rightarrow> 'f reporter
    \<Rightarrow> 'w \<Rightarrow> go_error option \<times> 'w" where
  "WriteXML fl encode header write r w =
     (case write header w of
        (Some e, w1) \<Rightarrow> (Some e, w1)
      | (None, w1) \<Rightarrow>
          (case encode (totals_of fl r) of
             Inl e \<Rightarrow> (Some e, w1)
           | Inr xml \<Rightarrow>
               (case write xml w1 of (Some e, w2) \<Rightarrow> (Some e, w2) | (None, w2) \<Rightarrow> write [CHR 0x0A] w2)))"

text \<open>The file is closed on every path; its error is not looked at.\<close>

definition WriteToFile :: "(string \<Rightarrow> 'w \<Rightarrow> go_error option \<times> 'w) \<Rightarrow> (string \<Rightarrow> 'w \<Rightarrow> go_error option \<times> 'w) \<Rightarrow> ('w \<Rightarrow> 'w)
    \<Rightarrow> ('w \<Rightarrow> go_error option \<times> 'w) \<Rightarrow> string \<Rightarrow> 'w \<Rightarrow> go_error option \<times> 'w" where
  "WriteToFile mkdirAll create close_file writeXML path w =
     (case mkdirAll (path_dir path) w of
        (Some e, w1) \<Rightarrow> (Some (ErrWrap (''create directory for junit xml '' @ quote path) e), w1)
      | (None, w1) \<Rightarrow>
          (case create path w1 of
             (Some e, w2) \<Rightarrow> (Some (ErrWrap (''create junit xml file '' @ quote path) e), w2)
           | (None, w2) \<Rightarrow> (case writeXML w2 of (r, w3) \<Rightarrow> (r, close_file w3))))"

definition suite_inv :: "'f test_suite \<Rightarrow> bool" where
  "suite_inv s \<longleftrightarrow>
     tu_tests s = length (tu_cases s) \<and> tu_failures s = length (filter (\<lambda>c. tk_failure c \<noteq> None) (tu_cases s)) \<and>
     tu_skipped s = length (filter (\<lambda>c. tk_skipped c \<noteq> None) (tu_cases s)) \<and> tu_errors s = 0 \<and> tu_disabled s = 0 \<and>
     (\<forall>c \<in> set (tu_cases s). tk_failure c = None \<or> tk_skipped c = None)"

definition reporter_inv :: "'f reporter \<Rightarrow> bool" where
  "reporter_inv r \<longleftrightarrow> distinct (map tu_name r) \<and> (\<forall>s \<in> set r. suite_inv s)"

lemma add_case_inv: "suite_inv s \<Longrightarrow> suite_inv (add_case fl d (new_case fl cn cl d msg sk out) s)"
  by (auto simp: suite_inv_def add_case_def new_case_def)

lemma add_case_name [simp]: "tu_name (add_case fl d tc s) = tu_name s"
  by (simp add: add_case_def)

text \<open>The counters of every suite count its cases, a skipped case is no failure, and the totals are the sums: in every sequence of
  records, of parallel tests too, since each one is a step under the mutex.\<close>

lemma Record_inv:
  assumes "reporter_inv r"
  shows "reporter_inv (Record fl now sn cn cl d msg sk out r)"
proof -
  let ?tc = "new_case fl cn cl d msg sk out" and ?f = "\<lambda>tc s. if tu_name s = sn then add_case fl d tc s else s"
  have new: "suite_inv (new_suite fl sn now)" by (simp add: suite_inv_def new_suite_def)
  show ?thesis
  proof (cases "\<exists>s \<in> set r. tu_name s = sn")
    case True
    then have r: "Record fl now sn cn cl d msg sk out r = map (?f ?tc) r" by (simp add: Record_def Let_def)
    have "map tu_name (map (?f ?tc) r) = map tu_name r" by (induction r) auto
    then have "distinct (map tu_name (map (?f ?tc) r))" using assms by (simp only: reporter_inv_def)
    moreover have "suite_inv (?f ?tc s)" if "s \<in> set r" for s using assms that by (simp add: reporter_inv_def add_case_inv)
    then have "\<forall>s \<in> ?f ?tc ` set r. suite_inv s" by blast
    ultimately show ?thesis unfolding r reporter_inv_def set_map by blast
  next
    case False
    then have r: "Record fl now sn cn cl d msg sk out r = r @ [add_case fl d ?tc (new_suite fl sn now)]" by (auto simp: Record_def Let_def)
    have "tu_name (new_suite fl sn now) = sn" by (simp add: new_suite_def)
    then show ?thesis unfolding r reporter_inv_def using assms False add_case_inv [OF new] by (auto simp: reporter_inv_def)
  qed
qed

lemma totals_count:
  assumes "reporter_inv r"
  shows "tt_tests (totals_of fl r) = length (concat (map tu_cases r))"
    "tt_failures (totals_of fl r) = length (filter (\<lambda>c. tk_failure c \<noteq> None) (concat (map tu_cases r)))"
proof -
  have inv: "\<forall>s \<in> set r. suite_inv s" using assms by (simp add: reporter_inv_def)
  then show "tt_tests (totals_of fl r) = length (concat (map tu_cases r))"
    by (simp add: totals_of_def length_concat suite_inv_def cong: map_cong)
  have "sum_list (map tu_failures r) = length (filter (\<lambda>c. tk_failure c \<noteq> None) (concat (map tu_cases r)))"
    using inv by (induction r) (auto simp: suite_inv_def)
  then show "tt_failures (totals_of fl r) = length (filter (\<lambda>c. tk_failure c \<noteq> None) (concat (map tu_cases r)))"
    by (simp add: totals_of_def)
qed

lemma Record_adds_one:
  assumes "reporter_inv r"
  shows "tt_tests (totals_of fl (Record fl now sn cn cl d msg sk out r)) = Suc (tt_tests (totals_of fl r))"
proof -
  have "distinct (map tu_name r) \<Longrightarrow> \<exists>s \<in> set r. tu_name s = sn \<Longrightarrow>
      sum_list (map tu_tests (map (\<lambda>s. if tu_name s = sn then add_case fl d tc s else s) r)) = Suc (sum_list (map tu_tests r))" for tc r
  proof (induction r)
    case (Cons s r)
    show ?case
    proof (cases "tu_name s = sn")
      case True
      then have "map (\<lambda>s. if tu_name s = sn then add_case fl d tc s else s) r = r"
        using Cons.prems(1) by (intro map_idI) (simp, metis image_eqI)
      then show ?thesis using True by (simp add: add_case_def)
    next
      case False
      then show ?thesis using Cons by simp
    qed
  qed simp
  then show ?thesis
    using assms by (auto simp: Record_def totals_of_def reporter_inv_def Let_def new_suite_def add_case_def)
qed

end
