(* ===== verification/TestCloud.thy ===== *)
theory TestCloud
  imports TestRig
begin

text \<open>
  The cloud client of the end to end tests (\<open>e2e_tests_v2/internal/gcp/compute.go\<close>) and the start-up scripts of its
  machines (\<open>startup.go\<close>).

  \<^item> What the services answer to a call is an argument of the function that makes it. An operation that is waited for is a list of
    its reads, each with what ends the pause after it; \<open>None\<close> as a result means that the code still waits.
  \<^item> \<open>api_error\<close> is an error of a service with its HTTP status, any other error, or an error around one.
\<close>

section \<open>Errors\<close>

datatype api_error = HttpError int string | OtherError string | WrapError string api_error

fun api_root :: "api_error \<Rightarrow> api_error" where
  "api_root (WrapError m e) = api_root e"
| "api_root e = e"

fun api_text :: "api_error \<Rightarrow> string" where
  "api_text (HttpError code m) = m"
| "api_text (OtherError m) = m"
| "api_text (WrapError m e) = m @ '': '' @ api_text e"

definition isHTTPStatus :: "api_error \<Rightarrow> int \<Rightarrow> bool" where
  "isHTTPStatus e code = (case api_root e of HttpError c m \<Rightarrow> c = code | _ \<Rightarrow> False)"

definition IsNotFound :: "api_error \<Rightarrow> bool" where "IsNotFound e = isHTTPStatus e 404"

definition IsTransientComputeError :: "api_error \<Rightarrow> bool" where
  "IsTransientComputeError e = (case api_root e of HttpError c m \<Rightarrow> c = 429 \<or> 500 \<le> c | _ \<Rightarrow> False)"

type_synonym 'a api = "api_error + 'a"

definition as_go :: "api_error \<Rightarrow> go_error" where "as_go e = ErrMsg (api_text e)"

section \<open>The client\<close>

text \<open>\<open>gc_free\<close> is the number of guest policies that may still be created at the same time.\<close>

record 's cloud_client =
  gc_compute :: 's
  gc_osconfig :: 's
  gc_osconfig_beta :: 's
  gc_poll_interval :: int
  gc_free :: nat

definition guestPolicyConcurrencyLimit :: nat where "guestPolicyConcurrencyLimit = 5"

definition NewClient_cloud :: "'s res \<Rightarrow> 's res \<Rightarrow> 's res \<Rightarrow> test_config \<Rightarrow> 's cloud_client res" where
  "NewClient_cloud computeService osconfigService betaService cfg =
     (case computeService of
        Inl e \<Rightarrow> Inl (ErrWrap ''failed to create compute service'' e)
      | Inr c \<Rightarrow>
          (case osconfigService of
             Inl e \<Rightarrow> Inl (ErrWrap ''failed to create osconfig service'' e)
           | Inr os \<Rightarrow>
               (case betaService of
                  Inl e \<Rightarrow> Inl (ErrWrap ''failed to create osconfig v1beta service'' e)
                | Inr b \<Rightarrow>
                    Inr \<lparr>gc_compute = c, gc_osconfig = os, gc_osconfig_beta = b, gc_poll_interval = tg_poll_interval cfg,
                      gc_free = guestPolicyConcurrencyLimit\<rparr>)))"

section \<open>Waiting for operations\<close>

record zone_op =
  zo_status :: string
  zo_progress :: int
  zo_errors :: "(string \<times> string) list"

definition zone_round :: "zone_op api \<times> poll_wake \<Rightarrow> poll_round" where
  "zone_round r =
     (case fst r of
        Inl e \<Rightarrow>
          if IsTransientComputeError e
          then \<lparr>pr_observation = ''transient operation read: '' @ api_text e, pr_done = False, pr_err = None, pr_wake = snd r\<rparr>
          else \<lparr>pr_observation = [], pr_done = False, pr_err = Some (as_go e), pr_wake = snd r\<rparr>
      | Inr op \<Rightarrow>
          if zo_status op \<noteq> ''DONE''
          then \<lparr>pr_observation = ''status='' @ zo_status op @ '' progress='' @ show_int (zo_progress op), pr_done = False, pr_err = None, pr_wake = snd r\<rparr>
          else \<lparr>pr_observation = ''status=DONE'', pr_done = True, pr_err = None, pr_wake = snd r\<rparr>)"

text \<open>The operation that was done; the reads after it are never made.\<close>

fun completed_op :: "(zone_op api \<times> poll_wake) list \<Rightarrow> zone_op option" where
  "completed_op [] = None"
| "completed_op ((Inr op, w) # rs) = (if zo_status op = ''DONE'' then Some op else completed_op rs)"
| "completed_op ((Inl e, w) # rs) = completed_op rs"

definition poll_error :: "(int \<Rightarrow> string) \<Rightarrow> poll_end \<Rightarrow> go_error option" where
  "poll_error sd res = (case res of PollDone \<Rightarrow> None | PollFailed e \<Rightarrow> Some e | PollStopped we \<Rightarrow> Some (ErrMsg (wait_error_text sd we)))"

definition waitZoneOperation :: "(int \<Rightarrow> string) \<Rightarrow> int \<Rightarrow> string \<Rightarrow> int \<Rightarrow> (zone_op api \<times> poll_wake) list \<Rightarrow> go_error option option" where
  "waitZoneOperation sd interval name elapsed reads =
     (case PollUntil interval (''zonal operation '' @ name) elapsed (map zone_round reads) of
        None \<Rightarrow> None
      | Some res \<Rightarrow>
          (case poll_error sd res of
             Some e \<Rightarrow> Some (Some e)
           | None \<Rightarrow>
               (case completed_op reads of
                  None \<Rightarrow> Some None
                | Some op \<Rightarrow>
                    if zo_errors op = [] then Some None
                    else Some (Some (ErrMsg (''operation '' @ name @ '' failed: ''
                           @ join ''; '' (map (\<lambda>(code, m). code @ '': '' @ m) (zo_errors op))))))))"

record long_op =
  lo_done :: bool
  lo_error :: "(string \<times> int) option"

definition assignment_round :: "long_op api \<times> poll_wake \<Rightarrow> poll_round" where
  "assignment_round r =
     (case fst r of
        Inl e \<Rightarrow>
          if IsTransientComputeError e
          then \<lparr>pr_observation = ''transient operation read: '' @ api_text e, pr_done = False, pr_err = None, pr_wake = snd r\<rparr>
          else \<lparr>pr_observation = [], pr_done = False, pr_err = Some (as_go e), pr_wake = snd r\<rparr>
      | Inr op \<Rightarrow>
          if \<not> lo_done op then \<lparr>pr_observation = ''status=RUNNING'', pr_done = False, pr_err = None, pr_wake = snd r\<rparr>
          else (case lo_error op of
              Some (m, code) \<Rightarrow> \<lparr>pr_observation = [], pr_done = False,
                pr_err = Some (ErrMsg (''operation failed: '' @ m @ '' (code '' @ show_int code @ '')'')), pr_wake = snd r\<rparr>
            | None \<Rightarrow> \<lparr>pr_observation = ''status=DONE'', pr_done = True, pr_err = None, pr_wake = snd r\<rparr>))"

definition waitOSPolicyAssignmentOperation :: "(int \<Rightarrow> string) \<Rightarrow> int \<Rightarrow> string \<Rightarrow> int \<Rightarrow> (long_op api \<times> poll_wake) list \<Rightarrow> go_error option option" where
  "waitOSPolicyAssignmentOperation sd interval name elapsed reads =
     map_option (poll_error sd) (PollUntil interval (''os policy assignment operation '' @ name) elapsed (map assignment_round reads))"

section \<open>Machines\<close>

record vm =
  vm_project :: string
  vm_zone :: string
  vm_name :: string
  vm_id :: nat

record vm_request =
  vq_project :: string
  vq_zone :: string
  vq_name :: string
  vq_image :: string
  vq_machine_type :: string
  vq_network :: string
  vq_subnetwork :: string
  vq_service_account :: string
  vq_metadata :: "(string \<times> string) list"
  vq_labels :: "(string \<times> string) list"

record instance_request =
  iq_name :: string
  iq_machine_type :: string
  iq_labels :: "(string \<times> string) list"
  iq_metadata :: "(string \<times> string) list"
  iq_network :: "string option"
  iq_subnetwork :: "string option"
  iq_source_image :: string
  iq_auto_delete :: bool
  iq_email :: string

definition instance_of :: "vm_request \<Rightarrow> instance_request" where
  "instance_of q =
     \<lparr>iq_name = vq_name q, iq_machine_type = ''zones/'' @ vq_zone q @ ''/machineTypes/'' @ vq_machine_type q, iq_labels = vq_labels q,
      iq_metadata = vq_metadata q, iq_network = (if vq_network q \<noteq> [] then Some (vq_network q) else None),
      iq_subnetwork = (if vq_subnetwork q \<noteq> [] then Some (vq_subnetwork q) else None), iq_source_image = vq_image q,
      iq_auto_delete = True, iq_email = vq_service_account q\<rparr>"

definition CreateVM :: "(int \<Rightarrow> string) \<Rightarrow> int \<Rightarrow> (instance_request \<Rightarrow> string api) \<Rightarrow> (string \<Rightarrow> (zone_op api \<times> poll_wake) list) \<Rightarrow> int \<Rightarrow> nat api
    \<Rightarrow> vm_request \<Rightarrow> vm res option" where
  "CreateVM sd interval insert_call op_reads elapsed get_call q =
     (case insert_call (instance_of q) of
        Inl e \<Rightarrow> Some (Inl (ErrWrap (''insert instance '' @ vq_project q @ ''/'' @ vq_zone q @ ''/'' @ vq_name q) (as_go e)))
      | Inr op \<Rightarrow>
          (case waitZoneOperation sd interval op elapsed (op_reads op) of
             None \<Rightarrow> None
           | Some (Some e) \<Rightarrow> Some (Inl (ErrWrap (''create instance '' @ vq_name q) e))
           | Some None \<Rightarrow>
               (case get_call of
                  Inl e \<Rightarrow> Some (Inl (ErrWrap (''get created instance '' @ vq_name q) (as_go e)))
                | Inr i \<Rightarrow> Some (Inr \<lparr>vm_project = vq_project q, vm_zone = vq_zone q, vm_name = vq_name q, vm_id = i\<rparr>))))"

text \<open>A machine that is gone already counts as deleted.\<close>

definition DeleteVM :: "(int \<Rightarrow> string) \<Rightarrow> int \<Rightarrow> string api \<Rightarrow> (string \<Rightarrow> (zone_op api \<times> poll_wake) list) \<Rightarrow> int \<Rightarrow> string \<Rightarrow> string \<Rightarrow> string
    \<Rightarrow> go_error option option" where
  "DeleteVM sd interval delete_call op_reads elapsed project zone name =
     (case delete_call of
        Inl e \<Rightarrow>
          if IsNotFound e then Some None
          else Some (Some (ErrWrap (''delete instance '' @ project @ ''/'' @ zone @ ''/'' @ name) (as_go e)))
      | Inr op \<Rightarrow>
          map_option (map_option (ErrWrap (''wait for instance '' @ name @ '' deletion''))) (waitZoneOperation sd interval op elapsed (op_reads op)))"

section \<open>Policies, patch jobs, inventory\<close>

definition wrap_api :: "string \<Rightarrow> 'a api \<Rightarrow> 'a api" where
  "wrap_api m r = (case r of Inl e \<Rightarrow> Inl (WrapError m e) | Inr a \<Rightarrow> Inr a)"

definition inventory_name :: "string \<Rightarrow> string \<Rightarrow> string \<Rightarrow> string" where
  "inventory_name project zone inst = ''projects/'' @ project @ ''/locations/'' @ zone @ ''/instances/'' @ inst @ ''/inventory''"

definition GetInventory :: "(string \<Rightarrow> string option \<Rightarrow> 'i api) \<Rightarrow> string \<Rightarrow> string \<Rightarrow> string \<Rightarrow> string \<Rightarrow> 'i api" where
  "GetInventory call project zone inst view = call (inventory_name project zone inst) (if view \<noteq> [] then Some view else None)"

definition SerialOutput :: "string api \<Rightarrow> string \<Rightarrow> string api" where
  "SerialOutput call name = wrap_api (''get serial output for '' @ name) call"

definition ExecutePatchJob :: "(string \<Rightarrow> 'j api) \<Rightarrow> string \<Rightarrow> 'j api" where
  "ExecutePatchJob call project = wrap_api (''failed to execute patch job in '' @ project) (call (''projects/'' @ project))"

definition GetPatchJob :: "(string \<Rightarrow> 'j api) \<Rightarrow> string \<Rightarrow> 'j api" where
  "GetPatchJob call name = wrap_api (''failed to get patch job '' @ name) (call name)"

text \<open>Page after page; an error drops what was collected.\<close>

fun list_pages :: "'d list api list \<Rightarrow> 'd list \<Rightarrow> 'd list api" where
  "list_pages [] details = Inr details"
| "list_pages (Inl e # ps) details = Inl e"
| "list_pages (Inr page # ps) details = list_pages ps (details @ page)"

definition ListPatchJobInstanceDetails :: "'d list api list \<Rightarrow> string \<Rightarrow> 'd list api" where
  "ListPatchJobInstanceDetails pages parent = wrap_api (''failed to list patch job instance details for '' @ parent) (list_pages pages [])"

text \<open>The semaphore, a number of permits and of holders, is given back on every path.\<close>

definition CreateGuestPolicy :: "api_error option \<Rightarrow> (nat \<Rightarrow> string \<Rightarrow> 'p api \<times> nat) \<Rightarrow> string \<Rightarrow> string \<Rightarrow> nat \<Rightarrow> 'p api \<times> nat" where
  "CreateGuestPolicy acquire call project policyID in_use =
     (case acquire of
        Some e \<Rightarrow> (Inl (WrapError ''failed to acquire guest policy semaphore'' e), in_use)
      | None \<Rightarrow>
          (case call (in_use + 1) (''projects/'' @ project) of
             (r, n) \<Rightarrow> (wrap_api (''failed to create guest policy '' @ policyID @ '' in projects/'' @ project) r, n - 1)))"

definition DeleteGuestPolicy :: "unit api \<Rightarrow> string \<Rightarrow> api_error option" where
  "DeleteGuestPolicy call name = (case call of Inl e \<Rightarrow> Some (WrapError (''failed to delete guest policy '' @ name) e) | Inr _ \<Rightarrow> None)"

text \<open>An assignment whose creation could not be waited for is cancelled: the second part of the result.\<close>

definition CreateOSPolicyAssignment :: "(int \<Rightarrow> string) \<Rightarrow> int \<Rightarrow> string api \<Rightarrow> (string \<Rightarrow> (long_op api \<times> poll_wake) list) \<Rightarrow> int \<Rightarrow> string \<Rightarrow> string \<Rightarrow> string
    \<Rightarrow> (go_error option \<times> string list) option" where
  "CreateOSPolicyAssignment sd interval create_call op_reads elapsed project zone assignmentID =
     (case create_call of
        Inl e \<Rightarrow> Some (Some (ErrWrap (''failed to create os policy assignment '' @ assignmentID @ '' in projects/'' @ project @ ''/locations/'' @ zone) (as_go e)), [])
      | Inr op \<Rightarrow>
          (case waitOSPolicyAssignmentOperation sd interval op elapsed (op_reads op) of
             None \<Rightarrow> None
           | Some (Some e) \<Rightarrow> Some (Some (ErrWrap (''failed to wait for os policy assignment '' @ assignmentID @ '' creation'') e), [op])
           | Some None \<Rightarrow> Some (None, [])))"

definition DeleteOSPolicyAssignment :: "(int \<Rightarrow> string) \<Rightarrow> int \<Rightarrow> string api \<Rightarrow> (string \<Rightarrow> (long_op api \<times> poll_wake) list) \<Rightarrow> int \<Rightarrow> string
    \<Rightarrow> go_error option option" where
  "DeleteOSPolicyAssignment sd interval delete_call op_reads elapsed name =
     (case delete_call of
        Inl e \<Rightarrow> if IsNotFound e then Some None else Some (Some (ErrWrap (''failed to delete os policy assignment '' @ name) (as_go e)))
      | Inr op \<Rightarrow>
          map_option (map_option (ErrWrap (''failed to wait for os policy assignment '' @ name @ '' deletion'')))
            (waitOSPolicyAssignmentOperation sd interval op elapsed (op_reads op)))"

definition report_name :: "string \<Rightarrow> string \<Rightarrow> string \<Rightarrow> string \<Rightarrow> string" where
  "report_name project zone inst assignmentID =
     ''projects/'' @ project @ ''/locations/'' @ zone @ ''/instances/'' @ inst @ ''/osPolicyAssignments/'' @ assignmentID @ ''/report''"

definition GetOSPolicyAssignmentReport :: "(string \<Rightarrow> 'r api) \<Rightarrow> string \<Rightarrow> string \<Rightarrow> string \<Rightarrow> string \<Rightarrow> 'r api" where
  "GetOSPolicyAssignmentReport call project zone inst assignmentID =
     (let name = report_name project zone inst assignmentID in wrap_api (''failed to get os policy assignment report '' @ name) (call name))"

section \<open>What the calls mean\<close>

lemma wrap_api_kind [simp]: "api_root (WrapError m e) = api_root e"
  by simp

text \<open>A wrapped error is still recognised: the checks that wait for a report or a job rely on it.\<close>

lemma wrapped_status:
  "wrap_api m r = Inl e \<Longrightarrow> \<exists>e0. r = Inl e0 \<and> IsNotFound e = IsNotFound e0 \<and> IsTransientComputeError e = IsTransientComputeError e0"
  by (auto simp: wrap_api_def IsNotFound_def isHTTPStatus_def IsTransientComputeError_def split: sum.splits)

lemma zone_round_done:
  "goes_on (zone_round r) \<Longrightarrow> (\<exists>op. fst r = Inr op \<and> zo_status op \<noteq> ''DONE'') \<or> (\<exists>e. fst r = Inl e \<and> IsTransientComputeError e)"
  by (auto simp: zone_round_def goes_on_def split: sum.splits if_splits)

lemma completed_after_waits:
  "list_all goes_on (map zone_round rs) \<Longrightarrow> completed_op (rs @ (Inr op, w) # rest) = (if zo_status op = ''DONE'' then Some op else completed_op rest)"
proof (induction rs)
  case (Cons r rs)
  then have "completed_op ((r # rs) @ (Inr op, w) # rest) = completed_op (rs @ (Inr op, w) # rest)"
    using zone_round_done [of r] by (cases r; cases "fst r") auto
  then show ?case using Cons by simp
qed simp

text \<open>A creation is reported as a success only when its operation was read as done and without errors, after reads that all were
  transient failures or an operation in progress.\<close>

lemma waitZoneOperation_ok:
  assumes "waitZoneOperation sd interval name el reads = Some None" "0 < interval"
  shows "\<exists>before op w after. reads = before @ (Inr op, w) # after \<and> zo_status op = ''DONE'' \<and> zo_errors op = [] \<and>
    list_all goes_on (map zone_round before)"
proof -
  obtain res where res: "PollUntil interval (''zonal operation '' @ name) el (map zone_round reads) = Some res" "poll_error sd res = None"
    using assms(1) by (auto simp: waitZoneOperation_def split: option.splits)
  then have "res = PollDone" by (cases res) (auto simp: poll_error_def)
  with PollUntil_end [OF res(1) assms(2)] obtain b r a where w: "map zone_round reads = b @ r # a" "list_all goes_on b" "pr_done r" "pr_err r = None"
    by auto
  obtain before r0 after where m: "reads = before @ r0 # after" "map zone_round before = b" "zone_round r0 = r"
    using w(1) by (auto simp: map_eq_append_conv map_eq_Cons_conv)
  obtain op where op: "fst r0 = Inr op" "zo_status op = ''DONE''"
    using w(3,4) m(3) by (auto simp: zone_round_def split: sum.splits if_splits)
  have r0: "r0 = (Inr op, snd r0)" using op(1) by (metis prod.collapse)
  have "completed_op reads = Some op"
    unfolding m(1) by (subst r0, subst completed_after_waits) (use w(2) m(2) op(2) in simp_all)
  with assms(1) res \<open>res = PollDone\<close> have "zo_errors op = []"
    by (simp add: waitZoneOperation_def poll_error_def split: if_splits)
  then show ?thesis using m(1,2) r0 op(2) w(2) by metis
qed

lemma CreateVM_ok:
  assumes "CreateVM sd interval ins reads el got q = Some (Inr v)" "0 < interval"
  shows "vm_name v = vq_name q \<and> (\<exists>op. ins (instance_of q) = Inr op \<and> waitZoneOperation sd interval op el (reads op) = Some None) \<and> got = Inr (vm_id v)"
  using assms(1) by (auto simp: CreateVM_def split: sum.splits option.splits)

text \<open>The semaphore is given back, if the call itself leaves it alone.\<close>

lemma CreateGuestPolicy_releases:
  assumes "\<And>n p. snd (call n p) = n"
  shows "snd (CreateGuestPolicy acquire call project policyID in_use) = in_use"
proof (cases acquire)
  case None
  obtain r n where c: "call (in_use + 1) (''projects/'' @ project) = (r, n)" by (meson surj_pair)
  then have "n = in_use + 1" using assms by (metis snd_conv)
  then show ?thesis using None c by (simp add: CreateGuestPolicy_def)
qed (simp add: CreateGuestPolicy_def)

section \<open>startup.go\<close>

text \<open>A script is its lines; the places of the two bootstrap scripts are marked.\<close>

definition script :: "string list \<Rightarrow> string \<Rightarrow> string list \<Rightarrow> string \<Rightarrow> string list \<Rightarrow> string" where
  "script head pre middle post end_lines =
     concat (map (\<lambda>l. l @ [CHR 0x0A]) head) @ pre @ [CHR 0x0A] @ concat (map (\<lambda>l. l @ [CHR 0x0A]) middle) @ post @ [CHR 0x0A]
     @ concat (map (\<lambda>l. l @ [CHR 0x0A]) end_lines)"

definition linux_head :: "string list" where
  "linux_head = [''#!/bin/bash'', ''if [ -f /var/lib/google/osconfig_e2e_bootstrapped ]; then'', ''  exit 0'', ''fi'']"

definition linux_end :: "string list" where
  "linux_end = [''mkdir -p /var/lib/google'', ''touch /var/lib/google/osconfig_e2e_bootstrapped'']"

definition have_agent :: string where
  "have_agent = ''which google_osconfig_agent >/dev/null 2>&1 || which google-osconfig-agent >/dev/null 2>&1 || {''"

definition start_agent :: "string list" where
  "start_agent = [''systemctl daemon-reload'', ''if ! systemctl is-active --quiet google-osconfig-agent; then'',
     ''  systemctl enable --now google-osconfig-agent || true'', ''fi'']"

definition DebianStartupScript :: "string \<Rightarrow> string \<Rightarrow> string" where
  "DebianStartupScript pre post =
     script linux_head pre ([have_agent, ''  apt-get update'', ''  apt-get install -y google-osconfig-agent'', ''}''] @ start_agent) post linux_end"

definition RHELStartupScript :: "string \<Rightarrow> string \<Rightarrow> string" where
  "RHELStartupScript pre post =
     script linux_head pre
       ([have_agent,
         ''  sed -i 's/repo_gpgcheck=1/repo_gpgcheck=0/g' /etc/yum.repos.d/google-cloud.repo 2>/dev/null || true'',
         ''  dnf install -y --nogpgcheck google-osconfig-agent || yum install -y --nogpgcheck google-osconfig-agent'', ''}''] @ start_agent)
       post linux_end"

definition SUSEStartupScript :: "string \<Rightarrow> string \<Rightarrow> string" where
  "SUSEStartupScript pre post =
     script linux_head pre
       ([have_agent,
         ''  zypper --no-refresh -n -i --no-gpg-checks install google-osconfig-agent || zypper -n -i --no-gpg-checks install google-osconfig-agent'',
         ''}''] @ start_agent)
       post linux_end"

definition COSStartupScript :: "string \<Rightarrow> string \<Rightarrow> string" where
  "COSStartupScript pre post =
     script linux_head pre
       [''if ! systemctl is-active --quiet google-osconfig-agent; then'', ''  systemctl start google-osconfig-agent || true'', ''fi'']
       post linux_end"

definition WindowsStartupScript :: "string \<Rightarrow> string \<Rightarrow> string" where
  "WindowsStartupScript pre post =
     (let q = [CHR 0x27]; google = join [CHR 0x5C] [''C:'', ''ProgramData'', ''Google''] in
      script
        [''$marker = '' @ q @ google @ [CHR 0x5C] @ ''osconfig_e2e_bootstrapped'' @ q, ''if (Test-Path $marker) {'', ''    exit 0'', ''}'']
        pre
        [''$svc = Get-Service google_osconfig_agent -ErrorAction SilentlyContinue'',
         ''if ($svc -and $svc.Status -ne '' @ q @ ''Running'' @ q @ '') {'',
         ''    Start-Service google_osconfig_agent -ErrorAction SilentlyContinue'', ''}'']
        post
        [''New-Item -ItemType Directory -Force -Path '' @ q @ google @ q @ '' | Out-Null'',
         ''New-Item -ItemType File -Force -Path $marker | Out-Null''])"

definition MetadataKeyLinuxStartupScript :: string where "MetadataKeyLinuxStartupScript = ''startup-script''"
definition MetadataKeyWindowsStartupScript :: string where "MetadataKeyWindowsStartupScript = ''windows-startup-script-ps1''"

definition StartupScript :: "string \<Rightarrow> string \<Rightarrow> string \<Rightarrow> string \<times> string" where
  "StartupScript img pre post =
     (let has = (\<lambda>s. contains_str (to_lower img) s) in
      if has ''windows'' then (MetadataKeyWindowsStartupScript, WindowsStartupScript pre post)
      else if has ''cos'' then (MetadataKeyLinuxStartupScript, COSStartupScript pre post)
      else if has ''suse'' \<or> has ''sles'' \<or> has ''opensuse'' then (MetadataKeyLinuxStartupScript, SUSEStartupScript pre post)
      else if has ''rhel'' \<or> has ''centos'' \<or> has ''rocky'' \<or> has ''fedora'' then (MetadataKeyLinuxStartupScript, RHELStartupScript pre post)
      else (MetadataKeyLinuxStartupScript, DebianStartupScript pre post))"

definition DefaultStartupScript :: "string \<Rightarrow> string \<times> string" where
  "DefaultStartupScript img = StartupScript img [] []"

text \<open>The script goes under the key of the system of the image, and it holds both bootstrap scripts, the first before the second.\<close>

lemma StartupScript_key:
  "fst (StartupScript img pre post) =
     (if contains_str (to_lower img) ''windows'' then MetadataKeyWindowsStartupScript else MetadataKeyLinuxStartupScript)"
  by (simp add: StartupScript_def Let_def)

lemma script_holds: "\<exists>a b c. script head pre middle post end_lines = a @ pre @ b @ post @ c"
  unfolding script_def by (metis append.assoc)

definition holds_both :: "string \<Rightarrow> string \<Rightarrow> string \<Rightarrow> bool" where
  "holds_both pre post s \<longleftrightarrow> (\<exists>a b c. s = a @ pre @ b @ post @ c)"

lemma scripts_hold:
  "holds_both pre post (DebianStartupScript pre post)" "holds_both pre post (RHELStartupScript pre post)"
  "holds_both pre post (SUSEStartupScript pre post)" "holds_both pre post (COSStartupScript pre post)"
  "holds_both pre post (WindowsStartupScript pre post)"
  unfolding DebianStartupScript_def RHELStartupScript_def SUSEStartupScript_def COSStartupScript_def WindowsStartupScript_def Let_def holds_both_def
  by (rule script_holds)+

lemma StartupScript_holds: "holds_both pre post (snd (StartupScript img pre post))"
  by (simp add: StartupScript_def Let_def scripts_hold)

end
