(* ===== verification/TestEnv.thy ===== *)
theory TestEnv
  imports TestCloud PkgParse
begin

text \<open>
  The environment of an end to end test (\<open>e2e_tests_v2/internal/testenv/testenv.go\<close>): the packages of a reported inventory,
  the conditions that tests wait for, the names of the cloud resources and the life of one test.

  \<^item> A pointer to a package may be nil: the lists hold options. The inventory of the API is a list of its items, since Go goes through
    the map in any order.
  \<^item> A condition that is waited for is the function from one answer of the API to one round of \<open>PollUntil\<close>.
  \<^item> Texts are ASCII, as the names of tests and runs are.
\<close>

section \<open>Packages\<close>

record package_info =
  pn_name :: string
  pn_arch :: string
  pn_version :: string

record installed_packages =
  ip_yum :: "package_info option list"
  ip_rpm :: "package_info option list"
  ip_apt :: "package_info option list"
  ip_deb :: "package_info option list"
  ip_zypper :: "package_info option list"
  ip_cos :: "package_info option list"
  ip_gem :: "package_info option list"
  ip_pip :: "package_info option list"
  ip_googet :: "package_info option list"
  ip_wua :: "string list"
  ip_qfe :: "string list"

definition no_installed :: installed_packages where
  "no_installed = \<lparr>ip_yum = [], ip_rpm = [], ip_apt = [], ip_deb = [], ip_zypper = [], ip_cos = [], ip_gem = [], ip_pip = [],
     ip_googet = [], ip_wua = [], ip_qfe = []\<rparr>"

definition os_types :: "installed_packages \<Rightarrow> string list" where
  "os_types p =
     (if ip_deb p \<noteq> [] \<or> ip_apt p \<noteq> [] then [''deb''] else []) @ (if ip_rpm p \<noteq> [] \<or> ip_yum p \<noteq> [] then [''rpm''] else [])
     @ (if ip_zypper p \<noteq> [] then [''zypper''] else []) @ (if ip_cos p \<noteq> [] then [''cos''] else [])
     @ (if ip_googet p \<noteq> [] then [''googet''] else []) @ (if ip_wua p \<noteq> [] then [''wua''] else [])
     @ (if ip_qfe p \<noteq> [] then [''qfe''] else [])"

definition test_sorted :: "string list \<Rightarrow> string list" where "test_sorted xs = foldr insert_string xs []"

definition OSPackageTypes :: "installed_packages option \<Rightarrow> string list" where
  "OSPackageTypes pkgs = (case pkgs of None \<Rightarrow> [] | Some p \<Rightarrow> test_sorted (os_types p))"

definition PackageTypes_of :: "installed_packages option \<Rightarrow> string list" where
  "PackageTypes_of pkgs =
     (case pkgs of
        None \<Rightarrow> []
      | Some p \<Rightarrow> test_sorted (os_types p @ (if ip_pip p \<noteq> [] then [''pip''] else []) @ (if ip_gem p \<noteq> [] then [''gem''] else [])))"

definition names_of :: "package_info option list \<Rightarrow> string list" where
  "names_of ps = concat (map (\<lambda>p. case p of None \<Rightarrow> [] | Some i \<Rightarrow> if pn_name i \<noteq> [] then [pn_name i] else []) ps)"

definition AllPackageNames :: "installed_packages option \<Rightarrow> string list" where
  "AllPackageNames pkgs =
     (case pkgs of
        None \<Rightarrow> []
      | Some p \<Rightarrow> names_of (ip_deb p) @ names_of (ip_apt p) @ names_of (ip_rpm p) @ names_of (ip_yum p) @ names_of (ip_zypper p)
                 @ names_of (ip_cos p) @ names_of (ip_googet p) @ names_of (ip_pip p) @ names_of (ip_gem p))"

definition package_key :: "string \<Rightarrow> string" where "package_key n = to_lower (trim_space n)"

definition HasPackages :: "installed_packages option \<Rightarrow> string list \<Rightarrow> bool" where
  "HasPackages pkgs names =
     (case pkgs of None \<Rightarrow> False | Some p \<Rightarrow> list_all (\<lambda>n. package_key n \<in> set (map package_key (AllPackageNames pkgs))) names)"

definition HasPackage :: "installed_packages option \<Rightarrow> string \<Rightarrow> bool" where
  "HasPackage pkgs n = HasPackages pkgs [n]"

definition manager_packages :: "installed_packages \<Rightarrow> string \<Rightarrow> package_info option list" where
  "manager_packages p manager =
     (let m = to_lower (trim_space manager) in
      if m = ''deb'' then ip_deb p @ ip_apt p else if m = ''rpm'' then ip_rpm p @ ip_yum p else if m = ''zypper'' then ip_zypper p
      else if m = ''cos'' then ip_cos p else if m = ''googet'' then ip_googet p else if m = ''pip'' then ip_pip p
      else if m = ''gem'' then ip_gem p else [])"

definition HasPackageIn :: "installed_packages option \<Rightarrow> string \<Rightarrow> string \<Rightarrow> bool" where
  "HasPackageIn pkgs manager name =
     (case pkgs of
        None \<Rightarrow> False
      | Some p \<Rightarrow> list_ex (\<lambda>q. case q of None \<Rightarrow> False | Some i \<Rightarrow> package_key (pn_name i) = package_key name) (manager_packages p manager))"

definition HasQFE :: "installed_packages option \<Rightarrow> bool" where
  "HasQFE pkgs = (case pkgs of None \<Rightarrow> False | Some p \<Rightarrow> ip_qfe p \<noteq> [])"

definition HasWUA :: "installed_packages option \<Rightarrow> bool" where
  "HasWUA pkgs = (case pkgs of None \<Rightarrow> False | Some p \<Rightarrow> ip_wua p \<noteq> [])"

text \<open>An item of the inventory of the API: the package that it says is installed or available, in one of the kinds.\<close>

record api_package =
  ap_apt :: "package_info option"
  ap_yum :: "package_info option"
  ap_zypper :: "package_info option"
  ap_cos :: "package_info option"
  ap_googet :: "package_info option"
  ap_wua :: "string option"
  ap_qfe :: "string option"

record api_item =
  ai_installed :: "api_package option"
  ai_available :: "api_package option"

record api_inventory =
  av_hostname :: "string option"
  av_short_name :: string
  av_items :: "api_item list"

definition listed :: "'a option \<Rightarrow> 'a option list" where "listed x = (case x of None \<Rightarrow> [] | Some a \<Rightarrow> [Some a])"
definition listed_text :: "string option \<Rightarrow> string list" where "listed_text x = (case x of None \<Rightarrow> [] | Some a \<Rightarrow> [a])"

definition add_api_package :: "api_package option \<Rightarrow> installed_packages \<Rightarrow> installed_packages" where
  "add_api_package a p =
     (case a of
        None \<Rightarrow> p
      | Some k \<Rightarrow> p\<lparr>ip_deb := ip_deb p @ listed (ap_apt k), ip_rpm := ip_rpm p @ listed (ap_yum k), ip_zypper := ip_zypper p @ listed (ap_zypper k),
          ip_cos := ip_cos p @ listed (ap_cos k), ip_googet := ip_googet p @ listed (ap_googet k),
          ip_wua := ip_wua p @ listed_text (ap_wua k), ip_qfe := ip_qfe p @ listed_text (ap_qfe k)\<rparr>)"

definition ExtractInstalledPackages :: "api_inventory option \<Rightarrow> installed_packages option" where
  "ExtractInstalledPackages i0 = map_option (\<lambda>i. fold (\<lambda>it. add_api_package (ai_installed it)) (av_items i) no_installed) i0"

definition ExtractAvailablePackages :: "api_inventory option \<Rightarrow> installed_packages option" where
  "ExtractAvailablePackages i0 = map_option (\<lambda>i. fold (\<lambda>it. add_api_package (ai_available it)) (av_items i) no_installed) i0"

text \<open>The steps of decoding the guest attribute; the decoders are arguments.\<close>

definition DecodePackages :: "(string \<Rightarrow> string res) \<Rightarrow> (string \<Rightarrow> string res) \<Rightarrow> (string \<Rightarrow> string res) \<Rightarrow> (string \<Rightarrow> installed_packages res) \<Rightarrow> string
    \<Rightarrow> installed_packages res" where
  "DecodePackages b64 gz_open gz_read unmarshal encoded =
     (if trim_space encoded = [] then Inl (ErrMsg ''package data attribute is empty'')
      else (case b64 encoded of Inl e \<Rightarrow> Inl (ErrWrap ''base64 decode'' e)
        | Inr d \<Rightarrow> (case gz_open d of Inl e \<Rightarrow> Inl (ErrWrap ''gzip reader'' e)
          | Inr z \<Rightarrow> (case gz_read z of Inl e \<Rightarrow> Inl (ErrWrap ''decompress'' e)
            | Inr j \<Rightarrow> (case unmarshal j of Inl e \<Rightarrow> Inl (ErrWrap ''unmarshal JSON'' e) | Inr p \<Rightarrow> Inr p)))))"

section \<open>What the tests see of the packages\<close>

definition api_names :: "api_package option \<Rightarrow> string list" where
  "api_names a =
     (case a of None \<Rightarrow> []
      | Some k \<Rightarrow> names_of (listed (ap_apt k)) @ names_of (listed (ap_yum k)) @ names_of (listed (ap_zypper k)) @ names_of (listed (ap_cos k))
                 @ names_of (listed (ap_googet k)))"

lemma names_of_simps [simp]: "names_of [] = []" "names_of (xs @ ys) = names_of xs @ names_of ys"
  by (simp_all add: names_of_def)

lemma names_add: "set (AllPackageNames (Some (add_api_package a p))) = set (AllPackageNames (Some p)) \<union> set (api_names a)"
  by (cases a) (auto simp: AllPackageNames_def add_api_package_def api_names_def)

lemma extracted_names:
  "set (AllPackageNames (ExtractInstalledPackages (Some i))) = (\<Union>it \<in> set (av_items i). set (api_names (ai_installed it)))"
proof -
  have add: "set (AllPackageNames (Some (fold (\<lambda>it. add_api_package (ai_installed it)) its p))) =
      set (AllPackageNames (Some p)) \<union> (\<Union>it \<in> set its. set (api_names (ai_installed it)))" for its p
    by (induction its arbitrary: p) (auto simp: names_add)
  have none: "set (AllPackageNames (Some no_installed)) = {}" by (simp add: AllPackageNames_def no_installed_def)
  show ?thesis by (simp only: ExtractInstalledPackages_def option.map add none Un_empty_left)
qed

text \<open>A package counts as installed exactly if some item of the inventory lists it as installed, in any letter case; the order of the
  items does not matter.\<close>

lemma HasPackage_iff:
  "HasPackage (ExtractInstalledPackages (Some i)) n \<longleftrightarrow>
     (\<exists>it \<in> set (av_items i). \<exists>m \<in> set (api_names (ai_installed it)). package_key m = package_key n)"
proof -
  have "HasPackage (Some p) n \<longleftrightarrow> (\<exists>m \<in> set (AllPackageNames (Some p)). package_key m = package_key n)" for p
    by (simp add: HasPackage_def HasPackages_def image_iff eq_commute [of "package_key n"])
  moreover obtain p where p: "ExtractInstalledPackages (Some i) = Some p" by (simp add: ExtractInstalledPackages_def)
  ultimately show ?thesis using extracted_names [of i] by auto
qed

section \<open>Names of resources\<close>

definition safe_char :: "char \<Rightarrow> bool" where
  "safe_char c \<longleftrightarrow> (let n = of_char c :: nat in (97 \<le> n \<and> n \<le> 122) \<or> (48 \<le> n \<and> n \<le> 57) \<or> c = CHR ''-'')"

text \<open>Each run of other characters becomes one hyphen.\<close>

fun replace_unsafe :: "bool \<Rightarrow> string \<Rightarrow> string" where
  "replace_unsafe in_run [] = []"
| "replace_unsafe in_run (c # cs) =
     (if safe_char c then c # replace_unsafe False cs
      else (if in_run then [] else ''-'') @ replace_unsafe True cs)"

definition labelValue :: "string \<Rightarrow> string" where
  "labelValue value =
     (let v = trim ''-'' (replace_unsafe False (to_lower value)); v1 = (if v = [] then ''unknown'' else v) in
      if 63 < length v1 then trim ''-'' (take 63 v1) else v1)"

definition resourceName :: "string \<Rightarrow> string \<Rightarrow> string \<Rightarrow> string" where
  "resourceName runID testName attempt =
     (let base = labelValue (''inv-'' @ runID @ ''-'' @ testName);
          base1 = (if 53 < length base then trim ''-'' (take 53 base) else base) in
      trim ''-'' (base1 @ ''-'' @ attempt))"

lemma replace_unsafe_safe: "list_all safe_char (replace_unsafe b s)"
  by (induction b s rule: replace_unsafe.induct) (auto simp: safe_char_def Let_def)

lemma trim_dash_set: "set (trim ''-'' s) \<subseteq> set s"
  unfolding trim_def by (rule set_trim_by)

lemma trim_dash_safe: "list_all safe_char s \<Longrightarrow> list_all safe_char (trim ''-'' s)"
  using trim_dash_set by (auto simp: list_all_iff)

lemma trim_dash_length: "length (trim ''-'' s) \<le> length s"
  unfolding trim_def trim_by_def trim_left_def trim_right_def by (simp add: length_dropWhile_le order_trans [OF length_dropWhile_le])

lemma trim_dash_ends: "trim ''-'' s = [] \<or> hd (trim ''-'' s) \<noteq> CHR ''-'' \<and> last (trim ''-'' s) \<noteq> CHR ''-''"
  using trim_by_ends [of "\<lambda>c. c \<in> set ''-''" s] by (simp add: trim_def)

lemma trim_dash_keeps:
  assumes "s \<noteq> []" "hd s \<noteq> CHR ''-''"
  shows "trim ''-'' s \<noteq> []" "hd (trim ''-'' s) = hd s"
proof -
  obtain c cs where s: "s = c # cs" "c \<noteq> CHR ''-''" using assms by (cases s) auto
  have left: "trim_left (\<lambda>x. x \<in> set ''-'') s = s" using s by (simp add: trim_left_def)
  have eq: "trim ''-'' s = rev (dropWhile (\<lambda>x. x \<in> set ''-'') (rev cs @ [c]))"
    unfolding trim_def trim_by_def left trim_right_def by (simp add: s)
  have "\<exists>zs. dropWhile (\<lambda>x. x \<in> set ''-'') (rev cs @ [c]) = zs @ [c]"
  proof (cases "\<exists>x \<in> set (rev cs). x \<notin> set ''-''")
    case True
    then obtain x where "x \<in> set (rev cs)" "x \<notin> set ''-''" by blast
    then show ?thesis by (metis dropWhile_append1)
  next
    case False
    then have "dropWhile (\<lambda>x. x \<in> set ''-'') (rev cs @ [c]) = dropWhile (\<lambda>x. x \<in> set ''-'') [c]" by (intro dropWhile_append2) blast
    then show ?thesis using s(2) by simp
  qed
  then obtain zs where "trim ''-'' s = c # rev zs" using eq by auto
  then show "trim ''-'' s \<noteq> []" "hd (trim ''-'' s) = hd s" by (simp_all add: s)
qed

definition label_ok :: "string \<Rightarrow> bool" where
  "label_ok v \<longleftrightarrow> v \<noteq> [] \<and> list_all safe_char v \<and> hd v \<noteq> CHR ''-'' \<and> last v \<noteq> CHR ''-''"

lemma trim_dash_ok:
  assumes "v \<noteq> []" "list_all safe_char v" "hd v \<noteq> CHR ''-''"
  shows "label_ok (trim ''-'' v) \<and> hd (trim ''-'' v) = hd v"
  using trim_dash_keeps [OF assms(1,3)] trim_dash_ends [of v] trim_dash_safe [OF assms(2)] by (simp add: label_ok_def)

text \<open>A label is never empty, has at most 63 characters, all of them allowed, and no hyphen at its ends, whatever it is made from.\<close>

lemma take_trim_ok:
  assumes "label_ok v" "0 < n"
  shows "label_ok (trim ''-'' (take n v)) \<and> hd (trim ''-'' (take n v)) = hd v \<and> length (trim ''-'' (take n v)) \<le> n"
proof -
  have "take n v \<noteq> []" "hd (take n v) = hd v" using assms by (simp_all add: label_ok_def)
  moreover have "list_all safe_char (take n v)" using assms(1) unfolding label_ok_def list_all_iff by (meson in_set_takeD)
  moreover have "length (trim ''-'' (take n v)) \<le> n" using trim_dash_length [of "take n v"] by simp
  ultimately show ?thesis using assms(1) trim_dash_ok [of "take n v"] unfolding label_ok_def by metis
qed

lemma clip_ok: "label_ok v \<Longrightarrow> 0 < n \<Longrightarrow> label_ok (if n < length v then trim ''-'' (take n v) else v) \<and>
    hd (if n < length v then trim ''-'' (take n v) else v) = hd v \<and> length (if n < length v then trim ''-'' (take n v) else v) \<le> n"
  using take_trim_ok [of v n] by (cases "n < length v") simp_all

lemma labelValue_ok: "label_ok (labelValue value)" "length (labelValue value) \<le> 63"
proof -
  obtain v where v: "v = trim ''-'' (replace_unsafe False (to_lower value))" by blast
  obtain v1 where v1: "v1 = (if v = [] then ''unknown'' else v)" by blast
  have "label_ok v1"
  proof (cases "v = []")
    case False
    have "list_all safe_char v" unfolding v by (rule trim_dash_safe) (rule replace_unsafe_safe)
    with False trim_dash_ends [of "replace_unsafe False (to_lower value)"] show ?thesis by (simp add: label_ok_def v1 v)
  qed (simp add: v1 label_ok_def safe_char_def)
  with clip_ok [of v1 63] have "label_ok (if 63 < length v1 then trim ''-'' (take 63 v1) else v1) \<and>
      length (if 63 < length v1 then trim ''-'' (take 63 v1) else v1) \<le> 63" by simp
  moreover have "labelValue value = (if 63 < length v1 then trim ''-'' (take 63 v1) else v1)"
    by (simp only: labelValue_def Let_def v1 v)
  ultimately show "label_ok (labelValue value)" "length (labelValue value) \<le> 63" by simp_all
qed

text \<open>The name of a machine can be one of the cloud: at most 62 characters when the attempt has eight, a letter first, no hyphen last.\<close>

lemma label_of_inv: "hd (labelValue (''inv-'' @ s)) = CHR ''i''"
proof -
  have low: "to_lower (''inv-'' @ s) = ''inv-'' @ to_lower s" by (simp add: to_lower_def lower_char_def Let_def)
  obtain r where r: "replace_unsafe False (''inv-'' @ to_lower s) = ''inv-'' @ r" by (simp add: safe_char_def)
  have v: "trim ''-'' (''inv-'' @ r) \<noteq> []" "hd (trim ''-'' (''inv-'' @ r)) = CHR ''i''"
    using trim_dash_keeps [of "''inv-'' @ r"] by simp_all
  obtain v1 where v1: "v1 = trim ''-'' (''inv-'' @ r)" by blast
  have "labelValue (''inv-'' @ s) = (if 63 < length v1 then trim ''-'' (take 63 v1) else v1)"
    using v(1) by (simp only: labelValue_def Let_def low r v1 if_False)
  moreover have "label_ok v1"
    using v trim_dash_ends [of "''inv-'' @ r"] trim_dash_safe [of "''inv-'' @ r"] replace_unsafe_safe [of False "''inv-'' @ to_lower s"]
    unfolding label_ok_def v1 r by simp
  ultimately show ?thesis using clip_ok [of v1 63] v(2) v1 by auto
qed

lemma resourceName_ok:
  assumes "length attempt \<le> 8" "list_all safe_char attempt"
  shows "label_ok (resourceName runID testName attempt)" "length (resourceName runID testName attempt) \<le> 62"
    "hd (resourceName runID testName attempt) = CHR ''i''"
proof -
  obtain base where base: "base = labelValue (''inv-'' @ runID @ ''-'' @ testName)" by blast
  obtain base1 where base1: "base1 = (if 53 < length base then trim ''-'' (take 53 base) else base)" by blast
  have ok: "label_ok base1" "hd base1 = CHR ''i''" "length base1 \<le> 53"
    using clip_ok [of base 53] labelValue_ok(1) label_of_inv base base1 by auto
  have name: "resourceName runID testName attempt = trim ''-'' (base1 @ ''-'' @ attempt)"
    by (simp only: resourceName_def Let_def base base1)
  have all: "list_all safe_char (base1 @ ''-'' @ attempt)" using ok(1) assms(2) by (simp add: label_ok_def safe_char_def)
  have "base1 \<noteq> []" using ok(1) by (simp add: label_ok_def)
  then have h: "base1 @ ''-'' @ attempt \<noteq> []" "hd (base1 @ ''-'' @ attempt) = CHR ''i''" using ok(2) by simp_all
  have ne: "CHR ''i'' \<noteq> CHR ''-''" by simp
  show "label_ok (resourceName runID testName attempt)" "hd (resourceName runID testName attempt) = CHR ''i''"
    unfolding name using trim_dash_ok [OF h(1) all] h(2) ne by simp_all
  show "length (resourceName runID testName attempt) \<le> 62"
    unfolding name using trim_dash_length [of "base1 @ ''-'' @ attempt"] ok(3) assms(1) by simp
qed

end
