(* ===== verification/TestLife.thy ===== *)
theory TestLife
  imports TestEnv
begin

text \<open>
  The conditions that an end to end test waits for and the life of one test: the second half of
  \<open>e2e_tests_v2/internal/testenv/testenv.go\<close>.

  \<^item> A condition is a function from one answer of the API, and what ends the pause after it, to one round of \<open>PollUntil\<close>.
  \<^item> Clean-up functions are run by the test framework in the reverse order of their registration.
\<close>

section \<open>Conditions\<close>

definition not_yet :: "string \<Rightarrow> poll_wake \<Rightarrow> poll_round" where
  "not_yet ob wake = \<lparr>pr_observation = ob, pr_done = False, pr_err = None, pr_wake = wake\<rparr>"

definition reached :: "string \<Rightarrow> poll_wake \<Rightarrow> poll_round" where
  "reached ob wake = \<lparr>pr_observation = ob, pr_done = True, pr_err = None, pr_wake = wake\<rparr>"

definition broken :: "go_error \<Rightarrow> poll_wake \<Rightarrow> poll_round" where
  "broken e wake = \<lparr>pr_observation = [], pr_done = False, pr_err = Some e, pr_wake = wake\<rparr>"

lemmas round_kinds = not_yet_def reached_def broken_def

text \<open>An error that waiting may cure: the thing is not there yet, or the service has a passing problem.\<close>

definition retry_read :: "string \<Rightarrow> string \<Rightarrow> api_error \<Rightarrow> poll_wake \<Rightarrow> poll_round" where
  "retry_read waiting failing e wake =
     (if IsNotFound e \<or> IsTransientComputeError e then not_yet (waiting @ '' ('' @ api_text e @ '')'') wake
      else broken (ErrWrap failing (as_go e)) wake)"

definition inventory_round :: "api_inventory option api \<times> poll_wake \<Rightarrow> poll_round" where
  "inventory_round r =
     (case fst r of
        Inl e \<Rightarrow> retry_read ''inventory not yet published'' ''failed to read inventory'' e (snd r)
      | Inr None \<Rightarrow> not_yet ''inventory OsInfo not yet populated'' (snd r)
      | Inr (Some i) \<Rightarrow>
          (case av_hostname i of
             None \<Rightarrow> not_yet ''inventory OsInfo not yet populated'' (snd r)
           | Some h \<Rightarrow>
               if trim_space h = [] then not_yet ''inventory OsInfo not yet populated'' (snd r)
               else reached (''Hostname='' @ h @ '' ShortName='' @ av_short_name i @ '' Items='' @ show_nat (length (av_items i))) (snd r)))"

definition WaitForInventory :: "int \<Rightarrow> string \<Rightarrow> int \<Rightarrow> (api_inventory option api \<times> poll_wake) list \<Rightarrow> poll_end option" where
  "WaitForInventory interval name el reads = PollUntil interval (''inventory on '' @ name) el (map inventory_round reads)"

record resource_compliance =
  rs_id :: string
  rs_state :: string

record policy_compliance =
  ps_id :: string
  ps_state :: string
  ps_reason :: string
  ps_resources :: "resource_compliance list"

definition osPolicyStateCompliant :: string where "osPolicyStateCompliant = ''COMPLIANT''"

fun resources_compliant :: "string \<Rightarrow> resource_compliance list \<Rightarrow> string option" where
  "resources_compliant policy [] = None"
| "resources_compliant policy (r # rs) =
     (if rs_state r \<noteq> osPolicyStateCompliant
      then Some (''os policy '' @ quote policy @ '' resource '' @ quote (rs_id r) @ '' in state '' @ rs_state r)
      else resources_compliant policy rs)"

fun policies_compliant :: "policy_compliance list \<Rightarrow> string option" where
  "policies_compliant [] = None"
| "policies_compliant (c # cs) =
     (if ps_state c \<noteq> osPolicyStateCompliant
      then Some (''os policy '' @ quote (ps_id c) @ '' in state '' @ ps_state c @ '' (reason: '' @ ps_reason c @ '')'')
      else if ps_resources c = [] then Some (''os policy '' @ quote (ps_id c) @ '' resource compliances not yet populated'')
      else (case resources_compliant (ps_id c) (ps_resources c) of Some m \<Rightarrow> Some m | None \<Rightarrow> policies_compliant cs))"

definition isOSPolicyAssignmentReportCompliant :: "policy_compliance list option \<Rightarrow> int \<Rightarrow> string \<times> bool" where
  "isOSPolicyAssignmentReportCompliant rep want =
     (let got = (case rep of None \<Rightarrow> 0 | Some cs \<Rightarrow> length cs) in
      if rep = None \<or> int got \<noteq> want
      then (''waiting for '' @ show_int want @ '' os policy compliances, got '' @ show_nat got, False)
      else (case policies_compliant (the rep) of Some m \<Rightarrow> (m, False) | None \<Rightarrow> (''all os policies COMPLIANT'', True)))"

definition compliance_round :: "int \<Rightarrow> policy_compliance list option api \<times> poll_wake \<Rightarrow> poll_round" where
  "compliance_round want r =
     (case fst r of
        Inl e \<Rightarrow> retry_read ''report not yet available'' ''failed to read os policy assignment report'' e (snd r)
      | Inr rep \<Rightarrow>
          (case isOSPolicyAssignmentReportCompliant rep want of
             (m, ok) \<Rightarrow> \<lparr>pr_observation = m, pr_done = ok, pr_err = None, pr_wake = snd r\<rparr>))"

definition WaitForOSPolicyCompliance :: "int \<Rightarrow> string \<Rightarrow> int \<Rightarrow> int \<Rightarrow> (policy_compliance list option api \<times> poll_wake) list \<Rightarrow> poll_end option" where
  "WaitForOSPolicyCompliance interval name want el reads =
     PollUntil interval (''os policy compliance for '' @ name @ '' on '' @ name) el (map (compliance_round want) reads)"

definition show_names :: "string list \<Rightarrow> string" where "show_names ns = ''['' @ join '' '' ns @ '']''"

definition packages_round :: "string list \<Rightarrow> string list \<Rightarrow> api_inventory option api \<times> poll_wake \<Rightarrow> poll_round" where
  "packages_round wantInstalled wantRemoved r =
     (case fst r of
        Inl e \<Rightarrow> retry_read ''inventory not yet published'' ''failed to read inventory'' e (snd r)
      | Inr iv \<Rightarrow>
          let pkgs = ExtractInstalledPackages iv in
          if pkgs = None \<or> AllPackageNames pkgs = [] then not_yet ''installed packages not yet populated in inventory'' (snd r)
          else (case find (\<lambda>p. \<not> HasPackage pkgs p) wantInstalled of
              Some p \<Rightarrow> not_yet (''package '' @ quote p @ '' not yet installed in inventory'') (snd r)
            | None \<Rightarrow>
                (case find (\<lambda>p. HasPackage pkgs p) wantRemoved of
                   Some p \<Rightarrow> not_yet (''package '' @ quote p @ '' still present in inventory'') (snd r)
                 | None \<Rightarrow> reached (''verified packages (installed='' @ show_names wantInstalled @ '', removed='' @ show_names wantRemoved @ '')'') (snd r))))"

definition WaitForPackages :: "int \<Rightarrow> string \<Rightarrow> string list \<Rightarrow> string list \<Rightarrow> int \<Rightarrow> (api_inventory option api \<times> poll_wake) list \<Rightarrow> poll_end option" where
  "WaitForPackages interval name wantInstalled wantRemoved el reads =
     PollUntil interval (''inventory packages on '' @ name) el (map (packages_round wantInstalled wantRemoved) reads)"

text \<open>Without an inventory the observation reads the items of a nil pointer.\<close>

definition package_in_manager_round :: "string \<Rightarrow> string \<Rightarrow> api_inventory option api \<times> poll_wake \<Rightarrow> poll_round outcome" where
  "package_in_manager_round manager pkgName r =
     (case fst r of
        Inl e \<Rightarrow> Done (retry_read ''inventory not yet published'' ''failed to read inventory'' e (snd r))
      | Inr None \<Rightarrow> Panic ''nil pointer dereference''
      | Inr (Some i) \<Rightarrow>
          if \<not> HasPackageIn (ExtractInstalledPackages (Some i)) manager pkgName
          then Done (not_yet (''package '' @ quote pkgName @ '' not yet in '' @ manager @ '' inventory (total items: '' @ show_nat (length (av_items i)) @ '')'') (snd r))
          else Done (reached (''package '' @ quote pkgName @ '' installed under '' @ manager) (snd r)))"

text \<open>The wait sees the rounds up to the first one that panics; if it has not ended by then, it panics too.\<close>

fun calm :: "'a outcome list \<Rightarrow> 'a list" where
  "calm (Done x # rs) = x # calm rs"
| "calm _ = []"

definition WaitForPackageInManager :: "int \<Rightarrow> string \<Rightarrow> string \<Rightarrow> string \<Rightarrow> int \<Rightarrow> (api_inventory option api \<times> poll_wake) list \<Rightarrow> poll_end option outcome" where
  "WaitForPackageInManager interval name manager pkgName el reads =
     (let rs = map (package_in_manager_round manager pkgName) reads;
          r = PollUntil interval (''package '' @ quote pkgName @ '' installed on '' @ name) el (calm rs)
      in if r = None \<and> length (calm rs) < length rs then Panic ''nil pointer dereference'' else Done r)"

definition PatchJobStateSucceeded :: string where "PatchJobStateSucceeded = ''SUCCEEDED''"
definition PatchJobStateCompletedWithErrors :: string where "PatchJobStateCompletedWithErrors = ''COMPLETED_WITH_ERRORS''"
definition PatchJobStateTimedOut :: string where "PatchJobStateTimedOut = ''TIMED_OUT''"
definition PatchJobStateCanceled :: string where "PatchJobStateCanceled = ''CANCELED''"

definition isPatchJobFailureState :: "string \<Rightarrow> bool" where
  "isPatchJobFailureState s \<longleftrightarrow> s = PatchJobStateCompletedWithErrors \<or> s = PatchJobStateTimedOut \<or> s = PatchJobStateCanceled"

record patch_job =
  pj_state :: string
  pj_error :: string
  pj_percent :: string
  pj_summary :: "(int \<times> int) option"

definition extractPatchJobFailureDetails :: "(string \<times> string \<times> string) list api \<Rightarrow> string list" where
  "extractPatchJobFailureDetails details =
     (case details of
        Inl e \<Rightarrow> [''failed to list instance details: '' @ api_text e]
      | Inr ds \<Rightarrow> map (\<lambda>(name, state, reason). name @ '': state='' @ state @ '' failure='' @ quote reason) ds)"

definition patch_job_round :: "string \<Rightarrow> (string \<times> string \<times> string) list api \<Rightarrow> ((int \<times> int) option \<Rightarrow> string) \<Rightarrow> patch_job api \<times> poll_wake \<Rightarrow> poll_round" where
  "patch_job_round jobName details show_summary r =
     (case fst r of
        Inl e \<Rightarrow>
          if IsTransientComputeError e then not_yet (''transient error fetching patch job ('' @ api_text e @ '')'') (snd r) else broken (as_go e) (snd r)
      | Inr job \<Rightarrow>
          if isPatchJobFailureState (pj_state job)
          then broken (ErrMsg (''patch job '' @ jobName @ '' failed with state '' @ pj_state job @ '' (error: '' @ quote (pj_error job)
                 @ '', instance details: ['' @ join ''; '' (extractPatchJobFailureDetails details) @ ''])'')) (snd r)
          else if pj_state job = PatchJobStateSucceeded
          then (case pj_summary job of
              Some (ok, reboot) \<Rightarrow>
                if ok < 1 \<and> reboot < 1
                then broken (ErrMsg (''patch job '' @ jobName @ '' completed with no instances patched (summary: '' @ show_summary (pj_summary job) @ '')'')) (snd r)
                else reached (''state='' @ pj_state job @ '' succeeded='' @ show_int ok @ '' rebootRequired='' @ show_int reboot) (snd r)
            | None \<Rightarrow> broken (ErrMsg (''patch job '' @ jobName @ '' completed with no instances patched (summary: '' @ show_summary None @ '')'')) (snd r))
          else not_yet (''state='' @ pj_state job @ '' percentComplete='' @ pj_percent job @ [CHR ''%'']) (snd r))"

definition WaitForPatchJob :: "int \<Rightarrow> string \<Rightarrow> (string \<times> string \<times> string) list api \<Rightarrow> ((int \<times> int) option \<Rightarrow> string) \<Rightarrow> int \<Rightarrow> (patch_job api \<times> poll_wake) list
    \<Rightarrow> poll_end option" where
  "WaitForPatchJob interval jobName details show_summary el reads =
     PollUntil interval (''patch job '' @ jobName) el (map (patch_job_round jobName details show_summary) reads)"

section \<open>What a test has waited for\<close>

lemma retry_read_goes_on [simp]: "\<not> pr_done (retry_read w f e wake)"
  by (simp add: retry_read_def round_kinds)

lemma resources_compliant_iff: "resources_compliant p rs = None \<longleftrightarrow> (\<forall>r \<in> set rs. rs_state r = osPolicyStateCompliant)"
  by (induction rs) auto

lemma policies_compliant_iff:
  "policies_compliant cs = None \<longleftrightarrow>
     (\<forall>c \<in> set cs. ps_state c = osPolicyStateCompliant \<and> ps_resources c \<noteq> [] \<and> (\<forall>r \<in> set (ps_resources c). rs_state r = osPolicyStateCompliant))"
proof (induction cs)
  case (Cons c cs)
  then show ?case
    using resources_compliant_iff [of "ps_id c" "ps_resources c"] by (cases "resources_compliant (ps_id c) (ps_resources c)") auto
qed simp

text \<open>A report counts as compliant exactly if it has as many policies as wanted and all of them, with at least one resource each and all
  of their resources, are compliant.\<close>

lemma report_compliant_iff:
  "snd (isOSPolicyAssignmentReportCompliant rep want) \<longleftrightarrow>
     (\<exists>cs. rep = Some cs \<and> int (length cs) = want \<and>
       (\<forall>c \<in> set cs. ps_state c = osPolicyStateCompliant \<and> ps_resources c \<noteq> [] \<and> (\<forall>r \<in> set (ps_resources c). rs_state r = osPolicyStateCompliant)))"
proof (cases rep)
  case (Some cs)
  then show ?thesis using policies_compliant_iff [of cs]
    by (cases "policies_compliant cs"; cases "int (length cs) = want") (simp_all add: isOSPolicyAssignmentReportCompliant_def Let_def)
qed (simp add: isOSPolicyAssignmentReportCompliant_def)

text \<open>Whatever was waited for with success held in an answer of the API.\<close>

lemma waited_for:
  assumes "PollUntil interval d el (map f reads) = Some PollDone" "0 < interval"
  shows "\<exists>r \<in> set reads. pr_done (f r) \<and> pr_err (f r) = None"
proof -
  obtain b r a where "map f reads = b @ r # a" "pr_err r = None" "pr_done r" using PollUntil_end [OF assms] by auto
  then show ?thesis by (auto simp: map_eq_append_conv map_eq_Cons_conv)
qed

lemma WaitForPackages_ok:
  assumes "WaitForPackages interval name ins rem el reads = Some PollDone" "0 < interval"
  shows "\<exists>i w. (Inr (Some i), w) \<in> set reads \<and> (\<forall>p \<in> set ins. HasPackage (ExtractInstalledPackages (Some i)) p) \<and>
    (\<forall>p \<in> set rem. \<not> HasPackage (ExtractInstalledPackages (Some i)) p)"
proof -
  obtain r where r: "r \<in> set reads" "pr_done (packages_round ins rem r)"
    using waited_for [OF assms(1) [unfolded WaitForPackages_def] assms(2)] by blast
  then obtain iv where iv: "fst r = Inr iv" by (cases "fst r") (auto simp: packages_round_def)
  then obtain i where i: "iv = Some i" using r(2) by (cases iv) (auto simp: packages_round_def ExtractInstalledPackages_def round_kinds)
  have "find (\<lambda>p. \<not> HasPackage (ExtractInstalledPackages (Some i)) p) ins = None"
    "find (\<lambda>p. HasPackage (ExtractInstalledPackages (Some i)) p) rem = None"
    using r(2) by (auto simp: packages_round_def iv i Let_def round_kinds split: if_splits option.splits)
  moreover have "r = (Inr (Some i), snd r)" using iv i by (metis prod.collapse)
  ultimately show ?thesis using r(1) by (metis find_None_iff)
qed

lemma WaitForPatchJob_ok:
  assumes "WaitForPatchJob interval name details sh el reads = Some PollDone" "0 < interval"
  shows "\<exists>job w ok reboot. (Inr job, w) \<in> set reads \<and> pj_state job = PatchJobStateSucceeded \<and> pj_summary job = Some (ok, reboot) \<and> (1 \<le> ok \<or> 1 \<le> reboot)"
proof -
  obtain r where r: "r \<in> set reads" "pr_done (patch_job_round name details sh r)"
    using waited_for [OF assms(1) [unfolded WaitForPatchJob_def] assms(2)] by blast
  obtain job where job: "fst r = Inr job" using r(2) by (cases "fst r") (auto simp: patch_job_round_def round_kinds split: if_splits)
  have "pj_state job = PatchJobStateSucceeded \<and> (\<exists>ok reboot. pj_summary job = Some (ok, reboot) \<and> (1 \<le> ok \<or> 1 \<le> reboot))"
    using r(2) by (auto simp: patch_job_round_def job round_kinds not_less split: if_splits option.splits)
  moreover have "r = (Inr job, snd r)" using job by (metis prod.collapse)
  ultimately show ?thesis using r(1) by metis
qed

section \<open>The suite\<close>

record 'f suite =
  su_config :: test_config
  su_scheduler :: scheduler
  su_reporter :: "'f reporter"
  su_run_id :: string

record 'f suite_globals =
  sg_suite :: "'f suite option"
  sg_init_err :: "go_error option"

text \<open>\<open>Init\<close> keeps its error: every later test fails on it. The error of making the cloud client is an argument.\<close>

definition Init_suite :: "go_error option \<Rightarrow> string \<Rightarrow> test_config \<Rightarrow> 'f suite_globals \<Rightarrow> go_error option \<times> 'f suite_globals" where
  "Init_suite client_err run_id cfg g =
     (case client_err of
        Some e \<Rightarrow> (Some e, g\<lparr>sg_init_err := Some e\<rparr>)
      | None \<Rightarrow>
          (case new_scheduler (tg_max_vms cfg) of
             Inl e \<Rightarrow> (Some e, g\<lparr>sg_init_err := Some e\<rparr>)
           | Inr sd \<Rightarrow> (None, g\<lparr>sg_suite := Some \<lparr>su_config = cfg, su_scheduler = sd, su_reporter = [], su_run_id = run_id\<rparr>\<rparr>)))"

definition Close_suite :: "(string \<Rightarrow> 'f reporter \<Rightarrow> go_error option) \<Rightarrow> 'f suite_globals \<Rightarrow> go_error option" where
  "Close_suite write_to_file g =
     (case sg_suite g of
        None \<Rightarrow> None
      | Some su \<Rightarrow> if tg_artifact_file (su_config su) = [] then None else write_to_file (tg_artifact_file (su_config su)) (su_reporter su))"

text \<open>Settings that were loaded always give a scheduler.\<close>

lemma Init_loaded:
  assumes "load_config sdn flags = Inr cfg"
  shows "\<exists>su. Init_suite None run_id cfg g = (None, g\<lparr>sg_suite := Some su\<rparr>) \<and> int (sd_capacity (su_scheduler su)) = tg_max_vms cfg"
  using load_config_sound(8) [OF assms]
  by (intro exI [of _ "\<lparr>su_config = cfg, su_scheduler = \<lparr>sd_capacity = nat (tg_max_vms cfg), sd_tokens = nat (tg_max_vms cfg), sd_leases = []\<rparr>,
        su_reporter = [], su_run_id = run_id\<rparr>"])
    (simp add: Init_suite_def new_scheduler_def)

section \<open>One test\<close>

datatype clean_up =
    CleanLease | CleanContext | CleanRecord
  | CleanMachine string string string
  | CleanAssignment string
  | CleanPolicy string

record test_env =
  tv_name :: string
  tv_attempt :: string
  tv_project :: string
  tv_zone :: string
  tv_run_id :: string
  tv_failures :: "string list"
  tv_cleanups :: "clean_up list"

datatype 'a test_result = Fatal string | Begun 'a

definition New_test :: "(unit \<Rightarrow> 'f suite res) \<Rightarrow> 'f suite_globals \<Rightarrow> go_error option \<Rightarrow> int \<Rightarrow> string \<Rightarrow> string \<Rightarrow> ('f suite \<times> test_env \<times> int) test_result" where
  "New_test init g acquire timeout name uuid =
     (case sg_init_err g of
        Some e \<Rightarrow> Fatal (''test initialization failed: '' @ err_text e)
      | None \<Rightarrow>
          (case (case sg_suite g of Some su \<Rightarrow> Inr su | None \<Rightarrow> init ()) of
             Inl e \<Rightarrow> Fatal (''init test: '' @ err_text e)
           | Inr su \<Rightarrow>
               (case acquire of
                  Some e \<Rightarrow> Fatal (''acquire capacity lease: '' @ err_text (acquire_error e))
                | None \<Rightarrow>
                    Begun (su,
                      \<lparr>tv_name = name, tv_attempt = take 8 uuid, tv_project = tg_project (su_config su), tv_zone = tg_zone (su_config su),
                       tv_run_id = su_run_id su, tv_failures = [], tv_cleanups = [CleanLease, CleanContext, CleanRecord]\<rparr>,
                      if 0 < timeout then timeout else tg_test_timeout (su_config su)))))"

text \<open>How a step ends: well, with an error, or with a panic, whose text carries the stack.\<close>

datatype step_end = StepOk | StepErr go_error | StepPanic string

definition Step_test :: "string \<Rightarrow> string \<Rightarrow> step_end \<Rightarrow> test_env \<Rightarrow> string option \<times> test_env" where
  "Step_test name elapsed res t =
     (let fails = (\<lambda>m. (Some m, t\<lparr>tv_failures := tv_failures t @ [m]\<rparr>)) in
      case res of
        StepOk \<Rightarrow> (None, t)
      | StepErr e \<Rightarrow> fails (''step '' @ quote name @ '' failed after '' @ elapsed @ '': '' @ err_text e)
      | StepPanic p \<Rightarrow> fails (''step '' @ quote name @ '' panicked after '' @ elapsed @ '': '' @ p))"

definition registered :: "clean_up \<Rightarrow> test_env \<Rightarrow> test_env" where
  "registered c t = t\<lparr>tv_cleanups := tv_cleanups t @ [c]\<rparr>"

definition record_failure :: "bool \<Rightarrow> test_env \<Rightarrow> string" where
  "record_failure failed t = (if \<not> failed then [] else if tv_failures t \<noteq> [] then join [CHR 0x0A] (tv_failures t) else ''test failed'')"

definition record_test :: "'f float_env \<Rightarrow> string \<Rightarrow> int \<Rightarrow> bool \<Rightarrow> bool \<Rightarrow> test_env \<Rightarrow> 'f reporter \<Rightarrow> 'f reporter" where
  "record_test fl now duration failed skipped t r =
     Record fl now (hd (split_on CHR ''/'' (tv_name t))) (tv_name t) ''e2etests_test'' duration (record_failure failed t) skipped [] r"

definition base_metadata :: "(string \<times> string) list" where
  "base_metadata = [(''enable-osconfig'', ''true''), (''enable-guest-attributes'', ''true''),
     (''osconfig-disabled-features'', ''tasks,guestpolicies''), (''osconfig-poll-interval'', ''1'')]"

text \<open>The metadata of a machine as a map: what the test gives replaces the start-up script, and both replace the defaults.\<close>

definition vm_metadata :: "string \<Rightarrow> (string \<rightharpoonup> string) \<Rightarrow> (string \<rightharpoonup> string)" where
  "vm_metadata img custom = (map_of base_metadata)(fst (DefaultStartupScript img) \<mapsto> snd (DefaultStartupScript img)) ++ custom"

definition vm_labels :: "test_env \<Rightarrow> string \<Rightarrow> (string \<times> string) list" where
  "vm_labels t name = [(''name'', labelValue name), (''e2e-run'', labelValue (tv_run_id t)), (''e2e-test'', labelValue (tv_name t)),
     (''e2e-attempt'', labelValue (tv_attempt t))]"

text \<open>The clean-up is registered before the machine is asked for; \<open>order\<close> is the order in which Go goes through the metadata.\<close>

definition CreateVM_test :: "((string \<rightharpoonup> string) \<Rightarrow> (string \<times> string) list) \<Rightarrow> (vm_request \<Rightarrow> 'r) \<Rightarrow> test_config \<Rightarrow> string \<Rightarrow> string
    \<Rightarrow> (string \<rightharpoonup> string) \<Rightarrow> test_env \<Rightarrow> 'r \<times> test_env" where
  "CreateVM_test order create cfg img machineType custom t =
     (let name = resourceName (tv_run_id t) (tv_name t) (tv_attempt t);
          q = \<lparr>vq_project = tv_project t, vq_zone = tv_zone t, vq_name = name, vq_image = img,
               vq_machine_type = (if machineType = [] then ''e2-standard-2'' else machineType), vq_network = tg_network cfg,
               vq_subnetwork = tg_subnetwork cfg, vq_service_account = tg_service_account cfg,
               vq_metadata = order (vm_metadata img custom), vq_labels = vm_labels t name\<rparr>
      in (create q, registered (CleanMachine (tv_project t) (tv_zone t) name) t))"

definition CreateOSPolicyAssignment_test :: "(string \<Rightarrow> 'r) \<Rightarrow> vm \<Rightarrow> test_env \<Rightarrow> 'r \<times> test_env" where
  "CreateOSPolicyAssignment_test create v t =
     (create (vm_name v),
      registered (CleanAssignment (''projects/'' @ tv_project t @ ''/locations/'' @ tv_zone t @ ''/osPolicyAssignments/'' @ vm_name v)) t)"

definition CreateGuestPolicy_test :: "(string \<Rightarrow> 'r) \<Rightarrow> vm \<Rightarrow> test_env \<Rightarrow> 'r \<times> test_env" where
  "CreateGuestPolicy_test create v t =
     (create (vm_name v), registered (CleanPolicy (''projects/'' @ tv_project t @ ''/guestPolicies/'' @ vm_name v)) t)"

definition clean_up_order :: "test_env \<Rightarrow> clean_up list" where "clean_up_order t = rev (tv_cleanups t)"

text \<open>Where a machine's serial log goes; an empty log is not written.\<close>

definition serial_log :: "string \<Rightarrow> string \<Rightarrow> string api \<Rightarrow> (string \<times> string) option" where
  "serial_log artifactFile name serial =
     (case serial of
        Inl e \<Rightarrow> None
      | Inr s \<Rightarrow>
          let artDir = path_dir artifactFile in
          if s = [] then None
          else if artDir \<noteq> [] \<and> artDir \<noteq> ''.'' then Some (path_join [artDir, name @ ''-serial.log''], s)
          else Some (name @ ''-serial.log'', s))"

definition ExecutePatchJob_test :: "(string \<Rightarrow> 'j api) \<Rightarrow> test_env \<Rightarrow> 'j api" where
  "ExecutePatchJob_test call t = ExecutePatchJob call (tv_project t)"

inductive test_step :: "test_env \<Rightarrow> test_env \<Rightarrow> bool" where
  stepped: "test_step t (snd (Step_test name elapsed res t))"
| machine: "test_step t (snd (CreateVM_test order (create :: vm_request \<Rightarrow> unit) cfg img mt custom t))"
| assignment: "test_step t (snd (CreateOSPolicyAssignment_test (create :: string \<Rightarrow> unit) v t))"
| policy: "test_step t (snd (CreateGuestPolicy_test (create :: string \<Rightarrow> unit) v t))"

text \<open>In every course of a test the lease is the last thing that is given back: after the result is recorded and after everything that the
  test made, or tried to make, was deleted. So the leases bound the machines that exist, not only the tests that run.\<close>

lemma test_step_cleanups: "test_step t t' \<Longrightarrow> \<exists>cs. tv_cleanups t' = tv_cleanups t @ cs \<and> (\<forall>c \<in> set cs. c \<notin> {CleanLease, CleanContext, CleanRecord})"
  by (induction rule: test_step.induct)
    (auto simp: Step_test_def Let_def CreateVM_test_def CreateOSPolicyAssignment_test_def CreateGuestPolicy_test_def registered_def
      split: step_end.splits)

lemma lease_given_back_last:
  assumes "New_test init g acq timeout name uuid = Begun (su, t0, d)" "test_step\<^sup>*\<^sup>* t0 t"
  shows "\<exists>made. clean_up_order t = made @ [CleanRecord, CleanContext, CleanLease] \<and> (\<forall>c \<in> set made. c \<notin> {CleanLease, CleanContext, CleanRecord})"
proof -
  have t0: "tv_cleanups t0 = [CleanLease, CleanContext, CleanRecord]"
    using assms(1) by (auto simp: New_test_def split: option.splits sum.splits)
  have "\<exists>cs. tv_cleanups t = tv_cleanups t0 @ cs \<and> (\<forall>c \<in> set cs. c \<notin> {CleanLease, CleanContext, CleanRecord})"
    using assms(2)
  proof (induction rule: rtranclp_induct)
    case (step y z)
    then obtain cs where "tv_cleanups y = tv_cleanups t0 @ cs" "\<forall>c \<in> set cs. c \<notin> {CleanLease, CleanContext, CleanRecord}" by blast
    moreover obtain ds where "tv_cleanups z = tv_cleanups y @ ds" "\<forall>c \<in> set ds. c \<notin> {CleanLease, CleanContext, CleanRecord}"
      using test_step_cleanups [OF step.hyps(2)] by blast
    ultimately have "tv_cleanups z = tv_cleanups t0 @ (cs @ ds)" "\<forall>c \<in> set (cs @ ds). c \<notin> {CleanLease, CleanContext, CleanRecord}" by auto
    then show ?case by blast
  qed simp
  then obtain cs where "tv_cleanups t = tv_cleanups t0 @ cs" "\<forall>c \<in> set cs. c \<notin> {CleanLease, CleanContext, CleanRecord}" by blast
  then show ?thesis by (intro exI [of _ "rev cs"]) (simp add: clean_up_order_def t0)
qed

text \<open>A failed step is part of the recorded failure.\<close>

lemma failed_step_recorded:
  "fst (Step_test name elapsed res t) = Some m \<Longrightarrow> m \<in> set (tv_failures (snd (Step_test name elapsed res t)))"
  by (auto simp: Step_test_def Let_def split: step_end.splits)

end
